(* ===== verification/Prelude.thy ===== *)
theory Prelude
  imports Main "HOL-Library.Word"
begin

section \<open>Shared vocabulary of the development\<close>

text \<open>
  Types, generic operations and lemmas used by every component theory:
  \<^item> the machine types of the Rust sources (\<open>u8\<close>, \<open>u16\<close>, \<open>u32\<close>, \<open>u64\<close>) as words of their width, \<open>usize\<close>
    as a natural number bounded by \<open>usize_max\<close>, byte vectors as lists of \<open>u8\<close>;
  \<^item> the standard-library operations the sources call on them: \<open>checked_add\<close>, \<open>saturating_add\<close>,
    \<open>saturating_sub\<close>, \<open>to_be_bytes\<close> / \<open>from_be_bytes\<close>, \<open>to_le_bytes\<close> / \<open>from_le_bytes\<close>, slices and
    \<open>copy_from_slice\<close>;
  \<^item> the lemmas on them that the component proofs use, collected under \<open>bytes_simps\<close>.
\<close>

unbundle bit_operations_syntax

subsection \<open>Machine types\<close>

type_synonym u8 = "8 word"
type_synonym u16 = "16 word"
type_synonym u32 = "32 word"
type_synonym u64 = "64 word"
type_synonym usize = nat
type_synonym bytes = "u8 list"

text \<open>A Rust \<open>Result<T, E>\<close> is a sum with the error on the left.\<close>

type_synonym ('e, 'a) result = "'e + 'a"

text \<open>The smallest \<open>usize\<close> among the supported targets (32-bit microcontrollers).\<close>

definition usize_max :: nat where
  "usize_max = 2 ^ 32 - 1"

definition checked_add_usize :: "usize \<Rightarrow> usize \<Rightarrow> usize option" where
  "checked_add_usize a b = (if a + b \<le> usize_max then Some (a + b) else None)"

definition checked_mul_usize :: "usize \<Rightarrow> usize \<Rightarrow> usize option" where
  "checked_mul_usize a b = (if a * b \<le> usize_max then Some (a * b) else None)"

definition saturating_add_usize :: "usize \<Rightarrow> usize \<Rightarrow> usize" where
  "saturating_add_usize a b = min (a + b) usize_max"

definition saturating_sub_word :: "'a::len word \<Rightarrow> 'a word \<Rightarrow> 'a word" where
  "saturating_sub_word a b = (if a < b then 0 else a - b)"

definition saturating_add_word :: "'a::len word \<Rightarrow> 'a word \<Rightarrow> 'a word" where
  "saturating_add_word a b = (if unat a + unat b < 2 ^ LENGTH('a) then a + b else - 1)"

definition checked_add_word :: "'a::len word \<Rightarrow> 'a word \<Rightarrow> 'a word option" where
  "checked_add_word a b = (if unat a + unat b < 2 ^ LENGTH('a) then Some (a + b) else None)"

subsection \<open>Byte order\<close>

text \<open>
  \<open>to_le_bytes k w\<close> is the little-endian encoding of \<open>w\<close> in \<open>k\<close> bytes, \<open>from_le_bytes\<close> its inverse; the
  big-endian functions reverse the list.
\<close>

definition to_le_bytes :: "nat \<Rightarrow> 'a::len word \<Rightarrow> bytes" where
  "to_le_bytes k w = map (\<lambda>i. ucast (drop_bit (8 * i) w)) [0..<k]"

fun from_le_bytes :: "bytes \<Rightarrow> 'a::len word" where
  "from_le_bytes [] = 0"
| "from_le_bytes (b # bs) = ucast b OR push_bit 8 (from_le_bytes bs)"

definition to_be_bytes :: "nat \<Rightarrow> 'a::len word \<Rightarrow> bytes" where
  "to_be_bytes k w = rev (to_le_bytes k w)"

definition from_be_bytes :: "bytes \<Rightarrow> 'a::len word" where
  "from_be_bytes bs = from_le_bytes (rev bs)"

subsection \<open>Slices\<close>

text \<open>\<open>slice_of a b xs\<close> is \<open>xs[a..b]\<close> for \<open>a \<le> b \<le> len\<close>; callers establish the bounds Rust would check.\<close>

definition slice_of :: "nat \<Rightarrow> nat \<Rightarrow> 'a list \<Rightarrow> 'a list" where
  "slice_of a b xs = take (b - a) (drop a xs)"

text \<open>\<open>copy_into xs a ys\<close> is \<open>xs[a..a + len ys].copy_from_slice(ys)\<close>.\<close>

definition copy_into :: "'a list \<Rightarrow> nat \<Rightarrow> 'a list \<Rightarrow> 'a list" where
  "copy_into xs a ys = take a xs @ ys @ drop (a + length ys) xs"

text \<open>\<open>resize n x xs\<close> is \<open>Vec::resize\<close>.\<close>

definition resize :: "nat \<Rightarrow> 'a \<Rightarrow> 'a list \<Rightarrow> 'a list" where
  "resize n x xs = take n xs @ replicate (n - length xs) x"

subsection \<open>Lemma collections\<close>

named_theorems bytes_simps "lengths and contents of byte-level operations"

subsubsection \<open>Lengths\<close>

lemma length_to_le_bytes [simp, bytes_simps]: "length (to_le_bytes k w) = k"
  by (simp add: to_le_bytes_def)

lemma length_to_be_bytes [simp, bytes_simps]: "length (to_be_bytes k w) = k"
  by (simp add: to_be_bytes_def)

lemma length_slice_of [simp, bytes_simps]: "length (slice_of a b xs) = min (b - a) (length xs - a)"
  by (simp add: slice_of_def)

lemma length_copy_into [bytes_simps]:
  "a + length ys \<le> length xs \<Longrightarrow> length (copy_into xs a ys) = length xs"
  by (simp add: copy_into_def)

lemma length_resize [simp, bytes_simps]: "length (resize n x xs) = n"
  by (simp add: resize_def)

subsubsection \<open>Slices\<close>

lemma slice_all [simp]: "length xs \<le> n \<Longrightarrow> slice_of 0 n xs = xs"
  by (simp add: slice_of_def)

lemma slice_empty [simp]: "slice_of a a xs = []"
  by (simp add: slice_of_def)

lemma take_slice: "a \<le> b \<Longrightarrow> take a xs @ slice_of a b xs = take b xs"
  by (simp add: slice_of_def flip: take_add)

lemma slice_append_drop: "a \<le> b \<Longrightarrow> slice_of a b xs @ drop b xs = drop a xs"
  by (metis append_take_drop_id drop_drop le_add_diff_inverse2 slice_of_def)

lemma slice_copy_into:
  assumes "a + length ys \<le> length xs"
  shows "slice_of a (a + length ys) (copy_into xs a ys) = ys"
  using assms by (simp add: slice_of_def copy_into_def)

lemma nth_copy_into:
  assumes "a + length ys \<le> length xs" "i < length xs"
  shows "copy_into xs a ys ! i = (if a \<le> i \<and> i < a + length ys then ys ! (i - a) else xs ! i)"
  using assms by (auto simp: copy_into_def nth_append not_le not_less min_def)

lemma take_copy_into: "n \<le> a \<Longrightarrow> a \<le> length xs \<Longrightarrow> take n (copy_into xs a ys) = take n xs"
  by (simp add: copy_into_def min_def)

subsubsection \<open>Byte order round trips\<close>

lemma bit_from_le_bytes:
  "bit (from_le_bytes bs :: 'a::len word) n \<longleftrightarrow>
     n < LENGTH('a) \<and> n div 8 < length bs \<and> bit (bs ! (n div 8)) (n mod 8)"
proof (induction bs arbitrary: n)
  case Nil
  then show ?case by simp
next
  case (Cons b bs)
  show ?case
  proof (cases "n < 8")
    case True
    then show ?thesis
      by (auto simp: bit_or_iff bit_push_bit_iff bit_ucast_iff bit_imp_le_length)
  next
    case False
    then have n: "n div 8 = Suc ((n - 8) div 8)" "n mod 8 = (n - 8) mod 8"
      by (simp_all add: le_div_geq le_mod_geq)
    from False have "\<not> bit b n"
      using bit_imp_le_length [of b n] by auto
    then show ?thesis
      using False by (auto simp: bit_or_iff bit_push_bit_iff bit_ucast_iff Cons.IH n)
  qed
qed

lemma from_le_bytes_to_le_bytes [simp]:
  assumes "LENGTH('a) = 8 * k"
  shows "from_le_bytes (to_le_bytes k w) = (w :: 'a::len word)"
proof (rule bit_word_eqI)
  fix n assume n: "n < LENGTH('a)"
  then have "n div 8 < k" using assms by (simp add: less_mult_imp_div_less mult.commute)
  then show "bit (from_le_bytes (to_le_bytes k w) :: 'a word) n = bit w n"
    using n by (simp add: bit_from_le_bytes to_le_bytes_def bit_ucast_iff bit_drop_bit_eq)
qed

lemma to_le_bytes_from_le_bytes:
  assumes "LENGTH('a) = 8 * length bs"
  shows "to_le_bytes (length bs) (from_le_bytes bs :: 'a::len word) = bs"
proof (rule nth_equalityI)
  show "length (to_le_bytes (length bs) (from_le_bytes bs :: 'a word)) = length bs" by simp
next
  fix i assume "i < length (to_le_bytes (length bs) (from_le_bytes bs :: 'a word))"
  then have i: "i < length bs" by simp
  show "to_le_bytes (length bs) (from_le_bytes bs :: 'a word) ! i = bs ! i"
  proof (rule bit_word_eqI)
    fix n assume n: "n < LENGTH(8)"
    then have "8 * i + n < 8 * length bs" using i by simp
    then show "bit (to_le_bytes (length bs) (from_le_bytes bs :: 'a word) ! i) n = bit (bs ! i) n"
      using i n assms
      by (simp add: to_le_bytes_def bit_ucast_iff bit_drop_bit_eq bit_from_le_bytes)
  qed
qed

lemma from_be_bytes_to_be_bytes [simp]:
  "LENGTH('a) = 8 * k \<Longrightarrow> from_be_bytes (to_be_bytes k w) = (w :: 'a::len word)"
  by (simp add: from_be_bytes_def to_be_bytes_def)

lemma to_be_bytes_from_be_bytes:
  "LENGTH('a) = 8 * length bs \<Longrightarrow> to_be_bytes (length bs) (from_be_bytes bs :: 'a::len word) = bs"
  using to_le_bytes_from_le_bytes [where 'a = 'a, of "rev bs"]
  by (simp add: from_be_bytes_def to_be_bytes_def)

subsubsection \<open>Checked and saturating arithmetic\<close>

lemma checked_add_usize_Some:
  "checked_add_usize a b = Some c \<longleftrightarrow> c = a + b \<and> a + b \<le> usize_max"
  by (auto simp: checked_add_usize_def)

lemma unat_saturating_sub_word: "unat (saturating_sub_word a b) = unat a - unat b"
  by (simp add: saturating_sub_word_def word_less_nat_alt unat_sub_if')

lemma checked_add_word_Some:
  "checked_add_word a b = Some c \<Longrightarrow> unat c = unat a + unat b"
  by (auto simp: checked_add_word_def unat_word_ariths split: if_splits)

text \<open>Executable forms of the checked and the saturating addition: the sum is smaller than a summand exactly if it wrapped.\<close>

lemma checked_add_word_code [code]: "checked_add_word x y = (let z = x + y in if z < x then None else Some z)"
  by (auto simp: checked_add_word_def Let_def no_olen_add_nat not_less simp flip: word_le_nat_alt)

lemma saturating_add_word_code [code]: "saturating_add_word x y = (let z = x + y in if z < x then - 1 else z)"
  using no_olen_add_nat [of x y] by (auto simp: saturating_add_word_def Let_def)

end
