(* ===== verification/Framing.thy ===== *)
theory Framing
  imports Prelude
begin

section \<open>Message framing as an interface\<close>

text \<open>
  The transports split a message into fixed-size frames and feed received frames to a receiver that
  either waits for more, delivers a message or reports an error. This theory states that contract once:
  \<open>feed_all\<close> runs a receiver over a list of frames, \<open>delivered\<close> and \<open>frame_errors\<close> read its answers, and the
  locale \<open>framing_codec\<close> is the law a sender and a receiver promise together. The consequences proved in
  the locale (messages sent back to back arrive once each and in order, whatever partial message the
  receiver held before) are used for CTAPHID and for the BLE transport.
\<close>

fun feed_all :: "('s \<Rightarrow> 'f \<Rightarrow> 's \<times> ('e, 'm option) result) \<Rightarrow> 's \<Rightarrow> 'f list \<Rightarrow> 's \<times> ('e, 'm option) result list" where
  "feed_all feed s [] = (s, [])"
| "feed_all feed s (f # fs) =
     (let (s1, r) = feed s f; (s2, rs) = feed_all feed s1 fs in (s2, r # rs))"

fun delivered :: "('e, 'm option) result list \<Rightarrow> 'm list" where
  "delivered [] = []"
| "delivered (Inr (Some m) # rs) = m # delivered rs"
| "delivered (Inr None # rs) = delivered rs"
| "delivered (Inl e # rs) = delivered rs"

fun frame_errors :: "('e, 'm option) result list \<Rightarrow> 'e list" where
  "frame_errors [] = []"
| "frame_errors (Inl e # rs) = e # frame_errors rs"
| "frame_errors (Inr x # rs) = frame_errors rs"

lemma length_feed_all: "length (snd (feed_all feed s fs)) = length fs"
  by (induction fs arbitrary: s) (simp_all add: split_beta Let_def)

lemma feed_all_append:
  "feed_all feed s (fs @ gs) =
     (let (s1, rs) = feed_all feed s fs; (s2, qs) = feed_all feed s1 gs in (s2, rs @ qs))"
  by (induction fs arbitrary: s) (auto simp: Let_def split: prod.splits)

lemma delivered_append [simp]: "delivered (rs @ qs) = delivered rs @ delivered qs"
  by (induction rs rule: delivered.induct) auto

lemma frame_errors_append [simp]: "frame_errors (rs @ qs) = frame_errors rs @ frame_errors qs"
  by (induction rs rule: frame_errors.induct) auto

lemma delivered_waiting [simp]: "delivered (replicate n (Inr None)) = []"
  by (induction n) auto

lemma frame_errors_waiting [simp]: "frame_errors (replicate n (Inr x)) = []"
  by (induction n) auto

lemma feed_all_step:
  assumes "feed s f = (s1, r)"
  shows "fst (feed_all feed s (f # fs)) = fst (feed_all feed s1 fs)"
    and "delivered (snd (feed_all feed s (f # fs))) = delivered [r] @ delivered (snd (feed_all feed s1 fs))"
    and "frame_errors (snd (feed_all feed s (f # fs))) = frame_errors [r] @ frame_errors (snd (feed_all feed s1 fs))"
proof -
  obtain s2 rs where "feed_all feed s1 fs = (s2, rs)" by force
  with assms delivered_append [of "[r]" rs] frame_errors_append [of "[r]" rs]
  show "fst (feed_all feed s (f # fs)) = fst (feed_all feed s1 fs)"
    and "delivered (snd (feed_all feed s (f # fs))) = delivered [r] @ delivered (snd (feed_all feed s1 fs))"
    and "frame_errors (snd (feed_all feed s (f # fs))) = frame_errors [r] @ frame_errors (snd (feed_all feed s1 fs))"
    by simp_all
qed

locale framing_codec =
  fixes encode :: "'m \<Rightarrow> 'f list"
    and feed :: "'s \<Rightarrow> 'f \<Rightarrow> 's \<times> ('e, 'm option) result"
    and valid :: "'m \<Rightarrow> bool"
    and ready :: "'s \<Rightarrow> bool"
    and idle :: "'s \<Rightarrow> bool"
  assumes idle_ready: "idle s \<Longrightarrow> ready s"
    and feed_encode:
      "valid m \<Longrightarrow> ready s \<Longrightarrow>
         \<exists>s'. idle s' \<and> feed_all feed s (encode m)
                = (s', replicate (length (encode m) - 1) (Inr None) @ [Inr (Some m)])"
begin

lemma feed_stream:
  assumes "\<forall>m\<in>set ms. valid m" "ready s"
  shows "\<exists>s' rs. feed_all feed s (concat (map encode ms)) = (s', rs) \<and> delivered rs = ms
           \<and> frame_errors rs = [] \<and> (ms \<noteq> [] \<longrightarrow> idle s')"
  using assms
proof (induction ms arbitrary: s)
  case Nil
  then show ?case by simp
next
  case (Cons m ms)
  from Cons.prems feed_encode [of m s] obtain s1 where
    s1: "idle s1" "feed_all feed s (encode m)
           = (s1, replicate (length (encode m) - 1) (Inr None) @ [Inr (Some m)])"
    by auto
  from Cons.IH [of s1] Cons.prems s1(1) idle_ready obtain s2 rs where
    s2: "feed_all feed s1 (concat (map encode ms)) = (s2, rs)" "delivered rs = ms"
        "frame_errors rs = []" "ms \<noteq> [] \<longrightarrow> idle s2" by auto
  show ?case
  proof (cases "ms = []")
    case True
    then show ?thesis using s1 s2 by (simp add: feed_all_append)
  next
    case False
    then show ?thesis using s1 s2 by (simp add: feed_all_append)
  qed
qed

lemma feed_stream_delivered:
  "\<forall>m\<in>set ms. valid m \<Longrightarrow> ready s \<Longrightarrow>
     delivered (snd (feed_all feed s (concat (map encode ms)))) = ms"
  using feed_stream [of ms s] by force

lemma feed_stream_no_errors:
  "\<forall>m\<in>set ms. valid m \<Longrightarrow> ready s \<Longrightarrow>
     frame_errors (snd (feed_all feed s (concat (map encode ms)))) = []"
  using feed_stream [of ms s] by force

end

end
