(* ===== verification/Ctaphid.thy ===== *)
theory Ctaphid
  imports Framing
begin

section \<open>CTAPHID: packets, fragmentation, reassembly and channels\<close>

text \<open>
  Models \<open>openkey-transport/src/ctaphid\<close>: the command and error codes (\<open>types.rs\<close>), the 64-byte INIT and CONT
  packets (\<open>packet.rs\<close>), the fragmenter (\<open>fragmenter.rs\<close>), the assembler as a state machine (\<open>assembler.rs\<close>) and
  the channel manager (\<open>channel.rs\<close>). A packet is a byte list; the arrays of the source have length 64, which
  is a lemma about \<open>to_bytes\<close> and a hypothesis where a received packet is arbitrary.
\<close>

unbundle bit_operations_syntax

subsection \<open>Codes (types.rs)\<close>

definition CTAPHID_PACKET_SIZE :: usize where "CTAPHID_PACKET_SIZE = 64"
definition CTAPHID_BROADCAST_CID :: u32 where "CTAPHID_BROADCAST_CID = 0xFFFFFFFF"
definition CTAPHID_INVALID_CID :: u32 where "CTAPHID_INVALID_CID = 0"
definition CTAPHID_MAX_PAYLOAD_LEN :: usize where "CTAPHID_MAX_PAYLOAD_LEN = 57 + 128 * 59"
definition CTAPHID_INIT_PAYLOAD_SIZE :: usize where "CTAPHID_INIT_PAYLOAD_SIZE = 57"
definition CTAPHID_CONT_PAYLOAD_SIZE :: usize where "CTAPHID_CONT_PAYLOAD_SIZE = 59"

lemmas ctaphid_consts = CTAPHID_PACKET_SIZE_def CTAPHID_MAX_PAYLOAD_LEN_def
  CTAPHID_INIT_PAYLOAD_SIZE_def CTAPHID_CONT_PAYLOAD_SIZE_def

datatype CtaphidCommand = Cmd_Ping | Cmd_Msg | Cmd_Lock | Cmd_Init | Cmd_Wink | Cmd_Cbor | Cmd_Cancel
  | Cmd_Keepalive | Cmd_Error | Cmd_Vendor u8

definition from_raw_cmd :: "u8 \<Rightarrow> CtaphidCommand" where
  "from_raw_cmd cmd =
     (let clean = cmd AND 0x7F in
      if clean = 0x01 then Cmd_Ping
      else if clean = 0x03 then Cmd_Msg
      else if clean = 0x04 then Cmd_Lock
      else if clean = 0x06 then Cmd_Init
      else if clean = 0x08 then Cmd_Wink
      else if clean = 0x10 then Cmd_Cbor
      else if clean = 0x11 then Cmd_Cancel
      else if clean = 0x3B then Cmd_Keepalive
      else if clean = 0x3F then Cmd_Error
      else Cmd_Vendor clean)"

fun raw_code :: "CtaphidCommand \<Rightarrow> u8" where
  "raw_code Cmd_Ping = 0x01"
| "raw_code Cmd_Msg = 0x03"
| "raw_code Cmd_Lock = 0x04"
| "raw_code Cmd_Init = 0x06"
| "raw_code Cmd_Wink = 0x08"
| "raw_code Cmd_Cbor = 0x10"
| "raw_code Cmd_Cancel = 0x11"
| "raw_code Cmd_Keepalive = 0x3B"
| "raw_code Cmd_Error = 0x3F"
| "raw_code (Cmd_Vendor v) = v"

definition to_init_cmd_byte :: "CtaphidCommand \<Rightarrow> u8" where
  "to_init_cmd_byte c = 0x80 OR (raw_code c AND 0x7F)"

datatype CtaphidErrorCode = Hid_InvalidCmd | Hid_InvalidPar | Hid_InvalidLen | Hid_InvalidSeq
  | Hid_MsgTimeout | Hid_ChannelBusy | Hid_LockRequired | Hid_InvalidChannel | Hid_Other

definition error_from_u8 :: "u8 \<Rightarrow> CtaphidErrorCode" where
  "error_from_u8 code =
     (if code = 0x01 then Hid_InvalidCmd
      else if code = 0x02 then Hid_InvalidPar
      else if code = 0x03 then Hid_InvalidLen
      else if code = 0x04 then Hid_InvalidSeq
      else if code = 0x05 then Hid_MsgTimeout
      else if code = 0x06 then Hid_ChannelBusy
      else if code = 0x0A then Hid_LockRequired
      else if code = 0x0B then Hid_InvalidChannel
      else Hid_Other)"

fun error_as_u8 :: "CtaphidErrorCode \<Rightarrow> u8" where
  "error_as_u8 Hid_InvalidCmd = 0x01"
| "error_as_u8 Hid_InvalidPar = 0x02"
| "error_as_u8 Hid_InvalidLen = 0x03"
| "error_as_u8 Hid_InvalidSeq = 0x04"
| "error_as_u8 Hid_MsgTimeout = 0x05"
| "error_as_u8 Hid_ChannelBusy = 0x06"
| "error_as_u8 Hid_LockRequired = 0x0A"
| "error_as_u8 Hid_InvalidChannel = 0x0B"
| "error_as_u8 Hid_Other = 0x7F"

datatype CtaphidKeepaliveStatus = Processing | UpNeeded

definition keepalive_from_u8 :: "u8 \<Rightarrow> CtaphidKeepaliveStatus" where
  "keepalive_from_u8 code = (if code = 0x02 then UpNeeded else Processing)"

fun keepalive_as_u8 :: "CtaphidKeepaliveStatus \<Rightarrow> u8" where
  "keepalive_as_u8 Processing = 0x01"
| "keepalive_as_u8 UpNeeded = 0x02"

record CtaphidMessage =
  msg_cid :: u32
  msg_cmd :: CtaphidCommand
  msg_payload :: bytes

definition message_new :: "u32 \<Rightarrow> CtaphidCommand \<Rightarrow> bytes \<Rightarrow> CtaphidMessage" where
  "message_new cid cmd payload = \<lparr>msg_cid = cid, msg_cmd = cmd, msg_payload = payload\<rparr>"

definition message_error :: "u32 \<Rightarrow> CtaphidErrorCode \<Rightarrow> CtaphidMessage" where
  "message_error cid err = \<lparr>msg_cid = cid, msg_cmd = Cmd_Error, msg_payload = [error_as_u8 err]\<rparr>"

subsection \<open>Packets (packet.rs)\<close>

datatype PacketError = InvalidBufferSize | PayloadLengthTooLarge usize

datatype CtaphidPacket =
    Packet_Init u32 CtaphidCommand u16 bytes
  | Packet_Cont u32 u8 bytes

definition packet_from_bytes :: "bytes \<Rightarrow> (PacketError, CtaphidPacket) result" where
  "packet_from_bytes raw =
     (let cid = from_be_bytes [raw ! 0, raw ! 1, raw ! 2, raw ! 3];
          cmd_or_seq = raw ! 4
      in if cmd_or_seq AND 0x80 \<noteq> 0
         then (let cmd = from_raw_cmd cmd_or_seq;
                   total_len = from_be_bytes [raw ! 5, raw ! 6];
                   init_data_len = min (unat total_len) CTAPHID_INIT_PAYLOAD_SIZE;
                   data = slice_of 7 (7 + init_data_len) raw
               in Inr (Packet_Init cid cmd total_len data))
         else (let seq = cmd_or_seq AND 0x7F;
                   data = slice_of 5 CTAPHID_PACKET_SIZE raw
               in Inr (Packet_Cont cid seq data)))"

fun packet_to_bytes :: "CtaphidPacket \<Rightarrow> bytes" where
  "packet_to_bytes (Packet_Init cid cmd total_len data) =
     (let raw = replicate CTAPHID_PACKET_SIZE 0;
          raw = copy_into raw 0 (to_be_bytes 4 cid);
          raw = raw[4 := to_init_cmd_byte cmd];
          raw = copy_into raw 5 (to_be_bytes 2 total_len);
          copy_len = min (length data) CTAPHID_INIT_PAYLOAD_SIZE
      in copy_into raw 7 (take copy_len data))"
| "packet_to_bytes (Packet_Cont cid seq data) =
     (let raw = replicate CTAPHID_PACKET_SIZE 0;
          raw = copy_into raw 0 (to_be_bytes 4 cid);
          raw = raw[4 := seq AND 0x7F];
          copy_len = min (length data) CTAPHID_CONT_PAYLOAD_SIZE
      in copy_into raw 5 (take copy_len data))"

declare packet_to_bytes.simps [simp del]

fun packet_cid :: "CtaphidPacket \<Rightarrow> u32" where
  "packet_cid (Packet_Init cid cmd total_len data) = cid"
| "packet_cid (Packet_Cont cid seq data) = cid"

subsection \<open>Fragmenter (fragmenter.rs)\<close>

datatype FragmenterError = PayloadTooLarge usize

text \<open>The \<open>while offset < total_len\<close> loop, returning the packets it pushes.\<close>

function fragment_cont :: "u32 \<Rightarrow> bytes \<Rightarrow> usize \<Rightarrow> u8 \<Rightarrow> bytes list" where
  "fragment_cont cid payload offset seq =
     (let total_len = length payload in
      if offset < total_len then
        (let remaining = total_len - offset;
             chunk_len = min remaining CTAPHID_CONT_PAYLOAD_SIZE;
             cont_data = slice_of offset (offset + chunk_len) payload
         in packet_to_bytes (Packet_Cont cid seq cont_data)
              # fragment_cont cid payload (offset + chunk_len) (seq + 1))
      else [])"
  by auto
termination
  by (relation "measure (\<lambda>(cid, payload, offset, seq). length payload - offset)")
    (auto simp: CTAPHID_CONT_PAYLOAD_SIZE_def)

declare fragment_cont.simps [simp del]

definition fragment :: "u32 \<Rightarrow> CtaphidCommand \<Rightarrow> bytes \<Rightarrow> (FragmenterError, bytes list) result" where
  "fragment cid cmd payload =
     (let total_len = length payload in
      if total_len > CTAPHID_MAX_PAYLOAD_LEN then Inl (PayloadTooLarge total_len)
      else (let init_chunk_len = min total_len CTAPHID_INIT_PAYLOAD_SIZE;
                init_data = take init_chunk_len payload;
                init_pkt = Packet_Init cid cmd (of_nat total_len) init_data
            in Inr (packet_to_bytes init_pkt # fragment_cont cid payload init_chunk_len 0)))"

subsection \<open>Assembler (assembler.rs)\<close>

record AssemblyState =
  asm_cid :: u32
  asm_cmd :: CtaphidCommand
  asm_total_len :: usize
  asm_buffer :: bytes
  asm_next_seq :: u8

record CtaphidAssembler =
  active_state :: "AssemblyState option"

definition assembler_new :: CtaphidAssembler where
  "assembler_new = \<lparr>active_state = None\<rparr>"

definition assembler_reset :: "CtaphidAssembler \<Rightarrow> CtaphidAssembler" where
  "assembler_reset a = a\<lparr>active_state := None\<rparr>"

definition is_assembling :: "CtaphidAssembler \<Rightarrow> bool" where
  "is_assembling a = (active_state a \<noteq> None)"

definition process_packet ::
  "CtaphidAssembler \<Rightarrow> bytes \<Rightarrow> CtaphidAssembler \<times> (u32 \<times> CtaphidErrorCode, CtaphidMessage option) result" where
  "process_packet a packet_bytes =
     (case packet_from_bytes packet_bytes of
        Inl e \<Rightarrow> (a, Inl (0, Hid_InvalidPar))
      | Inr (Packet_Init cid cmd total_len data) \<Rightarrow>
          (let total_len_usize = unat total_len in
           if total_len_usize > CTAPHID_MAX_PAYLOAD_LEN
           then (a\<lparr>active_state := None\<rparr>, Inl (cid, Hid_InvalidLen))
           else if cmd = Cmd_Cancel
           then (a\<lparr>active_state := None\<rparr>, Inr (Some (message_new cid cmd [])))
           else if total_len_usize \<le> CTAPHID_INIT_PAYLOAD_SIZE
           then (let actual_len = min total_len_usize (length data)
                 in (a\<lparr>active_state := None\<rparr>, Inr (Some (message_new cid cmd (take actual_len data)))))
           else (a\<lparr>active_state := Some \<lparr>asm_cid = cid, asm_cmd = cmd, asm_total_len = total_len_usize,
                                          asm_buffer = data, asm_next_seq = 0\<rparr>\<rparr>, Inr None))
      | Inr (Packet_Cont cid seq data) \<Rightarrow>
          (case active_state a of
             None \<Rightarrow> (a, Inl (cid, Hid_InvalidSeq))
           | Some state \<Rightarrow>
               if asm_cid state \<noteq> cid then (a, Inl (cid, Hid_InvalidChannel))
               else if asm_next_seq state \<noteq> seq
               then (a\<lparr>active_state := None\<rparr>, Inl (cid, Hid_InvalidSeq))
               else (let remaining = asm_total_len state - length (asm_buffer state);
                         chunk_len = min remaining (min (length data) CTAPHID_CONT_PAYLOAD_SIZE);
                         state = state\<lparr>asm_buffer := asm_buffer state @ take chunk_len data,
                                       asm_next_seq := asm_next_seq state + 1\<rparr>
                     in if length (asm_buffer state) \<ge> asm_total_len state
                        then (a\<lparr>active_state := None\<rparr>,
                              Inr (Some (message_new (asm_cid state) (asm_cmd state) (asm_buffer state))))
                        else (a\<lparr>active_state := Some state\<rparr>, Inr None))))"

subsection \<open>Channel manager (channel.rs)\<close>

definition CAPABILITY_WINK :: u8 where "CAPABILITY_WINK = 0x01"
definition CAPABILITY_LOCK :: u8 where "CAPABILITY_LOCK = 0x02"
definition CAPABILITY_CBOR :: u8 where "CAPABILITY_CBOR = 0x04"
definition CAPABILITY_NMSG :: u8 where "CAPABILITY_NMSG = 0x08"

record ChannelManager =
  next_cid :: u32
  active_channels :: "u32 list"

definition channels_new :: ChannelManager where
  "channels_new = \<lparr>next_cid = 0x00010001, active_channels = []\<rparr>"

text \<open>
  The \<open>loop\<close> of \<open>allocate_cid\<close> has no bound of its own: with every identifier taken it would not end. It is
  a partial function whose value \<open>None\<close> means that it does not return; \<open>allocate_cid_returns\<close> below shows
  when it does.
\<close>

partial_function (option) allocate_cid :: "ChannelManager \<Rightarrow> (ChannelManager \<times> u32) option" where
  "allocate_cid m =
     (let cid = next_cid m;
          m1 = m\<lparr>next_cid := next_cid m + 1\<rparr>
      in if cid = CTAPHID_INVALID_CID \<or> cid = CTAPHID_BROADCAST_CID then allocate_cid m1
         else if cid \<notin> set (active_channels m1)
              then Some (m1\<lparr>active_channels := active_channels m1 @ [cid]\<rparr>, cid)
         else allocate_cid m1)"

declare allocate_cid.simps [code]

definition is_valid_cid :: "ChannelManager \<Rightarrow> u32 \<Rightarrow> bool" where
  "is_valid_cid m cid = (cid = CTAPHID_BROADCAST_CID \<or> cid \<in> set (active_channels m))"

definition release_cid :: "ChannelManager \<Rightarrow> u32 \<Rightarrow> ChannelManager" where
  "release_cid m cid = m\<lparr>active_channels := filter (\<lambda>c. c \<noteq> cid) (active_channels m)\<rparr>"

definition build_init_response ::
  "ChannelManager \<Rightarrow> bytes \<Rightarrow> u8 \<Rightarrow> u8 \<Rightarrow> u8 \<Rightarrow> u8 \<Rightarrow> (ChannelManager \<times> bytes) option" where
  "build_init_response m nonce major minor build capabilities =
     (case allocate_cid m of
        None \<Rightarrow> None
      | Some (m', assigned_cid) \<Rightarrow>
          (let response = (if length nonce \<ge> 8 then take 8 nonce else resize 8 0 nonce)
           in Some (m', response @ to_be_bytes 4 assigned_cid @ [2] @ [major, minor, build] @ [capabilities])))"

subsection \<open>Lemmas on codes\<close>

lemma bit_7F: "bit (0x7F :: int) n \<longleftrightarrow> n < 7"
proof -
  have "(0x7F :: int) = mask 7" by (simp add: mask_eq_exp_minus_1)
  then show ?thesis by (simp only: bit_mask_iff) simp
qed

lemma bit_80: "bit (0x80 :: int) n \<longleftrightarrow> n = 7"
proof -
  have "(0x80 :: int) = 2 ^ 7" by simp
  then show ?thesis by (simp only: bit_exp_iff) auto
qed

lemma from_raw_cmd_to_init_cmd_byte [simp]:
  "from_raw_cmd (to_init_cmd_byte c) = from_raw_cmd (raw_code c)"
proof -
  have "(0x80 OR (w AND 0x7F)) AND 0x7F = w AND 0x7F" for w :: u8
    by (rule bit_eqI) (auto simp: bit_simps bit_7F bit_80)
  then show ?thesis
    by (simp add: from_raw_cmd_def to_init_cmd_byte_def)
qed

lemma to_init_cmd_byte_bit7 [simp]: "to_init_cmd_byte c AND 0x80 \<noteq> 0"
proof -
  have "bit (to_init_cmd_byte c AND 0x80) 7" by (simp add: to_init_cmd_byte_def bit_simps)
  then show ?thesis by force
qed

lemma seq_byte_bit7 [simp]: "(seq AND 0x7F) AND 0x80 = (0 :: u8)"
  by (rule bit_eqI) (auto simp: bit_simps bit_7F bit_80)

lemma and_7F_idem [simp]: "(seq AND 0x7F) AND 0x7F = (seq AND 0x7F :: u8)"
  by (rule bit_eqI) (auto simp: bit_simps)

lemma and_7F_small: "seq < 128 \<Longrightarrow> seq AND 0x7F = (seq :: u8)"
proof -
  assume "seq < 128"
  then have "seq < 2 ^ 7" by simp
  then have "take_bit 7 seq = seq"
    using less_mask_eq [of seq 7] by (simp add: take_bit_eq_mask)
  then show ?thesis by (simp add: take_bit_eq_mask mask_eq_exp_minus_1)
qed

subsection \<open>Lemmas on packets\<close>

lemma list_update_replicate_0: "0 < n \<Longrightarrow> (replicate n x)[0 := y] = y # replicate (n - 1) x"
  by (cases n) auto

lemma packet_to_bytes_Init:
  "packet_to_bytes (Packet_Init cid cmd n data) =
     to_be_bytes 4 cid @ [to_init_cmd_byte cmd] @ to_be_bytes 2 n @ resize 57 0 (take 57 data)"
  by (simp add: packet_to_bytes.simps ctaphid_consts copy_into_def resize_def min_def list_update_append
      list_update_replicate_0)

lemma packet_to_bytes_Cont:
  "packet_to_bytes (Packet_Cont cid seq data) =
     to_be_bytes 4 cid @ [seq AND 0x7F] @ resize 59 0 (take 59 data)"
  by (simp add: packet_to_bytes.simps ctaphid_consts copy_into_def resize_def min_def list_update_append
      list_update_replicate_0)

lemma length_packet_to_bytes [simp]: "length (packet_to_bytes p) = 64"
  by (cases p) (simp_all add: packet_to_bytes_Init packet_to_bytes_Cont)

lemma nths_of_prefix4: "length xs = 4 \<Longrightarrow> [(xs @ ys) ! 0, (xs @ ys) ! 1, (xs @ ys) ! 2, (xs @ ys) ! 3] = xs"
  by (auto simp: numeral_eq_Suc length_Suc_conv)

lemma nths_of_prefix2: "length xs = 2 \<Longrightarrow> [(xs @ ys) ! 0, (xs @ ys) ! 1] = xs"
  by (auto simp: numeral_eq_Suc length_Suc_conv)

text \<open>The header fields of a packet laid out as a concatenation.\<close>

lemma packet_fields:
  assumes "length c = 4" "length l = 2"
  shows "from_be_bytes [(c @ r) ! 0, (c @ r) ! 1, (c @ r) ! 2, (c @ r) ! 3] = from_be_bytes c"
    and "(c @ [b] @ r) ! 4 = b"
    and "[(c @ [b] @ l @ r) ! 5, (c @ [b] @ l @ r) ! 6] = l"
    and "slice_of 7 (7 + k) (c @ [b] @ l @ r) = take k r"
    and "slice_of 5 64 (c @ [b] @ r) = take 59 r"
  using assms nths_of_prefix4 [of c r] nths_of_prefix2 [of l r]
  by (simp_all add: nth_append slice_of_def nth_Cons split: nat.splits)

lemma packet_from_to_bytes_Init:
  assumes "length data = min (unat n) 57"
  shows "packet_from_bytes (packet_to_bytes (Packet_Init cid cmd n data))
           = Inr (Packet_Init cid (from_raw_cmd (raw_code cmd)) n data)"
proof -
  let ?raw = "to_be_bytes 4 cid @ [to_init_cmd_byte cmd] @ to_be_bytes 2 n @ resize 57 0 (take 57 data)"
  have len4: "length (to_be_bytes 4 cid) = 4" and len2: "length (to_be_bytes 2 n) = 2" by simp_all
  have "take (min (unat n) 57) (resize 57 0 (take 57 data)) = data"
    using assms by (simp add: resize_def)
  moreover have "from_be_bytes (to_be_bytes 4 cid) = cid" "from_be_bytes (to_be_bytes 2 n) = n"
    by simp_all
  ultimately have "packet_from_bytes ?raw = Inr (Packet_Init cid (from_raw_cmd (raw_code cmd)) n data)"
    unfolding packet_from_bytes_def Let_def ctaphid_consts
      packet_fields [OF len4 len2] by simp
  then show ?thesis
    by (simp only: packet_to_bytes_Init)
qed

lemma packet_from_to_bytes_Cont:
  assumes "length data \<le> 59"
  shows "packet_from_bytes (packet_to_bytes (Packet_Cont cid seq data))
           = Inr (Packet_Cont cid (seq AND 0x7F) (resize 59 0 data))"
proof -
  let ?raw = "to_be_bytes 4 cid @ [seq AND 0x7F] @ resize 59 0 (take 59 data)"
  have len4: "length (to_be_bytes 4 cid) = 4" and len2: "length [0, 0 :: u8] = 2" by simp_all
  have "from_be_bytes (to_be_bytes 4 cid) = cid" by simp
  then have "packet_from_bytes ?raw = Inr (Packet_Cont cid (seq AND 0x7F) (resize 59 0 data))"
    unfolding packet_from_bytes_def Let_def ctaphid_consts packet_fields(1) [OF len4 len2]
      packet_fields(2) [OF len4 len2] packet_fields(5) [OF len4 len2]
    using assms by simp
  then show ?thesis
    by (simp only: packet_to_bytes_Cont)
qed

subsection \<open>Lemmas on the fragmenter and the assembler\<close>

text \<open>The wire form of a command is its own decoding: every variant but a vendor code that collides or exceeds 7 bits.\<close>

definition wf_command :: "CtaphidCommand \<Rightarrow> bool" where
  "wf_command c = (from_raw_cmd (raw_code c) = c)"

definition assembling :: "u32 \<Rightarrow> CtaphidCommand \<Rightarrow> bytes \<Rightarrow> nat \<Rightarrow> u8 \<Rightarrow> AssemblyState" where
  "assembling cid cmd payload offset seq =
     \<lparr>asm_cid = cid, asm_cmd = cmd, asm_total_len = length payload, asm_buffer = take offset payload,
      asm_next_seq = seq\<rparr>"

lemma process_packet_Cont_chunk:
  assumes "offset < length payload" "seq < 128"
    and chunk: "chunk = min (length payload - offset) 59"
  shows "process_packet (a\<lparr>active_state := Some (assembling cid cmd payload offset seq)\<rparr>)
           (packet_to_bytes (Packet_Cont cid seq (slice_of offset (offset + chunk) payload)))
         = (if offset + chunk < length payload
            then (a\<lparr>active_state := Some (assembling cid cmd payload (offset + chunk) (seq + 1))\<rparr>, Inr None)
            else (a\<lparr>active_state := None\<rparr>, Inr (Some (message_new cid cmd payload))))"
proof -
  have "take chunk (resize 59 0 (slice_of offset (offset + chunk) payload))
          = slice_of offset (offset + chunk) payload"
    using chunk by (simp add: resize_def slice_of_def)
  moreover have "take offset payload @ slice_of offset (offset + chunk) payload = take (offset + chunk) payload"
    by (rule take_slice) simp
  moreover have "chunk = (if length payload \<le> offset + 59 then length payload - offset else 59)"
    using chunk by simp
  ultimately show ?thesis
    using assms(1,2) and_7F_small [of seq]
    by (cases "length payload \<le> offset + 59")
      (simp_all add: process_packet_def packet_from_to_bytes_Cont assembling_def ctaphid_consts Let_def)
qed

lemma fragment_cont_unfold:
  assumes "offset < length payload"
  shows "fragment_cont cid payload offset seq =
     packet_to_bytes (Packet_Cont cid seq (slice_of offset (offset + min (length payload - offset) 59) payload))
       # fragment_cont cid payload (offset + min (length payload - offset) 59) (seq + 1)"
  using assms by (subst fragment_cont.simps) (simp add: ctaphid_consts Let_def)

lemma fragment_cont_Nil_iff [simp]: "fragment_cont cid payload offset seq = [] \<longleftrightarrow> length payload \<le> offset"
  by (subst fragment_cont.simps) (simp add: Let_def not_less)

lemma fragment_cont_done [simp]: "length payload \<le> offset \<Longrightarrow> fragment_cont cid payload offset seq = []"
  by simp

lemma feed_fragment_cont:
  assumes "offset < length payload" "length payload \<le> CTAPHID_MAX_PAYLOAD_LEN" "offset = 57 + 59 * unat seq"
  shows "feed_all process_packet (a\<lparr>active_state := Some (assembling cid cmd payload offset seq)\<rparr>)
           (fragment_cont cid payload offset seq)
         = (a\<lparr>active_state := None\<rparr>,
            replicate (length (fragment_cont cid payload offset seq) - 1) (Inr None)
              @ [Inr (Some (message_new cid cmd payload))])"
  using assms
proof (induction "length payload - offset" arbitrary: offset seq rule: less_induct)
  case less
  define chunk where "chunk = min (length payload - offset) 59"
  from less.prems have seq: "unat seq < 128" by (simp add: ctaphid_consts)
  then have seq': "seq < 128" by (simp add: word_less_nat_alt)
  from seq have inc: "unat (seq + 1) = unat seq + 1" by (simp add: unat_word_ariths)
  note step = process_packet_Cont_chunk [OF less.prems(1) seq' chunk_def, where a = a and cid = cid and cmd = cmd]
  note unfold = fragment_cont_unfold [OF less.prems(1), of cid seq, folded chunk_def]
  show ?case
  proof (cases "offset + chunk < length payload")
    case True
    then have "chunk = 59" by (auto simp: chunk_def)
    with True less.prems inc have ih: "feed_all process_packet
         (a\<lparr>active_state := Some (assembling cid cmd payload (offset + chunk) (seq + 1))\<rparr>)
         (fragment_cont cid payload (offset + chunk) (seq + 1))
       = (a\<lparr>active_state := None\<rparr>,
          replicate (length (fragment_cont cid payload (offset + chunk) (seq + 1)) - 1) (Inr None)
              @ [Inr (Some (message_new cid cmd payload))])"
      by (intro less.hyps) auto
    moreover have "length (fragment_cont cid payload (offset + chunk) (seq + 1)) > 0"
      using True by simp
    ultimately show ?thesis
      using True step unfold by (cases "length (fragment_cont cid payload (offset + chunk) (seq + 1))") auto
  next
    case False
    then have "fragment_cont cid payload (offset + chunk) (seq + 1) = []" by simp
    with False step unfold show ?thesis by simp
  qed
qed

definition frames :: "CtaphidMessage \<Rightarrow> bytes list" where
  "frames m = (case fragment (msg_cid m) (msg_cmd m) (msg_payload m) of Inl e \<Rightarrow> [] | Inr ps \<Rightarrow> ps)"

definition sendable :: "CtaphidMessage \<Rightarrow> bool" where
  "sendable m = (wf_command (msg_cmd m) \<and> msg_cmd m \<noteq> Cmd_Cancel
                 \<and> length (msg_payload m) \<le> CTAPHID_MAX_PAYLOAD_LEN)"

lemma message_new_fields [simp]: "message_new (msg_cid m) (msg_cmd m) (msg_payload m) = m"
  by (simp add: message_new_def)

lemma process_packet_Init_frame:
  assumes "length payload \<le> CTAPHID_MAX_PAYLOAD_LEN" "wf_command cmd" "cmd \<noteq> Cmd_Cancel"
  shows "process_packet a (packet_to_bytes
            (Packet_Init cid cmd (of_nat (length payload)) (take (min (length payload) 57) payload)))
         = (if length payload \<le> 57 then (a\<lparr>active_state := None\<rparr>, Inr (Some (message_new cid cmd payload)))
            else (a\<lparr>active_state := Some (assembling cid cmd payload 57 0)\<rparr>, Inr None))"
proof -
  from assms(1) have len: "unat (of_nat (length payload) :: u16) = length payload"
    by (simp add: ctaphid_consts unat_of_nat)
  have data: "length (take (min (length payload) 57) payload) = min (unat (of_nat (length payload) :: u16)) 57"
    by (simp add: len)
  show ?thesis
    using assms
    by (simp add: process_packet_def packet_from_to_bytes_Init [OF data] len wf_command_def assembling_def
        Let_def ctaphid_consts)
qed

lemma feed_fragment:
  assumes "length payload \<le> CTAPHID_MAX_PAYLOAD_LEN" "wf_command cmd" "cmd \<noteq> Cmd_Cancel"
  obtains ps where "fragment cid cmd payload = Inr ps"
    "feed_all process_packet a ps
       = (a\<lparr>active_state := None\<rparr>,
          replicate (length ps - 1) (Inr None) @ [Inr (Some (message_new cid cmd payload))])"
proof
  let ?init = "packet_to_bytes (Packet_Init cid cmd (of_nat (length payload)) (take (min (length payload) 57) payload))"
  let ?ps = "?init # fragment_cont cid payload (min (length payload) 57) 0"
  show "fragment cid cmd payload = Inr ?ps"
    using assms by (simp add: fragment_def ctaphid_consts Let_def)
  show "feed_all process_packet a ?ps
       = (a\<lparr>active_state := None\<rparr>,
          replicate (length ?ps - 1) (Inr None) @ [Inr (Some (message_new cid cmd payload))])"
  proof (cases "length payload \<le> 57")
    case True
    then show ?thesis
      using process_packet_Init_frame [OF assms, of a cid] by simp
  next
    case False
    moreover have "length (fragment_cont cid payload 57 0) > 0" using False by simp
    ultimately show ?thesis
      using process_packet_Init_frame [OF assms, of a cid] feed_fragment_cont [of 57 payload 0, where a = a and cid = cid and cmd = cmd] assms(1)
      by (cases "length (fragment_cont cid payload 57 0)") (auto simp: min_def)
  qed
qed

interpretation hid: framing_codec frames process_packet sendable "\<lambda>_. True" "\<lambda>a. active_state a = None"
proof
  fix m and s :: CtaphidAssembler
  assume "sendable m"
  then obtain ps where "fragment (msg_cid m) (msg_cmd m) (msg_payload m) = Inr ps"
    "feed_all process_packet s ps
       = (s\<lparr>active_state := None\<rparr>, replicate (length ps - 1) (Inr None) @ [Inr (Some m)])"
    by (auto simp: sendable_def elim: feed_fragment [where a = s and cid = "msg_cid m"])
  then show "\<exists>s'. active_state s' = None \<and> feed_all process_packet s (frames m)
      = (s', replicate (length (frames m) - 1) (Inr None) @ [Inr (Some m)])"
    by (auto simp: frames_def)
qed simp

text \<open>Packets per message: one INIT and as many CONT packets as the rest needs.\<close>

lemma length_fragment_cont:
  "length (fragment_cont cid payload offset seq) = (length payload - offset + 58) div 59"
proof (induction "length payload - offset" arbitrary: offset seq rule: less_induct)
  case less
  show ?case
  proof (cases "offset < length payload")
    case True
    define chunk where "chunk = min (length payload - offset) 59"
    have "length (fragment_cont cid payload (offset + chunk) (seq + 1))
            = (length payload - (offset + chunk) + 58) div 59"
      using True by (intro less.hyps) (auto simp: chunk_def)
    moreover have "1 + (length payload - (offset + chunk) + 58) div 59 = (length payload - offset + 58) div 59"
      using True by (cases "length payload - offset \<le> 59") (auto simp: chunk_def div_nat_eqI)
    ultimately show ?thesis
      using fragment_cont_unfold [OF True, of cid seq, folded chunk_def] by simp
  qed simp
qed

lemma fragment_cont_lengths: "p \<in> set (fragment_cont cid payload offset seq) \<Longrightarrow> length p = 64"
proof (induction cid payload offset seq rule: fragment_cont.induct)
  case (1 cid payload offset seq)
  then show ?case
    by (cases "offset < length payload")
      (auto simp: fragment_cont_unfold Let_def ctaphid_consts)
qed

subsection \<open>Assembler invariant\<close>

definition assembler_inv :: "CtaphidAssembler \<Rightarrow> bool" where
  "assembler_inv a = (case active_state a of None \<Rightarrow> True | Some st \<Rightarrow>
     length (asm_buffer st) = 57 + 59 * unat (asm_next_seq st)
     \<and> length (asm_buffer st) < asm_total_len st \<and> asm_total_len st \<le> CTAPHID_MAX_PAYLOAD_LEN)"

definition answer_ok :: "(u32 \<times> CtaphidErrorCode, CtaphidMessage option) result \<Rightarrow> bool" where
  "answer_ok r = (case r of Inr (Some m) \<Rightarrow> length (msg_payload m) \<le> CTAPHID_MAX_PAYLOAD_LEN
                  | Inr None \<Rightarrow> True | Inl (cid, e) \<Rightarrow> e \<in> {Hid_InvalidLen, Hid_InvalidSeq, Hid_InvalidChannel})"

lemma packet_from_bytes_cases:
  assumes "length raw = 64"
  obtains (Init) cid cmd n data where "packet_from_bytes raw = Inr (Packet_Init cid cmd n data)"
      "length data = min (unat n) 57"
    | (Cont) cid seq data where "packet_from_bytes raw = Inr (Packet_Cont cid seq data)" "length data = 59"
proof (cases "raw ! 4 AND 0x80 = 0")
  case True
  then have "packet_from_bytes raw = Inr (Packet_Cont (from_be_bytes [raw ! 0, raw ! 1, raw ! 2, raw ! 3])
      (raw ! 4 AND 0x7F) (slice_of 5 64 raw))"
    by (simp add: packet_from_bytes_def ctaphid_consts)
  then show ?thesis by (rule Cont) (simp add: assms)
next
  case False
  let ?n = "from_be_bytes [raw ! 5, raw ! 6] :: u16"
  from False have "packet_from_bytes raw = Inr (Packet_Init (from_be_bytes [raw ! 0, raw ! 1, raw ! 2, raw ! 3])
      (from_raw_cmd (raw ! 4)) ?n (slice_of 7 (7 + min (unat ?n) 57) raw))"
    by (simp add: packet_from_bytes_def ctaphid_consts Let_def)
  then show ?thesis by (rule Init) (simp add: assms)
qed

lemma assembler_inv_new: "assembler_inv assembler_new"
  by (simp add: assembler_inv_def assembler_new_def)

lemma process_packet_inv:
  assumes "assembler_inv a" "length raw = 64"
  shows "assembler_inv (fst (process_packet a raw)) \<and> answer_ok (snd (process_packet a raw))"
  using assms(2)
proof (cases rule: packet_from_bytes_cases)
  case (Init cid cmd n data)
  then show ?thesis
    by (simp add: process_packet_def assembler_inv_def answer_ok_def Let_def ctaphid_consts message_new_def)
next
  case (Cont cid seq data)
  show ?thesis
  proof (cases "active_state a")
    case None
    with Cont show ?thesis
      by (simp add: process_packet_def assembler_inv_def answer_ok_def)
  next
    case (Some st)
    with assms(1) have st: "length (asm_buffer st) = 57 + 59 * unat (asm_next_seq st)"
      "length (asm_buffer st) < asm_total_len st" "asm_total_len st \<le> 7609"
      by (simp_all add: assembler_inv_def ctaphid_consts)
    then have "unat (asm_next_seq st + 1) = unat (asm_next_seq st) + 1"
      by (simp add: unat_word_ariths)
    with Cont Some st show ?thesis
      by (auto simp: process_packet_def assembler_inv_def answer_ok_def Let_def ctaphid_consts message_new_def)
  qed
qed

lemma feed_packets_inv:
  assumes "assembler_inv a" "\<forall>p\<in>set ps. length p = 64"
  shows "assembler_inv (fst (feed_all process_packet a ps))
     \<and> (\<forall>r\<in>set (snd (feed_all process_packet a ps)). answer_ok r)"
  using assms
proof (induction ps arbitrary: a)
  case (Cons p ps)
  obtain a1 r where step: "process_packet a p = (a1, r)" by force
  with Cons.prems process_packet_inv [of a p] have "assembler_inv a1" "answer_ok r" by auto
  with Cons.IH [of a1] Cons.prems step show ?case by (auto split: prod.splits)
qed simp

subsection \<open>Packets of other channels\<close>

definition raw_cid :: "bytes \<Rightarrow> u32" where
  "raw_cid raw = (case packet_from_bytes raw of Inr p \<Rightarrow> packet_cid p | Inl _ \<Rightarrow> 0)"

definition raw_is_cont :: "bytes \<Rightarrow> bool" where
  "raw_is_cont raw = (case packet_from_bytes raw of Inr (Packet_Cont _ _ _) \<Rightarrow> True | _ \<Rightarrow> False)"

definition owned_by :: "u32 \<Rightarrow> CtaphidAssembler \<Rightarrow> bool" where
  "owned_by cid a = (case active_state a of None \<Rightarrow> True | Some st \<Rightarrow> asm_cid st = cid)"

lemma process_foreign_cont:
  assumes "owned_by cid a" "raw_is_cont raw" "raw_cid raw \<noteq> cid"
  obtains e where "process_packet a raw = (a, Inl e)"
  using assms
  by (auto simp: owned_by_def raw_is_cont_def raw_cid_def process_packet_def
      split: sum.splits CtaphidPacket.splits option.splits)

lemma process_own_cont:
  assumes "owned_by cid a" "raw_is_cont raw"
  shows "owned_by cid (fst (process_packet a raw))"
  using assms
  by (auto simp: owned_by_def raw_is_cont_def process_packet_def Let_def
      split: sum.splits CtaphidPacket.splits option.splits)

text \<open>CONT packets of other channels change neither the assembler nor the messages it delivers.\<close>

lemma feed_ignoring_foreign:
  assumes "owned_by cid a" "\<forall>p\<in>set ps. raw_is_cont p"
  shows "fst (feed_all process_packet a ps)
           = fst (feed_all process_packet a (filter (\<lambda>p. raw_cid p = cid) ps))
       \<and> delivered (snd (feed_all process_packet a ps))
           = delivered (snd (feed_all process_packet a (filter (\<lambda>p. raw_cid p = cid) ps)))"
  using assms
proof (induction ps arbitrary: a)
  case (Cons p ps)
  obtain a1 r where step: "process_packet a p = (a1, r)" by force
  show ?case
  proof (cases "raw_cid p = cid")
    case True
    from step process_own_cont [of cid a p] Cons.prems have "owned_by cid a1" by simp
    with Cons.IH [of a1] Cons.prems have ih:
      "fst (feed_all process_packet a1 ps) = fst (feed_all process_packet a1 (filter (\<lambda>p. raw_cid p = cid) ps))"
      "delivered (snd (feed_all process_packet a1 ps))
         = delivered (snd (feed_all process_packet a1 (filter (\<lambda>p. raw_cid p = cid) ps)))" by simp_all
    with True show ?thesis
      using feed_all_step [of process_packet, OF step] by simp
  next
    case False
    then obtain e where "process_packet a p = (a, Inl e)"
      using process_foreign_cont [of cid a p] Cons.prems by auto
    from feed_all_step [of process_packet, OF this] False Cons show ?thesis by simp
  qed
qed simp

lemma fragment_cont_raw:
  "p \<in> set (fragment_cont cid payload offset seq) \<Longrightarrow> raw_is_cont p \<and> raw_cid p = cid"
proof (induction cid payload offset seq rule: fragment_cont.induct)
  case (1 cid payload offset seq)
  then show ?case
    by (cases "offset < length payload")
      (auto simp: fragment_cont_unfold Let_def ctaphid_consts raw_is_cont_def raw_cid_def
        packet_from_to_bytes_Cont)
qed

subsection \<open>Lemmas on the channel manager\<close>

definition channel_free :: "ChannelManager \<Rightarrow> u32 \<Rightarrow> bool" where
  "channel_free m c = (c \<noteq> CTAPHID_INVALID_CID \<and> c \<noteq> CTAPHID_BROADCAST_CID \<and> c \<notin> set (active_channels m))"

definition channels_inv :: "ChannelManager \<Rightarrow> bool" where
  "channels_inv m = (distinct (active_channels m)
     \<and> CTAPHID_INVALID_CID \<notin> set (active_channels m) \<and> CTAPHID_BROADCAST_CID \<notin> set (active_channels m))"

lemma channel_free_exists:
  assumes "length (active_channels m) < 2 ^ 32 - 2"
  shows "\<exists>c. channel_free m c"
proof (rule ccontr)
  assume "\<nexists>c. channel_free m c"
  then have "(UNIV :: u32 set) \<subseteq> set (CTAPHID_INVALID_CID # CTAPHID_BROADCAST_CID # active_channels m)"
    by (auto simp: channel_free_def)
  then have "card (UNIV :: u32 set)
      \<le> card (set (CTAPHID_INVALID_CID # CTAPHID_BROADCAST_CID # active_channels m))"
    by (intro card_mono) auto
  also have "\<dots> \<le> length (CTAPHID_INVALID_CID # CTAPHID_BROADCAST_CID # active_channels m)"
    by (rule card_length)
  finally show False using assms by (simp add: card_word)
qed

lemma word_distance_step:
  assumes "n \<noteq> (c :: 'a::len word)"
  shows "unat (c - (n + 1)) < unat (c - n)"
proof -
  from assms have "c - n \<noteq> 0" by simp
  then have "unat (c - n - 1) = unat (c - n) - 1" "unat (c - n) > 0"
    by (simp_all add: unat_minus_one unat_gt_0)
  then show ?thesis by (simp add: diff_diff_eq)
qed

lemma allocate_cid_scan:
  assumes "channel_free m c"
  shows "\<exists>d. channel_free m d \<and> allocate_cid m
           = Some (m\<lparr>next_cid := d + 1, active_channels := active_channels m @ [d]\<rparr>, d)"
  using assms
proof (induction "unat (c - next_cid m)" arbitrary: m rule: less_induct)
  case less
  show ?case
  proof (cases "channel_free m (next_cid m)")
    case True
    then show ?thesis
      by (intro exI [of _ "next_cid m"]) (subst allocate_cid.simps, simp add: channel_free_def Let_def)
  next
    case False
    let ?m1 = "m\<lparr>next_cid := next_cid m + 1\<rparr>"
    from False less.prems have "next_cid m \<noteq> c" by auto
    then have "unat (c - next_cid ?m1) < unat (c - next_cid m)" by (simp add: word_distance_step)
    moreover have free: "channel_free ?m1 d = channel_free m d" for d by (simp add: channel_free_def)
    ultimately obtain d where "channel_free m d" "allocate_cid ?m1
           = Some (?m1\<lparr>next_cid := d + 1, active_channels := active_channels ?m1 @ [d]\<rparr>, d)"
      using less.hyps [of ?m1] less.prems by blast
    moreover have "allocate_cid m = allocate_cid ?m1"
      using False by (subst allocate_cid.simps) (auto simp: channel_free_def Let_def)
    ultimately show ?thesis by auto
  qed
qed

lemma allocate_cid_result:
  assumes "length (active_channels m) < 2 ^ 32 - 2"
  obtains d where "channel_free m d"
    "allocate_cid m = Some (m\<lparr>next_cid := d + 1, active_channels := active_channels m @ [d]\<rparr>, d)"
  using channel_free_exists [OF assms] allocate_cid_scan by blast

subsection \<open>Properties\<close>

text \<open>
  Property C21: every message of at most 7609 bytes whose command is not CANCEL is cut by \<open>fragment\<close> into
  64-byte packets that the assembler, from any state it may be in, puts together again: it answers
  \<open>Ok(None)\<close> to all packets but the last, delivers exactly the message sent at the last one, and is idle
  afterwards.
\<close>

theorem fragment_reassemble:
  assumes "length payload \<le> CTAPHID_MAX_PAYLOAD_LEN" "from_raw_cmd (raw_code cmd) = cmd" "cmd \<noteq> Cmd_Cancel"
  shows "\<exists>ps. fragment cid cmd payload = Inr ps \<and> list_all (\<lambda>p. length p = CTAPHID_PACKET_SIZE) ps
     \<and> feed_all process_packet a ps
         = (assembler_reset a, replicate (length ps - 1) (Inr None) @ [Inr (Some (message_new cid cmd payload))])"
proof -
  obtain ps where ps: "fragment cid cmd payload = Inr ps" "feed_all process_packet a ps
       = (a\<lparr>active_state := None\<rparr>, replicate (length ps - 1) (Inr None) @ [Inr (Some (message_new cid cmd payload))])"
    using feed_fragment [of payload cmd cid a] assms by (auto simp: wf_command_def)
  from ps(1) have "\<forall>p\<in>set ps. length p = CTAPHID_PACKET_SIZE"
    using fragment_cont_lengths
    by (auto simp: fragment_def Let_def CTAPHID_PACKET_SIZE_def split: if_splits)
  with ps show ?thesis by (auto simp: assembler_reset_def list_all_iff)
qed

theorem fragment_reassemble_witness:
  "\<exists>ps. fragment 7 Cmd_Cbor (replicate 100 5) = Inr ps \<and> list_all (\<lambda>p. length p = CTAPHID_PACKET_SIZE) ps
     \<and> feed_all process_packet assembler_new ps
         = (assembler_reset assembler_new,
            replicate (length ps - 1) (Inr None) @ [Inr (Some (message_new 7 Cmd_Cbor (replicate 100 5)))])"
  by (rule fragment_reassemble) (simp_all add: CTAPHID_MAX_PAYLOAD_LEN_def from_raw_cmd_def)

text \<open>
  Messages sent one after the other are received once each, in order and without a protocol
  error, also when the assembler still held a partial message.
\<close>

lemma message_stream_delivered:
  assumes "\<forall>m\<in>set ms. sendable m"
  shows "delivered (snd (feed_all process_packet a (concat (map frames ms)))) = ms
     \<and> frame_errors (snd (feed_all process_packet a (concat (map frames ms)))) = []"
  using hid.feed_stream_delivered [of ms a] hid.feed_stream_no_errors [of ms a] assms by blast

text \<open>
  Property C20: a message in flight is not disturbed by CONT packets of other channels. Whatever CONT packets
  are interleaved after the INIT frame, as long as those of the message's own channel are its frames in
  order, exactly that message is delivered.
\<close>

theorem foreign_cont_transparent:
  assumes "fragment cid cmd payload = Inr (f # fs)" "from_raw_cmd (raw_code cmd) = cmd" "cmd \<noteq> Cmd_Cancel"
    and "\<forall>p\<in>set qs. raw_is_cont p" "filter (\<lambda>p. raw_cid p = cid) qs = fs"
  shows "delivered (snd (feed_all process_packet a (f # qs))) = [message_new cid cmd payload]
     \<and> fst (feed_all process_packet a (f # qs)) = assembler_reset a"
proof -
  from assms(1) have len: "length payload \<le> CTAPHID_MAX_PAYLOAD_LEN"
    and f: "f = packet_to_bytes (Packet_Init cid cmd (of_nat (length payload)) (take (min (length payload) 57) payload))"
    by (auto simp: fragment_def Let_def ctaphid_consts split: if_splits)
  obtain a1 r where step: "process_packet a f = (a1, r)" by force
  have wf: "wf_command cmd" using assms(2) by (simp add: wf_command_def)
  have "owned_by cid a1"
    using process_packet_Init_frame [OF len wf assms(3), of a cid] step
    by (auto simp: f owned_by_def assembling_def split: if_splits)
  from feed_ignoring_foreign [OF this assms(4)] assms(5)
  have "fst (feed_all process_packet a1 qs) = fst (feed_all process_packet a1 fs)"
    "delivered (snd (feed_all process_packet a1 qs)) = delivered (snd (feed_all process_packet a1 fs))"
    by auto
  moreover obtain n where "feed_all process_packet a (f # fs)
       = (assembler_reset a, replicate n (Inr None) @ [Inr (Some (message_new cid cmd payload))])"
    using feed_fragment [OF len wf assms(3), of cid a] assms(1)
    by (auto simp: assembler_reset_def simp del: feed_all.simps)
  then have "delivered (snd (feed_all process_packet a (f # fs))) = [message_new cid cmd payload]"
    "fst (feed_all process_packet a (f # fs)) = assembler_reset a" by simp_all
  ultimately show ?thesis
    using feed_all_step [of process_packet, OF step] by simp
qed

theorem foreign_cont_transparent_witness:
  "delivered (snd (feed_all process_packet assembler_new
      (packet_to_bytes (Packet_Init 7 Cmd_Ping 60 (replicate 57 1))
       # [packet_to_bytes (Packet_Cont 9 0 [4]), packet_to_bytes (Packet_Cont 7 0 (replicate 3 1))])))
     = [message_new 7 Cmd_Ping (replicate 60 1)]
   \<and> fst (feed_all process_packet assembler_new
      (packet_to_bytes (Packet_Init 7 Cmd_Ping 60 (replicate 57 1))
       # [packet_to_bytes (Packet_Cont 9 0 [4]), packet_to_bytes (Packet_Cont 7 0 (replicate 3 1))]))
     = assembler_reset assembler_new"
proof (rule foreign_cont_transparent [where fs = "[packet_to_bytes (Packet_Cont 7 0 (replicate 3 1))]"])
  have "slice_of 57 60 (replicate 60 (1 :: u8)) = replicate 3 1" by (simp add: slice_of_def)
  then show "fragment 7 Cmd_Ping (replicate 60 1) =
    Inr [packet_to_bytes (Packet_Init 7 Cmd_Ping 60 (replicate 57 1)),
         packet_to_bytes (Packet_Cont 7 0 (replicate 3 1))]"
    by (simp add: fragment_def ctaphid_consts fragment_cont_unfold min_def)
qed (simp_all add: from_raw_cmd_def raw_is_cont_def raw_cid_def packet_from_to_bytes_Cont)

text \<open>
  \<open>fragment\<close> refuses exactly the payloads above the CTAPHID limit, reporting their length, and
  otherwise produces one INIT packet and one CONT packet per started block of 59 further bytes, 129 packets
  at most, so that the 7-bit sequence number never runs out.
\<close>

lemma fragment_packet_count:
  "(case fragment cid cmd payload of
      Inl e \<Rightarrow> e = PayloadTooLarge (length payload) \<and> length payload > CTAPHID_MAX_PAYLOAD_LEN
    | Inr ps \<Rightarrow> length payload \<le> CTAPHID_MAX_PAYLOAD_LEN
        \<and> length ps = 1 + (length payload - CTAPHID_INIT_PAYLOAD_SIZE + 58) div CTAPHID_CONT_PAYLOAD_SIZE
        \<and> length ps \<le> 129)"
proof (cases "length payload \<le> CTAPHID_MAX_PAYLOAD_LEN")
  case True
  have "length payload - min (length payload) 57 = length payload - 57" by simp
  moreover have "(length payload - 57 + 58) div 59 \<le> 128" using True by (simp add: ctaphid_consts)
  ultimately show ?thesis
    using True by (simp add: fragment_def Let_def length_fragment_cont ctaphid_consts)
qed (simp add: fragment_def Let_def)



text \<open>
  Property C23: channel allocation returns whenever fewer than \<open>2^32 - 2\<close> channels are active, and then gives
  an identifier that was not active and is neither reserved value, makes it (and nothing else) valid, and
  keeps the list of active channels free of duplicates and of reserved values; releasing it afterwards
  restores the previous list.
\<close>

theorem allocate_cid_returns:
  assumes "channels_inv m" "length (active_channels m) < 2 ^ 32 - 2"
  shows "\<exists>m' cid. allocate_cid m = Some (m', cid) \<and> \<not> is_valid_cid m cid \<and> cid \<noteq> CTAPHID_INVALID_CID
     \<and> channels_inv m' \<and> (\<forall>c. is_valid_cid m' c = (c = cid \<or> is_valid_cid m c))
     \<and> active_channels (release_cid m' cid) = active_channels m"
proof -
  obtain d where d: "channel_free m d"
    "allocate_cid m = Some (m\<lparr>next_cid := d + 1, active_channels := active_channels m @ [d]\<rparr>, d)"
    using assms(2) by (rule allocate_cid_result)
  moreover from d(1) have "filter (\<lambda>c. c \<noteq> d) (active_channels m) = active_channels m"
    by (auto simp: channel_free_def filter_id_conv)
  ultimately show ?thesis
    using assms(1) by (auto simp: channel_free_def is_valid_cid_def channels_inv_def release_cid_def)
qed

theorem allocate_cid_returns_witness:
  "\<exists>m' cid. allocate_cid channels_new = Some (m', cid) \<and> \<not> is_valid_cid channels_new cid
     \<and> cid \<noteq> CTAPHID_INVALID_CID \<and> channels_inv m'
     \<and> (\<forall>c. is_valid_cid m' c = (c = cid \<or> is_valid_cid channels_new c))
     \<and> active_channels (release_cid m' cid) = active_channels channels_new"
  by (rule allocate_cid_returns) (simp_all add: channels_inv_def channels_new_def)

text \<open>
  The CTAPHID_INIT response has 17 bytes for every nonce; it starts with the nonce (cut or padded
  with zeros to 8 bytes), then the newly allocated channel in big-endian order, the protocol version 2, the
  three version bytes and the capabilities.
\<close>

lemma build_init_response_layout:
  assumes "channels_inv m" "length (active_channels m) < 2 ^ 32 - 2"
  shows "\<exists>m' resp cid. build_init_response m nonce major minor build caps = Some (m', resp)
     \<and> allocate_cid m = Some (m', cid) \<and> length resp = 17 \<and> take 8 resp = resize 8 0 nonce
     \<and> from_be_bytes (slice_of 8 12 resp) = cid \<and> drop 12 resp = [2, major, minor, build, caps]
     \<and> is_valid_cid m' (from_be_bytes (slice_of 8 12 resp))"
proof -
  obtain d where d: "allocate_cid m = Some (m\<lparr>next_cid := d + 1, active_channels := active_channels m @ [d]\<rparr>, d)"
    using assms(2) by (rule allocate_cid_result)
  let ?m' = "m\<lparr>next_cid := d + 1, active_channels := active_channels m @ [d]\<rparr>"
  let ?resp = "resize 8 0 nonce @ to_be_bytes 4 d @ [2, major, minor, build, caps]"
  have "(if length nonce \<ge> 8 then take 8 nonce else resize 8 0 nonce) = resize 8 0 nonce"
    by (simp add: resize_def)
  then have "build_init_response m nonce major minor build caps = Some (?m', ?resp)"
    by (simp add: build_init_response_def d)
  moreover have "slice_of 8 12 ?resp = to_be_bytes 4 d" by (simp add: slice_of_def)
  moreover have "is_valid_cid ?m' d" by (simp add: is_valid_cid_def)
  ultimately show ?thesis
    using d by (intro exI [of _ ?m'] exI [of _ ?resp] exI [of _ d]) simp
qed

end
