(* ===== verification/Effects.thy ===== *)
theory Effects
  imports Prelude
begin

section \<open>Fallible operations on a state\<close>

text \<open>
  A method \<open>fn op(&mut self, ..) -> Result<T, E>\<close> is a function from the state to the new state and the result;
  an error keeps the changes made before it. \<open>andthen\<close> is the operator \<open>?\<close> on such a call, \<open>attempt\<close> the
  operator \<open>?\<close> on a call that does not change the state, \<open>check\<close> an early return under a condition. The lemmas
  split a successful run at the operator and carry state invariants through it.
\<close>

type_synonym ('s, 'e, 'a) outcome = "'s \<times> ('e, 'a) result"

definition andthen :: "('s, 'e, 'a) outcome \<Rightarrow> ('a \<Rightarrow> 's \<Rightarrow> ('s, 'e, 'b) outcome) \<Rightarrow> ('s, 'e, 'b) outcome" where
  "andthen r f = (case r of (s, Inl e) \<Rightarrow> (s, Inl e) | (s, Inr x) \<Rightarrow> f x s)"

definition attempt :: "('e, 'a) result \<Rightarrow> 's \<Rightarrow> ('a \<Rightarrow> ('s, 'e, 'b) outcome) \<Rightarrow> ('s, 'e, 'b) outcome" where
  "attempt r s f = (case r of Inl e \<Rightarrow> (s, Inl e) | Inr x \<Rightarrow> f x)"

definition check :: "bool \<Rightarrow> 'e \<Rightarrow> 's \<Rightarrow> ('s, 'e, 'b) outcome \<Rightarrow> ('s, 'e, 'b) outcome" where
  "check c e s k = (if c then (s, Inl e) else k)"

definition bind_result :: "('e, 'a) result \<Rightarrow> ('a \<Rightarrow> ('e, 'b) result) \<Rightarrow> ('e, 'b) result" where
  "bind_result r f = (case r of Inl e \<Rightarrow> Inl e | Inr x \<Rightarrow> f x)"

definition ok_or :: "'a option \<Rightarrow> 'e \<Rightarrow> ('e, 'a) result" where
  "ok_or x e = (case x of None \<Rightarrow> Inl e | Some a \<Rightarrow> Inr a)"

definition map_err :: "('e \<Rightarrow> 'f) \<Rightarrow> ('e, 'a) result \<Rightarrow> ('f, 'a) result" where
  "map_err f r = (case r of Inl e \<Rightarrow> Inl (f e) | Inr a \<Rightarrow> Inr a)"

definition ok :: "('e, 'a) result \<Rightarrow> 'a option" where
  "ok r = (case r of Inl e \<Rightarrow> None | Inr a \<Rightarrow> Some a)"

subsection \<open>Lemmas\<close>

lemma andthen_simps [simp]:
  "andthen (s, Inl e) f = (s, Inl e)" "andthen (s, Inr x) f = f x s"
  by (simp_all add: andthen_def)

lemma attempt_simps [simp]: "attempt (Inl e) s f = (s, Inl e)" "attempt (Inr x) s f = f x"
  by (simp_all add: attempt_def)

lemma check_simps [simp]: "check True e s k = (s, Inl e)" "check False e s k = k"
  by (simp_all add: check_def)

lemma bind_result_simps [simp]: "bind_result (Inl e) g = Inl e" "bind_result (Inr x) g = g x"
  by (simp_all add: bind_result_def)

lemma ok_or_simps [simp]: "ok_or None e = Inl e" "ok_or (Some x) e = Inr x"
  by (simp_all add: ok_or_def)

lemma map_err_simps [simp]: "map_err f (Inl e) = Inl (f e)" "map_err f (Inr x) = Inr x"
  by (simp_all add: map_err_def)

lemma ok_simps [simp]: "ok (Inl e) = None" "ok (Inr x) = Some x"
  by (simp_all add: ok_def)

text \<open>A run that succeeds passed every step.\<close>

lemma andthen_ok: "andthen r f = (s', Inr y) \<longleftrightarrow> (\<exists>s x. r = (s, Inr x) \<and> f x s = (s', Inr y))"
  by (auto simp: andthen_def split: prod.splits sum.splits)

lemma attempt_ok: "attempt r s f = (s', Inr y) \<longleftrightarrow> (\<exists>x. r = Inr x \<and> f x = (s', Inr y))"
  by (auto simp: attempt_def split: sum.splits)

lemma check_ok: "check c e s k = (s', Inr y) \<longleftrightarrow> \<not> c \<and> k = (s', Inr y)"
  by (simp add: check_def)

lemma bind_result_ok: "bind_result r g = Inr y \<longleftrightarrow> (\<exists>x. r = Inr x \<and> g x = Inr y)"
  by (auto simp: bind_result_def split: sum.splits)

lemma ok_or_ok: "ok_or x e = Inr y \<longleftrightarrow> x = Some y"
  by (auto simp: ok_or_def split: option.splits)

lemma map_err_ok: "map_err f r = Inr y \<longleftrightarrow> r = Inr y"
  by (auto simp: map_err_def split: sum.splits)

lemma ok_Some: "ok r = Some y \<longleftrightarrow> r = Inr y"
  by (auto simp: ok_def split: sum.splits)

lemmas effect_ok = andthen_ok attempt_ok check_ok bind_result_ok ok_or_ok map_err_ok ok_Some

text \<open>A property of the state that every step keeps holds at the end, whether the run succeeds or not.\<close>

lemma andthen_inv:
  assumes "P (fst r)" "\<And>s x. r = (s, Inr x) \<Longrightarrow> P s \<Longrightarrow> P (fst (f x s))"
  shows "P (fst (andthen r f))"
  using assms by (auto simp: andthen_def split: prod.splits sum.splits)

lemma attempt_inv: "P s \<Longrightarrow> (\<And>x. r = Inr x \<Longrightarrow> P (fst (f x))) \<Longrightarrow> P (fst (attempt r s f))"
  by (auto simp: attempt_def split: sum.splits)

lemma check_inv: "P s \<Longrightarrow> (\<not> c \<Longrightarrow> P (fst k)) \<Longrightarrow> P (fst (check c e s k))"
  by (simp add: check_def)

text \<open>A projection of the state that every step leaves alone is unchanged.\<close>

lemma andthen_same:
  assumes "p (fst r) = v" "\<And>s x. r = (s, Inr x) \<Longrightarrow> p s = v \<Longrightarrow> p (fst (f x s)) = v"
  shows "p (fst (andthen r f)) = v"
  using andthen_inv [of "\<lambda>s. p s = v"] assms by blast

subsection \<open>Relations between states\<close>

text \<open>
  What a run may do to the state, as a reflexive and transitive relation: if every step is in the relation, the
  run is, whether it succeeds or not.
\<close>

locale step_relation =
  fixes R :: "'s \<Rightarrow> 's \<Rightarrow> bool"
  assumes step_refl: "R s s"
    and step_trans: "R s t \<Longrightarrow> R t u \<Longrightarrow> R s u"
begin

lemma step_attempt: "(\<And>x. r = Inr x \<Longrightarrow> R s (fst (f x))) \<Longrightarrow> R s (fst (attempt r s f))"
  by (cases r) (simp_all add: step_refl)

lemma step_check: "(\<not> c \<Longrightarrow> R s (fst k)) \<Longrightarrow> R s (fst (check c e s k))"
  by (cases c) (simp_all add: step_refl)

lemma step_andthen:
  assumes "R s (fst r)" "\<And>x t. r = (t, Inr x) \<Longrightarrow> R t (fst (f x t))"
  shows "R s (fst (andthen r f))"
proof (cases r)
  case (Pair t q)
  then show ?thesis using assms step_trans [of s t] by (cases q) auto
qed

lemma step_split:
  assumes "R s (fst r)" "\<And>t x. r = (t, x) \<Longrightarrow> R t (fst (f t x))"
  shows "R s (fst (case r of (t, x) \<Rightarrow> f t x))"
  using assms step_trans [of s "fst r"] by (cases r) simp

lemma step_case: "(\<And>p q. x = (p, q) \<Longrightarrow> R s (fst (f p q t))) \<Longrightarrow> R s (fst ((case x of (p, q) \<Rightarrow> f p q) t))"
  by (cases x) simp

end

end
