(* ===== verification/Ordered_Map.thy ===== *)
theory Ordered_Map
  imports Prelude "HOL-Library.List_Lexorder" "HOL-Library.Char_ord"
begin

section \<open>BTreeMap as a sorted association list\<close>

text \<open>
  \<open>alloc::collections::BTreeMap\<close> keeps its entries sorted by key and iterates in that order, which the storage
  engine, the applet registry and the CBOR encoder rely on. A map is the list of its entries, strictly
  sorted by key (\<open>btree_wf\<close>), so that two maps with the same contents are equal. Byte-vector and string keys
  are ordered lexicographically by the instances of the library theories imported here.

  The locale \<open>finite_map_ops\<close> states what the clients rely on (lookup after insertion and removal, the
  well-formedness invariant, the keys); it is interpreted on the definitions below.
\<close>

type_synonym ('k, 'v) btree = "('k \<times> 'v) list"

definition btree_wf :: "('k::linorder, 'v) btree \<Rightarrow> bool" where
  "btree_wf m = sorted_wrt (<) (map fst m)"

definition btree_get :: "('k::linorder, 'v) btree \<Rightarrow> 'k \<Rightarrow> 'v option" where
  "btree_get m k = map_of m k"

fun btree_insert :: "'k::linorder \<Rightarrow> 'v \<Rightarrow> ('k, 'v) btree \<Rightarrow> ('k, 'v) btree" where
  "btree_insert k v [] = [(k, v)]"
| "btree_insert k v ((k', v') # m) =
     (if k < k' then (k, v) # (k', v') # m
      else if k = k' then (k, v) # m
      else (k', v') # btree_insert k v m)"

definition btree_remove :: "'k::linorder \<Rightarrow> ('k, 'v) btree \<Rightarrow> ('k, 'v) btree" where
  "btree_remove k m = filter (\<lambda>(k', v). k' \<noteq> k) m"

definition btree_keys :: "('k::linorder, 'v) btree \<Rightarrow> 'k list" where
  "btree_keys m = map fst m"

definition btree_values :: "('k::linorder, 'v) btree \<Rightarrow> 'v list" where
  "btree_values m = map snd m"

subsection \<open>Lemmas\<close>

lemma btree_wf_Nil [simp]: "btree_wf []"
  by (simp add: btree_wf_def)

lemma btree_wf_Cons: "btree_wf ((k, v) # m) \<longleftrightarrow> (\<forall>x\<in>fst ` set m. k < x) \<and> btree_wf m"
  by (auto simp: btree_wf_def)

lemma btree_wf_distinct: "btree_wf m \<Longrightarrow> distinct (map fst m)"
  by (simp add: btree_wf_def strict_sorted_iff)

lemma keys_btree_insert [simp]: "fst ` set (btree_insert k v m) = insert k (fst ` set m)"
  by (induction k v m rule: btree_insert.induct) auto

lemma btree_wf_insert [simp]: "btree_wf m \<Longrightarrow> btree_wf (btree_insert k v m)"
proof (induction k v m rule: btree_insert.induct)
  case (2 k v k' v' m)
  then show ?case by (auto simp: btree_wf_Cons dest: order.strict_trans)
qed (simp add: btree_wf_def)

lemma btree_wf_remove [simp]: "btree_wf m \<Longrightarrow> btree_wf (btree_remove k m)"
  by (induction m) (auto simp: btree_wf_Cons btree_remove_def)

lemma btree_get_insert [simp]:
  "btree_get (btree_insert k v m) k' = (if k' = k then Some v else btree_get m k')"
  by (induction k v m rule: btree_insert.induct) (auto simp: btree_get_def)

lemma btree_get_remove [simp]:
  "btree_get (btree_remove k m) k' = (if k' = k then None else btree_get m k')"
  by (induction m) (auto simp: btree_get_def btree_remove_def)

lemma btree_get_Nil [simp]: "btree_get [] k = None"
  by (simp add: btree_get_def)

lemma btree_get_in_keys: "btree_get m k \<noteq> None \<longleftrightarrow> k \<in> set (btree_keys m)"
  by (simp add: btree_get_def btree_keys_def map_of_eq_None_iff)

lemma btree_get_in_set: "btree_wf m \<Longrightarrow> btree_get m k = Some v \<longleftrightarrow> (k, v) \<in> set m"
  by (simp add: btree_get_def btree_wf_distinct)

lemma btree_eqI:
  assumes "btree_wf m" "btree_wf m'" "\<And>k. btree_get m k = btree_get m' k"
  shows "m = m'"
proof -
  have "set m = set m'"
    using assms by (auto simp flip: btree_get_in_set [OF assms(1)] btree_get_in_set [OF assms(2)])
  moreover have "inj_on fst (set m \<union> set m')"
    using calculation btree_wf_distinct [OF assms(1)] by (simp add: distinct_map)
  moreover have "sorted (map fst m)" "sorted (map fst m')"
    using assms(1,2) by (simp_all add: btree_wf_def strict_sorted_iff)
  ultimately show ?thesis
    using btree_wf_distinct [OF assms(1)] btree_wf_distinct [OF assms(2)]
    by (intro map_sorted_distinct_set_unique [of fst]) auto
qed

lemma length_btree_insert:
  "btree_wf m \<Longrightarrow> length (btree_insert k v m) = (if btree_get m k = None then length m + 1 else length m)"
proof (induction k v m rule: btree_insert.induct)
  case (2 k v k' v' m)
  then show ?case
    by (auto simp: btree_wf_Cons btree_get_def map_of_eq_None_iff not_less dest: less_asym)
qed (simp add: btree_get_def)

lemma length_btree_remove:
  "btree_wf m \<Longrightarrow> length (btree_remove k m) = (if btree_get m k = None then length m else length m - 1)"
proof (induction m)
  case (Cons e m)
  obtain k' v' where e: "e = (k', v')" by force
  have "k' \<notin> fst ` set m" using Cons.prems by (auto simp: e btree_wf_Cons)
  then have "filter (\<lambda>(k, v). k \<noteq> k') m = m"
    by (auto simp: filter_id_conv image_iff)
  moreover have "m \<noteq> []" if "btree_get m k \<noteq> None" using that by auto
  ultimately show ?case
    using Cons by (auto simp: e btree_remove_def btree_get_def btree_wf_Cons)
qed (simp add: btree_remove_def)

lemma btree_remove_absent: "btree_get m k = None \<Longrightarrow> btree_remove k m = m"
  by (auto simp: btree_get_def btree_remove_def map_of_eq_None_iff filter_id_conv image_iff)

lemma btree_get_values: "btree_get m k = Some v \<Longrightarrow> v \<in> set (btree_values m)"
  by (auto simp: btree_get_def btree_values_def dest: map_of_SomeD intro: rev_image_eqI)

subsection \<open>The interface\<close>

locale finite_map_ops =
  fixes get :: "'m \<Rightarrow> 'k \<Rightarrow> 'v option"
    and ins :: "'k \<Rightarrow> 'v \<Rightarrow> 'm \<Rightarrow> 'm"
    and rem :: "'k \<Rightarrow> 'm \<Rightarrow> 'm"
    and wf :: "'m \<Rightarrow> bool"
  assumes get_ins: "wf m \<Longrightarrow> get (ins k v m) = (get m)(k \<mapsto> v)"
    and get_rem: "wf m \<Longrightarrow> get (rem k m) = (get m)(k := None)"
    and wf_ins: "wf m \<Longrightarrow> wf (ins k v m)"
    and wf_rem: "wf m \<Longrightarrow> wf (rem k m)"
    and ext: "wf m \<Longrightarrow> wf m' \<Longrightarrow> get m = get m' \<Longrightarrow> m = m'"
begin

lemma ins_ins: "wf m \<Longrightarrow> ins k v (ins k w m) = ins k v m"
  by (rule ext) (auto simp: get_ins wf_ins)

lemma ins_commute: "wf m \<Longrightarrow> k \<noteq> l \<Longrightarrow> ins k v (ins l w m) = ins l w (ins k v m)"
  by (rule ext) (auto simp: get_ins wf_ins fun_upd_twist)

lemma rem_ins: "wf m \<Longrightarrow> get m k = None \<Longrightarrow> rem k (ins k v m) = m"
  by (rule ext) (auto simp: get_ins get_rem wf_ins wf_rem fun_upd_idem)

lemma ins_same: "wf m \<Longrightarrow> get m k = Some v \<Longrightarrow> ins k v m = m"
  by (rule ext) (auto simp: get_ins wf_ins fun_upd_idem)

end

interpretation btree: finite_map_ops btree_get btree_insert btree_remove btree_wf
  by unfold_locales (auto simp: fun_eq_iff intro: btree_eqI)

end
