(* ===== verification/Ctap2_Types.thy ===== *)
theory Ctap2_Types
  imports Effects Ordered_Map
begin

section \<open>The vocabulary of CTAP2\<close>

text \<open>
  Commands, status codes, the \<open>credProtect\<close> policy, CBOR values, and the request and response structures of
  \<open>openkey-core/src/ctap2/\<close> (\<open>ctap2.rs\<close>, \<open>cred_mgmt.rs\<close>, \<open>large_blobs.rs\<close>, \<open>client_pin.rs\<close>). Enum constants carry a
  prefix that names the enum (\<open>Cmd_\<close>, \<open>Err_\<close>), record fields one that names the struct; \<open>i32\<close> algorithm
  identifiers are integers.
\<close>

subsection \<open>Commands and status codes\<close>

datatype Ctap2Command =
    Cmd_MakeCredential | Cmd_GetAssertion | Cmd_GetInfo | Cmd_ClientPIN | Cmd_Reset | Cmd_GetNextAssertion
  | Cmd_BioEnroll | Cmd_CredentialManagement | Cmd_Selection | Cmd_LargeBlobs | Cmd_AuthenticatorConfig
  | Cmd_GetVersion | Cmd_EnumerateRPsInitial | Cmd_EnumerateRPsNext | Cmd_Unknown u8

definition command_from_u8 :: "u8 \<Rightarrow> Ctap2Command" where
  "command_from_u8 v =
     (if v = 0x01 then Cmd_MakeCredential
      else if v = 0x02 then Cmd_GetAssertion
      else if v = 0x04 then Cmd_GetInfo
      else if v = 0x06 then Cmd_ClientPIN
      else if v = 0x07 then Cmd_Reset
      else if v = 0x08 then Cmd_GetNextAssertion
      else if v = 0x09 then Cmd_BioEnroll
      else if v = 0x0A then Cmd_CredentialManagement
      else if v = 0x0B then Cmd_Selection
      else if v = 0x0C then Cmd_LargeBlobs
      else if v = 0x0D then Cmd_AuthenticatorConfig
      else if v = 0x0F then Cmd_GetVersion
      else if v = 0x3B then Cmd_EnumerateRPsInitial
      else if v = 0x3C then Cmd_EnumerateRPsNext
      else Cmd_Unknown v)"

datatype Ctap2Error =
    Err_Success | Err_InvalidCommand | Err_InvalidParameter | Err_InvalidLength | Err_MissingParameter
  | Err_InvalidCbor | Err_InvalidState | Err_InvalidOption | Err_Timeout | Err_ResourceBusy
  | Err_CredentialExists | Err_Processing | Err_UnsupportedAlgorithm | Err_UnsupportedOption
  | Err_OperationDenied | Err_InvalidKey | Err_NoCredentials | Err_PinInvalid | Err_PinBlocked
  | Err_PinAuthInvalid | Err_PinAuthBlocked | Err_PinNotSet | Err_PinRequired | Err_PinPolicyViolation
  | Err_PinTokenExpired | Err_UnauthorizedPermission | Err_UvBlocked | Err_PinTokenPending
  | Err_RequestTooLarge | Err_LargeBlobStorageFull | Err_Unknown

primrec error_code :: "Ctap2Error \<Rightarrow> u8" where
  "error_code Err_Success = 0x00"
| "error_code Err_InvalidCommand = 0x01"
| "error_code Err_InvalidParameter = 0x02"
| "error_code Err_InvalidLength = 0x03"
| "error_code Err_MissingParameter = 0x14"
| "error_code Err_InvalidCbor = 0x12"
| "error_code Err_InvalidState = 0x30"
| "error_code Err_InvalidOption = 0x2C"
| "error_code Err_Timeout = 0x3A"
| "error_code Err_ResourceBusy = 0x24"
| "error_code Err_CredentialExists = 0x19"
| "error_code Err_Processing = 0x21"
| "error_code Err_UnsupportedAlgorithm = 0x26"
| "error_code Err_UnsupportedOption = 0x2B"
| "error_code Err_OperationDenied = 0x27"
| "error_code Err_InvalidKey = 0x22"
| "error_code Err_NoCredentials = 0x2E"
| "error_code Err_PinInvalid = 0x31"
| "error_code Err_PinBlocked = 0x32"
| "error_code Err_PinAuthInvalid = 0x33"
| "error_code Err_PinAuthBlocked = 0x34"
| "error_code Err_PinNotSet = 0x35"
| "error_code Err_PinRequired = 0x36"
| "error_code Err_PinPolicyViolation = 0x37"
| "error_code Err_PinTokenExpired = 0x38"
| "error_code Err_UnauthorizedPermission = 0x40"
| "error_code Err_UvBlocked = 0x3C"
| "error_code Err_PinTokenPending = 0x23"
| "error_code Err_RequestTooLarge = 0x39"
| "error_code Err_LargeBlobStorageFull = 0x18"
| "error_code Err_Unknown = 0x7F"

datatype CredProtectPolicy =
  UserVerificationOptional | UserVerificationOptionalWithCredentialIDList | UserVerificationRequired

definition cred_protect_from_u8 :: "u8 \<Rightarrow> CredProtectPolicy" where
  "cred_protect_from_u8 v =
     (if v = 0x02 then UserVerificationOptionalWithCredentialIDList
      else if v = 0x03 then UserVerificationRequired else UserVerificationOptional)"

primrec cred_protect_as_u8 :: "CredProtectPolicy \<Rightarrow> u8" where
  "cred_protect_as_u8 UserVerificationOptional = 0x01"
| "cred_protect_as_u8 UserVerificationOptionalWithCredentialIDList = 0x02"
| "cred_protect_as_u8 UserVerificationRequired = 0x03"

definition CRED_PROTECT_ALLOWLIST_REQUIRED :: u8 where
  "CRED_PROTECT_ALLOWLIST_REQUIRED = cred_protect_as_u8 UserVerificationOptionalWithCredentialIDList"

subsection \<open>CBOR values\<close>

text \<open>\<open>ciborium::Value\<close>. A float is kept as its 64 bits.\<close>

datatype Value =
    Integer int | Bytes bytes | Float u64 | Text string | Bool bool | Null | Tag u64 Value
  | Array "Value list" | Map "(Value \<times> Value) list"

text \<open>\<open>i64::try_from\<close> and \<open>u8::try_from\<close> on an integer.\<close>

definition try_i64 :: "int \<Rightarrow> int option" where
  "try_i64 n = (if - (2 ^ 63) \<le> n \<and> n < 2 ^ 63 then Some n else None)"

definition i64_or_default :: "int \<Rightarrow> int" where
  "i64_or_default n = (case try_i64 n of Some i \<Rightarrow> i | None \<Rightarrow> 0)"

definition try_u8 :: "int \<Rightarrow> u8 option" where
  "try_u8 n = (if 0 \<le> n \<and> n < 256 then Some (of_int n) else None)"

subsection \<open>Requests and responses\<close>

record RelyingParty =
  rpe_id :: string
  rpe_name :: "string option"
  rpe_icon :: "string option"

record User =
  usr_id :: bytes
  usr_name :: "string option"
  usr_display_name :: "string option"
  usr_icon_url :: "string option"

record PublicKeyCredParams =
  pkp_type :: string
  pkp_algorithms :: int

record CredentialDescriptor =
  cd_type :: string
  cd_id :: bytes
  cd_transports :: "string list option"

record Extensions =
  ext_cred_protect :: "u8 option"
  ext_cred_blob :: "bytes option"
  ext_min_pin_length :: bool
  ext_hmac_secret :: "Value option"
  ext_large_blob_key :: bool

definition has_any :: "Extensions \<Rightarrow> bool" where
  "has_any e = (ext_cred_protect e \<noteq> None \<or> ext_cred_blob e \<noteq> None \<or> ext_min_pin_length e
     \<or> ext_hmac_secret e \<noteq> None \<or> ext_large_blob_key e)"

record MakeCredentialOptions =
  mco_rk :: bool
  mco_uv :: bool
  mco_up :: bool
  mco_extended :: bool

definition make_credential_options_default :: MakeCredentialOptions where
  "make_credential_options_default = \<lparr>mco_rk = False, mco_uv = False, mco_up = True, mco_extended = False\<rparr>"

record MakeCredentialRequest =
  mcr_client_data_hash :: bytes
  mcr_rp :: RelyingParty
  mcr_user :: User
  mcr_pub_key_cred_params :: "PublicKeyCredParams list"
  mcr_exclude_list :: "CredentialDescriptor list"
  mcr_extensions :: "Extensions option"
  mcr_options :: MakeCredentialOptions
  mcr_pin_uv_auth_param :: "bytes option"
  mcr_pin_protocol :: "u8 option"
  mcr_enterprise_protections :: "u8 option"

record ExtensionOutputs =
  exo_cred_protect :: "u8 option"
  exo_min_pin_length :: "u32 option"
  exo_cred_blob :: "bytes option"
  exo_hmac_secret :: "Value option"
  exo_large_blob_key :: "bytes option"

definition extension_outputs_default :: ExtensionOutputs where
  "extension_outputs_default =
     \<lparr>exo_cred_protect = None, exo_min_pin_length = None, exo_cred_blob = None, exo_hmac_secret = None,
      exo_large_blob_key = None\<rparr>"

record MakeCredentialResponse =
  mcs_fmt :: string
  mcs_auth_data :: bytes
  mcs_attestation_info :: "(int, Value) btree"
  mcs_extensions :: "ExtensionOutputs option"

record GetAssertionOptions =
  gao_up :: bool
  gao_uv :: bool

definition get_assertion_options_default :: GetAssertionOptions where
  "get_assertion_options_default = \<lparr>gao_up = True, gao_uv = False\<rparr>"

record GetAssertionRequest =
  gar_rp_id :: string
  gar_credentials :: "CredentialDescriptor list"
  gar_allow_list :: "CredentialDescriptor list option"
  gar_client_data_hash :: bytes
  gar_extensions :: "Extensions option"
  gar_options :: GetAssertionOptions
  gar_pin_uv_auth_param :: "bytes option"
  gar_pin_protocol :: "u8 option"
  gar_uv :: "bool option"

record GetAssertionResponse =
  gas_credential :: "CredentialDescriptor option"
  gas_auth_data :: bytes
  gas_signature :: bytes
  gas_user :: "User option"
  gas_number_of_credentials :: "u16 option"
  gas_extensions :: "ExtensionOutputs option"

record CoseAlgorithmEntry =
  cae_alg :: int
  cae_key_type :: string

record SecurityFeatures =
  secure_boot :: bool
  trust_zone :: bool
  hardware_rng :: bool
  sha256_accelerator :: bool
  debug_disable :: bool
  otp_memory :: bool
  unique_id :: bool
  tamper_detection :: bool

definition security_features_default :: SecurityFeatures where
  "security_features_default =
     \<lparr>secure_boot = False, trust_zone = False, hardware_rng = False, sha256_accelerator = False,
      debug_disable = False, otp_memory = False, unique_id = False, tamper_detection = False\<rparr>"

definition has_any_features :: "SecurityFeatures \<Rightarrow> bool" where
  "has_any_features f = (secure_boot f \<or> trust_zone f \<or> hardware_rng f \<or> sha256_accelerator f
     \<or> debug_disable f \<or> otp_memory f \<or> unique_id f \<or> tamper_detection f)"

record GetInfoResponse =
  gis_versions :: "string list"
  gis_extensions :: "string list"
  gis_aaguid :: bytes
  gis_options :: "string list"
  gis_pin_uv_auth_protocols :: "u8 list"
  gis_max_msg_size :: u32
  gis_rp_count :: u32
  gis_max_cred_blob_length :: u32
  gis_max_credential_id_length :: u16
  gis_max_credential_count :: u16
  gis_firmware_version :: u32
  gis_algorithms :: "CoseAlgorithmEntry list"
  gis_security :: "SecurityFeatures option"
  gis_max_large_blob_data_size :: "u32 option"

record GetVersionResponse =
  gvs_firmware_version :: string
  gvs_firmware_commit_id :: string
  gvs_firmware_build_id :: string

record BioEnrollRequest =
  ber_sub_command :: u8
  ber_sub_command_params :: "(string, Value) btree option"

record BioEnrollResponse =
  bes_fingerprint_kind :: u8
  bes_max_enrollments :: u8

record EnumerateRPsResponse =
  ers_rp :: RelyingParty
  ers_rp_hash :: bytes
  ers_total_rps :: u8

subsubsection \<open>Credential management and large blobs\<close>

definition GET_CREDS_METADATA :: u8 where "GET_CREDS_METADATA = 0x01"
definition ENUMERATE_RPS_BEGIN :: u8 where "ENUMERATE_RPS_BEGIN = 0x02"
definition ENUMERATE_RPS_GET_NEXT :: u8 where "ENUMERATE_RPS_GET_NEXT = 0x03"
definition ENUMERATE_CREDENTIALS_BEGIN :: u8 where "ENUMERATE_CREDENTIALS_BEGIN = 0x04"
definition ENUMERATE_CREDENTIALS_GET_NEXT :: u8 where "ENUMERATE_CREDENTIALS_GET_NEXT = 0x05"
definition DELETE_CREDENTIAL :: u8 where "DELETE_CREDENTIAL = 0x06"
definition UPDATE_USER_INFORMATION :: u8 where "UPDATE_USER_INFORMATION = 0x07"

record CredMgmtParams =
  cmp_rp_id_hash :: "bytes option"
  cmp_credential_id :: "CredentialDescriptor option"
  cmp_user :: "User option"

record CredentialManagementRequest =
  cmr_sub_command :: u8
  cmr_sub_command_params :: "CredMgmtParams option"
  cmr_pin_uv_auth_protocol :: "u8 option"
  cmr_pin_uv_auth_param :: "bytes option"

record CredsMetadataResponse =
  cms_existing :: u32
  cms_max_possible_remaining :: u32

record EnumerateRpsEntryResponse =
  ere_rp :: RelyingParty
  ere_rp_id_hash :: bytes
  ere_total_rps :: u32

record EnumerateCredentialsEntryResponse =
  ece_user :: User
  ece_credential_id :: CredentialDescriptor
  ece_public_key :: Value
  ece_total_credentials :: u32
  ece_cred_protect :: "u8 option"
  ece_large_blob_key :: "bytes option"

record LargeBlobsRequest =
  lbr_offset :: u64
  lbr_get :: "u64 option"
  lbr_set :: "bytes option"
  lbr_length :: "u64 option"
  lbr_pin_uv_auth_param :: "bytes option"
  lbr_pin_uv_auth_protocol :: "u8 option"

record LargeBlobsResponse =
  lbs_config :: "bytes option"

subsubsection \<open>Capabilities\<close>

definition AAGUID :: bytes where "AAGUID = replicate 16 0"

record Ctap2Capabilities =
  cap_aaguid :: bytes
  cap_versions :: "string list"
  cap_extensions :: "string list"
  cap_options :: "string list"
  cap_rp_count :: u32
  cap_max_cred_blob_length :: u32
  cap_max_credential_id_length :: u16
  cap_max_credential_count :: u16
  cap_firmware_version :: string
  cap_min_pin_length :: "u32 option"
  cap_pin_uv_auth_protocols :: "u8 list"
  cap_security :: SecurityFeatures
  cap_max_large_blob_data_size :: "u32 option"

definition capabilities_default :: Ctap2Capabilities where
  "capabilities_default =
     \<lparr>cap_aaguid = AAGUID,
      cap_versions = [''FIDO_2_0'', ''FIDO_2_1''],
      cap_extensions = [''credProtect'', ''credBlob'', ''minPinLength'', ''hmac-secret'', ''largeBlobKey''],
      cap_options = [''rk'', ''up'', ''largeBlobs'', ''credMgmt'', ''ep''],
      cap_rp_count = 0,
      cap_max_cred_blob_length = 32,
      cap_max_credential_id_length = 64,
      cap_max_credential_count = 10,
      cap_firmware_version = ''0.1.0'',
      cap_min_pin_length = Some 4,
      cap_pin_uv_auth_protocols = [1, 2],
      cap_security = security_features_default,
      cap_max_large_blob_data_size = Some 4096\<rparr>"

end
