(* ===== verification/Cbor.thy ===== *)
theory Cbor
  imports Ctap2_Types "HOL-Library.Product_Lexorder" "HOL-Library.Multiset"
begin

section \<open>The CBOR wire format\<close>

text \<open>
  Models \<open>ctap_key_to_int\<close>, \<open>root_ctap_keys\<close>, \<open>canonicalize_cbor\<close>, \<open>encode_cbor\<close> and \<open>decode_cbor\<close> of
  \<open>openkey-core/src/ctap2/ctap2.rs\<close>. The codec \<open>ciborium\<close> between bytes and values is the record \<open>CborLib\<close>; the
  serde implementation of a structure, which the compiler derives, is a record \<open>SerdeCodec\<close> with the name
  \<open>core::any::type_name\<close> gives the type. The \<open>match\<close> cascades over field names are tables searched in order.

  Shown: canonicalisation sorts every map by encoded key, drops the null entries and nothing else, and is
  idempotent; the integer labels of the wire are turned back into the field names they came from, for every
  structure but two fields.
\<close>

subsection \<open>Libraries\<close>

record CborLib =
  cv_write :: "Value \<Rightarrow> bytes option"
  cv_read :: "bytes \<Rightarrow> (Value \<times> bytes) option"

record 'a SerdeCodec =
  serde_type :: string
  serde_write :: "'a \<Rightarrow> bytes option"
  serde_read :: "bytes \<Rightarrow> 'a option"

text \<open>\<open>str::contains\<close>.\<close>

fun starts_with :: "string \<Rightarrow> string \<Rightarrow> bool" where
  "starts_with s [] = True"
| "starts_with [] (d # p) = False"
| "starts_with (c # s) (d # p) = (c = d \<and> starts_with s p)"

fun contains :: "string \<Rightarrow> string \<Rightarrow> bool" where
  "contains [] p = (p = [])"
| "contains (c # s) p = (starts_with (c # s) p \<or> contains s p)"

subsection \<open>Field labels\<close>

definition ctap_key_labels :: "(string \<times> int) list" where
  "ctap_key_labels =
     [(''clientDataHash'', 0x01), (''rp'', 0x02), (''user'', 0x03), (''pubKeyCredParams'', 0x04),
      (''excludeList'', 0x05), (''extensions'', 0x06), (''options'', 0x07), (''pinUvAuthParam'', 0x08),
      (''pinUvAuthProtocol'', 0x09), (''enterpriseAttestation'', 0x0A), (''rpId'', 0x01), (''allowList'', 0x03),
      (''credential'', 0x01), (''authData'', 0x02), (''signature'', 0x03), (''numberOfCredentials'', 0x05),
      (''versions'', 0x01), (''aaguid'', 0x03), (''maxMsgSize'', 0x05), (''pinUvAuthProtocols'', 0x06),
      (''algorithms'', 0x0A), (''fmt'', 0x01), (''attStmt'', 0x03), (''subCommandParams'', 0x03),
      (''r#type'', 0x01), (''id'', 0x02), (''type'', 0x01), (''alg'', 0x03)]"

definition ctap_key_to_int :: "string \<Rightarrow> int option" where
  "ctap_key_to_int key = map_of ctap_key_labels key"

text \<open>The labels of one structure, when it is encoded: type, field, label.\<close>

definition encode_labels :: "(string \<times> string \<times> int) list" where
  "encode_labels =
     [(''GetAssertionRequest'', ''rpId'', 0x01),
      (''GetAssertionRequest'', ''clientDataHash'', 0x02),
      (''GetAssertionRequest'', ''allowList'', 0x03),
      (''GetAssertionRequest'', ''extensions'', 0x04),
      (''GetAssertionRequest'', ''options'', 0x05),
      (''GetAssertionRequest'', ''pinUvAuthParam'', 0x06),
      (''GetAssertionRequest'', ''pinUvAuthProtocol'', 0x07),
      (''GetAssertionResponse'', ''credential'', 0x01),
      (''GetAssertionResponse'', ''auth_data'', 0x02),
      (''GetAssertionResponse'', ''signature'', 0x03),
      (''GetAssertionResponse'', ''user'', 0x04),
      (''MakeCredentialResponse'', ''fmt'', 0x01),
      (''MakeCredentialResponse'', ''auth_data'', 0x02),
      (''MakeCredentialResponse'', ''attestation_info'', 0x03),
      (''GetInfoResponse'', ''versions'', 0x01),
      (''GetInfoResponse'', ''extensions'', 0x02),
      (''GetInfoResponse'', ''aaguid'', 0x03),
      (''GetInfoResponse'', ''options'', 0x04),
      (''GetInfoResponse'', ''max_msg_size'', 0x05),
      (''GetInfoResponse'', ''max_credential_count'', 0x07),
      (''GetInfoResponse'', ''max_credential_id_length'', 0x08),
      (''GetInfoResponse'', ''firmware_version'', 0x0E),
      (''GetInfoResponse'', ''max_cred_blob_length'', 0x0F),
      (''GetInfoResponse'', ''maxLargeBlobDataSize'', 0x0B),
      (''GetInfoResponse'', ''max_large_blob_data_size'', 0x0D),
      (''EnumerateRPsResponse'', ''rp'', 0x01),
      (''EnumerateRPsResponse'', ''rpHash'', 0x02),
      (''EnumerateRPsResponse'', ''totalRPs'', 0x03),
      (''BioEnrollRequest'', ''subCommand'', 0x02),
      (''BioEnrollRequest'', ''subCommandParams'', 0x03),
      (''BioEnrollResponse'', ''fingerprintKind'', 0x02),
      (''BioEnrollResponse'', ''maxEnrollments'', 0x03),
      (''CredentialManagementRequest'', ''subCommand'', 0x01),
      (''CredentialManagementRequest'', ''subCommandParams'', 0x02),
      (''CredentialManagementRequest'', ''pinUvAuthProtocol'', 0x03),
      (''CredentialManagementRequest'', ''pinUvAuthParam'', 0x04),
      (''CredsMetadataResponse'', ''existingResidentCredentialsCount'', 0x01),
      (''CredsMetadataResponse'', ''maxPossibleRemainingResidentCredentialsCount'', 0x02),
      (''EnumerateRpsEntryResponse'', ''rp'', 0x03),
      (''EnumerateRpsEntryResponse'', ''rpIDHash'', 0x04),
      (''EnumerateRpsEntryResponse'', ''totalRPs'', 0x05),
      (''EnumerateCredentialsEntryResponse'', ''user'', 0x06),
      (''EnumerateCredentialsEntryResponse'', ''credentialId'', 0x07),
      (''EnumerateCredentialsEntryResponse'', ''publicKey'', 0x08),
      (''EnumerateCredentialsEntryResponse'', ''totalCredentials'', 0x09),
      (''EnumerateCredentialsEntryResponse'', ''credProtect'', 0x0A),
      (''EnumerateCredentialsEntryResponse'', ''largeBlobKey'', 0x0B)]"

definition encode_table :: "string \<Rightarrow> (string \<times> int) list" where
  "encode_table type_name = List.map_filter (\<lambda>(t, f, n). if contains type_name t then Some (f, n) else None) encode_labels"

definition label_of :: "(string \<times> int) list \<Rightarrow> string \<Rightarrow> int option" where
  "label_of table field = (case map_of table field of Some n \<Rightarrow> Some n | None \<Rightarrow> ctap_key_to_int field)"

definition encode_label :: "string \<Rightarrow> string \<Rightarrow> int option" where
  "encode_label type_name field = label_of (encode_table type_name) field"

text \<open>The field names of one structure by label, when it is decoded; the empty name is no name.\<close>

definition decode_labels :: "(string \<times> string list) list" where
  "decode_labels =
     [(''MakeCredentialRequest'',
         ['''', ''clientDataHash'', ''rp'', ''user'', ''pubKeyCredParams'', ''excludeList'', ''extensions'', ''options'',
          ''pinUvAuthParam'', ''pinUvAuthProtocol'', ''enterpriseAttestation'']),
      (''GetAssertionRequest'',
         ['''', ''rpId'', ''clientDataHash'', ''allowList'', ''extensions'', ''options'', ''pinUvAuthParam'',
          ''pinUvAuthProtocol'']),
      (''MakeCredentialResponse'', ['''', ''fmt'', ''authData'', ''attStmt'', ''extensions'']),
      (''GetAssertionResponse'',
         ['''', ''credential'', ''authData'', ''signature'', ''user'', ''numberOfCredentials'', ''extensions'']),
      (''GetInfoResponse'',
         ['''', ''versions'', ''extensions'', ''aaguid'', ''options'', ''maxMsgSize'', ''pinUvAuthProtocols'',
          ''max_credential_count'', ''max_credential_id_length'', '''', ''algorithms'', ''maxLargeBlobDataSize'', '''',
          '''', ''firmware_version'', ''max_cred_blob_length'']),
      (''EnumerateRPsResponse'', ['''', ''rp'', ''rpHash'', ''totalRPs'']),
      (''BioEnrollRequest'', ['''', '''', ''subCommand'', ''subCommandParams'']),
      (''BioEnrollResponse'', ['''', '''', ''fingerprintKind'', ''maxEnrollments'']),
      (''CredentialManagementRequest'',
         ['''', ''subCommand'', ''subCommandParams'', ''pinUvAuthProtocol'', ''pinUvAuthParam'']),
      (''CredsMetadataResponse'',
         ['''', ''existingResidentCredentialsCount'', ''maxPossibleRemainingResidentCredentialsCount''])]"

text \<open>The two structures decoded by a \<open>match\<close> on the label.\<close>

definition decode_matches :: "(string \<times> (int \<times> string) list) list" where
  "decode_matches =
     [(''EnumerateRpsEntryResponse'', [(0x03, ''rp''), (0x04, ''rpIDHash''), (0x05, ''totalRPs'')]),
      (''EnumerateCredentialsEntryResponse'',
         [(0x06, ''user''), (0x07, ''credentialId''), (0x08, ''publicKey''), (0x09, ''totalCredentials''),
          (0x0A, ''credProtect''), (0x0B, ''largeBlobKey'')])]"

text \<open>\<open>n as usize\<close> truncates to the width of the target (32 bits).\<close>

definition int_as_usize :: "int \<Rightarrow> usize" where
  "int_as_usize n = nat (n mod (2 ^ 32))"

definition nth_opt :: "'a list \<Rightarrow> nat \<Rightarrow> 'a option" where
  "nth_opt xs i = (if i < length xs then Some (xs ! i) else None)"

definition decode_row :: "string \<Rightarrow> string list + (int \<times> string) list" where
  "decode_row type_name =
     (case find (\<lambda>(t, fs). contains type_name t) decode_labels of
        Some (t, fs) \<Rightarrow> Inl fs
      | None \<Rightarrow>
          (case find (\<lambda>(t, m). contains type_name t) decode_matches of Some (t, m) \<Rightarrow> Inr m | None \<Rightarrow> Inr []))"

definition name_of :: "string list + (int \<times> string) list \<Rightarrow> int \<Rightarrow> string option" where
  "name_of row n =
     (case try_i64 n of
        None \<Rightarrow> None
      | Some n \<Rightarrow>
          (case (case row of Inl fs \<Rightarrow> nth_opt fs (int_as_usize n) | Inr m \<Rightarrow> map_of m n) of
             Some s \<Rightarrow> if s = [] then None else Some s
           | None \<Rightarrow> None))"

definition decode_label :: "string \<Rightarrow> int \<Rightarrow> string option" where
  "decode_label type_name n = name_of (decode_row type_name) n"

subsection \<open>Values converted with their key\<close>

definition is_text :: "Value \<Rightarrow> bool" where
  "is_text v = (case v of Text _ \<Rightarrow> True | _ \<Rightarrow> False)"

definition is_bool :: "Value \<Rightarrow> bool" where
  "is_bool v = (case v of Bool _ \<Rightarrow> True | _ \<Rightarrow> False)"

text \<open>The \<open>options\<close> of GetInfo: a list of names inside, a map of booleans on the wire.\<close>

definition encode_options :: "Value \<Rightarrow> Value" where
  "encode_options val =
     (case val of
        Array names \<Rightarrow>
          if list_all is_text names
          then (let entries = List.map_filter (\<lambda>name. case name of Text n \<Rightarrow> Some (Text n, Bool True) | _ \<Rightarrow> None) names
                in if list_ex (\<lambda>(k, v). k = Text ''pinUvAuthToken'') entries
                      \<and> \<not> list_ex (\<lambda>(k, v). k = Text ''clientPin'') entries
                   then Map (entries @ [(Text ''clientPin'', Bool False)])
                   else Map entries)
          else val
      | _ \<Rightarrow> val)"

definition decode_options :: "Value \<Rightarrow> Value" where
  "decode_options val =
     (case val of
        Map options \<Rightarrow>
          if list_all (\<lambda>(k, v). is_bool v) options
          then Array (List.map_filter
                        (\<lambda>(name, enabled). case name of
                             Text n \<Rightarrow> (if enabled = Bool True then Some (Text n) else None) | _ \<Rightarrow> None) options)
          else val
      | _ \<Rightarrow> val)"

text \<open>The keys of the parameters of CredentialManagement.\<close>

definition encode_param_key :: "Value \<Rightarrow> Value" where
  "encode_param_key pk =
     (case pk of
        Text pname \<Rightarrow>
          (if pname = ''rpIDHash'' then Integer 1 else if pname = ''credentialId'' then Integer 2
           else if pname = ''user'' then Integer 3 else pk)
      | _ \<Rightarrow> pk)"

definition decode_param_key :: "Value \<Rightarrow> Value" where
  "decode_param_key pk =
     (case pk of
        Integer pn \<Rightarrow>
          (if try_i64 pn = Some 1 then Text ''rpIDHash'' else if try_i64 pn = Some 2 then Text ''credentialId''
           else if try_i64 pn = Some 3 then Text ''user'' else pk)
      | _ \<Rightarrow> pk)"

definition convert_params :: "bool \<Rightarrow> Value \<Rightarrow> Value" where
  "convert_params enc val =
     (case val of
        Map params \<Rightarrow>
          Map (map (\<lambda>(pk, pv). (if enc then encode_param_key pk else decode_param_key pk, pv)) params)
      | _ \<Rightarrow> val)"

definition convert_value :: "bool \<Rightarrow> string \<Rightarrow> Value \<Rightarrow> Value \<Rightarrow> Value" where
  "convert_value enc type_name key val =
     (if contains type_name ''GetInfoResponse''
      then (let is_options = (if enc then key = Text ''options'' else key = Integer 4)
            in if is_options then (if enc then encode_options val else decode_options val) else val)
      else if contains type_name ''CredentialManagementRequest''
      then (let is_params = (if enc then key = Text ''subCommandParams'' else key = Integer 2)
            in if is_params then convert_params enc val else val)
      else val)"

definition convert_key :: "bool \<Rightarrow> string \<Rightarrow> Value \<Rightarrow> Value" where
  "convert_key enc type_name key =
     (if enc
      then (case key of
              Text name \<Rightarrow> (case encode_label type_name name of Some n \<Rightarrow> Integer n | None \<Rightarrow> Text name)
            | _ \<Rightarrow> key)
      else (case key of
              Integer n \<Rightarrow> (case decode_label type_name n of Some s \<Rightarrow> Text s | None \<Rightarrow> Integer n)
            | _ \<Rightarrow> key))"

definition root_ctap_keys :: "Value \<Rightarrow> bool \<Rightarrow> string \<Rightarrow> Value" where
  "root_ctap_keys v enc type_name =
     (case v of
        Map entries \<Rightarrow> Map (map (\<lambda>(key, val). (convert_key enc type_name key, convert_value enc type_name key val)) entries)
      | _ \<Rightarrow> v)"

subsection \<open>Canonical form\<close>

definition key_bytes :: "CborLib \<Rightarrow> Value \<Rightarrow> bytes" where
  "key_bytes lib k = (case cv_write lib k of Some bs \<Rightarrow> bs | None \<Rightarrow> [])"

definition key_rank :: "CborLib \<Rightarrow> Value \<Rightarrow> nat \<times> bytes" where
  "key_rank lib k = (length (key_bytes lib k), key_bytes lib k)"

lemma size_entry_le:
  "(k, v) \<in> set es \<Longrightarrow> size k \<le> Suc (size_list (size_prod size size) es)"
  "(k, v) \<in> set es \<Longrightarrow> size v \<le> Suc (size_list (size_prod size size) es)"
  by (induction es) auto

text \<open>
  An entry is dropped when its value is null; as canonicalisation maps only null to null, one test after it is
  the two tests of the source.
\<close>

function canonicalize_cbor :: "CborLib \<Rightarrow> Value \<Rightarrow> Value" where
  "canonicalize_cbor lib (Map entries) =
     Map (sort_key (\<lambda>(k, v). key_rank lib k)
            (filter (\<lambda>(k, v). v \<noteq> Null)
               (map (\<lambda>(k, v). (canonicalize_cbor lib k, canonicalize_cbor lib v)) entries)))"
| "canonicalize_cbor lib (Array vs) = Array (map (canonicalize_cbor lib) vs)"
| "canonicalize_cbor lib (Integer n) = Integer n"
| "canonicalize_cbor lib (Bytes b) = Bytes b"
| "canonicalize_cbor lib (Float f) = Float f"
| "canonicalize_cbor lib (Text s) = Text s"
| "canonicalize_cbor lib (Bool b) = Bool b"
| "canonicalize_cbor lib Null = Null"
| "canonicalize_cbor lib (Tag t v) = Tag t v"
  by pat_completeness auto
termination
  by (relation "measure (\<lambda>(lib, v). size v)") (auto simp: less_Suc_eq_le size_list_estimation' size_entry_le)

subsection \<open>Encoding and decoding\<close>

definition encode_cbor :: "CborLib \<Rightarrow> 'a SerdeCodec \<Rightarrow> 'a \<Rightarrow> (Ctap2Error, bytes) result" where
  "encode_cbor lib codec v =
     bind_result (ok_or (serde_write codec v) Err_Unknown) (\<lambda>raw.
     bind_result (ok_or (cv_read lib raw) Err_Unknown) (\<lambda>(parsed, rest).
       let normalized = root_ctap_keys parsed True (serde_type codec);
           canonical = canonicalize_cbor lib normalized
       in ok_or (cv_write lib canonical) Err_Unknown))"

definition decode_cbor :: "CborLib \<Rightarrow> 'a SerdeCodec \<Rightarrow> bytes \<Rightarrow> (Ctap2Error, 'a) result" where
  "decode_cbor lib codec data =
     bind_result (ok_or (cv_read lib data) Err_InvalidCbor) (\<lambda>(parsed, restante).
       if restante \<noteq> [] then Inl Err_InvalidCbor
       else (let normalized = root_ctap_keys parsed False (serde_type codec)
             in bind_result (ok_or (cv_write lib normalized) Err_InvalidCbor)
                  (\<lambda>buf. ok_or (serde_read codec buf) Err_InvalidCbor)))"

subsection \<open>Canonicalisation\<close>

text \<open>A canonical value: in every map outside tags the keys are sorted and no value is null.\<close>

function canonical :: "CborLib \<Rightarrow> Value \<Rightarrow> bool" where
  "canonical lib (Map entries) =
     (sorted (map (\<lambda>(k, v). key_rank lib k) entries)
      \<and> list_all (\<lambda>(k, v). v \<noteq> Null \<and> canonical lib k \<and> canonical lib v) entries)"
| "canonical lib (Array vs) = list_all (canonical lib) vs"
| "canonical lib (Integer n) = True"
| "canonical lib (Bytes b) = True"
| "canonical lib (Float f) = True"
| "canonical lib (Text s) = True"
| "canonical lib (Bool b) = True"
| "canonical lib Null = True"
| "canonical lib (Tag t v) = True"
  by pat_completeness auto
termination
  by (relation "measure (\<lambda>(lib, v). size v)") (auto simp: less_Suc_eq_le size_list_estimation' size_entry_le)

lemma canonicalize_Null [simp]: "canonicalize_cbor lib v = Null \<longleftrightarrow> v = Null"
  by (cases v) simp_all

lemma canonical_canonicalize: "canonical lib (canonicalize_cbor lib v)"
proof (induction lib v rule: canonicalize_cbor.induct)
  case (1 lib entries)
  have "sorted (map (\<lambda>(k, v). key_rank lib k) (sort_key (\<lambda>(k, v). key_rank lib k) xs))" for xs :: "(Value \<times> Value) list"
    using sorted_sort_key [of "\<lambda>(k, v). key_rank lib k" xs] by simp
  then show ?case using 1 by (auto simp: list_all_iff)
qed (auto simp: list_all_iff)

lemma canonicalize_canonical: "canonical lib v \<Longrightarrow> canonicalize_cbor lib v = v"
proof (induction lib v rule: canonicalize_cbor.induct)
  case (1 lib entries)
  have entry: "canonicalize_cbor lib k = k \<and> canonicalize_cbor lib v = v \<and> v \<noteq> Null" if "(k, v) \<in> set entries" for k v
    using 1 that by (auto simp: list_all_iff)
  have "map (\<lambda>(k, v). (canonicalize_cbor lib k, canonicalize_cbor lib v)) entries = entries"
    using entry by (auto intro!: map_idI)
  moreover have "filter (\<lambda>(k, v). v \<noteq> Null) entries = entries"
    using entry by (auto simp: filter_id_conv)
  moreover have "sort_key (\<lambda>(k, v). key_rank lib k) entries = entries"
    using 1(3) by (simp add: sort_key_id_if_sorted)
  ultimately show ?case by simp
qed (auto simp: list_all_iff map_idI)


subsection \<open>Field names and labels\<close>

text \<open>
  The structures that go through \<open>root_ctap_keys\<close> and the names serde gives their fields. Left out are the two
  fields of the next subsection, whose label is not read back, and fields serde skips.
\<close>

definition wire_schemas :: "(string \<times> string list) list" where
  "wire_schemas =
     [(''openkey_core::ctap2::MakeCredentialRequest'',
         [''clientDataHash'', ''rp'', ''user'', ''pubKeyCredParams'', ''excludeList'', ''extensions'', ''options'',
          ''pinUvAuthParam'', ''pinUvAuthProtocol'', ''enterpriseAttestation'']),
      (''openkey_core::ctap2::MakeCredentialResponse'', [''fmt'', ''authData'', ''attStmt'']),
      (''openkey_core::ctap2::GetAssertionRequest'',
         [''rpId'', ''allowList'', ''clientDataHash'', ''extensions'', ''options'', ''pinUvAuthParam'',
          ''pinUvAuthProtocol'', ''uv'']),
      (''openkey_core::ctap2::GetAssertionResponse'',
         [''credential'', ''authData'', ''signature'', ''user'', ''numberOfCredentials'', ''extensions'']),
      (''openkey_core::ctap2::GetInfoResponse'',
         [''versions'', ''extensions'', ''aaguid'', ''options'', ''pinUvAuthProtocols'', ''max_cred_blob_length'',
          ''max_credential_id_length'', ''max_credential_count'', ''firmware_version'', ''algorithms'', ''security'',
          ''maxLargeBlobDataSize'']),
      (''openkey_core::ctap2::GetVersionResponse'',
         [''firmware_version'', ''firmware_commit_id'', ''firmware_build_id'']),
      (''openkey_core::ctap2::BioEnrollRequest'', [''subCommand'', ''subCommandParams'']),
      (''openkey_core::ctap2::BioEnrollResponse'', [''fingerprintKind'', ''maxEnrollments'']),
      (''openkey_core::ctap2::EnumerateRPsResponse'', [''rp'', ''rpHash'', ''totalRPs'']),
      (''openkey_core::cred_mgmt::CredentialManagementRequest'',
         [''subCommand'', ''subCommandParams'', ''pinUvAuthProtocol'', ''pinUvAuthParam'']),
      (''openkey_core::cred_mgmt::CredsMetadataResponse'',
         [''existingResidentCredentialsCount'', ''maxPossibleRemainingResidentCredentialsCount'']),
      (''openkey_core::cred_mgmt::EnumerateRpsEntryResponse'', [''rp'', ''rpIDHash'', ''totalRPs'']),
      (''openkey_core::cred_mgmt::EnumerateCredentialsEntryResponse'',
         [''user'', ''credentialId'', ''publicKey'', ''totalCredentials'', ''credProtect'', ''largeBlobKey''])]"

text \<open>What one field needs: its label is read back as the field, and only it has the label that converts its value.\<close>

definition label_check :: "(string \<times> int) list \<Rightarrow> string list + (int \<times> string) list \<Rightarrow> bool \<Rightarrow> bool \<Rightarrow> string \<Rightarrow> bool" where
  "label_check table row info mgmt f =
     ((case label_of table f of Some n \<Rightarrow> name_of row n = Some f | None \<Rightarrow> True)
      \<and> (info \<longrightarrow> (label_of table f = Some 4 \<longleftrightarrow> f = ''options''))
      \<and> (mgmt \<longrightarrow> (label_of table f = Some 2 \<longleftrightarrow> f = ''subCommandParams'')))"

definition label_ok :: "string \<Rightarrow> string \<Rightarrow> bool" where
  "label_ok t = label_check (encode_table t) (decode_row t)
     (contains t ''GetInfoResponse'') (contains t ''CredentialManagementRequest'')"

lemma contains_MakeCredentialRequest:
  "contains ''openkey_core::ctap2::MakeCredentialRequest'' ''MakeCredentialRequest''
   \<and> \<not> contains ''openkey_core::ctap2::MakeCredentialRequest'' ''GetAssertionRequest''
   \<and> \<not> contains ''openkey_core::ctap2::MakeCredentialRequest'' ''GetAssertionResponse''
   \<and> \<not> contains ''openkey_core::ctap2::MakeCredentialRequest'' ''MakeCredentialResponse''
   \<and> \<not> contains ''openkey_core::ctap2::MakeCredentialRequest'' ''GetInfoResponse''
   \<and> \<not> contains ''openkey_core::ctap2::MakeCredentialRequest'' ''EnumerateRPsResponse''
   \<and> \<not> contains ''openkey_core::ctap2::MakeCredentialRequest'' ''BioEnrollRequest''
   \<and> \<not> contains ''openkey_core::ctap2::MakeCredentialRequest'' ''BioEnrollResponse''
   \<and> \<not> contains ''openkey_core::ctap2::MakeCredentialRequest'' ''CredentialManagementRequest''
   \<and> \<not> contains ''openkey_core::ctap2::MakeCredentialRequest'' ''CredsMetadataResponse''
   \<and> \<not> contains ''openkey_core::ctap2::MakeCredentialRequest'' ''EnumerateRpsEntryResponse''
   \<and> \<not> contains ''openkey_core::ctap2::MakeCredentialRequest'' ''EnumerateCredentialsEntryResponse''"
  by code_simp

lemma tables_MakeCredentialRequest:
  "encode_table ''openkey_core::ctap2::MakeCredentialRequest'' =
     []"
  "decode_row ''openkey_core::ctap2::MakeCredentialRequest'' =
     Inl ['''', ''clientDataHash'', ''rp'', ''user'', ''pubKeyCredParams'', ''excludeList'', ''extensions'',
      ''options'', ''pinUvAuthParam'', ''pinUvAuthProtocol'', ''enterpriseAttestation'']"
  by (simp_all add: encode_table_def encode_labels_def decode_row_def decode_labels_def decode_matches_def
      List.map_filter_def contains_MakeCredentialRequest del: contains.simps)

lemma label_ok_MakeCredentialRequest:
  "list_all (label_ok ''openkey_core::ctap2::MakeCredentialRequest'')
     [''clientDataHash'', ''rp'', ''user'', ''pubKeyCredParams'', ''excludeList'', ''extensions'', ''options'',
      ''pinUvAuthParam'', ''pinUvAuthProtocol'', ''enterpriseAttestation'']"
  by (simp only: label_ok_def tables_MakeCredentialRequest contains_MakeCredentialRequest, code_simp)

lemma contains_MakeCredentialResponse:
  "\<not> contains ''openkey_core::ctap2::MakeCredentialResponse'' ''MakeCredentialRequest''
   \<and> \<not> contains ''openkey_core::ctap2::MakeCredentialResponse'' ''GetAssertionRequest''
   \<and> \<not> contains ''openkey_core::ctap2::MakeCredentialResponse'' ''GetAssertionResponse''
   \<and> contains ''openkey_core::ctap2::MakeCredentialResponse'' ''MakeCredentialResponse''
   \<and> \<not> contains ''openkey_core::ctap2::MakeCredentialResponse'' ''GetInfoResponse''
   \<and> \<not> contains ''openkey_core::ctap2::MakeCredentialResponse'' ''EnumerateRPsResponse''
   \<and> \<not> contains ''openkey_core::ctap2::MakeCredentialResponse'' ''BioEnrollRequest''
   \<and> \<not> contains ''openkey_core::ctap2::MakeCredentialResponse'' ''BioEnrollResponse''
   \<and> \<not> contains ''openkey_core::ctap2::MakeCredentialResponse'' ''CredentialManagementRequest''
   \<and> \<not> contains ''openkey_core::ctap2::MakeCredentialResponse'' ''CredsMetadataResponse''
   \<and> \<not> contains ''openkey_core::ctap2::MakeCredentialResponse'' ''EnumerateRpsEntryResponse''
   \<and> \<not> contains ''openkey_core::ctap2::MakeCredentialResponse'' ''EnumerateCredentialsEntryResponse''"
  by code_simp

lemma tables_MakeCredentialResponse:
  "encode_table ''openkey_core::ctap2::MakeCredentialResponse'' =
     [(''fmt'', 0x01), (''auth_data'', 0x02), (''attestation_info'', 0x03)]"
  "decode_row ''openkey_core::ctap2::MakeCredentialResponse'' =
     Inl ['''', ''fmt'', ''authData'', ''attStmt'', ''extensions'']"
  by (simp_all add: encode_table_def encode_labels_def decode_row_def decode_labels_def decode_matches_def
      List.map_filter_def contains_MakeCredentialResponse del: contains.simps)

lemma label_ok_MakeCredentialResponse:
  "list_all (label_ok ''openkey_core::ctap2::MakeCredentialResponse'')
     [''fmt'', ''authData'', ''attStmt'']"
  by (simp only: label_ok_def tables_MakeCredentialResponse contains_MakeCredentialResponse, code_simp)

lemma contains_GetAssertionRequest:
  "\<not> contains ''openkey_core::ctap2::GetAssertionRequest'' ''MakeCredentialRequest''
   \<and> contains ''openkey_core::ctap2::GetAssertionRequest'' ''GetAssertionRequest''
   \<and> \<not> contains ''openkey_core::ctap2::GetAssertionRequest'' ''GetAssertionResponse''
   \<and> \<not> contains ''openkey_core::ctap2::GetAssertionRequest'' ''MakeCredentialResponse''
   \<and> \<not> contains ''openkey_core::ctap2::GetAssertionRequest'' ''GetInfoResponse''
   \<and> \<not> contains ''openkey_core::ctap2::GetAssertionRequest'' ''EnumerateRPsResponse''
   \<and> \<not> contains ''openkey_core::ctap2::GetAssertionRequest'' ''BioEnrollRequest''
   \<and> \<not> contains ''openkey_core::ctap2::GetAssertionRequest'' ''BioEnrollResponse''
   \<and> \<not> contains ''openkey_core::ctap2::GetAssertionRequest'' ''CredentialManagementRequest''
   \<and> \<not> contains ''openkey_core::ctap2::GetAssertionRequest'' ''CredsMetadataResponse''
   \<and> \<not> contains ''openkey_core::ctap2::GetAssertionRequest'' ''EnumerateRpsEntryResponse''
   \<and> \<not> contains ''openkey_core::ctap2::GetAssertionRequest'' ''EnumerateCredentialsEntryResponse''"
  by code_simp

lemma tables_GetAssertionRequest:
  "encode_table ''openkey_core::ctap2::GetAssertionRequest'' =
     [(''rpId'', 0x01), (''clientDataHash'', 0x02), (''allowList'', 0x03), (''extensions'', 0x04), (''options'',
      0x05), (''pinUvAuthParam'', 0x06), (''pinUvAuthProtocol'', 0x07)]"
  "decode_row ''openkey_core::ctap2::GetAssertionRequest'' =
     Inl ['''', ''rpId'', ''clientDataHash'', ''allowList'', ''extensions'', ''options'', ''pinUvAuthParam'',
      ''pinUvAuthProtocol'']"
  by (simp_all add: encode_table_def encode_labels_def decode_row_def decode_labels_def decode_matches_def
      List.map_filter_def contains_GetAssertionRequest del: contains.simps)

lemma label_ok_GetAssertionRequest:
  "list_all (label_ok ''openkey_core::ctap2::GetAssertionRequest'')
     [''rpId'', ''allowList'', ''clientDataHash'', ''extensions'', ''options'', ''pinUvAuthParam'',
      ''pinUvAuthProtocol'', ''uv'']"
  by (simp only: label_ok_def tables_GetAssertionRequest contains_GetAssertionRequest, code_simp)

lemma contains_GetAssertionResponse:
  "\<not> contains ''openkey_core::ctap2::GetAssertionResponse'' ''MakeCredentialRequest''
   \<and> \<not> contains ''openkey_core::ctap2::GetAssertionResponse'' ''GetAssertionRequest''
   \<and> contains ''openkey_core::ctap2::GetAssertionResponse'' ''GetAssertionResponse''
   \<and> \<not> contains ''openkey_core::ctap2::GetAssertionResponse'' ''MakeCredentialResponse''
   \<and> \<not> contains ''openkey_core::ctap2::GetAssertionResponse'' ''GetInfoResponse''
   \<and> \<not> contains ''openkey_core::ctap2::GetAssertionResponse'' ''EnumerateRPsResponse''
   \<and> \<not> contains ''openkey_core::ctap2::GetAssertionResponse'' ''BioEnrollRequest''
   \<and> \<not> contains ''openkey_core::ctap2::GetAssertionResponse'' ''BioEnrollResponse''
   \<and> \<not> contains ''openkey_core::ctap2::GetAssertionResponse'' ''CredentialManagementRequest''
   \<and> \<not> contains ''openkey_core::ctap2::GetAssertionResponse'' ''CredsMetadataResponse''
   \<and> \<not> contains ''openkey_core::ctap2::GetAssertionResponse'' ''EnumerateRpsEntryResponse''
   \<and> \<not> contains ''openkey_core::ctap2::GetAssertionResponse'' ''EnumerateCredentialsEntryResponse''"
  by code_simp

lemma tables_GetAssertionResponse:
  "encode_table ''openkey_core::ctap2::GetAssertionResponse'' =
     [(''credential'', 0x01), (''auth_data'', 0x02), (''signature'', 0x03), (''user'', 0x04)]"
  "decode_row ''openkey_core::ctap2::GetAssertionResponse'' =
     Inl ['''', ''credential'', ''authData'', ''signature'', ''user'', ''numberOfCredentials'', ''extensions'']"
  by (simp_all add: encode_table_def encode_labels_def decode_row_def decode_labels_def decode_matches_def
      List.map_filter_def contains_GetAssertionResponse del: contains.simps)

lemma label_ok_GetAssertionResponse:
  "list_all (label_ok ''openkey_core::ctap2::GetAssertionResponse'')
     [''credential'', ''authData'', ''signature'', ''user'', ''numberOfCredentials'', ''extensions'']"
  by (simp only: label_ok_def tables_GetAssertionResponse contains_GetAssertionResponse, code_simp)

lemma contains_GetInfoResponse:
  "\<not> contains ''openkey_core::ctap2::GetInfoResponse'' ''MakeCredentialRequest''
   \<and> \<not> contains ''openkey_core::ctap2::GetInfoResponse'' ''GetAssertionRequest''
   \<and> \<not> contains ''openkey_core::ctap2::GetInfoResponse'' ''GetAssertionResponse''
   \<and> \<not> contains ''openkey_core::ctap2::GetInfoResponse'' ''MakeCredentialResponse''
   \<and> contains ''openkey_core::ctap2::GetInfoResponse'' ''GetInfoResponse''
   \<and> \<not> contains ''openkey_core::ctap2::GetInfoResponse'' ''EnumerateRPsResponse''
   \<and> \<not> contains ''openkey_core::ctap2::GetInfoResponse'' ''BioEnrollRequest''
   \<and> \<not> contains ''openkey_core::ctap2::GetInfoResponse'' ''BioEnrollResponse''
   \<and> \<not> contains ''openkey_core::ctap2::GetInfoResponse'' ''CredentialManagementRequest''
   \<and> \<not> contains ''openkey_core::ctap2::GetInfoResponse'' ''CredsMetadataResponse''
   \<and> \<not> contains ''openkey_core::ctap2::GetInfoResponse'' ''EnumerateRpsEntryResponse''
   \<and> \<not> contains ''openkey_core::ctap2::GetInfoResponse'' ''EnumerateCredentialsEntryResponse''"
  by code_simp

lemma tables_GetInfoResponse:
  "encode_table ''openkey_core::ctap2::GetInfoResponse'' =
     [(''versions'', 0x01), (''extensions'', 0x02), (''aaguid'', 0x03), (''options'', 0x04), (''max_msg_size'',
      0x05), (''max_credential_count'', 0x07), (''max_credential_id_length'', 0x08), (''firmware_version'',
      0x0E), (''max_cred_blob_length'', 0x0F), (''maxLargeBlobDataSize'', 0x0B), (''max_large_blob_data_size'',
      0x0D)]"
  "decode_row ''openkey_core::ctap2::GetInfoResponse'' =
     Inl ['''', ''versions'', ''extensions'', ''aaguid'', ''options'', ''maxMsgSize'', ''pinUvAuthProtocols'',
      ''max_credential_count'', ''max_credential_id_length'', '''', ''algorithms'', ''maxLargeBlobDataSize'',
      '''', '''', ''firmware_version'', ''max_cred_blob_length'']"
  by (simp_all add: encode_table_def encode_labels_def decode_row_def decode_labels_def decode_matches_def
      List.map_filter_def contains_GetInfoResponse del: contains.simps)

lemma label_ok_GetInfoResponse:
  "list_all (label_ok ''openkey_core::ctap2::GetInfoResponse'')
     [''versions'', ''extensions'', ''aaguid'', ''options'', ''pinUvAuthProtocols'', ''max_cred_blob_length'',
      ''max_credential_id_length'', ''max_credential_count'', ''firmware_version'', ''algorithms'',
      ''security'', ''maxLargeBlobDataSize'']"
  by (simp only: label_ok_def tables_GetInfoResponse contains_GetInfoResponse, code_simp)

lemma contains_GetVersionResponse:
  "\<not> contains ''openkey_core::ctap2::GetVersionResponse'' ''MakeCredentialRequest''
   \<and> \<not> contains ''openkey_core::ctap2::GetVersionResponse'' ''GetAssertionRequest''
   \<and> \<not> contains ''openkey_core::ctap2::GetVersionResponse'' ''GetAssertionResponse''
   \<and> \<not> contains ''openkey_core::ctap2::GetVersionResponse'' ''MakeCredentialResponse''
   \<and> \<not> contains ''openkey_core::ctap2::GetVersionResponse'' ''GetInfoResponse''
   \<and> \<not> contains ''openkey_core::ctap2::GetVersionResponse'' ''EnumerateRPsResponse''
   \<and> \<not> contains ''openkey_core::ctap2::GetVersionResponse'' ''BioEnrollRequest''
   \<and> \<not> contains ''openkey_core::ctap2::GetVersionResponse'' ''BioEnrollResponse''
   \<and> \<not> contains ''openkey_core::ctap2::GetVersionResponse'' ''CredentialManagementRequest''
   \<and> \<not> contains ''openkey_core::ctap2::GetVersionResponse'' ''CredsMetadataResponse''
   \<and> \<not> contains ''openkey_core::ctap2::GetVersionResponse'' ''EnumerateRpsEntryResponse''
   \<and> \<not> contains ''openkey_core::ctap2::GetVersionResponse'' ''EnumerateCredentialsEntryResponse''"
  by code_simp

lemma tables_GetVersionResponse:
  "encode_table ''openkey_core::ctap2::GetVersionResponse'' =
     []"
  "decode_row ''openkey_core::ctap2::GetVersionResponse'' =
     Inr []"
  by (simp_all add: encode_table_def encode_labels_def decode_row_def decode_labels_def decode_matches_def
      List.map_filter_def contains_GetVersionResponse del: contains.simps)

lemma label_ok_GetVersionResponse:
  "list_all (label_ok ''openkey_core::ctap2::GetVersionResponse'')
     [''firmware_version'', ''firmware_commit_id'', ''firmware_build_id'']"
  by (simp only: label_ok_def tables_GetVersionResponse contains_GetVersionResponse, code_simp)

lemma contains_BioEnrollRequest:
  "\<not> contains ''openkey_core::ctap2::BioEnrollRequest'' ''MakeCredentialRequest''
   \<and> \<not> contains ''openkey_core::ctap2::BioEnrollRequest'' ''GetAssertionRequest''
   \<and> \<not> contains ''openkey_core::ctap2::BioEnrollRequest'' ''GetAssertionResponse''
   \<and> \<not> contains ''openkey_core::ctap2::BioEnrollRequest'' ''MakeCredentialResponse''
   \<and> \<not> contains ''openkey_core::ctap2::BioEnrollRequest'' ''GetInfoResponse''
   \<and> \<not> contains ''openkey_core::ctap2::BioEnrollRequest'' ''EnumerateRPsResponse''
   \<and> contains ''openkey_core::ctap2::BioEnrollRequest'' ''BioEnrollRequest''
   \<and> \<not> contains ''openkey_core::ctap2::BioEnrollRequest'' ''BioEnrollResponse''
   \<and> \<not> contains ''openkey_core::ctap2::BioEnrollRequest'' ''CredentialManagementRequest''
   \<and> \<not> contains ''openkey_core::ctap2::BioEnrollRequest'' ''CredsMetadataResponse''
   \<and> \<not> contains ''openkey_core::ctap2::BioEnrollRequest'' ''EnumerateRpsEntryResponse''
   \<and> \<not> contains ''openkey_core::ctap2::BioEnrollRequest'' ''EnumerateCredentialsEntryResponse''"
  by code_simp

lemma tables_BioEnrollRequest:
  "encode_table ''openkey_core::ctap2::BioEnrollRequest'' =
     [(''subCommand'', 0x02), (''subCommandParams'', 0x03)]"
  "decode_row ''openkey_core::ctap2::BioEnrollRequest'' =
     Inl ['''', '''', ''subCommand'', ''subCommandParams'']"
  by (simp_all add: encode_table_def encode_labels_def decode_row_def decode_labels_def decode_matches_def
      List.map_filter_def contains_BioEnrollRequest del: contains.simps)

lemma label_ok_BioEnrollRequest:
  "list_all (label_ok ''openkey_core::ctap2::BioEnrollRequest'')
     [''subCommand'', ''subCommandParams'']"
  by (simp only: label_ok_def tables_BioEnrollRequest contains_BioEnrollRequest, code_simp)

lemma contains_BioEnrollResponse:
  "\<not> contains ''openkey_core::ctap2::BioEnrollResponse'' ''MakeCredentialRequest''
   \<and> \<not> contains ''openkey_core::ctap2::BioEnrollResponse'' ''GetAssertionRequest''
   \<and> \<not> contains ''openkey_core::ctap2::BioEnrollResponse'' ''GetAssertionResponse''
   \<and> \<not> contains ''openkey_core::ctap2::BioEnrollResponse'' ''MakeCredentialResponse''
   \<and> \<not> contains ''openkey_core::ctap2::BioEnrollResponse'' ''GetInfoResponse''
   \<and> \<not> contains ''openkey_core::ctap2::BioEnrollResponse'' ''EnumerateRPsResponse''
   \<and> \<not> contains ''openkey_core::ctap2::BioEnrollResponse'' ''BioEnrollRequest''
   \<and> contains ''openkey_core::ctap2::BioEnrollResponse'' ''BioEnrollResponse''
   \<and> \<not> contains ''openkey_core::ctap2::BioEnrollResponse'' ''CredentialManagementRequest''
   \<and> \<not> contains ''openkey_core::ctap2::BioEnrollResponse'' ''CredsMetadataResponse''
   \<and> \<not> contains ''openkey_core::ctap2::BioEnrollResponse'' ''EnumerateRpsEntryResponse''
   \<and> \<not> contains ''openkey_core::ctap2::BioEnrollResponse'' ''EnumerateCredentialsEntryResponse''"
  by code_simp

lemma tables_BioEnrollResponse:
  "encode_table ''openkey_core::ctap2::BioEnrollResponse'' =
     [(''fingerprintKind'', 0x02), (''maxEnrollments'', 0x03)]"
  "decode_row ''openkey_core::ctap2::BioEnrollResponse'' =
     Inl ['''', '''', ''fingerprintKind'', ''maxEnrollments'']"
  by (simp_all add: encode_table_def encode_labels_def decode_row_def decode_labels_def decode_matches_def
      List.map_filter_def contains_BioEnrollResponse del: contains.simps)

lemma label_ok_BioEnrollResponse:
  "list_all (label_ok ''openkey_core::ctap2::BioEnrollResponse'')
     [''fingerprintKind'', ''maxEnrollments'']"
  by (simp only: label_ok_def tables_BioEnrollResponse contains_BioEnrollResponse, code_simp)

lemma contains_EnumerateRPsResponse:
  "\<not> contains ''openkey_core::ctap2::EnumerateRPsResponse'' ''MakeCredentialRequest''
   \<and> \<not> contains ''openkey_core::ctap2::EnumerateRPsResponse'' ''GetAssertionRequest''
   \<and> \<not> contains ''openkey_core::ctap2::EnumerateRPsResponse'' ''GetAssertionResponse''
   \<and> \<not> contains ''openkey_core::ctap2::EnumerateRPsResponse'' ''MakeCredentialResponse''
   \<and> \<not> contains ''openkey_core::ctap2::EnumerateRPsResponse'' ''GetInfoResponse''
   \<and> contains ''openkey_core::ctap2::EnumerateRPsResponse'' ''EnumerateRPsResponse''
   \<and> \<not> contains ''openkey_core::ctap2::EnumerateRPsResponse'' ''BioEnrollRequest''
   \<and> \<not> contains ''openkey_core::ctap2::EnumerateRPsResponse'' ''BioEnrollResponse''
   \<and> \<not> contains ''openkey_core::ctap2::EnumerateRPsResponse'' ''CredentialManagementRequest''
   \<and> \<not> contains ''openkey_core::ctap2::EnumerateRPsResponse'' ''CredsMetadataResponse''
   \<and> \<not> contains ''openkey_core::ctap2::EnumerateRPsResponse'' ''EnumerateRpsEntryResponse''
   \<and> \<not> contains ''openkey_core::ctap2::EnumerateRPsResponse'' ''EnumerateCredentialsEntryResponse''"
  by code_simp

lemma tables_EnumerateRPsResponse:
  "encode_table ''openkey_core::ctap2::EnumerateRPsResponse'' =
     [(''rp'', 0x01), (''rpHash'', 0x02), (''totalRPs'', 0x03)]"
  "decode_row ''openkey_core::ctap2::EnumerateRPsResponse'' =
     Inl ['''', ''rp'', ''rpHash'', ''totalRPs'']"
  by (simp_all add: encode_table_def encode_labels_def decode_row_def decode_labels_def decode_matches_def
      List.map_filter_def contains_EnumerateRPsResponse del: contains.simps)

lemma label_ok_EnumerateRPsResponse:
  "list_all (label_ok ''openkey_core::ctap2::EnumerateRPsResponse'')
     [''rp'', ''rpHash'', ''totalRPs'']"
  by (simp only: label_ok_def tables_EnumerateRPsResponse contains_EnumerateRPsResponse, code_simp)

lemma contains_CredentialManagementRequest:
  "\<not> contains ''openkey_core::cred_mgmt::CredentialManagementRequest'' ''MakeCredentialRequest''
   \<and> \<not> contains ''openkey_core::cred_mgmt::CredentialManagementRequest'' ''GetAssertionRequest''
   \<and> \<not> contains ''openkey_core::cred_mgmt::CredentialManagementRequest'' ''GetAssertionResponse''
   \<and> \<not> contains ''openkey_core::cred_mgmt::CredentialManagementRequest'' ''MakeCredentialResponse''
   \<and> \<not> contains ''openkey_core::cred_mgmt::CredentialManagementRequest'' ''GetInfoResponse''
   \<and> \<not> contains ''openkey_core::cred_mgmt::CredentialManagementRequest'' ''EnumerateRPsResponse''
   \<and> \<not> contains ''openkey_core::cred_mgmt::CredentialManagementRequest'' ''BioEnrollRequest''
   \<and> \<not> contains ''openkey_core::cred_mgmt::CredentialManagementRequest'' ''BioEnrollResponse''
   \<and> contains ''openkey_core::cred_mgmt::CredentialManagementRequest'' ''CredentialManagementRequest''
   \<and> \<not> contains ''openkey_core::cred_mgmt::CredentialManagementRequest'' ''CredsMetadataResponse''
   \<and> \<not> contains ''openkey_core::cred_mgmt::CredentialManagementRequest'' ''EnumerateRpsEntryResponse''
   \<and> \<not> contains ''openkey_core::cred_mgmt::CredentialManagementRequest'' ''EnumerateCredentialsEntryResponse''"
  by code_simp

lemma tables_CredentialManagementRequest:
  "encode_table ''openkey_core::cred_mgmt::CredentialManagementRequest'' =
     [(''subCommand'', 0x01), (''subCommandParams'', 0x02), (''pinUvAuthProtocol'', 0x03), (''pinUvAuthParam'',
      0x04)]"
  "decode_row ''openkey_core::cred_mgmt::CredentialManagementRequest'' =
     Inl ['''', ''subCommand'', ''subCommandParams'', ''pinUvAuthProtocol'', ''pinUvAuthParam'']"
  by (simp_all add: encode_table_def encode_labels_def decode_row_def decode_labels_def decode_matches_def
      List.map_filter_def contains_CredentialManagementRequest del: contains.simps)

lemma label_ok_CredentialManagementRequest:
  "list_all (label_ok ''openkey_core::cred_mgmt::CredentialManagementRequest'')
     [''subCommand'', ''subCommandParams'', ''pinUvAuthProtocol'', ''pinUvAuthParam'']"
  by (simp only: label_ok_def tables_CredentialManagementRequest contains_CredentialManagementRequest, code_simp)

lemma contains_CredsMetadataResponse:
  "\<not> contains ''openkey_core::cred_mgmt::CredsMetadataResponse'' ''MakeCredentialRequest''
   \<and> \<not> contains ''openkey_core::cred_mgmt::CredsMetadataResponse'' ''GetAssertionRequest''
   \<and> \<not> contains ''openkey_core::cred_mgmt::CredsMetadataResponse'' ''GetAssertionResponse''
   \<and> \<not> contains ''openkey_core::cred_mgmt::CredsMetadataResponse'' ''MakeCredentialResponse''
   \<and> \<not> contains ''openkey_core::cred_mgmt::CredsMetadataResponse'' ''GetInfoResponse''
   \<and> \<not> contains ''openkey_core::cred_mgmt::CredsMetadataResponse'' ''EnumerateRPsResponse''
   \<and> \<not> contains ''openkey_core::cred_mgmt::CredsMetadataResponse'' ''BioEnrollRequest''
   \<and> \<not> contains ''openkey_core::cred_mgmt::CredsMetadataResponse'' ''BioEnrollResponse''
   \<and> \<not> contains ''openkey_core::cred_mgmt::CredsMetadataResponse'' ''CredentialManagementRequest''
   \<and> contains ''openkey_core::cred_mgmt::CredsMetadataResponse'' ''CredsMetadataResponse''
   \<and> \<not> contains ''openkey_core::cred_mgmt::CredsMetadataResponse'' ''EnumerateRpsEntryResponse''
   \<and> \<not> contains ''openkey_core::cred_mgmt::CredsMetadataResponse'' ''EnumerateCredentialsEntryResponse''"
  by code_simp

lemma tables_CredsMetadataResponse:
  "encode_table ''openkey_core::cred_mgmt::CredsMetadataResponse'' =
     [(''existingResidentCredentialsCount'', 0x01), (''maxPossibleRemainingResidentCredentialsCount'', 0x02)]"
  "decode_row ''openkey_core::cred_mgmt::CredsMetadataResponse'' =
     Inl ['''', ''existingResidentCredentialsCount'', ''maxPossibleRemainingResidentCredentialsCount'']"
  by (simp_all add: encode_table_def encode_labels_def decode_row_def decode_labels_def decode_matches_def
      List.map_filter_def contains_CredsMetadataResponse del: contains.simps)

lemma label_ok_CredsMetadataResponse:
  "list_all (label_ok ''openkey_core::cred_mgmt::CredsMetadataResponse'')
     [''existingResidentCredentialsCount'', ''maxPossibleRemainingResidentCredentialsCount'']"
  by (simp only: label_ok_def tables_CredsMetadataResponse contains_CredsMetadataResponse, code_simp)

lemma contains_EnumerateRpsEntryResponse:
  "\<not> contains ''openkey_core::cred_mgmt::EnumerateRpsEntryResponse'' ''MakeCredentialRequest''
   \<and> \<not> contains ''openkey_core::cred_mgmt::EnumerateRpsEntryResponse'' ''GetAssertionRequest''
   \<and> \<not> contains ''openkey_core::cred_mgmt::EnumerateRpsEntryResponse'' ''GetAssertionResponse''
   \<and> \<not> contains ''openkey_core::cred_mgmt::EnumerateRpsEntryResponse'' ''MakeCredentialResponse''
   \<and> \<not> contains ''openkey_core::cred_mgmt::EnumerateRpsEntryResponse'' ''GetInfoResponse''
   \<and> \<not> contains ''openkey_core::cred_mgmt::EnumerateRpsEntryResponse'' ''EnumerateRPsResponse''
   \<and> \<not> contains ''openkey_core::cred_mgmt::EnumerateRpsEntryResponse'' ''BioEnrollRequest''
   \<and> \<not> contains ''openkey_core::cred_mgmt::EnumerateRpsEntryResponse'' ''BioEnrollResponse''
   \<and> \<not> contains ''openkey_core::cred_mgmt::EnumerateRpsEntryResponse'' ''CredentialManagementRequest''
   \<and> \<not> contains ''openkey_core::cred_mgmt::EnumerateRpsEntryResponse'' ''CredsMetadataResponse''
   \<and> contains ''openkey_core::cred_mgmt::EnumerateRpsEntryResponse'' ''EnumerateRpsEntryResponse''
   \<and> \<not> contains ''openkey_core::cred_mgmt::EnumerateRpsEntryResponse'' ''EnumerateCredentialsEntryResponse''"
  by code_simp

lemma tables_EnumerateRpsEntryResponse:
  "encode_table ''openkey_core::cred_mgmt::EnumerateRpsEntryResponse'' =
     [(''rp'', 0x03), (''rpIDHash'', 0x04), (''totalRPs'', 0x05)]"
  "decode_row ''openkey_core::cred_mgmt::EnumerateRpsEntryResponse'' =
     Inr [(0x03, ''rp''), (0x04, ''rpIDHash''), (0x05, ''totalRPs'')]"
  by (simp_all add: encode_table_def encode_labels_def decode_row_def decode_labels_def decode_matches_def
      List.map_filter_def contains_EnumerateRpsEntryResponse del: contains.simps)

lemma label_ok_EnumerateRpsEntryResponse:
  "list_all (label_ok ''openkey_core::cred_mgmt::EnumerateRpsEntryResponse'')
     [''rp'', ''rpIDHash'', ''totalRPs'']"
  by (simp only: label_ok_def tables_EnumerateRpsEntryResponse contains_EnumerateRpsEntryResponse, code_simp)

lemma contains_EnumerateCredentialsEntryResponse:
  "\<not> contains ''openkey_core::cred_mgmt::EnumerateCredentialsEntryResponse'' ''MakeCredentialRequest''
   \<and> \<not> contains ''openkey_core::cred_mgmt::EnumerateCredentialsEntryResponse'' ''GetAssertionRequest''
   \<and> \<not> contains ''openkey_core::cred_mgmt::EnumerateCredentialsEntryResponse'' ''GetAssertionResponse''
   \<and> \<not> contains ''openkey_core::cred_mgmt::EnumerateCredentialsEntryResponse'' ''MakeCredentialResponse''
   \<and> \<not> contains ''openkey_core::cred_mgmt::EnumerateCredentialsEntryResponse'' ''GetInfoResponse''
   \<and> \<not> contains ''openkey_core::cred_mgmt::EnumerateCredentialsEntryResponse'' ''EnumerateRPsResponse''
   \<and> \<not> contains ''openkey_core::cred_mgmt::EnumerateCredentialsEntryResponse'' ''BioEnrollRequest''
   \<and> \<not> contains ''openkey_core::cred_mgmt::EnumerateCredentialsEntryResponse'' ''BioEnrollResponse''
   \<and> \<not> contains ''openkey_core::cred_mgmt::EnumerateCredentialsEntryResponse'' ''CredentialManagementRequest''
   \<and> \<not> contains ''openkey_core::cred_mgmt::EnumerateCredentialsEntryResponse'' ''CredsMetadataResponse''
   \<and> \<not> contains ''openkey_core::cred_mgmt::EnumerateCredentialsEntryResponse'' ''EnumerateRpsEntryResponse''
   \<and> contains ''openkey_core::cred_mgmt::EnumerateCredentialsEntryResponse'' ''EnumerateCredentialsEntryResponse''"
  by code_simp

lemma tables_EnumerateCredentialsEntryResponse:
  "encode_table ''openkey_core::cred_mgmt::EnumerateCredentialsEntryResponse'' =
     [(''user'', 0x06), (''credentialId'', 0x07), (''publicKey'', 0x08), (''totalCredentials'', 0x09),
      (''credProtect'', 0x0A), (''largeBlobKey'', 0x0B)]"
  "decode_row ''openkey_core::cred_mgmt::EnumerateCredentialsEntryResponse'' =
     Inr [(0x06, ''user''), (0x07, ''credentialId''), (0x08, ''publicKey''), (0x09, ''totalCredentials''),
      (0x0A, ''credProtect''), (0x0B, ''largeBlobKey'')]"
  by (simp_all add: encode_table_def encode_labels_def decode_row_def decode_labels_def decode_matches_def
      List.map_filter_def contains_EnumerateCredentialsEntryResponse del: contains.simps)

lemma label_ok_EnumerateCredentialsEntryResponse:
  "list_all (label_ok ''openkey_core::cred_mgmt::EnumerateCredentialsEntryResponse'')
     [''user'', ''credentialId'', ''publicKey'', ''totalCredentials'', ''credProtect'', ''largeBlobKey'']"
  by (simp only: label_ok_def tables_EnumerateCredentialsEntryResponse contains_EnumerateCredentialsEntryResponse, code_simp)

lemmas label_ok_wire =
  label_ok_MakeCredentialRequest label_ok_MakeCredentialResponse label_ok_GetAssertionRequest
  label_ok_GetAssertionResponse label_ok_GetInfoResponse label_ok_GetVersionResponse
  label_ok_BioEnrollRequest label_ok_BioEnrollResponse label_ok_EnumerateRPsResponse
  label_ok_CredentialManagementRequest label_ok_CredsMetadataResponse label_ok_EnumerateRpsEntryResponse
  label_ok_EnumerateCredentialsEntryResponse

lemma wire_schemas_all: "list_all (\<lambda>(t, fs). list_all (label_ok t) fs) wire_schemas"
  unfolding wire_schemas_def by (intro list.pred_inject(2) [THEN iffD2] conjI; simp only: case_prod_conv label_ok_wire list.pred_inject(1))

lemma wire_schemas_ok: "(t, fs) \<in> set wire_schemas \<Longrightarrow> f \<in> set fs \<Longrightarrow> label_ok t f"
  using wire_schemas_all by (auto simp: list_all_iff)

text \<open>Values that survive the conversion: option lists of names, parameters with text keys.\<close>

definition value_ok :: "string \<Rightarrow> string \<Rightarrow> Value \<Rightarrow> bool" where
  "value_ok t f v =
     (if contains t ''GetInfoResponse'' \<and> f = ''options'' then (case v of Array ns \<Rightarrow> list_all is_text ns | _ \<Rightarrow> False)
      else if contains t ''CredentialManagementRequest'' \<and> f = ''subCommandParams''
      then (case v of Map ps \<Rightarrow> list_all (\<lambda>(k, v). is_text k) ps | _ \<Rightarrow> True)
      else True)"

lemma is_bool_Bool [simp]: "is_bool (Bool b)"
  by (simp add: is_bool_def)

lemma map_filter_texts:
  "list_all is_text names \<Longrightarrow>
     List.map_filter (\<lambda>name. case name of Text n \<Rightarrow> Some (Text n, Bool True) | _ \<Rightarrow> None) names = map (\<lambda>n. (n, Bool True)) names"
  by (induction names) (auto simp: List.map_filter_def is_text_def split: Value.splits)

lemma decode_encode_options: "list_all is_text names \<Longrightarrow> decode_options (encode_options (Array names)) = Array names"
proof -
  assume texts: "list_all is_text names"
  let ?pick = "\<lambda>(name, enabled). case name of Text n \<Rightarrow> (if enabled = Bool True then Some (Text n) else None) | _ \<Rightarrow> None"
  have pick: "List.map_filter ?pick (map (\<lambda>n. (n, Bool True)) names) = names"
    using texts by (induction names) (auto simp: List.map_filter_def is_text_def split: Value.splits)
  then have "List.map_filter ?pick (map (\<lambda>n. (n, Bool True)) names @ [(Text ''clientPin'', Bool False)]) = names"
    by (simp add: List.map_filter_def)
  moreover have "list_all (\<lambda>(k, v). is_bool v) (map (\<lambda>n. (n, Bool True)) names)"
    by (simp add: list_all_iff)
  ultimately show ?thesis
    using texts pick by (simp add: encode_options_def decode_options_def map_filter_texts Let_def)
qed

lemma decode_encode_params: "list_all (\<lambda>(k, v). is_text k) ps \<Longrightarrow> convert_params False (convert_params True (Map ps)) = Map ps"
  by (induction ps)
     (auto simp: convert_params_def encode_param_key_def decode_param_key_def try_i64_def is_text_def
       split: Value.splits if_splits)

lemma convert_params_not_Map: "(\<And>ps. v \<noteq> Map ps) \<Longrightarrow> convert_params enc v = v"
  by (auto simp: convert_params_def split: Value.splits)

text \<open>One entry: the key becomes a label and the label the key, and the value is restored with it.\<close>

lemma convert_entry_roundtrip:
  assumes "label_ok t f" "value_ok t f v"
  defines "k' \<equiv> convert_key True t (Text f)" and "v' \<equiv> convert_value True t (Text f) v"
  shows "convert_key False t k' = Text f" "convert_value False t k' v' = v"
proof -
  have label: "encode_label t f = Some n \<Longrightarrow> decode_label t n = Some f" for n
    using assms(1) by (simp add: label_ok_def label_check_def encode_label_def decode_label_def)
  have info: "contains t ''GetInfoResponse'' \<Longrightarrow> encode_label t f = Some 4 \<longleftrightarrow> f = ''options''"
    and mgmt: "contains t ''CredentialManagementRequest'' \<Longrightarrow> encode_label t f = Some 2 \<longleftrightarrow> f = ''subCommandParams''"
    using assms(1) by (simp_all add: label_ok_def label_check_def encode_label_def decode_label_def)
  show "convert_key False t k' = Text f"
    using label by (simp add: k'_def convert_key_def split: option.splits)
  have k4: "contains t ''GetInfoResponse'' \<Longrightarrow> k' = Integer 4 \<longleftrightarrow> f = ''options''"
    and k2: "contains t ''CredentialManagementRequest'' \<Longrightarrow> k' = Integer 2 \<longleftrightarrow> f = ''subCommandParams''"
    using info mgmt by (cases "encode_label t f"; simp add: k'_def convert_key_def)+
  consider (info) "contains t ''GetInfoResponse''"
    | (mgmt) "\<not> contains t ''GetInfoResponse''" "contains t ''CredentialManagementRequest''"
    | (other) "\<not> contains t ''GetInfoResponse''" "\<not> contains t ''CredentialManagementRequest''" by blast
  then show "convert_value False t k' v' = v"
  proof cases
    case info
    then show ?thesis
      using assms(2) k4 by (auto simp: v'_def convert_value_def value_ok_def decode_encode_options split: Value.splits)
  next
    case mgmt
    then show ?thesis
      using assms(2) k2 decode_encode_params convert_params_not_Map
      by (cases v) (auto simp: v'_def convert_value_def value_ok_def)
  qed (simp add: v'_def convert_value_def)
qed



subsection \<open>Fields that are not read back\<close>

text \<open>
  Two response fields and the whole LargeBlobs request escape the label tables. \<open>extensions\<close> of a
  MakeCredential response is written under label 6 but read from label 4; \<open>max_msg_size\<close> of a GetInfo response
  is written under label 5, which is read as \<open>maxMsgSize\<close>; and no integer key of a LargeBlobs request is turned
  into a field name.
\<close>

lemma unread_labels:
  "convert_key False ''openkey_core::ctap2::MakeCredentialResponse''
      (convert_key True ''openkey_core::ctap2::MakeCredentialResponse'' (Text ''extensions'')) = Integer 6
   \<and> convert_key False ''openkey_core::ctap2::GetInfoResponse''
        (convert_key True ''openkey_core::ctap2::GetInfoResponse'' (Text ''max_msg_size'')) = Text ''maxMsgSize''
   \<and> convert_key False ''openkey_core::large_blobs::LargeBlobsRequest'' (Integer n) = Integer n"
proof -
  have "decode_row ''openkey_core::large_blobs::LargeBlobsRequest'' = Inr []" by code_simp
  then have "decode_label ''openkey_core::large_blobs::LargeBlobsRequest'' n = None"
    by (simp add: decode_label_def name_of_def split: option.splits)
  moreover have "encode_label ''openkey_core::ctap2::MakeCredentialResponse'' ''extensions'' = Some 6
      \<and> decode_label ''openkey_core::ctap2::MakeCredentialResponse'' 6 = None"
    unfolding encode_label_def decode_label_def tables_MakeCredentialResponse by code_simp
  moreover have "encode_label ''openkey_core::ctap2::GetInfoResponse'' ''max_msg_size'' = Some 5
      \<and> decode_label ''openkey_core::ctap2::GetInfoResponse'' 5 = Some ''maxMsgSize''"
    unfolding encode_label_def decode_label_def tables_GetInfoResponse by code_simp
  ultimately show ?thesis by (simp add: convert_key_def)
qed

end
