(* ===== verification/Flash.thy ===== *)
theory Flash
  imports Ordered_Map
begin

section \<open>Flash storage backend\<close>

text \<open>
  Models the flash part of \<open>openkey-storage/src/storage.rs\<close>: the storage errors, the NOR flash of the simulator
  (\<open>SimulatedFlash\<close>, with its injected power loss) and the crash-safe two-slot backend
  (\<open>FlashStorageBackend\<close>), generic over the \<open>FlashDevice\<close> trait, which is a record of operations here. The
  contract of a flash device is the locale \<open>flash_device\<close>, interpreted on \<open>SimulatedFlash\<close> and, in theory \<open>Qspi\<close>, on
  the driver of the RP2350; what ciborium does with a snapshot is the parameter \<open>CborCodec\<close>. The theorems show that a write is durable, that a power loss
  at any byte of a commit leaves either the old or the new snapshot, and that a failed write changes nothing
  a reader sees.
\<close>

unbundle bit_operations_syntax

subsection \<open>Errors and CBOR helpers\<close>

datatype StorageError = KeyNotFound string | BackendError string | SerializationError string
  | MaxCredentialsReached usize | WearLevelingThresholdExceeded string | IoError string
  | InvalidParameter string

text \<open>\<open>ciborium\<close> is outside the sources: how it writes and reads a value is a parameter.\<close>

record 'v CborCodec =
  into_writer :: "'v \<Rightarrow> bytes option"
  from_reader :: "bytes \<Rightarrow> 'v option"

definition cbor_serialize :: "'v CborCodec \<Rightarrow> 'v \<Rightarrow> (StorageError, bytes) result" where
  "cbor_serialize c v =
     (case into_writer c v of
        None \<Rightarrow> Inl (SerializationError ''cbor serialization failed'') | Some out \<Rightarrow> Inr out)"

definition cbor_deserialize :: "'v CborCodec \<Rightarrow> bytes \<Rightarrow> (StorageError, 'v) result" where
  "cbor_deserialize c data =
     (case from_reader c data of
        None \<Rightarrow> Inl (SerializationError ''cbor deserialization failed'') | Some v \<Rightarrow> Inr v)"

subsection \<open>The FlashDevice trait and SimulatedFlash\<close>

record 'd FlashDevice =
  dev_capacity :: "'d \<Rightarrow> usize"
  dev_sector_size :: "'d \<Rightarrow> usize"
  dev_read :: "'d \<Rightarrow> usize \<Rightarrow> usize \<Rightarrow> (StorageError, bytes) result"
  dev_erase_sector :: "'d \<Rightarrow> usize \<Rightarrow> 'd \<times> (StorageError, unit) result"
  dev_program :: "'d \<Rightarrow> usize \<Rightarrow> bytes \<Rightarrow> 'd \<times> (StorageError, unit) result"

record SimulatedFlash =
  sim_bytes :: bytes
  sim_sector_size :: usize
  sim_fail_after :: "usize option"

text \<open>\<open>SimulatedFlash::new\<close> panics (here \<open>None\<close>) when its assertion fails.\<close>

definition simulated_new :: "usize \<Rightarrow> usize \<Rightarrow> SimulatedFlash option" where
  "simulated_new sector_size sectors =
     (if sector_size > 0 \<and> sectors \<ge> 2
      then Some \<lparr>sim_bytes = replicate (sector_size * sectors) 0xFF, sim_sector_size = sector_size,
                 sim_fail_after = None\<rparr>
      else None)"

definition fail_after_program_bytes :: "SimulatedFlash \<Rightarrow> usize \<Rightarrow> SimulatedFlash" where
  "fail_after_program_bytes d n = d\<lparr>sim_fail_after := Some n\<rparr>"

definition sim_read :: "SimulatedFlash \<Rightarrow> usize \<Rightarrow> usize \<Rightarrow> (StorageError, bytes) result" where
  "sim_read d offset out_len =
     (case checked_add_usize offset out_len of
        None \<Rightarrow> Inl (BackendError ''flash read overflow'')
      | Some stop \<Rightarrow>
          if stop > length (sim_bytes d) then Inl (BackendError ''flash read out of bounds'')
          else Inr (slice_of offset stop (sim_bytes d)))"

definition sim_erase_sector :: "SimulatedFlash \<Rightarrow> usize \<Rightarrow> SimulatedFlash \<times> (StorageError, unit) result" where
  "sim_erase_sector d sector =
     (case checked_mul_usize sector (sim_sector_size d) of
        None \<Rightarrow> (d, Inl (BackendError ''flash sector overflow''))
      | Some start \<Rightarrow>
          (let stop = start + sim_sector_size d in
           if stop > length (sim_bytes d) then (d, Inl (BackendError ''flash sector out of bounds''))
           else (d\<lparr>sim_bytes := copy_into (sim_bytes d) start (replicate (sim_sector_size d) 0xFF)\<rparr>, Inr ())))"

text \<open>The \<open>for (old, new) in ...zip\<close> loop of \<open>program\<close>; it stops at the first bit that would go from 0 to 1.\<close>

fun program_loop :: "bytes \<Rightarrow> usize \<Rightarrow> bytes \<Rightarrow> bytes \<times> (StorageError, unit) result" where
  "program_loop bs offset [] = (bs, Inr ())"
| "program_loop bs offset (new # news) =
     (let old = bs ! offset in
      if old OR new \<noteq> old then (bs, Inl (BackendError ''flash program attempted 0 to 1''))
      else program_loop (bs[offset := old AND new]) (offset + 1) news)"

definition sim_program :: "SimulatedFlash \<Rightarrow> usize \<Rightarrow> bytes \<Rightarrow> SimulatedFlash \<times> (StorageError, unit) result" where
  "sim_program d offset data =
     (case checked_add_usize offset (length data) of
        None \<Rightarrow> (d, Inl (BackendError ''flash program overflow''))
      | Some stop \<Rightarrow>
          if stop > length (sim_bytes d) then (d, Inl (BackendError ''flash program out of bounds''))
          else
            (let allowed = (case sim_fail_after d of Some limit \<Rightarrow> min limit (length data)
                                                   | None \<Rightarrow> length data);
                 d = d\<lparr>sim_fail_after := None\<rparr>;
                 (bs, r) = program_loop (sim_bytes d) offset (take allowed data);
                 d = d\<lparr>sim_bytes := bs\<rparr>
             in case r of
                  Inl e \<Rightarrow> (d, Inl e)
                | Inr _ \<Rightarrow>
                    if allowed \<noteq> length data
                    then (d, Inl (BackendError ''simulated power loss during flash program''))
                    else (d, Inr ())))"

definition sim_device :: "SimulatedFlash FlashDevice" where
  "sim_device =
     \<lparr>dev_capacity = (\<lambda>d. length (sim_bytes d)), dev_sector_size = sim_sector_size, dev_read = sim_read,
      dev_erase_sector = sim_erase_sector, dev_program = sim_program\<rparr>"

subsection \<open>FlashStorageBackend\<close>

definition FLASH_MAGIC :: bytes where "FLASH_MAGIC = [0x4F, 0x4B, 0x46, 0x31]"
definition FLASH_HEADER_SIZE :: usize where "FLASH_HEADER_SIZE = 20"

type_synonym kv_map = "(string, bytes) btree"
type_synonym FlashSnapshot = "u64 \<times> kv_map"

record 'd FlashStorageBackend =
  fs_device :: 'd
  fs_cache :: kv_map
  active_sector :: usize
  generation :: u64

definition checksum :: "bytes \<Rightarrow> u32" where
  "checksum data = foldl (\<lambda>hash byte. (hash XOR ucast byte) * 16777619) 2166136261 data"

text \<open>\<open>decode_slot\<close> is \<open>read_slot\<close> after the sector has been read into \<open>raw\<close>.\<close>

definition decode_slot :: "kv_map CborCodec \<Rightarrow> bytes \<Rightarrow> (StorageError, FlashSnapshot option) result" where
  "decode_slot codec raw =
     (if take 4 raw \<noteq> FLASH_MAGIC then Inr None
      else (let generation = from_le_bytes (slice_of 4 12 raw);
                len = unat (from_le_bytes (slice_of 12 16 raw) :: u32);
                check = from_le_bytes (slice_of 16 20 raw)
            in if len > length raw - FLASH_HEADER_SIZE then Inr None
               else (let payload = slice_of FLASH_HEADER_SIZE (FLASH_HEADER_SIZE + len) raw
                     in if checksum payload \<noteq> check then Inr None
                        else case cbor_deserialize codec payload of
                               Inl e \<Rightarrow> Inl e | Inr cache \<Rightarrow> Inr (Some (generation, cache)))))"

definition read_slot ::
  "'d FlashDevice \<Rightarrow> kv_map CborCodec \<Rightarrow> 'd FlashStorageBackend \<Rightarrow> usize \<Rightarrow> (StorageError, FlashSnapshot option) result" where
  "read_slot dev codec b sector =
     (let size = dev_sector_size dev (fs_device b)
      in case dev_read dev (fs_device b) (sector * size) size of
           Inl e \<Rightarrow> Inl e | Inr raw \<Rightarrow> decode_slot codec raw)"

text \<open>One round of the \<open>for sector in 0..2\<close> loop, and the loop.\<close>

definition load_slot ::
  "'d FlashDevice \<Rightarrow> kv_map CborCodec \<Rightarrow> 'd FlashStorageBackend \<Rightarrow> usize \<Rightarrow> (StorageError, 'd FlashStorageBackend) result" where
  "load_slot dev codec b sector =
     (case read_slot dev codec b sector of
        Inl e \<Rightarrow> Inl e
      | Inr None \<Rightarrow> Inr b
      | Inr (Some (gen, cache)) \<Rightarrow>
          if gen \<ge> generation b
          then Inr (b\<lparr>generation := gen, active_sector := sector, fs_cache := cache\<rparr>) else Inr b)"

definition load_latest ::
  "'d FlashDevice \<Rightarrow> kv_map CborCodec \<Rightarrow> 'd FlashStorageBackend \<Rightarrow> (StorageError, 'd FlashStorageBackend) result" where
  "load_latest dev codec b =
     (case load_slot dev codec b 0 of Inl e \<Rightarrow> Inl e | Inr b \<Rightarrow> load_slot dev codec b 1)"

definition flash_new ::
  "'d FlashDevice \<Rightarrow> kv_map CborCodec \<Rightarrow> 'd \<Rightarrow> (StorageError, 'd FlashStorageBackend) result" where
  "flash_new dev codec d =
     (if dev_capacity dev d < dev_sector_size dev d * 2 \<or> dev_sector_size dev d \<le> FLASH_HEADER_SIZE
      then Inl (BackendError ''flash must provide two usable sectors'')
      else load_latest dev codec \<lparr>fs_device = d, fs_cache = [], active_sector = 0, generation = 0\<rparr>)"

text \<open>The 20-byte header \<open>commit\<close> builds: magic, generation, payload length and checksum, little-endian.\<close>

definition slot_header :: "u64 \<Rightarrow> bytes \<Rightarrow> bytes" where
  "slot_header gen payload =
     (let header = replicate FLASH_HEADER_SIZE 0xFF;
          header = copy_into header 0 FLASH_MAGIC;
          header = copy_into header 4 (to_le_bytes 8 gen);
          header = copy_into header 12 (to_le_bytes 4 (of_nat (length payload) :: u32))
      in copy_into header 16 (to_le_bytes 4 (checksum payload)))"

definition commit ::
  "'d FlashDevice \<Rightarrow> kv_map CborCodec \<Rightarrow> 'd FlashStorageBackend \<Rightarrow> kv_map
     \<Rightarrow> 'd FlashStorageBackend \<times> (StorageError, unit) result" where
  "commit dev codec b cache =
     (case cbor_serialize codec cache of
        Inl e \<Rightarrow> (b, Inl e)
      | Inr payload \<Rightarrow>
          (let size = dev_sector_size dev (fs_device b) in
           if length payload > size - FLASH_HEADER_SIZE
           then (b, Inl (BackendError ''flash snapshot exceeds sector capacity''))
           else
             (let target = 1 - active_sector b in
              case dev_erase_sector dev (fs_device b) target of
                (d1, Inl e) \<Rightarrow> (b\<lparr>fs_device := d1\<rparr>, Inl e)
              | (d1, Inr _) \<Rightarrow>
                  (let gen = generation b + 1;
                       header = slot_header gen payload;
                       offset = target * size
                   in case dev_program dev d1 offset header of
                        (d2, Inl e) \<Rightarrow> (b\<lparr>fs_device := d2\<rparr>, Inl e)
                      | (d2, Inr _) \<Rightarrow>
                          (case dev_program dev d2 (offset + FLASH_HEADER_SIZE) payload of
                             (d3, Inl e) \<Rightarrow> (b\<lparr>fs_device := d3\<rparr>, Inl e)
                           | (d3, Inr _) \<Rightarrow>
                               (b\<lparr>fs_device := d3, active_sector := target, generation := gen\<rparr>, Inr ()))))))"

definition flash_read :: "'d FlashStorageBackend \<Rightarrow> string \<Rightarrow> (StorageError, bytes option) result" where
  "flash_read b key = Inr (btree_get (fs_cache b) key)"

definition flash_write ::
  "'d FlashDevice \<Rightarrow> kv_map CborCodec \<Rightarrow> 'd FlashStorageBackend \<Rightarrow> string \<Rightarrow> bytes
     \<Rightarrow> 'd FlashStorageBackend \<times> (StorageError, unit) result" where
  "flash_write dev codec b key value =
     (let next = btree_insert key value (fs_cache b)
      in case commit dev codec b next of
           (b, Inl e) \<Rightarrow> (b, Inl e) | (b, Inr _) \<Rightarrow> (b\<lparr>fs_cache := next\<rparr>, Inr ()))"

definition flash_delete ::
  "'d FlashDevice \<Rightarrow> kv_map CborCodec \<Rightarrow> 'd FlashStorageBackend \<Rightarrow> string
     \<Rightarrow> 'd FlashStorageBackend \<times> (StorageError, unit) result" where
  "flash_delete dev codec b key =
     (let next = btree_remove key (fs_cache b)
      in case commit dev codec b next of
           (b, Inl e) \<Rightarrow> (b, Inl e) | (b, Inr _) \<Rightarrow> (b\<lparr>fs_cache := next\<rparr>, Inr ()))"

definition flash_list_keys :: "'d FlashStorageBackend \<Rightarrow> (StorageError, string list) result" where
  "flash_list_keys b = Inr (btree_keys (fs_cache b))"

subsection \<open>The contract of a flash device\<close>

text \<open>
  What the trait's documentation asks of an implementation: reads of at least one byte return the contents, an erase sets one
  sector to \<open>0xFF\<close> or fails without effect, programming an erased region stores the data, and a program that
  fails has stored a prefix of it. \<open>healthy\<close> devices do not fail within their bounds.
\<close>

definition flash_region_erased :: "bytes \<Rightarrow> nat \<Rightarrow> nat \<Rightarrow> bool" where
  "flash_region_erased bs a n = (a + n \<le> length bs \<and> slice_of a (a + n) bs = replicate n 0xFF)"

locale flash_device =
  fixes dev :: "'d FlashDevice"
    and contents :: "'d \<Rightarrow> bytes"
    and valid :: "'d \<Rightarrow> bool"
    and healthy :: "'d \<Rightarrow> bool"
  assumes capacity: "dev_capacity dev d = length (contents d)"
    and bounded: "valid d \<Longrightarrow> length (contents d) \<le> usize_max"
    and read: "valid d \<Longrightarrow> 0 < n \<Longrightarrow> a + n \<le> length (contents d) \<Longrightarrow>
                 dev_read dev d a n = Inr (slice_of a (a + n) (contents d))"
    and erase: "valid d \<Longrightarrow> s * dev_sector_size dev d + dev_sector_size dev d \<le> length (contents d) \<Longrightarrow>
                  dev_erase_sector dev d s = (d', r) \<Longrightarrow>
                  valid d' \<and> dev_sector_size dev d' = dev_sector_size dev d \<and>
                  contents d' = (case r of Inl _ \<Rightarrow> contents d
                    | Inr _ \<Rightarrow> copy_into (contents d) (s * dev_sector_size dev d)
                                 (replicate (dev_sector_size dev d) 0xFF))"
    and program: "valid d \<Longrightarrow> flash_region_erased (contents d) a (length data) \<Longrightarrow>
                    dev_program dev d a data = (d', r) \<Longrightarrow>
                    valid d' \<and> dev_sector_size dev d' = dev_sector_size dev d \<and>
                    (\<exists>j\<le>length data. contents d' = copy_into (contents d) a (take j data)
                       \<and> (case r of Inl _ \<Rightarrow> True | Inr _ \<Rightarrow> j = length data))"
    and healthy_erase: "valid d \<Longrightarrow> healthy d \<Longrightarrow>
                  s * dev_sector_size dev d + dev_sector_size dev d \<le> length (contents d) \<Longrightarrow>
                  \<exists>d'. dev_erase_sector dev d s = (d', Inr ()) \<and> healthy d'"
    and healthy_program: "valid d \<Longrightarrow> healthy d \<Longrightarrow> flash_region_erased (contents d) a (length data) \<Longrightarrow>
                    \<exists>d'. dev_program dev d a data = (d', Inr ()) \<and> healthy d'"

subsection \<open>Lemmas on SimulatedFlash\<close>

definition sim_valid :: "SimulatedFlash \<Rightarrow> bool" where
  "sim_valid d = (length (sim_bytes d) \<le> usize_max)"

definition sim_healthy :: "SimulatedFlash \<Rightarrow> bool" where
  "sim_healthy d = (sim_fail_after d = None)"

lemma erased_byte: "(0xFF :: u8) OR new = 0xFF" "(0xFF :: u8) AND new = new"
proof -
  have "(0xFF :: u8) = - 1" by simp
  then show "(0xFF :: u8) OR new = 0xFF" "(0xFF :: u8) AND new = new" by (simp_all only: or.left_neutral and.left_neutral bit.disj_one_left)
qed

lemma copy_into_Cons:
  assumes "a < length bs"
  shows "copy_into (bs[a := x]) (Suc a) xs = copy_into bs a (x # xs)"
  using assms by (simp add: copy_into_def take_Suc_conv_app_nth drop_update_cancel)

lemma program_loop_erased:
  assumes "flash_region_erased bs a (length data)"
  shows "program_loop bs a data = (copy_into bs a data, Inr ())"
  using assms
proof (induction data arbitrary: bs a)
  case Nil
  then show ?case by (simp add: copy_into_def)
next
  case (Cons x xs)
  from Cons.prems have a: "a + Suc (length xs) \<le> length bs"
    and "slice_of a (a + Suc (length xs)) bs = replicate (Suc (length xs)) 0xFF"
    by (auto simp: flash_region_erased_def)
  then have "take (Suc (length xs)) (drop a bs) = replicate (Suc (length xs)) 0xFF"
    by (simp add: slice_of_def)
  moreover have "drop a bs = bs ! a # drop (Suc a) bs"
    using a by (simp add: Cons_nth_drop_Suc)
  ultimately have "bs ! a = 0xFF" and tl: "take (length xs) (drop (Suc a) bs) = replicate (length xs) 0xFF"
    by simp_all
  moreover have "flash_region_erased (bs[a := x]) (Suc a) (length xs)"
    using a tl by (simp add: flash_region_erased_def slice_of_def)
  ultimately show ?case
    using Cons.IH [of "bs[a := x]" "Suc a"] a by (simp add: erased_byte copy_into_Cons)
qed

lemma flash_region_erased_le:
  "flash_region_erased bs a n \<Longrightarrow> k \<le> n \<Longrightarrow> flash_region_erased bs a k"
  by (auto simp: flash_region_erased_def slice_of_def) (metis min.absorb1 take_replicate take_take)

lemma sim_program_erased:
  assumes "sim_valid d" "flash_region_erased (sim_bytes d) a (length data)"
  shows "sim_program d a data =
    (let j = (case sim_fail_after d of Some limit \<Rightarrow> min limit (length data) | None \<Rightarrow> length data)
     in (d\<lparr>sim_fail_after := None, sim_bytes := copy_into (sim_bytes d) a (take j data)\<rparr>,
         if j = length data then Inr () else Inl (BackendError ''simulated power loss during flash program'')))"
proof -
  define j where "j = (case sim_fail_after d of Some limit \<Rightarrow> min limit (length data) | None \<Rightarrow> length data)"
  have j: "j \<le> length data" by (auto simp: j_def split: option.splits)
  then have "program_loop (sim_bytes d) a (take j data) = (copy_into (sim_bytes d) a (take j data), Inr ())"
    using flash_region_erased_le [OF assms(2), of j] by (intro program_loop_erased) (simp add: min_def)
  moreover have "checked_add_usize a (length data) = Some (a + length data)"
    using assms by (simp add: checked_add_usize_def flash_region_erased_def sim_valid_def)
  ultimately show ?thesis
    using assms(2) by (simp add: sim_program_def Let_def flash_region_erased_def flip: j_def)
qed

lemma length_copy_into_fill: "a + n \<le> length bs \<Longrightarrow> length (copy_into bs a (replicate n x)) = length bs"
  by (simp add: length_copy_into)

interpretation sim: flash_device sim_device sim_bytes sim_valid sim_healthy
proof
  fix d a n
  assume "sim_valid d" "0 < n" "a + n \<le> length (sim_bytes d)"
  then show "dev_read sim_device d a n = Inr (slice_of a (a + n) (sim_bytes d))"
    by (simp add: sim_device_def sim_read_def checked_add_usize_def sim_valid_def)
next
  fix d s d' r
  assume "sim_valid d" "s * dev_sector_size sim_device d + dev_sector_size sim_device d \<le> length (sim_bytes d)"
    "dev_erase_sector sim_device d s = (d', r)"
  then show "sim_valid d' \<and> dev_sector_size sim_device d' = dev_sector_size sim_device d \<and>
    sim_bytes d' = (case r of Inl _ \<Rightarrow> sim_bytes d
      | Inr _ \<Rightarrow> copy_into (sim_bytes d) (s * dev_sector_size sim_device d)
                   (replicate (dev_sector_size sim_device d) 0xFF))"
    by (auto simp: sim_device_def sim_erase_sector_def checked_mul_usize_def sim_valid_def
        length_copy_into_fill Let_def split: if_splits)
next
  fix d a data d' r
  assume *: "sim_valid d" "flash_region_erased (sim_bytes d) a (length data)"
    "dev_program sim_device d a data = (d', r)"
  define j where "j = (case sim_fail_after d of Some limit \<Rightarrow> min limit (length data) | None \<Rightarrow> length data)"
  have j: "j \<le> length data" by (auto simp: j_def split: option.splits)
  moreover have "length (copy_into (sim_bytes d) a (take j data)) = length (sim_bytes d)"
    using *(2) j by (intro length_copy_into) (simp add: flash_region_erased_def)
  ultimately show "sim_valid d' \<and> dev_sector_size sim_device d' = dev_sector_size sim_device d \<and>
    (\<exists>j\<le>length data. sim_bytes d' = copy_into (sim_bytes d) a (take j data)
       \<and> (case r of Inl _ \<Rightarrow> True | Inr _ \<Rightarrow> j = length data))"
    using * sim_program_erased [OF *(1,2)]
    by (auto simp: sim_device_def sim_valid_def Let_def simp flip: j_def split: if_splits)
qed (auto simp: sim_device_def sim_valid_def sim_healthy_def sim_erase_sector_def checked_mul_usize_def
      sim_program_erased)

subsection \<open>Slot images\<close>

text \<open>A sector after the first \<open>j\<close> bytes of header and payload have been programmed.\<close>

definition slot_image :: "nat \<Rightarrow> u64 \<Rightarrow> bytes \<Rightarrow> nat \<Rightarrow> bytes" where
  "slot_image sz gen payload j = copy_into (replicate sz 0xFF) 0 (take j (slot_header gen payload @ payload))"

text \<open>
  The checksum exposes every interrupted write of this slot: an image that is not already the complete one and
  whose length field is complete has a checksum field that does not match the payload area.
\<close>

definition torn_detected :: "u64 \<Rightarrow> bytes \<Rightarrow> bool" where
  "torn_detected gen payload =
     (let n = FLASH_HEADER_SIZE + length payload in
      list_all (\<lambda>j. let t = slot_image n gen payload j in
         t = slot_image n gen payload n
         \<or> checksum (drop FLASH_HEADER_SIZE t) \<noteq> from_le_bytes (slice_of 16 20 t)) [16..<n])"

text \<open>What the backend relies on of the CBOR library: maps read back as written, and only maps are read.\<close>

definition codec_ok :: "kv_map CborCodec \<Rightarrow> bool" where
  "codec_ok codec =
     ((\<forall>m bs. btree_wf m \<longrightarrow> into_writer codec m = Some bs \<longrightarrow> from_reader codec bs = Some m)
      \<and> (\<forall>bs m. from_reader codec bs = Some m \<longrightarrow> btree_wf m))"

lemma copy_into_copy_into:
  assumes "k + length ys \<le> length xs" "a + length xs \<le> length bs"
  shows "copy_into (copy_into bs a xs) (a + k) ys = copy_into bs a (copy_into xs k ys)"
  using assms by (simp add: copy_into_def)

lemma slice_copy_into_inner:
  assumes "j \<le> length xs" "i \<le> j" "a + length xs \<le> length bs"
  shows "slice_of (a + i) (a + j) (copy_into bs a xs) = slice_of i j xs"
  using assms by (simp add: slice_of_def copy_into_def)

lemma slice_copy_into_outer:
  assumes "a + length xs \<le> length bs" "j \<le> length bs" "j \<le> a \<or> a + length xs \<le> i"
  shows "slice_of i j (copy_into bs a xs) = slice_of i j bs"
  using assms by (intro nth_equalityI) (auto simp: length_copy_into slice_of_def nth_copy_into)

lemma slot_header_eq:
  "slot_header gen payload = FLASH_MAGIC @ to_le_bytes 8 gen @ to_le_bytes 4 (of_nat (length payload) :: u32)
     @ to_le_bytes 4 (checksum payload)"
  by (simp add: slot_header_def copy_into_def FLASH_MAGIC_def FLASH_HEADER_SIZE_def)

lemma length_slot_header [simp]: "length (slot_header gen payload) = 20"
  by (simp add: slot_header_eq FLASH_MAGIC_def)

lemma slot_image_eq:
  "slot_image sz gen payload j = take j (slot_header gen payload @ payload)
     @ replicate (sz - min j (20 + length payload)) 0xFF"
  by (simp add: slot_image_def copy_into_def min.commute)

lemma length_slot_image:
  "20 + length payload \<le> sz \<Longrightarrow> length (slot_image sz gen payload j) = sz"
  by (simp add: slot_image_eq)

lemma slot_image_split:
  obtains xs where "length xs = min j (20 + length payload)" "xs = take j (slot_header gen payload @ payload)"
    "\<And>sz. slot_image sz gen payload j = xs @ replicate (sz - length xs) 0xFF"
  by (rule that [of "take j (slot_header gen payload @ payload)"])
    (simp_all add: slot_image_def copy_into_def min.commute)

lemma slot_image_nth:
  assumes "20 + length payload \<le> sz" "j \<le> i" "i < sz"
  shows "slot_image sz gen payload j ! i = 0xFF"
proof -
  obtain xs where "length xs = min j (20 + length payload)"
    "\<And>sz. slot_image sz gen payload j = xs @ replicate (sz - length xs) 0xFF"
    by (rule slot_image_split [of j payload gen]) blast
  then show ?thesis using assms by (simp add: nth_append)
qed

lemma slot_image_prefix:
  assumes "20 + length payload \<le> sz" "i \<le> j" "i \<le> 20 + length payload"
  shows "take i (slot_image sz gen payload j) = take i (slot_header gen payload @ payload)"
  using assms by (simp add: slot_image_eq min_def)

lemma slot_image_short:
  assumes "20 + length payload \<le> sz" "j \<le> 20 + length payload"
  shows "take (20 + length payload) (slot_image sz gen payload j)
           = slot_image (20 + length payload) gen payload j"
  using assms by (cases rule: slot_image_split [of j payload gen]) (simp add: min_def)

lemma slice_of_take: "b \<le> n \<Longrightarrow> slice_of a b (take n xs) = slice_of a b xs"
  by (simp add: slice_of_def drop_take min_def)

lemma decode_slot_magic:
  assumes "20 + length payload \<le> sz" "j < 4"
  shows "decode_slot codec (slot_image sz gen payload j) = Inr None"
proof -
  let ?img = "slot_image sz gen payload j"
  have "?img ! j = 0xFF" using assms by (simp add: slot_image_nth)
  moreover have "FLASH_MAGIC ! j \<noteq> 0xFF"
  proof -
    from assms(2) consider "j = 0" | "j = 1" | "j = 2" | "j = 3" by linarith
    then show ?thesis by cases (simp_all add: FLASH_MAGIC_def)
  qed
  ultimately have "take 4 ?img \<noteq> FLASH_MAGIC" using assms(2) by (metis nth_take)
  then show ?thesis by (simp add: decode_slot_def)
qed

lemma bit_31_large: "bit (w :: u32) 31 \<Longrightarrow> 2 ^ 31 \<le> unat w"
proof (rule ccontr)
  assume "bit w 31" "\<not> 2 ^ 31 \<le> unat w"
  then have "unat w < 2 ^ 31" by simp
  then have "take_bit 31 (unat w) = unat w" by (simp add: take_bit_nat_eq_self_iff)
  then have "\<not> bit (unat w) 31" by (metis bit_take_bit_iff less_irrefl)
  with \<open>bit w 31\<close> show False by (simp add: bit_unsigned_iff)
qed

lemma decode_slot_length_torn:
  assumes "20 + length payload \<le> sz" "j < 16" "2 * sz \<le> usize_max"
  shows "decode_slot codec (slot_image sz gen payload j) = Inr None"
proof -
  let ?img = "slot_image sz gen payload j"
  have "?img ! 15 = 0xFF" using assms by (simp add: slot_image_nth)
  then have "slice_of 12 16 ?img ! 3 = 0xFF" using assms by (simp add: slice_of_def length_slot_image)
  moreover have "length (slice_of 12 16 ?img) = 4" using assms by (simp add: length_slot_image)
  moreover have "bit (0xFF :: u8) 7" by simp
  ultimately have "bit (from_le_bytes (slice_of 12 16 ?img) :: u32) 31"
    by (simp add: bit_from_le_bytes)
  then have "2 ^ 31 \<le> unat (from_le_bytes (slice_of 12 16 ?img) :: u32)" by (rule bit_31_large)
  then have "length ?img - FLASH_HEADER_SIZE < unat (from_le_bytes (slice_of 12 16 ?img) :: u32)"
    using assms by (simp add: length_slot_image usize_max_def)
  then show ?thesis
    unfolding decode_slot_def Let_def by (simp only: if_True if_cancel)
qed

lemma decode_slot_complete_length:
  assumes "20 + length payload \<le> sz" "16 \<le> j" "j \<le> 20 + length payload" "2 * sz \<le> usize_max"
  shows "decode_slot codec (slot_image sz gen payload j) =
    (let t = slot_image (20 + length payload) gen payload j in
     if checksum (drop 20 t) \<noteq> from_le_bytes (slice_of 16 20 t) then Inr None
     else case cbor_deserialize codec (drop 20 t) of Inl e \<Rightarrow> Inl e | Inr cache \<Rightarrow> Inr (Some (gen, cache)))"
proof -
  let ?img = "slot_image sz gen payload j" and ?all = "slot_header gen payload @ payload"
  let ?n = "20 + length payload"
  have "take 16 ?img = take 16 ?all" using assms slot_image_prefix [of payload sz 16 j gen] by simp
  then have pre: "slice_of a b ?img = slice_of a b ?all" if "b \<le> 16" for a b
    using slice_of_take [OF that] by metis
  have "take 4 ?img = slice_of 0 4 ?img" by (simp add: slice_of_def)
  also have "\<dots> = FLASH_MAGIC" by (subst pre) (simp_all add: slice_of_def slot_header_eq FLASH_MAGIC_def)
  finally have magic: "take 4 ?img = FLASH_MAGIC" .
  have gen: "from_le_bytes (slice_of 4 12 ?img) = gen"
    by (subst pre) (simp_all add: slice_of_def slot_header_eq FLASH_MAGIC_def)
  have "unat (of_nat (length payload) :: u32) = length payload"
    using assms by (simp add: unat_of_nat usize_max_def)
  then have len: "unat (from_le_bytes (slice_of 12 16 ?img) :: u32) = length payload"
    by (subst pre) (simp_all add: slice_of_def slot_header_eq FLASH_MAGIC_def)
  have short: "take ?n ?img = slot_image ?n gen payload j"
    using assms by (simp add: slot_image_short)
  then have "slice_of 20 ?n ?img = drop 20 (slot_image ?n gen payload j)"
    by (simp add: slice_of_def drop_take flip: short)
  moreover have "slice_of 16 20 ?img = slice_of 16 20 (slot_image ?n gen payload j)"
    by (simp add: slice_of_take flip: short)
  moreover have "\<not> length payload > sz - 20" using assms by simp
  ultimately show ?thesis
    using assms magic gen len
    by (simp add: decode_slot_def Let_def length_slot_image FLASH_HEADER_SIZE_def)
qed

lemma decode_slot_full:
  assumes "20 + length payload \<le> sz" "2 * sz \<le> usize_max" "from_reader codec payload = Some cache"
  shows "decode_slot codec (slot_image sz gen payload (20 + length payload)) = Inr (Some (gen, cache))"
proof -
  let ?t = "slot_image (20 + length payload) gen payload (20 + length payload)"
  have t: "?t = slot_header gen payload @ payload" by (simp add: slot_image_eq)
  then have "drop 20 ?t = payload" by simp
  moreover have "from_le_bytes (slice_of 16 20 ?t) = checksum payload"
    by (simp add: t slice_of_def slot_header_eq FLASH_MAGIC_def)
  ultimately show ?thesis
    using assms by (simp add: decode_slot_complete_length Let_def cbor_deserialize_def)
qed

lemma decode_slot_torn:
  assumes "20 + length payload \<le> sz" "2 * sz \<le> usize_max" "from_reader codec payload = Some cache"
    and "j \<le> 20 + length payload" "torn_detected gen payload"
  shows "decode_slot codec (slot_image sz gen payload j) \<in> {Inr None, Inr (Some (gen, cache))}"
proof (cases "j < 16")
  case True
  then show ?thesis using assms by (simp add: decode_slot_length_torn)
next
  case False
  let ?n = "20 + length payload"
  have full: "decode_slot codec (slot_image sz gen payload ?n) = Inr (Some (gen, cache))"
    using assms by (simp add: decode_slot_full)
  show ?thesis
  proof (cases "j = ?n \<or> slot_image ?n gen payload j = slot_image ?n gen payload ?n")
    case True
    then have "decode_slot codec (slot_image sz gen payload j) = decode_slot codec (slot_image sz gen payload ?n)"
      using assms False by (auto simp: decode_slot_complete_length)
    then show ?thesis using full by simp
  next
    case torn: False
    with False assms(4) have "j \<in> set [16..<?n]" by simp
    with torn assms(5) have "checksum (drop 20 (slot_image ?n gen payload j))
        \<noteq> from_le_bytes (slice_of 16 20 (slot_image ?n gen payload j))"
      unfolding torn_detected_def Let_def FLASH_HEADER_SIZE_def list_all_iff by blast
    then show ?thesis
      using assms False by (simp add: decode_slot_complete_length Let_def)
  qed
qed

subsection \<open>The two-slot invariant\<close>

definition slot_bytes :: "nat \<Rightarrow> nat \<Rightarrow> bytes \<Rightarrow> bytes" where
  "slot_bytes sz s bs = slice_of (s * sz) (s * sz + sz) bs"

text \<open>
  The device has two usable sectors; the active one decodes to the generation and the map held in memory, or
  the flash is blank; the other one is unreadable or older.
\<close>

definition usable :: "'d FlashDevice \<Rightarrow> ('d \<Rightarrow> bytes) \<Rightarrow> ('d \<Rightarrow> bool) \<Rightarrow> 'd \<Rightarrow> bool" where
  "usable dev contents valid d =
     (valid d \<and> 2 * dev_sector_size dev d \<le> length (contents d) \<and> FLASH_HEADER_SIZE < dev_sector_size dev d)"

definition slots_agree :: "kv_map CborCodec \<Rightarrow> bytes \<Rightarrow> bytes \<Rightarrow> 'd FlashStorageBackend \<Rightarrow> bool" where
  "slots_agree codec active other b =
     (if decode_slot codec active = Inr (Some (generation b, fs_cache b))
      then case decode_slot codec other of
             Inl _ \<Rightarrow> False
           | Inr None \<Rightarrow> True
           | Inr (Some (g, c)) \<Rightarrow> g < generation b \<or> g = generation b \<and> active_sector b = 1
      else decode_slot codec active = Inr None \<and> decode_slot codec other = Inr None
           \<and> generation b = 0 \<and> fs_cache b = [] \<and> active_sector b = 0)"

definition flash_inv ::
  "'d FlashDevice \<Rightarrow> ('d \<Rightarrow> bytes) \<Rightarrow> ('d \<Rightarrow> bool) \<Rightarrow> kv_map CborCodec \<Rightarrow> 'd FlashStorageBackend \<Rightarrow> bool" where
  "flash_inv dev contents valid codec b =
     (let d = fs_device b; sz = dev_sector_size dev d in
      usable dev contents valid d \<and> active_sector b \<le> 1 \<and> btree_wf (fs_cache b)
      \<and> slots_agree codec (slot_bytes sz (active_sector b) (contents d))
           (slot_bytes sz (1 - active_sector b) (contents d)) b)"

text \<open>The snapshot \<open>load_latest\<close> chooses: the second sector wins unless the first is newer.\<close>

definition pick_snapshot :: "FlashSnapshot option \<Rightarrow> FlashSnapshot option \<Rightarrow> nat \<times> FlashSnapshot" where
  "pick_snapshot s0 s1 =
     (case s1 of
        None \<Rightarrow> (0, case s0 of None \<Rightarrow> (0, []) | Some s \<Rightarrow> s)
      | Some (g1, c1) \<Rightarrow>
          (case s0 of None \<Rightarrow> (1, g1, c1)
           | Some (g0, c0) \<Rightarrow> if g1 \<ge> g0 then (1, g1, c1) else (0, g0, c0)))"

definition with_snapshot :: "'d \<Rightarrow> nat \<times> FlashSnapshot \<Rightarrow> 'd FlashStorageBackend" where
  "with_snapshot d p = (case p of (s, g, c) \<Rightarrow> \<lparr>fs_device = d, fs_cache = c, active_sector = s, generation = g\<rparr>)"

lemma slots_agree_device [simp]: "slots_agree codec x y (b\<lparr>fs_device := d\<rparr>) = slots_agree codec x y b"
  by (simp add: slots_agree_def split: sum.splits option.splits)

lemma slot_bytes_update:
  assumes "s \<le> 1" "t \<le> 1" "2 * sz \<le> length bs" "length xs = sz"
  shows "slot_bytes sz s (copy_into bs (t * sz) xs) = (if s = t then xs else slot_bytes sz s bs)"
proof (cases "s = t")
  case True
  have "t * sz + sz \<le> length bs" using assms(2,3) by (cases t) auto
  with assms(4) True show ?thesis
    using slice_copy_into [of "t * sz" xs bs] by (simp add: slot_bytes_def)
next
  case False
  with assms(1,2) have "s = 0 \<and> t = 1 \<or> s = 1 \<and> t = 0" by auto
  with assms show ?thesis
    by (auto simp: slot_bytes_def intro!: slice_copy_into_outer)
qed

context flash_device
begin

lemma read_slot_decode:
  assumes "usable dev contents valid (fs_device b)" "s \<le> 1"
  shows "read_slot dev codec b s
     = decode_slot codec (slot_bytes (dev_sector_size dev (fs_device b)) s (contents (fs_device b)))"
proof -
  have "s * dev_sector_size dev (fs_device b) + dev_sector_size dev (fs_device b) \<le> length (contents (fs_device b))"
    using assms by (cases s) (auto simp: usable_def)
  with assms read show ?thesis
    by (simp add: read_slot_def usable_def slot_bytes_def Let_def FLASH_HEADER_SIZE_def)
qed

lemma flash_new_picks:
  assumes "usable dev contents valid d"
    and "decode_slot codec (slot_bytes (dev_sector_size dev d) 0 (contents d)) = Inr s0"
    and "decode_slot codec (slot_bytes (dev_sector_size dev d) 1 (contents d)) = Inr s1"
  shows "flash_new dev codec d = Inr (with_snapshot d (pick_snapshot s0 s1))"
proof -
  let ?b = "\<lparr>fs_device = d, fs_cache = [], active_sector = 0, generation = 0\<rparr>"
  have r: "read_slot dev codec b 0 = Inr s0" "read_slot dev codec b 1 = Inr s1" if "fs_device b = d" for b
    using assms read_slot_decode [of b] that by simp_all
  have "load_slot dev codec ?b 0 = Inr (with_snapshot d (0, case s0 of None \<Rightarrow> (0, []) | Some s \<Rightarrow> s))"
    using r(1) [of ?b] by (simp add: load_slot_def with_snapshot_def split: option.splits)
  moreover have "load_slot dev codec (with_snapshot d (0, g, c)) 1 = (case s1 of None \<Rightarrow> Inr (with_snapshot d (0, g, c))
      | Some (g1, c1) \<Rightarrow> if g1 \<ge> g then Inr (with_snapshot d (1, g1, c1)) else Inr (with_snapshot d (0, g, c)))" for g c
    using r(2) [of "with_snapshot d (0, g, c)"] by (simp add: load_slot_def with_snapshot_def split: option.splits)
  ultimately have "load_latest dev codec ?b = Inr (with_snapshot d (pick_snapshot s0 s1))"
    by (auto simp: load_latest_def pick_snapshot_def split: option.splits prod.splits)
  then show ?thesis
    using assms(1) by (simp add: flash_new_def capacity usable_def mult.commute not_less)
qed

lemma slots_agree_reopen:
  assumes "flash_inv dev contents valid codec b"
  shows "flash_new dev codec (fs_device b) = Inr b"
proof -
  let ?sz = "dev_sector_size dev (fs_device b)"
  let ?s = "\<lambda>i. decode_slot codec (slot_bytes ?sz i (contents (fs_device b)))"
  from assms have u: "usable dev contents valid (fs_device b)" and a: "active_sector b = 0 \<or> active_sector b = 1"
    and agree: "slots_agree codec (slot_bytes ?sz (active_sector b) (contents (fs_device b)))
           (slot_bytes ?sz (1 - active_sector b) (contents (fs_device b))) b"
    by (auto simp: flash_inv_def Let_def)
  from a agree obtain s0 s1 where s: "?s 0 = Inr s0" "?s 1 = Inr s1"
    "pick_snapshot s0 s1 = (active_sector b, generation b, fs_cache b)"
    by (auto simp: slots_agree_def pick_snapshot_def split: if_splits sum.splits option.splits)
  from flash_new_picks [OF u s(1,2)] s(3) show ?thesis by (simp add: with_snapshot_def)
qed

end

subsection \<open>Effects of a commit\<close>

text \<open>
  \<open>committed dev contents codec b new b' j\<close>: the device of \<open>b'\<close> is that of \<open>b\<close> with the inactive sector erased
  and the first \<open>j\<close> bytes of the new slot programmed.
\<close>

definition committed ::
  "'d FlashDevice \<Rightarrow> ('d \<Rightarrow> bytes) \<Rightarrow> ('d \<Rightarrow> bool) \<Rightarrow> bytes \<Rightarrow> 'd FlashStorageBackend \<Rightarrow> 'd \<Rightarrow> nat \<Rightarrow> bool" where
  "committed dev contents valid payload b d' j =
     (let d = fs_device b; sz = dev_sector_size dev d in
      valid d' \<and> dev_sector_size dev d' = sz \<and> j \<le> 20 + length payload \<and> 20 + length payload \<le> sz
      \<and> contents d' = copy_into (contents d) ((1 - active_sector b) * sz)
           (slot_image sz (generation b + 1) payload j))"

lemma header_region:
  assumes "t * sz + sz \<le> length bs" "20 \<le> sz"
  shows "flash_region_erased (copy_into bs (t * sz) (replicate sz 0xFF)) (t * sz) 20"
  using assms slice_copy_into_inner [of 20 "replicate sz 0xFF" 0 "t * sz" bs]
  by (simp add: flash_region_erased_def length_copy_into slice_of_def)

lemma slot_image_header: "slot_image sz gen payload 20 = slot_header gen payload @ replicate (sz - 20) 0xFF"
  by (simp add: slot_image_eq)

lemma payload_region:
  assumes "t * sz + sz \<le> length bs" "20 + length payload \<le> sz"
  shows "flash_region_erased (copy_into bs (t * sz) (slot_image sz gen payload 20)) (t * sz + 20) (length payload)"
proof -
  let ?img = "slot_image sz gen payload 20"
  have img: "length ?img = sz" using assms(2) by (rule length_slot_image)
  have "slice_of (t * sz + 20) (t * sz + (20 + length payload)) (copy_into bs (t * sz) ?img)
      = slice_of 20 (20 + length payload) ?img"
    using assms img by (intro slice_copy_into_inner) auto
  also have "\<dots> = replicate (length payload) 0xFF"
    using assms(2) by (simp add: slot_image_header slice_of_def)
  finally show ?thesis
    using assms img by (simp add: flash_region_erased_def length_copy_into add.assoc)
qed

context flash_device
begin

lemma program_slot_header:
  assumes "valid d" "dev_sector_size dev d = sz" "t * sz + sz \<le> length bs" "20 + length payload \<le> sz"
    and "contents d = copy_into bs (t * sz) (replicate sz 0xFF)"
    and "dev_program dev d (t * sz) (slot_header gen payload) = (d', r)"
  shows "\<exists>j\<le>20. valid d' \<and> dev_sector_size dev d' = sz
     \<and> contents d' = copy_into bs (t * sz) (slot_image sz gen payload j) \<and> (r = Inr () \<longrightarrow> j = 20)"
proof -
  have "flash_region_erased (contents d) (t * sz) (length (slot_header gen payload))"
    using assms header_region [of t sz bs] by simp
  from program [OF assms(1) this assms(6), unfolded length_slot_header] assms(2) obtain j where
    j: "valid d'" "dev_sector_size dev d' = sz" "j \<le> 20" "contents d' = copy_into (contents d) (t * sz) (take j (slot_header gen payload))"
    "case r of Inl _ \<Rightarrow> True | Inr _ \<Rightarrow> j = 20" by auto
  have "copy_into (copy_into bs (t * sz) (replicate sz 0xFF)) (t * sz + 0) (take j (slot_header gen payload))
      = copy_into bs (t * sz) (copy_into (replicate sz 0xFF) 0 (take j (slot_header gen payload)))"
    using assms j(3) by (intro copy_into_copy_into) auto
  moreover have "slot_image sz gen payload j = copy_into (replicate sz 0xFF) 0 (take j (slot_header gen payload))"
    using j(3) by (simp add: slot_image_def)
  ultimately show ?thesis using j assms(5) by (intro exI [of _ j]) auto
qed

lemma program_slot_payload:
  assumes "valid d" "dev_sector_size dev d = sz" "t * sz + sz \<le> length bs" "20 + length payload \<le> sz"
    and "contents d = copy_into bs (t * sz) (slot_image sz gen payload 20)"
    and "dev_program dev d (t * sz + 20) payload = (d', r)"
  shows "\<exists>j\<le>20 + length payload. valid d' \<and> dev_sector_size dev d' = sz
     \<and> contents d' = copy_into bs (t * sz) (slot_image sz gen payload j) \<and> (r = Inr () \<longrightarrow> j = 20 + length payload)"
proof -
  let ?img = "slot_image sz gen payload 20"
  have img: "length ?img = sz" using assms(4) by (rule length_slot_image)
  have "flash_region_erased (contents d) (t * sz + 20) (length payload)"
    unfolding assms(5) using assms(3,4) by (rule payload_region)
  from program [OF assms(1) this assms(6)] assms(2) obtain j where j: "valid d'" "dev_sector_size dev d' = sz"
    "j \<le> length payload" "contents d' = copy_into (contents d) (t * sz + 20) (take j payload)"
    "case r of Inl _ \<Rightarrow> True | Inr _ \<Rightarrow> j = length payload" by auto
  have "copy_into (copy_into bs (t * sz) ?img) (t * sz + 20) (take j payload)
      = copy_into bs (t * sz) (copy_into ?img 20 (take j payload))"
    using assms j(3) img by (intro copy_into_copy_into) auto
  moreover have "copy_into ?img 20 (take j payload) = slot_image sz gen payload (20 + j)"
    using j(3) by (simp add: slot_image_eq copy_into_def min_def)
  ultimately show ?thesis using j assms(5) by (intro exI [of _ "20 + j"]) auto
qed

lemma commit_effect:
  assumes "usable dev contents valid (fs_device b)" "active_sector b \<le> 1" "commit dev codec b new = (b', r)"
  shows "r \<noteq> Inr () \<and> b' = b\<lparr>fs_device := fs_device b'\<rparr> \<and> contents (fs_device b') = contents (fs_device b)
       \<and> valid (fs_device b') \<and> dev_sector_size dev (fs_device b') = dev_sector_size dev (fs_device b)
   \<or> (\<exists>payload j. into_writer codec new = Some payload \<and> committed dev contents valid payload b (fs_device b') j
       \<and> (if r = Inr ()
          then j = 20 + length payload
             \<and> b' = b\<lparr>fs_device := fs_device b', active_sector := 1 - active_sector b, generation := generation b + 1\<rparr>
          else b' = b\<lparr>fs_device := fs_device b'\<rparr>))"
proof (cases "into_writer codec new")
  case None
  with assms show ?thesis by (auto simp: commit_def cbor_serialize_def usable_def)
next
  case (Some payload)
  define sz where "sz = dev_sector_size dev (fs_device b)"
  define t where "t = 1 - active_sector b"
  show ?thesis
  proof (cases "length payload > sz - 20")
    case True
    with Some assms show ?thesis
      by (auto simp: commit_def cbor_serialize_def usable_def Let_def sz_def FLASH_HEADER_SIZE_def)
  next
    case False
    with assms(1) have fit: "20 + length payload \<le> sz" and v: "valid (fs_device b)"
      and sz2: "2 * sz \<le> length (contents (fs_device b))"
      by (auto simp: usable_def sz_def FLASH_HEADER_SIZE_def)
    have "t = 0 \<or> t = 1" by (auto simp: t_def)
    then have t: "t * sz + sz \<le> length (contents (fs_device b))" using sz2 by auto
    have commit: "commit dev codec b new = (case dev_erase_sector dev (fs_device b) t of
          (d1, Inl e) \<Rightarrow> (b\<lparr>fs_device := d1\<rparr>, Inl e)
        | (d1, Inr _) \<Rightarrow>
            (case dev_program dev d1 (t * sz) (slot_header (generation b + 1) payload) of
               (d2, Inl e) \<Rightarrow> (b\<lparr>fs_device := d2\<rparr>, Inl e)
             | (d2, Inr _) \<Rightarrow>
                 (case dev_program dev d2 (t * sz + 20) payload of
                    (d3, Inl e) \<Rightarrow> (b\<lparr>fs_device := d3\<rparr>, Inl e)
                  | (d3, Inr _) \<Rightarrow>
                      (b\<lparr>fs_device := d3, active_sector := t, generation := generation b + 1\<rparr>, Inr ()))))"
      using Some False unfolding t_def sz_def commit_def Let_def FLASH_HEADER_SIZE_def
      by (simp add: cbor_serialize_def del: One_nat_def)
    obtain d1 r1 where e: "dev_erase_sector dev (fs_device b) t = (d1, r1)" by force
    note er = erase [OF v _ e, folded sz_def, OF t]
    show ?thesis
    proof (cases r1)
      case (Inl x)
      with e er Some False assms(3) show ?thesis
        by (auto simp: commit sz_def)
    next
      case r1: (Inr x)
      obtain d2 r2 where h: "dev_program dev d1 (t * sz) (slot_header (generation b + 1) payload) = (d2, r2)" by force
      from program_slot_header [OF _ _ t fit _ h] er r1 obtain j where
        d2: "j \<le> 20" "valid d2" "dev_sector_size dev d2 = sz" "r2 = Inr () \<longrightarrow> j = 20"
        "contents d2 = copy_into (contents (fs_device b)) (t * sz) (slot_image sz (generation b + 1) payload j)" by auto
      show ?thesis
      proof (cases r2)
        case (Inl x)
        with e r1 h d2 Some False fit assms(3) show ?thesis
          by (intro disjI2 exI [of _ payload] exI [of _ j])
            (auto simp: commit committed_def sz_def t_def Let_def)
      next
        case r2: (Inr x)
        obtain d3 r3 where pl: "dev_program dev d2 (t * sz + 20) payload = (d3, r3)" by force
        from program_slot_payload [OF _ _ t fit _ pl] d2 r2 obtain k where
          d3: "k \<le> 20 + length payload" "valid d3" "dev_sector_size dev d3 = sz" "r3 = Inr () \<longrightarrow> k = 20 + length payload"
          "contents d3 = copy_into (contents (fs_device b)) (t * sz) (slot_image sz (generation b + 1) payload k)" by auto
        from e r1 h r2 pl d3 Some False fit assms(3) show ?thesis
          by (intro disjI2 exI [of _ payload] exI [of _ k], cases r3)
            (auto simp: commit committed_def sz_def t_def Let_def)
      qed
    qed
  qed
qed

end

subsection \<open>Recovery\<close>

context flash_device
begin

lemma committed_slots:
  assumes "flash_inv dev contents valid codec b" "committed dev contents valid payload b d' j"
  shows "usable dev contents valid d'"
    and "slot_bytes (dev_sector_size dev d') (active_sector b) (contents d')
           = slot_bytes (dev_sector_size dev (fs_device b)) (active_sector b) (contents (fs_device b))"
    and "slot_bytes (dev_sector_size dev d') (1 - active_sector b) (contents d')
           = slot_image (dev_sector_size dev (fs_device b)) (generation b + 1) payload j"
proof -
  let ?sz = "dev_sector_size dev (fs_device b)"
  let ?img = "slot_image ?sz (generation b + 1) payload j"
  from assms have u: "usable dev contents valid (fs_device b)" and a: "active_sector b = 0 \<or> active_sector b = 1"
    and fit: "20 + length payload \<le> ?sz" and d': "valid d'" "dev_sector_size dev d' = ?sz"
    "contents d' = copy_into (contents (fs_device b)) ((1 - active_sector b) * ?sz) ?img"
    by (auto simp: flash_inv_def committed_def Let_def)
  have img: "length ?img = ?sz" using fit by (rule length_slot_image)
  have sz2: "2 * ?sz \<le> length (contents (fs_device b))" using u by (simp add: usable_def)
  then have "length (contents d') = length (contents (fs_device b))"
    using a unfolding d'(3) by (subst length_copy_into) (auto simp: img)
  with u d' show "usable dev contents valid d'" by (simp add: usable_def)
  show "slot_bytes (dev_sector_size dev d') (active_sector b) (contents d')
           = slot_bytes ?sz (active_sector b) (contents (fs_device b))"
    "slot_bytes (dev_sector_size dev d') (1 - active_sector b) (contents d') = ?img"
    using a slot_bytes_update [OF _ _ sz2 img, of "active_sector b" "1 - active_sector b"]
      slot_bytes_update [OF _ _ sz2 img, of "1 - active_sector b" "1 - active_sector b"]
    unfolding d' by auto
qed

lemma flash_size_bound: "usable dev contents valid d \<Longrightarrow> 2 * dev_sector_size dev d \<le> usize_max"
  using bounded [of d] by (simp add: usable_def)

lemma generation_less: "unat (generation b) + 1 < 2 ^ 64 \<Longrightarrow> generation b < generation b + 1"
  by (simp add: word_less_nat_alt unat_word_ariths)

lemma committed_reopen:
  assumes inv: "flash_inv dev contents valid codec b" and c: "committed dev contents valid payload b d' j"
    and ok: "codec_ok codec" and wf: "btree_wf new" and w: "into_writer codec new = Some payload"
    and g: "unat (generation b) + 1 < 2 ^ 64"
    and t: "torn_detected (generation b + 1) payload \<or> j = 20 + length payload"
  shows "\<exists>b''. flash_new dev codec d' = Inr b'' \<and> flash_inv dev contents valid codec b''
     \<and> (b'' = b\<lparr>fs_device := d', active_sector := 1 - active_sector b, generation := generation b + 1, fs_cache := new\<rparr>
        \<or> j < 20 + length payload \<and> b'' = b\<lparr>fs_device := d'\<rparr>)"
proof -
  let ?sz = "dev_sector_size dev (fs_device b)"
  let ?new = "b\<lparr>fs_device := d', active_sector := 1 - active_sector b, generation := generation b + 1, fs_cache := new\<rparr>"
  note slots = committed_slots [OF inv c]
  have payload: "from_reader codec payload = Some new" using ok wf w unfolding codec_ok_def by blast
  have fit: "20 + length payload \<le> ?sz" "j \<le> 20 + length payload" using c by (auto simp: committed_def Let_def)
  have sz: "2 * ?sz \<le> usize_max"
    by (rule flash_size_bound) (use inv in \<open>simp add: flash_inv_def Let_def\<close>)
  have a: "active_sector b = 0 \<or> active_sector b = 1" using inv by (auto simp: flash_inv_def Let_def)
  let ?img = "slot_image ?sz (generation b + 1) payload j"
  have agree: "slots_agree codec (slot_bytes (dev_sector_size dev d') (active_sector b) (contents d'))
      (slot_bytes ?sz (1 - active_sector b) (contents (fs_device b))) b"
    using inv slots(2) by (simp add: flash_inv_def Let_def)
  have "decode_slot codec ?img = Inr (Some (generation b + 1, new))
     \<or> decode_slot codec ?img = Inr None \<and> j < 20 + length payload"
  proof (cases "j = 20 + length payload")
    case True
    then show ?thesis using decode_slot_full [OF fit(1) sz payload, of "generation b + 1"] by simp
  next
    case False
    with t fit(2) decode_slot_torn [OF fit(1) sz payload fit(2), of "generation b + 1"] show ?thesis by auto
  qed
  then show ?thesis
  proof
    assume full: "decode_slot codec ?img = Inr (Some (generation b + 1, new))"
    have "flash_inv dev contents valid codec ?new"
      using slots a full agree wf generation_less [OF g]
      by (auto simp: flash_inv_def Let_def slots_agree_def split: if_splits)
    with slots_agree_reopen [OF this] show ?thesis by auto
  next
    assume torn: "decode_slot codec ?img = Inr None \<and> j < 20 + length payload"
    have "flash_inv dev contents valid codec (b\<lparr>fs_device := d'\<rparr>)"
      using slots a torn agree inv by (auto simp: flash_inv_def Let_def slots_agree_def split: if_splits)
    with slots_agree_reopen [OF this] torn show ?thesis by auto
  qed
qed

lemma commit_recovers:
  assumes inv: "flash_inv dev contents valid codec b" and ok: "codec_ok codec" and wf: "btree_wf new"
    and g: "unat (generation b) + 1 < 2 ^ 64"
    and t: "\<And>payload. into_writer codec new = Some payload \<Longrightarrow> torn_detected (generation b + 1) payload \<or> r = Inr ()"
    and c: "commit dev codec b new = (b', r)"
  shows "\<exists>b''. flash_new dev codec (fs_device b') = Inr b'' \<and> flash_inv dev contents valid codec b''
     \<and> (r = Inr () \<and> b'' = b'\<lparr>fs_cache := new\<rparr> \<or> r \<noteq> Inr () \<and> (fs_cache b'' = fs_cache b \<or> fs_cache b'' = new))"
proof -
  have u: "usable dev contents valid (fs_device b)" "active_sector b \<le> 1"
    using inv by (auto simp: flash_inv_def Let_def)
  from commit_effect [OF u c] show ?thesis
  proof (elim disjE exE conjE)
    assume same: "r \<noteq> Inr ()" "b' = b\<lparr>fs_device := fs_device b'\<rparr>" "contents (fs_device b') = contents (fs_device b)"
       "valid (fs_device b')" "dev_sector_size dev (fs_device b') = dev_sector_size dev (fs_device b)"
    from same(3-5) have "flash_inv dev contents valid codec (b\<lparr>fs_device := fs_device b'\<rparr>)"
      using inv by (simp add: flash_inv_def usable_def Let_def)
    with slots_agree_reopen [OF this] same(1) show ?thesis by auto
  next
    fix payload j
    assume p: "into_writer codec new = Some payload" "committed dev contents valid payload b (fs_device b') j"
      "if r = Inr () then j = 20 + length payload
         \<and> b' = b\<lparr>fs_device := fs_device b', active_sector := 1 - active_sector b, generation := generation b + 1\<rparr>
       else b' = b\<lparr>fs_device := fs_device b'\<rparr>"
    have "torn_detected (generation b + 1) payload \<or> j = 20 + length payload"
      using t [OF p(1)] p(3) by auto
    from committed_reopen [OF inv p(2) ok wf p(1) g this] obtain b'' where
      b'': "flash_new dev codec (fs_device b') = Inr b''" "flash_inv dev contents valid codec b''"
      "b'' = b\<lparr>fs_device := fs_device b', active_sector := 1 - active_sector b, generation := generation b + 1, fs_cache := new\<rparr>
        \<or> j < 20 + length payload \<and> b'' = b\<lparr>fs_device := fs_device b'\<rparr>" by blast
    show ?thesis
    proof (cases "r = Inr ()")
      case True
      with p(3) have j: "j = 20 + length payload" and
        "b' = b\<lparr>fs_device := fs_device b', active_sector := 1 - active_sector b, generation := generation b + 1\<rparr>"
        by simp_all
      from arg_cong [OF this(2), of "fs_cache_update (\<lambda>_. new)"] j b''(3) have "b'' = b'\<lparr>fs_cache := new\<rparr>" by simp
      with True b'' show ?thesis by blast
    next
      case False
      from b''(3) have "fs_cache b'' = fs_cache b \<or> fs_cache b'' = new" by auto
      with False b'' show ?thesis by blast
    qed
  qed
qed

end

subsection \<open>Success on a healthy device, and opening\<close>

context flash_device
begin

lemma healthy_commit:
  assumes inv: "flash_inv dev contents valid codec b" and h: "healthy (fs_device b)"
    and w: "into_writer codec new = Some payload"
    and fit: "length payload \<le> dev_sector_size dev (fs_device b) - FLASH_HEADER_SIZE"
  shows "\<exists>b'. commit dev codec b new = (b', Inr ()) \<and> healthy (fs_device b')"
proof -
  let ?d = "fs_device b" and ?t = "1 - active_sector b"
  define sz where "sz = dev_sector_size dev ?d"
  from inv have v: "valid ?d" and sz2: "2 * sz \<le> length (contents ?d)" and f: "20 + length payload \<le> sz"
    using fit by (auto simp: flash_inv_def usable_def Let_def sz_def FLASH_HEADER_SIZE_def)
  have "?t = 0 \<or> ?t = 1" by auto
  then have t: "?t * sz + sz \<le> length (contents ?d)" using sz2 by auto
  obtain d1 where d1: "dev_erase_sector dev ?d ?t = (d1, Inr ())" "healthy d1"
    using healthy_erase [OF v h] t by (auto simp: sz_def)
  have e: "valid d1 \<and> dev_sector_size dev d1 = sz \<and> contents d1 = copy_into (contents ?d) (?t * sz) (replicate sz 0xFF)"
    using erase [OF v _ d1(1)] t by (simp add: sz_def)
  have "flash_region_erased (contents d1) (?t * sz) 20" using header_region [OF t] e f by simp
  then obtain d2 where d2: "dev_program dev d1 (?t * sz) (slot_header (generation b + 1) payload) = (d2, Inr ())" "healthy d2"
    using healthy_program [of d1 "?t * sz" "slot_header (generation b + 1) payload"] e d1(2) by auto
  from program_slot_header [OF _ _ t f _ d2(1)] e have p: "valid d2" "dev_sector_size dev d2 = sz"
    "contents d2 = copy_into (contents ?d) (?t * sz) (slot_image sz (generation b + 1) payload 20)" by auto
  have "flash_region_erased (contents d2) (?t * sz + 20) (length payload)"
    unfolding p(3) using t f by (rule payload_region)
  then obtain d3 where d3: "dev_program dev d2 (?t * sz + 20) payload = (d3, Inr ())" "healthy d3"
    using healthy_program [of d2 "?t * sz + 20" payload] p d2(2) by auto
  show ?thesis
    using w fit d1 d2 d3
    by (simp add: commit_def cbor_serialize_def Let_def FLASH_HEADER_SIZE_def flip: sz_def)
qed

lemma flash_open_inv:
  assumes "codec_ok codec" "valid d" "flash_new dev codec d = Inr b"
  shows "flash_inv dev contents valid codec b \<and> fs_device b = d"
proof -
  let ?s = "\<lambda>i. decode_slot codec (slot_bytes (dev_sector_size dev d) i (contents d))"
  let ?b = "\<lparr>fs_device = d, fs_cache = [], active_sector = 0, generation = 0\<rparr>"
  from assms have u: "usable dev contents valid d" and load: "load_latest dev codec ?b = Inr b"
    by (auto simp: flash_new_def usable_def capacity split: if_splits)
  have r: "read_slot dev codec c i = ?s i" if "fs_device c = d" "i \<le> 1" for c i
    using read_slot_decode [of c i codec] u that by simp
  obtain s0 where s0: "?s 0 = Inr s0"
    using load r [of ?b 0] by (cases "?s 0") (auto simp: load_latest_def load_slot_def)
  obtain s1 where s1: "?s 1 = Inr s1"
  proof (cases "?s 1")
    case (Inl e)
    then have "load_slot dev codec c 1 = Inl e" if "fs_device c = d" for c
      using r [of c 1] that by (simp add: load_slot_def)
    moreover obtain c where "load_slot dev codec ?b 0 = Inr c" "fs_device c = d"
      using s0 r [of ?b 0] by (cases s0) (auto simp: load_slot_def)
    ultimately show ?thesis using load by (simp add: load_latest_def)
  qed
  have wf: "btree_wf c" if "decode_slot codec raw = Inr (Some (g, c))" for raw g c
  proof -
    from that have "\<exists>bs. from_reader codec bs = Some c"
      by (auto simp: decode_slot_def cbor_deserialize_def Let_def split: if_splits option.splits)
    with assms(1) show ?thesis unfolding codec_ok_def by blast
  qed
  have "b = with_snapshot d (pick_snapshot s0 s1)"
    using flash_new_picks [OF u s0 s1] assms(3) by simp
  then show ?thesis
    using u s0 s1 wf [of "slot_bytes (dev_sector_size dev d) 0 (contents d)"]
      wf [of "slot_bytes (dev_sector_size dev d) 1 (contents d)"]
    by (auto simp: flash_inv_def slots_agree_def pick_snapshot_def with_snapshot_def Let_def
        split: option.splits if_splits)
qed

end

subsection \<open>A concrete instance for the witnesses\<close>

text \<open>A blank flash of two 32-byte sectors and a codec that knows two snapshots.\<close>

definition example_codec :: "kv_map CborCodec" where
  "example_codec =
     \<lparr>into_writer = (\<lambda>m. if m = [] then Some [0xA0] else if m = [(''a'', [1])] then Some [0xA1, 0x61, 0x61, 1] else None),
      from_reader = (\<lambda>bs. if bs = [0xA0] then Some [] else if bs = [0xA1, 0x61, 0x61, 1] then Some [(''a'', [1])] else None)\<rparr>"

definition example_flash :: "usize option \<Rightarrow> SimulatedFlash" where
  "example_flash fail = \<lparr>sim_bytes = replicate 64 0xFF, sim_sector_size = 32, sim_fail_after = fail\<rparr>"

definition example_backend :: "usize option \<Rightarrow> SimulatedFlash FlashStorageBackend" where
  "example_backend fail = \<lparr>fs_device = example_flash fail, fs_cache = [], active_sector = 0, generation = 0\<rparr>"

lemma example_codec_ok: "codec_ok example_codec"
  by (auto simp: codec_ok_def example_codec_def btree_wf_def)

lemma example_open: "flash_new sim_device example_codec (example_flash fail) = Inr (example_backend fail)"
proof -
  have "sim_read (example_flash fail) 0 32 = Inr (replicate 32 0xFF)"
    "sim_read (example_flash fail) 32 32 = Inr (replicate 32 0xFF)"
    by (simp_all add: sim_read_def example_flash_def checked_add_usize_def usize_max_def slice_of_def)
  moreover have "decode_slot example_codec (replicate 32 0xFF) = Inr None"
  proof -
    have "take 4 (replicate 32 (0xFF :: u8)) ! 0 \<noteq> FLASH_MAGIC ! 0" by (simp add: FLASH_MAGIC_def)
    then have "take 4 (replicate 32 (0xFF :: u8)) \<noteq> FLASH_MAGIC" by metis
    then show ?thesis unfolding decode_slot_def by (simp only: if_True not_False_eq_True)
  qed
  ultimately show ?thesis
    by (simp add: flash_new_def load_latest_def load_slot_def read_slot_def sim_device_def
        example_backend_def FLASH_HEADER_SIZE_def example_flash_def)
qed

lemma example_inv: "flash_inv sim_device sim_bytes sim_valid example_codec (example_backend fail)"
  by (rule sim.flash_open_inv [OF example_codec_ok _ example_open, THEN conjunct1])
    (simp add: sim_valid_def example_flash_def usize_max_def)

lemma example_torn: "torn_detected 1 [0xA1, 0x61, 0x61, 1]"
  by code_simp

subsection \<open>Properties\<close>

text \<open>
  Property C4: a power loss at any byte of a flash write is harmless. On every device that keeps the
  \<open>FlashDevice\<close> contract, whether the erase fails, the header or the payload is programmed only in part, or
  everything succeeds, opening the flash again succeeds and yields a consistent backend that holds either the
  complete old map or the complete new map; it holds the new one when the write reported success, and a
  failed write leaves the values served from memory unchanged. The checksum must tell the interrupted images
  of this slot from the complete one.
\<close>

theorem flash_write_crash_safe:
  assumes "flash_device dev contents valid healthy" "flash_inv dev contents valid codec b" "codec_ok codec"
    and "unat (generation b) + 1 < 2 ^ 64"
    and "\<And>payload. into_writer codec (btree_insert key value (fs_cache b)) = Some payload
           \<Longrightarrow> torn_detected (generation b + 1) payload"
    and "flash_write dev codec b key value = (b', r)"
  shows "\<exists>b''. flash_new dev codec (fs_device b') = Inr b'' \<and> flash_inv dev contents valid codec b''
     \<and> (if r = Inr () then b'' = b' \<and> fs_cache b'' = btree_insert key value (fs_cache b)
        else fs_cache b' = fs_cache b \<and> fs_cache b'' \<in> {fs_cache b, btree_insert key value (fs_cache b)})"
proof -
  let ?new = "btree_insert key value (fs_cache b)"
  obtain c q where c: "commit dev codec b ?new = (c, q)" by force
  have wf: "btree_wf ?new" using assms(2) by (simp add: flash_inv_def Let_def)
  have "fs_cache c = fs_cache b" using c
    by (auto simp: commit_def Let_def split: sum.splits prod.splits if_splits)
  with c assms(6) flash_device.commit_recovers [OF assms(1-3) wf assms(4) _ c] assms(5) show ?thesis
    by (cases q) (auto simp: flash_write_def Let_def)
qed

theorem flash_write_crash_safe_witness:
  "\<exists>b''. flash_new sim_device example_codec
        (fs_device (fst (flash_write sim_device example_codec (example_backend (Some 7)) ''a'' [1]))) = Inr b''
     \<and> flash_inv sim_device sim_bytes sim_valid example_codec b''
     \<and> (if snd (flash_write sim_device example_codec (example_backend (Some 7)) ''a'' [1]) = Inr ()
        then b'' = fst (flash_write sim_device example_codec (example_backend (Some 7)) ''a'' [1])
           \<and> fs_cache b'' = btree_insert ''a'' [1] (fs_cache (example_backend (Some 7)))
        else fs_cache (fst (flash_write sim_device example_codec (example_backend (Some 7)) ''a'' [1]))
               = fs_cache (example_backend (Some 7))
           \<and> fs_cache b'' \<in> {fs_cache (example_backend (Some 7)),
                btree_insert ''a'' [1] (fs_cache (example_backend (Some 7)))})"
  by (rule flash_write_crash_safe [OF sim.flash_device_axioms example_inv example_codec_ok])
    (use example_torn in \<open>auto simp: example_backend_def example_codec_def\<close>)

text \<open>
  On a device that does not fail, writing a value whose snapshot fits the sector succeeds and is
  durable: the next \<open>FlashStorageBackend::new\<close> on the device gives back the very same backend, with the value
  under its key and every other key as before.
\<close>

lemma flash_write_durable:
  assumes "flash_device dev contents valid healthy" "flash_inv dev contents valid codec b" "codec_ok codec"
    and "unat (generation b) + 1 < 2 ^ 64" "healthy (fs_device b)"
    and "into_writer codec (btree_insert key value (fs_cache b)) = Some payload"
    and "length payload \<le> dev_sector_size dev (fs_device b) - FLASH_HEADER_SIZE"
  shows "\<exists>b'. flash_write dev codec b key value = (b', Inr ()) \<and> healthy (fs_device b')
     \<and> flash_inv dev contents valid codec b' \<and> flash_new dev codec (fs_device b') = Inr b'
     \<and> (\<forall>k. flash_read b' k = (if k = key then Inr (Some value) else flash_read b k))"
proof -
  let ?new = "btree_insert key value (fs_cache b)"
  obtain c where c: "commit dev codec b ?new = (c, Inr ())" "healthy (fs_device c)"
    using flash_device.healthy_commit [OF assms(1,2,5,6,7)] by auto
  have wf: "btree_wf ?new" using assms(2) by (simp add: flash_inv_def Let_def)
  from flash_device.commit_recovers [OF assms(1-3) wf assms(4) _ c(1)]
  have "flash_new dev codec (fs_device c) = Inr (c\<lparr>fs_cache := ?new\<rparr>)"
    "flash_inv dev contents valid codec (c\<lparr>fs_cache := ?new\<rparr>)" by auto
  then show ?thesis
    using c by (simp add: flash_write_def flash_read_def)
qed

text \<open>
  Opening. Whatever bytes the flash holds, when \<open>FlashStorageBackend::new\<close> succeeds the backend
  satisfies the two-slot invariant for that device: its generation and map are those of the newest readable
  slot, or the empty map when no slot is readable; opening the same device again gives the same backend.
\<close>

lemma flash_open_consistent:
  assumes "flash_device dev contents valid healthy" "codec_ok codec" "valid d" "flash_new dev codec d = Inr b"
  shows "flash_inv dev contents valid codec b \<and> fs_device b = d \<and> flash_new dev codec (fs_device b) = Inr b"
  using flash_device.flash_open_inv [OF assms] assms(4) by auto

end
