(* ===== verification/Crypto.thy ===== *)
theory Crypto
  imports Prelude
begin

section \<open>The crypto engine\<close>

text \<open>
  Models \<open>openkey-crypto/src/crypto.rs\<close>: the wrappers of \<open>CryptoEngine\<close> around the \<open>ring\<close> library. The library
  is not part of the sources, so its primitives are the fields of the record \<open>RingPrims\<close>, an argument of every
  definition that uses them. The system random number generator is a function of the number of the draw and
  the length asked for; an engine operation that draws takes the index of its draw. \<open>expect\<close> and \<open>unwrap\<close> are
  \<open>the\<close>: what happens after a panic is left open. Of a formatted error message the fixed part is kept.
\<close>

datatype Curve = P256 | P384
datatype VerifyAlg = Ed25519_alg | Ecdsa_alg Curve | Rsa_pkcs1_alg | Rsa_pss_alg
datatype HmacAlg = Hmac_Sha256 | Hmac_Sha512 | Hmac_Sha1

record RingPrims =
  ring_fill :: "nat \<Rightarrow> usize \<Rightarrow> bytes option"
  ring_sha256 :: "bytes \<Rightarrow> bytes"
  ring_hmac :: "HmacAlg \<Rightarrow> bytes \<Rightarrow> bytes \<Rightarrow> bytes"
  ring_hkdf :: "bytes \<Rightarrow> bytes \<Rightarrow> bytes \<Rightarrow> usize \<Rightarrow> bytes option"
  ring_aead_seal :: "bytes \<Rightarrow> bytes \<Rightarrow> bytes \<Rightarrow> bytes option"
  ring_aead_open :: "bytes \<Rightarrow> bytes \<Rightarrow> bytes \<Rightarrow> bytes option"
  ring_ed25519_public :: "bytes \<Rightarrow> bytes option"
  ring_ed25519_sign :: "bytes \<Rightarrow> bytes \<Rightarrow> bytes"
  ring_ecdsa_generate :: "Curve \<Rightarrow> nat \<Rightarrow> bytes option"
  ring_ecdsa_public :: "Curve \<Rightarrow> bytes \<Rightarrow> bytes option"
  ring_ecdsa_sign :: "Curve \<Rightarrow> nat \<Rightarrow> bytes \<Rightarrow> bytes \<Rightarrow> bytes option"
  ring_rsa_from_pkcs8 :: "bytes \<Rightarrow> bool"
  ring_rsa_sign :: "VerifyAlg \<Rightarrow> nat \<Rightarrow> bytes \<Rightarrow> bytes \<Rightarrow> bytes option"
  rsa_private_new :: "nat \<Rightarrow> bytes option"
  rsa_to_pkcs8_der :: "bytes \<Rightarrow> bytes option"
  rsa_modulus :: "bytes \<Rightarrow> bytes"
  rsa_exponent :: "bytes \<Rightarrow> bytes"
  rsa_public_new :: "bytes \<Rightarrow> bytes \<Rightarrow> bool"
  rsa_to_pkcs1_der :: "bytes \<Rightarrow> bytes \<Rightarrow> bytes option"
  rsa_from_pkcs1_der :: "bytes \<Rightarrow> (bytes \<times> bytes) option"
  ring_verify :: "VerifyAlg \<Rightarrow> bytes \<Rightarrow> bytes \<Rightarrow> bytes \<Rightarrow> bool"
  ring_agree_public :: "nat \<Rightarrow> bytes option"
  ring_agree :: "nat \<Rightarrow> bytes \<Rightarrow> bytes option"
  aes256_encrypt_block :: "bytes \<Rightarrow> bytes \<Rightarrow> bytes"
  aes256_decrypt_block :: "bytes \<Rightarrow> bytes \<Rightarrow> bytes"

type_synonym message = string

record CryptoEngine =
  ce_key :: bytes

definition from_key :: "bytes \<Rightarrow> CryptoEngine" where
  "from_key key = \<lparr>ce_key = key\<rparr>"

definition engine_new :: "RingPrims \<Rightarrow> nat \<Rightarrow> (message, CryptoEngine) result" where
  "engine_new ring draw =
     (case ring_fill ring draw 32 of
        None \<Rightarrow> Inl ''Failed to generate engine key'' | Some key \<Rightarrow> Inr \<lparr>ce_key = key\<rparr>)"

definition derive_key :: "RingPrims \<Rightarrow> CryptoEngine \<Rightarrow> bytes \<Rightarrow> u32 \<Rightarrow> (message, bytes) result" where
  "derive_key ring e salt iterations =
     Inr (ring_hmac ring Hmac_Sha256 (ce_key e) (salt @ to_be_bytes 4 iterations))"

definition compute_hmac :: "RingPrims \<Rightarrow> bytes \<Rightarrow> bytes \<Rightarrow> (message, bytes) result" where
  "compute_hmac ring data key_id = Inr (ring_hmac ring Hmac_Sha256 key_id data)"

definition compute_hmac_sha512 :: "RingPrims \<Rightarrow> bytes \<Rightarrow> bytes \<Rightarrow> (message, bytes) result" where
  "compute_hmac_sha512 ring data key = Inr (ring_hmac ring Hmac_Sha512 key data)"

definition compute_hmac_sha1_ykoath_compat :: "RingPrims \<Rightarrow> bytes \<Rightarrow> bytes \<Rightarrow> (message, bytes) result" where
  "compute_hmac_sha1_ykoath_compat ring data key = Inr (ring_hmac ring Hmac_Sha1 key data)"

definition constant_time_eq :: "bytes \<Rightarrow> bytes \<Rightarrow> bool" where
  "constant_time_eq a b = (a = b)"

definition verify_hmac :: "RingPrims \<Rightarrow> bytes \<Rightarrow> bytes \<Rightarrow> bytes \<Rightarrow> (message, bool) result" where
  "verify_hmac ring data mac_data key_id =
     (if ring_hmac ring Hmac_Sha256 key_id data = mac_data then Inr True else Inl ''HMAC verification failed'')"

definition sha256 :: "RingPrims \<Rightarrow> bytes \<Rightarrow> bytes" where
  "sha256 ring data = ring_sha256 ring data"

definition random_bytes :: "RingPrims \<Rightarrow> nat \<Rightarrow> usize \<Rightarrow> bytes" where
  "random_bytes ring draw len = the (ring_fill ring draw len)"

definition ed25519_key_pair_from_seed :: "RingPrims \<Rightarrow> bytes \<Rightarrow> (message, bytes) result" where
  "ed25519_key_pair_from_seed ring seed =
     (if length seed \<noteq> 32 then Inl ''Ed25519 private key must be 32 bytes''
      else case ring_ed25519_public ring seed of
             None \<Rightarrow> Inl ''Invalid Ed25519 private key'' | Some public_key \<Rightarrow> Inr public_key)"

definition generate_key_pair :: "RingPrims \<Rightarrow> nat \<Rightarrow> (message, bytes \<times> bytes) result" where
  "generate_key_pair ring draw =
     (case ring_fill ring draw 32 of
        None \<Rightarrow> Inl ''Failed to generate key pair seed''
      | Some seed \<Rightarrow>
          (case ed25519_key_pair_from_seed ring seed of
             Inl e \<Rightarrow> Inl e | Inr public_key \<Rightarrow> Inr (seed, public_key)))"

definition generate_ecdsa_key_pair ::
  "message \<Rightarrow> message \<Rightarrow> Curve \<Rightarrow> RingPrims \<Rightarrow> nat \<Rightarrow> (message, bytes \<times> bytes) result" where
  "generate_ecdsa_key_pair gen_err parse_err curve ring draw =
     (case ring_ecdsa_generate ring curve draw of
        None \<Rightarrow> Inl gen_err
      | Some pkcs8 \<Rightarrow>
          (case ring_ecdsa_public ring curve pkcs8 of
             None \<Rightarrow> Inl parse_err | Some public_key \<Rightarrow> Inr (pkcs8, public_key)))"

definition generate_p256_key_pair :: "RingPrims \<Rightarrow> nat \<Rightarrow> (message, bytes \<times> bytes) result" where
  "generate_p256_key_pair =
     generate_ecdsa_key_pair ''Failed to generate P-256 PKCS#8'' ''Failed to parse P-256 PKCS#8'' P256"

definition generate_p384_key_pair :: "RingPrims \<Rightarrow> nat \<Rightarrow> (message, bytes \<times> bytes) result" where
  "generate_p384_key_pair =
     generate_ecdsa_key_pair ''Failed to generate P-384 PKCS#8'' ''Failed to parse P-384 PKCS#8'' P384"

definition sign_ecdsa ::
  "message \<Rightarrow> message \<Rightarrow> Curve \<Rightarrow> RingPrims \<Rightarrow> nat \<Rightarrow> bytes \<Rightarrow> bytes \<Rightarrow> (message, bytes) result" where
  "sign_ecdsa parse_err sign_err curve ring draw private_key msg =
     (case ring_ecdsa_public ring curve private_key of
        None \<Rightarrow> Inl parse_err
      | Some _ \<Rightarrow>
          (case ring_ecdsa_sign ring curve draw private_key msg of
             None \<Rightarrow> Inl sign_err | Some signature \<Rightarrow> Inr signature))"

definition sign_p256 :: "RingPrims \<Rightarrow> nat \<Rightarrow> bytes \<Rightarrow> bytes \<Rightarrow> (message, bytes) result" where
  "sign_p256 = sign_ecdsa ''Failed to parse P-256 private key'' ''P-256 signing failed'' P256"

definition sign_p384 :: "RingPrims \<Rightarrow> nat \<Rightarrow> bytes \<Rightarrow> bytes \<Rightarrow> (message, bytes) result" where
  "sign_p384 = sign_ecdsa ''Failed to parse P-384 private key'' ''P-384 signing failed'' P384"

definition verify_p256 :: "RingPrims \<Rightarrow> bytes \<Rightarrow> bytes \<Rightarrow> bytes \<Rightarrow> (message, unit) result" where
  "verify_p256 ring public_key msg signature =
     (if ring_verify ring (Ecdsa_alg P256) public_key msg signature then Inr ()
      else Inl ''P-256 verification failed'')"

definition verify_p384 :: "RingPrims \<Rightarrow> bytes \<Rightarrow> bytes \<Rightarrow> bytes \<Rightarrow> (message, unit) result" where
  "verify_p384 ring public_key msg signature =
     (if ring_verify ring (Ecdsa_alg P384) public_key msg signature then Inr ()
      else Inl ''P-384 verification failed'')"

text \<open>
  The RSA operations of the feature \<open>rs256\<close>: keys come from the crate \<open>rsa\<close> (a private key is an opaque value,
  encoded by \<open>rsa_to_pkcs8_der\<close>), signatures from \<open>ring\<close>.
\<close>

definition sign_with_rsa ::
  "message \<Rightarrow> VerifyAlg \<Rightarrow> RingPrims \<Rightarrow> nat \<Rightarrow> bytes \<Rightarrow> bytes \<Rightarrow> (message, bytes) result" where
  "sign_with_rsa sign_err alg ring draw private_key msg =
     (if \<not> ring_rsa_from_pkcs8 ring private_key then Inl ''Failed to parse RSA private key''
      else case ring_rsa_sign ring alg draw private_key msg of
             None \<Rightarrow> Inl sign_err | Some signature \<Rightarrow> Inr signature)"

definition sign_rsa_pss :: "RingPrims \<Rightarrow> nat \<Rightarrow> bytes \<Rightarrow> bytes \<Rightarrow> (message, bytes) result" where
  "sign_rsa_pss = sign_with_rsa ''RSA-PSS signing failed'' Rsa_pss_alg"

definition verify_rsa_pss :: "RingPrims \<Rightarrow> bytes \<Rightarrow> bytes \<Rightarrow> bytes \<Rightarrow> (message, unit) result" where
  "verify_rsa_pss ring public_key msg signature =
     (if ring_verify ring Rsa_pss_alg public_key msg signature then Inr ()
      else Inl ''RSA-PSS verification failed'')"

definition generate_rsa_key_pair :: "RingPrims \<Rightarrow> nat \<Rightarrow> (message, bytes \<times> bytes \<times> bytes) result" where
  "generate_rsa_key_pair ring draw =
     (case rsa_private_new ring draw of
        None \<Rightarrow> Inl ''RSA key generation failed''
      | Some key \<Rightarrow>
          (case rsa_to_pkcs8_der ring key of
             None \<Rightarrow> Inl ''RSA PKCS#8 encoding failed''
           | Some pkcs8 \<Rightarrow> Inr (pkcs8, rsa_modulus ring key, rsa_exponent ring key)))"

definition rsa_public_key_der :: "RingPrims \<Rightarrow> bytes \<Rightarrow> bytes \<Rightarrow> (message, bytes) result" where
  "rsa_public_key_der ring n e =
     (if \<not> rsa_public_new ring n e then Inl ''Invalid RSA public key''
      else case rsa_to_pkcs1_der ring n e of
             None \<Rightarrow> Inl ''RSA public key encoding failed'' | Some der \<Rightarrow> Inr der)"

definition rsa_public_key_parts :: "RingPrims \<Rightarrow> bytes \<Rightarrow> (message, bytes \<times> bytes) result" where
  "rsa_public_key_parts ring der =
     (case rsa_from_pkcs1_der ring der of
        None \<Rightarrow> Inl ''Invalid RSA public key DER'' | Some (n, e) \<Rightarrow> Inr (n, e))"

definition sign_rsa :: "RingPrims \<Rightarrow> nat \<Rightarrow> bytes \<Rightarrow> bytes \<Rightarrow> (message, bytes) result" where
  "sign_rsa = sign_with_rsa ''RSA signing failed'' Rsa_pkcs1_alg"

definition verify_rsa :: "RingPrims \<Rightarrow> bytes \<Rightarrow> bytes \<Rightarrow> bytes \<Rightarrow> (message, unit) result" where
  "verify_rsa ring public_key msg signature =
     (if ring_verify ring Rsa_pkcs1_alg public_key msg signature then Inr ()
      else Inl ''RSA verification failed'')"

definition sign :: "RingPrims \<Rightarrow> bytes \<Rightarrow> bytes \<Rightarrow> (message, bytes) result" where
  "sign ring data private_key =
     (case ed25519_key_pair_from_seed ring private_key of
        Inl e \<Rightarrow> Inl e | Inr _ \<Rightarrow> Inr (ring_ed25519_sign ring private_key data))"

definition verify :: "RingPrims \<Rightarrow> bytes \<Rightarrow> bytes \<Rightarrow> bytes \<Rightarrow> (message, bool) result" where
  "verify ring data signature public_key =
     (if ring_verify ring Ed25519_alg public_key data signature then Inr True
      else Inl ''Signature verification failed'')"

text \<open>
  \<open>encrypt\<close> and \<open>decrypt\<close> under the master key, which has 32 bytes by its type, so that \<open>UnboundKey::new\<close>
  accepts it.
\<close>

definition engine_encrypt :: "RingPrims \<Rightarrow> CryptoEngine \<Rightarrow> bytes \<Rightarrow> bytes \<Rightarrow> (message, bytes) result" where
  "engine_encrypt ring e plaintext nonce =
     (if length nonce \<noteq> 12 then Inl ''Nonce must be exactly 12 bytes''
      else case ring_aead_seal ring (ce_key e) nonce plaintext of
             None \<Rightarrow> Inl ''Encryption failed'' | Some out \<Rightarrow> Inr out)"

definition encrypt_with_random_nonce ::
  "RingPrims \<Rightarrow> CryptoEngine \<Rightarrow> nat \<Rightarrow> bytes \<Rightarrow> (message, bytes \<times> bytes) result" where
  "encrypt_with_random_nonce ring e draw plaintext =
     (let nonce = random_bytes ring draw 12
      in case engine_encrypt ring e plaintext nonce of
           Inl err \<Rightarrow> Inl err | Inr ciphertext \<Rightarrow> Inr (nonce, ciphertext))"

definition engine_decrypt :: "RingPrims \<Rightarrow> CryptoEngine \<Rightarrow> bytes \<Rightarrow> bytes \<Rightarrow> (message, bytes) result" where
  "engine_decrypt ring e ciphertext nonce =
     (if length nonce \<noteq> 12 then Inl ''Nonce must be exactly 12 bytes''
      else case ring_aead_open ring (ce_key e) nonce ciphertext of
             None \<Rightarrow> Inl ''Decryption failed'' | Some plaintext \<Rightarrow> Inr plaintext)"

subsection \<open>What the code relies on of the library\<close>

text \<open>The documented behaviour of the primitives used as hypotheses below.\<close>

definition aead_correct :: "RingPrims \<Rightarrow> bool" where
  "aead_correct ring = (\<forall>k n p c. ring_aead_seal ring k n p = Some c \<longrightarrow> ring_aead_open ring k n c = Some p)"

definition aes_correct :: "RingPrims \<Rightarrow> bool" where
  "aes_correct ring = (\<forall>k b. length b = 16 \<longrightarrow> length (aes256_encrypt_block ring k b) = 16
     \<and> aes256_decrypt_block ring k (aes256_encrypt_block ring k b) = b)"

definition rng_correct :: "RingPrims \<Rightarrow> bool" where
  "rng_correct ring = (\<forall>i n. \<exists>bs. ring_fill ring i n = Some bs \<and> length bs = n)"

text \<open>The ciphertext is at least as long as the plaintext, as documented for ChaCha20-Poly1305.\<close>

definition aead_length :: "RingPrims \<Rightarrow> bool" where
  "aead_length r = (\<forall>k n p c. ring_aead_seal r k n p = Some c \<longrightarrow> length p \<le> length c)"

text \<open>What sealing relies on of the library.\<close>

definition sealing_ring :: "RingPrims \<Rightarrow> bool" where
  "sealing_ring r = (aead_correct r \<and> aead_length r \<and> rng_correct r)"

definition hmac_sha256_length :: "RingPrims \<Rightarrow> bool" where
  "hmac_sha256_length ring = (\<forall>k m. length (ring_hmac ring Hmac_Sha256 k m) = 32)"

definition sha256_length :: "RingPrims \<Rightarrow> bool" where
  "sha256_length ring = (\<forall>m. length (ring_sha256 ring m) = 32)"

text \<open>A concrete library that satisfies them, for the witnesses: an exclusive-or cipher and constant hashes.\<close>

definition toy_xor :: "bytes \<Rightarrow> bytes \<Rightarrow> bytes" where
  "toy_xor k b = map (\<lambda>x. x XOR (fold (XOR) k 0)) b"

definition example_ring :: RingPrims where
  "example_ring =
     \<lparr>ring_fill = (\<lambda>i n. Some (map (\<lambda>j. of_nat (i + j)) [0..<n])),
      ring_sha256 = (\<lambda>m. resize 32 0x5A (take 31 m @ [of_nat (length m)])),
      ring_hmac = (\<lambda>a k m. resize 32 0x5A (toy_xor k m)),
      ring_hkdf = (\<lambda>ikm salt info len. Some (resize len 0x5A (ikm @ info))),
      ring_aead_seal = (\<lambda>k n p. Some (toy_xor k p)),
      ring_aead_open = (\<lambda>k n c. Some (toy_xor k c)),
      ring_ed25519_public = (\<lambda>seed. Some seed),
      ring_ed25519_sign = (\<lambda>seed m. toy_xor seed m),
      ring_ecdsa_generate = (\<lambda>c i. Some [of_nat i]),
      ring_ecdsa_public = (\<lambda>c k. Some (resize 65 4 k)),
      ring_ecdsa_sign = (\<lambda>c i k m. Some (toy_xor k m)),
      ring_rsa_from_pkcs8 = (\<lambda>k. True),
      ring_rsa_sign = (\<lambda>a i k m. Some (toy_xor k m)),
      rsa_private_new = (\<lambda>i. Some [of_nat i]),
      rsa_to_pkcs8_der = Some,
      rsa_modulus = (\<lambda>k. k),
      rsa_exponent = (\<lambda>k. [1, 0, 1]),
      rsa_public_new = (\<lambda>n e. True),
      rsa_to_pkcs1_der = (\<lambda>n e. Some n),
      rsa_from_pkcs1_der = (\<lambda>d. Some (d, [1, 0, 1])),
      ring_verify = (\<lambda>a p m s. True),
      ring_agree_public = (\<lambda>i. Some (4 # replicate 64 (of_nat i))),
      ring_agree = (\<lambda>i p. Some (resize 32 0 p)),
      aes256_encrypt_block = toy_xor,
      aes256_decrypt_block = toy_xor\<rparr>"

lemma toy_xor_toy_xor [simp]: "toy_xor k (toy_xor k b) = b"
  by (simp add: toy_xor_def o_def xor.assoc)

lemma length_toy_xor [simp]: "length (toy_xor k b) = length b"
  by (simp add: toy_xor_def)

lemma example_ring_correct:
  "aead_correct example_ring" "aes_correct example_ring" "rng_correct example_ring"
  "hmac_sha256_length example_ring" "sha256_length example_ring"
  by (simp_all add: sha256_length_def aead_correct_def aes_correct_def rng_correct_def hmac_sha256_length_def example_ring_def)

subsection \<open>Lemmas\<close>

lemma engine_decrypt_encrypt:
  "aead_correct ring \<Longrightarrow> engine_encrypt ring e p n = Inr c \<Longrightarrow> engine_decrypt ring e c n = Inr p"
  by (auto simp: engine_encrypt_def engine_decrypt_def aead_correct_def split: if_splits option.splits)

lemma length_random_bytes: "rng_correct ring \<Longrightarrow> length (random_bytes ring i n) = n"
  by (metis option.sel random_bytes_def rng_correct_def)

end
