(* ===== verification/Decimal.thy ===== *)
theory Decimal
  imports Prelude "HOL-Library.Char_ord"
begin

section \<open>Decimal text\<close>

text \<open>
  The counters of the authenticator (PIN retries, UV retries, signature counter) are persisted as decimal
  text: \<open>to_string().into_bytes()\<close> writes them, \<open>String::from_utf8\<close> and \<open>parse::<u8>()\<close> or \<open>parse::<u32>()\<close> read
  them. \<open>parse_unsigned\<close> is the standard library's parser for unsigned integers: an optional leading \<open>+\<close>, at
  least one digit, nothing else, and an error beyond the width of the type.

  Digits are ASCII, and a byte string that is not valid UTF-8 holds a byte that is not a digit, so that
  parsing the bytes directly has the result of the two steps.
\<close>

definition digit_byte :: "nat \<Rightarrow> u8" where
  "digit_byte d = of_nat (48 + d)"

definition is_digit :: "u8 \<Rightarrow> bool" where
  "is_digit b = (48 \<le> b \<and> b \<le> 57)"

definition digit_value :: "u8 \<Rightarrow> nat" where
  "digit_value b = unat b - 48"

function print_nat :: "nat \<Rightarrow> bytes" where
  "print_nat n = (if n < 10 then [digit_byte n] else print_nat (n div 10) @ [digit_byte (n mod 10)])"
  by auto
termination by (relation "measure (\<lambda>n. n)") auto

declare print_nat.simps [simp del]

definition digits_value :: "bytes \<Rightarrow> nat" where
  "digits_value bs = foldl (\<lambda>acc b. acc * 10 + digit_value b) 0 bs"

definition parse_unsigned :: "nat \<Rightarrow> bytes \<Rightarrow> nat option" where
  "parse_unsigned m bs =
     (let ds = (case bs of b # rest \<Rightarrow> if b = 43 then rest else bs | [] \<Rightarrow> bs)
      in if ds = [] \<or> \<not> list_all is_digit ds then None
         else if digits_value ds \<le> m then Some (digits_value ds) else None)"

definition parse_word :: "bytes \<Rightarrow> 'a::len word option" where
  "parse_word bs = map_option of_nat (parse_unsigned (2 ^ LENGTH('a) - 1) bs)"

definition print_word :: "'a::len word \<Rightarrow> bytes" where
  "print_word w = print_nat (unat w)"

text \<open>The decimal text as it appears in messages.\<close>

definition show_nat :: "nat \<Rightarrow> string" where
  "show_nat n = map (\<lambda>b. char_of (unat b)) (print_nat n)"

subsection \<open>Printing and parsing\<close>

lemma unat_digit: "d < 10 \<Longrightarrow> unat (digit_byte d) = 48 + d"
  unfolding digit_byte_def by (simp only: unat_of_nat) simp

lemma digit_byte_props:
  assumes "d < 10"
  shows "is_digit (digit_byte d)" "digit_value (digit_byte d) = d" "digit_byte d \<noteq> 43"
  using unat_digit [OF assms] assms by (auto simp: is_digit_def digit_value_def word_le_nat_alt)

lemma digits_value_snoc: "digits_value (bs @ [b]) = digits_value bs * 10 + digit_value b"
  by (simp add: digits_value_def)

lemma print_nat_digits: "print_nat n \<noteq> [] \<and> list_all is_digit (print_nat n) \<and> digits_value (print_nat n) = n"
proof (induction n rule: print_nat.induct)
  case (1 n)
  show ?case
  proof (cases "n < 10")
    case True
    then show ?thesis
      by (simp add: print_nat.simps [of n] digit_byte_props digits_value_def)
  next
    case False
    then show ?thesis
      using 1 by (simp add: print_nat.simps [of n] digit_byte_props digits_value_snoc)
  qed
qed

lemma digit_not_plus: "is_digit b \<Longrightarrow> b \<noteq> 43"
  by (auto simp: is_digit_def word_le_nat_alt)

lemma parse_print_nat: "n \<le> m \<Longrightarrow> parse_unsigned m (print_nat n) = Some n"
  using print_nat_digits [of n]
  by (cases "print_nat n") (auto simp: parse_unsigned_def dest: digit_not_plus)

lemma parse_print_word [simp]: "parse_word (print_word (w :: 'a::len word)) = Some w"
proof -
  have "unat w \<le> 2 ^ LENGTH('a) - 1"
    using unsigned_less [of w, where ?'a = nat] by linarith
  then show ?thesis
    unfolding parse_word_def print_word_def by (subst parse_print_nat) simp_all
qed

end
