(* ===== verification/Storage_Engine.thy ===== *)
theory Storage_Engine
  imports Flash Crypto Decimal
begin

section \<open>The storage engine\<close>

text \<open>
  Models \<open>StorageEngine\<close> of \<open>openkey-storage/src/storage.rs\<close>: the credential index with encryption at rest, the
  key-value store, the large-blob array and the wear counters, over an optional \<open>StorageBackend\<close>. The trait is
  a record of operations; its contract is the locale \<open>storage_backend\<close>, interpreted on the flash backend. The
  CBOR codec of stored credentials and \<open>hex::encode\<close> are parameters. Operations return the new engine together
  with their result, since memory and backend may already have changed when an error is returned.
\<close>

subsection \<open>Data\<close>

record 'b StorageBackend =
  be_read :: "'b \<Rightarrow> string \<Rightarrow> (StorageError, bytes option) result"
  be_write :: "'b \<Rightarrow> string \<Rightarrow> bytes \<Rightarrow> 'b \<times> (StorageError, unit) result"
  be_delete :: "'b \<Rightarrow> string \<Rightarrow> 'b \<times> (StorageError, unit) result"
  be_list_keys :: "'b \<Rightarrow> (StorageError, string list) result"

definition flash_backend :: "'d FlashDevice \<Rightarrow> kv_map CborCodec \<Rightarrow> 'd FlashStorageBackend StorageBackend" where
  "flash_backend dev codec =
     \<lparr>be_read = flash_read, be_write = flash_write dev codec, be_delete = flash_delete dev codec,
      be_list_keys = flash_list_keys\<rparr>"

definition WEAR_LEVELING_THRESHOLD :: u32 where "WEAR_LEVELING_THRESHOLD = 10000"
definition CRED_PROTECT_UV_REQUIRED :: u8 where "CRED_PROTECT_UV_REQUIRED = 0x03"
definition LARGE_BLOBS_STORAGE_KEY :: string where "LARGE_BLOBS_STORAGE_KEY = ''sys:large_blobs''"
definition MAX_LARGE_BLOBS_SIZE :: usize where "MAX_LARGE_BLOBS_SIZE = 4096"

record WearLevelCounter =
  wear_sector :: string
  write_count :: u32

definition wear_new :: "string \<Rightarrow> WearLevelCounter" where
  "wear_new sector = \<lparr>wear_sector = sector, write_count = 0\<rparr>"

text \<open>\<open>increment\<close>: both threshold branches only log, so that the count is all that changes.\<close>

definition wear_increment :: "WearLevelCounter \<Rightarrow> WearLevelCounter \<times> (StorageError, unit) result" where
  "wear_increment c = (c\<lparr>write_count := write_count c + 1\<rparr>, Inr ())"

record Credential =
  credential_id :: bytes
  public_key :: bytes
  private_key :: bytes
  sign_count :: u32
  rp_id_hash :: bytes
  user_handle :: "bytes option"
  cred_blob :: bytes
  created_at :: u64
  algorithm :: int
  rp_id :: string
  large_blob_key :: "bytes option"
  user_name :: "string option"
  user_display_name :: "string option"
  cred_protect :: "u8 option"
  cred_random_with_uv :: "bytes option"
  cred_random_without_uv :: "bytes option"

record StoredCredential =
  credential :: Credential
  encrypted_private_key :: bytes
  sc_nonce :: bytes

record 'b StorageEngine =
  credentials :: "(bytes, StoredCredential) btree"
  kv_store :: "(string, bytes) btree"
  large_blobs :: bytes
  backend :: "'b option"
  wear_counters :: "(string, WearLevelCounter) btree"
  max_credential_count :: "usize option"

text \<open>What the engine is linked with: backend operations, CBOR codec, hex encoder and crypto library.\<close>

record 'b StorageEnv =
  ops :: "'b StorageBackend"
  cred_codec :: "StoredCredential CborCodec"
  hex_encode :: "bytes \<Rightarrow> string"
  ring :: RingPrims

text \<open>\<open>Box<dyn Error>\<close> of the engine: a storage error or a message.\<close>

datatype EngineError = E_Storage StorageError | E_Message message

subsection \<open>Construction and loading\<close>

definition engine_empty :: "'b option \<Rightarrow> 'b StorageEngine" where
  "engine_empty b = \<lparr>credentials = [], kv_store = [], large_blobs = [], backend = b, wear_counters = [],
                     max_credential_count = None\<rparr>"

definition storage_new :: "(EngineError, 'b StorageEngine) result" where
  "storage_new = Inr (engine_empty None)"

text \<open>The loop over the keys of \<open>load_from_backend\<close>; an error of the backend ends it with what was loaded.\<close>

fun load_keys :: "'b StorageEnv \<Rightarrow> 'b \<Rightarrow> 'b StorageEngine \<Rightarrow> string list \<Rightarrow> 'b StorageEngine \<times> (StorageError, unit) result" where
  "load_keys env b se [] = (se, Inr ())"
| "load_keys env b se (key # keys) =
     (if key = LARGE_BLOBS_STORAGE_KEY
      then (case be_read (ops env) b key of
              Inl e \<Rightarrow> (se, Inl e)
            | Inr (Some blob_data) \<Rightarrow> load_keys env b (se\<lparr>large_blobs := blob_data\<rparr>) keys
            | Inr None \<Rightarrow> load_keys env b se keys)
      else (case be_read (ops env) b key of
              Inl e \<Rightarrow> (se, Inl e)
            | Inr (Some cred_data) \<Rightarrow>
                (case cbor_deserialize (cred_codec env) cred_data of
                   Inr stored \<Rightarrow>
                     load_keys env b
                       (se\<lparr>credentials := btree_insert (credential_id (credential stored)) stored (credentials se)\<rparr>) keys
                 | Inl _ \<Rightarrow> load_keys env b se keys)
            | Inr None \<Rightarrow> load_keys env b se keys))"

definition load_from_backend :: "'b StorageEnv \<Rightarrow> 'b StorageEngine \<Rightarrow> 'b StorageEngine \<times> (StorageError, unit) result" where
  "load_from_backend env se =
     (case backend se of
        None \<Rightarrow> (se, Inr ())
      | Some b \<Rightarrow>
          (case be_list_keys (ops env) b of Inl e \<Rightarrow> (se, Inl e) | Inr keys \<Rightarrow> load_keys env b se keys))"

definition with_backend :: "'b StorageEnv \<Rightarrow> 'b \<Rightarrow> 'b StorageEngine" where
  "with_backend env b = fst (load_from_backend env (engine_empty (Some b)))"

definition set_max_credential_count :: "'b StorageEngine \<Rightarrow> usize \<Rightarrow> 'b StorageEngine" where
  "set_max_credential_count se m = se\<lparr>max_credential_count := Some m\<rparr>"

subsection \<open>Key-value store\<close>

definition increment_wear_counter :: "'b StorageEngine \<Rightarrow> string \<Rightarrow> 'b StorageEngine \<times> (EngineError, unit) result" where
  "increment_wear_counter se sector =
     (let counter = (case btree_get (wear_counters se) sector of Some c \<Rightarrow> c | None \<Rightarrow> wear_new sector);
          (counter, r) = wear_increment counter;
          se = se\<lparr>wear_counters := btree_insert sector counter (wear_counters se)\<rparr>
      in case r of Inl e \<Rightarrow> (se, Inl (E_Storage e)) | Inr _ \<Rightarrow> (se, Inr ()))"

text \<open>\<open>if let Some(backend) = &mut self.backend \<open>{\<close> backend.write(..)?; \<open>}\<close>\<close>\<close>

definition backend_write :: "'b StorageEnv \<Rightarrow> 'b StorageEngine \<Rightarrow> string \<Rightarrow> bytes \<Rightarrow> 'b StorageEngine \<times> (EngineError, unit) result" where
  "backend_write env se key v =
     (case backend se of
        None \<Rightarrow> (se, Inr ())
      | Some b \<Rightarrow>
          (case be_write (ops env) b key v of
             (b, Inl e) \<Rightarrow> (se\<lparr>backend := Some b\<rparr>, Inl (E_Storage e))
           | (b, Inr _) \<Rightarrow> (se\<lparr>backend := Some b\<rparr>, Inr ())))"

definition backend_delete :: "'b StorageEnv \<Rightarrow> 'b StorageEngine \<Rightarrow> string \<Rightarrow> 'b StorageEngine \<times> (EngineError, unit) result" where
  "backend_delete env se key =
     (case backend se of
        None \<Rightarrow> (se, Inr ())
      | Some b \<Rightarrow>
          (case be_delete (ops env) b key of
             (b, Inl e) \<Rightarrow> (se\<lparr>backend := Some b\<rparr>, Inl (E_Storage e))
           | (b, Inr _) \<Rightarrow> (se\<lparr>backend := Some b\<rparr>, Inr ())))"

definition store :: "'b StorageEnv \<Rightarrow> 'b StorageEngine \<Rightarrow> string \<Rightarrow> bytes \<Rightarrow> 'b StorageEngine \<times> (EngineError, unit) result" where
  "store env se key v =
     (case increment_wear_counter se ''kv'' of
        (se, Inl e) \<Rightarrow> (se, Inl e)
      | (se, Inr _) \<Rightarrow>
          (case backend_write env se key v of
             (se, Inl e) \<Rightarrow> (se, Inl e)
           | (se, Inr _) \<Rightarrow> (se\<lparr>kv_store := btree_insert key v (kv_store se)\<rparr>, Inr ())))"

definition retrieve :: "'b StorageEnv \<Rightarrow> 'b StorageEngine \<Rightarrow> string \<Rightarrow> (EngineError, bytes) result" where
  "retrieve env se key =
     (case (case backend se of None \<Rightarrow> Inr None | Some b \<Rightarrow> be_read (ops env) b key) of
        Inl e \<Rightarrow> Inl (E_Storage e)
      | Inr (Some data) \<Rightarrow> Inr data
      | Inr None \<Rightarrow>
          (case btree_get (kv_store se) key of
             Some v \<Rightarrow> Inr v | None \<Rightarrow> Inl (E_Message (''Key '' @ [CHR 0x27] @ key @ [CHR 0x27] @ '' not found''))))"

definition kv_delete :: "'b StorageEnv \<Rightarrow> 'b StorageEngine \<Rightarrow> string \<Rightarrow> 'b StorageEngine \<times> (EngineError, unit) result" where
  "kv_delete env se key =
     (let se = fst (backend_delete env se key)
      in (se\<lparr>kv_store := btree_remove key (kv_store se)\<rparr>, Inr ()))"

subsection \<open>Credentials\<close>

definition cred_key :: "'b StorageEnv \<Rightarrow> bytes \<Rightarrow> string" where
  "cred_key env cred_id = ''cred:'' @ hex_encode env cred_id"

definition delete_credential :: "'b StorageEnv \<Rightarrow> 'b StorageEngine \<Rightarrow> bytes \<Rightarrow> 'b StorageEngine \<times> (EngineError, bool) result" where
  "delete_credential env se cred_id =
     (if btree_get (credentials se) cred_id \<noteq> None
      then (let se = se\<lparr>credentials := btree_remove cred_id (credentials se)\<rparr>
            in case backend_delete env se (cred_key env cred_id) of
                 (se, Inl e) \<Rightarrow> (se, Inl e) | (se, Inr _) \<Rightarrow> (se, Inr True))
      else (se, Inr False))"

text \<open>\<open>Iterator::min_by_key\<close>: the first of the minimal elements.\<close>

fun min_by_created_at :: "StoredCredential list \<Rightarrow> StoredCredential option" where
  "min_by_created_at [] = None"
| "min_by_created_at (s # ss) =
     (case min_by_created_at ss of
        None \<Rightarrow> Some s
      | Some t \<Rightarrow> if created_at (credential t) < created_at (credential s) then Some t else Some s)"

definition prune_oldest_credential :: "'b StorageEnv \<Rightarrow> 'b StorageEngine \<Rightarrow> 'b StorageEngine \<times> (EngineError, unit) result" where
  "prune_oldest_credential env se =
     (case map_option (\<lambda>s. credential_id (credential s)) (min_by_created_at (btree_values (credentials se))) of
        Some key \<Rightarrow>
          (case delete_credential env se key of (se, Inl e) \<Rightarrow> (se, Inl e) | (se, Inr _) \<Rightarrow> (se, Inr ()))
      | None \<Rightarrow> (se, Inr ()))"

definition generate_nonce :: "'b StorageEnv \<Rightarrow> nat \<Rightarrow> bytes" where
  "generate_nonce env draw = random_bytes (ring env) draw 12"

definition store_credential ::
  "'b StorageEnv \<Rightarrow> CryptoEngine \<Rightarrow> nat \<Rightarrow> 'b StorageEngine \<Rightarrow> Credential \<Rightarrow> 'b StorageEngine \<times> (EngineError, unit) result" where
  "store_credential env crypto draw se cred =
     (case (case max_credential_count se of
              Some m \<Rightarrow> if length (credentials se) \<ge> m then prune_oldest_credential env se else (se, Inr ())
            | None \<Rightarrow> (se, Inr ())) of
        (se, Inl e) \<Rightarrow> (se, Inl e)
      | (se, Inr _) \<Rightarrow>
          (let nonce = generate_nonce env draw
           in case engine_encrypt (ring env) crypto (private_key cred) nonce of
                Inl e \<Rightarrow> (se, Inl (E_Message e))
              | Inr encrypted \<Rightarrow>
                  (let stored = \<lparr>credential = cred\<lparr>private_key := []\<rparr>, encrypted_private_key = encrypted, sc_nonce = nonce\<rparr>
                   in case increment_wear_counter se ''credentials'' of
                        (se, Inl e) \<Rightarrow> (se, Inl e)
                      | (se, Inr _) \<Rightarrow>
                          (case (case backend se of
                                   None \<Rightarrow> (se, Inr ())
                                 | Some _ \<Rightarrow>
                                     (case cbor_serialize (cred_codec env) stored of
                                        Inl e \<Rightarrow> (se, Inl (E_Storage e))
                                      | Inr data \<Rightarrow> backend_write env se (cred_key env (credential_id cred)) data)) of
                             (se, Inl e) \<Rightarrow> (se, Inl e)
                           | (se, Inr _) \<Rightarrow>
                               (se\<lparr>credentials := btree_insert (credential_id cred) stored (credentials se)\<rparr>, Inr ())))))"

definition get_credential ::
  "'b StorageEnv \<Rightarrow> CryptoEngine \<Rightarrow> 'b StorageEngine \<Rightarrow> bytes \<Rightarrow> (EngineError, Credential option) result" where
  "get_credential env crypto se cred_id =
     (case btree_get (credentials se) cred_id of
        Some stored \<Rightarrow>
          (case engine_decrypt (ring env) crypto (encrypted_private_key stored) (sc_nonce stored) of
             Inl e \<Rightarrow> Inl (E_Message e)
           | Inr pk \<Rightarrow> Inr (Some ((credential stored)\<lparr>private_key := pk\<rparr>)))
      | None \<Rightarrow> Inr None)"

text \<open>
  \<open>update_sign_count\<close> and \<open>update_user_info\<close> change the entry through \<open>get_mut\<close> and then persist it;
  \<open>write_back\<close> is the shared part.
\<close>

definition write_back :: "'b StorageEnv \<Rightarrow> 'b StorageEngine \<Rightarrow> bytes \<Rightarrow> StoredCredential \<Rightarrow> 'b StorageEngine \<times> (EngineError, unit) result" where
  "write_back env se cred_id stored =
     (let se = se\<lparr>credentials := btree_insert cred_id stored (credentials se)\<rparr>
      in case backend se of
           None \<Rightarrow> (se, Inr ())
         | Some _ \<Rightarrow>
             (case cbor_serialize (cred_codec env) stored of
                Inl e \<Rightarrow> (se, Inl (E_Storage e)) | Inr data \<Rightarrow> backend_write env se (cred_key env cred_id) data))"

definition update_sign_count :: "'b StorageEnv \<Rightarrow> 'b StorageEngine \<Rightarrow> bytes \<Rightarrow> u32 \<Rightarrow> 'b StorageEngine \<times> (EngineError, unit) result" where
  "update_sign_count env se cred_id count =
     (case btree_get (credentials se) cred_id of
        Some stored \<Rightarrow>
          write_back env se cred_id (stored\<lparr>credential := (credential stored)\<lparr>sign_count := count\<rparr>\<rparr>)
      | None \<Rightarrow> (se, Inl (E_Message ''Credential not found'')))"

definition update_user_info ::
  "'b StorageEnv \<Rightarrow> 'b StorageEngine \<Rightarrow> bytes \<Rightarrow> string option \<Rightarrow> string option \<Rightarrow> 'b StorageEngine \<times> (EngineError, bool) result" where
  "update_user_info env se cred_id name display_name =
     (case btree_get (credentials se) cred_id of
        Some stored \<Rightarrow>
          (case write_back env se cred_id
                  (stored\<lparr>credential := (credential stored)\<lparr>user_name := name, user_display_name := display_name\<rparr>\<rparr>) of
             (se, Inl e) \<Rightarrow> (se, Inl e) | (se, Inr _) \<Rightarrow> (se, Inr True))
      | None \<Rightarrow> (se, Inr False))"

text \<open>\<open>clear\<close>: every key of the backend is deleted, errors ignored; large blobs in memory stay.\<close>

definition clear :: "'b StorageEnv \<Rightarrow> 'b StorageEngine \<Rightarrow> 'b StorageEngine" where
  "clear env se =
     (let se = (case backend se of
                  None \<Rightarrow> se
                | Some b \<Rightarrow>
                    (let keys = (case be_list_keys (ops env) b of Inr keys \<Rightarrow> keys | Inl _ \<Rightarrow> [])
                     in se\<lparr>backend := Some (fold (\<lambda>key b. fst (be_delete (ops env) b key)) keys b)\<rparr>))
      in se\<lparr>credentials := [], kv_store := []\<rparr>)"

definition list_credentials :: "'b StorageEngine \<Rightarrow> Credential list" where
  "list_credentials se = map credential (btree_values (credentials se))"

definition find_credentials_by_rp_hash ::
  "'b StorageEnv \<Rightarrow> CryptoEngine \<Rightarrow> 'b StorageEngine \<Rightarrow> bytes \<Rightarrow> Credential list" where
  "find_credentials_by_rp_hash env crypto se rp_hash =
     List.map_filter
       (\<lambda>s. case engine_decrypt (ring env) crypto (encrypted_private_key s) (sc_nonce s) of
              Inl _ \<Rightarrow> None | Inr pk \<Rightarrow> Some ((credential s)\<lparr>private_key := pk\<rparr>))
       (filter (\<lambda>s. rp_id_hash (credential s) = rp_hash) (btree_values (credentials se)))"

definition str_bytes :: "string \<Rightarrow> bytes" where
  "str_bytes s = map (\<lambda>c. of_nat (of_char c)) s"

definition hash_rp_id :: "'b StorageEnv \<Rightarrow> string \<Rightarrow> bytes" where
  "hash_rp_id env rp = sha256 (ring env) (str_bytes rp)"

definition find_by_rp_id :: "'b StorageEnv \<Rightarrow> CryptoEngine \<Rightarrow> 'b StorageEngine \<Rightarrow> string \<Rightarrow> Credential list" where
  "find_by_rp_id env crypto se rp = find_credentials_by_rp_hash env crypto se (hash_rp_id env rp)"

fun enumerate_rps_loop :: "bytes list \<Rightarrow> StoredCredential list \<Rightarrow> (string \<times> bytes) list" where
  "enumerate_rps_loop seen [] = []"
| "enumerate_rps_loop seen (s # ss) =
     (if rp_id (credential s) = [] then enumerate_rps_loop seen ss
      else (let rp_hash = rp_id_hash (credential s)
            in if rp_hash \<in> set seen then enumerate_rps_loop seen ss
               else (rp_id (credential s), rp_hash) # enumerate_rps_loop (rp_hash # seen) ss))"

definition enumerate_rps :: "'b StorageEngine \<Rightarrow> (string \<times> bytes) list" where
  "enumerate_rps se = enumerate_rps_loop [] (btree_values (credentials se))"

definition get_credentials_count :: "'b StorageEngine \<Rightarrow> usize" where
  "get_credentials_count se = length (credentials se)"

definition get_max_possible_remaining :: "'b StorageEngine \<Rightarrow> usize" where
  "get_max_possible_remaining se =
     (let m = (case max_credential_count se of Some m \<Rightarrow> m | None \<Rightarrow> 50) in m - length (credentials se))"

subsection \<open>Large blobs\<close>

definition read_large_blobs :: "'b StorageEngine \<Rightarrow> usize \<Rightarrow> usize \<Rightarrow> bytes" where
  "read_large_blobs se offset count =
     (let len = length (large_blobs se) in
      if offset \<ge> len then []
      else slice_of offset (min (saturating_add_usize offset count) len) (large_blobs se))"

definition write_large_blobs ::
  "'b StorageEnv \<Rightarrow> 'b StorageEngine \<Rightarrow> usize \<Rightarrow> bytes \<Rightarrow> usize option \<Rightarrow> 'b StorageEngine \<times> (EngineError, unit) result" where
  "write_large_blobs env se offset data expected_len =
     (case checked_add_usize offset (length data) of
        None \<Rightarrow> (se, Inl (E_Storage (InvalidParameter ''large blobs offset overflow'')))
      | Some stop \<Rightarrow>
          if stop > MAX_LARGE_BLOBS_SIZE
          then (se, Inl (E_Storage (InvalidParameter ''Large blobs write exceeds maximum supported size (4096 bytes)'')))
          else
            (case (case expected_len of
                     None \<Rightarrow> None
                   | Some exp \<Rightarrow>
                       if exp > MAX_LARGE_BLOBS_SIZE
                       then Some (InvalidParameter ''Large blob exceeds maximum supported size (4096 bytes)'')
                       else if stop > exp then Some (InvalidParameter (''large blobs write end '' @ show_nat stop @ '' exceeds expected_len '' @ show_nat exp))
                       else None) of
               Some e \<Rightarrow> (se, Inl (E_Storage e))
             | None \<Rightarrow>
                 if offset > length (large_blobs se)
                 then (se, Inl (E_Storage (InvalidParameter (''sparse hole: offset '' @ show_nat offset @ '' > current_len '' @ show_nat (length (large_blobs se))))))
                 else
                   (let target = (case expected_len of Some exp \<Rightarrow> max exp stop | None \<Rightarrow> stop);
                        blobs = (if target > length (large_blobs se) then resize target 0 (large_blobs se)
                                 else large_blobs se);
                        blobs = copy_into blobs offset data;
                        se = se\<lparr>large_blobs := blobs\<rparr>
                    in backend_write env se LARGE_BLOBS_STORAGE_KEY blobs)))"

definition clear_large_blobs :: "'b StorageEnv \<Rightarrow> 'b StorageEngine \<Rightarrow> 'b StorageEngine" where
  "clear_large_blobs env se = fst (backend_delete env (se\<lparr>large_blobs := []\<rparr>) LARGE_BLOBS_STORAGE_KEY)"

definition get_large_blobs_len :: "'b StorageEngine \<Rightarrow> usize" where
  "get_large_blobs_len se = length (large_blobs se)"

subsection \<open>The contract of a backend\<close>

text \<open>
  A backend in a state satisfying \<open>inv\<close> behaves as the map \<open>abs\<close>: reads and key listings report it, a successful
  write or delete updates it, a failed one leaves it as it was.
\<close>

locale storage_backend =
  fixes be :: "'b StorageBackend"
    and abs :: "'b \<Rightarrow> string \<Rightarrow> bytes option"
    and inv :: "'b \<Rightarrow> bool"
  assumes read_law: "inv b \<Longrightarrow> be_read be b k = Inr (abs b k)"
    and list_keys_law: "inv b \<Longrightarrow> \<exists>ks. be_list_keys be b = Inr ks \<and> set ks = dom (abs b)"
    and write_law: "inv b \<Longrightarrow> be_write be b k v = (b', r) \<Longrightarrow>
                  inv b' \<and> abs b' = (case r of Inr _ \<Rightarrow> (abs b)(k \<mapsto> v) | Inl _ \<Rightarrow> abs b)"
    and delete_law: "inv b \<Longrightarrow> be_delete be b k = (b', r) \<Longrightarrow>
                  inv b' \<and> abs b' = (case r of Inr _ \<Rightarrow> (abs b)(k := None) | Inl _ \<Rightarrow> abs b)"

lemma commit_cache: "commit dev codec b new = (b', r) \<Longrightarrow> fs_cache b' = fs_cache b"
  by (auto simp: commit_def Let_def split: sum.splits prod.splits if_splits)

interpretation flash_be: storage_backend "flash_backend dev codec" "\<lambda>b. btree_get (fs_cache b)" "\<lambda>b. btree_wf (fs_cache b)"
  for dev codec
proof
  fix b :: "'a FlashStorageBackend"
  show "\<exists>ks. be_list_keys (flash_backend dev codec) b = Inr ks \<and> set ks = dom (btree_get (fs_cache b))"
    using btree_get_in_keys [of "fs_cache b"] by (auto simp: flash_backend_def flash_list_keys_def dom_def)
next
  fix b :: "'a FlashStorageBackend" and k v b' r
  assume "btree_wf (fs_cache b)" "be_write (flash_backend dev codec) b k v = (b', r)"
  then show "btree_wf (fs_cache b') \<and>
      btree_get (fs_cache b') = (case r of Inr _ \<Rightarrow> (btree_get (fs_cache b))(k \<mapsto> v) | Inl _ \<Rightarrow> btree_get (fs_cache b))"
    by (auto simp: flash_backend_def flash_write_def Let_def fun_eq_iff dest!: commit_cache
        split: prod.splits sum.splits)
next
  fix b :: "'a FlashStorageBackend" and k b' r
  assume "btree_wf (fs_cache b)" "be_delete (flash_backend dev codec) b k = (b', r)"
  then show "btree_wf (fs_cache b') \<and>
      btree_get (fs_cache b') = (case r of Inr _ \<Rightarrow> (btree_get (fs_cache b))(k := None) | Inl _ \<Rightarrow> btree_get (fs_cache b))"
    by (auto simp: flash_backend_def flash_delete_def Let_def fun_eq_iff dest!: commit_cache
        split: prod.splits sum.splits)
qed (simp add: flash_backend_def flash_read_def)

subsection \<open>Sequences of operations\<close>

text \<open>
  The operations that change the engine, and their outcome: \<open>True\<close> when the operation returned \<open>Ok\<close> (for the
  two that return nothing and ignore backend errors: when the backend really is clean afterwards).
  \<open>Op_Reset\<close> is the pair of calls CTAP Reset makes.
\<close>

datatype StorageOp = Op_Store string bytes | Op_Delete string | Op_StoreCredential CryptoEngine nat Credential
  | Op_UpdateSignCount bytes u32 | Op_UpdateUserInfo bytes "string option" "string option"
  | Op_DeleteCredential bytes | Op_WriteLargeBlobs usize bytes "usize option" | Op_ClearLargeBlobs
  | Op_SetMax usize | Op_Reset

definition is_ok :: "('e, 'a) result \<Rightarrow> bool" where
  "is_ok r = (case r of Inr _ \<Rightarrow> True | Inl _ \<Rightarrow> False)"

fun run_op :: "'b StorageEnv \<Rightarrow> 'b StorageEngine \<Rightarrow> StorageOp \<Rightarrow> 'b StorageEngine \<times> bool" where
  "run_op env se (Op_Store k v) = (let (se, r) = store env se k v in (se, is_ok r))"
| "run_op env se (Op_Delete k) = (let (se, r) = kv_delete env se k in (se, is_ok r))"
| "run_op env se (Op_StoreCredential crypto draw c) = (let (se, r) = store_credential env crypto draw se c in (se, is_ok r))"
| "run_op env se (Op_UpdateSignCount i n) = (let (se, r) = update_sign_count env se i n in (se, is_ok r))"
| "run_op env se (Op_UpdateUserInfo i n d) = (let (se, r) = update_user_info env se i n d in (se, is_ok r))"
| "run_op env se (Op_DeleteCredential i) = (let (se, r) = delete_credential env se i in (se, is_ok r))"
| "run_op env se (Op_WriteLargeBlobs off d l) = (let (se, r) = write_large_blobs env se off d l in (se, is_ok r))"
| "run_op env se Op_ClearLargeBlobs =
     (let se = clear_large_blobs env se
      in (se, case backend se of None \<Rightarrow> True | Some b \<Rightarrow> be_read (ops env) b LARGE_BLOBS_STORAGE_KEY = Inr None))"
| "run_op env se (Op_SetMax m) = (set_max_credential_count se m, True)"
| "run_op env se Op_Reset =
     (let se = clear_large_blobs env (clear env se)
      in (se, case backend se of None \<Rightarrow> True | Some b \<Rightarrow> be_list_keys (ops env) b = Inr []))"

fun run_ops :: "'b StorageEnv \<Rightarrow> 'b StorageEngine \<Rightarrow> StorageOp list \<Rightarrow> 'b StorageEngine \<times> bool" where
  "run_ops env se [] = (se, True)"
| "run_ops env se (p # ps) = (let (se, ok) = run_op env se p; (se, oks) = run_ops env se ps in (se, ok \<and> oks))"

subsection \<open>Encryption at rest\<close>

text \<open>The index is ordered by credential id and no entry holds a private key in the clear.\<close>

definition index_inv :: "(bytes, StoredCredential) btree \<Rightarrow> bool" where
  "index_inv cs = (btree_wf cs \<and>
     (\<forall>i s. btree_get cs i = Some s \<longrightarrow> credential_id (credential s) = i \<and> private_key (credential s) = []))"

lemma index_inv_Nil [simp]: "index_inv []"
  by (simp add: index_inv_def)

lemma index_inv_insert:
  "index_inv cs \<Longrightarrow> credential_id (credential s) = i \<Longrightarrow> private_key (credential s) = [] \<Longrightarrow> index_inv (btree_insert i s cs)"
  by (auto simp: index_inv_def)

lemma index_inv_remove: "index_inv cs \<Longrightarrow> index_inv (btree_remove i cs)"
  by (auto simp: index_inv_def)

lemma backend_write_fields [simp]:
  "credentials (fst (backend_write env se k v)) = credentials se"
  "large_blobs (fst (backend_write env se k v)) = large_blobs se"
  "max_credential_count (fst (backend_write env se k v)) = max_credential_count se"
  by (simp_all add: backend_write_def split: option.splits prod.splits sum.splits)

lemma backend_delete_fields [simp]:
  "credentials (fst (backend_delete env se k)) = credentials se"
  "large_blobs (fst (backend_delete env se k)) = large_blobs se"
  "max_credential_count (fst (backend_delete env se k)) = max_credential_count se"
  by (simp_all add: backend_delete_def split: option.splits prod.splits sum.splits)

lemma increment_wear_counter_ok:
  obtains w where "increment_wear_counter se sector = (se\<lparr>wear_counters := w\<rparr>, Inr ())"
  by (auto simp: increment_wear_counter_def wear_increment_def Let_def)

lemma store_fields:
  "credentials (fst (store env se k v)) = credentials se" "large_blobs (fst (store env se k v)) = large_blobs se"
proof -
  obtain w where w: "increment_wear_counter se ''kv'' = (se\<lparr>wear_counters := w\<rparr>, Inr ())"
    by (rule increment_wear_counter_ok)
  obtain se' r where b: "backend_write env (se\<lparr>wear_counters := w\<rparr>) k v = (se', r)" by force
  have "credentials se' = credentials se" "large_blobs se' = large_blobs se"
    using backend_write_fields [of env "se\<lparr>wear_counters := w\<rparr>" k v] b by simp_all
  then show "credentials (fst (store env se k v)) = credentials se" "large_blobs (fst (store env se k v)) = large_blobs se"
    using w b by (simp_all add: store_def split: sum.splits)
qed

lemma kv_delete_fields:
  "credentials (fst (kv_delete env se k)) = credentials se" "large_blobs (fst (kv_delete env se k)) = large_blobs se"
  by (simp_all add: kv_delete_def Let_def)

lemma delete_credential_index:
  "credentials (fst (delete_credential env se i)) = btree_remove i (credentials se)"
proof (cases "btree_get (credentials se) i")
  case (Some s)
  let ?se = "se\<lparr>credentials := btree_remove i (credentials se)\<rparr>"
  have "credentials (fst (backend_delete env ?se (cred_key env i))) = btree_remove i (credentials se)" by simp
  with Some show ?thesis
    by (cases "backend_delete env ?se (cred_key env i)") (auto simp: delete_credential_def Let_def split: sum.splits)
qed (simp add: delete_credential_def btree_remove_absent)

lemma prune_index:
  "credentials (fst (prune_oldest_credential env se)) =
     (case min_by_created_at (btree_values (credentials se)) of
        None \<Rightarrow> credentials se | Some s \<Rightarrow> btree_remove (credential_id (credential s)) (credentials se))"
proof (cases "min_by_created_at (btree_values (credentials se))")
  case (Some s)
  let ?i = "credential_id (credential s)"
  obtain se' r where d: "delete_credential env se ?i = (se', r)" by force
  then have "credentials se' = btree_remove ?i (credentials se)"
    using delete_credential_index [of env se ?i] by simp
  with Some d show ?thesis by (simp add: prune_oldest_credential_def split: sum.splits)
qed (simp add: prune_oldest_credential_def)

lemma write_back_index: "credentials (fst (write_back env se i s)) = btree_insert i s (credentials se)"
proof -
  let ?se = "se\<lparr>credentials := btree_insert i s (credentials se)\<rparr>"
  show ?thesis
    using backend_write_fields(1) [of env ?se "cred_key env i"]
    by (simp add: write_back_def Let_def split: option.splits sum.splits)
qed

text \<open>The part of \<open>store_credential\<close> after a possible prune: encrypt, count, persist, index.\<close>

lemma store_credential_index:
  assumes "store_credential env crypto draw se c = (se', r)"
  shows "(case r of
      Inl _ \<Rightarrow> credentials se' = credentials se
        \<or> max_credential_count se \<noteq> None \<and> credentials se' = credentials (fst (prune_oldest_credential env se))
    | Inr _ \<Rightarrow> \<exists>nonce encrypted. nonce = generate_nonce env draw
        \<and> engine_encrypt (ring env) crypto (private_key c) nonce = Inr encrypted
        \<and> credentials se' = btree_insert (credential_id c)
            \<lparr>credential = c\<lparr>private_key := []\<rparr>, encrypted_private_key = encrypted, sc_nonce = nonce\<rparr>
            (case max_credential_count se of
               Some m \<Rightarrow> if length (credentials se) \<ge> m then credentials (fst (prune_oldest_credential env se)) else credentials se
             | None \<Rightarrow> credentials se))"
proof -
  define pruned where "pruned = (case max_credential_count se of
      Some m \<Rightarrow> if length (credentials se) \<ge> m then prune_oldest_credential env se else (se, Inr ()) | None \<Rightarrow> (se, Inr ()))"
  obtain se1 r1 where p: "pruned = (se1, r1)" by force
  have c1: "credentials se1 = (case max_credential_count se of
      Some m \<Rightarrow> if length (credentials se) \<ge> m then credentials (fst (prune_oldest_credential env se)) else credentials se
    | None \<Rightarrow> credentials se)"
    using p by (auto simp: pruned_def split: option.splits if_splits)
  then have old: "credentials se1 = credentials se
      \<or> max_credential_count se \<noteq> None \<and> credentials se1 = credentials (fst (prune_oldest_credential env se))"
    by (auto split: option.splits if_splits)
  obtain w where w: "increment_wear_counter se1 ''credentials'' = (se1\<lparr>wear_counters := w\<rparr>, Inr ())"
    by (rule increment_wear_counter_ok)
  let ?se2 = "se1\<lparr>wear_counters := w\<rparr>"
  have b: "credentials (fst (backend_write env ?se2 k v)) = credentials se1" for k v by simp
  have "credentials se2 = credentials se1" if "backend_write env ?se2 k v = (se2, q)" for k v se2 q
    using b [of k v] that by simp
  with assms old c1 w show ?thesis
    unfolding store_credential_def pruned_def [symmetric] p
    by (cases r1) (auto simp: Let_def split: sum.splits option.splits prod.splits)
qed

lemma prune_index_inv: "index_inv (credentials se) \<Longrightarrow> index_inv (credentials (fst (prune_oldest_credential env se)))"
  by (auto simp: prune_index index_inv_remove split: option.splits)

lemma store_credential_inv:
  assumes "index_inv (credentials se)"
  shows "index_inv (credentials (fst (store_credential env crypto draw se c)))"
proof -
  obtain se' r where "store_credential env crypto draw se c = (se', r)" by force
  with store_credential_index [OF this] assms prune_index_inv [OF assms, of env] show ?thesis
    by (cases r) (auto intro!: index_inv_insert split: option.splits if_splits)
qed

lemma update_sign_count_inv:
  assumes "index_inv (credentials se)"
  shows "index_inv (credentials (fst (update_sign_count env se i n)))"
  using assms
  by (auto simp: update_sign_count_def write_back_index index_inv_def split: option.splits)

lemma fst_bool_wrap: "fst (case x of (se, Inl e) \<Rightarrow> (se, Inl e) | (se, Inr _) \<Rightarrow> (se, Inr b)) = fst x"
  by (cases x; cases "snd x") auto

lemma update_user_info_inv:
  assumes "index_inv (credentials se)"
  shows "index_inv (credentials (fst (update_user_info env se i n d)))"
  using assms
  by (auto simp: update_user_info_def write_back_index index_inv_def fst_bool_wrap split: option.splits)

lemma write_large_blobs_index: "credentials (fst (write_large_blobs env se off d l)) = credentials se"
  by (simp add: write_large_blobs_def Let_def split: option.splits)

lemma clear_index: "credentials (clear env se) = []"
  by (simp add: clear_def Let_def)

lemma clear_large_blobs_fields [simp]:
  "credentials (clear_large_blobs env se) = credentials se" "large_blobs (clear_large_blobs env se) = []"
  by (simp_all add: clear_large_blobs_def)

lemma fst_let_pair: "fst (let (se, r) = x in (se, f r)) = fst x"
  by (simp add: split_beta)

lemma run_op_inv:
  assumes "index_inv (credentials se)"
  shows "index_inv (credentials (fst (run_op env se p)))"
  using assms
  by (cases p)
    (simp_all add: fst_let_pair store_fields kv_delete_fields store_credential_inv update_sign_count_inv
      update_user_info_inv delete_credential_index index_inv_remove write_large_blobs_index Let_def
      set_max_credential_count_def clear_index split_beta)

lemma run_ops_inv: "index_inv (credentials se) \<Longrightarrow> index_inv (credentials (fst (run_ops env se ps)))"
  by (induction ps arbitrary: se) (auto simp: split_beta run_op_inv)

lemma min_by_created_at_None: "min_by_created_at ss = None \<longleftrightarrow> ss = []"
  by (cases ss) (auto split: option.splits)

lemma min_by_created_at_least:
  "min_by_created_at ss = Some s \<Longrightarrow> s \<in> set ss \<and> (\<forall>t\<in>set ss. created_at (credential s) \<le> created_at (credential t))"
proof (induction ss arbitrary: s)
  case (Cons x ss)
  show ?case
  proof (cases "min_by_created_at ss")
    case None
    with Cons.prems show ?thesis by (simp add: min_by_created_at_None)
  next
    case (Some a)
    from Cons.IH [OF Some] Cons.prems Some show ?thesis
      by (auto simp: not_less split: if_splits intro: order_trans)
  qed
qed simp

subsection \<open>Synchronisation with the backend\<close>

text \<open>
  The backend holds exactly the serialised index under the \<open>cred:\<close> keys and the large-blob array under its
  reserved key, and no other value that reads as a credential.
\<close>

definition synced :: "'b StorageEnv \<Rightarrow> ('b \<Rightarrow> string \<Rightarrow> bytes option) \<Rightarrow> ('b \<Rightarrow> bool) \<Rightarrow> 'b StorageEngine \<Rightarrow> bool" where
  "synced env view ok se = (\<exists>b. backend se = Some b \<and> ok b
     \<and> (\<forall>i. view b (cred_key env i) = Option.bind (btree_get (credentials se) i) (into_writer (cred_codec env)))
     \<and> (\<forall>i s. btree_get (credentials se) i = Some s \<longrightarrow> into_writer (cred_codec env) s \<noteq> None)
     \<and> (view b LARGE_BLOBS_STORAGE_KEY = Some (large_blobs se) \<or> view b LARGE_BLOBS_STORAGE_KEY = None \<and> large_blobs se = [])
     \<and> (\<forall>k v. view b k = Some v \<longrightarrow> k \<noteq> LARGE_BLOBS_STORAGE_KEY \<longrightarrow> k \<notin> range (cred_key env)
           \<longrightarrow> from_reader (cred_codec env) v = None))"

text \<open>What the engine relies on of its libraries: credentials read back as written, hex encoding is injective.\<close>

definition env_ok :: "'b StorageEnv \<Rightarrow> bool" where
  "env_ok env = (inj (hex_encode env)
     \<and> (\<forall>s bs. into_writer (cred_codec env) s = Some bs \<longrightarrow> from_reader (cred_codec env) bs = Some s))"

text \<open>Key-value traffic keeps out of the reserved keys and does not store serialised credentials.\<close>

fun op_ok :: "'b StorageEnv \<Rightarrow> StorageOp \<Rightarrow> bool" where
  "op_ok env (Op_Store k v) =
     (k \<noteq> LARGE_BLOBS_STORAGE_KEY \<and> take 5 k \<noteq> ''cred:'' \<and> from_reader (cred_codec env) v = None)"
| "op_ok env (Op_Delete k) = (k \<noteq> LARGE_BLOBS_STORAGE_KEY \<and> take 5 k \<noteq> ''cred:'')"
| "op_ok env _ = True"

lemma cred_key_inj: "env_ok env \<Longrightarrow> cred_key env i = cred_key env j \<longleftrightarrow> i = j"
  by (auto simp: env_ok_def cred_key_def dest: injD)

lemma cred_key_not_large [simp]: "cred_key env i \<noteq> LARGE_BLOBS_STORAGE_KEY" "LARGE_BLOBS_STORAGE_KEY \<noteq> cred_key env i"
  by (simp_all add: cred_key_def LARGE_BLOBS_STORAGE_KEY_def)

lemma take5_cred_key: "take 5 (cred_key env i) = ''cred:''"
  by (simp add: cred_key_def)

context storage_backend
begin

lemma backend_write_effect:
  assumes "ops env = be" "backend se = Some b" "inv b" "backend_write env se k v = (se', r)"
  shows "\<exists>b'. se' = se\<lparr>backend := Some b'\<rparr> \<and> inv b'
           \<and> abs b' = (if is_ok r then (abs b)(k \<mapsto> v) else abs b)"
proof -
  obtain b' q where w: "be_write be b k v = (b', q)" by force
  from write_law [OF assms(3) w] assms w show ?thesis
    by (cases q) (auto simp: backend_write_def is_ok_def)
qed

lemma backend_delete_effect:
  assumes "ops env = be" "backend se = Some b" "inv b" "backend_delete env se k = (se', r)"
  shows "\<exists>b'. se' = se\<lparr>backend := Some b'\<rparr> \<and> inv b'
           \<and> abs b' = (if is_ok r then (abs b)(k := None) else abs b)"
proof -
  obtain b' q where w: "be_delete be b k = (b', q)" by force
  from delete_law [OF assms(3) w] assms w show ?thesis
    by (cases q) (auto simp: backend_delete_def is_ok_def)
qed

lemma synced_put:
  assumes "env_ok env" "synced env abs inv se" "backend se = Some b" "inv b'"
    and "into_writer (cred_codec env) s = Some data" "abs b' = (abs b)(cred_key env i \<mapsto> data)"
    and "credentials se' = btree_insert i s (credentials se)" "large_blobs se' = large_blobs se" "backend se' = Some b'"
  shows "synced env abs inv se'"
  using assms cred_key_inj [OF assms(1)] unfolding synced_def by auto

lemma synced_drop:
  assumes "env_ok env" "synced env abs inv se" "backend se = Some b" "inv b'"
    and "abs b' = (abs b)(cred_key env i := None)"
    and "credentials se' = btree_remove i (credentials se)" "large_blobs se' = large_blobs se" "backend se' = Some b'"
  shows "synced env abs inv se'"
  using assms cred_key_inj [OF assms(1)] unfolding synced_def by (auto split: if_splits)

lemma synced_other:
  assumes "synced env abs inv se" "backend se = Some b" "inv b'"
    and "abs b' = (abs b)(k := v)" "k \<noteq> LARGE_BLOBS_STORAGE_KEY" "k \<notin> range (cred_key env)"
    and "\<And>x. v = Some x \<Longrightarrow> from_reader (cred_codec env) x = None"
    and "credentials se' = credentials se" "large_blobs se' = large_blobs se" "backend se' = Some b'"
  shows "synced env abs inv se'"
  using assms unfolding synced_def by auto

lemma synced_same:
  assumes "synced env abs inv se" "backend se = Some b" "inv b'" "abs b' = abs b"
    and "credentials se' = credentials se" "large_blobs se' = large_blobs se" "backend se' = Some b'"
  shows "synced env abs inv se'"
  using assms unfolding synced_def by auto

lemma synced_blobs:
  assumes "synced env abs inv se" "backend se = Some b" "inv b'"
    and "abs b' = (abs b)(LARGE_BLOBS_STORAGE_KEY := v)"
    and "v = Some (large_blobs se') \<or> v = None \<and> large_blobs se' = []"
    and "credentials se' = credentials se" "backend se' = Some b'"
  shows "synced env abs inv se'"
  using assms unfolding synced_def by auto

end

context storage_backend
begin

lemma synced_backend:
  assumes "synced env abs inv se"
  obtains b where "backend se = Some b" "inv b"
  using assms by (auto simp: synced_def)

lemma store_synced:
  assumes "ops env = be" "synced env abs inv se" "op_ok env (Op_Store k v)" "store env se k v = (se', r)"
  shows "synced env abs inv se'"
proof -
  obtain b where b: "backend se = Some b" "inv b" using assms(2) by (rule synced_backend)
  obtain w where w: "increment_wear_counter se ''kv'' = (se\<lparr>wear_counters := w\<rparr>, Inr ())"
    by (rule increment_wear_counter_ok)
  obtain se2 q where q: "backend_write env (se\<lparr>wear_counters := w\<rparr>) k v = (se2, q)" by force
  from backend_write_effect [OF assms(1) _ b(2) q] b obtain b' where
    b': "se2 = se\<lparr>wear_counters := w, backend := Some b'\<rparr>" "inv b'" "abs b' = (if is_ok q then (abs b)(k \<mapsto> v) else abs b)"
    by auto
  have k: "k \<notin> range (cred_key env)" using assms(3) take5_cred_key [of env] by auto
  show ?thesis
  proof (cases q)
    case (Inl e)
    with assms(4) w q b' have "se' = se2" by (simp add: store_def)
    then show ?thesis using synced_same [OF assms(2) b(1) b'(2), of se'] b' Inl by (simp add: is_ok_def)
  next
    case (Inr u)
    with assms(4) w q b' have "credentials se' = credentials se" "large_blobs se' = large_blobs se" "backend se' = Some b'"
      by (auto simp: store_def)
    then show ?thesis
      using synced_other [OF assms(2) b(1) b'(2) _ _ k, of "Some v" se'] b'(3) Inr assms(3) by (simp add: is_ok_def)
  qed
qed

lemma kv_delete_synced:
  assumes "ops env = be" "synced env abs inv se" "op_ok env (Op_Delete k)"
  shows "synced env abs inv (fst (kv_delete env se k))"
proof -
  obtain b where b: "backend se = Some b" "inv b" using assms(2) by (rule synced_backend)
  obtain se2 q where q: "backend_delete env se k = (se2, q)" by force
  from backend_delete_effect [OF assms(1) b q] obtain b' where
    b': "se2 = se\<lparr>backend := Some b'\<rparr>" "inv b'" "abs b' = (if is_ok q then (abs b)(k := None) else abs b)" by auto
  have k: "k \<notin> range (cred_key env)" using assms(3) take5_cred_key [of env] by auto
  let ?se' = "fst (kv_delete env se k)"
  have f: "credentials ?se' = credentials se" "large_blobs ?se' = large_blobs se" "backend ?se' = Some b'"
    using q b' by (simp_all add: kv_delete_def)
  show ?thesis
    using f synced_other [OF assms(2) b(1) b'(2) _ _ k, of None ?se'] synced_same [OF assms(2) b(1) b'(2), of ?se']
      b'(3) assms(3) by (cases "is_ok q") auto
qed

lemma delete_credential_synced:
  assumes "ops env = be" "env_ok env" "synced env abs inv se" "delete_credential env se i = (se', Inr x)"
  shows "synced env abs inv se'"
proof (cases "btree_get (credentials se) i")
  case (Some s)
  obtain b where b: "backend se = Some b" "inv b" using assms(3) by (rule synced_backend)
  let ?se1 = "se\<lparr>credentials := btree_remove i (credentials se)\<rparr>"
  obtain se2 q where q: "backend_delete env ?se1 (cred_key env i) = (se2, q)" by force
  from backend_delete_effect [OF assms(1) _ b(2) q] b obtain b' where
    b': "se2 = ?se1\<lparr>backend := Some b'\<rparr>" "inv b'" "abs b' = (if is_ok q then (abs b)(cred_key env i := None) else abs b)" by auto
  from Some q assms(4) have "se' = se2" "is_ok q"
    by (auto simp: delete_credential_def is_ok_def split: sum.splits)
  then show ?thesis using synced_drop [OF assms(2,3) b(1) b'(2), of i se'] b' by simp
qed (use assms in \<open>simp add: delete_credential_def\<close>)

lemma prune_synced:
  assumes "ops env = be" "env_ok env" "synced env abs inv se" "prune_oldest_credential env se = (se', Inr x)"
  shows "synced env abs inv se'"
  using assms(3,4) delete_credential_synced [OF assms(1-3)]
  by (auto simp: prune_oldest_credential_def split: option.splits prod.splits sum.splits)

lemma write_back_synced:
  assumes "ops env = be" "env_ok env" "synced env abs inv se" "write_back env se i s = (se', Inr x)"
  shows "synced env abs inv se'"
proof -
  obtain b where b: "backend se = Some b" "inv b" using assms(3) by (rule synced_backend)
  let ?se1 = "se\<lparr>credentials := btree_insert i s (credentials se)\<rparr>"
  from assms(4) b obtain data where data: "into_writer (cred_codec env) s = Some data"
    and w: "backend_write env ?se1 (cred_key env i) data = (se', Inr x)"
    by (auto simp: write_back_def cbor_serialize_def split: option.splits)
  from backend_write_effect [OF assms(1) _ b(2) w] b obtain b' where
    "se' = ?se1\<lparr>backend := Some b'\<rparr>" "inv b'" "abs b' = (abs b)(cred_key env i \<mapsto> data)"
    by (auto simp: is_ok_def)
  then show ?thesis using synced_put [OF assms(2,3) b(1) _ data, of b' i se'] by simp
qed

lemma synced_wear: "synced env abs inv se \<Longrightarrow> synced env abs inv (se\<lparr>wear_counters := w\<rparr>)"
  by (simp add: synced_def)

lemma store_credential_synced:
  assumes "ops env = be" "env_ok env" "synced env abs inv se" "store_credential env crypto draw se c = (se', Inr x)"
  shows "synced env abs inv se'"
proof -
  define pruned where "pruned = (case max_credential_count se of
      Some m \<Rightarrow> if length (credentials se) \<ge> m then prune_oldest_credential env se else (se, Inr ()) | None \<Rightarrow> (se, Inr ()))"
  obtain se1 r1 where p: "pruned = (se1, r1)" by force
  from assms(4) p obtain y where r1: "r1 = Inr y"
    unfolding store_credential_def pruned_def [symmetric] by (cases r1) auto
  have s1: "synced env abs inv se1"
    using p r1 assms(3) prune_synced [OF assms(1-3)] by (auto simp: pruned_def split: option.splits if_splits)
  obtain w where w: "increment_wear_counter se1 ''credentials'' = (se1\<lparr>wear_counters := w\<rparr>, Inr ())"
    by (rule increment_wear_counter_ok)
  let ?se2 = "se1\<lparr>wear_counters := w\<rparr>"
  have s2: "synced env abs inv ?se2" using s1 by (rule synced_wear)
  obtain b where b: "backend ?se2 = Some b" "inv b" using s2 by (rule synced_backend)
  from assms(4) p r1 w b obtain s data se3 q where data: "into_writer (cred_codec env) s = Some data"
    and bw: "backend_write env ?se2 (cred_key env (credential_id c)) data = (se3, Inr q)"
    and se': "se' = se3\<lparr>credentials := btree_insert (credential_id c) s (credentials se3)\<rparr>"
    unfolding store_credential_def pruned_def [symmetric]
    by (auto simp: cbor_serialize_def Let_def split: sum.splits option.splits prod.splits)
  from backend_write_effect [OF assms(1) b bw] obtain b' where
    "se3 = ?se2\<lparr>backend := Some b'\<rparr>" "inv b'" "abs b' = (abs b)(cred_key env (credential_id c) \<mapsto> data)"
    by (auto simp: is_ok_def)
  then show ?thesis using synced_put [OF assms(2) s2 b(1) _ data, of b' "credential_id c" se'] se' by simp
qed

end

text \<open>The large-blob array a successful write leaves.\<close>

definition written_blobs :: "bytes \<Rightarrow> usize \<Rightarrow> bytes \<Rightarrow> usize option \<Rightarrow> bytes" where
  "written_blobs blobs offset data expected_len =
     (let stop = offset + length data;
          target = (case expected_len of Some exp \<Rightarrow> max exp stop | None \<Rightarrow> stop)
      in copy_into (if target > length blobs then resize target 0 blobs else blobs) offset data)"

definition blob_write_allowed :: "bytes \<Rightarrow> usize \<Rightarrow> bytes \<Rightarrow> usize option \<Rightarrow> bool" where
  "blob_write_allowed blobs offset data expected_len =
     (offset + length data \<le> MAX_LARGE_BLOBS_SIZE \<and> offset \<le> length blobs
      \<and> (case expected_len of None \<Rightarrow> True | Some exp \<Rightarrow> exp \<le> MAX_LARGE_BLOBS_SIZE \<and> offset + length data \<le> exp))"

lemma write_large_blobs_allowed:
  "blob_write_allowed (large_blobs se) offset data expected_len \<Longrightarrow>
   write_large_blobs env se offset data expected_len =
     backend_write env (se\<lparr>large_blobs := written_blobs (large_blobs se) offset data expected_len\<rparr>)
       LARGE_BLOBS_STORAGE_KEY (written_blobs (large_blobs se) offset data expected_len)"
  by (auto simp: write_large_blobs_def blob_write_allowed_def written_blobs_def checked_add_usize_def Let_def
      usize_max_def MAX_LARGE_BLOBS_SIZE_def split: option.splits)

lemma write_large_blobs_refused:
  "\<not> blob_write_allowed (large_blobs se) offset data expected_len \<Longrightarrow>
   \<exists>e. write_large_blobs env se offset data expected_len = (se, Inl (E_Storage (InvalidParameter e)))"
  by (auto simp: write_large_blobs_def blob_write_allowed_def checked_add_usize_def
      usize_max_def MAX_LARGE_BLOBS_SIZE_def split: option.splits)

context storage_backend
begin

lemma write_large_blobs_synced:
  assumes "ops env = be" "synced env abs inv se" "write_large_blobs env se offset data len = (se', r)" "is_ok r"
  shows "synced env abs inv se'"
proof -
  obtain b where b: "backend se = Some b" "inv b" using assms(2) by (rule synced_backend)
  let ?new = "written_blobs (large_blobs se) offset data len"
  have "blob_write_allowed (large_blobs se) offset data len"
    using write_large_blobs_refused [of se offset data len env] assms(3,4)
    by (cases r) (auto simp: is_ok_def)
  with assms(3) have w: "backend_write env (se\<lparr>large_blobs := ?new\<rparr>) LARGE_BLOBS_STORAGE_KEY ?new = (se', r)"
    by (simp add: write_large_blobs_allowed)
  from backend_write_effect [OF assms(1) _ b(2) w] b assms(4) obtain b' where
    "se' = se\<lparr>large_blobs := ?new, backend := Some b'\<rparr>" "inv b'" "abs b' = (abs b)(LARGE_BLOBS_STORAGE_KEY \<mapsto> ?new)"
    by auto
  then show ?thesis using synced_blobs [OF assms(2) b(1), of b' "Some ?new" se'] by simp
qed

lemma clear_large_blobs_effect:
  assumes "ops env = be" "backend se = Some b" "inv b"
  obtains b' where "clear_large_blobs env se = se\<lparr>large_blobs := [], backend := Some b'\<rparr>" "inv b'"
    "abs b' = (abs b)(LARGE_BLOBS_STORAGE_KEY := None) \<or> abs b' = abs b"
proof -
  obtain se' r where d: "backend_delete env (se\<lparr>large_blobs := []\<rparr>) LARGE_BLOBS_STORAGE_KEY = (se', r)" by force
  from backend_delete_effect [OF assms(1) _ assms(3) d] assms(2) d show ?thesis
    by (auto simp: clear_large_blobs_def split: if_splits intro: that)
qed

lemma clear_large_blobs_synced:
  assumes "ops env = be" "synced env abs inv se" "run_op env se Op_ClearLargeBlobs = (se', True)"
  shows "synced env abs inv se'"
proof -
  obtain b where b: "backend se = Some b" "inv b" using assms(2) by (rule synced_backend)
  obtain b' where b': "clear_large_blobs env se = se\<lparr>large_blobs := [], backend := Some b'\<rparr>" "inv b'"
    "abs b' = (abs b)(LARGE_BLOBS_STORAGE_KEY := None) \<or> abs b' = abs b"
    by (rule clear_large_blobs_effect [OF assms(1) b])
  with assms(1,3) read_law [OF b'(2), of LARGE_BLOBS_STORAGE_KEY] have se': "se' = se\<lparr>large_blobs := [], backend := Some b'\<rparr>"
    and "abs b' LARGE_BLOBS_STORAGE_KEY = None" by auto
  with b'(3) have "abs b' = (abs b)(LARGE_BLOBS_STORAGE_KEY := None)" by (auto simp: fun_eq_iff)
  with se' b'(2) synced_blobs [OF assms(2) b(1), of b' None se'] show ?thesis by simp
qed

lemma fold_delete_inv: "inv b \<Longrightarrow> inv (fold (\<lambda>k b. fst (be_delete be b k)) ks b)"
proof (induction ks arbitrary: b)
  case (Cons k ks)
  obtain b1 r where "be_delete be b k = (b1, r)" by force
  with delete_law [OF Cons.prems this] Cons show ?case by simp
qed simp

lemma reset_synced:
  assumes "ops env = be" "synced env abs inv se" "run_op env se Op_Reset = (se', True)"
  shows "synced env abs inv se' \<and> credentials se' = [] \<and> large_blobs se' = [] \<and> kv_store se' = []"
proof -
  obtain b where b: "backend se = Some b" "inv b" using assms(2) by (rule synced_backend)
  obtain ks where ks: "be_list_keys be b = Inr ks" using list_keys_law [OF b(2)] by auto
  define b1 where "b1 = fold (\<lambda>k b. fst (be_delete be b k)) ks b"
  have b1: "inv b1" using fold_delete_inv [OF b(2)] by (simp add: b1_def)
  have c: "clear env se = se\<lparr>backend := Some b1, credentials := [], kv_store := []\<rparr>"
    using b ks assms(1) by (simp add: clear_def b1_def)
  then have c2: "backend (clear env se) = Some b1" by simp
  obtain b' where b': "clear_large_blobs env (clear env se) = (clear env se)\<lparr>large_blobs := [], backend := Some b'\<rparr>" "inv b'"
    by (rule clear_large_blobs_effect [OF assms(1) c2 b1])
  with assms(1,3) have se': "se' = (clear env se)\<lparr>large_blobs := [], backend := Some b'\<rparr>" and "be_list_keys be b' = Inr []"
    by auto
  then have "abs b' = Map.empty" using list_keys_law [OF b'(2)] by auto
  then show ?thesis using se' b'(2) by (auto simp: synced_def c)
qed

lemma run_op_synced:
  assumes "ops env = be" "env_ok env" "op_ok env p" "synced env abs inv se" "run_op env se p = (se', True)"
  shows "synced env abs inv se'"
proof (cases p)
  case (Op_Store k v)
  then show ?thesis using assms store_synced [OF assms(1,4), of k v] by (auto simp: split_beta) (metis prod.collapse)
next
  case (Op_Delete k)
  then show ?thesis using assms kv_delete_synced [OF assms(1,4), of k] by (auto simp: split_beta)
next
  case (Op_StoreCredential crypto draw c)
  then show ?thesis
    using assms(5) store_credential_synced [OF assms(1,2,4), of crypto draw c]
    by (auto simp: split_beta is_ok_def split: sum.splits) (metis prod.collapse)
next
  case (Op_UpdateSignCount i n)
  then show ?thesis
    using assms(5) write_back_synced [OF assms(1,2,4)]
    by (auto simp: split_beta is_ok_def update_sign_count_def split: sum.splits option.splits) (metis prod.collapse)
next
  case (Op_UpdateUserInfo i n d)
  then show ?thesis
    using assms(4,5) write_back_synced [OF assms(1,2,4)]
    by (auto simp: split_beta is_ok_def update_user_info_def split: sum.splits option.splits) (metis prod.collapse)
next
  case (Op_DeleteCredential i)
  then show ?thesis
    using assms(5) delete_credential_synced [OF assms(1,2,4), of i]
    by (auto simp: split_beta is_ok_def split: sum.splits) (metis prod.collapse)
next
  case (Op_WriteLargeBlobs off d l)
  then show ?thesis
    using assms(5) write_large_blobs_synced [OF assms(1,4), of off d l]
    by (auto simp: split_beta) (metis prod.collapse)
next
  case Op_ClearLargeBlobs
  then show ?thesis using clear_large_blobs_synced [OF assms(1,4)] assms(5) by simp
next
  case (Op_SetMax m)
  then show ?thesis using assms(4,5) by (auto simp: set_max_credential_count_def synced_def)
next
  case Op_Reset
  then show ?thesis using reset_synced [OF assms(1,4)] assms(5) by simp
qed

lemma run_ops_synced:
  assumes "ops env = be" "env_ok env"
  shows "list_all (op_ok env) ps \<Longrightarrow> synced env abs inv se \<Longrightarrow> run_ops env se ps = (se', True) \<Longrightarrow> synced env abs inv se'"
proof (induction ps arbitrary: se)
  case (Cons p ps)
  obtain se1 ok where step: "run_op env se p = (se1, ok)" by force
  with Cons.prems(3) have "ok" "run_ops env se1 ps = (se', True)" by (auto simp: split_beta prod_eq_iff)
  with run_op_synced [OF assms _ Cons.prems(2), of p se1] step Cons show ?case by simp
qed simp

end

subsection \<open>Loading\<close>

text \<open>What loading a list of keys makes of the blobs and of the entry of a credential.\<close>

definition load_blobs :: "('b \<Rightarrow> string \<Rightarrow> bytes option) \<Rightarrow> 'b \<Rightarrow> string list \<Rightarrow> bytes \<Rightarrow> bytes" where
  "load_blobs view b ks old =
     (case (if LARGE_BLOBS_STORAGE_KEY \<in> set ks then view b LARGE_BLOBS_STORAGE_KEY else None) of
        Some v \<Rightarrow> v | None \<Rightarrow> old)"

definition load_get ::
  "'b StorageEnv \<Rightarrow> ('b \<Rightarrow> string \<Rightarrow> bytes option) \<Rightarrow> 'b \<Rightarrow> string list \<Rightarrow> bytes \<Rightarrow> StoredCredential option \<Rightarrow> StoredCredential option" where
  "load_get env view b ks i old =
     (case (if cred_key env i \<in> set ks then Option.bind (view b (cred_key env i)) (from_reader (cred_codec env)) else None) of
        Some s \<Rightarrow> Some s | None \<Rightarrow> old)"

context storage_backend
begin

lemma load_keys_result:
  assumes "ops env = be" "inv b" "env_ok env"
    and good: "\<And>k v s. abs b k = Some v \<Longrightarrow> k \<noteq> LARGE_BLOBS_STORAGE_KEY \<Longrightarrow> from_reader (cred_codec env) v = Some s
        \<Longrightarrow> k = cred_key env (credential_id (credential s))"
  shows "btree_wf (credentials se) \<Longrightarrow> \<exists>cs. load_keys env b se ks =
      (se\<lparr>credentials := cs, large_blobs := load_blobs abs b ks (large_blobs se)\<rparr>, Inr ())
    \<and> btree_wf cs \<and> (\<forall>i. btree_get cs i = load_get env abs b ks i (btree_get (credentials se) i))"
proof (induction ks arbitrary: se)
  case Nil
  then show ?case by (intro exI [of _ "credentials se"]) (simp add: load_blobs_def load_get_def)
next
  case (Cons k ks)
  note r = read_law [OF assms(2), of k]
  consider (blob) v where "k = LARGE_BLOBS_STORAGE_KEY" "abs b k = Some v"
    | (cred) v s where "k \<noteq> LARGE_BLOBS_STORAGE_KEY" "abs b k = Some v" "from_reader (cred_codec env) v = Some s"
    | (skip) "k \<noteq> LARGE_BLOBS_STORAGE_KEY" "Option.bind (abs b k) (from_reader (cred_codec env)) = None"
    | (noblob) "k = LARGE_BLOBS_STORAGE_KEY" "abs b k = None"
    by (cases "abs b k"; cases "Option.bind (abs b k) (from_reader (cred_codec env))") auto
  then show ?case
  proof cases
    case blob
    let ?se = "se\<lparr>large_blobs := v\<rparr>"
    have "load_keys env b se (k # ks) = load_keys env b ?se ks" using blob r assms(1) by simp
    moreover obtain cs where "load_keys env b ?se ks = (?se\<lparr>credentials := cs, large_blobs := load_blobs abs b ks v\<rparr>, Inr ())"
      "btree_wf cs" "\<forall>i. btree_get cs i = load_get env abs b ks i (btree_get (credentials se) i)"
      using Cons.IH [of ?se] Cons.prems by auto
    ultimately show ?thesis
      using blob by (intro exI [of _ cs]) (auto simp: load_blobs_def load_get_def)
  next
    case cred
    let ?i = "credential_id (credential s)"
    let ?se = "se\<lparr>credentials := btree_insert ?i s (credentials se)\<rparr>"
    have k: "k = cred_key env ?i" using good [OF cred(2,1,3)] .
    have "load_keys env b se (k # ks) = load_keys env b ?se ks"
      using cred r assms(1) by (simp add: cbor_deserialize_def)
    moreover obtain cs where "load_keys env b ?se ks = (?se\<lparr>credentials := cs, large_blobs := load_blobs abs b ks (large_blobs se)\<rparr>, Inr ())"
      "btree_wf cs" "\<forall>i. btree_get cs i = load_get env abs b ks i (btree_get (credentials ?se) i)"
      using Cons.IH [of ?se] Cons.prems by auto
    ultimately show ?thesis
      using cred cred_key_inj [OF assms(3)]
      by (intro exI [of _ cs]) (auto simp: load_blobs_def load_get_def k split: option.splits)
  next
    case skip
    have "load_keys env b se (k # ks) = load_keys env b se ks"
      using skip r assms(1) by (cases "abs b k") (auto simp: cbor_deserialize_def)
    with Cons.IH [OF Cons.prems] skip show ?thesis by (auto simp: load_blobs_def load_get_def)
  next
    case noblob
    have "load_keys env b se (k # ks) = load_keys env b se ks" using noblob r assms(1) by simp
    with Cons.IH [OF Cons.prems] noblob show ?thesis by (auto simp: load_blobs_def load_get_def)
  qed
qed

lemma restart_synced:
  assumes "ops env = be" "env_ok env" "synced env abs inv se" "index_inv (credentials se)" "backend se = Some b"
  shows "with_backend env b = (engine_empty (Some b))\<lparr>credentials := credentials se, large_blobs := large_blobs se\<rparr>"
proof -
  let ?codec = "cred_codec env"
  from assms(3,5) have ok: "inv b"
    and creds: "\<And>i. abs b (cred_key env i) = Option.bind (btree_get (credentials se) i) (into_writer ?codec)"
    and total: "\<And>i s. btree_get (credentials se) i = Some s \<Longrightarrow> into_writer ?codec s \<noteq> None"
    and blobs: "abs b LARGE_BLOBS_STORAGE_KEY = Some (large_blobs se) \<or> abs b LARGE_BLOBS_STORAGE_KEY = None \<and> large_blobs se = []"
    and other: "\<And>k v. abs b k = Some v \<Longrightarrow> k \<noteq> LARGE_BLOBS_STORAGE_KEY \<Longrightarrow> k \<notin> range (cred_key env)
         \<Longrightarrow> from_reader ?codec v = None"
    by (auto simp: synced_def)
  have rt: "from_reader ?codec bs = Some s" if "into_writer ?codec s = Some bs" for s bs
    using assms(2) that unfolding env_ok_def by blast
  have idx: "credential_id (credential s) = i" if "btree_get (credentials se) i = Some s" for i s
    using assms(4) that unfolding index_inv_def by blast
  have decode: "Option.bind (abs b (cred_key env i)) (from_reader ?codec) = btree_get (credentials se) i" for i
    using creds [of i] total [of i] rt by (cases "btree_get (credentials se) i") auto
  have good: "k = cred_key env (credential_id (credential s))"
    if "abs b k = Some v" "k \<noteq> LARGE_BLOBS_STORAGE_KEY" "from_reader ?codec v = Some s" for k v s
  proof -
    from that other [of k v] obtain i where i: "k = cred_key env i" by auto
    with decode [of i] that have "btree_get (credentials se) i = Some s" by simp
    with idx i show ?thesis by simp
  qed
  obtain ks where ks: "be_list_keys be b = Inr ks" "set ks = dom (abs b)" using list_keys_law [OF ok] by auto
  let ?e = "engine_empty (Some b)"
  obtain cs where cs: "load_keys env b ?e ks = (?e\<lparr>credentials := cs, large_blobs := load_blobs abs b ks []\<rparr>, Inr ())" "btree_wf cs"
    "\<And>i. btree_get cs i = load_get env abs b ks i None"
  proof -
    have "\<exists>cs. load_keys env b ?e ks = (?e\<lparr>credentials := cs, large_blobs := load_blobs abs b ks (large_blobs ?e)\<rparr>, Inr ())
       \<and> btree_wf cs \<and> (\<forall>i. btree_get cs i = load_get env abs b ks i (btree_get (credentials ?e) i))"
      by (rule load_keys_result [OF assms(1) ok assms(2)]) (erule good, simp_all add: engine_empty_def)
    then show ?thesis using that by (auto simp: engine_empty_def)
  qed
  have "cs = credentials se"
  proof (rule btree_eqI)
    show "btree_get cs i = btree_get (credentials se) i" for i
      using cs(3) [of i] decode [of i] ks(2) by (cases "abs b (cred_key env i)") (auto simp: load_get_def split: option.splits)
  qed (use cs(2) assms(4) in \<open>auto simp: index_inv_def\<close>)
  moreover have "load_blobs abs b ks [] = large_blobs se"
    using blobs ks(2) by (auto simp: load_blobs_def)
  ultimately show ?thesis
    using cs(1) ks(1) assms(1) by (simp add: with_backend_def load_from_backend_def engine_empty_def)
qed

end

subsection \<open>A concrete instance for the witnesses\<close>

text \<open>The map itself as a backend, a codec that stores credential id and ciphertext, and a hex encoder.\<close>

definition map_backend :: "(string, bytes) btree StorageBackend" where
  "map_backend = \<lparr>be_read = (\<lambda>m k. Inr (btree_get m k)), be_write = (\<lambda>m k v. (btree_insert k v m, Inr ())),
                  be_delete = (\<lambda>m k. (btree_remove k m, Inr ())), be_list_keys = (\<lambda>m. Inr (btree_keys m))\<rparr>"

definition example_credential :: Credential where
  "example_credential = \<lparr>credential_id = [1, 2], public_key = [3], private_key = [7, 7], sign_count = 0,
     rp_id_hash = [9], user_handle = None, cred_blob = [], created_at = 5, algorithm = - 8, rp_id = ''rp'',
     large_blob_key = None, user_name = None, user_display_name = None, cred_protect = None,
     cred_random_with_uv = None, cred_random_without_uv = None\<rparr>"

definition example_stored :: StoredCredential where
  "example_stored = \<lparr>credential = example_credential\<lparr>private_key := []\<rparr>,
     encrypted_private_key = toy_xor [] [7, 7], sc_nonce = random_bytes example_ring 0 12\<rparr>"

definition example_env :: "(string, bytes) btree StorageEnv" where
  "example_env = \<lparr>ops = map_backend,
     cred_codec = \<lparr>into_writer = (\<lambda>s. if s = example_stored then Some [0xA3] else None),
                   from_reader = (\<lambda>bs. if bs = [0xA3] then Some example_stored else None)\<rparr>,
     hex_encode = map (\<lambda>b. char_of (unat b)), ring = example_ring\<rparr>"

lemma map_backend_contract: "storage_backend map_backend btree_get btree_wf"
proof
  fix b :: "(string, bytes) btree"
  show "\<exists>ks. be_list_keys map_backend b = Inr ks \<and> set ks = dom (btree_get b)"
    using btree_get_in_keys [of b] by (auto simp: map_backend_def dom_def)
qed (auto simp: map_backend_def fun_eq_iff)

lemma example_env_ok: "env_ok example_env"
proof -
  have "inj (\<lambda>b :: u8. char_of (unat b))"
  proof (rule injI)
    fix x y :: u8
    assume "char_of (unat x) = (char_of (unat y) :: char)"
    then have "unat x mod 256 = unat y mod 256" by (metis of_char_of)
    moreover have "unat x < 256" "unat y < 256" using unsigned_less [of x, where 'a = nat] unsigned_less [of y, where 'a = nat] by simp_all
    ultimately show "x = y" by (simp add: word_unat_eq_iff)
  qed
  then show ?thesis by (auto simp: env_ok_def example_env_def inj_mapI split: if_splits)
qed

lemma example_synced: "synced example_env btree_get btree_wf (engine_empty (Some []))"
  by (simp add: synced_def engine_empty_def)

subsection \<open>Properties\<close>


lemma example_run:
  "run_ops example_env (engine_empty (Some [])) [Op_StoreCredential (from_key []) 0 example_credential,
       Op_WriteLargeBlobs 0 [1, 2, 3] None]
     = (\<lparr>credentials = [([1, 2], example_stored)], kv_store = [], large_blobs = [1, 2, 3],
         backend = Some [(''cred:'' @ map (\<lambda>b. char_of (unat b)) [1, 2 :: u8], [0xA3]), (LARGE_BLOBS_STORAGE_KEY, [1, 2, 3])],
         wear_counters = [(''credentials'', \<lparr>wear_sector = ''credentials'', write_count = 1\<rparr>)],
         max_credential_count = None\<rparr>, True)"
proof -
  have "length (random_bytes example_ring 0 12) = 12"
    using example_ring_correct(3) by (rule length_random_bytes)
  then have "store_credential example_env (from_key []) 0 (engine_empty (Some [])) example_credential
      = (\<lparr>credentials = [([1, 2], example_stored)], kv_store = [], large_blobs = [],
         backend = Some [(''cred:'' @ map (\<lambda>b. char_of (unat b)) [1, 2 :: u8], [0xA3])],
         wear_counters = [(''credentials'', \<lparr>wear_sector = ''credentials'', write_count = 1\<rparr>)],
         max_credential_count = None\<rparr>, Inr ())"
    by (simp add: store_credential_def engine_empty_def generate_nonce_def engine_encrypt_def example_env_def
        increment_wear_counter_def wear_increment_def wear_new_def cbor_serialize_def backend_write_def map_backend_def
        example_stored_def example_credential_def example_ring_def from_key_def cred_key_def Let_def)
  then show ?thesis
    by (simp add: is_ok_def write_large_blobs_def checked_add_usize_def usize_max_def MAX_LARGE_BLOBS_SIZE_def
        backend_write_def example_env_def map_backend_def resize_def copy_into_def LARGE_BLOBS_STORAGE_KEY_def Let_def)
qed



text \<open>
  Storing a credential and reading it back gives the credential with its private key: after a
  successful \<open>store_credential\<close>, \<open>get_credential\<close> with the same engine key returns exactly what was stored, and as
  long as the configured limit was not reached every other entry is untouched.
\<close>

lemma store_get_credential:
  assumes "aead_correct (ring env)" "store_credential env crypto draw se c = (se', Inr ())"
    and "case max_credential_count se of None \<Rightarrow> True | Some m \<Rightarrow> length (credentials se) < m"
  shows "get_credential env crypto se' (credential_id c) = Inr (Some c)
     \<and> (\<exists>s. credentials se' = btree_insert (credential_id c) s (credentials se))"
proof -
  from store_credential_index [OF assms(2)] assms(3) obtain nonce encrypted where
    enc: "engine_encrypt (ring env) crypto (private_key c) nonce = Inr encrypted"
    and cs: "credentials se' = btree_insert (credential_id c)
      \<lparr>credential = c\<lparr>private_key := []\<rparr>, encrypted_private_key = encrypted, sc_nonce = nonce\<rparr> (credentials se)"
    by (auto split: option.splits)
  then show ?thesis
    using engine_decrypt_encrypt [OF assms(1) enc] by (auto simp: get_credential_def)
qed

text \<open>
  At the configured limit the oldest credential makes room. When the index is full, a successful
  \<open>store_credential\<close> drops exactly the credential with the smallest creation time (the first of those by
  identifier), keeps all others, and the index does not grow.
\<close>

lemma store_credential_prunes_oldest:
  assumes "index_inv (credentials se)" "max_credential_count se = Some m" "m \<le> length (credentials se)"
    and "credentials se \<noteq> []" "store_credential env crypto draw se c = (se', Inr ())"
  shows "\<exists>old. old \<in> set (btree_values (credentials se))
     \<and> list_all (\<lambda>t. created_at (credential old) \<le> created_at (credential t)) (btree_values (credentials se))
     \<and> btree_keys (credentials se') = btree_keys (btree_insert (credential_id c) old
          (btree_remove (credential_id (credential old)) (credentials se)))
     \<and> length (credentials se') \<le> length (credentials se)"
proof -
  obtain old where old: "min_by_created_at (btree_values (credentials se)) = Some old"
    using min_by_created_at_None [of "btree_values (credentials se)"] assms(4) by (auto simp: btree_values_def)
  let ?rest = "btree_remove (credential_id (credential old)) (credentials se)"
  note least = min_by_created_at_least [OF old]
  obtain s where cs: "credentials se' = btree_insert (credential_id c) s ?rest"
    using store_credential_index [OF assms(5)] assms(2,3) old by (auto simp: prune_index)
  have wf: "btree_wf (credentials se)" using assms(1) by (simp add: index_inv_def)
  obtain i where "(i, old) \<in> set (credentials se)" using least by (auto simp: btree_values_def)
  then have "btree_get (credentials se) i = Some old" using btree_get_in_set [OF wf] by simp
  moreover from this have "credential_id (credential old) = i" using assms(1) by (simp add: index_inv_def)
  ultimately have rest: "length ?rest = length (credentials se) - 1" "0 < length (credentials se)"
    using wf assms(4) by (auto simp: length_btree_remove)
  have "btree_keys (btree_insert k v m') = btree_keys (btree_insert k w m')" for k :: bytes and v w :: StoredCredential and m'
    by (induction k v m' rule: btree_insert.induct) (auto simp: btree_keys_def)
  moreover have "length (btree_insert (credential_id c) s ?rest) \<le> length (credentials se)"
    using rest wf by (auto simp: length_btree_insert)
  ultimately show ?thesis
    using least cs by (intro exI [of _ old]) (auto simp: list_all_iff)
qed



end
