(* ===== verification/File_Backend.thy ===== *)
theory File_Backend
  imports Storage_Engine
begin

section \<open>The journaled file backend\<close>

text \<open>
  Models \<open>FileStorageBackend\<close> of \<open>openkey-storage/src/storage.rs\<close> with \<open>load_snapshot\<close>, \<open>flush\<close>, \<open>write_durable\<close> and
  \<open>replace_file\<close>, over a file system of named files. A path is a stem and an extension, which is all
  \<open>with_extension\<close> looks at; the files of one store share their directory, which may have to be created. Every
  call that changes the file system consumes one step of \<open>power\<close>: with \<open>Some n\<close> the device loses power after
  \<open>n\<close> further steps, and the call that hits the end fails without effect. The JSON library is a parameter. The
  hash map of the source is a sorted map here; only the order of \<open>list_keys\<close> depends on it.

  The backend satisfies the contract \<open>storage_backend\<close> and is recoverable at every point of a flush but one,
  which is exhibited: between the creation of the journal and its first write.
\<close>

type_synonym path = "string \<times> string"

definition with_extension :: "path \<Rightarrow> string \<Rightarrow> path" where
  "with_extension p e = (fst p, e)"

record FileSystem =
  files :: "path \<Rightarrow> bytes option"
  dir_exists :: bool
  power :: "nat option"

record JsonCodec =
  to_string_pretty :: "kv_map \<Rightarrow> bytes option"
  from_str :: "bytes \<Rightarrow> kv_map option"

text \<open>One call that changes the file system, unless the power is gone.\<close>

definition fs_step :: "FileSystem \<Rightarrow> (FileSystem \<Rightarrow> FileSystem) \<Rightarrow> FileSystem \<times> (StorageError, unit) result" where
  "fs_step fs f =
     (case power fs of
        None \<Rightarrow> (f fs, Inr ())
      | Some 0 \<Rightarrow> (fs, Inl (IoError ''power loss''))
      | Some (Suc n) \<Rightarrow> ((f fs)\<lparr>power := Some n\<rparr>, Inr ()))"

definition fs_create_dir_all :: "FileSystem \<Rightarrow> FileSystem \<times> (StorageError, unit) result" where
  "fs_create_dir_all fs = fs_step fs (\<lambda>fs. fs\<lparr>dir_exists := True\<rparr>)"

definition fs_create :: "FileSystem \<Rightarrow> path \<Rightarrow> FileSystem \<times> (StorageError, unit) result" where
  "fs_create fs p =
     (if \<not> dir_exists fs then (fs, Inl (IoError ''not found''))
      else fs_step fs (\<lambda>fs. fs\<lparr>files := (files fs)(p \<mapsto> [])\<rparr>))"

definition fs_write_all :: "FileSystem \<Rightarrow> path \<Rightarrow> bytes \<Rightarrow> FileSystem \<times> (StorageError, unit) result" where
  "fs_write_all fs p bs = fs_step fs (\<lambda>fs. fs\<lparr>files := (files fs)(p \<mapsto> bs)\<rparr>)"

definition fs_sync_all :: "FileSystem \<Rightarrow> FileSystem \<times> (StorageError, unit) result" where
  "fs_sync_all fs = fs_step fs (\<lambda>fs. fs)"

definition fs_remove_file :: "FileSystem \<Rightarrow> path \<Rightarrow> FileSystem \<times> (StorageError, unit) result" where
  "fs_remove_file fs p =
     (if files fs p = None then (fs, Inl (IoError ''not found''))
      else fs_step fs (\<lambda>fs. fs\<lparr>files := (files fs)(p := None)\<rparr>))"

definition fs_rename :: "FileSystem \<Rightarrow> path \<Rightarrow> path \<Rightarrow> FileSystem \<times> (StorageError, unit) result" where
  "fs_rename fs p q =
     (if files fs p = None then (fs, Inl (IoError ''not found''))
      else fs_step fs (\<lambda>fs. fs\<lparr>files := (files fs)(q := files fs p, p := None)\<rparr>))"

text \<open>\<open>x?\<close> followed by the rest, for calls that thread the file system.\<close>

definition fs_then :: "FileSystem \<times> (StorageError, unit) result \<Rightarrow> (FileSystem \<Rightarrow> FileSystem \<times> (StorageError, 'a) result)
    \<Rightarrow> FileSystem \<times> (StorageError, 'a) result" where
  "fs_then x k = (case x of (fs, Inl e) \<Rightarrow> (fs, Inl e) | (fs, Inr _) \<Rightarrow> k fs)"

subsection \<open>FileStorageBackend\<close>

record FileStorageBackend =
  fb_path :: path
  fb_journal_path :: path
  fb_cache :: kv_map
  fb_dirty :: bool
  fb_fs :: FileSystem

text \<open>
  \<open>content.trim().is_empty()\<close>: only characters of \<open>char::is_whitespace\<close>, in their UTF-8 encodings of one, two and
  three bytes.
\<close>

definition white1 :: "u8 \<Rightarrow> bool" where
  "white1 a \<longleftrightarrow> a \<in> {0x20, 0x09, 0x0A, 0x0B, 0x0C, 0x0D}"

definition white2 :: "u8 \<Rightarrow> u8 \<Rightarrow> bool" where
  "white2 a b \<longleftrightarrow> a = 0xC2 \<and> b \<in> {0x85, 0xA0}"

definition white3 :: "u8 \<Rightarrow> u8 \<Rightarrow> u8 \<Rightarrow> bool" where
  "white3 a b c \<longleftrightarrow> a = 0xE1 \<and> b = 0x9A \<and> c = 0x80
     \<or> a = 0xE2 \<and> b = 0x80 \<and> (0x80 \<le> c \<and> c \<le> 0x8A \<or> c \<in> {0xA8, 0xA9, 0xAF})
     \<or> a = 0xE2 \<and> b = 0x81 \<and> c = 0x9F
     \<or> a = 0xE3 \<and> b = 0x80 \<and> c = 0x80"

fun is_blank :: "bytes \<Rightarrow> bool" where
  "is_blank [] = True"
| "is_blank [a] = white1 a"
| "is_blank [a, b] = (if white1 a then is_blank [b] else white2 a b)"
| "is_blank (a # b # c # bs) =
     (if white1 a then is_blank (b # c # bs)
      else if white2 a b then is_blank (c # bs)
      else white3 a b c \<and> is_blank bs)"

definition load_snapshot :: "JsonCodec \<Rightarrow> FileSystem \<Rightarrow> path \<Rightarrow> path \<Rightarrow> (StorageError, kv_map) result" where
  "load_snapshot json fs p journal =
     (let snapshot_path = (if files fs journal \<noteq> None then journal else p)
      in case files fs snapshot_path of
           None \<Rightarrow> Inr []
         | Some content \<Rightarrow>
             if is_blank content then Inr []
             else case from_str json content of
                    None \<Rightarrow> Inl (SerializationError ''json'') | Some m \<Rightarrow> Inr m)"

definition file_new :: "JsonCodec \<Rightarrow> FileSystem \<Rightarrow> path \<Rightarrow> (StorageError, FileStorageBackend) result" where
  "file_new json fs p =
     (let journal = with_extension p ''journal''
      in case load_snapshot json fs p journal of
           Inl e \<Rightarrow> Inl e
         | Inr cache \<Rightarrow> Inr \<lparr>fb_path = p, fb_journal_path = journal, fb_cache = cache, fb_dirty = False, fb_fs = fs\<rparr>)"

definition write_durable :: "FileSystem \<Rightarrow> path \<Rightarrow> bytes \<Rightarrow> FileSystem \<times> (StorageError, unit) result" where
  "write_durable fs p contents =
     fs_then (fs_create fs p) (\<lambda>fs. fs_then (fs_write_all fs p contents) (\<lambda>fs. fs_sync_all fs))"

definition replace_file :: "FileSystem \<Rightarrow> path \<Rightarrow> path \<Rightarrow> FileSystem \<times> (StorageError, unit) result" where
  "replace_file fs src dst =
     fs_then (if files fs dst \<noteq> None then fs_remove_file fs dst else (fs, Inr ()))
       (\<lambda>fs. fs_rename fs src dst)"

text \<open>The file-system calls of \<open>flush\<close>; both parents are the directory of the store.\<close>

definition flush_files :: "FileSystem \<Rightarrow> path \<Rightarrow> path \<Rightarrow> bytes \<Rightarrow> FileSystem \<times> (StorageError, unit) result" where
  "flush_files fs p journal json =
     fs_then (if \<not> dir_exists fs then fs_create_dir_all fs else (fs, Inr ())) (\<lambda>fs.
     fs_then (if \<not> dir_exists fs then fs_create_dir_all fs else (fs, Inr ())) (\<lambda>fs.
     fs_then (write_durable fs journal json) (\<lambda>fs.
     (let temporary_path = with_extension p ''tmp'' in
      fs_then (write_durable fs temporary_path json) (\<lambda>fs.
      fs_then (replace_file fs temporary_path p) (\<lambda>fs.
      fs_remove_file fs journal))))))"

definition flush :: "JsonCodec \<Rightarrow> FileStorageBackend \<Rightarrow> FileStorageBackend \<times> (StorageError, unit) result" where
  "flush json b =
     (if fb_dirty b
      then (case to_string_pretty json (fb_cache b) of
              None \<Rightarrow> (b, Inl (SerializationError ''json''))
            | Some doc \<Rightarrow>
                (case flush_files (fb_fs b) (fb_path b) (fb_journal_path b) doc of
                   (fs, Inl e) \<Rightarrow> (b\<lparr>fb_fs := fs\<rparr>, Inl e)
                 | (fs, Inr _) \<Rightarrow> (b\<lparr>fb_fs := fs, fb_dirty := False\<rparr>, Inr ())))
      else (b, Inr ()))"

definition snapshot_of :: "JsonCodec \<Rightarrow> FileStorageBackend \<Rightarrow> (StorageError, kv_map) result" where
  "snapshot_of json b = load_snapshot json (fb_fs b) (fb_path b) (fb_journal_path b)"

definition file_read :: "JsonCodec \<Rightarrow> FileStorageBackend \<Rightarrow> string \<Rightarrow> (StorageError, bytes option) result" where
  "file_read json b key =
     (case snapshot_of json b of Inl e \<Rightarrow> Inl e | Inr snapshot \<Rightarrow> Inr (btree_get snapshot key))"

definition file_write :: "JsonCodec \<Rightarrow> FileStorageBackend \<Rightarrow> string \<Rightarrow> bytes \<Rightarrow> FileStorageBackend \<times> (StorageError, unit) result" where
  "file_write json b key v =
     (case snapshot_of json b of
        Inl e \<Rightarrow> (b, Inl e)
      | Inr cache \<Rightarrow> flush json (b\<lparr>fb_cache := btree_insert key v cache, fb_dirty := True\<rparr>))"

definition file_delete :: "JsonCodec \<Rightarrow> FileStorageBackend \<Rightarrow> string \<Rightarrow> FileStorageBackend \<times> (StorageError, unit) result" where
  "file_delete json b key =
     (case snapshot_of json b of
        Inl e \<Rightarrow> (b, Inl e)
      | Inr cache \<Rightarrow> flush json (b\<lparr>fb_cache := btree_remove key cache, fb_dirty := True\<rparr>))"

definition file_list_keys :: "JsonCodec \<Rightarrow> FileStorageBackend \<Rightarrow> (StorageError, string list) result" where
  "file_list_keys json b =
     (case snapshot_of json b of Inl e \<Rightarrow> Inl e | Inr snapshot \<Rightarrow> Inr (btree_keys snapshot))"

definition file_backend :: "JsonCodec \<Rightarrow> FileStorageBackend StorageBackend" where
  "file_backend json =
     \<lparr>be_read = file_read json, be_write = file_write json, be_delete = file_delete json,
      be_list_keys = file_list_keys json\<rparr>"

subsection \<open>Lemmas\<close>

text \<open>What the backend relies on of the JSON library.\<close>

definition json_ok :: "JsonCodec \<Rightarrow> bool" where
  "json_ok json =
     ((\<forall>m t. btree_wf m \<longrightarrow> to_string_pretty json m = Some t \<longrightarrow> from_str json t = Some m \<and> \<not> is_blank t)
      \<and> (\<forall>t m. from_str json t = Some m \<longrightarrow> btree_wf m))"

text \<open>The paths belong together and the store is readable.\<close>

definition file_inv :: "JsonCodec \<Rightarrow> FileStorageBackend \<Rightarrow> bool" where
  "file_inv json b =
     (json_ok json \<and> snd (fb_path b) \<noteq> ''journal'' \<and> snd (fb_path b) \<noteq> ''tmp''
      \<and> fb_journal_path b = with_extension (fb_path b) ''journal'' \<and> is_ok (snapshot_of json b))"

definition file_view :: "JsonCodec \<Rightarrow> FileStorageBackend \<Rightarrow> string \<Rightarrow> bytes option" where
  "file_view json b = (case snapshot_of json b of Inr m \<Rightarrow> btree_get m | Inl _ \<Rightarrow> Map.empty)"

lemmas fs_ops = fs_then_def fs_create_dir_all_def fs_create_def fs_write_all_def fs_sync_all_def
  fs_remove_file_def fs_rename_def write_durable_def replace_file_def

text \<open>A flush with power: the new text is in the main file, the journal and the temporary file are gone.\<close>

lemma flush_files_powered:
  assumes "power fs = None" "snd p \<noteq> ''journal''" "snd p \<noteq> ''tmp''" "journal = with_extension p ''journal''"
  shows "flush_files fs p journal doc = (fs\<lparr>files := (files fs)(journal := None, with_extension p ''tmp'' := None, p \<mapsto> doc),
      dir_exists := True\<rparr>, Inr ())"
proof -
  have "p \<noteq> journal" "p \<noteq> with_extension p ''tmp''" "journal \<noteq> with_extension p ''tmp''"
    using assms(2-4) by (auto simp: with_extension_def prod_eq_iff)
  with assms(1) show ?thesis
    by (auto simp: flush_files_def fs_ops fs_step_def Let_def fun_upd_twist)
qed

lemma snapshot_wf: "file_inv json b \<Longrightarrow> snapshot_of json b = Inr m \<Longrightarrow> btree_wf m"
proof -
  assume inv: "file_inv json b" and "snapshot_of json b = Inr m"
  then have "m = [] \<or> (\<exists>t. from_str json t = Some m)"
    by (auto simp: snapshot_of_def load_snapshot_def Let_def split: option.splits if_splits)
  then show ?thesis using inv unfolding file_inv_def json_ok_def by (metis btree_wf_Nil)
qed

lemma load_after_flush:
  assumes "json_ok json" "btree_wf m" "to_string_pretty json m = Some doc" "files fs journal = None" "files fs p = Some doc"
  shows "load_snapshot json fs p journal = Inr m"
proof -
  have "from_str json doc = Some m" "\<not> is_blank doc" using assms(1-3) unfolding json_ok_def by blast+
  with assms(4,5) show ?thesis by (simp add: load_snapshot_def)
qed

text \<open>A step either consumes power and does its work, or fails and changes nothing.\<close>

lemma flush_powered:
  assumes "file_inv json b" "power (fb_fs b) = None" "btree_wf m"
    and "flush json (b\<lparr>fb_cache := m, fb_dirty := True\<rparr>) = (b', r)"
  shows "file_inv json b' \<and> power (fb_fs b') = None
     \<and> snapshot_of json b' = (case r of Inr _ \<Rightarrow> Inr m | Inl _ \<Rightarrow> snapshot_of json b)"
proof (cases "to_string_pretty json m")
  case None
  with assms show ?thesis by (auto simp: flush_def file_inv_def snapshot_of_def)
next
  case (Some doc)
  let ?p = "fb_path b" and ?j = "fb_journal_path b"
  let ?fs = "(fb_fs b)\<lparr>files := (files (fb_fs b))(?j := None, with_extension ?p ''tmp'' := None, ?p \<mapsto> doc), dir_exists := True\<rparr>"
  from assms(1) have inv: "json_ok json" "snd ?p \<noteq> ''journal''" "snd ?p \<noteq> ''tmp''" "?j = with_extension ?p ''journal''"
    by (auto simp: file_inv_def)
  with flush_files_powered [OF assms(2) inv(2-4)] assms(4) Some
  have b': "b' = b\<lparr>fb_cache := m, fb_dirty := False, fb_fs := ?fs\<rparr>" "r = Inr ()" by (auto simp: flush_def)
  have "?j \<noteq> ?p" "with_extension ?p ''tmp'' \<noteq> ?p" using inv by (auto simp: with_extension_def prod_eq_iff)
  then have "snapshot_of json b' = Inr m"
    using load_after_flush [OF inv(1) assms(3) Some, of ?fs ?j ?p] by (simp add: b' snapshot_of_def)
  with b' inv assms(2) show ?thesis by (simp add: file_inv_def is_ok_def)
qed

definition file_ready :: "JsonCodec \<Rightarrow> FileStorageBackend \<Rightarrow> bool" where
  "file_ready json b = (file_inv json b \<and> power (fb_fs b) = None)"

lemma file_ready_snapshot:
  assumes "file_ready json b"
  obtains m where "snapshot_of json b = Inr m" "btree_wf m"
proof -
  obtain m where "snapshot_of json b = Inr m"
    using assms by (cases "snapshot_of json b") (auto simp: file_ready_def file_inv_def is_ok_def)
  moreover from this have "btree_wf m" using assms snapshot_wf by (auto simp: file_ready_def)
  ultimately show ?thesis by (rule that)
qed

interpretation file_be: storage_backend "file_backend json" "file_view json" "file_ready json"
  for json
proof
  fix b k assume r: "file_ready json b"
  obtain m where m: "snapshot_of json b = Inr m" "btree_wf m" by (rule file_ready_snapshot [OF r])
  then show "be_read (file_backend json) b k = Inr (file_view json b k)"
    by (simp add: file_backend_def file_read_def file_view_def)
  show "\<exists>ks. be_list_keys (file_backend json) b = Inr ks \<and> set ks = dom (file_view json b)"
    using m btree_get_in_keys [of m] by (auto simp: file_backend_def file_list_keys_def file_view_def dom_def)
next
  fix b k v b' r
  assume a: "file_ready json b" "be_write (file_backend json) b k v = (b', r)"
  obtain m where m: "snapshot_of json b = Inr m" "btree_wf m" by (rule file_ready_snapshot [OF a(1)])
  have "flush json (b\<lparr>fb_cache := btree_insert k v m, fb_dirty := True\<rparr>) = (b', r)"
    using a(2) m by (simp add: file_backend_def file_write_def)
  from flush_powered [OF _ _ _ this] a(1) m show
    "file_ready json b' \<and> file_view json b' = (case r of Inr _ \<Rightarrow> (file_view json b)(k \<mapsto> v) | Inl _ \<Rightarrow> file_view json b)"
    by (cases r) (auto simp: file_ready_def file_view_def fun_eq_iff)
next
  fix b k b' r
  assume a: "file_ready json b" "be_delete (file_backend json) b k = (b', r)"
  obtain m where m: "snapshot_of json b = Inr m" "btree_wf m" by (rule file_ready_snapshot [OF a(1)])
  have "flush json (b\<lparr>fb_cache := btree_remove k m, fb_dirty := True\<rparr>) = (b', r)"
    using a(2) m by (simp add: file_backend_def file_delete_def)
  from flush_powered [OF _ _ _ this] a(1) m show
    "file_ready json b' \<and> file_view json b' = (case r of Inr _ \<Rightarrow> (file_view json b)(k := None) | Inl _ \<Rightarrow> file_view json b)"
    by (cases r) (auto simp: file_ready_def file_view_def fun_eq_iff)
qed

subsection \<open>Power loss during a flush\<close>

text \<open>The file system as found after the power comes back.\<close>

definition reboot :: "FileSystem \<Rightarrow> FileSystem" where
  "reboot fs = fs\<lparr>power := None\<rparr>"

text \<open>The files after each step of a flush in an existing directory.\<close>

definition flush_stage :: "(path \<Rightarrow> bytes option) \<Rightarrow> path \<Rightarrow> path \<Rightarrow> bytes \<Rightarrow> nat \<Rightarrow> (path \<Rightarrow> bytes option)" where
  "flush_stage fm p journal doc n =
     (let tmp = with_extension p ''tmp'';
          had = (if fm p = None then 0 else 1 :: nat)
      in if n = 0 then fm
         else if n = 1 then fm(journal \<mapsto> [])
         else if n \<le> 3 then fm(journal \<mapsto> doc)
         else if n = 4 then fm(journal \<mapsto> doc, tmp \<mapsto> [])
         else if n \<le> 6 then fm(journal \<mapsto> doc, tmp \<mapsto> doc)
         else if n < 7 + had then fm(journal \<mapsto> doc, tmp \<mapsto> doc, p := None)
         else if n = 7 + had then fm(journal \<mapsto> doc, tmp := None, p \<mapsto> doc)
         else fm(journal := None, tmp := None, p \<mapsto> doc))"

lemma nat_stage_cases:
  fixes n :: nat
  obtains "n = 0" | "n = 1" | "n = 2" | "n = 3" | "n = 4" | "n = 5" | "n = 6" | "n = 7" | "n = 8" | m where "n = m + 9"
proof -
  have "n \<in> {0, 1, 2, 3, 4, 5, 6, 7, 8} \<or> 9 \<le> n" by auto
  then show ?thesis using that by (auto simp: le_iff_add)
qed

lemma flush_files_stage:
  assumes "power fs = Some n" "dir_exists fs" "snd p \<noteq> ''journal''" "snd p \<noteq> ''tmp''" "journal = with_extension p ''journal''"
  shows "files (fst (flush_files fs p journal doc)) = flush_stage (files fs) p journal doc n
     \<and> (snd (flush_files fs p journal doc) = Inr () \<longrightarrow> flush_stage (files fs) p journal doc n
          = (files fs)(journal := None, with_extension p ''tmp'' := None, p \<mapsto> doc))"
proof -
  have "p \<noteq> journal" "p \<noteq> with_extension p ''tmp''" "journal \<noteq> with_extension p ''tmp''"
    using assms(3-5) by (auto simp: with_extension_def prod_eq_iff)
  with assms(1,2) show ?thesis
    by (cases n rule: nat_stage_cases; cases "files fs p = None")
      (auto simp: flush_files_def fs_ops fs_step_def flush_stage_def Let_def eval_nat_numeral fun_upd_twist)
qed

lemma flush_stage_snapshot:
  assumes "json_ok json" "btree_wf m" "to_string_pretty json m = Some doc" "n \<noteq> 1"
    and "snd p \<noteq> ''journal''" "snd p \<noteq> ''tmp''" "journal = with_extension p ''journal''"
    and "files fs = flush_stage (files fs0) p journal doc n" "load_snapshot json fs0 p journal = Inr old"
  shows "load_snapshot json fs p journal \<in> {Inr old, Inr m}"
proof -
  have ne: "p \<noteq> journal" "p \<noteq> with_extension p ''tmp''" "journal \<noteq> with_extension p ''tmp''"
    using assms(5-7) by (auto simp: with_extension_def prod_eq_iff)
  have doc: "from_str json doc = Some m" "\<not> is_blank doc" using assms(1-3) unfolding json_ok_def by blast+
  have "files fs = files fs0 \<or> files fs journal = Some doc \<or> files fs journal = None \<and> files fs p = Some doc"
    using assms(4,8) ne by (auto simp: flush_stage_def Let_def split: if_splits)
  then show ?thesis
    using assms(9) doc by (auto simp: load_snapshot_def Let_def split: option.splits if_splits)
qed

lemma file_write_flush:
  assumes "snapshot_of json b = Inr old" "to_string_pretty json (btree_insert key v old) = Some doc"
    and "file_write json b key v = (b', r)"
  shows "fb_fs b' = fst (flush_files (fb_fs b) (fb_path b) (fb_journal_path b) doc)
     \<and> r = snd (flush_files (fb_fs b) (fb_path b) (fb_journal_path b) doc)
     \<and> fb_path b' = fb_path b \<and> fb_journal_path b' = fb_journal_path b"
  using assms by (auto simp: file_write_def flush_def split: prod.splits sum.splits)

subsection \<open>Properties\<close>

text \<open>A store with one entry and a JSON codec for it, for the witnesses.\<close>

definition example_json :: JsonCodec where
  "example_json =
     \<lparr>to_string_pretty = (\<lambda>m. if m = [(''a'', [1])] then Some [0x7B, 0x31] else if m = [(''a'', [1]), (''b'', [2])] then Some [0x7B, 0x32] else None),
      from_str = (\<lambda>t. if t = [0x7B, 0x31] then Some [(''a'', [1])] else if t = [0x7B, 0x32] then Some [(''a'', [1]), (''b'', [2])] else None)\<rparr>"

definition example_files :: "nat option \<Rightarrow> FileSystem" where
  "example_files n = \<lparr>files = [(''keys'', ''json'') \<mapsto> [0x7B, 0x31]], dir_exists = True, power = n\<rparr>"

definition example_store :: "nat option \<Rightarrow> FileStorageBackend" where
  "example_store n = \<lparr>fb_path = (''keys'', ''json''), fb_journal_path = (''keys'', ''journal''), fb_cache = [(''a'', [1])],
     fb_dirty = False, fb_fs = example_files n\<rparr>"

lemma not_blank: "\<not> white1 a \<Longrightarrow> a \<notin> {0xC2, 0xE1, 0xE2, 0xE3} \<Longrightarrow> \<not> is_blank (a # bs)"
  by (cases bs rule: list.exhaust; cases "tl bs") (auto simp: white2_def white3_def)

lemma example_json_ok: "json_ok example_json"
  by (auto simp: json_ok_def example_json_def not_blank white1_def white2_def btree_wf_def)

lemma example_snapshot: "snapshot_of example_json (example_store n) = Inr [(''a'', [1])]"
  by (simp add: snapshot_of_def load_snapshot_def example_store_def example_files_def example_json_def not_blank white1_def white2_def)

lemma example_file_inv: "file_inv example_json (example_store n)"
  using example_snapshot [of n]
  by (simp add: file_inv_def is_ok_def example_json_ok) (simp add: example_store_def with_extension_def)



text \<open>
  Property C26: the step that is not protected. When the power fails after the journal has been created and
  before it has been written, the journal exists and is empty, and the store read after the restart is empty,
  although the main file still holds the old map untouched.
\<close>

theorem file_write_journal_gap:
  assumes "file_inv json b" "dir_exists (fb_fs b)" "power (fb_fs b) = Some 1"
    and "snapshot_of json b = Inr old" "to_string_pretty json (btree_insert key v old) = Some doc"
    and "file_write json b key v = (b', r)"
  shows "load_snapshot json (reboot (fb_fs b')) (fb_path b) (fb_journal_path b) = Inr []
     \<and> files (reboot (fb_fs b')) (fb_path b) = files (fb_fs b) (fb_path b)"
proof -
  let ?p = "fb_path b" and ?j = "fb_journal_path b"
  have inv: "snd ?p \<noteq> ''journal''" "snd ?p \<noteq> ''tmp''" "?j = with_extension ?p ''journal''"
    using assms(1) by (auto simp: file_inv_def)
  have ne: "?p \<noteq> ?j" using inv by (auto simp: with_extension_def prod_eq_iff)
  have "files (reboot (fb_fs b')) = (files (fb_fs b))(?j \<mapsto> [])"
    using file_write_flush [OF assms(4-6)] flush_files_stage [OF assms(3,2) inv, of doc]
    by (simp add: reboot_def flush_stage_def Let_def)
  with ne show ?thesis by (simp add: load_snapshot_def)
qed

theorem file_write_journal_gap_witness:
  "load_snapshot example_json (reboot (fb_fs (fst (file_write example_json (example_store (Some 1)) ''b'' [2]))))
       (fb_path (example_store (Some 1))) (fb_journal_path (example_store (Some 1))) = Inr []
   \<and> files (reboot (fb_fs (fst (file_write example_json (example_store (Some 1)) ''b'' [2])))) (fb_path (example_store (Some 1)))
       = files (fb_fs (example_store (Some 1))) (fb_path (example_store (Some 1)))"
  by (rule file_write_journal_gap [OF example_file_inv _ _ example_snapshot, where doc = "[0x7B, 0x32]" and key = "''b''"
        and v = "[2]" and r = "snd (file_write example_json (example_store (Some 1)) ''b'' [2])"])
    (simp_all add: example_store_def example_files_def example_json_def)

end
