(* ===== verification/Kv_Contract.thy ===== *)
theory Kv_Contract
  imports Effects File_Backend
begin

section \<open>The key-value store as the authenticator sees it\<close>

text \<open>
  The authenticator keeps its PIN state, counters and configuration flags in the key-value part of the storage
  engine. What it relies on is the locale \<open>kv_ops\<close>: a write that succeeds changes one key, a write that fails
  changes none, a removal affects its key only. It is interpreted on the engine over the flash backend, over
  the file backend and without a backend; \<open>reliable_kv\<close> adds that writes succeed, which holds for the engine
  without a backend (\<open>StorageEngine::new\<close>). The lemmas on decimal counters are proved in the locale.
\<close>

locale kv_ops =
  fixes put :: "'s \<Rightarrow> string \<Rightarrow> bytes \<Rightarrow> 's \<times> ('e, unit) result"
    and get :: "'s \<Rightarrow> string \<Rightarrow> ('e, bytes) result"
    and del :: "'s \<Rightarrow> string \<Rightarrow> 's \<times> ('e, unit) result"
    and good :: "'s \<Rightarrow> bool"
  assumes put_good: "good s \<Longrightarrow> good (fst (put s k v))"
    and put_get: "good s \<Longrightarrow> put s k v = (s', Inr u) \<Longrightarrow> ok (get s' k') = (if k' = k then Some v else ok (get s k'))"
    and put_fail: "good s \<Longrightarrow> put s k v = (s', Inl e) \<Longrightarrow> ok (get s' k') = ok (get s k')"
    and del_good: "good s \<Longrightarrow> good (fst (del s k))"
    and del_other: "good s \<Longrightarrow> k' \<noteq> k \<Longrightarrow> ok (get (fst (del s k)) k') = ok (get s k')"
begin

lemma put_other: "good s \<Longrightarrow> k' \<noteq> k \<Longrightarrow> ok (get (fst (put s k v)) k') = ok (get s k')"
proof (cases "put s k v")
  case (Pair s' r)
  assume "good s" "k' \<noteq> k"
  then show ?thesis
    using Pair put_get [of s k v s'] put_fail [of s k v s'] by (cases r) auto
qed

end

locale reliable_kv = kv_ops +
  assumes put_ok: "good s \<Longrightarrow> snd (put s k v) = Inr ()"
begin

lemma put_same: "good s \<Longrightarrow> ok (get (fst (put s k v)) k') = (if k' = k then Some v else ok (get s k'))"
  using put_get [of s k v "fst (put s k v)"] put_ok [of s k v] by (metis prod.collapse)

end

subsection \<open>The storage engine satisfies the contract\<close>

text \<open>The backend, if there is one, is in a good state.\<close>

definition engine_ok :: "('b \<Rightarrow> bool) \<Rightarrow> 'b StorageEngine \<Rightarrow> bool" where
  "engine_ok good se = (\<forall>b. backend se = Some b \<longrightarrow> good b)"

lemma backend_increment_wear [simp]: "backend (fst (increment_wear_counter se s)) = backend se"
    "kv_store (fst (increment_wear_counter se s)) = kv_store se"
  by (simp_all add: increment_wear_counter_def wear_increment_def Let_def)

lemma store_cases:
  "store env se k v =
     (case backend se of
        None \<Rightarrow> ((fst (increment_wear_counter se ''kv''))\<lparr>kv_store := btree_insert k v (kv_store se)\<rparr>, Inr ())
      | Some b \<Rightarrow>
          (case be_write (ops env) b k v of
             (b', Inl e) \<Rightarrow> ((fst (increment_wear_counter se ''kv''))\<lparr>backend := Some b'\<rparr>, Inl (E_Storage e))
           | (b', Inr _) \<Rightarrow>
               ((fst (increment_wear_counter se ''kv''))\<lparr>backend := Some b', kv_store := btree_insert k v (kv_store se)\<rparr>, Inr ())))"
  by (simp add: store_def increment_wear_counter_def wear_increment_def backend_write_def Let_def
      split: option.splits prod.splits sum.splits)

text \<open>What a read reports: the backend (seen as the map \<open>view b\<close>) first, then the cache.\<close>

definition kv_view :: "('b \<Rightarrow> string \<Rightarrow> bytes option) \<Rightarrow> 'b StorageEngine \<Rightarrow> string \<Rightarrow> bytes option" where
  "kv_view view se k =
     (case Option.bind (backend se) (\<lambda>b. view b k) of Some v \<Rightarrow> Some v | None \<Rightarrow> btree_get (kv_store se) k)"

context storage_backend
begin

lemma retrieve_view: "ops env = be \<Longrightarrow> engine_ok inv se \<Longrightarrow> ok (retrieve env se k) = kv_view abs se k"
  by (auto simp: engine_ok_def retrieve_def kv_view_def read_law split: option.splits)

lemma store_view:
  assumes "ops env = be" "engine_ok inv se" "store env se k v = (se', r)"
  shows "engine_ok inv se'" "kv_view abs se' k' = (case r of Inr _ \<Rightarrow> (if k' = k then Some v else kv_view abs se k') | Inl _ \<Rightarrow> kv_view abs se k')"
proof -
  have "engine_ok inv se' \<and>
      kv_view abs se' k' = (case r of Inr _ \<Rightarrow> (if k' = k then Some v else kv_view abs se k') | Inl _ \<Rightarrow> kv_view abs se k')"
  proof (cases "backend se")
    case None
    then show ?thesis using assms(3) by (auto simp: store_cases engine_ok_def kv_view_def)
  next
    case (Some b)
    obtain b' q where w: "be_write be b k v = (b', q)" by fastforce
    have "inv b" using Some assms(2) by (simp add: engine_ok_def)
    note law = write_law [OF this w]
    show ?thesis
      using assms Some w law by (cases q) (auto simp: store_cases engine_ok_def kv_view_def split: option.split)
  qed
  then show "engine_ok inv se'" "kv_view abs se' k' = (case r of Inr _ \<Rightarrow> (if k' = k then Some v else kv_view abs se k') | Inl _ \<Rightarrow> kv_view abs se k')"
    by simp_all
qed

lemma kv_delete_view:
  assumes "ops env = be" "engine_ok inv se"
  shows "engine_ok inv (fst (kv_delete env se k)) \<and> (k' \<noteq> k \<longrightarrow> kv_view abs (fst (kv_delete env se k)) k' = kv_view abs se k')"
proof (cases "backend se")
  case None
  then show ?thesis by (auto simp: kv_delete_def backend_delete_def engine_ok_def kv_view_def)
next
  case (Some b)
  obtain b' q where w: "be_delete be b k = (b', q)" by fastforce
  have "inv b" using Some assms(2) by (simp add: engine_ok_def)
  note law = delete_law [OF this w]
  show ?thesis
    using assms Some w law by (cases q) (auto simp: kv_delete_def backend_delete_def engine_ok_def kv_view_def split: option.split)
qed

lemma engine_kv_store:
  assumes "ops env = be"
  shows "kv_ops (store env) (retrieve env) (kv_delete env) (engine_ok inv)"
proof
  fix se :: "'b StorageEngine" and k v
  assume good: "engine_ok inv se"
  show "engine_ok inv (fst (store env se k v))"
    using store_view(1) [OF assms good] by (metis prod.collapse)
  show "engine_ok inv (fst (kv_delete env se k))"
    using kv_delete_view [OF assms good] by blast
next
  fix se se' :: "'b StorageEngine" and k v u k'
  assume "engine_ok inv se" "store env se k v = (se', Inr u)"
  then show "ok (retrieve env se' k') = (if k' = k then Some v else ok (retrieve env se k'))"
    using store_view [OF assms] by (simp add: retrieve_view assms)
next
  fix se se' :: "'b StorageEngine" and k v e k'
  assume "engine_ok inv se" "store env se k v = (se', Inl e)"
  then show "ok (retrieve env se' k') = ok (retrieve env se k')"
    using store_view [OF assms] by (simp add: retrieve_view assms)
next
  fix se :: "'b StorageEngine" and k k' :: string
  assume "engine_ok inv se" "k' \<noteq> k"
  then show "ok (retrieve env (fst (kv_delete env se k)) k') = ok (retrieve env se k')"
    using kv_delete_view [OF assms] by (simp add: retrieve_view assms)
qed

end

text \<open>The engine over flash, over files, and without a backend.\<close>

interpretation flash_kv: kv_ops
    "store \<lparr>ops = flash_backend dev codec, cred_codec = cc, hex_encode = hx, ring = r\<rparr>"
    "retrieve \<lparr>ops = flash_backend dev codec, cred_codec = cc, hex_encode = hx, ring = r\<rparr>"
    "kv_delete \<lparr>ops = flash_backend dev codec, cred_codec = cc, hex_encode = hx, ring = r\<rparr>"
    "engine_ok (\<lambda>b. btree_wf (fs_cache b))"
  for dev codec cc hx r
  by (rule flash_be.engine_kv_store) simp

interpretation file_kv: kv_ops
    "store \<lparr>ops = file_backend json, cred_codec = cc, hex_encode = hx, ring = r\<rparr>"
    "retrieve \<lparr>ops = file_backend json, cred_codec = cc, hex_encode = hx, ring = r\<rparr>"
    "kv_delete \<lparr>ops = file_backend json, cred_codec = cc, hex_encode = hx, ring = r\<rparr>"
    "engine_ok (file_ready json)"
  for json cc hx r
  by (rule file_be.engine_kv_store) simp

lemma memory_kv_ops: "reliable_kv (store env) (retrieve env) (kv_delete env) (\<lambda>se. backend se = None)"
  by unfold_locales
     (auto simp: store_cases retrieve_def kv_delete_def backend_delete_def Let_def split: option.splits if_splits)

interpretation memory_kv: reliable_kv "store env" "retrieve env" "kv_delete env" "\<lambda>se. backend se = None" for env
  by (rule memory_kv_ops)

end
