(* ===== verification/Pin_Protocol.thy ===== *)
theory Pin_Protocol
  imports Crypto
begin

section \<open>PIN/UV auth protocols\<close>

text \<open>
  Models \<open>openkey-crypto/src/pin_protocol.rs\<close>: the key agreement wrapper, the two PIN/UV auth protocols (key
  derivation, encryption, decryption, authentication, verification), the CBC mode written out over the block
  cipher, and the padding of PINs. The block cipher, hashes, HKDF and ECDH are the parameter \<open>RingPrims\<close>. An
  ephemeral agreement key is known by the draw that made it.
\<close>

unbundle bit_operations_syntax

definition ECDH_SHARED_SECRET_LEN :: usize where "ECDH_SHARED_SECRET_LEN = 32"
definition AES_BLOCK_LEN :: usize where "AES_BLOCK_LEN = 16"
definition PIN_PAD_LEN :: usize where "PIN_PAD_LEN = 64"
definition PIN_HASH_LEN :: usize where "PIN_HASH_LEN = 16"

record PinAgreementKey =
  agreement_draw :: nat

definition agreement_generate :: "RingPrims \<Rightarrow> nat \<Rightarrow> (message, PinAgreementKey) result" where
  "agreement_generate ring draw =
     (case ring_agree_public ring draw of
        None \<Rightarrow> Inl ''Failed to generate P-256 agreement key'' | Some _ \<Rightarrow> Inr \<lparr>agreement_draw = draw\<rparr>)"

definition public_key_bytes :: "RingPrims \<Rightarrow> PinAgreementKey \<Rightarrow> (message, bytes) result" where
  "public_key_bytes ring k =
     (case ring_agree_public ring (agreement_draw k) of
        None \<Rightarrow> Inl ''Failed to compute P-256 public key'' | Some p \<Rightarrow> Inr p)"

definition agree :: "RingPrims \<Rightarrow> PinAgreementKey \<Rightarrow> bytes \<Rightarrow> (message, bytes) result" where
  "agree ring k peer_public_key =
     (if length peer_public_key \<noteq> 65 then Inl ''P-256 public key must be 65 bytes (uncompressed)''
      else case ring_agree ring (agreement_draw k) peer_public_key of
             None \<Rightarrow> Inl ''ECDH agreement failed'' | Some z \<Rightarrow> Inr z)"

record PinUvProtocol =
  proto_version :: u8

definition proto_new :: "u8 \<Rightarrow> (message, PinUvProtocol) result" where
  "proto_new v = (if v = 1 \<or> v = 2 then Inr \<lparr>proto_version = v\<rparr> else Inl ''Unsupported pinUvAuthProtocol'')"

definition ascii :: "string \<Rightarrow> bytes" where
  "ascii s = map (\<lambda>c. of_nat (of_char c)) s"

definition hkdf_sha256 :: "RingPrims \<Rightarrow> bytes \<Rightarrow> bytes \<Rightarrow> bytes \<Rightarrow> usize \<Rightarrow> (message, bytes) result" where
  "hkdf_sha256 ring ikm salt info len =
     (case ring_hkdf ring ikm salt info len of None \<Rightarrow> Inl ''HKDF expand failed'' | Some okm \<Rightarrow> Inr okm)"

definition kdf :: "RingPrims \<Rightarrow> PinUvProtocol \<Rightarrow> bytes \<Rightarrow> (message, bytes) result" where
  "kdf ring p z =
     (if proto_version p = 1 then Inr (ring_sha256 ring z)
      else case hkdf_sha256 ring z (replicate 32 0) (ascii ''CTAP2 HMAC key'') 32 of
             Inl e \<Rightarrow> Inl e
           | Inr hmac_key \<Rightarrow>
               (case hkdf_sha256 ring z (replicate 32 0) (ascii ''CTAP2 AES key'') 32 of
                  Inl e \<Rightarrow> Inl e | Inr aes_key \<Rightarrow> Inr (hmac_key @ aes_key)))"

text \<open>The loops over \<open>data.chunks(AES_BLOCK_LEN)\<close> of the two CBC functions.\<close>

function cbc_encrypt_loop :: "(bytes \<Rightarrow> bytes) \<Rightarrow> bytes \<Rightarrow> bytes \<Rightarrow> bytes" where
  "cbc_encrypt_loop enc prev data =
     (if data = [] then []
      else (let block = map2 (XOR) (take AES_BLOCK_LEN data) prev;
                block = enc block
            in block @ cbc_encrypt_loop enc block (drop AES_BLOCK_LEN data)))"
  by auto
termination
  by (relation "measure (\<lambda>(enc, prev, data). length data)") (auto simp: AES_BLOCK_LEN_def)

function cbc_decrypt_loop :: "(bytes \<Rightarrow> bytes) \<Rightarrow> bytes \<Rightarrow> bytes \<Rightarrow> bytes" where
  "cbc_decrypt_loop dec prev data =
     (if data = [] then []
      else (let block = take AES_BLOCK_LEN data;
                plain = map2 (XOR) (dec block) prev
            in plain @ cbc_decrypt_loop dec block (drop AES_BLOCK_LEN data)))"
  by auto
termination
  by (relation "measure (\<lambda>(dec, prev, data). length data)") (auto simp: AES_BLOCK_LEN_def)

declare cbc_encrypt_loop.simps [simp del] cbc_decrypt_loop.simps [simp del]

definition aes256_cbc_encrypt :: "RingPrims \<Rightarrow> bytes \<Rightarrow> bytes \<Rightarrow> bytes \<Rightarrow> (message, bytes) result" where
  "aes256_cbc_encrypt ring key iv data =
     (if length key \<noteq> 32 then Inl ''AES-256 key must be 32 bytes''
      else if length iv \<noteq> AES_BLOCK_LEN then Inl ''AES IV must be 16 bytes''
      else if length data mod AES_BLOCK_LEN \<noteq> 0 then Inl ''AES-CBC input must be a multiple of 16 bytes''
      else Inr (cbc_encrypt_loop (aes256_encrypt_block ring key) iv data))"

definition aes256_cbc_decrypt :: "RingPrims \<Rightarrow> bytes \<Rightarrow> bytes \<Rightarrow> bytes \<Rightarrow> (message, bytes) result" where
  "aes256_cbc_decrypt ring key iv data =
     (if length key \<noteq> 32 then Inl ''AES-256 key must be 32 bytes''
      else if length iv \<noteq> AES_BLOCK_LEN then Inl ''AES IV must be 16 bytes''
      else if length data mod AES_BLOCK_LEN \<noteq> 0 then Inl ''AES-CBC input must be a multiple of 16 bytes''
      else Inr (cbc_decrypt_loop (aes256_decrypt_block ring key) iv data))"

definition proto_encrypt :: "RingPrims \<Rightarrow> PinUvProtocol \<Rightarrow> nat \<Rightarrow> bytes \<Rightarrow> bytes \<Rightarrow> (message, bytes) result" where
  "proto_encrypt ring p draw shared_secret plaintext =
     (if length plaintext mod AES_BLOCK_LEN \<noteq> 0 then Inl ''Plaintext must be a multiple of 16 bytes''
      else if proto_version p = 1
      then (if length shared_secret \<noteq> 32 then Inl ''Protocol 1 shared secret must be 32 bytes''
            else aes256_cbc_encrypt ring shared_secret (replicate AES_BLOCK_LEN 0) plaintext)
      else (if length shared_secret \<noteq> 64 then Inl ''Protocol 2 shared secret must be 64 bytes''
            else case ring_fill ring draw AES_BLOCK_LEN of
                   None \<Rightarrow> Inl ''Failed to generate IV''
                 | Some iv \<Rightarrow>
                     (case aes256_cbc_encrypt ring (drop 32 shared_secret) iv plaintext of
                        Inl e \<Rightarrow> Inl e | Inr ct \<Rightarrow> Inr (iv @ ct))))"

definition proto_decrypt :: "RingPrims \<Rightarrow> PinUvProtocol \<Rightarrow> bytes \<Rightarrow> bytes \<Rightarrow> (message, bytes) result" where
  "proto_decrypt ring p shared_secret ciphertext =
     (if proto_version p = 1
      then (if length shared_secret \<noteq> 32 then Inl ''Protocol 1 shared secret must be 32 bytes''
            else aes256_cbc_decrypt ring shared_secret (replicate AES_BLOCK_LEN 0) ciphertext)
      else (if length shared_secret \<noteq> 64 then Inl ''Protocol 2 shared secret must be 64 bytes''
            else if length ciphertext < AES_BLOCK_LEN
            then Inl ''Protocol 2 ciphertext too short to contain an IV''
            else aes256_cbc_decrypt ring (drop 32 shared_secret) (take AES_BLOCK_LEN ciphertext)
                   (drop AES_BLOCK_LEN ciphertext)))"

definition decrypt_exact ::
  "RingPrims \<Rightarrow> PinUvProtocol \<Rightarrow> bytes \<Rightarrow> bytes \<Rightarrow> usize \<Rightarrow> (message, bytes) result" where
  "decrypt_exact ring p shared_secret ciphertext expected =
     (case proto_decrypt ring p shared_secret ciphertext of
        Inl e \<Rightarrow> Inl e
      | Inr plaintext \<Rightarrow>
          if length plaintext < expected then Inl ''Plaintext must have at least the expected bytes''
          else Inr (take expected plaintext))"

definition authenticate :: "RingPrims \<Rightarrow> PinUvProtocol \<Rightarrow> bytes \<Rightarrow> bytes \<Rightarrow> (message, bytes) result" where
  "authenticate ring p key msg =
     (if proto_version p = 1
      then (if length key \<noteq> 32 then Inl ''Protocol 1 authentication key must be 32 bytes''
            else Inr (take 16 (ring_hmac ring Hmac_Sha256 key msg)))
      else (if length key < 32 then Inl ''Protocol 2 authentication key too short''
            else Inr (ring_hmac ring Hmac_Sha256 (take 32 key) msg)))"

definition proto_verify ::
  "RingPrims \<Rightarrow> PinUvProtocol \<Rightarrow> bytes \<Rightarrow> bytes \<Rightarrow> bytes \<Rightarrow> (message, bool) result" where
  "proto_verify ring p key msg signature =
     (case authenticate ring p key msg of
        Inl e \<Rightarrow> Inl e | Inr expected \<Rightarrow> Inr (constant_time_eq expected signature))"

definition zero_pad_to_64 :: "bytes \<Rightarrow> (message, bytes) result" where
  "zero_pad_to_64 data =
     (if length data > PIN_PAD_LEN then Inl ''PIN exceeding the 63-byte limit''
      else Inr (copy_into (replicate PIN_PAD_LEN 0) 0 data))"

text \<open>\<open>rposition\<close> of the last non-zero byte, and the prefix that ends there.\<close>

fun rposition_nonzero :: "bytes \<Rightarrow> nat option" where
  "rposition_nonzero [] = None"
| "rposition_nonzero (b # bs) =
     (case rposition_nonzero bs of Some i \<Rightarrow> Some (i + 1) | None \<Rightarrow> if b \<noteq> 0 then Some 0 else None)"

definition strip_zero_padding :: "bytes \<Rightarrow> (message, bytes) result" where
  "strip_zero_padding data =
     (case map_option (\<lambda>i. i + 1) (rposition_nonzero data) of
        None \<Rightarrow> Inl ''Plaintext is entirely zero padding'' | Some stop \<Rightarrow> Inr (take stop data))"

subsection \<open>Lemmas on CBC\<close>

lemma cbc_loop_Nil [simp]: "cbc_encrypt_loop enc prev [] = []" "cbc_decrypt_loop dec prev [] = []"
  by (simp_all add: cbc_encrypt_loop.simps cbc_decrypt_loop.simps)

lemma map2_xor_cancel:
  "length xs = length ps \<Longrightarrow> map2 (XOR) (map2 (XOR) xs ps) ps = (xs :: bytes)"
  by (induction xs ps rule: list_induct2) (simp_all add: xor.assoc)

lemma cbc_roundtrip:
  assumes "\<And>b. length b = 16 \<Longrightarrow> length (enc b) = 16 \<and> dec (enc b) = b"
    and "length prev = 16" "length data mod 16 = 0"
  shows "cbc_decrypt_loop dec prev (cbc_encrypt_loop enc prev data) = data
     \<and> length (cbc_encrypt_loop enc prev data) = length data"
  using assms(2,3)
proof (induction "length data" arbitrary: prev data rule: less_induct)
  case less
  show ?case
  proof (cases "data = []")
    case False
    then have len: "16 \<le> length data" using less.prems(2) by (metis dvd_imp_le length_greater_0_conv mod_0_imp_dvd)
    define x where "x = map2 (XOR) (take 16 data) prev"
    define c where "c = enc x"
    have x: "length x = 16" using len less.prems by (simp add: x_def)
    then have c: "length c = 16" "dec c = x" using assms(1) by (auto simp: c_def)
    have "map2 (XOR) x prev = take 16 data" unfolding x_def using len less.prems by (intro map2_xor_cancel) simp
    moreover have "length (drop 16 data) mod 16 = 0" using len less.prems(2) by (simp add: le_mod_geq)
    moreover have "length (drop 16 data) < length data" using len by simp
    ultimately have ih: "cbc_decrypt_loop dec c (cbc_encrypt_loop enc c (drop 16 data)) = drop 16 data"
      "length (cbc_encrypt_loop enc c (drop 16 data)) = length (drop 16 data)" and "map2 (XOR) x prev = take 16 data"
      using less.hyps [of "drop 16 data" c] c by auto
    moreover have "cbc_encrypt_loop enc prev data = c @ cbc_encrypt_loop enc c (drop 16 data)"
      using False by (subst cbc_encrypt_loop.simps) (simp add: AES_BLOCK_LEN_def x_def c_def Let_def)
    moreover have "c \<noteq> []" using c(1) by auto
    ultimately show ?thesis
      using len c by (subst cbc_decrypt_loop.simps) (simp add: AES_BLOCK_LEN_def Let_def)
  qed simp
qed

lemma proto_decrypt_encrypt:
  assumes "aes_correct ring" "rng_correct ring" "proto_encrypt ring p draw secret plain = Inr ct"
  shows "proto_decrypt ring p secret ct = Inr plain"
proof -
  have cbc: "cbc_decrypt_loop (aes256_decrypt_block ring k) iv (cbc_encrypt_loop (aes256_encrypt_block ring k) iv data) = data
      \<and> length (cbc_encrypt_loop (aes256_encrypt_block ring k) iv data) = length data"
    if "length iv = 16" "length data mod 16 = 0" for k iv data
    using assms(1) that by (intro cbc_roundtrip) (simp_all add: aes_correct_def)
  obtain iv where iv: "ring_fill ring draw 16 = Some iv" "length iv = 16"
    using assms(2) by (auto simp: rng_correct_def)
  show ?thesis
    using assms(3) iv cbc [of "replicate 16 0" plain secret] cbc [of iv plain "drop 32 secret"]
    by (auto simp: proto_encrypt_def proto_decrypt_def aes256_cbc_encrypt_def aes256_cbc_decrypt_def
        AES_BLOCK_LEN_def split: if_splits)
qed

lemma proto_encrypt_ok:
  assumes "rng_correct ring" "length plain mod 16 = 0"
    and "length secret = (if proto_version p = 1 then 32 else 64)"
  shows "\<exists>ct. proto_encrypt ring p draw secret plain = Inr ct"
proof -
  obtain iv where "ring_fill ring draw 16 = Some iv" "length iv = 16"
    using assms(1) by (auto simp: rng_correct_def)
  then show ?thesis
    using assms(2,3) by (simp add: proto_encrypt_def aes256_cbc_encrypt_def AES_BLOCK_LEN_def)
qed

subsection \<open>Lemmas on padding\<close>

lemma rposition_zeros [simp]: "rposition_nonzero (replicate n 0) = None"
  by (induction n) auto

lemma rposition_append_zeros: "rposition_nonzero (xs @ replicate n 0) = rposition_nonzero xs"
  by (induction xs) auto

lemma rposition_snoc: "b \<noteq> 0 \<Longrightarrow> rposition_nonzero (xs @ [b]) = Some (length xs)"
  by (induction xs) auto

lemma rposition_Some: "rposition_nonzero bs = Some i \<Longrightarrow> i < length bs"
  by (induction bs arbitrary: i) (auto split: option.splits if_splits)

subsection \<open>Properties\<close>



text \<open>
  Padding a PIN to 64 bytes and stripping the zeros gives the PIN back whenever it is not empty,
  does not end in a zero byte and has at most 64 bytes; longer PINs are refused.
\<close>

lemma pin_padding_roundtrip:
  assumes "pin \<noteq> []" "last pin \<noteq> 0"
  shows "(case zero_pad_to_64 pin of
            Inl _ \<Rightarrow> length pin > PIN_PAD_LEN
          | Inr padded \<Rightarrow> length pin \<le> PIN_PAD_LEN \<and> length padded = PIN_PAD_LEN \<and> strip_zero_padding padded = Inr pin)"
proof -
  obtain xs b where pin: "pin = xs @ [b]" "b \<noteq> 0" using assms by (metis append_butlast_last_id)
  then have "rposition_nonzero (pin @ replicate n 0) = Some (length xs)" for n
    using rposition_append_zeros [of pin n] by (simp add: rposition_snoc)
  then show ?thesis
    using pin by (auto simp: zero_pad_to_64_def strip_zero_padding_def PIN_PAD_LEN_def copy_into_def)
qed

end
