(* ===== verification/Authenticator.thy ===== *)
theory Authenticator
  imports Cbor Kv_Contract Pin_Protocol
begin

section \<open>The state of the authenticator\<close>

text \<open>
  Models \<open>Ctap2Authenticator\<close> of \<open>openkey-core/src/ctap2/ctap2.rs\<close>: its fields, its construction, the persistent
  counters (PIN retries, UV retries, signature counter), the volatile PIN lockout, the \<open>pinUvAuthToken\<close> and its
  verification, and the clock. Three fields of the record are not fields of the struct but the global state
  its operations touch: the number of draws from the random number generator so far, the static \<open>LAST_TS\<close> of
  \<open>current_timestamp\<close>, and the number of readings of the system clock.

  What the crate is linked with is the record \<open>Ctap2Env\<close>: storage environment, CBOR library, the derived serde
  codecs, the board's user-presence and user-verification objects, the clock, and the build features.
\<close>

subsection \<open>Data\<close>

datatype AttestationFormat = Fmt_None | Fmt_Packed | Fmt_Self | Fmt_U2F | Fmt_AndroidKey | Fmt_Apple

record AttestationCertificate =
  ac_cert :: bytes
  ac_private_key :: bytes

record PinUvAuthTokenState =
  tok_token :: bytes
  tok_permissions :: u8
  tok_permissions_rp_id :: "string option"
  tok_protocol :: u8

record HmacSecretSession =
  hss_shared_secret :: bytes
  hss_pin_protocol :: u8
  hss_salts :: bytes

record EnumerateRPsState =
  eps_rps :: "(string \<times> bytes) list"
  eps_total :: usize
  eps_current_index :: usize

record EnumerateRpsCredMgmtState =
  ecm_rps :: "(string \<times> bytes) list"
  ecm_total :: usize
  ecm_current_index :: usize

record EnumerateCredentialsState =
  ecs_creds :: "Credential list"
  ecs_total :: usize
  ecs_current_index :: usize

record GetNextAssertionState =
  gns_rp_id :: string
  gns_client_data_hash :: bytes
  gns_allow_list :: "CredentialDescriptor list"
  gns_flags :: u8
  gns_extensions :: "Extensions option"
  gns_options :: GetAssertionOptions
  gns_pin_protocol :: "u8 option"
  gns_uv_satisfied :: bool
  gns_current_index :: usize

record ('b, 'p, 'v) Ctap2Authenticator =
  au_crypto :: CryptoEngine
  au_storage :: "'b StorageEngine"
  au_capabilities :: Ctap2Capabilities
  au_attestation_format :: AttestationFormat
  au_attestation_cert :: "AttestationCertificate option"
  au_enterprise_rp_list :: "string list"
  au_enumerate_rps_state :: "EnumerateRPsState option"
  au_cred_mgmt_rps_state :: "EnumerateRpsCredMgmtState option"
  au_cred_mgmt_creds_state :: "EnumerateCredentialsState option"
  au_get_next_assertion_state :: "GetNextAssertionState option"
  au_user_presence :: "'p option"
  au_user_verification :: "'v option"
  au_pin_uv_auth_token :: "PinUvAuthTokenState option"
  au_pin_agreement_key :: "PinAgreementKey option"
  au_pin_shared_secret :: "(bytes \<times> u8) option"
  au_hmac_secret_session :: "HmacSecretSession option"
  au_pin_failures_since_reset :: u8
  au_draws :: nat
  au_last_ts :: u64
  au_clock_reads :: nat

record ('b, 'p, 'v) Ctap2Env =
  senv :: "'b StorageEnv"
  cbor :: CborLib
  is_present :: "'p \<Rightarrow> 'p \<times> bool"
  uv_verify :: "'v \<Rightarrow> 'v \<times> (Ctap2Error, unit) result"
  clock_millis :: "nat \<Rightarrow> u64"
  feature_std :: bool
  feature_rs256 :: bool
  mc_request :: "MakeCredentialRequest SerdeCodec"
  mc_response :: "MakeCredentialResponse SerdeCodec"
  ga_request :: "GetAssertionRequest SerdeCodec"
  ga_response :: "GetAssertionResponse SerdeCodec"
  info_response :: "GetInfoResponse SerdeCodec"
  version_response :: "GetVersionResponse SerdeCodec"
  bio_request :: "BioEnrollRequest SerdeCodec"
  bio_response :: "BioEnrollResponse SerdeCodec"
  rps_response :: "EnumerateRPsResponse SerdeCodec"
  lb_request :: "LargeBlobsRequest SerdeCodec"
  lb_response :: "LargeBlobsResponse SerdeCodec"
  cm_request :: "CredentialManagementRequest SerdeCodec"
  cm_metadata_response :: "CredsMetadataResponse SerdeCodec"
  cm_rps_response :: "EnumerateRpsEntryResponse SerdeCodec"
  cm_creds_response :: "EnumerateCredentialsEntryResponse SerdeCodec"
  cose_map :: "(int, Value) btree SerdeCodec"
  rp_ids :: "string list SerdeCodec"

type_synonym ('b, 'p, 'v) auth = "('b, 'p, 'v) Ctap2Authenticator"
type_synonym ('b, 'p, 'v) cenv = "('b, 'p, 'v) Ctap2Env"

text \<open>\<open>Ctap2Authenticator::new\<close>; the generator and clock positions are those of the device at that time.\<close>

definition authenticator_new ::
  "bytes \<Rightarrow> CryptoEngine \<Rightarrow> 'b StorageEngine \<Rightarrow> nat \<Rightarrow> u64 \<Rightarrow> nat \<Rightarrow> ('b, 'p, 'v) auth" where
  "authenticator_new aaguid crypto storage draws last_ts reads =
     \<lparr>au_crypto = crypto, au_storage = storage, au_capabilities = capabilities_default\<lparr>cap_aaguid := aaguid\<rparr>,
      au_attestation_format = Fmt_None, au_attestation_cert = None, au_enterprise_rp_list = [],
      au_enumerate_rps_state = None, au_cred_mgmt_rps_state = None, au_cred_mgmt_creds_state = None,
      au_get_next_assertion_state = None, au_user_presence = None, au_user_verification = None,
      au_pin_uv_auth_token = None, au_pin_agreement_key = None, au_pin_shared_secret = None,
      au_hmac_secret_session = None, au_pin_failures_since_reset = 0,
      au_draws = draws, au_last_ts = last_ts, au_clock_reads = reads\<rparr>"

definition set_capabilities :: "('b, 'p, 'v) auth \<Rightarrow> Ctap2Capabilities \<Rightarrow> ('b, 'p, 'v) auth" where
  "set_capabilities a c = a\<lparr>au_capabilities := c\<rparr>"

definition set_attestation_format :: "('b, 'p, 'v) auth \<Rightarrow> AttestationFormat \<Rightarrow> ('b, 'p, 'v) auth" where
  "set_attestation_format a f = a\<lparr>au_attestation_format := f\<rparr>"

definition set_attestation_certificate :: "('b, 'p, 'v) auth \<Rightarrow> AttestationCertificate \<Rightarrow> ('b, 'p, 'v) auth" where
  "set_attestation_certificate a c = a\<lparr>au_attestation_cert := Some c\<rparr>"

definition set_user_presence :: "('b, 'p, 'v) auth \<Rightarrow> 'p option \<Rightarrow> ('b, 'p, 'v) auth" where
  "set_user_presence a p = a\<lparr>au_user_presence := p\<rparr>"

definition set_user_verification :: "('b, 'p, 'v) auth \<Rightarrow> 'v option \<Rightarrow> ('b, 'p, 'v) auth" where
  "set_user_verification a v = a\<lparr>au_user_verification := v\<rparr>"

definition set_enterprise_rp_list :: "('b, 'p, 'v) auth \<Rightarrow> string list \<Rightarrow> ('b, 'p, 'v) auth" where
  "set_enterprise_rp_list a rps = a\<lparr>au_enterprise_rp_list := rps\<rparr>"

subsection \<open>Library state\<close>

text \<open>The next \<open>n\<close> random bytes; \<open>draw\<close> is the position of the generator.\<close>

definition next_draw :: "('b, 'p, 'v) auth \<Rightarrow> ('b, 'p, 'v) auth" where
  "next_draw a = a\<lparr>au_draws := au_draws a + 1\<rparr>"

definition auth_random :: "('b, 'p, 'v) cenv \<Rightarrow> ('b, 'p, 'v) auth \<Rightarrow> usize \<Rightarrow> ('b, 'p, 'v) auth \<times> bytes" where
  "auth_random env a n = (next_draw a, random_bytes (ring (senv env)) (au_draws a) n)"

text \<open>
  \<open>current_timestamp\<close>: one call with nobody else updating \<open>LAST_TS\<close>, so that the first compare-and-swap
  succeeds. Without \<open>std\<close> the time is 0.
\<close>

definition timestamp_candidate :: "u64 \<Rightarrow> u64 \<Rightarrow> u64" where
  "timestamp_candidate millis prev = (if millis > prev then millis else prev + 1)"

definition current_timestamp :: "('b, 'p, 'v) cenv \<Rightarrow> ('b, 'p, 'v) auth \<Rightarrow> ('b, 'p, 'v) auth \<times> u64" where
  "current_timestamp env a =
     (if feature_std env
      then (let candidate = timestamp_candidate (clock_millis env (au_clock_reads a)) (au_last_ts a)
            in (a\<lparr>au_last_ts := candidate, au_clock_reads := au_clock_reads a + 1\<rparr>, candidate))
      else (a, 0))"

text \<open>Access to the key-value store of the authenticator's storage engine.\<close>

definition auth_retrieve :: "('b, 'p, 'v) cenv \<Rightarrow> ('b, 'p, 'v) auth \<Rightarrow> string \<Rightarrow> (EngineError, bytes) result" where
  "auth_retrieve env a key = retrieve (senv env) (au_storage a) key"

definition auth_store ::
  "('b, 'p, 'v) cenv \<Rightarrow> ('b, 'p, 'v) auth \<Rightarrow> string \<Rightarrow> bytes \<Rightarrow> (('b, 'p, 'v) auth, EngineError, unit) outcome" where
  "auth_store env a key v = (let (se, r) = store (senv env) (au_storage a) key v in (a\<lparr>au_storage := se\<rparr>, r))"

definition auth_delete ::
  "('b, 'p, 'v) cenv \<Rightarrow> ('b, 'p, 'v) auth \<Rightarrow> string \<Rightarrow> (('b, 'p, 'v) auth, EngineError, unit) outcome" where
  "auth_delete env a key = (let (se, r) = kv_delete (senv env) (au_storage a) key in (a\<lparr>au_storage := se\<rparr>, r))"

definition map_outcome_err :: "('e \<Rightarrow> 'f) \<Rightarrow> ('s, 'e, 'a) outcome \<Rightarrow> ('s, 'f, 'a) outcome" where
  "map_outcome_err f r = (fst r, map_err f (snd r))"

subsection \<open>PIN state\<close>

definition PIN_MIN_LENGTH :: usize where "PIN_MIN_LENGTH = 4"
definition PIN_MAX_LENGTH :: usize where "PIN_MAX_LENGTH = 63"
definition PIN_MAX_RETRIES :: u8 where "PIN_MAX_RETRIES = 8"
definition PIN_BLOCK_THRESHOLD :: u8 where "PIN_BLOCK_THRESHOLD = 3"
definition PIN_STORAGE_KEY :: string where "PIN_STORAGE_KEY = ''client_pin_hash''"
definition PIN_RETRIES_KEY :: string where "PIN_RETRIES_KEY = ''client_pin_retries''"
definition UV_RETRIES_KEY :: string where "UV_RETRIES_KEY = ''sys:uv_retries''"
definition UV_MAX_RETRIES :: u8 where "UV_MAX_RETRIES = 8"
definition SIGN_COUNTER_STORAGE_KEY :: string where "SIGN_COUNTER_STORAGE_KEY = ''global_sign_count''"

definition PERMISSION_MC :: u8 where "PERMISSION_MC = 0x01"
definition PERMISSION_GA :: u8 where "PERMISSION_GA = 0x02"
definition PERMISSION_CM :: u8 where "PERMISSION_CM = 0x04"
definition PERMISSION_BE :: u8 where "PERMISSION_BE = 0x08"
definition PERMISSION_LBW :: u8 where "PERMISSION_LBW = 0x10"
definition PERMISSION_ACFG :: u8 where "PERMISSION_ACFG = 0x20"
definition PERMISSION_MC_GA :: u8 where "PERMISSION_MC_GA = PERMISSION_MC OR PERMISSION_GA"

text \<open>A persistent counter: its decimal text, or the default when it is missing or not a number.\<close>

definition read_counter :: "(EngineError, bytes) result \<Rightarrow> 'a::len word \<Rightarrow> 'a word" where
  "read_counter r d = (case Option.bind (ok r) parse_word of Some n \<Rightarrow> n | None \<Rightarrow> d)"

definition get_pin_retries :: "('b, 'p, 'v) cenv \<Rightarrow> ('b, 'p, 'v) auth \<Rightarrow> u8" where
  "get_pin_retries env a = read_counter (auth_retrieve env a PIN_RETRIES_KEY) PIN_MAX_RETRIES"

definition get_uv_retries :: "('b, 'p, 'v) cenv \<Rightarrow> ('b, 'p, 'v) auth \<Rightarrow> u8" where
  "get_uv_retries env a = read_counter (auth_retrieve env a UV_RETRIES_KEY) UV_MAX_RETRIES"

definition is_pin_set :: "('b, 'p, 'v) cenv \<Rightarrow> ('b, 'p, 'v) auth \<Rightarrow> bool" where
  "is_pin_set env a = is_ok (auth_retrieve env a PIN_STORAGE_KEY)"

definition reset_pin_retries :: "('b, 'p, 'v) cenv \<Rightarrow> ('b, 'p, 'v) auth \<Rightarrow> ('b, 'p, 'v) auth" where
  "reset_pin_retries env a =
     fst (auth_store env (a\<lparr>au_pin_failures_since_reset := 0\<rparr>) PIN_RETRIES_KEY (print_word PIN_MAX_RETRIES))"

definition decrement_pin_retries :: "('b, 'p, 'v) cenv \<Rightarrow> ('b, 'p, 'v) auth \<Rightarrow> ('b, 'p, 'v) auth" where
  "decrement_pin_retries env a =
     fst (auth_store env a PIN_RETRIES_KEY (print_word (saturating_sub_word (get_pin_retries env a) 1)))"

definition reset_uv_retries :: "('b, 'p, 'v) cenv \<Rightarrow> ('b, 'p, 'v) auth \<Rightarrow> ('b, 'p, 'v) auth" where
  "reset_uv_retries env a = fst (auth_store env a UV_RETRIES_KEY (print_word UV_MAX_RETRIES))"

definition decrement_uv_retries :: "('b, 'p, 'v) cenv \<Rightarrow> ('b, 'p, 'v) auth \<Rightarrow> ('b, 'p, 'v) auth" where
  "decrement_uv_retries env a =
     fst (auth_store env a UV_RETRIES_KEY (print_word (saturating_sub_word (get_uv_retries env a) 1)))"

definition is_pin_auth_blocked :: "('b, 'p, 'v) auth \<Rightarrow> bool" where
  "is_pin_auth_blocked a = (au_pin_failures_since_reset a \<ge> PIN_BLOCK_THRESHOLD)"

definition register_pin_failure :: "('b, 'p, 'v) cenv \<Rightarrow> ('b, 'p, 'v) auth \<Rightarrow> ('b, 'p, 'v) auth \<times> Ctap2Error" where
  "register_pin_failure env a =
     (let a = a\<lparr>au_pin_failures_since_reset := saturating_add_word (au_pin_failures_since_reset a) 1\<rparr>
      in (a, if get_pin_retries env a = 0 then Err_PinBlocked
             else if is_pin_auth_blocked a then Err_PinAuthBlocked else Err_PinInvalid))"

definition has_option :: "('b, 'p, 'v) auth \<Rightarrow> string \<Rightarrow> bool" where
  "has_option a opt = (opt \<in> set (cap_options (au_capabilities a)))"

definition builtin_uv_retries :: "('b, 'p, 'v) cenv \<Rightarrow> ('b, 'p, 'v) auth \<Rightarrow> u8 option" where
  "builtin_uv_retries env a =
     (if au_user_verification a = None then None
      else if \<not> has_option a ''uv'' then None else Some (get_uv_retries env a))"

definition perform_builtin_uv ::
  "('b, 'p, 'v) cenv \<Rightarrow> ('b, 'p, 'v) auth \<Rightarrow> (('b, 'p, 'v) auth, Ctap2Error, unit) outcome" where
  "perform_builtin_uv env a =
     (if \<not> has_option a ''uv'' then (a, Inl Err_UvBlocked)
      else case au_user_verification a of
             None \<Rightarrow> (a, Inl Err_UvBlocked)
           | Some v \<Rightarrow>
               if get_uv_retries env a = 0 then (a, Inl Err_UvBlocked)
               else (case uv_verify env v of
                       (v, Inr _) \<Rightarrow> (reset_uv_retries env (a\<lparr>au_user_verification := Some v\<rparr>), Inr ())
                     | (v, Inl e) \<Rightarrow> (decrement_uv_retries env (a\<lparr>au_user_verification := Some v\<rparr>), Inl e)))"

subsubsection \<open>The interface \<open>ClientPin\<close>\<close>

definition pin_hash :: "('b, 'p, 'v) cenv \<Rightarrow> bytes \<Rightarrow> bytes" where
  "pin_hash env pin = take 16 (sha256 (ring (senv env)) pin)"

definition set_pin ::
  "('b, 'p, 'v) cenv \<Rightarrow> ('b, 'p, 'v) auth \<Rightarrow> bytes \<Rightarrow> (('b, 'p, 'v) auth, Ctap2Error, unit) outcome" where
  "set_pin env a pin =
     check (length pin < PIN_MIN_LENGTH) Err_PinPolicyViolation a
     (check (length pin > PIN_MAX_LENGTH) Err_PinPolicyViolation a
     (andthen (map_outcome_err (\<lambda>_. Err_Unknown) (auth_store env a PIN_STORAGE_KEY (pin_hash env pin))) (\<lambda>_ a.
        ((reset_pin_retries env a)\<lparr>au_pin_uv_auth_token := None\<rparr>, Inr ()))))"

definition change_pin ::
  "('b, 'p, 'v) cenv \<Rightarrow> ('b, 'p, 'v) auth \<Rightarrow> bytes \<Rightarrow> bytes \<Rightarrow> (('b, 'p, 'v) auth, Ctap2Error, unit) outcome" where
  "change_pin env a old_pin new_pin =
     check (length new_pin < PIN_MIN_LENGTH \<or> length new_pin > PIN_MAX_LENGTH) Err_PinPolicyViolation a
     (attempt (map_err (\<lambda>_. Err_PinNotSet) (auth_retrieve env a PIN_STORAGE_KEY)) a (\<lambda>stored_hash.
        if \<not> constant_time_eq (pin_hash env old_pin) stored_hash
        then (let (a, e) = register_pin_failure env (decrement_pin_retries env a) in (a, Inl e))
        else andthen (map_outcome_err (\<lambda>_. Err_Unknown)
                        (auth_store env (reset_pin_retries env a) PIN_STORAGE_KEY (pin_hash env new_pin)))
               (\<lambda>_ a. (a\<lparr>au_pin_uv_auth_token := None\<rparr>, Inr ()))))"

definition verify_pin ::
  "('b, 'p, 'v) cenv \<Rightarrow> ('b, 'p, 'v) auth \<Rightarrow> bytes \<Rightarrow> (('b, 'p, 'v) auth, Ctap2Error, unit) outcome" where
  "verify_pin env a pin =
     check (\<not> is_pin_set env a) Err_PinNotSet a
     (check (is_pin_auth_blocked a) Err_PinBlocked a
     (attempt (map_err (\<lambda>_. Err_PinNotSet) (auth_retrieve env a PIN_STORAGE_KEY)) a (\<lambda>stored_hash.
        if \<not> constant_time_eq (pin_hash env pin) stored_hash
        then (let (a, e) = register_pin_failure env (decrement_pin_retries env a) in (a, Inl e))
        else (reset_pin_retries env a, Inr ()))))"

subsection \<open>The signature counter\<close>

definition current_sign_count :: "('b, 'p, 'v) cenv \<Rightarrow> ('b, 'p, 'v) auth \<Rightarrow> u32" where
  "current_sign_count env a = read_counter (auth_retrieve env a SIGN_COUNTER_STORAGE_KEY) 0"

definition next_sign_count ::
  "('b, 'p, 'v) cenv \<Rightarrow> ('b, 'p, 'v) auth \<Rightarrow> (('b, 'p, 'v) auth, Ctap2Error, u32) outcome" where
  "next_sign_count env a =
     (case checked_add_word (current_sign_count env a) 1 of
        None \<Rightarrow> (a, Inl Err_Unknown)
      | Some n \<Rightarrow>
          andthen (map_outcome_err (\<lambda>_. Err_Unknown) (auth_store env a SIGN_COUNTER_STORAGE_KEY (print_word n)))
            (\<lambda>_ a. (a, Inr n)))"

subsection \<open>The \<open>pinUvAuthToken\<close>\<close>

definition set_pin_uv_auth_token ::
  "('b, 'p, 'v) auth \<Rightarrow> bytes \<Rightarrow> u8 \<Rightarrow> string option \<Rightarrow> u8 \<Rightarrow> ('b, 'p, 'v) auth" where
  "set_pin_uv_auth_token a token permissions permissions_rp_id protocol =
     a\<lparr>au_pin_uv_auth_token :=
         Some \<lparr>tok_token = token, tok_permissions = permissions, tok_permissions_rp_id = permissions_rp_id,
               tok_protocol = protocol\<rparr>\<rparr>"

definition invalidate_pin_uv_auth_token :: "('b, 'p, 'v) auth \<Rightarrow> ('b, 'p, 'v) auth" where
  "invalidate_pin_uv_auth_token a = a\<lparr>au_pin_uv_auth_token := None\<rparr>"

definition set_pin_shared_secret :: "('b, 'p, 'v) auth \<Rightarrow> bytes \<Rightarrow> u8 \<Rightarrow> ('b, 'p, 'v) auth" where
  "set_pin_shared_secret a secret protocol = a\<lparr>au_pin_shared_secret := Some (secret, protocol)\<rparr>"

definition take_pin_shared_secret :: "('b, 'p, 'v) auth \<Rightarrow> ('b, 'p, 'v) auth \<times> (bytes \<times> u8) option" where
  "take_pin_shared_secret a = (a\<lparr>au_pin_shared_secret := None\<rparr>, au_pin_shared_secret a)"

definition set_pin_agreement_key :: "('b, 'p, 'v) auth \<Rightarrow> PinAgreementKey \<Rightarrow> ('b, 'p, 'v) auth" where
  "set_pin_agreement_key a key = a\<lparr>au_pin_agreement_key := Some key\<rparr>"

definition take_pin_agreement_key :: "('b, 'p, 'v) auth \<Rightarrow> ('b, 'p, 'v) auth \<times> PinAgreementKey option" where
  "take_pin_agreement_key a = (a\<lparr>au_pin_agreement_key := None\<rparr>, au_pin_agreement_key a)"

definition verify_pin_uv_auth_message ::
  "('b, 'p, 'v) cenv \<Rightarrow> ('b, 'p, 'v) auth \<Rightarrow> u8 \<Rightarrow> bytes \<Rightarrow> bytes \<Rightarrow> (Ctap2Error, unit) result" where
  "verify_pin_uv_auth_message env a pin_protocol param msg =
     bind_result (ok_or (au_pin_uv_auth_token a) Err_PinAuthInvalid) (\<lambda>state.
       if tok_protocol state \<noteq> pin_protocol then Inl Err_PinAuthInvalid
       else bind_result (map_err (\<lambda>_. Err_PinAuthInvalid) (proto_new (tok_protocol state))) (\<lambda>proto.
            bind_result (map_err (\<lambda>_. Err_PinAuthInvalid) (authenticate (ring (senv env)) proto (tok_token state) msg)) (\<lambda>mac.
              if constant_time_eq mac param then Inr () else Inl Err_PinAuthInvalid)))"

definition verify_pin_uv_auth_param ::
  "('b, 'p, 'v) cenv \<Rightarrow> ('b, 'p, 'v) auth \<Rightarrow> u8 \<Rightarrow> bytes \<Rightarrow> bytes \<Rightarrow> (Ctap2Error, unit) result" where
  "verify_pin_uv_auth_param env a pin_protocol param client_data_hash =
     verify_pin_uv_auth_message env a pin_protocol param client_data_hash"

definition verify_pin_uv_auth_for_operation ::
  "('b, 'p, 'v) cenv \<Rightarrow> ('b, 'p, 'v) auth \<Rightarrow> u8 option \<Rightarrow> bytes option \<Rightarrow> bytes \<Rightarrow> u8 \<Rightarrow> string option
     \<Rightarrow> (Ctap2Error, bool) result" where
  "verify_pin_uv_auth_for_operation env a pin_protocol param msg required rp =
     (case (pin_protocol, param) of
        (None, None) \<Rightarrow> Inr False
      | (Some _, None) \<Rightarrow> Inl Err_MissingParameter
      | (None, Some _) \<Rightarrow> Inl Err_MissingParameter
      | (Some protocol, Some param) \<Rightarrow>
          bind_result (verify_pin_uv_auth_message env a protocol param msg) (\<lambda>_.
          bind_result (ok_or (au_pin_uv_auth_token a) Err_PinAuthInvalid) (\<lambda>state.
            if tok_permissions state AND required \<noteq> required then Inl Err_UnauthorizedPermission
            else case tok_permissions_rp_id state of
                   Some bound \<Rightarrow> if rp \<noteq> Some bound then Inl Err_UnauthorizedPermission else Inr True
                 | None \<Rightarrow> Inr True)))"

end
