(* ===== verification/Authnr_Config.thy ===== *)
theory Authnr_Config
  imports Authenticator
begin

section \<open>authenticatorConfig\<close>

text \<open>
  Models \<open>openkey-core/src/ctap2/authnr_config.rs\<close>: the configuration flags kept in the key-value store, their
  readers, the decoding of the request and its five subcommands, all behind the \<open>acfg\<close> permission.
\<close>

definition ENABLE_ENTERPRISE_ATTESTATION :: u8 where "ENABLE_ENTERPRISE_ATTESTATION = 0x01"
definition TOGGLE_ALWAYS_UV :: u8 where "TOGGLE_ALWAYS_UV = 0x02"
definition SET_MIN_PIN_LENGTH :: u8 where "SET_MIN_PIN_LENGTH = 0x03"
definition MAKE_CRED_UV_NOT_RQD :: u8 where "MAKE_CRED_UV_NOT_RQD = 0x04"
definition SET_MIN_PIN_LENGTH_RPIDS :: u8 where "SET_MIN_PIN_LENGTH_RPIDS = 0x05"

definition MAX_MIN_PIN_LENGTH_RPIDS :: usize where "MAX_MIN_PIN_LENGTH_RPIDS = 32"

definition CFG_ALWAYS_UV_KEY :: string where "CFG_ALWAYS_UV_KEY = ''sys:cfg_always_uv''"
definition CFG_MAKE_CRED_UV_NOT_RQD_KEY :: string where "CFG_MAKE_CRED_UV_NOT_RQD_KEY = ''sys:cfg_mc_uv_not_rqd''"
definition CFG_MIN_PIN_LENGTH_KEY :: string where "CFG_MIN_PIN_LENGTH_KEY = ''sys:cfg_min_pin_length''"
definition CFG_MIN_PIN_LENGTH_RPIDS_KEY :: string where "CFG_MIN_PIN_LENGTH_RPIDS_KEY = ''sys:cfg_min_pin_length_rpids''"
definition CFG_FORCE_CHANGE_PIN_KEY :: string where "CFG_FORCE_CHANGE_PIN_KEY = ''sys:cfg_force_change_pin''"
definition CFG_EP_PENDING_KEY :: string where "CFG_EP_PENDING_KEY = ''sys:cfg_ep_pending''"

record AuthnrConfigRequest =
  acr_sub_command :: u8
  acr_params :: "Value option"
  acr_pin_uv_auth_protocol :: "u8 option"
  acr_pin_uv_auth_param :: "bytes option"

subsection \<open>Persisted state\<close>

definition is_always_uv :: "('b, 'p, 'v) cenv \<Rightarrow> ('b, 'p, 'v) auth \<Rightarrow> bool" where
  "is_always_uv env a = is_ok (auth_retrieve env a CFG_ALWAYS_UV_KEY)"

definition is_make_cred_uv_not_rqd :: "('b, 'p, 'v) cenv \<Rightarrow> ('b, 'p, 'v) auth \<Rightarrow> bool" where
  "is_make_cred_uv_not_rqd env a = is_ok (auth_retrieve env a CFG_MAKE_CRED_UV_NOT_RQD_KEY)"

definition is_force_change_pin :: "('b, 'p, 'v) cenv \<Rightarrow> ('b, 'p, 'v) auth \<Rightarrow> bool" where
  "is_force_change_pin env a = is_ok (auth_retrieve env a CFG_FORCE_CHANGE_PIN_KEY)"

definition get_min_pin_length :: "('b, 'p, 'v) cenv \<Rightarrow> ('b, 'p, 'v) auth \<Rightarrow> u32 \<Rightarrow> u32" where
  "get_min_pin_length env a fallback =
     (case ok (auth_retrieve env a CFG_MIN_PIN_LENGTH_KEY) of
        Some (b # bs) \<Rightarrow> ucast b | _ \<Rightarrow> fallback)"

definition consume_ep_pending :: "('b, 'p, 'v) cenv \<Rightarrow> ('b, 'p, 'v) auth \<Rightarrow> ('b, 'p, 'v) auth \<times> bool" where
  "consume_ep_pending env a =
     (let was_pending = is_ok (auth_retrieve env a CFG_EP_PENDING_KEY)
      in (if was_pending then fst (auth_delete env a CFG_EP_PENDING_KEY) else a, was_pending))"

subsection \<open>Decoding\<close>

definition cfg_value_to_u8 :: "Value \<Rightarrow> (Ctap2Error, u8) result" where
  "cfg_value_to_u8 v = (case v of Integer n \<Rightarrow> ok_or (try_u8 n) Err_InvalidParameter | _ \<Rightarrow> Inl Err_InvalidParameter)"

definition cfg_value_to_bool :: "Value \<Rightarrow> (Ctap2Error, bool) result" where
  "cfg_value_to_bool v = (case v of Bool b \<Rightarrow> Inr b | _ \<Rightarrow> Inl Err_InvalidParameter)"

definition cfg_value_to_bytes :: "Value \<Rightarrow> (Ctap2Error, bytes) result" where
  "cfg_value_to_bytes v = (case v of Bytes b \<Rightarrow> Inr b | _ \<Rightarrow> Inl Err_InvalidParameter)"

definition cfg_value_to_text :: "Value \<Rightarrow> (Ctap2Error, string) result" where
  "cfg_value_to_text v = (case v of Text t \<Rightarrow> Inr t | _ \<Rightarrow> Inl Err_InvalidParameter)"

text \<open>A whole CBOR item that is a map, with nothing after it.\<close>

definition read_map :: "CborLib \<Rightarrow> bytes \<Rightarrow> (Ctap2Error, (Value \<times> Value) list) result" where
  "read_map lib data =
     bind_result (ok_or (cv_read lib data) Err_InvalidCbor) (\<lambda>(v, restante).
       if restante \<noteq> [] then Inl Err_InvalidCbor
       else case v of Map entries \<Rightarrow> Inr entries | _ \<Rightarrow> Inl Err_InvalidCbor)"

definition cfg_key_name :: "Value \<Rightarrow> string option" where
  "cfg_key_name key =
     (case key of
        Integer n \<Rightarrow>
          (let n = i64_or_default n
           in if n = 1 then Some ''subCommand'' else if n = 2 then Some ''subCommandParams''
              else if n = 3 then Some ''pinUvAuthProtocol'' else if n = 4 then Some ''pinUvAuthParam'' else None)
      | Text t \<Rightarrow>
          if t \<in> {''subCommand'', ''subCommandParams'', ''pinUvAuthProtocol'', ''pinUvAuthParam''} then Some t else None
      | _ \<Rightarrow> None)"

fun decode_config_entries ::
  "(Value \<times> Value) list \<Rightarrow> AuthnrConfigRequest \<Rightarrow> (Ctap2Error, AuthnrConfigRequest) result" where
  "decode_config_entries [] req = Inr req"
| "decode_config_entries ((key, val) # entries) req =
     (let name = cfg_key_name key in
      if name = Some ''subCommand''
      then bind_result (cfg_value_to_u8 val) (\<lambda>n. decode_config_entries entries (req\<lparr>acr_sub_command := n\<rparr>))
      else if name = Some ''subCommandParams''
      then decode_config_entries entries (req\<lparr>acr_params := Some val\<rparr>)
      else if name = Some ''pinUvAuthProtocol''
      then bind_result (cfg_value_to_u8 val) (\<lambda>n. decode_config_entries entries (req\<lparr>acr_pin_uv_auth_protocol := Some n\<rparr>))
      else if name = Some ''pinUvAuthParam''
      then bind_result (cfg_value_to_bytes val) (\<lambda>b. decode_config_entries entries (req\<lparr>acr_pin_uv_auth_param := Some b\<rparr>))
      else decode_config_entries entries req)"

definition decode_authnr_config_request :: "CborLib \<Rightarrow> bytes \<Rightarrow> (Ctap2Error, AuthnrConfigRequest) result" where
  "decode_authnr_config_request lib data =
     bind_result (read_map lib data) (\<lambda>entries.
     bind_result (decode_config_entries entries
        \<lparr>acr_sub_command = 0, acr_params = None, acr_pin_uv_auth_protocol = None, acr_pin_uv_auth_param = None\<rparr>) (\<lambda>req.
       if acr_sub_command req = 0 then Inl Err_MissingParameter else Inr req))"

text \<open>
  The subcommand and its parameters as they stand in the request; the last occurrence of a key counts. Used for
  the authenticated message of authenticatorConfig and of CredentialManagement.
\<close>

fun sub_command_entries :: "(Value \<times> Value) list \<Rightarrow> Value option \<times> Value option \<Rightarrow> Value option \<times> Value option" where
  "sub_command_entries [] acc = acc"
| "sub_command_entries ((key, val) # entries) (sub, params) =
     (if key = Integer 1 \<or> key = Text ''subCommand'' then sub_command_entries entries (Some val, params)
      else if key = Integer 2 \<or> key = Text ''subCommandParams'' then sub_command_entries entries (sub, Some val)
      else sub_command_entries entries (sub, params))"

definition sub_command_message :: "CborLib \<Rightarrow> bytes \<Rightarrow> bytes \<Rightarrow> (Ctap2Error, bytes) result" where
  "sub_command_message lib prefix data =
     bind_result (read_map lib data) (\<lambda>entries.
       let (sub, params) = sub_command_entries entries (None, None)
       in bind_result (case sub of Some (Integer n) \<Rightarrow> ok_or (try_u8 n) Err_InvalidParameter | _ \<Rightarrow> Inl Err_InvalidParameter)
            (\<lambda>sub_command.
               case params of
                 None \<Rightarrow> Inr (prefix @ [sub_command])
               | Some v \<Rightarrow> bind_result (ok_or (cv_write lib v) Err_InvalidCbor) (\<lambda>bs. Inr (prefix @ [sub_command] @ bs))))"

definition authnr_config_auth_message :: "CborLib \<Rightarrow> bytes \<Rightarrow> (Ctap2Error, bytes) result" where
  "authnr_config_auth_message lib data = sub_command_message lib [0x0D] data"

definition params_map :: "Value option \<Rightarrow> (Ctap2Error, (Value \<times> Value) list) result" where
  "params_map params = (case params of Some (Map entries) \<Rightarrow> Inr entries | _ \<Rightarrow> Inl Err_InvalidParameter)"

text \<open>The first entry with a key, converted; \<open>param_u8\<close> and its siblings differ only in the conversion.\<close>

definition param_is :: "u8 \<Rightarrow> string \<Rightarrow> Value \<Rightarrow> bool" where
  "param_is key_int key_text key =
     (case key of
        Integer n \<Rightarrow> (case try_u8 (i64_or_default n) of Some i \<Rightarrow> i = key_int | None \<Rightarrow> False)
      | Text t \<Rightarrow> t = key_text
      | _ \<Rightarrow> False)"

fun param_with ::
  "(Value \<Rightarrow> (Ctap2Error, 'a) result) \<Rightarrow> (Value \<times> Value) list \<Rightarrow> u8 \<Rightarrow> string \<Rightarrow> (Ctap2Error, 'a option) result" where
  "param_with conv [] key_int key_text = Inr None"
| "param_with conv ((key, val) # entries) key_int key_text =
     (if param_is key_int key_text key then bind_result (conv val) (\<lambda>x. Inr (Some x))
      else param_with conv entries key_int key_text)"

fun texts_of :: "Value list \<Rightarrow> (Ctap2Error, string list) result" where
  "texts_of [] = Inr []"
| "texts_of (v # vs) = bind_result (cfg_value_to_text v) (\<lambda>t. bind_result (texts_of vs) (\<lambda>ts. Inr (t # ts)))"

definition cfg_value_to_texts :: "Value \<Rightarrow> (Ctap2Error, string list) result" where
  "cfg_value_to_texts v = (case v of Array items \<Rightarrow> texts_of items | _ \<Rightarrow> Inl Err_InvalidParameter)"

definition param_u8 :: "(Value \<times> Value) list \<Rightarrow> u8 \<Rightarrow> string \<Rightarrow> (Ctap2Error, u8 option) result" where
  "param_u8 = param_with cfg_value_to_u8"

definition param_bool :: "(Value \<times> Value) list \<Rightarrow> u8 \<Rightarrow> string \<Rightarrow> (Ctap2Error, bool option) result" where
  "param_bool = param_with cfg_value_to_bool"

definition param_bytes :: "(Value \<times> Value) list \<Rightarrow> u8 \<Rightarrow> string \<Rightarrow> (Ctap2Error, bytes option) result" where
  "param_bytes = param_with cfg_value_to_bytes"

definition param_text_array :: "(Value \<times> Value) list \<Rightarrow> u8 \<Rightarrow> string \<Rightarrow> (Ctap2Error, string list option) result" where
  "param_text_array = param_with cfg_value_to_texts"

subsection \<open>Subcommands\<close>

definition store_or_unknown ::
  "('b, 'p, 'v) cenv \<Rightarrow> ('b, 'p, 'v) auth \<Rightarrow> string \<Rightarrow> bytes \<Rightarrow> (('b, 'p, 'v) auth, Ctap2Error, unit) outcome" where
  "store_or_unknown env a key v = map_outcome_err (\<lambda>_. Err_Unknown) (auth_store env a key v)"

definition toggle_flag ::
  "('b, 'p, 'v) cenv \<Rightarrow> ('b, 'p, 'v) auth \<Rightarrow> string \<Rightarrow> (('b, 'p, 'v) auth, Ctap2Error, unit) outcome" where
  "toggle_flag env a key =
     (if is_ok (auth_retrieve env a key) then (fst (auth_delete env a key), Inr ())
      else store_or_unknown env a key [0x31])"

definition cbor_to_vec :: "'a SerdeCodec \<Rightarrow> 'a \<Rightarrow> bytes" where
  "cbor_to_vec codec v = (case serde_write codec v of Some bs \<Rightarrow> bs | None \<Rightarrow> [])"

definition verify_current_pin ::
  "('b, 'p, 'v) cenv \<Rightarrow> ('b, 'p, 'v) auth \<Rightarrow> bytes \<Rightarrow> (('b, 'p, 'v) auth, Ctap2Error, unit) outcome" where
  "verify_current_pin env a encrypted =
     (let (a, shared) = take_pin_shared_secret a
      in attempt (ok_or shared Err_PinAuthInvalid) a (\<lambda>(secret, protocol).
         attempt (map_err (\<lambda>_. Err_PinAuthInvalid) (proto_new protocol)) a (\<lambda>protocol.
         attempt (map_err (\<lambda>_. Err_PinAuthInvalid) (proto_decrypt (ring (senv env)) protocol secret encrypted)) a (\<lambda>padded.
         attempt (map_err (\<lambda>_. Err_PinAuthInvalid) (strip_zero_padding padded)) a (\<lambda>submitted.
         attempt (map_err (\<lambda>_. Err_PinNotSet) (auth_retrieve env a PIN_STORAGE_KEY)) a (\<lambda>stored_hash.
           if \<not> constant_time_eq (pin_hash env submitted) stored_hash then (a, Inl Err_PinInvalid) else (a, Inr ())))))))"

definition handle_set_min_pin_length ::
  "('b, 'p, 'v) cenv \<Rightarrow> ('b, 'p, 'v) auth \<Rightarrow> Value option \<Rightarrow> (('b, 'p, 'v) auth, Ctap2Error, unit) outcome" where
  "handle_set_min_pin_length env a params =
     attempt (params_map params) a (\<lambda>map.
     attempt (param_u8 map 0x02 ''newMinPINLength'') a (\<lambda>new_min.
     attempt (ok_or new_min Err_MissingParameter) a (\<lambda>new_min.
     check (unat new_min < PIN_MIN_LENGTH \<or> unat new_min > PIN_MAX_LENGTH) Err_PinPolicyViolation a
     (attempt (param_bool map 0x04 ''forceChangePin'') a (\<lambda>force.
      let force_change = (case force of Some b \<Rightarrow> b | None \<Rightarrow> False) in
      attempt (param_text_array map 0x03 ''minPinLengthRpIDs'') a (\<lambda>rpids.
      attempt (param_bytes map 0x01 ''currentPIN'') a (\<lambda>current_pin.
      andthen (case current_pin of
                 Some enc \<Rightarrow> verify_current_pin env a enc
               | None \<Rightarrow> if force_change then (a, Inl Err_MissingParameter) else (a, Inr ())) (\<lambda>_ a.
      andthen (store_or_unknown env a CFG_MIN_PIN_LENGTH_KEY [new_min]) (\<lambda>_ a.
      andthen (case rpids of
                 Some ids \<Rightarrow> store_or_unknown env a CFG_MIN_PIN_LENGTH_RPIDS_KEY (cbor_to_vec (rp_ids env) ids)
               | None \<Rightarrow> (a, Inr ())) (\<lambda>_ a.
      if force_change then store_or_unknown env a CFG_FORCE_CHANGE_PIN_KEY [0x31]
      else (fst (auth_delete env a CFG_FORCE_CHANGE_PIN_KEY), Inr ())))))))))))"

definition handle_set_min_pin_length_rpids ::
  "('b, 'p, 'v) cenv \<Rightarrow> ('b, 'p, 'v) auth \<Rightarrow> Value option \<Rightarrow> (('b, 'p, 'v) auth, Ctap2Error, unit) outcome" where
  "handle_set_min_pin_length_rpids env a params =
     attempt (params_map params) a (\<lambda>map.
     attempt (param_text_array map 0x01 ''rpIds'') a (\<lambda>rpids.
     attempt (ok_or rpids Err_MissingParameter) a (\<lambda>rpids.
     check (length rpids > MAX_MIN_PIN_LENGTH_RPIDS) Err_InvalidParameter a
       (store_or_unknown env a CFG_MIN_PIN_LENGTH_RPIDS_KEY (cbor_to_vec (rp_ids env) rpids)))))"

definition run_config_sub_command ::
  "('b, 'p, 'v) cenv \<Rightarrow> ('b, 'p, 'v) auth \<Rightarrow> AuthnrConfigRequest \<Rightarrow> (('b, 'p, 'v) auth, Ctap2Error, unit) outcome" where
  "run_config_sub_command env a req =
     (if acr_sub_command req = ENABLE_ENTERPRISE_ATTESTATION then store_or_unknown env a CFG_EP_PENDING_KEY [0x31]
      else if acr_sub_command req = TOGGLE_ALWAYS_UV then toggle_flag env a CFG_ALWAYS_UV_KEY
      else if acr_sub_command req = MAKE_CRED_UV_NOT_RQD then toggle_flag env a CFG_MAKE_CRED_UV_NOT_RQD_KEY
      else if acr_sub_command req = SET_MIN_PIN_LENGTH then handle_set_min_pin_length env a (acr_params req)
      else if acr_sub_command req = SET_MIN_PIN_LENGTH_RPIDS then handle_set_min_pin_length_rpids env a (acr_params req)
      else (a, Inl Err_InvalidParameter))"

definition handle_authnr_config ::
  "('b, 'p, 'v) cenv \<Rightarrow> ('b, 'p, 'v) auth \<Rightarrow> bytes \<Rightarrow> (('b, 'p, 'v) auth, Ctap2Error, bytes) outcome" where
  "handle_authnr_config env a data =
     attempt (decode_authnr_config_request (cbor env) data) a (\<lambda>req.
     check (acr_sub_command req \<noteq> ENABLE_ENTERPRISE_ATTESTATION \<and> \<not> is_pin_set env a) Err_PinNotSet a
     (attempt (ok_or (acr_pin_uv_auth_protocol req) Err_MissingParameter) a (\<lambda>protocol.
      attempt (ok_or (acr_pin_uv_auth_param req) Err_MissingParameter) a (\<lambda>pin_auth.
      attempt (authnr_config_auth_message (cbor env) data) a (\<lambda>auth_message.
      attempt (verify_pin_uv_auth_for_operation env a (Some protocol) (Some pin_auth) auth_message PERMISSION_ACFG None) a
        (\<lambda>_. andthen (run_config_sub_command env a req) (\<lambda>_ a. (a, Inr []))))))))"

end
