(* ===== verification/Client_Pin.thy ===== *)
theory Client_Pin
  imports Authnr_Config
begin

section \<open>authenticatorClientPIN\<close>

text \<open>
  Models \<open>openkey-core/src/ctap2/client_pin.rs\<close>: the COSE key of the key agreement, the request in its positional
  and its map form, the eight subcommands and the response. The PIN state itself is in theory \<open>Authenticator\<close>.
\<close>

subsection \<open>COSE keys\<close>

record CoseEc2Key =
  cek_x :: bytes
  cek_y :: bytes

definition to_uncompressed :: "CoseEc2Key \<Rightarrow> (Ctap2Error, bytes) result" where
  "to_uncompressed k =
     (if length (cek_x k) \<noteq> 32 \<or> length (cek_y k) \<noteq> 32 then Inl Err_InvalidParameter
      else Inr (0x04 # cek_x k @ cek_y k))"

definition to_cose_value :: "CoseEc2Key \<Rightarrow> Value" where
  "to_cose_value k =
     Map [(Integer (-3), Bytes (cek_y k)), (Integer (-2), Bytes (cek_x k)), (Integer (-1), Integer 1),
          (Integer 1, Integer 2), (Integer 3, Integer (-25))]"

definition encode_cose :: "CborLib \<Rightarrow> CoseEc2Key \<Rightarrow> (Ctap2Error, bytes) result" where
  "encode_cose lib k = ok_or (cv_write lib (to_cose_value k)) Err_Unknown"

record CoseScan =
  scan_kty :: "int option"
  scan_crv :: "int option"
  scan_x :: "bytes option"
  scan_y :: "bytes option"

definition scan_cose_entry :: "Value \<times> Value \<Rightarrow> CoseScan \<Rightarrow> CoseScan" where
  "scan_cose_entry e s =
     (case e of
        (Integer k, Integer v) \<Rightarrow>
          (let v = i64_or_default v in
           if i64_or_default k = 1 then s\<lparr>scan_kty := Some v\<rparr>
           else if i64_or_default k = -1 then s\<lparr>scan_crv := Some v\<rparr> else s)
      | (Integer k, Bytes b) \<Rightarrow>
          if i64_or_default k = -2 then s\<lparr>scan_x := Some b\<rparr>
          else if i64_or_default k = -3 then s\<lparr>scan_y := Some b\<rparr> else s
      | _ \<Rightarrow> s)"

definition from_cose_value :: "Value \<Rightarrow> (Ctap2Error, CoseEc2Key) result" where
  "from_cose_value v =
     (case v of
        Map entries \<Rightarrow>
          (let s = fold scan_cose_entry entries \<lparr>scan_kty = None, scan_crv = None, scan_x = None, scan_y = None\<rparr>
           in if scan_kty s \<noteq> Some 2 \<or> scan_crv s \<noteq> Some 1 then Inl Err_InvalidParameter
              else bind_result (ok_or (scan_x s) Err_InvalidParameter) (\<lambda>x.
                   bind_result (ok_or (scan_y s) Err_InvalidParameter) (\<lambda>y.
                     if length x \<noteq> 32 \<or> length y \<noteq> 32 then Inl Err_InvalidParameter
                     else Inr \<lparr>cek_x = x, cek_y = y\<rparr>)))
      | _ \<Rightarrow> Inl Err_InvalidParameter)"

subsection \<open>Requests and responses\<close>

record ClientPinRequest =
  cpr_pin_protocol :: "u8 option"
  cpr_sub_command :: u8
  cpr_key_agreement :: "CoseEc2Key option"
  cpr_pin_auth :: "bytes option"
  cpr_new_pin_enc :: "bytes option"
  cpr_pin_hash_enc :: "bytes option"
  cpr_permissions :: "u8 option"
  cpr_rp_id :: "string option"

definition client_pin_request_default :: ClientPinRequest where
  "client_pin_request_default =
     \<lparr>cpr_pin_protocol = None, cpr_sub_command = 0, cpr_key_agreement = None, cpr_pin_auth = None,
      cpr_new_pin_enc = None, cpr_pin_hash_enc = None, cpr_permissions = None, cpr_rp_id = None\<rparr>"

record ClientPinResponse =
  cps_key_agreement :: "bytes option"
  cps_pin_uv_auth_token :: "bytes option"
  cps_retries :: "u8 option"
  cps_power_cycle_state :: "bool option"
  cps_uv_retries :: "u8 option"

definition client_pin_response_default :: ClientPinResponse where
  "client_pin_response_default =
     \<lparr>cps_key_agreement = None, cps_pin_uv_auth_token = None, cps_retries = None, cps_power_cycle_state = None,
      cps_uv_retries = None\<rparr>"

datatype ClientPinSubCommand =
    GetPINRetries | GetKeyAgreement | SetPIN | ChangePIN | GetPINToken | GetPinUvAuthTokenUsingUvWithPermissions
  | GetUVRetries | GetPinUvAuthTokenUsingPinWithPermissions

definition sub_command_from_u8 :: "u8 \<Rightarrow> ClientPinSubCommand option" where
  "sub_command_from_u8 v =
     (if v = 0x01 then Some GetPINRetries
      else if v = 0x02 then Some GetKeyAgreement
      else if v = 0x03 then Some SetPIN
      else if v = 0x04 then Some ChangePIN
      else if v = 0x05 then Some GetPINToken
      else if v = 0x06 then Some GetPinUvAuthTokenUsingUvWithPermissions
      else if v = 0x07 then Some GetUVRetries
      else if v = 0x09 then Some GetPinUvAuthTokenUsingPinWithPermissions
      else None)"

definition pin_value_to_u8 :: "Value \<Rightarrow> (Ctap2Error, u8) result" where
  "pin_value_to_u8 v =
     (case v of
        Integer n \<Rightarrow>
          bind_result (ok_or (try_i64 n) Err_InvalidParameter) (\<lambda>n. ok_or (try_u8 n) Err_InvalidParameter)
      | _ \<Rightarrow> Inl Err_InvalidCbor)"

definition pin_value_to_bytes :: "Value \<Rightarrow> (Ctap2Error, bytes) result" where
  "pin_value_to_bytes v = (case v of Bytes b \<Rightarrow> Inr b | _ \<Rightarrow> Inl Err_InvalidCbor)"

definition pin_value_to_text :: "Value \<Rightarrow> (Ctap2Error, string) result" where
  "pin_value_to_text v = (case v of Text t \<Rightarrow> Inr t | _ \<Rightarrow> Inl Err_InvalidCbor)"

text \<open>The closure \<open>next\<close> of the positional form: assign one item to a field.\<close>

definition assign_field :: "nat \<Rightarrow> Value \<Rightarrow> ClientPinRequest \<Rightarrow> (Ctap2Error, ClientPinRequest) result" where
  "assign_field fld item req =
     (if fld = 1 then bind_result (from_cose_value item) (\<lambda>k. Inr (req\<lparr>cpr_key_agreement := Some k\<rparr>))
      else if fld = 2 then bind_result (pin_value_to_bytes item) (\<lambda>b. Inr (req\<lparr>cpr_pin_auth := Some b\<rparr>))
      else if fld = 3 then bind_result (pin_value_to_bytes item) (\<lambda>b. Inr (req\<lparr>cpr_new_pin_enc := Some b\<rparr>))
      else if fld = 4 then bind_result (pin_value_to_bytes item) (\<lambda>b. Inr (req\<lparr>cpr_pin_hash_enc := Some b\<rparr>))
      else if fld = 5 then bind_result (pin_value_to_u8 item) (\<lambda>n. Inr (req\<lparr>cpr_permissions := Some n\<rparr>))
      else if fld = 6 then bind_result (pin_value_to_text item) (\<lambda>t. Inr (req\<lparr>cpr_rp_id := Some t\<rparr>))
      else Inr req)"

fun assign_fields :: "nat list \<Rightarrow> Value list \<Rightarrow> ClientPinRequest \<Rightarrow> (Ctap2Error, ClientPinRequest) result" where
  "assign_fields [] items req = Inr req"
| "assign_fields fs [] req = Inr req"
| "assign_fields (f # fs) (item # items) req =
     bind_result (assign_field f item req) (assign_fields fs items)"

definition nonnull :: "Value option \<Rightarrow> Value option" where
  "nonnull v = (if v = Some Null then None else v)"

definition decode_request_from_array :: "Value list \<Rightarrow> (Ctap2Error, ClientPinRequest) result" where
  "decode_request_from_array items =
     bind_result (case nonnull (nth_opt items 0) of
                    Some v \<Rightarrow> bind_result (pin_value_to_u8 v) (\<lambda>n. Inr (client_pin_request_default\<lparr>cpr_pin_protocol := Some n\<rparr>))
                  | None \<Rightarrow> Inr client_pin_request_default) (\<lambda>req.
     bind_result (case nonnull (nth_opt items 1) of
                    Some v \<Rightarrow> bind_result (pin_value_to_u8 v) (\<lambda>n. Inr (req\<lparr>cpr_sub_command := n\<rparr>))
                  | None \<Rightarrow> Inr req) (\<lambda>req.
       let rest = filter (\<lambda>v. v \<noteq> Null) (drop 2 items);
           sub = cpr_sub_command req
       in if sub = 0x03 then assign_fields [1, 2, 3] rest req
          else if sub = 0x04 then assign_fields [1, 2, 3, 4] rest req
          else if sub = 0x05
          then bind_result (assign_fields [1, 4] rest req) (\<lambda>req.
                 if length rest > 2
                 then (if is_text (rest ! 2)
                       then bind_result (pin_value_to_text (rest ! 2)) (\<lambda>t. Inr (req\<lparr>cpr_rp_id := Some t\<rparr>))
                       else bind_result (pin_value_to_u8 (rest ! 2)) (\<lambda>n. Inr (req\<lparr>cpr_permissions := Some n\<rparr>)))
                 else Inr req)
          else if sub = 0x06 then assign_fields [1, 5, 6] rest req
          else if sub = 0x09 then assign_fields [1, 4, 5, 6] rest req
          else Inr req))"

definition pin_key_name :: "Value \<Rightarrow> string option" where
  "pin_key_name key =
     (case key of
        Integer n \<Rightarrow>
          map_of [(0x01, ''pinProtocol''), (0x02, ''subCommand''), (0x03, ''keyAgreement''), (0x04, ''pinAuth''),
                  (0x05, ''newPinEnc''), (0x06, ''pinHashEnc''), (0x09, ''permissions''), (0x0A, ''rpId'')]
            (i64_or_default n)
      | Text t \<Rightarrow> Some t
      | _ \<Rightarrow> None)"

fun decode_request_from_map ::
  "(Value \<times> Value) list \<Rightarrow> ClientPinRequest \<Rightarrow> (Ctap2Error, ClientPinRequest) result" where
  "decode_request_from_map [] req = Inr req"
| "decode_request_from_map ((key, val) # entries) req =
     (let name = pin_key_name key in
      bind_result
        (if name = Some ''pinProtocol''
         then bind_result (pin_value_to_u8 val) (\<lambda>n. Inr (req\<lparr>cpr_pin_protocol := Some n\<rparr>))
         else if name = Some ''subCommand''
         then bind_result (pin_value_to_u8 val) (\<lambda>n. Inr (req\<lparr>cpr_sub_command := n\<rparr>))
         else if name = Some ''keyAgreement'' then assign_field 1 val req
         else if name = Some ''pinAuth'' then assign_field 2 val req
         else if name = Some ''newPinEnc'' then assign_field 3 val req
         else if name = Some ''pinHashEnc'' then assign_field 4 val req
         else if name = Some ''permissions'' then assign_field 5 val req
         else if name = Some ''rpId'' then assign_field 6 val req
         else Inr req)
        (decode_request_from_map entries))"

definition decode_client_pin_request :: "CborLib \<Rightarrow> bytes \<Rightarrow> (Ctap2Error, ClientPinRequest) result" where
  "decode_client_pin_request lib data =
     bind_result (ok_or (cv_read lib data) Err_InvalidCbor) (\<lambda>(v, restante).
       if restante \<noteq> [] then Inl Err_InvalidCbor
       else case v of
              Array items \<Rightarrow> decode_request_from_array items
            | Map entries \<Rightarrow> decode_request_from_map entries client_pin_request_default
            | _ \<Rightarrow> Inl Err_InvalidCbor)"

definition opt_entry :: "int \<Rightarrow> Value option \<Rightarrow> (Value \<times> Value) list" where
  "opt_entry label v = (case v of Some v \<Rightarrow> [(Integer label, v)] | None \<Rightarrow> [])"

definition encode_client_pin_response :: "CborLib \<Rightarrow> ClientPinResponse \<Rightarrow> (Ctap2Error, bytes) result" where
  "encode_client_pin_response lib r =
     bind_result (case cps_key_agreement r of
                    Some bs \<Rightarrow> bind_result (ok_or (cv_read lib bs) Err_Unknown) (\<lambda>(v, rest). Inr (Some v))
                  | None \<Rightarrow> Inr None) (\<lambda>key_agreement.
       ok_or (cv_write lib (Map (
            opt_entry 1 key_agreement
          @ opt_entry 2 (map_option Bytes (cps_pin_uv_auth_token r))
          @ opt_entry 3 (map_option (\<lambda>n. Integer (uint n)) (cps_retries r))
          @ opt_entry 4 (map_option Bool (cps_power_cycle_state r))
          @ opt_entry 5 (map_option (\<lambda>n. Integer (uint n)) (cps_uv_retries r))))) Err_Unknown)"

subsection \<open>Building blocks of the subcommands\<close>

definition validate_protocol :: "u8 option \<Rightarrow> (Ctap2Error, PinUvProtocol) result" where
  "validate_protocol pin_protocol =
     bind_result (ok_or pin_protocol Err_MissingParameter) (\<lambda>v. map_err (\<lambda>_. Err_InvalidParameter) (proto_new v))"

text \<open>A missing agreement key is generated on the spot, which is a draw.\<close>

definition perform_key_agreement ::
  "('b, 'p, 'v) cenv \<Rightarrow> ('b, 'p, 'v) auth \<Rightarrow> PinUvProtocol \<Rightarrow> CoseEc2Key \<Rightarrow> (('b, 'p, 'v) auth, Ctap2Error, bytes) outcome" where
  "perform_key_agreement env a protocol peer =
     attempt (to_uncompressed peer) a (\<lambda>peer_point.
       let (a, key) = take_pin_agreement_key a
       in andthen (case key of
                     Some k \<Rightarrow> (a, Inr k)
                   | None \<Rightarrow> (next_draw a, map_err (\<lambda>_. Err_Unknown) (agreement_generate (ring (senv env)) (au_draws a))))
            (\<lambda>k a.
               attempt (map_err (\<lambda>_. Err_InvalidParameter) (agree (ring (senv env)) k peer_point)) a (\<lambda>z.
               attempt (map_err (\<lambda>_. Err_Unknown) (kdf (ring (senv env)) protocol z)) a (\<lambda>secret. (a, Inr secret)))))"

definition decrypt_pin_hash ::
  "('b, 'p, 'v) cenv \<Rightarrow> PinUvProtocol \<Rightarrow> bytes \<Rightarrow> bytes \<Rightarrow> (Ctap2Error, bytes) result" where
  "decrypt_pin_hash env protocol secret pin_hash_enc =
     map_err (\<lambda>_. Err_PinAuthInvalid) (decrypt_exact (ring (senv env)) protocol secret pin_hash_enc PIN_HASH_LEN)"

definition verify_decrypted_pin_hash ::
  "('b, 'p, 'v) cenv \<Rightarrow> ('b, 'p, 'v) auth \<Rightarrow> bytes \<Rightarrow> (Ctap2Error, unit) result" where
  "verify_decrypted_pin_hash env a submitted =
     bind_result (map_err (\<lambda>_. Err_PinNotSet) (auth_retrieve env a PIN_STORAGE_KEY)) (\<lambda>stored_hash.
       if \<not> constant_time_eq submitted stored_hash then Inl Err_PinInvalid else Inr ())"

definition pin_failure_error :: "('b, 'p, 'v) cenv \<Rightarrow> ('b, 'p, 'v) auth \<Rightarrow> ('b, 'p, 'v) auth \<times> Ctap2Error" where
  "pin_failure_error env a = register_pin_failure env a"

definition issue_pin_uv_auth_token ::
  "('b, 'p, 'v) cenv \<Rightarrow> ('b, 'p, 'v) auth \<Rightarrow> PinUvProtocol \<Rightarrow> bytes \<Rightarrow> u8 \<Rightarrow> string option
     \<Rightarrow> (('b, 'p, 'v) auth, Ctap2Error, bytes) outcome" where
  "issue_pin_uv_auth_token env a protocol secret permissions permissions_rp_id =
     (let (a, token) = auth_random env a 32 in
      andthen (next_draw a, map_err (\<lambda>_. Err_Unknown) (proto_encrypt (ring (senv env)) protocol (au_draws a) secret token))
        (\<lambda>encrypted a.
           let a = set_pin_uv_auth_token a token permissions permissions_rp_id (proto_version protocol);
               a = set_pin_shared_secret a secret (proto_version protocol)
           in (a, Inr encrypted)))"

definition validate_permissions :: "('b, 'p, 'v) auth \<Rightarrow> u8 \<Rightarrow> (Ctap2Error, unit) result" where
  "validate_permissions a permissions =
     (if permissions = 0 then Inl Err_InvalidParameter
      else if permissions AND PERMISSION_BE \<noteq> 0 \<and> \<not> has_option a ''bioEnroll'' then Inl Err_UnauthorizedPermission
      else if permissions AND PERMISSION_ACFG \<noteq> 0 \<and> \<not> has_option a ''authnrCfg'' then Inl Err_UnauthorizedPermission
      else if permissions AND PERMISSION_CM \<noteq> 0 \<and> \<not> has_option a ''credMgmt'' then Inl Err_UnauthorizedPermission
      else if permissions AND PERMISSION_LBW \<noteq> 0 \<and> \<not> has_option a ''largeBlobs'' then Inl Err_UnauthorizedPermission
      else Inr ())"

text \<open>
  Decrement, decrypt the submitted hash and compare: the part that changePIN and the two PIN token subcommands
  share. A wrong hash counts as a failure; a right one restores the counters.
\<close>

definition check_pin_hash ::
  "('b, 'p, 'v) cenv \<Rightarrow> ('b, 'p, 'v) auth \<Rightarrow> PinUvProtocol \<Rightarrow> bytes \<Rightarrow> bytes \<Rightarrow> (('b, 'p, 'v) auth, Ctap2Error, unit) outcome" where
  "check_pin_hash env a protocol secret pin_hash_enc =
     (let a = decrement_pin_retries env a in
      case decrypt_pin_hash env protocol secret pin_hash_enc of
        Inl _ \<Rightarrow> (let (a, e) = pin_failure_error env a in (a, Inl e))
      | Inr submitted \<Rightarrow>
          (case verify_decrypted_pin_hash env a submitted of
             Inl _ \<Rightarrow> (let (a, e) = pin_failure_error env a in (a, Inl e))
           | Inr _ \<Rightarrow> (reset_pin_retries env a, Inr ())))"

text \<open>Decrypt, unpad and check the new PIN of setPIN and changePIN.\<close>

definition decrypt_new_pin ::
  "('b, 'p, 'v) cenv \<Rightarrow> PinUvProtocol \<Rightarrow> bytes \<Rightarrow> bytes \<Rightarrow> (Ctap2Error, bytes) result" where
  "decrypt_new_pin env protocol secret new_pin_enc =
     bind_result (map_err (\<lambda>_. Err_PinAuthInvalid) (proto_decrypt (ring (senv env)) protocol secret new_pin_enc)) (\<lambda>padded.
       if length padded \<noteq> 64 then Inl Err_InvalidParameter
       else bind_result (map_err (\<lambda>_. Err_PinAuthInvalid) (strip_zero_padding padded)) (\<lambda>new_pin.
              if length new_pin < PIN_MIN_LENGTH \<or> length new_pin > PIN_MAX_LENGTH then Inl Err_PinPolicyViolation
              else Inr new_pin))"

definition verify_mac ::
  "('b, 'p, 'v) cenv \<Rightarrow> PinUvProtocol \<Rightarrow> bytes \<Rightarrow> bytes \<Rightarrow> bytes \<Rightarrow> (Ctap2Error, unit) result" where
  "verify_mac env protocol secret msg pin_auth =
     bind_result (map_err (\<lambda>_. Err_PinAuthInvalid) (proto_verify (ring (senv env)) protocol secret msg pin_auth)) (\<lambda>good.
       if good then Inr () else Inl Err_PinAuthInvalid)"

subsection \<open>Subcommands\<close>

definition handle_get_retries ::
  "('b, 'p, 'v) cenv \<Rightarrow> ('b, 'p, 'v) auth \<Rightarrow> (Ctap2Error, ClientPinResponse) result" where
  "handle_get_retries env a =
     Inr (client_pin_response_default\<lparr>cps_retries := Some (get_pin_retries env a),
          cps_power_cycle_state := (if is_pin_auth_blocked a then Some True else None)\<rparr>)"

definition handle_get_key_agreement ::
  "('b, 'p, 'v) cenv \<Rightarrow> ('b, 'p, 'v) auth \<Rightarrow> ClientPinRequest \<Rightarrow> (('b, 'p, 'v) auth, Ctap2Error, ClientPinResponse) outcome" where
  "handle_get_key_agreement env a req =
     attempt (validate_protocol (cpr_pin_protocol req)) a (\<lambda>_.
     andthen (next_draw a, map_err (\<lambda>_. Err_Unknown) (agreement_generate (ring (senv env)) (au_draws a))) (\<lambda>key a.
     attempt (map_err (\<lambda>_. Err_Unknown) (public_key_bytes (ring (senv env)) key)) a (\<lambda>public_key.
       let cose = \<lparr>cek_x = slice_of 1 33 public_key, cek_y = slice_of 33 65 public_key\<rparr>;
           a = set_pin_agreement_key a key
       in attempt (encode_cose (cbor env) cose) a (\<lambda>bs.
            (a, Inr (client_pin_response_default\<lparr>cps_key_agreement := Some bs\<rparr>))))))"

definition handle_set_pin ::
  "('b, 'p, 'v) cenv \<Rightarrow> ('b, 'p, 'v) auth \<Rightarrow> ClientPinRequest \<Rightarrow> (('b, 'p, 'v) auth, Ctap2Error, ClientPinResponse) outcome" where
  "handle_set_pin env a req =
     attempt (validate_protocol (cpr_pin_protocol req)) a (\<lambda>protocol.
     check (is_pin_set env a) Err_PinAuthInvalid a
     (attempt (ok_or (cpr_key_agreement req) Err_MissingParameter) a (\<lambda>peer.
      attempt (ok_or (cpr_new_pin_enc req) Err_MissingParameter) a (\<lambda>new_pin_enc.
      attempt (ok_or (cpr_pin_auth req) Err_MissingParameter) a (\<lambda>pin_auth.
      andthen (perform_key_agreement env a protocol peer) (\<lambda>secret a.
      attempt (verify_mac env protocol secret new_pin_enc pin_auth) a (\<lambda>_.
      attempt (decrypt_new_pin env protocol secret new_pin_enc) a (\<lambda>new_pin.
      andthen (set_pin env a new_pin) (\<lambda>_ a. (a, Inr client_pin_response_default))))))))))"

definition handle_change_pin ::
  "('b, 'p, 'v) cenv \<Rightarrow> ('b, 'p, 'v) auth \<Rightarrow> ClientPinRequest \<Rightarrow> (('b, 'p, 'v) auth, Ctap2Error, ClientPinResponse) outcome" where
  "handle_change_pin env a req =
     attempt (validate_protocol (cpr_pin_protocol req)) a (\<lambda>protocol.
     check (\<not> is_pin_set env a) Err_PinNotSet a
     (check (get_pin_retries env a = 0) Err_PinBlocked a
     (check (is_pin_auth_blocked a) Err_PinAuthBlocked a
     (attempt (ok_or (cpr_key_agreement req) Err_MissingParameter) a (\<lambda>peer.
      attempt (ok_or (cpr_pin_hash_enc req) Err_MissingParameter) a (\<lambda>pin_hash_enc.
      attempt (ok_or (cpr_new_pin_enc req) Err_MissingParameter) a (\<lambda>new_pin_enc.
      attempt (ok_or (cpr_pin_auth req) Err_MissingParameter) a (\<lambda>pin_auth.
      andthen (perform_key_agreement env a protocol peer) (\<lambda>secret a.
      attempt (verify_mac env protocol secret (new_pin_enc @ pin_hash_enc) pin_auth) a (\<lambda>_.
      andthen (check_pin_hash env a protocol secret pin_hash_enc) (\<lambda>_ a.
      attempt (decrypt_new_pin env protocol secret new_pin_enc) a (\<lambda>new_pin.
      andthen (map_outcome_err (\<lambda>_. Err_Unknown)
                 (auth_store env (invalidate_pin_uv_auth_token a) PIN_STORAGE_KEY (pin_hash env new_pin)))
        (\<lambda>_ a. (a, Inr client_pin_response_default))))))))))))))"

definition handle_get_pin_token_common ::
  "('b, 'p, 'v) cenv \<Rightarrow> ('b, 'p, 'v) auth \<Rightarrow> ClientPinRequest \<Rightarrow> PinUvProtocol \<Rightarrow> u8 \<Rightarrow> string option
     \<Rightarrow> (('b, 'p, 'v) auth, Ctap2Error, ClientPinResponse) outcome" where
  "handle_get_pin_token_common env a req protocol permissions permissions_rp_id =
     check (\<not> is_pin_set env a) Err_PinNotSet a
     (check (is_force_change_pin env a) Err_PinPolicyViolation a
     (check (get_pin_retries env a = 0) Err_PinBlocked a
     (check (is_pin_auth_blocked a) Err_PinAuthBlocked a
     (attempt (ok_or (cpr_key_agreement req) Err_MissingParameter) a (\<lambda>peer.
      attempt (ok_or (cpr_pin_hash_enc req) Err_MissingParameter) a (\<lambda>pin_hash_enc.
      andthen (perform_key_agreement env a protocol peer) (\<lambda>secret a.
      andthen (check_pin_hash env a protocol secret pin_hash_enc) (\<lambda>_ a.
      andthen (issue_pin_uv_auth_token env a protocol secret permissions permissions_rp_id) (\<lambda>token_enc a.
        (a, Inr (client_pin_response_default\<lparr>cps_pin_uv_auth_token := Some token_enc\<rparr>)))))))))))"

definition handle_get_pin_token ::
  "('b, 'p, 'v) cenv \<Rightarrow> ('b, 'p, 'v) auth \<Rightarrow> ClientPinRequest \<Rightarrow> (('b, 'p, 'v) auth, Ctap2Error, ClientPinResponse) outcome" where
  "handle_get_pin_token env a req =
     attempt (validate_protocol (cpr_pin_protocol req)) a (\<lambda>protocol.
     check (cpr_permissions req \<noteq> None \<or> cpr_rp_id req \<noteq> None) Err_InvalidParameter a
       (handle_get_pin_token_common env a req protocol PERMISSION_MC_GA None))"

definition handle_get_pin_token_with_permissions ::
  "('b, 'p, 'v) cenv \<Rightarrow> ('b, 'p, 'v) auth \<Rightarrow> ClientPinRequest \<Rightarrow> (('b, 'p, 'v) auth, Ctap2Error, ClientPinResponse) outcome" where
  "handle_get_pin_token_with_permissions env a req =
     attempt (validate_protocol (cpr_pin_protocol req)) a (\<lambda>protocol.
     attempt (ok_or (cpr_permissions req) Err_MissingParameter) a (\<lambda>permissions.
     attempt (validate_permissions a permissions) a (\<lambda>_.
     check (permissions AND (PERMISSION_MC OR PERMISSION_GA) \<noteq> 0 \<and> cpr_rp_id req = None) Err_MissingParameter a
       (handle_get_pin_token_common env a req protocol permissions (cpr_rp_id req)))))"

definition handle_get_uv_retries ::
  "('b, 'p, 'v) cenv \<Rightarrow> ('b, 'p, 'v) auth \<Rightarrow> (Ctap2Error, ClientPinResponse) result" where
  "handle_get_uv_retries env a =
     (case builtin_uv_retries env a of
        Some retries \<Rightarrow> Inr (client_pin_response_default\<lparr>cps_uv_retries := Some retries\<rparr>)
      | None \<Rightarrow> Inl Err_UnsupportedOption)"

definition handle_get_uv_token ::
  "('b, 'p, 'v) cenv \<Rightarrow> ('b, 'p, 'v) auth \<Rightarrow> ClientPinRequest \<Rightarrow> (('b, 'p, 'v) auth, Ctap2Error, ClientPinResponse) outcome" where
  "handle_get_uv_token env a req =
     attempt (validate_protocol (cpr_pin_protocol req)) a (\<lambda>protocol.
     attempt (ok_or (cpr_permissions req) Err_MissingParameter) a (\<lambda>permissions.
     attempt (validate_permissions a permissions) a (\<lambda>_.
     andthen (perform_builtin_uv env a) (\<lambda>_ a.
     check (permissions AND (PERMISSION_MC OR PERMISSION_GA) \<noteq> 0 \<and> cpr_rp_id req = None) Err_MissingParameter a
     (attempt (ok_or (cpr_key_agreement req) Err_MissingParameter) a (\<lambda>peer.
      andthen (perform_key_agreement env a protocol peer) (\<lambda>secret a.
      andthen (issue_pin_uv_auth_token env a protocol secret permissions (cpr_rp_id req)) (\<lambda>token_enc a.
        (a, Inr (client_pin_response_default\<lparr>cps_pin_uv_auth_token := Some token_enc\<rparr>))))))))))"

definition run_client_pin ::
  "('b, 'p, 'v) cenv \<Rightarrow> ('b, 'p, 'v) auth \<Rightarrow> ClientPinSubCommand \<Rightarrow> ClientPinRequest
     \<Rightarrow> (('b, 'p, 'v) auth, Ctap2Error, ClientPinResponse) outcome" where
  "run_client_pin env a sub req =
     (case sub of
        GetPINRetries \<Rightarrow> (a, handle_get_retries env a)
      | GetKeyAgreement \<Rightarrow> handle_get_key_agreement env a req
      | SetPIN \<Rightarrow> handle_set_pin env a req
      | ChangePIN \<Rightarrow> handle_change_pin env a req
      | GetPINToken \<Rightarrow> handle_get_pin_token env a req
      | GetPinUvAuthTokenUsingUvWithPermissions \<Rightarrow> handle_get_uv_token env a req
      | GetUVRetries \<Rightarrow> (a, handle_get_uv_retries env a)
      | GetPinUvAuthTokenUsingPinWithPermissions \<Rightarrow> handle_get_pin_token_with_permissions env a req)"

definition handle_client_pin ::
  "('b, 'p, 'v) cenv \<Rightarrow> ('b, 'p, 'v) auth \<Rightarrow> bytes \<Rightarrow> (('b, 'p, 'v) auth, Ctap2Error, bytes) outcome" where
  "handle_client_pin env a data =
     attempt (decode_client_pin_request (cbor env) data) a (\<lambda>req.
     attempt (ok_or (sub_command_from_u8 (cpr_sub_command req)) Err_InvalidParameter) a (\<lambda>sub.
     andthen (run_client_pin env a sub req) (\<lambda>response a.
     attempt (encode_client_pin_response (cbor env) response) a (\<lambda>bs. (a, Inr bs)))))"

end
