(* ===== verification/Example_Device.thy ===== *)
theory Example_Device
  imports Authenticator
begin

section \<open>A concrete device\<close>

text \<open>
  A concrete environment and authenticator at which the properties of the authenticator are instantiated: the
  example primitives of theory \<open>Crypto\<close>, the map backend of theory \<open>Storage_Engine\<close>, a button that is always
  pressed, a verifier that always agrees, a clock that advances, and a CBOR library that reads one given value.
\<close>

definition unread_codec :: "string \<Rightarrow> 'a SerdeCodec" where
  "unread_codec n = \<lparr>serde_type = n, serde_write = (\<lambda>_. Some [0]), serde_read = (\<lambda>_. None)\<rparr>"

definition codec_reading :: "string \<Rightarrow> 'a \<Rightarrow> 'a SerdeCodec" where
  "codec_reading n x = \<lparr>serde_type = n, serde_write = (\<lambda>_. Some [0]), serde_read = (\<lambda>_. Some x)\<rparr>"

definition example_lib :: "Value \<Rightarrow> CborLib" where
  "example_lib v = \<lparr>cv_write = (\<lambda>_. Some [0]), cv_read = (\<lambda>bs. if bs = [] then None else Some (v, tl bs))\<rparr>"

definition example_cenv :: "Value \<Rightarrow> ((string, bytes) btree, unit, unit) cenv" where
  "example_cenv v =
     \<lparr>senv = example_env, cbor = example_lib v, is_present = (\<lambda>p. (p, True)), uv_verify = (\<lambda>v. (v, Inr ())),
      clock_millis = (\<lambda>n. 1000 + of_nat n), feature_std = True, feature_rs256 = True,
      mc_request = unread_codec ''MakeCredentialRequest'', mc_response = unread_codec ''MakeCredentialResponse'',
      ga_request = unread_codec ''GetAssertionRequest'', ga_response = unread_codec ''GetAssertionResponse'',
      info_response = unread_codec ''GetInfoResponse'', version_response = unread_codec ''GetVersionResponse'',
      bio_request = unread_codec ''BioEnrollRequest'', bio_response = unread_codec ''BioEnrollResponse'',
      rps_response = unread_codec ''EnumerateRPsResponse'',
      lb_request = unread_codec ''LargeBlobsRequest'', lb_response = unread_codec ''LargeBlobsResponse'',
      cm_request = unread_codec ''CredentialManagementRequest'', cm_metadata_response = unread_codec ''CredsMetadataResponse'',
      cm_rps_response = unread_codec ''EnumerateRpsEntryResponse'',
      cm_creds_response = unread_codec ''EnumerateCredentialsEntryResponse'',
      cose_map = unread_codec ''BTreeMap'', rp_ids = unread_codec ''Vec''\<rparr>"

definition example_auth :: "((string, bytes) btree, unit, unit) auth" where
  "example_auth = authenticator_new (replicate 16 0) (from_key (replicate 32 1)) (engine_empty None) 0 0 0"

text \<open>The example device after a PIN with the given hash was stored.\<close>

definition example_pin_auth :: "bytes \<Rightarrow> ((string, bytes) btree, unit, unit) auth" where
  "example_pin_auth h = fst (auth_store (example_cenv Null) example_auth PIN_STORAGE_KEY h)"

lemma example_auth_memory [simp]: "backend (au_storage example_auth) = None"
  by (simp add: example_auth_def authenticator_new_def engine_empty_def)

end
