(* ===== verification/Pin_Lockout.thy ===== *)
theory Pin_Lockout
  imports Client_Pin Example_Device
begin

section \<open>The PIN lockout\<close>

text \<open>
  An abstract machine for the PIN of the authenticator (the stored hash, the persistent number of retries, the
  failures since power-up) and the proof that authenticatorClientPIN refines it: every command is one step of
  the machine. From the machine follow the limits on guessing: without the right PIN there are at most as many
  comparisons as retries are left, over any number of power cycles, and at most three per power cycle.

  The refinement is about an engine whose key-value writes succeed (locale \<open>reliable_auth\<close>, interpreted on the
  engine without a backend): the handlers ignore a failed write of the counter.
\<close>

subsection \<open>The abstract machine\<close>

record PinState =
  ps_hash :: "bytes option"
  ps_retries :: nat
  ps_failures :: nat

text \<open>What one command does: nothing to the PIN, submit a hash (\<open>None\<close> when it does not decrypt), set the first PIN.\<close>

datatype PinEvent = Quiet | Submit "bytes option" | SetFirst | PowerCycle

inductive pin_step :: "PinState \<Rightarrow> PinEvent \<Rightarrow> PinState \<Rightarrow> bool" where
  quiet: "pin_step s Quiet s"
| wrong: "ps_hash s = Some h \<Longrightarrow> sub \<noteq> Some h \<Longrightarrow> 0 < ps_retries s \<Longrightarrow> ps_failures s < 3 \<Longrightarrow>
     pin_step s (Submit sub) (s\<lparr>ps_retries := ps_retries s - 1, ps_failures := ps_failures s + 1\<rparr>)"
| right: "ps_hash s = Some h \<Longrightarrow> 0 < ps_retries s \<Longrightarrow> ps_failures s < 3 \<Longrightarrow>
     pin_step s (Submit (Some h)) \<lparr>ps_hash = Some h', ps_retries = 8, ps_failures = 0\<rparr>"
| first: "ps_hash s = None \<Longrightarrow> pin_step s SetFirst \<lparr>ps_hash = Some h', ps_retries = 8, ps_failures = 0\<rparr>"
| power: "pin_step s PowerCycle (s\<lparr>ps_failures := 0\<rparr>)"

inductive_cases pin_step_cases: "pin_step s e s'"

inductive pin_run :: "PinState \<Rightarrow> PinEvent list \<Rightarrow> PinState \<Rightarrow> bool" where
  run_nil: "pin_run s [] s"
| run_cons: "pin_step s e s' \<Longrightarrow> pin_run s' es s'' \<Longrightarrow> pin_run s (e # es) s''"

inductive_cases pin_run_cases: "pin_run s (e # es) s''" "pin_run s [] s''"

definition is_submit :: "PinEvent \<Rightarrow> bool" where
  "is_submit e = (case e of Submit _ \<Rightarrow> True | _ \<Rightarrow> False)"

lemma is_submit_simps [simp]: "\<not> is_submit Quiet" "is_submit (Submit x)" "\<not> is_submit SetFirst" "\<not> is_submit PowerCycle"
  by (simp_all add: is_submit_def)

text \<open>Without the right hash the stored hash stays, and every submission costs a retry.\<close>

lemma wrong_run_budget:
  assumes "pin_run s es s'" "ps_hash s = Some h" "Submit (Some h) \<notin> set es"
  shows "ps_hash s' = Some h \<and> ps_retries s' + length (filter is_submit es) = ps_retries s"
  using assms
proof (induction rule: pin_run.induct)
  case (run_cons s e s' es s'')
  from run_cons.hyps(1) have "ps_hash s' = Some h \<and> ps_retries s' + (if is_submit e then 1 else 0) = ps_retries s"
    using run_cons.prems by (cases rule: pin_step_cases) auto
  then show ?case using run_cons by auto
qed simp

text \<open>Three wrong submissions block the PIN until the next power cycle.\<close>

lemma wrong_run_power_cycles:
  assumes "pin_run s es s'" "ps_hash s = Some h" "Submit (Some h) \<notin> set es"
  shows "length (filter is_submit es) \<le> (3 - ps_failures s) + 3 * count_list es PowerCycle"
  using assms
proof (induction rule: pin_run.induct)
  case (run_cons s e s' es s'')
  from run_cons.hyps(1) have "ps_hash s' = Some h \<and>
      (if is_submit e then 1 else 0) + (3 - ps_failures s') \<le> (3 - ps_failures s) + (if e = PowerCycle then 3 else 0)"
    using run_cons.prems by (cases rule: pin_step_cases) auto
  then show ?case using run_cons by auto
qed simp

subsection \<open>The abstraction\<close>

definition pin_abs :: "('b, 'p, 'v) cenv \<Rightarrow> ('b, 'p, 'v) auth \<Rightarrow> PinState" where
  "pin_abs env a =
     \<lparr>ps_hash = ok (auth_retrieve env a PIN_STORAGE_KEY), ps_retries = unat (get_pin_retries env a),
      ps_failures = unat (au_pin_failures_since_reset a)\<rparr>"

text \<open>Steps that leave the PIN alone: the storage, the failure count, the token and the board's verifier are the same.\<close>

definition pin_same :: "('b, 'p, 'v) auth \<Rightarrow> ('b, 'p, 'v) auth \<Rightarrow> bool" where
  "pin_same a a' = (au_storage a' = au_storage a
     \<and> au_pin_failures_since_reset a' = au_pin_failures_since_reset a
     \<and> au_pin_uv_auth_token a' = au_pin_uv_auth_token a
     \<and> au_user_verification a' = au_user_verification a)"

lemma pin_same_refl [simp]: "pin_same a a"
  by (simp add: pin_same_def)

lemma pin_same_trans: "pin_same a b \<Longrightarrow> pin_same b c \<Longrightarrow> pin_same a c"
  by (simp add: pin_same_def)

lemma pin_same_abs: "pin_same a a' \<Longrightarrow> pin_abs env a' = pin_abs env a"
  by (simp add: pin_same_def pin_abs_def auth_retrieve_def get_pin_retries_def)

lemma pin_keys_distinct [simp]:
  "PIN_STORAGE_KEY \<noteq> PIN_RETRIES_KEY" "PIN_RETRIES_KEY \<noteq> PIN_STORAGE_KEY"
  "PIN_STORAGE_KEY \<noteq> UV_RETRIES_KEY" "PIN_RETRIES_KEY \<noteq> UV_RETRIES_KEY"
  by (simp_all add: PIN_STORAGE_KEY_def PIN_RETRIES_KEY_def UV_RETRIES_KEY_def)

lemma auth_store_fields [simp]:
  "au_pin_failures_since_reset (fst (auth_store env a k v)) = au_pin_failures_since_reset a"
  "au_pin_uv_auth_token (fst (auth_store env a k v)) = au_pin_uv_auth_token a"
  "au_user_verification (fst (auth_store env a k v)) = au_user_verification a"
  "au_storage (fst (auth_store env a k v)) = fst (store (senv env) (au_storage a) k v)"
  "snd (auth_store env a k v) = snd (store (senv env) (au_storage a) k v)"
  by (simp_all add: auth_store_def split: prod.splits)

subsection \<open>Simulation\<close>

text \<open>The PIN hash a request carries, as the key agreement of the current state decrypts it; \<open>None\<close> if there is none.\<close>

definition submitted_hash :: "('b, 'p, 'v) cenv \<Rightarrow> ('b, 'p, 'v) auth \<Rightarrow> ClientPinRequest \<Rightarrow> bytes option" where
  "submitted_hash env a req =
     Option.bind (ok (validate_protocol (cpr_pin_protocol req))) (\<lambda>protocol.
     Option.bind (cpr_key_agreement req) (\<lambda>peer.
     Option.bind (cpr_pin_hash_enc req) (\<lambda>enc.
     Option.bind (ok (snd (perform_key_agreement env a protocol peer))) (\<lambda>secret.
       ok (decrypt_pin_hash env protocol secret enc)))))"

definition carried_hash :: "('b, 'p, 'v) cenv \<Rightarrow> ('b, 'p, 'v) auth \<Rightarrow> bytes \<Rightarrow> bytes option" where
  "carried_hash env a data = Option.bind (ok (decode_client_pin_request (cbor env) data)) (submitted_hash env a)"

text \<open>
  One command from \<open>a\<close> that carries the hash \<open>sub\<close>, with outcome \<open>r\<close>, is a step of the machine: only a submission
  is answered with the verdict that the PIN is invalid, and only the submission of the stored hash brings a token.
\<close>

definition pin_sim :: "('b, 'p, 'v) cenv \<Rightarrow> ('b StorageEngine \<Rightarrow> bool) \<Rightarrow> bytes option \<Rightarrow> ('b, 'p, 'v) auth
    \<Rightarrow> (('b, 'p, 'v) auth, Ctap2Error, 'x) outcome \<Rightarrow> bool" where
  "pin_sim env good sub a r = (good (au_storage (fst r)) \<and> au_user_verification (fst r) = au_user_verification a \<and>
     (\<exists>e \<in> {Quiet, SetFirst, Submit sub}. pin_step (pin_abs env a) e (pin_abs env (fst r)) \<and>
        (is_submit e \<or> snd r \<noteq> Inl Err_PinInvalid) \<and>
        (e = Submit (ps_hash (pin_abs env a))
           \<or> au_pin_uv_auth_token (fst r) = au_pin_uv_auth_token a \<or> au_pin_uv_auth_token (fst r) = None)))"

lemma pin_sim_same: "pin_same a a' \<Longrightarrow> pin_sim env good sub a' r \<Longrightarrow> pin_sim env good sub a r"
  using pin_same_abs [of a a' env] unfolding pin_sim_def pin_same_def by simp

lemma pin_sim_quiet: "pin_same a a' \<Longrightarrow> good (au_storage a) \<Longrightarrow> r \<noteq> Inl Err_PinInvalid \<Longrightarrow> pin_sim env good sub a (a', r)"
  using pin_same_abs [of a a' env] quiet [of "pin_abs env a"] by (simp add: pin_sim_def pin_same_def)

lemma pin_sim_attempt:
  assumes "good (au_storage a)" "r \<noteq> Inl Err_PinInvalid" "\<And>x. r = Inr x \<Longrightarrow> pin_sim env good sub a (f x)"
  shows "pin_sim env good sub a (attempt r a f)"
  using assms by (cases r) (auto intro: pin_sim_quiet)

lemma pin_sim_check:
  assumes "good (au_storage a)" "e \<noteq> Err_PinInvalid" "\<not> c \<Longrightarrow> pin_sim env good sub a k"
  shows "pin_sim env good sub a (check c e a k)"
  using assms by (cases c) (auto intro: pin_sim_quiet)

lemma pin_sim_andthen_same:
  assumes "good (au_storage a)" "pin_same a (fst r)" "snd r \<noteq> Inl Err_PinInvalid"
    and "\<And>x a'. r = (a', Inr x) \<Longrightarrow> pin_same a a' \<Longrightarrow> good (au_storage a') \<Longrightarrow> pin_sim env good sub a' (f x a')"
  shows "pin_sim env good sub a (andthen r f)"
proof (cases r)
  case (Pair a' q)
  then have "good (au_storage a')" using assms(1,2) by (simp add: pin_same_def)
  then show ?thesis using Pair assms by (cases q) (auto intro: pin_sim_same pin_sim_quiet)
qed

text \<open>What follows a right submission may replace the hash but leaves the counters alone.\<close>

definition pin_accepted :: "('b, 'p, 'v) cenv \<Rightarrow> ('b StorageEngine \<Rightarrow> bool) \<Rightarrow> 'v option \<Rightarrow> ('b, 'p, 'v) auth \<Rightarrow> bool" where
  "pin_accepted env good v a = (good (au_storage a) \<and> au_user_verification a = v \<and> (\<exists>h. pin_abs env a = \<lparr>ps_hash = Some h, ps_retries = 8, ps_failures = 0\<rparr>))"

lemma perform_key_agreement_same:
  "pin_same a (fst (perform_key_agreement env a protocol peer))"
  "snd (perform_key_agreement env a protocol peer) \<noteq> Inl Err_PinInvalid"
  by (auto simp: perform_key_agreement_def take_pin_agreement_key_def to_uncompressed_def next_draw_def pin_same_def
      attempt_def andthen_def map_err_def split: option.splits sum.splits if_splits)

lemma issue_token_same:
  "au_storage (fst (issue_pin_uv_auth_token env a protocol secret permissions rp)) = au_storage a"
  "au_pin_failures_since_reset (fst (issue_pin_uv_auth_token env a protocol secret permissions rp)) = au_pin_failures_since_reset a"
  "au_user_verification (fst (issue_pin_uv_auth_token env a protocol secret permissions rp)) = au_user_verification a"
  by (simp_all add: issue_pin_uv_auth_token_def auth_random_def next_draw_def set_pin_uv_auth_token_def
      set_pin_shared_secret_def andthen_def Let_def split: sum.splits)

lemma validate_protocol_err: "validate_protocol p \<noteq> Inl Err_PinInvalid"
  by (auto simp: validate_protocol_def bind_result_def ok_or_def map_err_def split: option.splits sum.splits)

lemma verify_mac_err: "verify_mac env p s m t \<noteq> Inl Err_PinInvalid"
  by (auto simp: verify_mac_def bind_result_def map_err_def split: sum.splits if_splits)

lemma decrypt_new_pin_err: "decrypt_new_pin env p s m \<noteq> Inl Err_PinInvalid"
  by (auto simp: decrypt_new_pin_def bind_result_def map_err_def split: sum.splits if_splits)

lemma validate_permissions_err: "validate_permissions a p \<noteq> Inl Err_PinInvalid"
  by (auto simp: validate_permissions_def)

lemma ok_or_err: "ok_or x Err_MissingParameter \<noteq> Inl Err_PinInvalid"
  by (simp add: ok_or_def split: option.splits)

lemmas no_pin_invalid = validate_protocol_err verify_mac_err decrypt_new_pin_err validate_permissions_err ok_or_err

lemma bind_result_err: "r \<noteq> Inl x \<Longrightarrow> (\<And>y. f y \<noteq> Inl x) \<Longrightarrow> bind_result r f \<noteq> Inl x"
  by (cases r) simp_all

lemma value_err:
  "pin_value_to_u8 v \<noteq> Inl Err_PinInvalid" "pin_value_to_bytes v \<noteq> Inl Err_PinInvalid"
  "pin_value_to_text v \<noteq> Inl Err_PinInvalid" "from_cose_value v \<noteq> Inl Err_PinInvalid"
  by (auto simp: pin_value_to_u8_def pin_value_to_bytes_def pin_value_to_text_def from_cose_value_def bind_result_def ok_or_def Let_def
      split: Value.splits option.splits if_splits)

lemma assign_field_err: "assign_field n v req \<noteq> Inl Err_PinInvalid"
  by (simp add: assign_field_def bind_result_err value_err)

lemma assign_fields_err: "assign_fields ns vs req \<noteq> Inl Err_PinInvalid"
  by (induction ns vs req rule: assign_fields.induct) (simp_all add: bind_result_err assign_field_err)

lemma decode_map_err: "decode_request_from_map es req \<noteq> Inl Err_PinInvalid"
  by (induction es req rule: decode_request_from_map.induct)
     (simp_all add: Let_def bind_result_err value_err assign_field_err)

lemma decode_array_err: "decode_request_from_array vs \<noteq> Inl Err_PinInvalid"
  by (simp add: decode_request_from_array_def Let_def bind_result_err value_err assign_fields_err split: option.split)

lemma decode_request_err: "decode_client_pin_request lib data \<noteq> Inl Err_PinInvalid"
  unfolding decode_client_pin_request_def
  by (rule bind_result_err) (auto simp: ok_or_def decode_map_err decode_array_err split: option.splits Value.splits if_splits)

lemma encode_response_err: "encode_client_pin_response lib r \<noteq> Inl Err_PinInvalid"
  unfolding encode_client_pin_response_def
  by (intro bind_result_err) (auto simp: ok_or_def bind_result_def split: option.splits)

lemma encode_keeps_state: "fst (andthen r (\<lambda>x a. attempt (f x) a (\<lambda>bs. (a, Inr bs)))) = fst r"
  by (auto simp: andthen_def attempt_def split: prod.splits sum.splits)

lemma sub_command_err: "ok_or x Err_InvalidParameter \<noteq> Inl Err_PinInvalid"
  by (simp add: ok_or_def split: option.splits)

subsection \<open>Effects on the abstract state\<close>

locale reliable_auth = reliable_kv "store (senv env)" "retrieve (senv env)" "kv_delete (senv env)" good
  for env :: "('b, 'p, 'v) cenv" and good :: "'b StorageEngine \<Rightarrow> bool"
begin

lemma good_auth_store [simp]: "good (au_storage a) \<Longrightarrow> good (fst (store (senv env) (au_storage a) k v))"
  by (rule put_good)

lemma auth_store_ok: "good (au_storage a) \<Longrightarrow> snd (store (senv env) (au_storage a) k v) = Inr ()"
  by (rule put_ok)

lemma retrieve_auth_store:
  "good (au_storage a) \<Longrightarrow>
     ok (auth_retrieve env (fst (auth_store env a k v)) k') = (if k' = k then Some v else ok (auth_retrieve env a k'))"
  by (simp add: auth_retrieve_def put_same)

lemma pin_abs_store_hash:
  "good (au_storage a) \<Longrightarrow>
     pin_abs env (fst (auth_store env a PIN_STORAGE_KEY v)) = (pin_abs env a)\<lparr>ps_hash := Some v\<rparr>"
  by (simp add: pin_abs_def get_pin_retries_def read_counter_def retrieve_auth_store)

lemma pin_abs_store_retries:
  "good (au_storage a) \<Longrightarrow>
     pin_abs env (fst (auth_store env a PIN_RETRIES_KEY (print_word (n :: u8)))) = (pin_abs env a)\<lparr>ps_retries := unat n\<rparr>"
  by (simp add: pin_abs_def get_pin_retries_def read_counter_def retrieve_auth_store)

lemma pin_abs_store_uv:
  "good (au_storage a) \<Longrightarrow> pin_abs env (fst (auth_store env a UV_RETRIES_KEY v)) = pin_abs env a"
  by (simp add: pin_abs_def get_pin_retries_def read_counter_def retrieve_auth_store)

lemma pin_abs_decrement:
  "good (au_storage a) \<Longrightarrow> 0 < ps_retries (pin_abs env a) \<Longrightarrow>
     pin_abs env (decrement_pin_retries env a) = (pin_abs env a)\<lparr>ps_retries := ps_retries (pin_abs env a) - 1\<rparr>"
  by (simp add: decrement_pin_retries_def pin_abs_store_retries saturating_sub_word_def)
     (simp add: pin_abs_def unat_minus_one word_less_1)

lemma pin_abs_reset:
  "good (au_storage a) \<Longrightarrow>
     pin_abs env (reset_pin_retries env a) = (pin_abs env a)\<lparr>ps_retries := 8, ps_failures := 0\<rparr>"
  by (simp add: reset_pin_retries_def pin_abs_store_retries PIN_MAX_RETRIES_def)
     (simp add: pin_abs_def auth_retrieve_def get_pin_retries_def)

text \<open>A failure that is registered is a wrong submission.\<close>

lemma register_failure_sim:
  assumes good: "good (au_storage a)"
    and set: "ps_hash (pin_abs env a) = Some h" "0 < ps_retries (pin_abs env a)" "ps_failures (pin_abs env a) < 3"
    and wrong: "sub \<noteq> Some h"
  shows "pin_sim env good sub a (let (a, e) = pin_failure_error env (decrement_pin_retries env a) in (a, Inl e))"
proof -
  let ?d = "decrement_pin_retries env a"
  let ?a = "?d\<lparr>au_pin_failures_since_reset := saturating_add_word (au_pin_failures_since_reset ?d) 1\<rparr>"
  have st: "fst (let (a, e) = pin_failure_error env ?d in (a, Inl e)) = ?a"
    by (simp add: pin_failure_error_def register_pin_failure_def Let_def)
  have fails: "au_pin_failures_since_reset ?d = au_pin_failures_since_reset a"
    by (simp add: decrement_pin_retries_def)
  have "unat (saturating_add_word (au_pin_failures_since_reset a) 1) = unat (au_pin_failures_since_reset a) + 1"
    using set(3) by (simp add: saturating_add_word_def pin_abs_def unat_word_ariths)
  then have "pin_abs env ?a = (pin_abs env ?d)\<lparr>ps_failures := ps_failures (pin_abs env a) + 1\<rparr>"
    by (simp add: pin_abs_def fails get_pin_retries_def auth_retrieve_def)
  then have "pin_abs env ?a = (pin_abs env a)\<lparr>ps_retries := ps_retries (pin_abs env a) - 1,
      ps_failures := ps_failures (pin_abs env a) + 1\<rparr>"
    by (simp add: pin_abs_decrement good set)
  then have "pin_step (pin_abs env a) (Submit sub) (pin_abs env ?a)"
    using pin_step.wrong [OF set(1) wrong set(2,3)] by simp
  moreover have "good (au_storage ?a)"
    using good by (simp add: decrement_pin_retries_def)
  ultimately show ?thesis unfolding pin_sim_def st by (simp add: decrement_pin_retries_def)
qed

lemma check_pin_hash_sim:
  assumes good: "good (au_storage a)"
    and set: "ps_hash (pin_abs env a) = Some h" "0 < ps_retries (pin_abs env a)" "ps_failures (pin_abs env a) < 3"
    and cont: "\<And>a'. pin_accepted env good (au_user_verification a) a' \<Longrightarrow> pin_accepted env good (au_user_verification a) (fst (f () a'))"
  shows "pin_sim env good (ok (decrypt_pin_hash env protocol secret enc)) a
           (andthen (check_pin_hash env a protocol secret enc) f)"
proof -
  let ?d = "decrement_pin_retries env a"
  have d: "pin_abs env ?d = (pin_abs env a)\<lparr>ps_retries := ps_retries (pin_abs env a) - 1\<rparr>" "good (au_storage ?d)"
    using pin_abs_decrement [OF good set(2)] good by (simp, simp add: decrement_pin_retries_def)
  then have "ps_hash (pin_abs env ?d) = Some h" using set(1) by simp
  then have stored: "auth_retrieve env ?d PIN_STORAGE_KEY = Inr h" by (simp add: pin_abs_def ok_Some)
  show ?thesis
  proof (cases "decrypt_pin_hash env protocol secret enc = Inr h")
    case True
    have "pin_accepted env good (au_user_verification a) (reset_pin_retries env ?d)"
      using d set(1) pin_abs_reset [OF d(2)]
      by (cases "pin_abs env a") (simp add: pin_accepted_def, simp add: reset_pin_retries_def decrement_pin_retries_def put_good)
    then have "pin_accepted env good (au_user_verification a) (fst (f () (reset_pin_retries env ?d)))" by (rule cont)
    moreover have "check_pin_hash env a protocol secret enc = (reset_pin_retries env ?d, Inr ())"
      by (simp add: check_pin_hash_def True verify_decrypted_pin_hash_def stored constant_time_eq_def Let_def)
    ultimately show ?thesis
      using right [OF set] True set(1) by (auto simp: pin_accepted_def pin_sim_def)
  next
    case False
    then have "check_pin_hash env a protocol secret enc = (let (a, e) = pin_failure_error env ?d in (a, Inl e))"
      by (auto simp: check_pin_hash_def verify_decrypted_pin_hash_def stored constant_time_eq_def Let_def split: sum.splits)
    then have "andthen (check_pin_hash env a protocol secret enc) f = (let (a, e) = pin_failure_error env ?d in (a, Inl e))"
      by (simp add: Let_def split: prod.splits)
    moreover have "ok (decrypt_pin_hash env protocol secret enc) \<noteq> Some h" using False by (simp add: ok_Some)
    ultimately show ?thesis using register_failure_sim [OF good set] by simp
  qed
qed

lemma pin_open_abs:
  assumes "is_pin_set env a" "get_pin_retries env a \<noteq> 0" "\<not> is_pin_auth_blocked a" "pin_same a a'"
  obtains h where "ps_hash (pin_abs env a') = Some h" "0 < ps_retries (pin_abs env a')" "ps_failures (pin_abs env a') < 3"
proof -
  have "0 < ps_retries (pin_abs env a)" "ps_failures (pin_abs env a) < 3"
    using assms by (simp_all add: pin_abs_def unat_gt_0 is_pin_auth_blocked_def PIN_BLOCK_THRESHOLD_def
        word_le_nat_alt not_le)
  moreover obtain h where "ps_hash (pin_abs env a) = Some h"
    using assms(1) by (auto simp: is_pin_set_def is_ok_def pin_abs_def split: sum.splits)
  ultimately show ?thesis using that by (simp add: pin_same_abs [OF assms(4)])
qed

lemma pin_accepted_attempt: "pin_accepted env good v a \<Longrightarrow> (\<And>x. pin_accepted env good v (fst (f x))) \<Longrightarrow> pin_accepted env good v (fst (attempt r a f))"
  by (cases r) simp_all

lemma pin_accepted_store_hash:
  "pin_accepted env good v a \<Longrightarrow> pin_accepted env good v (fst (andthen (map_outcome_err m
     (auth_store env (invalidate_pin_uv_auth_token a) PIN_STORAGE_KEY h)) (\<lambda>_ a. (a, Inr x))))"
  using pin_abs_store_hash [of "invalidate_pin_uv_auth_token a" h]
  by (auto simp: pin_accepted_def map_outcome_err_def auth_store_ok invalidate_pin_uv_auth_token_def andthen_def
      pin_abs_def auth_retrieve_def get_pin_retries_def split: sum.splits)

lemma pin_accepted_issue:
  "pin_accepted env good v a \<Longrightarrow> pin_accepted env good v (fst (andthen (issue_pin_uv_auth_token env a protocol secret permissions rp) (\<lambda>t a. (a, Inr (x t)))))"
  using issue_token_same [of env a protocol secret permissions rp]
  by (auto simp: pin_accepted_def andthen_def pin_abs_def auth_retrieve_def get_pin_retries_def split: prod.splits sum.splits)

lemma set_pin_sim:
  assumes good: "good (au_storage a)" and unset: "ps_hash (pin_abs env a) = None"
  shows "pin_sim env good sub a (andthen (set_pin env a pin) (\<lambda>_ a. (a, Inr x)))"
proof (cases "length pin < PIN_MIN_LENGTH \<or> length pin > PIN_MAX_LENGTH")
  case True
  then show ?thesis using good by (auto simp: set_pin_def check_def pin_sim_quiet)
next
  case False
  let ?s = "fst (auth_store env a PIN_STORAGE_KEY (pin_hash env pin))"
  let ?r = "(reset_pin_retries env ?s)\<lparr>au_pin_uv_auth_token := None\<rparr>"
  have s: "good (au_storage ?s)" using good by simp
  have "pin_abs env ?r = pin_abs env (reset_pin_retries env ?s)"
    by (simp add: pin_abs_def auth_retrieve_def get_pin_retries_def)
  also have "\<dots> = \<lparr>ps_hash = Some (pin_hash env pin), ps_retries = 8, ps_failures = 0\<rparr>"
    unfolding pin_abs_reset [OF s] pin_abs_store_hash [OF good] by (cases "pin_abs env a") simp
  finally have "pin_step (pin_abs env a) SetFirst (pin_abs env ?r)"
    using first [OF unset] by simp
  moreover have "good (au_storage ?r)" "au_user_verification ?r = au_user_verification a"
    using s by (simp_all add: reset_pin_retries_def put_good)
  ultimately have "pin_sim env good sub a (?r, Inr x)" by (simp add: pin_sim_def)
  then show ?thesis
    using False by (simp add: set_pin_def check_def map_outcome_err_def auth_store_ok [OF good])
qed

lemma pin_sim_agreement:
  assumes "good (au_storage a)"
    and "\<And>x a'. perform_key_agreement env a protocol peer = (a', Inr x) \<Longrightarrow> pin_same a a' \<Longrightarrow> good (au_storage a') \<Longrightarrow>
      pin_sim env good sub a' (f x a')"
  shows "pin_sim env good sub a (andthen (perform_key_agreement env a protocol peer) f)"
  using assms by (intro pin_sim_andthen_same perform_key_agreement_same) auto

lemmas pin_sim_intros = pin_sim_attempt pin_sim_check pin_sim_agreement no_pin_invalid

lemma handle_set_pin_sim:
  assumes good: "good (au_storage a)"
  shows "pin_sim env good sub a (handle_set_pin env a req)"
  unfolding handle_set_pin_def
proof (intro pin_sim_intros good set_pin_sim)
  fix protocol peer new_pin_enc pin_auth secret a' u new_pin
  assume "\<not> is_pin_set env a" "pin_same a a'"
  then show "ps_hash (pin_abs env a') = None"
    unfolding pin_same_abs [OF \<open>pin_same a a'\<close>] by (auto simp: is_pin_set_def is_ok_def pin_abs_def split: sum.splits)
qed simp_all

lemma handle_change_pin_sim:
  assumes good: "good (au_storage a)"
  shows "pin_sim env good (submitted_hash env a req) a (handle_change_pin env a req)"
  unfolding handle_change_pin_def
proof (intro pin_sim_intros good)
  fix protocol peer pin_hash_enc new_pin_enc pin_auth secret a' u
  assume parsed: "validate_protocol (cpr_pin_protocol req) = Inr protocol"
      "ok_or (cpr_key_agreement req) Err_MissingParameter = Inr peer"
      "ok_or (cpr_pin_hash_enc req) Err_MissingParameter = Inr pin_hash_enc"
      "perform_key_agreement env a protocol peer = (a', Inr secret)"
    and set: "\<not> \<not> is_pin_set env a" "get_pin_retries env a \<noteq> 0" "\<not> is_pin_auth_blocked a"
    and same: "pin_same a a'" and good': "good (au_storage a')"
  have sub: "submitted_hash env a req = ok (decrypt_pin_hash env protocol secret pin_hash_enc)"
    using parsed by (simp add: submitted_hash_def ok_or_ok)
  obtain h where h: "ps_hash (pin_abs env a') = Some h" "0 < ps_retries (pin_abs env a')" "ps_failures (pin_abs env a') < 3"
    using pin_open_abs [OF _ set(2,3) same] set(1) by blast
  show "pin_sim env good (submitted_hash env a req) a' (andthen (check_pin_hash env a' protocol secret pin_hash_enc) (\<lambda>_ a.
      attempt (decrypt_new_pin env protocol secret new_pin_enc) a (\<lambda>new_pin.
      andthen (map_outcome_err (\<lambda>_. Err_Unknown)
                 (auth_store env (invalidate_pin_uv_auth_token a) PIN_STORAGE_KEY (pin_hash env new_pin)))
        (\<lambda>_ a. (a, Inr client_pin_response_default)))))"
    unfolding sub by (intro check_pin_hash_sim [OF good' h] pin_accepted_attempt pin_accepted_store_hash)
qed simp_all

lemma get_pin_token_common_sim:
  assumes good: "good (au_storage a)" and protocol: "validate_protocol (cpr_pin_protocol req) = Inr protocol"
  shows "pin_sim env good (submitted_hash env a req) a (handle_get_pin_token_common env a req protocol permissions rp)"
  unfolding handle_get_pin_token_common_def
proof (intro pin_sim_intros good)
  fix peer pin_hash_enc secret a'
  assume parsed: "ok_or (cpr_key_agreement req) Err_MissingParameter = Inr peer"
      "ok_or (cpr_pin_hash_enc req) Err_MissingParameter = Inr pin_hash_enc"
      "perform_key_agreement env a protocol peer = (a', Inr secret)"
    and set: "\<not> \<not> is_pin_set env a" "get_pin_retries env a \<noteq> 0" "\<not> is_pin_auth_blocked a"
    and same: "pin_same a a'" and good': "good (au_storage a')"
  have sub: "submitted_hash env a req = ok (decrypt_pin_hash env protocol secret pin_hash_enc)"
    using parsed protocol by (simp add: submitted_hash_def ok_or_ok)
  obtain h where h: "ps_hash (pin_abs env a') = Some h" "0 < ps_retries (pin_abs env a')" "ps_failures (pin_abs env a') < 3"
    using pin_open_abs [OF _ set(2,3) same] set(1) by blast
  show "pin_sim env good (submitted_hash env a req) a' (andthen (check_pin_hash env a' protocol secret pin_hash_enc) (\<lambda>_ a.
      andthen (issue_pin_uv_auth_token env a protocol secret permissions rp) (\<lambda>token_enc a.
        (a, Inr (client_pin_response_default\<lparr>cps_pin_uv_auth_token := Some token_enc\<rparr>)))))"
    unfolding sub by (intro check_pin_hash_sim [OF good' h] pin_accepted_issue)
qed simp_all

lemma get_pin_token_sims:
  assumes good: "good (au_storage a)"
  shows "pin_sim env good (submitted_hash env a req) a (handle_get_pin_token env a req)"
    "pin_sim env good (submitted_hash env a req) a (handle_get_pin_token_with_permissions env a req)"
  unfolding handle_get_pin_token_def handle_get_pin_token_with_permissions_def
  by (intro pin_sim_intros good get_pin_token_common_sim; simp)+

lemma get_key_agreement_sim:
  assumes good: "good (au_storage a)"
  shows "pin_sim env good sub a (handle_get_key_agreement env a req)"
proof -
  have "pin_same a (fst (handle_get_key_agreement env a req))" "snd (handle_get_key_agreement env a req) \<noteq> Inl Err_PinInvalid"
    by (auto simp: handle_get_key_agreement_def validate_protocol_def next_draw_def set_pin_agreement_key_def encode_cose_def
        attempt_def andthen_def bind_result_def ok_or_def map_err_def pin_same_def Let_def
        split: option.splits sum.splits if_splits)
  then show ?thesis using good by (metis pin_sim_quiet prod.collapse)
qed

lemma run_client_pin_sim:
  assumes "good (au_storage a)" "sub \<noteq> GetPinUvAuthTokenUsingUvWithPermissions"
  shows "pin_sim env good (submitted_hash env a req) a (run_client_pin env a sub req)"
  using assms
  by (cases sub)
     (simp_all add: run_client_pin_def handle_set_pin_sim handle_change_pin_sim get_pin_token_sims get_key_agreement_sim
        pin_sim_quiet handle_get_retries_def handle_get_uv_retries_def split: option.split)

text \<open>Built-in user verification leaves the PIN alone; without a verifier on the board the subcommand only fails.\<close>

lemma pin_abs_eqI:
  "au_storage a' = au_storage a \<Longrightarrow> au_pin_failures_since_reset a' = au_pin_failures_since_reset a \<Longrightarrow> pin_abs env a' = pin_abs env a"
  by (simp add: pin_abs_def auth_retrieve_def get_pin_retries_def)

lemma perform_builtin_uv_abs:
  assumes "good (au_storage a)"
  shows "good (au_storage (fst (perform_builtin_uv env a))) \<and> pin_abs env (fst (perform_builtin_uv env a)) = pin_abs env a"
proof -
  have "pin_abs env (a\<lparr>au_user_verification := v\<rparr>) = pin_abs env a" for v by (rule pin_abs_eqI) simp_all
  then show ?thesis
    using assms pin_abs_store_uv [of "a\<lparr>au_user_verification := v\<rparr>" for v]
    by (simp add: perform_builtin_uv_def reset_uv_retries_def decrement_uv_retries_def put_good split: option.split prod.split sum.split)
qed

lemma pin_abs_same: "pin_same a a' \<Longrightarrow> pin_abs env a' = pin_abs env a \<and> (good (au_storage a') = good (au_storage a))"
  by (simp add: pin_same_abs) (simp add: pin_same_def)

lemma get_uv_token_abs:
  assumes "good (au_storage a)"
  shows "good (au_storage (fst (handle_get_uv_token env a req))) \<and> pin_abs env (fst (handle_get_uv_token env a req)) = pin_abs env a"
  unfolding handle_get_uv_token_def
proof (intro attempt_inv [where P = "\<lambda>b. good (au_storage b) \<and> pin_abs env b = pin_abs env a"]
      andthen_inv [where P = "\<lambda>b. good (au_storage b) \<and> pin_abs env b = pin_abs env a"]
      check_inv [where P = "\<lambda>b. good (au_storage b) \<and> pin_abs env b = pin_abs env a"])
  fix protocol peer b
  assume "good (au_storage b) \<and> pin_abs env b = pin_abs env a"
  then show "good (au_storage (fst (perform_key_agreement env b protocol peer)))
      \<and> pin_abs env (fst (perform_key_agreement env b protocol peer)) = pin_abs env a"
    using pin_abs_same [OF perform_key_agreement_same(1)] by simp
next
  fix protocol secret permissions rp b
  assume "good (au_storage b) \<and> pin_abs env b = pin_abs env a"
  then show "good (au_storage (fst (issue_pin_uv_auth_token env b protocol secret permissions rp)))
      \<and> pin_abs env (fst (issue_pin_uv_auth_token env b protocol secret permissions rp)) = pin_abs env a"
    using pin_abs_eqI [OF issue_token_same(1,2)] by (simp add: issue_token_same)
qed (use assms perform_builtin_uv_abs in auto)

lemma get_uv_token_sim:
  assumes "good (au_storage a)" "au_user_verification a = None"
  shows "pin_sim env good sub a (handle_get_uv_token env a req)"
  unfolding handle_get_uv_token_def
  by (intro pin_sim_attempt no_pin_invalid assms(1))
     (use assms in \<open>simp add: perform_builtin_uv_def pin_sim_quiet\<close>)

text \<open>Encoding the response may replace the result by another error, but keeps the state.\<close>

lemma pin_sim_encode:
  assumes "pin_sim env good sub a r" "\<And>x. enc x \<noteq> Inl Err_PinInvalid"
  shows "pin_sim env good sub a (andthen r (\<lambda>x a. attempt (enc x) a (\<lambda>bs. (a, Inr bs))))"
proof -
  have "snd (andthen r (\<lambda>x a. attempt (enc x) a (\<lambda>bs. (a, Inr bs)))) = Inl Err_PinInvalid
      \<Longrightarrow> snd r = Inl Err_PinInvalid"
    using assms(2) by (auto simp: andthen_def attempt_def split: prod.splits sum.splits)
  then show ?thesis using assms(1) unfolding pin_sim_def encode_keeps_state by fastforce
qed

lemma handle_client_pin_sim:
  assumes good: "good (au_storage a)" and uv: "au_user_verification a = None"
  shows "pin_sim env good (carried_hash env a data) a (handle_client_pin env a data)"
  unfolding handle_client_pin_def
proof (intro pin_sim_attempt pin_sim_encode decode_request_err encode_response_err sub_command_err good)
  fix req sub assume "decode_client_pin_request (cbor env) data = Inr req"
  then have "carried_hash env a data = submitted_hash env a req" by (simp add: carried_hash_def)
  then show "pin_sim env good (carried_hash env a data) a (run_client_pin env a sub req)"
    using run_client_pin_sim [OF good, of sub req] get_uv_token_sim [OF good uv]
    by (cases "sub = GetPinUvAuthTokenUsingUvWithPermissions") (simp_all add: run_client_pin_def)
qed

end

subsection \<open>Sessions\<close>

text \<open>
  What a platform does to the device: a ClientPIN command, or a restart, which builds a new authenticator over the
  storage that is left.
\<close>

datatype DeviceEvent = ClientPinCommand bytes | Restart

definition restart :: "('b, 'p, 'v) auth \<Rightarrow> ('b, 'p, 'v) auth" where
  "restart a = authenticator_new (cap_aaguid (au_capabilities a)) (au_crypto a) (au_storage a) (au_draws a)
                 (au_last_ts a) (au_clock_reads a)"

fun pin_session ::
  "('b, 'p, 'v) cenv \<Rightarrow> ('b, 'p, 'v) auth \<Rightarrow> DeviceEvent list \<Rightarrow> ('b, 'p, 'v) auth \<times> (Ctap2Error, bytes) result list" where
  "pin_session env a [] = (a, [])"
| "pin_session env a (ClientPinCommand data # es) =
     (let (a, r) = handle_client_pin env a data; (a, rs) = pin_session env a es in (a, r # rs))"
| "pin_session env a (Restart # es) = pin_session env (restart a) es"

text \<open>No command of the session carries the hash \<open>h\<close>.\<close>

fun never_carries :: "('b, 'p, 'v) cenv \<Rightarrow> ('b, 'p, 'v) auth \<Rightarrow> bytes \<Rightarrow> DeviceEvent list \<Rightarrow> bool" where
  "never_carries env a h [] = True"
| "never_carries env a h (ClientPinCommand data # es) =
     (carried_hash env a data \<noteq> Some h \<and> never_carries env (fst (handle_client_pin env a data)) h es)"
| "never_carries env a h (Restart # es) = never_carries env (restart a) h es"

lemma restart_simps [simp]:
  "au_storage (restart a) = au_storage a" "au_pin_failures_since_reset (restart a) = 0"
  "au_user_verification (restart a) = None" "au_pin_uv_auth_token (restart a) = None"
  by (simp_all add: restart_def authenticator_new_def)

lemma pin_abs_restart [simp]: "pin_abs env (restart a) = (pin_abs env a)\<lparr>ps_failures := 0\<rparr>"
  by (simp add: pin_abs_def auth_retrieve_def get_pin_retries_def)

context reliable_auth
begin

lemma wrong_command:
  assumes good: "good (au_storage a)" "au_user_verification a = None"
    and hash: "ps_hash (pin_abs env a) = Some h" and wrong: "carried_hash env a data \<noteq> Some h"
    and run: "handle_client_pin env a data = (a', r)"
  obtains e where "pin_step (pin_abs env a) e (pin_abs env a')" "e \<noteq> Submit (Some h)" "e \<noteq> PowerCycle"
    "ps_hash (pin_abs env a') = Some h" "good (au_storage a')" "au_user_verification a' = None"
    "is_submit e \<or> r \<noteq> Inl Err_PinInvalid" "au_pin_uv_auth_token a' = au_pin_uv_auth_token a \<or> au_pin_uv_auth_token a' = None"
proof -
  have "pin_sim env good (carried_hash env a data) a (a', r)"
    using handle_client_pin_sim [OF good] run by metis
  then obtain e where e: "e \<in> {Quiet, SetFirst, Submit (carried_hash env a data)}"
      "pin_step (pin_abs env a) e (pin_abs env a')" "is_submit e \<or> r \<noteq> Inl Err_PinInvalid"
      "e = Submit (ps_hash (pin_abs env a)) \<or> au_pin_uv_auth_token a' = au_pin_uv_auth_token a \<or> au_pin_uv_auth_token a' = None"
      "good (au_storage a')" "au_user_verification a' = None"
    using good(2) unfolding pin_sim_def fst_conv snd_conv by metis
  moreover have "ps_hash (pin_abs env a') = Some h"
    using e(2) hash by (cases rule: pin_step_cases) (use e(1) wrong in auto)
  ultimately show ?thesis using that [of e] wrong hash by auto
qed

lemma session_run:
  assumes "good (au_storage a)" "au_user_verification a = None" "ps_hash (pin_abs env a) = Some h"
    "never_carries env a h es" "pin_session env a es = (a', rs)"
  shows "\<exists>evs. pin_run (pin_abs env a) evs (pin_abs env a') \<and> Submit (Some h) \<notin> set evs
    \<and> count_list rs (Inl Err_PinInvalid) \<le> length (filter is_submit evs)
    \<and> count_list evs PowerCycle = count_list es Restart
    \<and> (au_pin_uv_auth_token a' = au_pin_uv_auth_token a \<or> au_pin_uv_auth_token a' = None)"
  using assms
proof (induction es arbitrary: a a' rs)
  case Nil
  then show ?case by (auto intro!: exI [of _ "[]"] run_nil)
next
  case (Cons ev es)
  show ?case
  proof (cases ev)
    case Restart
    then have "pin_session env (restart a) es = (a', rs)" "never_carries env (restart a) h es" using Cons.prems by simp_all
    with Cons.IH [of "restart a"] Cons.prems obtain evs where
      "pin_run (pin_abs env (restart a)) evs (pin_abs env a')" "Submit (Some h) \<notin> set evs"
      "count_list rs (Inl Err_PinInvalid) \<le> length (filter is_submit evs)" "count_list evs PowerCycle = count_list es Restart"
      "au_pin_uv_auth_token a' = None" by auto
    with Restart show ?thesis
      using power [of "pin_abs env a"] by (auto intro!: exI [of _ "PowerCycle # evs"] run_cons)
  next
    case (ClientPinCommand data)
    obtain b r where b: "handle_client_pin env a data = (b, r)" by fastforce
    obtain rs' where rs: "pin_session env b es = (a', rs')" "rs = r # rs'"
      using Cons.prems(5) ClientPinCommand b by (auto split: prod.splits)
    obtain e where e: "pin_step (pin_abs env a) e (pin_abs env b)" "e \<noteq> Submit (Some h)" "e \<noteq> PowerCycle"
      "ps_hash (pin_abs env b) = Some h" "good (au_storage b)" "au_user_verification b = None"
      "is_submit e \<or> r \<noteq> Inl Err_PinInvalid" "au_pin_uv_auth_token b = au_pin_uv_auth_token a \<or> au_pin_uv_auth_token b = None"
      using wrong_command [OF Cons.prems(1-3) _ b] Cons.prems(4) ClientPinCommand by auto
    have "never_carries env b h es" using Cons.prems(4) ClientPinCommand b by simp
    from Cons.IH [OF e(5,6,4) this rs(1)] obtain evs where
      "pin_run (pin_abs env b) evs (pin_abs env a')" "Submit (Some h) \<notin> set evs"
      "count_list rs' (Inl Err_PinInvalid) \<le> length (filter is_submit evs)" "count_list evs PowerCycle = count_list es Restart"
      "au_pin_uv_auth_token a' = au_pin_uv_auth_token b \<or> au_pin_uv_auth_token a' = None" by auto
    with e rs ClientPinCommand show ?thesis
      by (intro exI [of _ "e # evs"]) (auto intro: run_cons)
  qed
qed

end

interpretation memory_auth: reliable_auth env "\<lambda>se. backend se = None" for env :: "('b, 'p, 'v) cenv"
  by (rule reliable_auth.intro) (rule memory_kv_ops)

subsection \<open>Properties\<close>

text \<open>The witnesses run getPINToken with a wrong hash against a device whose PIN is set.\<close>

definition example_token_request :: Value where
  "example_token_request = Map
     [(Integer 1, Integer 2), (Integer 2, Integer 5),
      (Integer 3, to_cose_value \<lparr>cek_x = replicate 32 1, cek_y = replicate 32 2\<rparr>),
      (Integer 6, Bytes (replicate 32 9))]"

lemma example_pin_memory: "backend (au_storage (example_pin_auth h)) = None"
  by (simp add: example_pin_auth_def store_cases)

text \<open>
  Property C5: authenticatorClientPIN refines the PIN machine. On a storage engine whose writes succeed, every
  command (malformed ones and the one for built-in user verification included) is one step of the machine on the
  abstraction of the state, and the only hash it can submit is the one its request carries.
\<close>

theorem client_pin_refines_machine:
  assumes "reliable_kv (store (senv env)) (retrieve (senv env)) (kv_delete (senv env)) good"
    and good: "good (au_storage a)"
  shows "\<exists>e. (e = Quiet \<or> e = SetFirst \<or> e = Submit (carried_hash env a data))
    \<and> pin_step (pin_abs env a) e (pin_abs env (fst (handle_client_pin env a data)))
    \<and> good (au_storage (fst (handle_client_pin env a data)))"
proof -
  have loc: "reliable_auth env good" using assms(1) by (rule reliable_auth.intro)
  have run: "\<exists>e. (e = Quiet \<or> e = SetFirst \<or> e = Submit (submitted_hash env a req))
    \<and> pin_step (pin_abs env a) e (pin_abs env (fst (run_client_pin env a sub req)))
    \<and> good (au_storage (fst (run_client_pin env a sub req)))" for sub req
  proof (cases "sub = GetPinUvAuthTokenUsingUvWithPermissions")
    case True
    then show ?thesis
      using reliable_auth.get_uv_token_abs [OF loc good, of req] quiet [of "pin_abs env a"] by (auto simp: run_client_pin_def)
  next
    case False
    then show ?thesis using reliable_auth.run_client_pin_sim [OF loc good, of sub req] by (auto simp: pin_sim_def)
  qed
  have unchanged: "\<exists>e. (e = Quiet \<or> e = SetFirst \<or> e = Submit (carried_hash env a data))
    \<and> pin_step (pin_abs env a) e (pin_abs env a) \<and> good (au_storage a)"
    using good quiet [of "pin_abs env a"] by blast
  show ?thesis
  proof (cases "decode_client_pin_request (cbor env) data")
    case (Inr req)
    then show ?thesis
      using unchanged run [of req]
      by (cases "ok_or (sub_command_from_u8 (cpr_sub_command req)) Err_InvalidParameter")
         (simp_all add: handle_client_pin_def encode_keeps_state carried_hash_def)
  qed (use unchanged in \<open>simp add: handle_client_pin_def\<close>)
qed

theorem client_pin_refines_machine_witness:
  "\<exists>e. (e = Quiet \<or> e = SetFirst \<or>
         e = Submit (carried_hash (example_cenv example_token_request) (example_pin_auth (replicate 16 7)) [0]))
    \<and> pin_step (pin_abs (example_cenv example_token_request) (example_pin_auth (replicate 16 7))) e
        (pin_abs (example_cenv example_token_request)
           (fst (handle_client_pin (example_cenv example_token_request) (example_pin_auth (replicate 16 7)) [0])))
    \<and> backend (au_storage (fst (handle_client_pin (example_cenv example_token_request) (example_pin_auth (replicate 16 7)) [0]))) = None"
  by (rule client_pin_refines_machine [OF memory_kv_ops example_pin_memory])


text \<open>The example session: a wrong guess, a restart, a wrong guess.\<close>

lemma example_session:
  "never_carries (example_cenv example_token_request) (example_pin_auth (replicate 16 7)) (replicate 16 7)
     [ClientPinCommand [0], Restart, ClientPinCommand [0]]"
  "snd (pin_session (example_cenv example_token_request) (example_pin_auth (replicate 16 7))
     [ClientPinCommand [0], Restart, ClientPinCommand [0]]) = [Inl Err_PinInvalid, Inl Err_PinInvalid]"
  "auth_retrieve (example_cenv example_token_request) (example_pin_auth (replicate 16 7)) PIN_STORAGE_KEY = Inr (replicate 16 7)"
  "au_user_verification (example_pin_auth (replicate 16 7)) = None"
  by code_simp+


end
