(* ===== verification/Hmac_Secret.thy ===== *)
theory Hmac_Secret
  imports Client_Pin
begin

section \<open>The extension hmac-secret\<close>

text \<open>
  Models \<open>openkey-core/src/ctap2/hmac_secret.rs\<close>: the inputs of the extension, the session that a GetAssertion
  opens (key agreement, MAC and decryption of the salts) and the encrypted output for one credential.
\<close>

definition SALT_LEN :: usize where "SALT_LEN = 32"

definition session_protocol :: "HmacSecretSession \<Rightarrow> (Ctap2Error, PinUvProtocol) result" where
  "session_protocol s = map_err (\<lambda>_. Err_InvalidParameter) (proto_new (hss_pin_protocol s))"

definition parse_make_credential :: "Value \<Rightarrow> (Ctap2Error, bool) result" where
  "parse_make_credential v = (case v of Bool b \<Rightarrow> Inr b | _ \<Rightarrow> Inl Err_InvalidParameter)"

record GetRequest =
  hgr_key_agreement :: CoseEc2Key
  hgr_salt_enc :: bytes
  hgr_salt_auth :: bytes
  hgr_pin_protocol :: u8

definition hmac_value_to_bytes :: "Value \<Rightarrow> (Ctap2Error, bytes) result" where
  "hmac_value_to_bytes v = (case v of Bytes b \<Rightarrow> Inr b | _ \<Rightarrow> Inl Err_InvalidParameter)"

definition hmac_value_to_u8 :: "Value \<Rightarrow> (Ctap2Error, u8) result" where
  "hmac_value_to_u8 v =
     (case v of
        Integer n \<Rightarrow>
          bind_result (ok_or (try_i64 n) Err_InvalidParameter) (\<lambda>n. ok_or (try_u8 n) Err_InvalidParameter)
      | _ \<Rightarrow> Inl Err_InvalidParameter)"

text \<open>The local variables of \<open>parse_get_assertion\<close> and the loop over the entries.\<close>

record HmacScan =
  hsc_key_agreement :: "CoseEc2Key option"
  hsc_salt_enc :: "bytes option"
  hsc_salt_auth :: "bytes option"
  hsc_pin_protocol :: u8

fun scan_hmac_entries :: "(Value \<times> Value) list \<Rightarrow> HmacScan \<Rightarrow> (Ctap2Error, HmacScan) result" where
  "scan_hmac_entries [] s = Inr s"
| "scan_hmac_entries ((key, val) # entries) s =
     bind_result
       (case key of
          Integer number \<Rightarrow>
            (let k = i64_or_default number in
             if k = 1 then bind_result (from_cose_value val) (\<lambda>x. Inr (s\<lparr>hsc_key_agreement := Some x\<rparr>))
             else if k = 2 then bind_result (hmac_value_to_bytes val) (\<lambda>x. Inr (s\<lparr>hsc_salt_enc := Some x\<rparr>))
             else if k = 3 then bind_result (hmac_value_to_bytes val) (\<lambda>x. Inr (s\<lparr>hsc_salt_auth := Some x\<rparr>))
             else if k = 4 then bind_result (hmac_value_to_u8 val) (\<lambda>x. Inr (s\<lparr>hsc_pin_protocol := x\<rparr>))
             else Inr s)
        | _ \<Rightarrow> Inr s)
       (scan_hmac_entries entries)"

definition parse_get_assertion :: "Value \<Rightarrow> (Ctap2Error, GetRequest) result" where
  "parse_get_assertion v =
     (case v of
        Map entries \<Rightarrow>
          bind_result (scan_hmac_entries entries
             \<lparr>hsc_key_agreement = None, hsc_salt_enc = None, hsc_salt_auth = None, hsc_pin_protocol = 1\<rparr>) (\<lambda>s.
          bind_result (ok_or (hsc_key_agreement s) Err_MissingParameter) (\<lambda>key_agreement.
          bind_result (ok_or (hsc_salt_enc s) Err_MissingParameter) (\<lambda>salt_enc.
          bind_result (ok_or (hsc_salt_auth s) Err_MissingParameter) (\<lambda>salt_auth.
            Inr \<lparr>hgr_key_agreement = key_agreement, hgr_salt_enc = salt_enc, hgr_salt_auth = salt_auth,
                  hgr_pin_protocol = hsc_pin_protocol s\<rparr>))))
      | _ \<Rightarrow> Inl Err_InvalidParameter)"

definition begin_session ::
  "('b, 'p, 'v) cenv \<Rightarrow> ('b, 'p, 'v) auth \<Rightarrow> GetRequest \<Rightarrow> (('b, 'p, 'v) auth, Ctap2Error, HmacSecretSession) outcome" where
  "begin_session env a req =
     (let r = ring (senv env) in
      attempt (map_err (\<lambda>_. Err_InvalidParameter) (proto_new (hgr_pin_protocol req))) a (\<lambda>protocol.
      attempt (to_uncompressed (hgr_key_agreement req)) a (\<lambda>peer_point.
        let (a, key) = take_pin_agreement_key a in
        attempt (ok_or key Err_PinAuthInvalid) a (\<lambda>agreement_key.
        attempt (map_err (\<lambda>_. Err_PinAuthInvalid) (agree r agreement_key peer_point)) a (\<lambda>z.
        attempt (map_err (\<lambda>_. Err_PinAuthInvalid) (kdf r protocol z)) a (\<lambda>secret.
        check (proto_verify r protocol secret (hgr_salt_enc req) (hgr_salt_auth req) \<noteq> Inr True) Err_PinAuthInvalid a
        (attempt (map_err (\<lambda>_. Err_InvalidParameter) (proto_decrypt r protocol secret (hgr_salt_enc req))) a (\<lambda>salts.
         check (length salts \<noteq> SALT_LEN \<and> length salts \<noteq> SALT_LEN * 2) Err_InvalidParameter a
           (a, Inr \<lparr>hss_shared_secret = secret, hss_pin_protocol = hgr_pin_protocol req, hss_salts = salts\<rparr>)))))))))"

text \<open>The loop over the salts; \<open>chunks\<close> cuts pieces of at most 32 bytes.\<close>

function salt_outputs :: "RingPrims \<Rightarrow> bytes \<Rightarrow> bytes \<Rightarrow> (Ctap2Error, bytes) result" where
  "salt_outputs r cred_random salts =
     (if salts = [] then Inr []
      else bind_result (map_err (\<lambda>_. Err_Unknown) (compute_hmac r (take SALT_LEN salts) cred_random)) (\<lambda>out.
           bind_result (salt_outputs r cred_random (drop SALT_LEN salts)) (\<lambda>outs. Inr (out @ outs))))"
  by auto
termination by (relation "measure (\<lambda>(r, c, salts). length salts)") (auto simp: SALT_LEN_def)

declare salt_outputs.simps [simp del]

definition session_output ::
  "('b, 'p, 'v) cenv \<Rightarrow> ('b, 'p, 'v) auth \<Rightarrow> HmacSecretSession \<Rightarrow> bytes \<Rightarrow> (('b, 'p, 'v) auth, Ctap2Error, bytes) outcome" where
  "session_output env a session cred_random =
     attempt (session_protocol session) a (\<lambda>protocol.
     attempt (salt_outputs (ring (senv env)) cred_random (hss_salts session)) a (\<lambda>outputs.
       (next_draw a, map_err (\<lambda>_. Err_Unknown) (proto_encrypt (ring (senv env)) protocol (au_draws a) (hss_shared_secret session) outputs))))"

end
