(* ===== verification/Make_Credential.thy ===== *)
theory Make_Credential
  imports Attestation Authnr_Config Hmac_Secret
begin

section \<open>authenticatorMakeCredential\<close>

text \<open>
  Models \<open>make_credential\<close> of \<open>openkey-core/src/ctap2/ctap2.rs\<close> with the helpers it shares with GetAssertion. The
  parts of its body are separate definitions, in the order of the code; \<open>make_credential\<close> composes them. Errors
  that are not a \<open>Ctap2Error\<close> are \<open>Unknown\<close>, which is what \<open>ctap2_error\<close> makes of them at the only call.
\<close>

subsection \<open>Shared steps\<close>

text \<open>The check of user presence: without a source of presence the user counts as present.\<close>

definition require_presence ::
  "('b, 'p, 'v) cenv \<Rightarrow> ('b, 'p, 'v) auth \<Rightarrow> bool \<Rightarrow> (('b, 'p, 'v) auth, Ctap2Error, unit) outcome" where
  "require_presence env a up =
     (if up
      then (case au_user_presence a of
              None \<Rightarrow> (a, Inr ())
            | Some p \<Rightarrow>
                (let (p, present) = is_present env p
                 in (a\<lparr>au_user_presence := Some p\<rparr>, if present then Inr () else Inl Err_OperationDenied)))
      else (a, Inr ()))"

text \<open>
  The gate of MakeCredential and GetAssertion: the token, if one is given, the \<open>uv\<close> option against the PIN and
  \<open>alwaysUv\<close>, and user presence. The result says whether a token was verified.
\<close>

definition authorize ::
  "('b, 'p, 'v) cenv \<Rightarrow> ('b, 'p, 'v) auth \<Rightarrow> u8 option \<Rightarrow> bytes option \<Rightarrow> bytes \<Rightarrow> u8 \<Rightarrow> string \<Rightarrow> bool \<Rightarrow> bool
     \<Rightarrow> (('b, 'p, 'v) auth, Ctap2Error, bool) outcome" where
  "authorize env a pin_protocol param client_data_hash permission rp uv up =
     attempt (verify_pin_uv_auth_for_operation env a pin_protocol param client_data_hash permission (Some rp)) a (\<lambda>pin_authenticated.
     check (uv \<and> is_pin_set env a \<and> \<not> pin_authenticated) Err_PinRequired a
     (check (is_always_uv env a \<and> \<not> uv) Err_PinRequired a
     (andthen (require_presence env a up) (\<lambda>_ a. (a, Inr pin_authenticated)))))"

text \<open>The flags of the authenticator data.\<close>

definition user_flags :: "u8 \<Rightarrow> bool \<Rightarrow> bool \<Rightarrow> u8" where
  "user_flags base up pin_authenticated =
     (let flags = (if up then base OR 0x01 else base) in if pin_authenticated then flags OR 0x04 else flags)"

definition auth_get_credential ::
  "('b, 'p, 'v) cenv \<Rightarrow> ('b, 'p, 'v) auth \<Rightarrow> bytes \<Rightarrow> (Ctap2Error, Credential option) result" where
  "auth_get_credential env a cred_id = map_err (\<lambda>_. Err_Unknown) (get_credential (senv env) (au_crypto a) (au_storage a) cred_id)"

definition rp_hash :: "('b, 'p, 'v) cenv \<Rightarrow> string \<Rightarrow> bytes" where
  "rp_hash env rp = hash_rp_id (senv env) rp"

subsection \<open>Creating the credential\<close>

definition supported_algorithm :: "('b, 'p, 'v) cenv \<Rightarrow> int \<Rightarrow> bool" where
  "supported_algorithm env alg =
     (alg = -7 \<or> alg = -8 \<or> alg = -35 \<or> feature_rs256 env \<and> (alg = -37 \<or> alg = -257))"

definition select_algorithm :: "('b, 'p, 'v) cenv \<Rightarrow> PublicKeyCredParams list \<Rightarrow> (Ctap2Error, int) result" where
  "select_algorithm env params =
     (if params = [] then Inr (-8)
      else map_err (\<lambda>_. Err_UnsupportedAlgorithm)
             (ok_or (map_option pkp_algorithms (find (\<lambda>p. supported_algorithm env (pkp_algorithms p)) params)) ()))"

fun check_exclude_list ::
  "('b, 'p, 'v) cenv \<Rightarrow> ('b, 'p, 'v) auth \<Rightarrow> bytes \<Rightarrow> CredentialDescriptor list \<Rightarrow> (Ctap2Error, unit) result" where
  "check_exclude_list env a h [] = Inr ()"
| "check_exclude_list env a h (d # ds) =
     bind_result (auth_get_credential env a (cd_id d)) (\<lambda>c.
       case c of
         Some cred \<Rightarrow> if rp_id_hash cred = h then Inl Err_CredentialExists else check_exclude_list env a h ds
       | None \<Rightarrow> check_exclude_list env a h ds)"

definition requested_cred_blob :: "Extensions option \<Rightarrow> (Ctap2Error, bytes) result" where
  "requested_cred_blob ext =
     (case Option.bind ext ext_cred_blob of
        Some blob \<Rightarrow> if length blob > 32 then Inl Err_InvalidParameter else Inr blob
      | None \<Rightarrow> Inr [])"

definition requested_policy :: "Extensions option \<Rightarrow> CredProtectPolicy" where
  "requested_policy ext =
     (case Option.bind ext ext_cred_protect of Some v \<Rightarrow> cred_protect_from_u8 v | None \<Rightarrow> UserVerificationOptional)"

definition generate_credential_key ::
  "('b, 'p, 'v) cenv \<Rightarrow> ('b, 'p, 'v) auth \<Rightarrow> int \<Rightarrow> (('b, 'p, 'v) auth, Ctap2Error, bytes \<times> bytes) outcome" where
  "generate_credential_key env a alg =
     (let r = ring (senv env); d = au_draws a in
      (next_draw a, map_err (\<lambda>_. Err_Unknown)
        (if alg = -7 then generate_p256_key_pair r d
         else if alg = -35 then generate_p384_key_pair r d
         else if (alg = -37 \<or> alg = -257) \<and> feature_rs256 env
         then bind_result (generate_rsa_key_pair r d) (\<lambda>(pkcs8, n, e).
              bind_result (rsa_public_key_der r n e) (\<lambda>pk. Inr (pkcs8, pk)))
         else generate_key_pair r d)))"

definition generate_large_blob_key ::
  "('b, 'p, 'v) cenv \<Rightarrow> ('b, 'p, 'v) auth \<Rightarrow> Extensions option \<Rightarrow> ('b, 'p, 'v) auth \<times> bytes option" where
  "generate_large_blob_key env a ext =
     (if (case ext of Some e \<Rightarrow> ext_large_blob_key e | None \<Rightarrow> False)
      then (let (a, key) = auth_random env a 32 in (a, Some key)) else (a, None))"

definition generate_cred_randoms ::
  "('b, 'p, 'v) cenv \<Rightarrow> ('b, 'p, 'v) auth \<Rightarrow> Extensions option
     \<Rightarrow> (('b, 'p, 'v) auth, Ctap2Error, bytes option \<times> bytes option) outcome" where
  "generate_cred_randoms env a ext =
     (case Option.bind ext ext_hmac_secret of
        Some raw \<Rightarrow>
          attempt (parse_make_credential raw) a (\<lambda>wanted.
            if wanted
            then (let (a, with_uv) = auth_random env a 32; (a, without_uv) = auth_random env a 32
                  in (a, Inr (Some with_uv, Some without_uv)))
            else (a, Inr (None, None)))
      | None \<Rightarrow> (a, Inr (None, None)))"

definition auth_store_credential ::
  "('b, 'p, 'v) cenv \<Rightarrow> ('b, 'p, 'v) auth \<Rightarrow> Credential \<Rightarrow> (('b, 'p, 'v) auth, Ctap2Error, unit) outcome" where
  "auth_store_credential env a cred =
     (let (se, r) = store_credential (senv env) (au_crypto a) (au_draws a) (au_storage a) cred
      in ((next_draw a)\<lparr>au_storage := se\<rparr>, map_err (\<lambda>_. Err_Unknown) (bind_result r (\<lambda>_. Inr ()))))"

definition create_credential ::
  "('b, 'p, 'v) cenv \<Rightarrow> ('b, 'p, 'v) auth \<Rightarrow> MakeCredentialRequest \<Rightarrow> int \<Rightarrow> bytes
     \<Rightarrow> (('b, 'p, 'v) auth, Ctap2Error, Credential) outcome" where
  "create_credential env a req alg blob =
     (let (a, cred_id) = generate_credential_id env a in
      andthen (generate_credential_key env a alg) (\<lambda>(priv, pub) a.
        let (a, blob_key) = generate_large_blob_key env a (mcr_extensions req) in
        andthen (generate_cred_randoms env a (mcr_extensions req)) (\<lambda>(with_uv, without_uv) a.
          let (a, now) = current_timestamp env a;
              cred = \<lparr>credential_id = cred_id, public_key = pub, private_key = priv, sign_count = 0,
                      rp_id_hash = rp_hash env (rpe_id (mcr_rp req)), user_handle = Some (usr_id (mcr_user req)),
                      cred_blob = blob, created_at = now, algorithm = alg, rp_id = rpe_id (mcr_rp req),
                      large_blob_key = blob_key, user_name = usr_name (mcr_user req),
                      user_display_name = usr_display_name (mcr_user req),
                      cred_protect = Some (cred_protect_as_u8 (requested_policy (mcr_extensions req))),
                      cred_random_with_uv = with_uv, cred_random_without_uv = without_uv\<rparr>
          in andthen (auth_store_credential env a cred) (\<lambda>_ a. (a, Inr cred)))))"

subsection \<open>The response\<close>

definition extensions_requested :: "Extensions option \<Rightarrow> bool" where
  "extensions_requested ext = (case ext of Some e \<Rightarrow> has_any e | None \<Rightarrow> False)"

definition make_extension_outputs ::
  "('b, 'p, 'v) cenv \<Rightarrow> ('b, 'p, 'v) auth \<Rightarrow> Extensions option \<Rightarrow> Credential \<Rightarrow> (Ctap2Error, ExtensionOutputs option) result" where
  "make_extension_outputs env a ext cred =
     (case ext of
        None \<Rightarrow> Inr None
      | Some e \<Rightarrow>
          if \<not> has_any e then Inr None
          else
            let out = extension_outputs_default;
                out = (if ext_min_pin_length e
                       then out\<lparr>exo_min_pin_length := Some (get_min_pin_length env a
                              (case cap_min_pin_length (au_capabilities a) of Some n \<Rightarrow> n | None \<Rightarrow> 4))\<rparr> else out);
                out = (if ext_cred_protect e \<noteq> None
                       then out\<lparr>exo_cred_protect := Some (cred_protect_as_u8 (requested_policy ext))\<rparr> else out);
                out = (if cred_blob cred \<noteq> [] then out\<lparr>exo_cred_blob := Some (cred_blob cred)\<rparr> else out)
            in bind_result (case ext_hmac_secret e of
                              Some raw \<Rightarrow> bind_result (parse_make_credential raw) (\<lambda>wanted.
                                            Inr (if wanted then out\<lparr>exo_hmac_secret := Some (Bool True)\<rparr> else out))
                            | None \<Rightarrow> Inr out) (\<lambda>out.
                 Inr (Some (if ext_large_blob_key e then out\<lparr>exo_large_blob_key := large_blob_key cred\<rparr> else out))))"

definition attest ::
  "('b, 'p, 'v) cenv \<Rightarrow> ('b, 'p, 'v) auth \<Rightarrow> AttestationFormat \<Rightarrow> bytes \<Rightarrow> Credential
     \<Rightarrow> (('b, 'p, 'v) auth, Ctap2Error, string \<times> (int, Value) btree) outcome" where
  "attest env a fmt data_to_sign cred =
     (case fmt of
        Fmt_None \<Rightarrow> (a, Inr (as_str Fmt_None, []))
      | Fmt_Self \<Rightarrow>
          andthen (self_generate env a data_to_sign (private_key cred) (algorithm cred)) (\<lambda>att_stmt a.
            (a, Inr (as_str Fmt_Self, att_stmt)))
      | Fmt_Packed \<Rightarrow>
          andthen (packed_generate env a (algorithm cred) (au_attestation_cert a) data_to_sign (Some (private_key cred)))
            (\<lambda>att_stmt a. (a, Inr (as_str Fmt_Packed, att_stmt)))
      | _ \<Rightarrow> (a, Inl Err_UnsupportedOption))"

definition make_credential ::
  "('b, 'p, 'v) cenv \<Rightarrow> ('b, 'p, 'v) auth \<Rightarrow> MakeCredentialRequest \<Rightarrow> (('b, 'p, 'v) auth, Ctap2Error, MakeCredentialResponse) outcome" where
  "make_credential env a req =
     andthen (authorize env a (mcr_pin_protocol req) (mcr_pin_uv_auth_param req) (mcr_client_data_hash req)
                PERMISSION_MC (rpe_id (mcr_rp req)) (mco_uv (mcr_options req)) (mco_up (mcr_options req))) (\<lambda>pin_authenticated a.
     attempt (select_algorithm env (mcr_pub_key_cred_params req)) a (\<lambda>alg.
     attempt (check_exclude_list env a (rp_hash env (rpe_id (mcr_rp req))) (mcr_exclude_list req)) a (\<lambda>_.
     attempt (requested_cred_blob (mcr_extensions req)) a (\<lambda>blob.
     andthen (create_credential env a req alg blob) (\<lambda>cred a.
     attempt (build_auth_data env a
                \<lparr>adp_rp_id_hash = rp_hash env (rpe_id (mcr_rp req)), adp_sign_count = 0,
                 adp_flags = user_flags 0x40 (mco_up (mcr_options req)) pin_authenticated,
                 adp_include_credential_data = True, adp_credential_id = credential_id cred,
                 adp_public_key = public_key cred, adp_algorithm = alg\<rparr>) a (\<lambda>auth_data.
     attempt (make_extension_outputs env a (mcr_extensions req) cred) a (\<lambda>ext_outputs.
       let (a, enterprise_pending) = consume_ep_pending env a in
       andthen (attest env a (if enterprise_pending then Fmt_Packed else au_attestation_format a)
                  (auth_data @ mcr_client_data_hash req) cred) (\<lambda>(fmt, att_stmt) a.
         (a, Inr \<lparr>mcs_fmt = fmt, mcs_auth_data = auth_data, mcs_attestation_info = att_stmt,
                  mcs_extensions = ext_outputs\<rparr>)))))))))"

end
