(* ===== verification/Get_Assertion.thy ===== *)
theory Get_Assertion
  imports Make_Credential
begin

section \<open>authenticatorGetAssertion and GetNextAssertion\<close>

text \<open>
  Models \<open>get_assertion\<close>, \<open>handle_get_next_assertion\<close> and their helpers of \<open>openkey-core/src/ctap2/ctap2.rs\<close>: the
  choice of a credential under \<open>credProtect\<close>, the signature counter, the signed data, the extension outputs and the
  chain of further assertions.
\<close>

subsection \<open>Eligible credentials\<close>

definition cred_protect_uv_satisfied :: "('b, 'p, 'v) cenv \<Rightarrow> ('b, 'p, 'v) auth \<Rightarrow> bool \<Rightarrow> bool" where
  "cred_protect_uv_satisfied env a pin_authenticated = (pin_authenticated \<or> is_always_uv env a)"

definition is_cred_protect_allowed :: "Credential \<Rightarrow> bool \<Rightarrow> bool \<Rightarrow> bool" where
  "is_cred_protect_allowed c uv_satisfied named_in_allow_list =
     (if uv_satisfied then True
      else if cred_protect c = Some CRED_PROTECT_UV_REQUIRED then False
      else if cred_protect c = Some CRED_PROTECT_ALLOWLIST_REQUIRED then named_in_allow_list
      else True)"

definition find_matching_credentials ::
  "('b, 'p, 'v) cenv \<Rightarrow> ('b, 'p, 'v) auth \<Rightarrow> string \<Rightarrow> CredentialDescriptor list \<Rightarrow> bool \<Rightarrow> bytes list" where
  "find_matching_credentials env a rp allow_list uv_satisfied =
     (if allow_list = []
      then map credential_id (filter (\<lambda>c. is_cred_protect_allowed c uv_satisfied False)
                                (find_by_rp_id (senv env) (au_crypto a) (au_storage a) rp))
      else List.map_filter (\<lambda>d.
             case ok (get_credential (senv env) (au_crypto a) (au_storage a) (cd_id d)) of
               Some (Some c) \<Rightarrow> if rp_id c = rp \<and> is_cred_protect_allowed c uv_satisfied True then Some (credential_id c) else None
             | _ \<Rightarrow> None) allow_list)"

definition named_credentials :: "GetAssertionRequest \<Rightarrow> CredentialDescriptor list" where
  "named_credentials req =
     (case gar_allow_list req of
        Some l \<Rightarrow> if l \<noteq> [] then l else gar_credentials req
      | None \<Rightarrow> gar_credentials req)"

text \<open>The loop over the named credentials.\<close>

fun select_named ::
  "('b, 'p, 'v) cenv \<Rightarrow> ('b, 'p, 'v) auth \<Rightarrow> bytes \<Rightarrow> bool \<Rightarrow> CredentialDescriptor list \<Rightarrow> (Ctap2Error, Credential option) result" where
  "select_named env a h uv_satisfied [] = Inr None"
| "select_named env a h uv_satisfied (d # ds) =
     bind_result (auth_get_credential env a (cd_id d)) (\<lambda>c.
       case c of
         Some cred \<Rightarrow>
           if rp_id_hash cred = h \<and> is_cred_protect_allowed cred uv_satisfied True
           then Inr (Some cred) else select_named env a h uv_satisfied ds
       | None \<Rightarrow> select_named env a h uv_satisfied ds)"

definition select_credential ::
  "('b, 'p, 'v) cenv \<Rightarrow> ('b, 'p, 'v) auth \<Rightarrow> string \<Rightarrow> CredentialDescriptor list \<Rightarrow> bool \<Rightarrow> (Ctap2Error, Credential) result" where
  "select_credential env a rp named uv_satisfied =
     bind_result (select_named env a (rp_hash env rp) uv_satisfied named) (\<lambda>selected.
       case selected of
         Some c \<Rightarrow> Inr c
       | None \<Rightarrow>
           (case filter (\<lambda>c. is_cred_protect_allowed c uv_satisfied False)
                   (find_by_rp_id (senv env) (au_crypto a) (au_storage a) rp) of
              [] \<Rightarrow> Inl Err_NoCredentials
            | c # _ \<Rightarrow> Inr c))"

subsection \<open>Counting and signing\<close>

definition auth_update_sign_count ::
  "('b, 'p, 'v) cenv \<Rightarrow> ('b, 'p, 'v) auth \<Rightarrow> bytes \<Rightarrow> u32 \<Rightarrow> (('b, 'p, 'v) auth, Ctap2Error, unit) outcome" where
  "auth_update_sign_count env a cred_id n =
     (let (se, r) = update_sign_count (senv env) (au_storage a) cred_id n
      in (a\<lparr>au_storage := se\<rparr>, map_err (\<lambda>_. Err_Unknown) (bind_result r (\<lambda>_. Inr ()))))"

text \<open>
  The part that GetAssertion and GetNextAssertion share: take the next count, record it, build the authenticator
  data and sign its 37 bytes with the client data hash.
\<close>

definition count_and_sign ::
  "('b, 'p, 'v) cenv \<Rightarrow> ('b, 'p, 'v) auth \<Rightarrow> Credential \<Rightarrow> bytes \<Rightarrow> u8 \<Rightarrow> bytes
     \<Rightarrow> (('b, 'p, 'v) auth, Ctap2Error, bytes \<times> bytes) outcome" where
  "count_and_sign env a cred h flags client_data_hash =
     andthen (next_sign_count env a) (\<lambda>n a.
     andthen (auth_update_sign_count env a (credential_id cred) n) (\<lambda>_ a.
     attempt (build_auth_data env a
                \<lparr>adp_rp_id_hash = h, adp_sign_count = n, adp_flags = flags, adp_include_credential_data = False,
                 adp_credential_id = credential_id cred, adp_public_key = public_key cred,
                 adp_algorithm = algorithm cred\<rparr>) a (\<lambda>auth_data.
     andthen (sign_assertion env a cred (slice_of 0 32 auth_data @ slice_of 32 37 auth_data @ client_data_hash)) (\<lambda>signature a.
       (a, Inr (auth_data, signature))))))"

definition assertion_user :: "Credential \<Rightarrow> User" where
  "assertion_user cred =
     \<lparr>usr_id = (case user_handle cred of Some h \<Rightarrow> h | None \<Rightarrow> []), usr_name = None, usr_display_name = None,
      usr_icon_url = None\<rparr>"

definition assertion_descriptor :: "Credential \<Rightarrow> CredentialDescriptor" where
  "assertion_descriptor cred = \<lparr>cd_type = ''public-key'', cd_id = credential_id cred, cd_transports = None\<rparr>"

subsection \<open>GetAssertion\<close>

text \<open>The output of \<open>hmac-secret\<close>; a credential without the secret leaves it out.\<close>

definition assertion_hmac_output ::
  "('b, 'p, 'v) cenv \<Rightarrow> ('b, 'p, 'v) auth \<Rightarrow> GetAssertionRequest \<Rightarrow> Value \<Rightarrow> Credential \<Rightarrow> bool
     \<Rightarrow> (('b, 'p, 'v) auth, Ctap2Error, Value option) outcome" where
  "assertion_hmac_output env a req raw cred pin_authenticated =
     check (\<not> gao_up (gar_options req)) Err_UnsupportedOption a
     (attempt (parse_get_assertion raw) a (\<lambda>get_request.
       case (if pin_authenticated then cred_random_with_uv cred else cred_random_without_uv cred) of
         None \<Rightarrow> (a, Inr None)
       | Some cred_random \<Rightarrow>
           andthen (begin_session env a get_request) (\<lambda>session a.
           andthen (session_output env a session cred_random) (\<lambda>encrypted a.
             (a\<lparr>au_hmac_secret_session := Some session\<rparr>, Inr (Some (Bytes encrypted)))))))"

definition assertion_extension_outputs ::
  "('b, 'p, 'v) cenv \<Rightarrow> ('b, 'p, 'v) auth \<Rightarrow> GetAssertionRequest \<Rightarrow> Credential \<Rightarrow> bool
     \<Rightarrow> (('b, 'p, 'v) auth, Ctap2Error, ExtensionOutputs option) outcome" where
  "assertion_extension_outputs env a req cred pin_authenticated =
     (case gar_extensions req of
        None \<Rightarrow> (a, Inr None)
      | Some e \<Rightarrow>
          if \<not> has_any e then (a, Inr None)
          else andthen (case ext_hmac_secret e of
                          Some raw \<Rightarrow> assertion_hmac_output env a req raw cred pin_authenticated
                        | None \<Rightarrow> (a, Inr None)) (\<lambda>hmac a.
                 let out = extension_outputs_default\<lparr>exo_hmac_secret := hmac\<rparr>;
                     out = (if cred_blob cred \<noteq> [] then out\<lparr>exo_cred_blob := Some (cred_blob cred)\<rparr> else out);
                     out = (if ext_large_blob_key e then out\<lparr>exo_large_blob_key := large_blob_key cred\<rparr> else out)
                 in (a, Inr (Some out))))"

text \<open>\<open>position\<close>, or 0.\<close>

definition position_or_zero :: "bytes \<Rightarrow> bytes list \<Rightarrow> usize" where
  "position_or_zero x xs = (if x \<in> set xs then length (takeWhile (\<lambda>y. y \<noteq> x) xs) else 0)"

text \<open>The state for GetNextAssertion, or the end of the \<open>hmac-secret\<close> session.\<close>

definition prepare_chain ::
  "('b, 'p, 'v) cenv \<Rightarrow> ('b, 'p, 'v) auth \<Rightarrow> GetAssertionRequest \<Rightarrow> Credential \<Rightarrow> u8 \<Rightarrow> bool \<Rightarrow> ('b, 'p, 'v) auth \<times> usize" where
  "prepare_chain env a req cred flags uv_satisfied =
     (let matching = find_matching_credentials env a (gar_rp_id req) (named_credentials req) uv_satisfied;
          n_total = length matching
      in (if n_total > 1
          then a\<lparr>au_get_next_assertion_state :=
                   Some \<lparr>gns_rp_id = gar_rp_id req, gns_client_data_hash = gar_client_data_hash req,
                         gns_allow_list = named_credentials req, gns_flags = flags, gns_extensions = gar_extensions req,
                         gns_options = gar_options req, gns_pin_protocol = gar_pin_protocol req,
                         gns_uv_satisfied = uv_satisfied,
                         gns_current_index = position_or_zero (credential_id cred) matching\<rparr>\<rparr>
          else a\<lparr>au_hmac_secret_session := None\<rparr>, n_total))"

definition get_assertion ::
  "('b, 'p, 'v) cenv \<Rightarrow> ('b, 'p, 'v) auth \<Rightarrow> GetAssertionRequest \<Rightarrow> (('b, 'p, 'v) auth, Ctap2Error, GetAssertionResponse) outcome" where
  "get_assertion env a req =
     andthen (authorize env a (gar_pin_protocol req) (gar_pin_uv_auth_param req) (gar_client_data_hash req)
                PERMISSION_GA (gar_rp_id req) (gao_uv (gar_options req)) (gao_up (gar_options req))) (\<lambda>pin_authenticated a.
       let uv_satisfied = cred_protect_uv_satisfied env a pin_authenticated;
           flags = user_flags 0x00 (gao_up (gar_options req)) pin_authenticated
       in attempt (select_credential env a (gar_rp_id req) (named_credentials req) uv_satisfied) a (\<lambda>cred.
          andthen (count_and_sign env a cred (rp_hash env (gar_rp_id req)) flags (gar_client_data_hash req)) (\<lambda>(auth_data, signature) a.
          andthen (assertion_extension_outputs env a req cred pin_authenticated) (\<lambda>ext_outputs a.
            let (a, n_total) = prepare_chain env a req cred flags uv_satisfied
            in (a, Inr \<lparr>gas_credential = Some (assertion_descriptor cred), gas_auth_data = auth_data,
                        gas_signature = signature, gas_user = Some (assertion_user cred),
                        gas_number_of_credentials = (if n_total > 1 then Some (of_nat n_total) else None),
                        gas_extensions = ext_outputs\<rparr>)))))"

subsection \<open>GetNextAssertion\<close>

definition build_get_assertion_response ::
  "('b, 'p, 'v) cenv \<Rightarrow> ('b, 'p, 'v) auth \<Rightarrow> Credential \<Rightarrow> usize \<Rightarrow> bytes \<Rightarrow> u8 \<Rightarrow> Value option
     \<Rightarrow> (('b, 'p, 'v) auth, Ctap2Error, GetAssertionResponse) outcome" where
  "build_get_assertion_response env a cred n_total client_data_hash flags chained_hmac =
     andthen (count_and_sign env a cred (rp_hash env (rp_id cred)) flags client_data_hash) (\<lambda>(auth_data, signature) a.
       (a, Inr \<lparr>gas_credential = Some (assertion_descriptor cred), gas_auth_data = auth_data,
                gas_signature = signature, gas_user = Some (assertion_user cred),
                gas_number_of_credentials = Some (of_nat n_total),
                gas_extensions = map_option (\<lambda>out. extension_outputs_default\<lparr>exo_hmac_secret := Some out\<rparr>) chained_hmac\<rparr>))"

definition chained_hmac_output ::
  "('b, 'p, 'v) cenv \<Rightarrow> ('b, 'p, 'v) auth \<Rightarrow> GetNextAssertionState \<Rightarrow> Credential
     \<Rightarrow> (('b, 'p, 'v) auth, Ctap2Error, Value option) outcome" where
  "chained_hmac_output env a state cred =
     (if (case gns_extensions state of Some e \<Rightarrow> ext_hmac_secret e \<noteq> None | None \<Rightarrow> False)
      then (case (if gns_uv_satisfied state then cred_random_with_uv cred else cred_random_without_uv cred,
                  au_hmac_secret_session a) of
              (Some cred_random, Some session) \<Rightarrow>
                andthen (session_output env a session cred_random) (\<lambda>encrypted a. (a, Inr (Some (Bytes encrypted))))
            | _ \<Rightarrow> (a, Inr None))
      else (a, Inr None))"

definition next_assertion ::
  "('b, 'p, 'v) cenv \<Rightarrow> ('b, 'p, 'v) auth \<Rightarrow> (('b, 'p, 'v) auth, Ctap2Error, GetAssertionResponse) outcome" where
  "next_assertion env a =
     (case au_get_next_assertion_state a of
        None \<Rightarrow> (a, Inl Err_InvalidState)
      | Some state \<Rightarrow>
          (let a = a\<lparr>au_get_next_assertion_state := None\<rparr>;
               matching = find_matching_credentials env a (gns_rp_id state) (gns_allow_list state) (gns_uv_satisfied state);
               next_index = gns_current_index state + 1;
               has_more = (next_index + 1 < length matching)
           in if matching = [] \<or> next_index \<ge> length matching
              then (a\<lparr>au_hmac_secret_session := None\<rparr>, Inl Err_NoCredentials)
              else
                attempt (auth_get_credential env a (matching ! next_index)) a (\<lambda>c.
                attempt (ok_or c Err_NoCredentials) a (\<lambda>cred.
                andthen (chained_hmac_output env a state cred) (\<lambda>chained_hmac a.
                  let a = (if has_more then a else a\<lparr>au_hmac_secret_session := None\<rparr>);
                      a = a\<lparr>au_get_next_assertion_state := Some (state\<lparr>gns_current_index := next_index\<rparr>)\<rparr>
                  in map_outcome_err (\<lambda>_. Err_Unknown)
                       (build_get_assertion_response env a cred (length matching) (gns_client_data_hash state)
                          (gns_flags state) chained_hmac))))))"

definition handle_get_next_assertion ::
  "('b, 'p, 'v) cenv \<Rightarrow> ('b, 'p, 'v) auth \<Rightarrow> (('b, 'p, 'v) auth, Ctap2Error, bytes) outcome" where
  "handle_get_next_assertion env a =
     andthen (next_assertion env a) (\<lambda>response a.
     attempt (map_err (\<lambda>_. Err_Unknown) (encode_cbor (cbor env) (ga_response env) response)) a (\<lambda>bs. (a, Inr bs)))"

end
