(* ===== verification/Cred_Mgmt.thy ===== *)
theory Cred_Mgmt
  imports Make_Credential
begin

section \<open>Credential management, RP enumeration and large blobs\<close>

text \<open>
  Models \<open>handle_credential_management\<close> and its subcommands, \<open>handle_enumerate_rps_initial\<close> and
  \<open>handle_enumerate_rps_next\<close>, and \<open>handle_large_blobs\<close> of \<open>openkey-core/src/ctap2/ctap2.rs\<close>.
\<close>

definition respond ::
  "('b, 'p, 'v) cenv \<Rightarrow> 'r SerdeCodec \<Rightarrow> ('b, 'p, 'v) auth \<Rightarrow> 'r \<Rightarrow> (('b, 'p, 'v) auth, Ctap2Error, bytes) outcome" where
  "respond env codec a response = (a, map_err (\<lambda>_. Err_Unknown) (encode_cbor (cbor env) codec response))"

subsection \<open>Relying parties\<close>

definition rps_entry :: "string \<times> bytes \<Rightarrow> usize \<Rightarrow> EnumerateRPsResponse" where
  "rps_entry rp n = \<lparr>ers_rp = \<lparr>rpe_id = fst rp, rpe_name = None, rpe_icon = None\<rparr>, ers_rp_hash = snd rp, ers_total_rps = of_nat n\<rparr>"

definition handle_enumerate_rps_initial ::
  "('b, 'p, 'v) cenv \<Rightarrow> ('b, 'p, 'v) auth \<Rightarrow> (('b, 'p, 'v) auth, Ctap2Error, bytes) outcome" where
  "handle_enumerate_rps_initial env a =
     (let rps = enumerate_rps (au_storage a) in
      if length rps = 0 then (a, Inl Err_NoCredentials)
      else respond env (rps_response env)
             (a\<lparr>au_enumerate_rps_state := Some \<lparr>eps_rps = rps, eps_total = length rps, eps_current_index = 0\<rparr>\<rparr>)
             (rps_entry (rps ! 0) (length rps)))"

definition handle_enumerate_rps_next ::
  "('b, 'p, 'v) cenv \<Rightarrow> ('b, 'p, 'v) auth \<Rightarrow> (('b, 'p, 'v) auth, Ctap2Error, bytes) outcome" where
  "handle_enumerate_rps_next env a =
     (case au_enumerate_rps_state a of
        None \<Rightarrow> (a, Inl Err_InvalidState)
      | Some st \<Rightarrow>
          (let st = st\<lparr>eps_current_index := eps_current_index st + 1\<rparr> in
           if eps_current_index st \<ge> eps_total st then (a\<lparr>au_enumerate_rps_state := None\<rparr>, Inl Err_NoCredentials)
           else respond env (rps_response env) (a\<lparr>au_enumerate_rps_state := Some st\<rparr>)
                  (rps_entry (eps_rps st ! eps_current_index st) (eps_total st))))"

subsection \<open>Subcommands of credential management\<close>

definition handle_cred_mgmt_get_metadata ::
  "('b, 'p, 'v) cenv \<Rightarrow> ('b, 'p, 'v) auth \<Rightarrow> (('b, 'p, 'v) auth, Ctap2Error, bytes) outcome" where
  "handle_cred_mgmt_get_metadata env a =
     respond env (cm_metadata_response env) a
       \<lparr>cms_existing = of_nat (get_credentials_count (au_storage a)),
        cms_max_possible_remaining = of_nat (get_max_possible_remaining (au_storage a))\<rparr>"

definition cm_rps_entry :: "string \<times> bytes \<Rightarrow> usize \<Rightarrow> EnumerateRpsEntryResponse" where
  "cm_rps_entry rp n =
     \<lparr>ere_rp = \<lparr>rpe_id = fst rp, rpe_name = Some (fst rp), rpe_icon = None\<rparr>, ere_rp_id_hash = snd rp, ere_total_rps = of_nat n\<rparr>"

definition handle_cred_mgmt_enumerate_rps_begin ::
  "('b, 'p, 'v) cenv \<Rightarrow> ('b, 'p, 'v) auth \<Rightarrow> (('b, 'p, 'v) auth, Ctap2Error, bytes) outcome" where
  "handle_cred_mgmt_enumerate_rps_begin env a =
     (let rps = enumerate_rps (au_storage a) in
      if length rps = 0 then (a, Inl Err_NoCredentials)
      else respond env (cm_rps_response env)
             (a\<lparr>au_cred_mgmt_rps_state := Some \<lparr>ecm_rps = rps, ecm_total = length rps, ecm_current_index = 0\<rparr>\<rparr>)
             (cm_rps_entry (rps ! 0) (length rps)))"

definition handle_cred_mgmt_enumerate_rps_next ::
  "('b, 'p, 'v) cenv \<Rightarrow> ('b, 'p, 'v) auth \<Rightarrow> (('b, 'p, 'v) auth, Ctap2Error, bytes) outcome" where
  "handle_cred_mgmt_enumerate_rps_next env a =
     (case au_cred_mgmt_rps_state a of
        None \<Rightarrow> (a, Inl Err_InvalidState)
      | Some st \<Rightarrow>
          (let st = st\<lparr>ecm_current_index := ecm_current_index st + 1\<rparr> in
           if ecm_current_index st \<ge> ecm_total st then (a\<lparr>au_cred_mgmt_rps_state := None\<rparr>, Inl Err_NoCredentials)
           else respond env (cm_rps_response env) (a\<lparr>au_cred_mgmt_rps_state := Some st\<rparr>)
                  (cm_rps_entry (ecm_rps st ! ecm_current_index st) (ecm_total st))))"

definition build_enumerate_cred_entry :: "Credential \<Rightarrow> u32 \<Rightarrow> EnumerateCredentialsEntryResponse" where
  "build_enumerate_cred_entry c n =
     \<lparr>ece_user = \<lparr>usr_id = (case user_handle c of Some h \<Rightarrow> h | None \<Rightarrow> []), usr_name = user_name c,
                  usr_display_name = user_display_name c, usr_icon_url = None\<rparr>,
      ece_credential_id = \<lparr>cd_type = ''public-key'', cd_id = credential_id c, cd_transports = None\<rparr>,
      ece_public_key = cose_key_value c, ece_total_credentials = n,
      ece_cred_protect = cred_protect c, ece_large_blob_key = large_blob_key c\<rparr>"

definition handle_cred_mgmt_enumerate_creds_begin ::
  "('b, 'p, 'v) cenv \<Rightarrow> ('b, 'p, 'v) auth \<Rightarrow> bytes \<Rightarrow> (('b, 'p, 'v) auth, Ctap2Error, bytes) outcome" where
  "handle_cred_mgmt_enumerate_creds_begin env a h =
     (let creds = find_credentials_by_rp_hash (senv env) (au_crypto a) (au_storage a) h in
      if length creds = 0 then (a, Inl Err_NoCredentials)
      else respond env (cm_creds_response env)
             (a\<lparr>au_cred_mgmt_creds_state := Some \<lparr>ecs_creds = creds, ecs_total = length creds, ecs_current_index = 0\<rparr>\<rparr>)
             (build_enumerate_cred_entry (creds ! 0) (of_nat (length creds))))"

definition handle_cred_mgmt_enumerate_creds_next ::
  "('b, 'p, 'v) cenv \<Rightarrow> ('b, 'p, 'v) auth \<Rightarrow> (('b, 'p, 'v) auth, Ctap2Error, bytes) outcome" where
  "handle_cred_mgmt_enumerate_creds_next env a =
     (case au_cred_mgmt_creds_state a of
        None \<Rightarrow> (a, Inl Err_InvalidState)
      | Some st \<Rightarrow>
          (let st = st\<lparr>ecs_current_index := ecs_current_index st + 1\<rparr> in
           if ecs_current_index st \<ge> ecs_total st then (a\<lparr>au_cred_mgmt_creds_state := None\<rparr>, Inl Err_NoCredentials)
           else respond env (cm_creds_response env) (a\<lparr>au_cred_mgmt_creds_state := Some st\<rparr>)
                  (build_enumerate_cred_entry (ecs_creds st ! ecs_current_index st) (of_nat (ecs_total st)))))"

definition handle_cred_mgmt_delete_credential ::
  "('b, 'p, 'v) cenv \<Rightarrow> ('b, 'p, 'v) auth \<Rightarrow> bytes \<Rightarrow> (('b, 'p, 'v) auth, Ctap2Error, bytes) outcome" where
  "handle_cred_mgmt_delete_credential env a cred_id =
     (let (se, r) = delete_credential (senv env) (au_storage a) cred_id
      in (a\<lparr>au_storage := se\<rparr>, bind_result (map_err (\<lambda>_. Err_NoCredentials) r) (\<lambda>_. Inr [])))"

definition handle_cred_mgmt_update_user ::
  "('b, 'p, 'v) cenv \<Rightarrow> ('b, 'p, 'v) auth \<Rightarrow> bytes \<Rightarrow> User \<Rightarrow> (('b, 'p, 'v) auth, Ctap2Error, bytes) outcome" where
  "handle_cred_mgmt_update_user env a cred_id user =
     (let (se, r) = update_user_info (senv env) (au_storage a) cred_id (usr_name user) (usr_display_name user)
      in (a\<lparr>au_storage := se\<rparr>,
          bind_result (map_err (\<lambda>_. Err_Unknown) r) (\<lambda>updated. if \<not> updated then Inl Err_NoCredentials else Inr [])))"

definition run_cred_mgmt ::
  "('b, 'p, 'v) cenv \<Rightarrow> ('b, 'p, 'v) auth \<Rightarrow> CredentialManagementRequest \<Rightarrow> (('b, 'p, 'v) auth, Ctap2Error, bytes) outcome" where
  "run_cred_mgmt env a req =
     (let sub = cmr_sub_command req; params = ok_or (cmr_sub_command_params req) Err_InvalidParameter in
      if sub = GET_CREDS_METADATA then handle_cred_mgmt_get_metadata env a
      else if sub = ENUMERATE_RPS_BEGIN then handle_cred_mgmt_enumerate_rps_begin env a
      else if sub = ENUMERATE_RPS_GET_NEXT then handle_cred_mgmt_enumerate_rps_next env a
      else if sub = ENUMERATE_CREDENTIALS_BEGIN
      then attempt params a (\<lambda>p. attempt (ok_or (cmp_rp_id_hash p) Err_InvalidParameter) a (\<lambda>h.
             handle_cred_mgmt_enumerate_creds_begin env a h))
      else if sub = ENUMERATE_CREDENTIALS_GET_NEXT then handle_cred_mgmt_enumerate_creds_next env a
      else if sub = DELETE_CREDENTIAL
      then attempt params a (\<lambda>p. attempt (ok_or (cmp_credential_id p) Err_InvalidParameter) a (\<lambda>d.
             handle_cred_mgmt_delete_credential env a (cd_id d)))
      else if sub = UPDATE_USER_INFORMATION
      then attempt params a (\<lambda>p. attempt (ok_or (cmp_credential_id p) Err_InvalidParameter) a (\<lambda>d.
             attempt (ok_or (cmp_user p) Err_InvalidParameter) a (\<lambda>user.
             handle_cred_mgmt_update_user env a (cd_id d) user)))
      else (a, Inl Err_InvalidParameter))"

definition credential_management_auth_message :: "CborLib \<Rightarrow> bytes \<Rightarrow> (Ctap2Error, bytes) result" where
  "credential_management_auth_message lib data = sub_command_message lib [] data"

definition handle_credential_management ::
  "('b, 'p, 'v) cenv \<Rightarrow> ('b, 'p, 'v) auth \<Rightarrow> bytes \<Rightarrow> (('b, 'p, 'v) auth, Ctap2Error, bytes) outcome" where
  "handle_credential_management env a data =
     attempt (map_err (\<lambda>_. Err_InvalidParameter) (decode_cbor (cbor env) (cm_request env) data)) a (\<lambda>req.
     attempt (credential_management_auth_message (cbor env) data) a (\<lambda>msg.
     attempt (verify_pin_uv_auth_for_operation env a (cmr_pin_uv_auth_protocol req) (cmr_pin_uv_auth_param req) msg
                PERMISSION_CM None) a (\<lambda>pin_authenticated.
       if \<not> pin_authenticated
       then (a, Inl (if \<not> is_pin_set env a then Err_PinNotSet else Err_PinRequired))
       else run_cred_mgmt env a req)))"

subsection \<open>Large blobs\<close>

text \<open>\<open>usize::try_from\<close> and \<open>as usize\<close> of a 64-bit value, for a 32-bit \<open>usize\<close>.\<close>

definition try_usize :: "u64 \<Rightarrow> usize option" where
  "try_usize n = (if unat n < 2 ^ 32 then Some (unat n) else None)"

definition as_usize :: "u64 \<Rightarrow> usize" where
  "as_usize n = unat n mod 2 ^ 32"

definition large_blob_error :: "EngineError \<Rightarrow> Ctap2Error" where
  "large_blob_error e =
     (case e of
        E_Storage (InvalidParameter m) \<Rightarrow> Err_InvalidParameter
      | E_Storage (BackendError m) \<Rightarrow> if contains m ''exceeds sector capacity'' then Err_LargeBlobStorageFull else Err_Unknown
      | E_Storage _ \<Rightarrow> Err_Unknown
      | E_Message m \<Rightarrow>
          if contains m ''InvalidParameter'' \<or> contains m ''sparse'' \<or> contains m ''exceeds'' then Err_InvalidParameter
          else if contains m ''exceeds sector capacity'' then Err_LargeBlobStorageFull
          else Err_Unknown)"

definition large_blobs_read ::
  "('b, 'p, 'v) cenv \<Rightarrow> ('b, 'p, 'v) auth \<Rightarrow> LargeBlobsRequest \<Rightarrow> (('b, 'p, 'v) auth, Ctap2Error, bytes) outcome" where
  "large_blobs_read env a req =
     (let n = as_usize (case lbr_get req of Some n \<Rightarrow> n | None \<Rightarrow> 0) in
      attempt (ok_or (try_usize (lbr_offset req)) Err_InvalidParameter) a (\<lambda>offset.
        respond env (lb_response env) a \<lparr>lbs_config = Some (read_large_blobs (au_storage a) offset n)\<rparr>))"

definition large_blobs_write ::
  "('b, 'p, 'v) cenv \<Rightarrow> ('b, 'p, 'v) auth \<Rightarrow> LargeBlobsRequest \<Rightarrow> bytes \<Rightarrow> (('b, 'p, 'v) auth, Ctap2Error, bytes) outcome" where
  "large_blobs_write env a req blob_data =
     attempt (case lbr_length req of
                None \<Rightarrow> Inr None
              | Some v \<Rightarrow> bind_result (ok_or (try_usize v) Err_InvalidParameter) (\<lambda>n. Inr (Some n))) a (\<lambda>expected_len.
     attempt (ok_or (try_usize (lbr_offset req)) Err_InvalidParameter) a (\<lambda>offset.
       let max_size = (case cap_max_large_blob_data_size (au_capabilities a) of Some n \<Rightarrow> unat n | None \<Rightarrow> MAX_LARGE_BLOBS_SIZE) in
       attempt (ok_or (checked_add_usize offset (length blob_data)) Err_InvalidParameter) a (\<lambda>write_end.
       check (write_end > max_size) Err_InvalidParameter a
       (check (case expected_len of Some n \<Rightarrow> n > max_size | None \<Rightarrow> False) Err_InvalidParameter a
       (check (case expected_len of Some n \<Rightarrow> write_end > n | None \<Rightarrow> False) Err_InvalidParameter a
       (let (se, r) = write_large_blobs (senv env) (au_storage a) offset blob_data expected_len; a = a\<lparr>au_storage := se\<rparr>
        in attempt (map_err large_blob_error r) a (\<lambda>_. respond env (lb_response env) a \<lparr>lbs_config = None\<rparr>)))))))"

definition handle_large_blobs ::
  "('b, 'p, 'v) cenv \<Rightarrow> ('b, 'p, 'v) auth \<Rightarrow> bytes \<Rightarrow> (('b, 'p, 'v) auth, Ctap2Error, bytes) outcome" where
  "handle_large_blobs env a data =
     attempt (map_err (\<lambda>_. Err_InvalidParameter) (decode_cbor (cbor env) (lb_request env) data)) a (\<lambda>req.
       case lbr_set req of
         None \<Rightarrow> large_blobs_read env a req
       | Some blob_data \<Rightarrow> large_blobs_write env a req blob_data)"

end
