(* ===== verification/Ctap2.thy ===== *)
theory Ctap2
  imports Get_Assertion Cred_Mgmt
begin

section \<open>The CTAP2 command processor\<close>

text \<open>
  Models the rest of \<open>impl Ctap2Authenticator\<close> of \<open>openkey-core/src/ctap2/ctap2.rs\<close>: GetInfo, GetVersion and
  Selection, BioEnroll, Reset, and \<open>process_command\<close>, the entry point of the crate.
\<close>

subsection \<open>GetInfo and GetVersion\<close>

definition FIRMWARE_VERSION_COMPONENT_BASE :: u32 where "FIRMWARE_VERSION_COMPONENT_BASE = 1000"

definition checked_mul_word :: "'a::len word \<Rightarrow> 'a word \<Rightarrow> 'a word option" where
  "checked_mul_word x y = (if unat x * unat y < 2 ^ LENGTH('a) then Some (x * y) else None)"

text \<open>\<open>str::split\<close> at a character: always at least one piece.\<close>

fun split_on :: "char \<Rightarrow> string \<Rightarrow> string list" where
  "split_on c [] = [[]]"
| "split_on c (x # xs) =
     (if x = c then [] # split_on c xs
      else case split_on c xs of p # ps \<Rightarrow> (x # p) # ps | [] \<Rightarrow> [[x]])"

definition parse_component :: "string option \<Rightarrow> (Ctap2Error, u32) result" where
  "parse_component component =
     ok_or (Option.bind (Option.bind component (\<lambda>s. parse_word (str_bytes s)))
              (\<lambda>v. if v < FIRMWARE_VERSION_COMPONENT_BASE then Some v else None)) Err_Unknown"

definition firmware_version_to_ctap_integer :: "string \<Rightarrow> (Ctap2Error, u32) result" where
  "firmware_version_to_ctap_integer version =
     (let components = split_on (CHR ''.'') (takeWhile (\<lambda>c. c \<noteq> CHR ''-'' \<and> c \<noteq> CHR ''+'') version) in
      bind_result (parse_component (nth_opt components 0)) (\<lambda>major.
      bind_result (parse_component (nth_opt components 1)) (\<lambda>minor.
      bind_result (parse_component (nth_opt components 2)) (\<lambda>patch.
        if nth_opt components 3 \<noteq> None then Inl Err_Unknown
        else ok_or (Option.bind (checked_mul_word major (FIRMWARE_VERSION_COMPONENT_BASE ^ 2)) (\<lambda>v.
                    Option.bind (checked_add_word v (minor * FIRMWARE_VERSION_COMPONENT_BASE)) (\<lambda>v.
                      checked_add_word v patch))) Err_Unknown))))"

definition push_missing :: "string \<Rightarrow> string list \<Rightarrow> string list" where
  "push_missing x xs = (if x \<in> set xs then xs else xs @ [x])"

definition info_options :: "('b, 'p, 'v) cenv \<Rightarrow> ('b, 'p, 'v) auth \<Rightarrow> string list" where
  "info_options env a =
     (let options = cap_options (au_capabilities a);
          options = (if au_user_verification a = None then filter (\<lambda>opt. opt \<noteq> ''uv'') options else options)
      in if cap_pin_uv_auth_protocols (au_capabilities a) \<noteq> []
         then (let options = push_missing ''pinUvAuthToken'' options
               in if is_pin_set env a then push_missing ''clientPin'' options
                  else filter (\<lambda>opt. opt \<noteq> ''clientPin'') options)
         else filter (\<lambda>opt. opt \<noteq> ''clientPin'' \<and> opt \<noteq> ''pinUvAuthToken'') options)"

definition info_algorithms :: "('b, 'p, 'v) cenv \<Rightarrow> CoseAlgorithmEntry list" where
  "info_algorithms env =
     map (\<lambda>alg. \<lparr>cae_alg = alg, cae_key_type = ''public-key''\<rparr>)
       ([-7, -8, -35] @ (if feature_rs256 env then [-37, -257] else []))"

definition get_info :: "('b, 'p, 'v) cenv \<Rightarrow> ('b, 'p, 'v) auth \<Rightarrow> (Ctap2Error, GetInfoResponse) result" where
  "get_info env a =
     (let c = au_capabilities a in
      bind_result (firmware_version_to_ctap_integer (cap_firmware_version c)) (\<lambda>version.
        Inr \<lparr>gis_versions = cap_versions c, gis_extensions = cap_extensions c, gis_aaguid = cap_aaguid c,
             gis_options = info_options env a, gis_pin_uv_auth_protocols = cap_pin_uv_auth_protocols c,
             gis_max_msg_size = 1200, gis_rp_count = cap_rp_count c,
             gis_max_cred_blob_length = cap_max_cred_blob_length c,
             gis_max_credential_id_length = cap_max_credential_id_length c,
             gis_max_credential_count = cap_max_credential_count c, gis_firmware_version = version,
             gis_algorithms = info_algorithms env,
             gis_security = (if has_any_features (cap_security c) then Some (cap_security c) else None),
             gis_max_large_blob_data_size = cap_max_large_blob_data_size c\<rparr>))"

definition get_version :: GetVersionResponse where
  "get_version = \<lparr>gvs_firmware_version = ''0.1.0'', gvs_firmware_commit_id = ''0000000'', gvs_firmware_build_id = ''00000000''\<rparr>"

definition handle_get_version ::
  "('b, 'p, 'v) cenv \<Rightarrow> ('b, 'p, 'v) auth \<Rightarrow> (('b, 'p, 'v) auth, Ctap2Error, bytes) outcome" where
  "handle_get_version env a = respond env (version_response env) a get_version"

definition handle_selection ::
  "('b, 'p, 'v) cenv \<Rightarrow> ('b, 'p, 'v) auth \<Rightarrow> (('b, 'p, 'v) auth, Ctap2Error, bytes) outcome" where
  "handle_selection env a = handle_get_version env a"

definition handle_bio_enroll ::
  "('b, 'p, 'v) cenv \<Rightarrow> ('b, 'p, 'v) auth \<Rightarrow> bytes \<Rightarrow> (('b, 'p, 'v) auth, Ctap2Error, bytes) outcome" where
  "handle_bio_enroll env a data =
     attempt (map_err (\<lambda>_. Err_InvalidParameter) (decode_cbor (cbor env) (bio_request env) data)) a (\<lambda>req.
       if ber_sub_command req = 0x03
       then respond env (bio_response env) a \<lparr>bes_fingerprint_kind = 1, bes_max_enrollments = 5\<rparr>
       else (a, Inl Err_UnsupportedOption))"

subsection \<open>Reset\<close>

definition handle_reset ::
  "('b, 'p, 'v) cenv \<Rightarrow> ('b, 'p, 'v) auth \<Rightarrow> (('b, 'p, 'v) auth, Ctap2Error, bytes) outcome" where
  "handle_reset env a =
     andthen (require_presence env a True) (\<lambda>_ a.
       (a\<lparr>au_storage := clear_large_blobs (senv env) (clear (senv env) (au_storage a)),
          au_enumerate_rps_state := None, au_cred_mgmt_rps_state := None, au_cred_mgmt_creds_state := None,
          au_get_next_assertion_state := None, au_pin_uv_auth_token := None, au_pin_agreement_key := None,
          au_pin_shared_secret := None, au_hmac_secret_session := None, au_pin_failures_since_reset := 0\<rparr>, Inr []))"

subsection \<open>Dispatch\<close>

definition process_command ::
  "('b, 'p, 'v) cenv \<Rightarrow> ('b, 'p, 'v) auth \<Rightarrow> u8 \<Rightarrow> bytes \<Rightarrow> (('b, 'p, 'v) auth, Ctap2Error, bytes) outcome" where
  "process_command env a cmd data =
     (let command = command_from_u8 cmd;
          a = (if command = Cmd_GetNextAssertion then a else a\<lparr>au_hmac_secret_session := None\<rparr>)
      in case command of
           Cmd_MakeCredential \<Rightarrow>
             attempt (decode_cbor (cbor env) (mc_request env) data) a (\<lambda>req.
             andthen (make_credential env a req) (\<lambda>response a. respond env (mc_response env) a response))
         | Cmd_GetAssertion \<Rightarrow>
             attempt (decode_cbor (cbor env) (ga_request env) data) a (\<lambda>req.
             andthen (get_assertion env a req) (\<lambda>response a. respond env (ga_response env) a response))
         | Cmd_GetInfo \<Rightarrow>
             attempt (map_err (\<lambda>_. Err_Unknown) (get_info env a)) a (\<lambda>response. respond env (info_response env) a response)
         | Cmd_Selection \<Rightarrow> handle_selection env a
         | Cmd_GetVersion \<Rightarrow> handle_get_version env a
         | Cmd_ClientPIN \<Rightarrow> handle_client_pin env a data
         | Cmd_Reset \<Rightarrow> handle_reset env a
         | Cmd_GetNextAssertion \<Rightarrow> handle_get_next_assertion env a
         | Cmd_BioEnroll \<Rightarrow> handle_bio_enroll env a data
         | Cmd_CredentialManagement \<Rightarrow> handle_credential_management env a data
         | Cmd_LargeBlobs \<Rightarrow> handle_large_blobs env a data
         | Cmd_AuthenticatorConfig \<Rightarrow> handle_authnr_config env a data
         | Cmd_EnumerateRPsInitial \<Rightarrow> handle_enumerate_rps_initial env a
         | Cmd_EnumerateRPsNext \<Rightarrow> handle_enumerate_rps_next env a
         | Cmd_Unknown _ \<Rightarrow> (a, Inl Err_InvalidCommand))"

end
