(* ===== verification/Engine_Contract.thy ===== *)
theory Engine_Contract
  imports Kv_Contract
begin

section \<open>Credential operations and the key-value store\<close>

text \<open>
  The engine keeps credentials, large blobs and the key-value entries in one backend, apart by their keys. The
  locale \<open>engine_ops\<close> extends \<open>kv_ops\<close> by what the authenticator relies on there: an operation on credentials or
  large blobs leaves every other entry as it was, whether it succeeds or not. It is interpreted on the engine
  over the flash backend, over the file backend and without a backend.
\<close>

definition sys_key :: "string \<Rightarrow> bool" where
  "sys_key k = (take 5 k \<noteq> ''cred:'' \<and> k \<noteq> LARGE_BLOBS_STORAGE_KEY)"

definition credential_op :: "StorageOp \<Rightarrow> bool" where
  "credential_op p =
     (case p of Op_StoreCredential _ _ _ \<Rightarrow> True | Op_UpdateSignCount _ _ \<Rightarrow> True | Op_UpdateUserInfo _ _ _ \<Rightarrow> True
      | Op_DeleteCredential _ \<Rightarrow> True | Op_WriteLargeBlobs _ _ _ \<Rightarrow> True | _ \<Rightarrow> False)"

locale engine_ops = kv_ops "store env" "retrieve env" "kv_delete env" good
  for env :: "'b StorageEnv" and good :: "'b StorageEngine \<Rightarrow> bool" +
  assumes cred_op_good: "good se \<Longrightarrow> credential_op p \<Longrightarrow> good (fst (run_op env se p))"
    and cred_op_frame: "good se \<Longrightarrow> credential_op p \<Longrightarrow> sys_key k \<Longrightarrow>
                   ok (retrieve env (fst (run_op env se p)) k) = ok (retrieve env se k)"
    and reset_good: "good se \<Longrightarrow> good (fst (run_op env se Op_Reset))"

subsection \<open>The engine satisfies the contract\<close>

text \<open>Two engines agree on what the key-value store shows outside credentials and large blobs.\<close>

definition kv_frame :: "('b \<Rightarrow> string \<Rightarrow> bytes option) \<Rightarrow> ('b \<Rightarrow> bool) \<Rightarrow> 'b StorageEngine \<Rightarrow> 'b StorageEngine \<Rightarrow> bool" where
  "kv_frame view good se se' =
     (engine_ok good se \<longrightarrow> engine_ok good se' \<and> (\<forall>k. sys_key k \<longrightarrow> kv_view view se' k = kv_view view se k))"

lemma kv_frame_refl [simp]: "kv_frame view good se se"
  by (simp add: kv_frame_def)

lemma kv_frame_trans: "kv_frame view good se se' \<Longrightarrow> kv_frame view good se' se'' \<Longrightarrow> kv_frame view good se se''"
  by (auto simp: kv_frame_def)

lemma kv_view_cong: "backend se' = backend se \<Longrightarrow> kv_store se' = kv_store se \<Longrightarrow> kv_view view se' k = kv_view view se k"
  by (simp add: kv_view_def cong: option.case_cong)

lemma kv_view_fields [simp]:
  "kv_view view (se\<lparr>credentials := cs\<rparr>) k = kv_view view se k" "kv_view view (se\<lparr>large_blobs := lb\<rparr>) k = kv_view view se k"
  "kv_view view (fst (increment_wear_counter se s)) k = kv_view view se k"
  by (rule kv_view_cong; simp)+

lemma kv_frame_fields [simp]:
  "kv_frame view good se (se'\<lparr>credentials := cs\<rparr>) = kv_frame view good se se'"
  "kv_frame view good se (se'\<lparr>large_blobs := lb\<rparr>) = kv_frame view good se se'"
  "kv_frame view good (se\<lparr>credentials := cs\<rparr>) se' = kv_frame view good se se'"
  "kv_frame view good (se\<lparr>large_blobs := lb\<rparr>) se' = kv_frame view good se se'"
  by (simp_all add: kv_frame_def engine_ok_def)

lemma kv_frame_wear [simp]: "kv_frame view good se (fst (increment_wear_counter se s))"
  by (simp add: kv_frame_def engine_ok_def)

lemma not_sys_cred_key [simp]: "\<not> sys_key (cred_key env i)" and not_sys_blobs [simp]: "\<not> sys_key LARGE_BLOBS_STORAGE_KEY"
  by (simp_all add: sys_key_def cred_key_def)

context storage_backend
begin

lemma backend_write_frame:
  assumes "ops env = be" "\<not> sys_key key"
  shows "kv_frame abs inv se (fst (backend_write env se key v))"
proof (cases "backend se")
  case (Some b)
  obtain b' q where w: "be_write be b key v = (b', q)" by fastforce
  show ?thesis
    using assms Some w write_law [OF _ w]
    by (cases q) (auto simp: backend_write_def kv_frame_def engine_ok_def kv_view_def split: option.split)
qed (simp add: backend_write_def)

lemma backend_delete_frame:
  assumes "ops env = be" "\<not> sys_key key"
  shows "kv_frame abs inv se (fst (backend_delete env se key))"
proof (cases "backend se")
  case (Some b)
  obtain b' q where w: "be_delete be b key = (b', q)" by fastforce
  show ?thesis
    using assms Some w delete_law [OF _ w]
    by (cases q) (auto simp: backend_delete_def kv_frame_def engine_ok_def kv_view_def split: option.split)
qed (simp add: backend_delete_def)

lemma delete_credential_frame:
  assumes "ops env = be"
  shows "kv_frame abs inv se (fst (delete_credential env se i))"
  using backend_delete_frame [OF assms not_sys_cred_key, of "se\<lparr>credentials := btree_remove i (credentials se)\<rparr>" env i]
  by (auto simp: delete_credential_def Let_def split: prod.splits sum.splits)

lemma prune_frame:
  assumes "ops env = be"
  shows "kv_frame abs inv se (fst (prune_oldest_credential env se))"
  using delete_credential_frame [OF assms]
  by (auto simp: prune_oldest_credential_def split: option.split prod.splits sum.splits) (metis fst_conv)+

lemma write_back_frame:
  assumes "ops env = be"
  shows "kv_frame abs inv se (fst (write_back env se i s))"
  using backend_write_frame [OF assms not_sys_cred_key, of "se\<lparr>credentials := btree_insert i s (credentials se)\<rparr>" env i]
  by (auto simp: write_back_def Let_def split: option.split sum.split)

lemma store_credential_frame:
  assumes "ops env = be"
  shows "kv_frame abs inv se (fst (store_credential env crypto draw se c))"
proof -
  obtain se' r where p: "(case max_credential_count se of
      Some m \<Rightarrow> if length (credentials se) \<ge> m then prune_oldest_credential env se else (se, Inr ())
    | None \<Rightarrow> (se, Inr ())) = (se', r)" by fastforce
  then have f: "kv_frame abs inv se se'"
    using prune_frame [OF assms, of se] by (auto split: option.splits if_splits)
  obtain sw where w: "increment_wear_counter se' ''credentials'' = (sw, Inr ())" "kv_frame abs inv se sw"
    using kv_frame_trans [OF f kv_frame_wear] by (auto simp: increment_wear_counter_def wear_increment_def Let_def)
  have "kv_frame abs inv se (fst (backend_write env sw (cred_key env i) v))" for i v
    by (rule kv_frame_trans [OF w(2) backend_write_frame]) (simp_all add: assms)
  then show ?thesis
    using f w unfolding store_credential_def p
    by (auto simp: Let_def split: option.split sum.split prod.splits) (metis fst_conv)+
qed

lemma write_large_blobs_frame:
  assumes "ops env = be"
  shows "kv_frame abs inv se (fst (write_large_blobs env se offset data expected_len))"
  using backend_write_frame [OF assms not_sys_blobs, of "se\<lparr>large_blobs := b\<rparr>" b for b]
  by (auto simp: write_large_blobs_def Let_def split: option.split)

lemma update_frame:
  assumes "ops env = be"
  shows "kv_frame abs inv se (fst (update_sign_count env se i n))" "kv_frame abs inv se (fst (update_user_info env se i m d))"
  using write_back_frame [OF assms, of se i]
  by (auto simp: update_sign_count_def update_user_info_def split: option.split prod.splits sum.splits) (metis fst_conv)+

lemma cred_op_kv_frame:
  assumes "ops env = be" "credential_op p"
  shows "kv_frame abs inv se (fst (run_op env se p))"
  using assms(2) store_credential_frame [OF assms(1), of se] update_frame [OF assms(1), of se]
    delete_credential_frame [OF assms(1), of se] write_large_blobs_frame [OF assms(1), of se]
  by (cases p) (simp_all add: credential_op_def Let_def split_beta)

lemma delete_all_inv: "inv b \<Longrightarrow> inv (fold (\<lambda>key b. fst (be_delete be b key)) keys b)"
proof (induction keys arbitrary: b)
  case (Cons key keys)
  then have "inv (fst (be_delete be b key))" using delete_law [of b key] by (metis prod.collapse)
  then show ?case using Cons.IH by simp
qed simp

lemma engine_ops_contract:
  assumes "ops env = be"
  shows "engine_ops env (engine_ok inv)"
proof (rule engine_ops.intro [OF engine_kv_store [OF assms]], unfold_locales)
  fix se :: "'b StorageEngine" and p
  assume good: "engine_ok inv se"
  {
    assume "credential_op p"
    then have f: "kv_frame abs inv se (fst (run_op env se p))" by (rule cred_op_kv_frame [OF assms])
    then show good': "engine_ok inv (fst (run_op env se p))" using good by (simp add: kv_frame_def)
    show "ok (retrieve env (fst (run_op env se p)) k) = ok (retrieve env se k)" if "sys_key k" for k
      using f good good' that by (simp add: kv_frame_def retrieve_view [OF assms])
  }
  show "engine_ok inv (fst (run_op env se Op_Reset))"
  proof -
    have "engine_ok inv (clear env se)"
      using good delete_all_inv by (auto simp: clear_def engine_ok_def assms Let_def split: option.splits)
    then have "engine_ok inv ((clear env se)\<lparr>large_blobs := []\<rparr>)" by (simp add: engine_ok_def)
    then show ?thesis
      using backend_delete_frame [OF assms not_sys_blobs] by (simp add: clear_large_blobs_def kv_frame_def Let_def)
  qed
qed

end

text \<open>The engine over flash, over files, and without a backend.\<close>

interpretation flash_engine: engine_ops
    "\<lparr>ops = flash_backend dev codec, cred_codec = cc, hex_encode = hx, ring = r\<rparr>" "engine_ok (\<lambda>b. btree_wf (fs_cache b))"
  for dev codec cc hx r
  by (rule flash_be.engine_ops_contract) simp

interpretation file_engine: engine_ops
    "\<lparr>ops = file_backend json, cred_codec = cc, hex_encode = hx, ring = r\<rparr>" "engine_ok (file_ready json)"
  for json cc hx r
  by (rule file_be.engine_ops_contract) simp

lemma memory_engine_ops: "engine_ops env (\<lambda>se. backend se = None)"
proof -
  have "storage_backend (ops env) (\<lambda>_ _. None) (\<lambda>_. False)" by unfold_locales simp_all
  then have "engine_ops env (engine_ok (\<lambda>_. False))" by (rule storage_backend.engine_ops_contract) simp
  moreover have "engine_ok (\<lambda>_. False) = (\<lambda>se :: 'a StorageEngine. backend se = None)"
    by (auto simp: engine_ok_def fun_eq_iff)
  ultimately show ?thesis by simp
qed

interpretation memory_engine: engine_ops env "\<lambda>se. backend se = None" for env
  by (rule memory_engine_ops)

end
