(* ===== verification/Command_Frames.thy ===== *)
theory Command_Frames
  imports Ctap2 Engine_Contract Example_Device
begin

section \<open>What each command may change\<close>

text \<open>
  The key-value entries a command may write. \<open>keeps env good K a a'\<close> says that the step from \<open>a\<close> to \<open>a'\<close> leaves
  every system entry outside \<open>K\<close> as it was. The rules carry it through the operators of theory \<open>Effects\<close>; every
  handler gets its set of keys, proved once in the locale \<open>device\<close> and thereby for every storage of
  \<open>Engine_Contract\<close>. The properties that span many commands (signature counter, \<open>alwaysUv\<close>) rest on these frames.
\<close>

definition keeps :: "('b, 'p, 'v) cenv \<Rightarrow> ('b StorageEngine \<Rightarrow> bool) \<Rightarrow> string set \<Rightarrow> ('b, 'p, 'v) auth \<Rightarrow> ('b, 'p, 'v) auth \<Rightarrow> bool" where
  "keeps env good K a a' = (good (au_storage a) \<longrightarrow> good (au_storage a')
     \<and> (\<forall>k. sys_key k \<longrightarrow> k \<notin> K \<longrightarrow> ok (auth_retrieve env a' k) = ok (auth_retrieve env a k)))"

named_theorems keeps_intros

interpretation kept: step_relation "keeps env good K" for env good K
  by unfold_locales (simp_all add: keeps_def)

lemmas keeps_refl [simp] = kept.step_refl
lemmas keeps_trans = kept.step_trans
lemmas keeps_attempt [keeps_intros] = kept.step_attempt
lemmas keeps_check [keeps_intros] = kept.step_check
lemmas keeps_andthen [keeps_intros] = kept.step_andthen
lemmas keeps_split = kept.step_split
lemmas keeps_case = kept.step_case

lemma keeps_storage: "au_storage a' = au_storage a \<Longrightarrow> keeps env good K a a'"
  by (simp add: keeps_def auth_retrieve_def)

lemma keeps_after: "keeps env good K b c \<Longrightarrow> au_storage b = au_storage a \<Longrightarrow> keeps env good K a c"
  by (simp add: keeps_def auth_retrieve_def)

lemma keeps_map_err [simp]: "fst (map_outcome_err f r) = fst r"
  by (simp add: map_outcome_err_def)

text \<open>Steps that leave the storage alone.\<close>

lemma same_andthen: "au_storage (fst r) = v \<Longrightarrow> (\<And>b x. au_storage b = v \<Longrightarrow> au_storage (fst (f x b)) = v) \<Longrightarrow> au_storage (fst (andthen r f)) = v"
  by (rule andthen_same) auto

lemma same_attempt: "au_storage a = v \<Longrightarrow> (\<And>x. au_storage (fst (f x)) = v) \<Longrightarrow> au_storage (fst (attempt r a f)) = v"
  by (rule attempt_inv)

lemma same_check: "au_storage a = v \<Longrightarrow> au_storage (fst k) = v \<Longrightarrow> au_storage (fst (check c e a k)) = v"
  by (rule check_inv)

lemmas same_intros = same_andthen same_attempt same_check

lemma storage_same [simp]:
  "au_storage (next_draw a) = au_storage a"
  "au_storage (fst (auth_random env a n)) = au_storage a"
  "au_storage (fst (current_timestamp env a)) = au_storage a"
  "au_storage (fst (generate_credential_id env a)) = au_storage a"
  "au_storage (fst (generate_credential_key env a alg)) = au_storage a"
  "au_storage (fst (generate_large_blob_key env a ext)) = au_storage a"
  "au_storage (fst (sign_for_attestation env a alg priv data)) = au_storage a"
  "au_storage (fst (sign_assertion env a c data)) = au_storage a"
  "au_storage (fst (require_presence env a up)) = au_storage a"
  "au_storage (fst (take_pin_agreement_key a)) = au_storage a"
  "au_storage (fst (respond env codec a x)) = au_storage a"
  by (auto simp: next_draw_def auth_random_def current_timestamp_def generate_credential_id_def generate_credential_key_def
      generate_large_blob_key_def sign_for_attestation_def sign_assertion_def require_presence_def take_pin_agreement_key_def
      respond_def Let_def split: option.splits prod.splits)

lemma storage_same_cred_randoms [simp]: "au_storage (fst (generate_cred_randoms env a ext)) = au_storage a"
  by (auto simp: generate_cred_randoms_def auth_random_def next_draw_def attempt_def split: option.splits sum.splits)

lemma storage_same_attest [simp]: "au_storage (fst (attest env a fmt data c)) = au_storage a"
  unfolding attest_def self_generate_def packed_generate_def Let_def
  by (cases fmt) (simp_all, (intro same_intros; simp)+)

lemma storage_same_authorize [simp]: "au_storage (fst (authorize env a pr pa h perm rp uv up)) = au_storage a"
  unfolding authorize_def by (intro same_intros; simp)

lemma storage_same_hmac [simp]:
  "au_storage (fst (begin_session env a req)) = au_storage a" "au_storage (fst (session_output env a s c)) = au_storage a"
  unfolding begin_session_def session_output_def take_pin_agreement_key_def Let_def prod.case
  by (intro same_intros; simp)+

lemma storage_same_chain [simp]:
  "au_storage (fst (assertion_hmac_output env a req raw c p)) = au_storage a"
  "au_storage (fst (chained_hmac_output env a st c)) = au_storage a"
  "au_storage (fst (prepare_chain env a req c f u)) = au_storage a"
proof -
  have "au_storage (fst (case r of None \<Rightarrow> (a, Inr None) | Some cred_random \<Rightarrow>
           andthen (begin_session env a req) (\<lambda>session a.
           andthen (session_output env a session cred_random) (\<lambda>encrypted a.
             (a\<lparr>au_hmac_secret_session := Some session\<rparr>, Inr (Some (Bytes encrypted))))))) = au_storage a" for r req
    by (cases r) (simp_all, (intro same_intros; simp)+)
  then show "au_storage (fst (assertion_hmac_output env a req raw c p)) = au_storage a"
    unfolding assertion_hmac_output_def by (intro same_check same_attempt) simp_all
  show "au_storage (fst (chained_hmac_output env a st c)) = au_storage a"
    unfolding chained_hmac_output_def by (auto intro!: same_andthen split: option.split)
qed (simp add: prepare_chain_def Let_def)

lemma storage_same_outputs [simp]: "au_storage (fst (assertion_extension_outputs env a req c p)) = au_storage a"
  unfolding assertion_extension_outputs_def Let_def by (auto intro!: same_andthen split: option.split)

lemma storage_same_enumerate [simp]:
  "au_storage (fst (handle_enumerate_rps_initial env a)) = au_storage a"
  "au_storage (fst (handle_enumerate_rps_next env a)) = au_storage a"
  "au_storage (fst (handle_cred_mgmt_get_metadata env a)) = au_storage a"
  "au_storage (fst (handle_cred_mgmt_enumerate_rps_begin env a)) = au_storage a"
  "au_storage (fst (handle_cred_mgmt_enumerate_rps_next env a)) = au_storage a"
  "au_storage (fst (handle_cred_mgmt_enumerate_creds_begin env a h)) = au_storage a"
  "au_storage (fst (handle_cred_mgmt_enumerate_creds_next env a)) = au_storage a"
  by (simp_all add: handle_enumerate_rps_initial_def handle_enumerate_rps_next_def handle_cred_mgmt_get_metadata_def
      handle_cred_mgmt_enumerate_rps_begin_def handle_cred_mgmt_enumerate_rps_next_def
      handle_cred_mgmt_enumerate_creds_begin_def handle_cred_mgmt_enumerate_creds_next_def respond_def Let_def split: option.split)

lemmas keeps_same [keeps_intros] =
  storage_same [THEN keeps_storage] storage_same_cred_randoms [THEN keeps_storage] storage_same_attest [THEN keeps_storage]
  storage_same_authorize [THEN keeps_storage] storage_same_hmac [THEN keeps_storage] storage_same_enumerate [THEN keeps_storage]
  storage_same_chain [THEN keeps_storage] storage_same_outputs [THEN keeps_storage]

lemma storage_same_pin [simp]:
  "au_storage (fst (perform_key_agreement env a protocol peer)) = au_storage a"
  "au_storage (fst (issue_pin_uv_auth_token env a protocol secret permissions rp)) = au_storage a"
  "au_storage (fst (handle_get_key_agreement env a req)) = au_storage a"
  unfolding perform_key_agreement_def issue_pin_uv_auth_token_def handle_get_key_agreement_def
    take_pin_agreement_key_def auth_random_def Let_def prod.case
  by (intro same_intros; simp add: set_pin_uv_auth_token_def set_pin_shared_secret_def set_pin_agreement_key_def split: option.split)+

subsection \<open>What ClientPIN writes\<close>

text \<open>
  A relation that contains the steps that leave the storage alone and the writes to keys of \<open>K\<close> contains every run of
  authenticatorClientPIN, if \<open>K\<close> has the three keys of the PIN state.
\<close>

locale kv_steps = step_relation R
  for R :: "('b, 'p, 'v) auth \<Rightarrow> ('b, 'p, 'v) auth \<Rightarrow> bool" +
  fixes env :: "('b, 'p, 'v) cenv" and K :: "string set"
  assumes same_step: "au_storage b = au_storage a \<Longrightarrow> R a b"
    and store_step: "k \<in> K \<Longrightarrow> R a (fst (auth_store env a k v))"
begin

lemma store_after: "k \<in> K \<Longrightarrow> au_storage b = au_storage a \<Longrightarrow> R a (fst (auth_store env b k v))"
  by (rule step_trans [OF same_step store_step])

lemma counter_steps:
  "PIN_RETRIES_KEY \<in> K \<Longrightarrow> R a (decrement_pin_retries env a)"
  "PIN_RETRIES_KEY \<in> K \<Longrightarrow> R a (reset_pin_retries env a)"
  "UV_RETRIES_KEY \<in> K \<Longrightarrow> R a (fst (perform_builtin_uv env a))"
proof -
  assume "PIN_RETRIES_KEY \<in> K"
  then show "R a (decrement_pin_retries env a)" "R a (reset_pin_retries env a)"
    unfolding decrement_pin_retries_def reset_pin_retries_def by (simp_all add: store_after)
next
  assume "UV_RETRIES_KEY \<in> K"
  then have "R a (fst (auth_store env (a\<lparr>au_user_verification := v\<rparr>) UV_RETRIES_KEY x))" for v x
    by (simp add: store_after)
  then show "R a (fst (perform_builtin_uv env a))"
    by (simp add: perform_builtin_uv_def reset_uv_retries_def decrement_uv_retries_def step_refl split: option.split prod.split sum.split)
qed

lemma check_pin_hash_steps:
  assumes "PIN_RETRIES_KEY \<in> K"
  shows "R a (fst (check_pin_hash env a protocol secret enc))"
proof -
  have "R b (fst (case register_pin_failure env b of (b, e) \<Rightarrow> (b, Inl e)))" for b
    by (rule same_step) (simp add: register_pin_failure_def Let_def)
  then show ?thesis
    unfolding check_pin_hash_def pin_failure_error_def Let_def
    by (intro step_trans [OF counter_steps(1) [OF assms], of a]) (auto simp: counter_steps(2) [OF assms] split: sum.split)
qed

lemma set_pin_steps:
  assumes "{PIN_STORAGE_KEY, PIN_RETRIES_KEY} \<subseteq> K"
  shows "R a (fst (set_pin env a pin))"
proof -
  have "R b ((reset_pin_retries env b)\<lparr>au_pin_uv_auth_token := None\<rparr>)" for b
    by (rule step_trans [OF counter_steps(2) same_step]) (use assms in auto)
  then show ?thesis
    using assms unfolding set_pin_def by (intro step_check step_andthen) (simp_all add: store_step)
qed

lemma client_pin_steps:
  assumes K: "{PIN_STORAGE_KEY, PIN_RETRIES_KEY, UV_RETRIES_KEY} \<subseteq> K"
  shows "R a (fst (handle_client_pin env a data))"
proof -
  have inv: "R b (fst (auth_store env (invalidate_pin_uv_auth_token b) PIN_STORAGE_KEY h))" for b h
    using K by (simp add: store_after invalidate_pin_uv_auth_token_def)
  note steps = step_attempt step_check step_andthen storage_same_pin [THEN same_step] set_pin_steps check_pin_hash_steps
  have "R a (fst (handle_get_pin_token_common env a req protocol permissions rp))" for req protocol permissions rp
    unfolding handle_get_pin_token_common_def using K by (intro steps) (auto simp: step_refl)
  moreover have "R a (fst (handle_set_pin env a req))" "R a (fst (handle_change_pin env a req))" for req
    unfolding handle_set_pin_def handle_change_pin_def using K by (intro steps; auto simp: inv step_refl)+
  moreover have "R a (fst (handle_get_uv_token env a req))" for req
    unfolding handle_get_uv_token_def using K by (intro steps counter_steps) (auto simp: step_refl)
  ultimately have "R a (fst (run_client_pin env a sub req))" for sub req
    by (cases sub) (simp_all add: run_client_pin_def handle_get_pin_token_def handle_get_pin_token_with_permissions_def
        step_attempt step_check same_step)
  then show ?thesis unfolding handle_client_pin_def by (intro steps) (auto simp: step_refl)
qed

end

subsection \<open>Frames of the handlers\<close>

locale device = engine_ops "senv env" good
  for env :: "('b, 'p, 'v) cenv" and good :: "'b StorageEngine \<Rightarrow> bool"
begin

lemma keeps_store: "k \<in> K \<Longrightarrow> keeps env good K a (fst (auth_store env a k v))"
  using put_good [of "au_storage a"] put_other [of "au_storage a"]
  by (auto simp: keeps_def auth_store_def auth_retrieve_def split: prod.splits) (metis fst_conv)+

lemma keeps_delete: "k \<in> K \<Longrightarrow> keeps env good K a (fst (auth_delete env a k))"
  using del_good [of "au_storage a"] del_other [of "au_storage a"]
  by (auto simp: keeps_def auth_delete_def auth_retrieve_def split: prod.splits) (metis fst_conv)+

lemma keeps_cred_op:
  assumes "credential_op p" "au_storage a' = fst (run_op (senv env) (au_storage a) p)"
  shows "keeps env good K a a'"
  using cred_op_good [OF _ assms(1)] cred_op_frame [OF _ assms(1)] by (simp add: keeps_def auth_retrieve_def assms(2))

lemma keeps_store_credential [keeps_intros]: "keeps env good K a (fst (auth_store_credential env a c))"
  by (rule keeps_cred_op [of "Op_StoreCredential (au_crypto a) (au_draws a) c"])
     (simp_all add: credential_op_def auth_store_credential_def Let_def split_beta)

lemma keeps_update_sign_count [keeps_intros]: "keeps env good K a (fst (auth_update_sign_count env a i n))"
  by (rule keeps_cred_op [of "Op_UpdateSignCount i n"])
     (simp_all add: credential_op_def auth_update_sign_count_def Let_def split_beta)

lemma keeps_delete_credential [keeps_intros]: "keeps env good K a (fst (handle_cred_mgmt_delete_credential env a i))"
  by (rule keeps_cred_op [of "Op_DeleteCredential i"])
     (simp_all add: credential_op_def handle_cred_mgmt_delete_credential_def Let_def split_beta)

lemma keeps_update_user [keeps_intros]: "keeps env good K a (fst (handle_cred_mgmt_update_user env a i u))"
  by (rule keeps_cred_op [of "Op_UpdateUserInfo i (usr_name u) (usr_display_name u)"])
     (simp_all add: credential_op_def handle_cred_mgmt_update_user_def Let_def split_beta)

lemma keeps_large_blobs [keeps_intros]: "keeps env good K a (fst (handle_large_blobs env a data))"
proof -
  have w: "keeps env good K a (a\<lparr>au_storage := fst (write_large_blobs (senv env) (au_storage a) off d l)\<rparr>)" for off d l
    by (rule keeps_cred_op [of "Op_WriteLargeBlobs off d l"]) (simp_all add: credential_op_def Let_def split_beta)
  have "keeps env good K a (fst (case write_large_blobs (senv env) (au_storage a) off d l of (se, r) \<Rightarrow>
      attempt (map_err large_blob_error r) (a\<lparr>au_storage := se\<rparr>)
        (\<lambda>_. respond env (lb_response env) (a\<lparr>au_storage := se\<rparr>) \<lparr>lbs_config = None\<rparr>)))" for off d l
    unfolding split_beta by (rule keeps_trans [OF w [of off d l]]) (intro keeps_intros)
  then have "keeps env good K a (fst (large_blobs_write env a req d))" for req d
    unfolding large_blobs_write_def Let_def by (intro keeps_attempt keeps_check)
  then show ?thesis
    unfolding handle_large_blobs_def large_blobs_read_def Let_def
    by (intro keeps_attempt) (auto split: option.split intro!: keeps_intros)
qed

lemma keeps_credential_management [keeps_intros]: "keeps env good K a (fst (handle_credential_management env a data))"
proof -
  have "keeps env good K a (fst (run_cred_mgmt env a req))" for req
    unfolding run_cred_mgmt_def Let_def by (auto intro!: keeps_intros)
  then show ?thesis unfolding handle_credential_management_def by (auto intro!: keeps_attempt)
qed

lemma keeps_next_sign_count: "SIGN_COUNTER_STORAGE_KEY \<in> K \<Longrightarrow> keeps env good K a (fst (next_sign_count env a))"
  by (auto simp: next_sign_count_def intro!: keeps_intros keeps_store split: option.split)

lemma keeps_count_and_sign:
  "SIGN_COUNTER_STORAGE_KEY \<in> K \<Longrightarrow> keeps env good K a (fst (count_and_sign env a c h f d))"
  unfolding count_and_sign_def by (intro keeps_intros keeps_next_sign_count) simp_all

lemma keeps_get_assertion: "SIGN_COUNTER_STORAGE_KEY \<in> K \<Longrightarrow> keeps env good K a (fst (get_assertion env a req))"
  unfolding get_assertion_def Let_def split_beta
  by (intro keeps_intros keeps_count_and_sign) (simp_all add: keeps_storage)

lemma keeps_next_assertion:
  assumes "SIGN_COUNTER_STORAGE_KEY \<in> K"
  shows "keeps env good K a (fst (next_assertion env a))"
proof (cases "au_get_next_assertion_state a")
  case (Some st)
  have respond: "keeps env good K a (fst (build_get_assertion_response env a c n h f v))" for a c n h f v
    unfolding build_get_assertion_response_def split_beta by (intro keeps_intros keeps_count_and_sign assms) simp
  show ?thesis
    unfolding next_assertion_def Some option.case Let_def
    by (rule keeps_after [where b = "a\<lparr>au_get_next_assertion_state := None\<rparr>"])
       (auto intro!: keeps_attempt keeps_andthen keeps_same keeps_after [OF respond] intro: keeps_storage)
qed (simp add: next_assertion_def)

lemma keeps_create_credential [keeps_intros]: "keeps env good K a (fst (create_credential env a req alg blob))"
  unfolding create_credential_def Let_def
  by (intro keeps_split keeps_case keeps_intros) simp_all

lemma keeps_make_credential:
  assumes "CFG_EP_PENDING_KEY \<in> K"
  shows "keeps env good K a (fst (make_credential env a req))"
proof -
  have c: "keeps env good K b (fst (consume_ep_pending env b))" for b
    using assms by (simp add: consume_ep_pending_def keeps_delete Let_def)
  show ?thesis
    unfolding make_credential_def Let_def by (intro keeps_split keeps_intros keeps_case c) simp
qed

lemma keeps_client_pin:
  assumes K: "{PIN_STORAGE_KEY, PIN_RETRIES_KEY, UV_RETRIES_KEY} \<subseteq> K"
  shows "keeps env good K a (fst (handle_client_pin env a data))"
proof -
  have "kv_steps (keeps env good K) env K"
    by unfold_locales (auto intro: keeps_storage keeps_store)
  then show ?thesis using K by (rule kv_steps.client_pin_steps)
qed

lemma keeps_store_or_unknown: "k \<in> K \<Longrightarrow> keeps env good K a (fst (store_or_unknown env a k v))"
  by (simp add: store_or_unknown_def keeps_store)

lemma keeps_toggle: "k \<in> K \<Longrightarrow> keeps env good K a (fst (toggle_flag env a k))"
  by (simp add: toggle_flag_def keeps_delete keeps_store_or_unknown)

lemma storage_same_verify_current_pin [simp]: "au_storage (fst (verify_current_pin env a enc)) = au_storage a"
  unfolding verify_current_pin_def take_pin_shared_secret_def Let_def prod.case split_beta by (intro same_intros) simp_all

lemma keeps_authnr_config:
  assumes K: "{CFG_EP_PENDING_KEY, CFG_ALWAYS_UV_KEY, CFG_MAKE_CRED_UV_NOT_RQD_KEY, CFG_MIN_PIN_LENGTH_KEY,
    CFG_MIN_PIN_LENGTH_RPIDS_KEY, CFG_FORCE_CHANGE_PIN_KEY} \<subseteq> K"
  shows "keeps env good K a (fst (handle_authnr_config env a data))"
proof -
  note steps = keeps_attempt keeps_check keeps_andthen keeps_store_or_unknown keeps_toggle
  have "keeps env good K a (fst (handle_set_min_pin_length env a params))" for params
    unfolding handle_set_min_pin_length_def Let_def
    using K by (intro steps) (auto simp: keeps_storage keeps_store_or_unknown keeps_delete split: option.split)
  moreover have "keeps env good K a (fst (handle_set_min_pin_length_rpids env a params))" for params
    unfolding handle_set_min_pin_length_rpids_def using K by (intro steps) auto
  ultimately have "keeps env good K a (fst (run_config_sub_command env a req))" for req
    using K by (auto simp: run_config_sub_command_def intro!: steps)
  then show ?thesis unfolding handle_authnr_config_def by (intro steps) auto
qed

end

text \<open>The locale holds for the authenticator over flash, over files, and without a backend.\<close>

interpretation flash_device: device
    "env\<lparr>senv := \<lparr>ops = flash_backend dev codec, cred_codec = cc, hex_encode = hx, ring = r\<rparr>\<rparr>" "engine_ok (\<lambda>b. btree_wf (fs_cache b))"
  for env :: "('d FlashStorageBackend, 'p, 'v) cenv" and dev codec cc hx r
  by (rule device.intro) (simp add: flash_engine.engine_ops_axioms)

interpretation file_device: device
    "env\<lparr>senv := \<lparr>ops = file_backend json, cred_codec = cc, hex_encode = hx, ring = r\<rparr>\<rparr>" "engine_ok (file_ready json)"
  for env json cc hx r
  by (rule device.intro) (simp add: file_engine.engine_ops_axioms)

interpretation memory_device: device env "\<lambda>se. backend se = None" for env
  by (rule device.intro) (rule memory_engine_ops)

interpretation memory_frame: kv_steps "keeps env (\<lambda>se. backend se = None) K" env K for env K
  by unfold_locales (auto intro: keeps_storage memory_device.keeps_store)

subsection \<open>Commands\<close>

text \<open>The key-value entries a command other than Reset may write.\<close>

definition written_keys :: "Ctap2Command \<Rightarrow> string set" where
  "written_keys c =
     (if c = Cmd_MakeCredential then {CFG_EP_PENDING_KEY}
      else if c = Cmd_GetAssertion \<or> c = Cmd_GetNextAssertion then {SIGN_COUNTER_STORAGE_KEY}
      else if c = Cmd_ClientPIN then {PIN_STORAGE_KEY, PIN_RETRIES_KEY, UV_RETRIES_KEY}
      else if c = Cmd_AuthenticatorConfig
      then {CFG_EP_PENDING_KEY, CFG_ALWAYS_UV_KEY, CFG_MAKE_CRED_UV_NOT_RQD_KEY, CFG_MIN_PIN_LENGTH_KEY,
            CFG_MIN_PIN_LENGTH_RPIDS_KEY, CFG_FORCE_CHANGE_PIN_KEY}
      else {})"

context device
begin

lemma keeps_process_command:
  assumes "command_from_u8 cmd \<noteq> Cmd_Reset"
  shows "keeps env good (written_keys (command_from_u8 cmd)) a (fst (process_command env a cmd data))"
proof -
  let ?a = "if command_from_u8 cmd = Cmd_GetNextAssertion then a else a\<lparr>au_hmac_secret_session := None\<rparr>"
  let ?K = "written_keys (command_from_u8 cmd)"
  note steps = keeps_attempt keeps_andthen keeps_same keeps_make_credential keeps_get_assertion keeps_next_assertion
  have "keeps env good ?K ?a (fst (process_command env a cmd data))"
    using assms unfolding process_command_def Let_def
    by (cases "command_from_u8 cmd")
       (simp_all add: handle_selection_def handle_get_version_def handle_bio_enroll_def handle_get_next_assertion_def,
        (intro steps keeps_client_pin keeps_authnr_config keeps_large_blobs keeps_credential_management;
         simp add: written_keys_def keeps_storage)+)
  then show ?thesis by (rule keeps_after) simp
qed

end

text \<open>
  Property C19: every command but Reset leaves the entries of the key-value store outside its own few keys as they
  were, on success and on every error, and keeps the storage in a good state. So MakeCredential cannot touch the
  PIN, ClientPIN cannot touch the configuration or the signature counter, and so on.
\<close>

theorem command_write_set:
  assumes "engine_ops (senv env) good" "good (au_storage a)" "command_from_u8 cmd \<noteq> Cmd_Reset"
    and "sys_key k" "k \<notin> written_keys (command_from_u8 cmd)"
  shows "good (au_storage (fst (process_command env a cmd data)))
    \<and> ok (auth_retrieve env (fst (process_command env a cmd data)) k) = ok (auth_retrieve env a k)"
  using device.keeps_process_command [OF device.intro [OF assms(1)] assms(3), of a data] assms(2,4,5)
  by (simp add: keeps_def)

theorem command_write_set_witness:
  "backend (au_storage (fst (process_command (example_cenv Null) (example_pin_auth [7]) 0x06 [0]))) = None
    \<and> ok (auth_retrieve (example_cenv Null) (fst (process_command (example_cenv Null) (example_pin_auth [7]) 0x06 [0])) SIGN_COUNTER_STORAGE_KEY)
      = ok (auth_retrieve (example_cenv Null) (example_pin_auth [7]) SIGN_COUNTER_STORAGE_KEY)"
  by (rule command_write_set [OF memory_engine_ops])
     (simp_all add: example_pin_auth_def auth_store_def split_beta store_cases command_from_u8_def sys_key_def written_keys_def
        LARGE_BLOBS_STORAGE_KEY_def SIGN_COUNTER_STORAGE_KEY_def PIN_STORAGE_KEY_def PIN_RETRIES_KEY_def UV_RETRIES_KEY_def)

end
