(* ===== verification/Example_Assertion.thy ===== *)
theory Example_Assertion
  imports Ctap2 Example_Device
begin

section \<open>A device that answers an assertion\<close>

text \<open>
  A concrete authenticator in memory with one stored credential, and a GetAssertion request it answers. The
  properties of assertions are applied to it.
\<close>

text \<open>A device with one credential that answers an assertion.\<close>

definition example_ga_request :: GetAssertionRequest where
  "example_ga_request =
     \<lparr>gar_rp_id = ''rp'', gar_credentials = [], gar_allow_list = None, gar_client_data_hash = [1, 2, 3],
      gar_extensions = None, gar_options = get_assertion_options_default, gar_pin_uv_auth_param = None,
      gar_pin_protocol = None, gar_uv = None\<rparr>"

definition example_ga_env :: "((string, bytes) btree, unit, unit) cenv" where
  "example_ga_env = (example_cenv Null)\<lparr>ga_request := codec_reading ''GetAssertionRequest'' example_ga_request\<rparr>"

definition example_ga_auth :: "((string, bytes) btree, unit, unit) auth" where
  "example_ga_auth = fst (auth_store_credential (example_cenv Null) example_auth
     (example_credential\<lparr>rp_id_hash := rp_hash (example_cenv Null) ''rp'', private_key := replicate 32 7\<rparr>))"

lemma example_ga_memory: "backend (au_storage example_ga_auth) = None"
  by code_simp

end
