(* ===== verification/Sign_Counter.thy ===== *)
theory Sign_Counter
  imports Command_Frames Example_Assertion
begin

section \<open>The signature counter\<close>

text \<open>
  The counter a relying party uses to detect a cloned authenticator: every assertion reports a count larger than
  all counts reported before, over any sequence of commands without a Reset, also when commands fail in between
  and whatever the storage. The overflow of the counter refuses the assertion.
\<close>

subsection \<open>Counts of a session\<close>

text \<open>The count in the authenticator data of a response.\<close>

definition sign_count_of :: "GetAssertionResponse \<Rightarrow> u32" where
  "sign_count_of resp = from_be_bytes (slice_of 33 37 (gas_auth_data resp))"

text \<open>The assertion a command produces, if any, before it is encoded.\<close>

definition command_assertion :: "('b, 'p, 'v) cenv \<Rightarrow> ('b, 'p, 'v) auth \<Rightarrow> u8 \<Rightarrow> bytes \<Rightarrow> GetAssertionResponse option" where
  "command_assertion env a cmd data =
     (case command_from_u8 cmd of
        Cmd_GetAssertion \<Rightarrow>
          Option.bind (ok (decode_cbor (cbor env) (ga_request env) data)) (\<lambda>req.
            ok (snd (get_assertion env (a\<lparr>au_hmac_secret_session := None\<rparr>) req)))
      | Cmd_GetNextAssertion \<Rightarrow> ok (snd (next_assertion env a))
      | _ \<Rightarrow> None)"

fun assertion_counts :: "('b, 'p, 'v) cenv \<Rightarrow> ('b, 'p, 'v) auth \<Rightarrow> (u8 \<times> bytes) list \<Rightarrow> u32 list" where
  "assertion_counts env a [] = []"
| "assertion_counts env a ((cmd, data) # cs) =
     (case command_assertion env a cmd data of Some resp \<Rightarrow> [sign_count_of resp] | None \<Rightarrow> [])
     @ assertion_counts env (fst (process_command env a cmd data)) cs"

subsection \<open>Steps\<close>

text \<open>The counter does not decrease, and the storage stays good.\<close>

definition counts_up :: "('b, 'p, 'v) cenv \<Rightarrow> ('b StorageEngine \<Rightarrow> bool) \<Rightarrow> ('b, 'p, 'v) auth \<Rightarrow> ('b, 'p, 'v) auth \<Rightarrow> bool" where
  "counts_up env good a b = (good (au_storage a) \<longrightarrow> good (au_storage b) \<and> current_sign_count env a \<le> current_sign_count env b)"

interpretation counting: step_relation "counts_up env good" for env good
  by unfold_locales (auto simp: counts_up_def)

lemmas counts_up_trans = counting.step_trans
lemmas counts_up_steps = counting.step_attempt counting.step_andthen

lemma sys_key_counter [simp]: "sys_key SIGN_COUNTER_STORAGE_KEY"
  by (simp add: sys_key_def SIGN_COUNTER_STORAGE_KEY_def LARGE_BLOBS_STORAGE_KEY_def)

lemma keeps_counter:
  assumes "keeps env good K a b" "SIGN_COUNTER_STORAGE_KEY \<notin> K" "good (au_storage a)"
  shows "good (au_storage b) \<and> current_sign_count env b = current_sign_count env a"
  using assms by (simp add: keeps_def current_sign_count_def read_counter_def)

lemma same_counter: "au_storage b = au_storage a \<Longrightarrow> current_sign_count env b = current_sign_count env a"
  by (simp add: current_sign_count_def auth_retrieve_def)

lemma map_outcome_err_ok: "map_outcome_err f r = (s, Inr x) \<longleftrightarrow> r = (s, Inr x)"
  by (cases r) (auto simp: map_outcome_err_def map_err_ok)

context device
begin

lemma next_sign_count_ok:
  assumes good: "good (au_storage a)" and run: "next_sign_count env a = (b, Inr n)"
  shows "good (au_storage b) \<and> current_sign_count env a < n \<and> current_sign_count env b = n"
proof -
  obtain m where m: "checked_add_word (current_sign_count env a) 1 = Some m"
    and st: "auth_store env a SIGN_COUNTER_STORAGE_KEY (print_word m) = (b, Inr ())" and n: "m = n"
    using run by (auto simp: next_sign_count_def andthen_ok map_outcome_err_ok split: option.splits)
  obtain se where se: "store (senv env) (au_storage a) SIGN_COUNTER_STORAGE_KEY (print_word m) = (se, Inr ())" "au_storage b = se"
    using st by (auto simp: auth_store_def split: prod.splits)
  have "ok (auth_retrieve env b SIGN_COUNTER_STORAGE_KEY) = Some (print_word n)"
    using put_get [OF good se(1), of SIGN_COUNTER_STORAGE_KEY] se(2) n by (simp add: auth_retrieve_def)
  moreover have "good (au_storage b)" using put_good [OF good] se by (metis fst_conv)
  moreover have "current_sign_count env a < n"
    using m n unat_1 by (auto simp: checked_add_word_def word_less_nat_alt unat_word_ariths split: if_splits)
  ultimately show ?thesis by (simp add: current_sign_count_def read_counter_def)
qed

lemma next_sign_count_up: "counts_up env good a (fst (next_sign_count env a))"
proof -
  have "good (au_storage (fst (next_sign_count env a)))
      \<and> current_sign_count env a \<le> current_sign_count env (fst (next_sign_count env a))" if "good (au_storage a)"
  proof (cases "snd (next_sign_count env a)")
    case (Inr n)
    then show ?thesis using next_sign_count_ok [OF that, of "fst (next_sign_count env a)" n] by (auto simp: prod_eq_iff)
  next
    case (Inl e)
    then have "ok (auth_retrieve env (fst (next_sign_count env a)) SIGN_COUNTER_STORAGE_KEY) = ok (auth_retrieve env a SIGN_COUNTER_STORAGE_KEY)"
      using put_fail [OF that]
      by (auto simp: next_sign_count_def auth_store_def auth_retrieve_def map_outcome_err_def andthen_def map_err_def
          split: option.splits prod.splits sum.splits)
    moreover have "good (au_storage (fst (next_sign_count env a)))"
      using keeps_next_sign_count [of "{SIGN_COUNTER_STORAGE_KEY}" a] that by (simp add: keeps_def)
    ultimately show ?thesis by (simp add: current_sign_count_def read_counter_def)
  qed
  then show ?thesis by (simp add: counts_up_def)
qed

lemma counts_up_keeps: "keeps env good {} a b \<Longrightarrow> counts_up env good a b"
  using keeps_counter [of env good "{}" a b] by (auto simp: counts_up_def)

lemma counts_up_same: "au_storage b = au_storage a \<Longrightarrow> counts_up env good a b"
  by (rule counts_up_keeps [OF keeps_storage])

lemma count_and_sign_up: "counts_up env good a (fst (count_and_sign env a c h f d))"
  unfolding count_and_sign_def
  by (intro counts_up_steps next_sign_count_up counts_up_keeps [OF keeps_update_sign_count])
     (simp_all add: counts_up_same)

lemma count_and_sign_ok:
  assumes good: "good (au_storage a)" and run: "count_and_sign env a c h f d = (b, Inr (auth_data, sig))"
  shows "good (au_storage b) \<and> current_sign_count env a < current_sign_count env b
    \<and> auth_data = h @ [f] @ to_be_bytes 4 (current_sign_count env b)"
proof -
  obtain n a1 a2 where n: "next_sign_count env a = (a1, Inr n)"
    and u: "auth_update_sign_count env a1 (credential_id c) n = (a2, Inr ())"
    and s: "fst (sign_assertion env a2 c (slice_of 0 32 auth_data @ slice_of 32 37 auth_data @ d)) = b"
    and d: "auth_data = h @ [f] @ to_be_bytes 4 n"
    using run by (auto simp: count_and_sign_def andthen_ok attempt_ok build_auth_data_def)
  note n' = next_sign_count_ok [OF good n]
  have "good (au_storage a2) \<and> current_sign_count env a2 = current_sign_count env a1"
    using keeps_counter [OF keeps_update_sign_count [of "{}" a1 "credential_id c" n], of] u n' by simp
  moreover have "au_storage b = au_storage a2" using s by auto
  ultimately show ?thesis using n' d same_counter [of b a2] by simp
qed

subsection \<open>Commands\<close>

lemma get_assertion_up: "counts_up env good a (fst (get_assertion env a req))"
  unfolding get_assertion_def Let_def split_beta
  by (intro counts_up_steps count_and_sign_up) (simp_all add: counts_up_same)

lemma build_response_up: "counts_up env good a (fst (build_get_assertion_response env a c n h f v))"
  unfolding build_get_assertion_response_def split_beta
  by (intro counts_up_steps count_and_sign_up) (simp add: counts_up_same)

lemma next_assertion_up: "counts_up env good a (fst (next_assertion env a))"
proof (cases "au_get_next_assertion_state a")
  case (Some st)
  have same: "counts_up env good b c \<Longrightarrow> au_storage b = au_storage a \<Longrightarrow> counts_up env good a c" for a b c
    by (rule counts_up_trans [OF counts_up_same])
  show ?thesis
    unfolding next_assertion_def Some option.case Let_def
    by (rule same [where b = "a\<lparr>au_get_next_assertion_state := None\<rparr>"])
       (auto intro!: counts_up_steps same [OF build_response_up] intro: counts_up_same)
qed (simp add: next_assertion_def counts_up_same)

lemma process_command_up:
  assumes "command_from_u8 cmd \<noteq> Cmd_Reset"
  shows "counts_up env good a (fst (process_command env a cmd data))"
proof (cases "command_from_u8 cmd = Cmd_GetAssertion \<or> command_from_u8 cmd = Cmd_GetNextAssertion")
  case True
  have "counts_up env good (a\<lparr>au_hmac_secret_session := None\<rparr>) (fst (attempt r (a\<lparr>au_hmac_secret_session := None\<rparr>)
      (\<lambda>req. andthen (get_assertion env (a\<lparr>au_hmac_secret_session := None\<rparr>) req) (\<lambda>resp a. respond env (ga_response env) a resp))))" for r
    by (intro counts_up_steps get_assertion_up counts_up_same storage_same)
  note counts_up_trans [OF _ this]
  moreover have "counts_up env good a (a\<lparr>au_hmac_secret_session := None\<rparr>)" by (rule counts_up_same) simp
  moreover have "counts_up env good a (fst (handle_get_next_assertion env a))"
    unfolding handle_get_next_assertion_def
    by (intro counts_up_steps next_assertion_up) (simp add: counts_up_same)
  ultimately show ?thesis
    using True by (auto simp: process_command_def Let_def)
next
  case False
  then have "SIGN_COUNTER_STORAGE_KEY \<notin> written_keys (command_from_u8 cmd)"
    by (auto simp: written_keys_def SIGN_COUNTER_STORAGE_KEY_def PIN_STORAGE_KEY_def PIN_RETRIES_KEY_def UV_RETRIES_KEY_def
        CFG_EP_PENDING_KEY_def CFG_ALWAYS_UV_KEY_def CFG_MAKE_CRED_UV_NOT_RQD_KEY_def CFG_MIN_PIN_LENGTH_KEY_def
        CFG_MIN_PIN_LENGTH_RPIDS_KEY_def CFG_FORCE_CHANGE_PIN_KEY_def)
  then show ?thesis
    using keeps_counter [OF keeps_process_command [OF assms]] by (auto simp: counts_up_def)
qed

lemma length_rp_hash: "sha256_length (ring (senv env)) \<Longrightarrow> length (rp_hash env rp) = 32"
  by (simp add: rp_hash_def hash_rp_id_def sha256_def sha256_length_def)

lemma header_count: "length h = 32 \<Longrightarrow> from_be_bytes (slice_of 33 37 (h @ f # to_be_bytes 4 (n :: u32))) = n"
  by (simp add: slice_of_def)

lemma get_assertion_count:
  assumes "good (au_storage a)" "sha256_length (ring (senv env))" "get_assertion env a req = (b, Inr resp)"
  shows "current_sign_count env a < sign_count_of resp \<and> sign_count_of resp = current_sign_count env b"
proof -
  obtain pa a0 c a1 data sig ext a2 where
    au: "authorize env a (gar_pin_protocol req) (gar_pin_uv_auth_param req) (gar_client_data_hash req)
                PERMISSION_GA (gar_rp_id req) (gao_uv (gar_options req)) (gao_up (gar_options req)) = (a0, Inr pa)"
    and cs: "count_and_sign env a0 c (rp_hash env (gar_rp_id req)) (user_flags 0x00 (gao_up (gar_options req)) pa)
       (gar_client_data_hash req) = (a1, Inr (data, sig))"
    and ex: "assertion_extension_outputs env a1 req c pa = (a2, Inr ext)"
    and b: "au_storage b = au_storage a2" and resp: "gas_auth_data resp = data"
    using assms(3) by (auto simp: get_assertion_def andthen_ok attempt_ok Let_def split_beta)
  have st: "au_storage a0 = au_storage a" "au_storage b = au_storage a1"
    using storage_same_authorize [of env a] au storage_same_outputs [of env a1 req c pa] ex b by (metis fst_conv)+
  note c' = count_and_sign_ok [OF _ cs]
  have "sign_count_of resp = current_sign_count env a1"
    using c' assms(1) st length_rp_hash [OF assms(2)] by (simp add: sign_count_of_def resp header_count)
  then show ?thesis using c' assms(1) st same_counter [of a0 a] same_counter [of b a1] by simp
qed

lemma next_assertion_count:
  assumes "good (au_storage a)" "sha256_length (ring (senv env))" "next_assertion env a = (b, Inr resp)"
  shows "current_sign_count env a < sign_count_of resp \<and> sign_count_of resp = current_sign_count env b"
proof -
  obtain a0 c n h f v where resp: "build_get_assertion_response env a0 c n h f v = (b, Inr resp)" and a0: "au_storage a0 = au_storage a"
  proof -
    obtain st where st: "au_get_next_assertion_state a = Some st"
      using assms(3) by (cases "au_get_next_assertion_state a") (auto simp: next_assertion_def)
    let ?a = "a\<lparr>au_get_next_assertion_state := None\<rparr>"
    obtain c a1 v where "chained_hmac_output env ?a st c = (a1, Inr v)"
      and "\<exists>a0 n h f. au_storage a0 = au_storage a1 \<and> build_get_assertion_response env a0 c n h f v = (b, Inr resp)"
      using assms(3) unfolding next_assertion_def st option.case Let_def
      by (auto simp: attempt_ok andthen_ok map_outcome_err_ok split: if_splits) fastforce+
    then show ?thesis using that storage_same_chain(2) [of env ?a st c] by auto
  qed
  obtain data sig where cs: "count_and_sign env a0 c (rp_hash env (rp_id c)) f h = (b, Inr (data, sig))"
    and data: "gas_auth_data resp = data"
    using resp by (auto simp: build_get_assertion_response_def andthen_ok)
  have "current_sign_count env a0 = current_sign_count env a" by (rule same_counter [OF a0])
  then show ?thesis
    using count_and_sign_ok [OF _ cs] assms(1) a0 length_rp_hash [OF assms(2)]
    by (simp add: sign_count_of_def data header_count)
qed

lemma command_assertion_count:
  assumes "good (au_storage a)" "sha256_length (ring (senv env))" "command_assertion env a cmd data = Some resp"
  shows "current_sign_count env a < sign_count_of resp
    \<and> sign_count_of resp = current_sign_count env (fst (process_command env a cmd data))"
proof (cases "command_from_u8 cmd")
  case Cmd_GetAssertion
  let ?a = "a\<lparr>au_hmac_secret_session := None\<rparr>"
  obtain req b where req: "decode_cbor (cbor env) (ga_request env) data = Inr req" "get_assertion env ?a req = (b, Inr resp)"
    using assms(3) Cmd_GetAssertion by (auto simp: command_assertion_def ok_Some bind_eq_Some_conv prod_eq_iff)
  then have "au_storage (fst (process_command env a cmd data)) = au_storage b"
    using Cmd_GetAssertion by (simp add: process_command_def)
  then show ?thesis
    using get_assertion_count [OF _ assms(2) req(2)] assms(1) same_counter [of ?a a] same_counter [of "fst (process_command env a cmd data)" b] by auto
next
  case Cmd_GetNextAssertion
  then obtain b where b: "next_assertion env a = (b, Inr resp)"
    using assms(3) by (auto simp: command_assertion_def ok_Some prod_eq_iff)
  then have "au_storage (fst (process_command env a cmd data)) = au_storage b"
    using Cmd_GetNextAssertion by (auto simp: process_command_def handle_get_next_assertion_def intro: same_attempt)
  then show ?thesis using next_assertion_count [OF assms(1,2) b] same_counter [of "fst (process_command env a cmd data)" b] by auto
qed (use assms(3) in \<open>simp_all add: command_assertion_def\<close>)

lemma assertion_counts_increase_dev:
  assumes "good (au_storage a)" "sha256_length (ring (senv env))" "\<forall>(c, d) \<in> set cs. command_from_u8 c \<noteq> Cmd_Reset"
  shows "sorted_wrt (<) (assertion_counts env a cs) \<and> (\<forall>n \<in> set (assertion_counts env a cs). current_sign_count env a < n)"
  using assms(1,3)
proof (induction cs arbitrary: a)
  case (Cons cd cs)
  obtain cmd data where cd: "cd = (cmd, data)" by fastforce
  let ?b = "fst (process_command env a cmd data)"
  have up: "good (au_storage ?b)" "current_sign_count env a \<le> current_sign_count env ?b"
    using process_command_up [of cmd a data] Cons.prems cd by (auto simp: counts_up_def)
  have IH: "sorted_wrt (<) (assertion_counts env ?b cs) \<and> (\<forall>n \<in> set (assertion_counts env ?b cs). current_sign_count env ?b < n)"
    using Cons.IH [OF up(1)] Cons.prems(2) by simp
  show ?case
  proof (cases "command_assertion env a cmd data")
    case None
    then show ?thesis using IH up(2) cd by auto
  next
    case (Some resp)
    then show ?thesis
      using IH command_assertion_count [OF Cons.prems(1) assms(2) Some] cd by auto
  qed
qed simp

end

subsection \<open>Properties\<close>

text \<open>
  Property C6: over any sequence of commands without a Reset, whatever their data and whether they succeed or
  fail, the signature counts in the assertions that GetAssertion and GetNextAssertion produce are strictly
  increasing and larger than the counter at the start. The storage may be flash, files or memory.
\<close>

theorem assertion_counts_increase:
  assumes "engine_ops (senv env) good" "good (au_storage a)" "sha256_length (ring (senv env))"
    and "\<forall>(c, d) \<in> set cs. command_from_u8 c \<noteq> Cmd_Reset"
  shows "sorted_wrt (<) (current_sign_count env a # assertion_counts env a cs)"
  using device.assertion_counts_increase_dev [OF device.intro [OF assms(1)] assms(2-4)] by simp

lemma example_counts: "assertion_counts example_ga_env example_ga_auth [(0x06, [1]), (0x02, [0])] = [1]"
  by code_simp

theorem assertion_counts_increase_witness:
  "sorted_wrt (<) (current_sign_count example_ga_env example_ga_auth # [1])"
  using assertion_counts_increase [OF memory_engine_ops example_ga_memory, of example_ga_env "[(0x06, [1]), (0x02, [0])]"]
  unfolding example_counts
  by (simp add: example_ring_correct example_ga_env_def example_cenv_def example_env_def command_from_u8_def)

end
