(* ===== verification/Assertion_Chain.thy ===== *)
theory Assertion_Chain
  imports Sign_Counter
begin

section \<open>The chain of assertions\<close>

text \<open>
  After a GetAssertion that found several credentials the platform asks for the others with GetNextAssertion. Shown
  here: the chain does not end early and does not skip or repeat a credential. As long as the storage accepts writes,
  the keys can sign and the counter has room, each call answers with the next credential of the list, and the call
  after the last one reports that there are none left. The list is computed anew in each call, from credentials
  whose signature counter the previous call has changed, so that the proof shows that it does not change.
\<close>

subsection \<open>Credentials up to their counters\<close>

definition uncount :: "StoredCredential \<Rightarrow> StoredCredential" where
  "uncount s = s\<lparr>credential := (credential s)\<lparr>sign_count := 0\<rparr>\<rparr>"

definition uncounted :: "'b StorageEngine \<Rightarrow> (bytes, StoredCredential) btree" where
  "uncounted se = map (\<lambda>(i, s). (i, uncount s)) (credentials se)"

definition zeroed :: "Credential \<Rightarrow> Credential" where
  "zeroed c = c\<lparr>sign_count := 0\<rparr>"

lemma uncount_fields [simp]:
  "encrypted_private_key (uncount s) = encrypted_private_key s" "sc_nonce (uncount s) = sc_nonce s"
  "credential (uncount s) = zeroed (credential s)"
  by (simp_all add: uncount_def zeroed_def)

lemma zeroed_fields [simp]:
  "credential_id (zeroed c) = credential_id c" "rp_id_hash (zeroed c) = rp_id_hash c" "rp_id (zeroed c) = rp_id c"
  "cred_protect (zeroed c) = cred_protect c" "private_key (zeroed c) = private_key c" "algorithm (zeroed c) = algorithm c"
  "zeroed (c\<lparr>private_key := k\<rparr>) = (zeroed c)\<lparr>private_key := k\<rparr>" "zeroed (zeroed c) = zeroed c"
  by (simp_all add: zeroed_def)

lemma allowed_zeroed [simp]: "is_cred_protect_allowed (zeroed c) uv named = is_cred_protect_allowed c uv named"
  by (simp add: is_cred_protect_allowed_def)

lemma get_uncounted: "btree_get (uncounted se) i = map_option uncount (btree_get (credentials se) i)"
proof -
  have "map_of (map (\<lambda>(i, s). (i, uncount s)) cs) i = map_option uncount (map_of cs i)" for cs by (induction cs) auto
  then show ?thesis by (simp add: btree_get_def uncounted_def)
qed

text \<open>What the lookups report depends on the stored credentials only up to their counters.\<close>

definition lookup_uncounted :: "RingPrims \<Rightarrow> CryptoEngine \<Rightarrow> (bytes, StoredCredential) btree \<Rightarrow> bytes \<Rightarrow> Credential option option" where
  "lookup_uncounted r crypto cs i =
     (case btree_get cs i of
        None \<Rightarrow> Some None
      | Some s \<Rightarrow> map_option (\<lambda>k. Some ((credential s)\<lparr>private_key := k\<rparr>)) (ok (engine_decrypt r crypto (encrypted_private_key s) (sc_nonce s))))"

lemma get_credential_uncounted:
  "map_option (map_option zeroed) (ok (get_credential env crypto se i)) = lookup_uncounted (ring env) crypto (uncounted se) i"
  by (simp add: get_credential_def lookup_uncounted_def get_uncounted ok_def split: option.split sum.split)

lemma find_by_rp_uncounted:
  "map zeroed (find_by_rp_id env crypto se rp) =
     List.map_filter
       (\<lambda>s. map_option (\<lambda>k. (credential s)\<lparr>private_key := k\<rparr>) (ok (engine_decrypt (ring env) crypto (encrypted_private_key s) (sc_nonce s))))
       (filter (\<lambda>s. rp_id_hash (credential s) = hash_rp_id env rp) (map snd (uncounted se)))"
proof -
  have "map zeroed (List.map_filter
       (\<lambda>s. case engine_decrypt (ring env) crypto (encrypted_private_key s) (sc_nonce s) of
              Inl _ \<Rightarrow> None | Inr pk \<Rightarrow> Some ((credential s)\<lparr>private_key := pk\<rparr>))
       (filter (\<lambda>s. rp_id_hash (credential s) = h) (map snd cs)))
    = List.map_filter
       (\<lambda>s. map_option (\<lambda>k. (credential s)\<lparr>private_key := k\<rparr>) (ok (engine_decrypt (ring env) crypto (encrypted_private_key s) (sc_nonce s))))
       (filter (\<lambda>s. rp_id_hash (credential s) = h) (map snd (map (\<lambda>(i, s). (i, uncount s)) cs)))" for h and cs :: "(bytes, StoredCredential) btree"
    by (induction cs) (auto simp: ok_def split: sum.split)
  then show ?thesis by (simp add: find_by_rp_id_def find_credentials_by_rp_hash_def uncounted_def btree_values_def)
qed

definition alike :: "('b, 'p, 'v) auth \<Rightarrow> ('b, 'p, 'v) auth \<Rightarrow> bool" where
  "alike a b \<longleftrightarrow> uncounted (au_storage b) = uncounted (au_storage a) \<and> au_crypto b = au_crypto a"

lemma alike_trans: "alike a b \<Longrightarrow> alike b c \<Longrightarrow> alike a c"
  by (simp add: alike_def)

lemma get_credential_alike:
  assumes "alike a b"
  shows "map_option (map_option zeroed) (ok (get_credential env (au_crypto b) (au_storage b) i)) =
         map_option (map_option zeroed) (ok (get_credential env (au_crypto a) (au_storage a) i))"
  using assms by (simp add: get_credential_uncounted alike_def)

lemma map_filter_zeroed:
  "map credential_id (filter (\<lambda>c. is_cred_protect_allowed c uv named) (map zeroed cs)) =
   map credential_id (filter (\<lambda>c. is_cred_protect_allowed c uv named) cs)"
  by (induction cs) simp_all

lemma matching_alike:
  assumes "alike a b"
  shows "find_matching_credentials env b rp l uv = find_matching_credentials env a rp l uv"
proof -
  define pick where "pick = (\<lambda>r. case r of
      Some (Some c) \<Rightarrow> if rp_id c = rp \<and> is_cred_protect_allowed c uv True then Some (credential_id c) else None | _ \<Rightarrow> None)"
  have pick: "pick (map_option (map_option zeroed) r) = pick r" for r by (simp add: pick_def split: option.split)
  have 1: "pick (ok (get_credential (senv env) (au_crypto b) (au_storage b) i)) =
        pick (ok (get_credential (senv env) (au_crypto a) (au_storage a) i))" for i
    using pick [of "ok (get_credential (senv env) (au_crypto b) (au_storage b) i)"]
      pick [of "ok (get_credential (senv env) (au_crypto a) (au_storage a) i)"] get_credential_alike [OF assms, of "senv env" i]
    by (simp only:)
  have "map zeroed (find_by_rp_id (senv env) (au_crypto b) (au_storage b) rp) =
      map zeroed (find_by_rp_id (senv env) (au_crypto a) (au_storage a) rp)"
    using assms by (simp add: find_by_rp_uncounted alike_def)
  then have 2: "map credential_id (filter (\<lambda>c. is_cred_protect_allowed c uv False) (find_by_rp_id (senv env) (au_crypto b) (au_storage b) rp)) =
      map credential_id (filter (\<lambda>c. is_cred_protect_allowed c uv False) (find_by_rp_id (senv env) (au_crypto a) (au_storage a) rp))"
    using map_filter_zeroed by metis
  show ?thesis unfolding find_matching_credentials_def 2 pick_def [symmetric] by (simp only: 1)
qed

text \<open>A new count leaves the credentials as they are up to their counters.\<close>

lemma uncounted_insert:
  "btree_wf cs \<Longrightarrow> btree_get cs i = Some s \<Longrightarrow> uncount t = uncount s \<Longrightarrow>
     map (\<lambda>(i, s). (i, uncount s)) (btree_insert i t cs) = map (\<lambda>(i, s). (i, uncount s)) cs"
proof (induction i t cs rule: btree_insert.induct)
  case (2 i t k v m)
  then show ?case
    by (auto simp: btree_wf_Cons btree_get_def split: if_splits dest!: map_of_SomeD)
qed (simp add: btree_get_def)

lemma write_back_credentials: "credentials (fst (write_back env se i s)) = btree_insert i s (credentials se)"
  by (auto simp: write_back_def backend_write_def Let_def split: option.splits sum.splits prod.splits)

lemma update_sign_count_alike:
  assumes "index_inv (credentials se)" "btree_get (credentials se) i \<noteq> None"
  shows "uncounted (fst (update_sign_count env se i n)) = uncounted se \<and>
         index_inv (credentials (fst (update_sign_count env se i n)))"
proof -
  obtain s where s: "btree_get (credentials se) i = Some s" using assms(2) by blast
  let ?t = "s\<lparr>credential := (credential s)\<lparr>sign_count := n\<rparr>\<rparr>"
  have "uncount ?t = uncount s" by (simp add: uncount_def)
  then have "uncounted (fst (update_sign_count env se i n)) = uncounted se"
    using uncounted_insert [of "credentials se" i s ?t] assms(1) s
    by (simp add: uncounted_def update_sign_count_def write_back_credentials index_inv_def)
  moreover have "credential_id (credential s) = i \<and> private_key (credential s) = []"
    using assms(1) s unfolding index_inv_def by blast
  then have "index_inv (credentials (fst (update_sign_count env se i n)))"
    using s index_inv_insert [OF assms(1), of ?t i] by (simp add: update_sign_count_def write_back_credentials)
  ultimately show ?thesis by blast
qed

text \<open>A credential that is listed is found under its identifier.\<close>

lemma found_by_id:
  assumes "index_inv (credentials se)" "ok (get_credential env crypto se i) = Some (Some c)"
  shows "credential_id c = i" "btree_get (credentials se) i \<noteq> None"
  using assms by (auto simp: get_credential_def index_inv_def ok_def split: option.splits sum.splits)

lemma in_map_filter: "y \<in> set (List.map_filter f xs) \<longleftrightarrow> (\<exists>x \<in> set xs. f x = Some y)"
  by (induction xs) (auto split: option.splits)

lemma find_by_rp_lookup:
  assumes "index_inv (credentials se)" "c \<in> set (find_by_rp_id env crypto se rp)"
  shows "ok (get_credential env crypto se (credential_id c)) = Some (Some c)"
proof -
  obtain s :: StoredCredential where v: "s \<in> snd ` set (credentials se)"
    and d: "(case engine_decrypt (ring env) crypto (encrypted_private_key s) (sc_nonce s) of
               Inl _ \<Rightarrow> None | Inr pk \<Rightarrow> Some ((credential s)\<lparr>private_key := pk\<rparr>)) = Some c"
    using assms(2) by (simp only: find_by_rp_id_def find_credentials_by_rp_hash_def btree_values_def in_map_filter set_filter set_map) blast
  obtain i where i: "(i, s) \<in> set (credentials se)" using v by force
  obtain pk where s: "(i, s) \<in> set (credentials se)" "c = (credential s)\<lparr>private_key := pk\<rparr>"
      "engine_decrypt (ring env) crypto (encrypted_private_key s) (sc_nonce s) = Inr pk"
    using i d by (auto split: sum.splits)
  have "btree_get (credentials se) i = Some s" using i assms(1) btree_get_in_set [of "credentials se"] by (simp add: index_inv_def)
  moreover have "credential_id c = i" using calculation assms(1) s(2) by (simp add: index_inv_def)
  ultimately show ?thesis using s by (simp add: get_credential_def)
qed

lemma matching_lookup:
  assumes "index_inv (credentials (au_storage a))" "i \<in> set (find_matching_credentials env a rp l uv)"
  shows "\<exists>c. ok (get_credential (senv env) (au_crypto a) (au_storage a) i) = Some (Some c) \<and> credential_id c = i"
proof (cases "l = []")
  case True
  then show ?thesis
    using assms find_by_rp_lookup [OF assms(1)] by (auto simp: find_matching_credentials_def)
next
  case False
  then obtain d :: CredentialDescriptor where "(case ok (get_credential (senv env) (au_crypto a) (au_storage a) (cd_id d)) of
      Some (Some c) \<Rightarrow> if rp_id c = rp \<and> is_cred_protect_allowed c uv True then Some (credential_id c) else None | _ \<Rightarrow> None) = Some i"
    using assms(2) by (simp only: find_matching_credentials_def if_False in_map_filter) blast
  then obtain c where "ok (get_credential (senv env) (au_crypto a) (au_storage a) (cd_id d)) = Some (Some c)" "i = credential_id c"
    by (auto split: option.splits if_splits)
  then show ?thesis using found_by_id [OF assms(1)] by metis
qed

subsection \<open>One call\<close>

text \<open>The storage takes every write (\<open>good\<close> may bound what it holds), and the credential can sign anything.\<close>

definition accepts :: "'b StorageEnv \<Rightarrow> ('b StorageEngine \<Rightarrow> bool) \<Rightarrow> bool" where
  "accepts env good \<longleftrightarrow>
     (\<forall>se. good se \<longrightarrow>
        (\<forall>k v. snd (store env se k v) = Inr ()) \<and>
        (\<forall>i n. btree_get (credentials se) i \<noteq> None \<longrightarrow> snd (update_sign_count env se i n) = Inr ()))"

definition can_sign :: "('b, 'p, 'v) cenv \<Rightarrow> Credential \<Rightarrow> bool" where
  "can_sign env c \<longleftrightarrow> (\<forall>(a :: ('b, 'p, 'v) auth) data. \<exists>sig. snd (sign_assertion env a c data) = Inr sig)"

lemma can_sign_zeroed: "can_sign env (zeroed c) = can_sign env c"
  by (simp add: can_sign_def sign_assertion_def Let_def)

definition keys_sign :: "('b, 'p, 'v) cenv \<Rightarrow> ('b, 'p, 'v) auth \<Rightarrow> bool" where
  "keys_sign env a \<longleftrightarrow>
     (\<forall>i c. ok (get_credential (senv env) (au_crypto a) (au_storage a) i) = Some (Some c) \<longrightarrow> can_sign env c)"

lemma keys_sign_alike:
  assumes "alike a b" "keys_sign env a" shows "keys_sign env b"
  unfolding keys_sign_def
proof (intro allI impI)
  fix i c assume "ok (get_credential (senv env) (au_crypto b) (au_storage b) i) = Some (Some c)"
  then have "map_option (map_option zeroed) (ok (get_credential (senv env) (au_crypto a) (au_storage a) i)) = Some (Some (zeroed c))"
    using get_credential_alike [OF assms(1), of "senv env" i] by simp
  then obtain d where "ok (get_credential (senv env) (au_crypto a) (au_storage a) i) = Some (Some d)" "zeroed d = zeroed c" by auto
  then show "can_sign env c" using assms(2) can_sign_zeroed unfolding keys_sign_def by metis
qed

lemma signed_state: "fst (sign_assertion env a c data) = next_draw a"
  by (simp add: sign_assertion_def Let_def)

definition wants_hmac :: "GetNextAssertionState \<Rightarrow> bool" where
  "wants_hmac st = (case gns_extensions st of Some e \<Rightarrow> ext_hmac_secret e \<noteq> None | None \<Rightarrow> False)"

abbreviation chain_of :: "('b, 'p, 'v) cenv \<Rightarrow> ('b, 'p, 'v) auth \<Rightarrow> GetNextAssertionState \<Rightarrow> bytes list" where
  "chain_of env a st \<equiv> find_matching_credentials env a (gns_rp_id st) (gns_allow_list st) (gns_uv_satisfied st)"

text \<open>The credentials that repeated calls answer with, or the error.\<close>

fun chain_answers :: "('b, 'p, 'v) cenv \<Rightarrow> ('b, 'p, 'v) auth \<Rightarrow> nat \<Rightarrow> (Ctap2Error, bytes option) result list" where
  "chain_answers env a 0 = []"
| "chain_answers env a (Suc n) =
     (case next_assertion env a of
        (b, r) \<Rightarrow> map_sum (\<lambda>e. e) (\<lambda>resp. map_option cd_id (gas_credential resp)) r # chain_answers env b n)"

lemma chain_end:
  assumes "au_get_next_assertion_state a = Some st" "length (chain_of env a st) \<le> Suc (gns_current_index st)"
  shows "snd (next_assertion env a) = Inl Err_NoCredentials"
proof -
  have "find_matching_credentials env (a\<lparr>au_get_next_assertion_state := None\<rparr>) (gns_rp_id st) (gns_allow_list st) (gns_uv_satisfied st)
      = chain_of env a st"
    by (rule matching_alike) (simp add: alike_def)
  then show ?thesis using assms unfolding next_assertion_def by (simp add: Let_def)
qed

context device
begin

lemma next_sign_count_runs:
  assumes "accepts (senv env) good" "good (au_storage a)" "unat (current_sign_count env a) < 2 ^ 32 - 1"
  obtains b where "next_sign_count env a = (b, Inr (current_sign_count env a + 1))" "good (au_storage b)"
    "current_sign_count env b = current_sign_count env a + 1" "credentials (au_storage b) = credentials (au_storage a)"
    "au_crypto b = au_crypto a" "au_get_next_assertion_state b = au_get_next_assertion_state a"
proof -
  have m: "checked_add_word (current_sign_count env a) 1 = Some (current_sign_count env a + 1)"
    using assms(3) by (simp add: checked_add_word_def)
  let ?r = "store (senv env) (au_storage a) SIGN_COUNTER_STORAGE_KEY (print_word (current_sign_count env a + 1))"
  have "snd ?r = Inr ()" using assms(1,2) unfolding accepts_def by blast
  then have run: "next_sign_count env a = (a\<lparr>au_storage := fst ?r\<rparr>, Inr (current_sign_count env a + 1))"
    by (simp add: next_sign_count_def m auth_store_def map_outcome_err_def map_err_def split_beta)
  note ok = next_sign_count_ok [OF assms(2) run]
  show ?thesis by (rule that [OF run]) (use ok store_fields in simp_all)
qed

lemma count_and_sign_runs:
  assumes "accepts (senv env) good" "good (au_storage a)" "unat (current_sign_count env a) < 2 ^ 32 - 1"
    and inv: "index_inv (credentials (au_storage a))" and c: "can_sign env c"
    and known: "btree_get (credentials (au_storage a)) (credential_id c) \<noteq> None"
  obtains b data sig where "count_and_sign env a c h f d = (b, Inr (data, sig))" "good (au_storage b)" "alike a b"
    "index_inv (credentials (au_storage b))" "current_sign_count env b = current_sign_count env a + 1"
    "au_get_next_assertion_state b = au_get_next_assertion_state a"
proof -
  let ?n = "current_sign_count env a + 1"
  obtain a1 where a1: "next_sign_count env a = (a1, Inr ?n)" "good (au_storage a1)" "current_sign_count env a1 = ?n"
      "credentials (au_storage a1) = credentials (au_storage a)" "au_crypto a1 = au_crypto a"
      "au_get_next_assertion_state a1 = au_get_next_assertion_state a"
    using next_sign_count_runs [OF assms(1-3)] by metis
  let ?u = "update_sign_count (senv env) (au_storage a1) (credential_id c) ?n"
  let ?a2 = "a1\<lparr>au_storage := fst ?u\<rparr>"
  have "snd ?u = Inr ()" using assms(1) a1(2,4) known unfolding accepts_def by metis
  then have a2: "auth_update_sign_count env a1 (credential_id c) ?n = (?a2, Inr ())"
    by (simp add: auth_update_sign_count_def split_beta map_err_def)
  let ?data = "h @ [f] @ to_be_bytes 4 ?n"
  obtain sig where sig: "snd (sign_assertion env ?a2 c (slice_of 0 32 ?data @ slice_of 32 37 ?data @ d)) = Inr sig"
    using c unfolding can_sign_def by blast
  let ?b = "fst (sign_assertion env ?a2 c (slice_of 0 32 ?data @ slice_of 32 37 ?data @ d))"
  have run: "count_and_sign env a c h f d = (?b, Inr (?data, sig))"
    using sig by (simp add: count_and_sign_def a1(1) a2 build_auth_data_def andthen_def attempt_def split_beta)
  have same: "uncounted (fst ?u) = uncounted (au_storage a1) \<and> index_inv (credentials (fst ?u))"
    using update_sign_count_alike [of "au_storage a1"] inv known a1(4) by simp
  have "good (au_storage ?a2) \<and> current_sign_count env ?a2 = ?n"
    using keeps_counter [OF keeps_update_sign_count [of "{}" a1 "credential_id c" ?n]] a1(2,3) a2 by simp
  then have g: "good (au_storage ?b)" "current_sign_count env ?b = ?n"
    using same_counter [of ?b ?a2] by (simp_all add: signed_state)
  have e: "alike a ?b" "index_inv (credentials (au_storage ?b))" "au_get_next_assertion_state ?b = au_get_next_assertion_state a"
    using same a1(4-6) by (simp_all add: signed_state alike_def uncounted_def next_draw_def)
  show ?thesis by (rule that [OF run g(1) e(1,2) g(2) e(3)])
qed

lemma chain_step:
  assumes acc: "accepts (senv env) good" and good: "good (au_storage a)" and room: "unat (current_sign_count env a) < 2 ^ 32 - 1"
    and inv: "index_inv (credentials (au_storage a))" and keys: "keys_sign env a" and st: "au_get_next_assertion_state a = Some st"
    and i: "Suc (gns_current_index st) < length (chain_of env a st)" and nohmac: "\<not> wants_hmac st"
  obtains b resp where "next_assertion env a = (b, Inr resp)"
    "map_option cd_id (gas_credential resp) = Some (chain_of env a st ! Suc (gns_current_index st))"
    "good (au_storage b)" "alike a b" "index_inv (credentials (au_storage b))" "current_sign_count env b = current_sign_count env a + 1"
    "au_get_next_assertion_state b = Some (st\<lparr>gns_current_index := Suc (gns_current_index st)\<rparr>)"
proof -
  let ?m = "chain_of env a st" and ?k = "Suc (gns_current_index st)"
  let ?a0 = "a\<lparr>au_get_next_assertion_state := None\<rparr>"
  obtain c where c: "ok (get_credential (senv env) (au_crypto a) (au_storage a) (?m ! ?k)) = Some (Some c)" "credential_id c = ?m ! ?k"
    using matching_lookup [OF inv, of "?m ! ?k"] nth_mem [OF i] by metis
  let ?a1 = "(if Suc ?k < length ?m then ?a0 else ?a0\<lparr>au_hmac_secret_session := None\<rparr>)
      \<lparr>au_get_next_assertion_state := Some (st\<lparr>gns_current_index := ?k\<rparr>)\<rparr>"
  have same: "au_storage ?a1 = au_storage a" "au_crypto ?a1 = au_crypto a"
      "au_get_next_assertion_state ?a1 = Some (st\<lparr>gns_current_index := ?k\<rparr>)" by simp_all
  have sign: "can_sign env c" using keys c(1) unfolding keys_sign_def by blast
  have known: "btree_get (credentials (au_storage ?a1)) (credential_id c) \<noteq> None"
    using found_by_id(2) [OF inv c(1)] c(2) same(1) by simp
  obtain b data sig where b: "count_and_sign env ?a1 c (rp_hash env (rp_id c)) (gns_flags st) (gns_client_data_hash st) = (b, Inr (data, sig))"
      "good (au_storage b)" "alike ?a1 b" "index_inv (credentials (au_storage b))" "current_sign_count env b = current_sign_count env ?a1 + 1"
      "au_get_next_assertion_state b = au_get_next_assertion_state ?a1"
    by (rule count_and_sign_runs [OF acc _ _ _ sign known]) (use good room inv same same_counter [of ?a1 a] in auto)
  have m0: "find_matching_credentials env ?a0 (gns_rp_id st) (gns_allow_list st) (gns_uv_satisfied st) = ?m"
    by (rule matching_alike) (simp add: alike_def)
  have get: "auth_get_credential env ?a0 (?m ! ?k) = Inr (Some c)"
    using c(1) by (simp add: auth_get_credential_def ok_Some map_err_def)
  have hmac: "chained_hmac_output env ?a0 st c = (?a0, Inr None)"
    using nohmac by (simp add: chained_hmac_output_def wants_hmac_def)
  have "?m \<noteq> []" "\<not> length ?m \<le> ?k" using i by auto
  then obtain resp where run: "next_assertion env a = (b, Inr resp)" and resp: "gas_credential resp = Some (assertion_descriptor c)"
    using b(1) unfolding next_assertion_def st option.case Let_def m0
    by (simp add: get hmac build_get_assertion_response_def map_outcome_err_def map_err_def)
  show ?thesis
    by (rule that [OF run]) (use b same resp c(2) same_counter [of ?a1 a] in \<open>auto simp: assertion_descriptor_def alike_def\<close>)
qed

lemma chain_runs:
  assumes acc: "accepts (senv env) good"
  shows "good (au_storage a) \<Longrightarrow> index_inv (credentials (au_storage a)) \<Longrightarrow> keys_sign env a \<Longrightarrow>
    au_get_next_assertion_state a = Some st \<Longrightarrow> \<not> wants_hmac st \<Longrightarrow>
    gns_current_index st < length (chain_of env a st) \<Longrightarrow>
    unat (current_sign_count env a) + length (chain_of env a st) < 2 ^ 32 + gns_current_index st \<Longrightarrow>
    chain_answers env a (length (chain_of env a st) - gns_current_index st) =
      map (\<lambda>i. Inr (Some i)) (drop (Suc (gns_current_index st)) (chain_of env a st)) @ [Inl Err_NoCredentials]"
proof (induction "length (chain_of env a st) - Suc (gns_current_index st)" arbitrary: a st)
  case 0
  then have "length (chain_of env a st) - gns_current_index st = Suc 0" by linarith
  moreover have "snd (next_assertion env a) = Inl Err_NoCredentials" using 0 by (intro chain_end) auto
  ultimately show ?case using 0 by (cases "next_assertion env a") auto
next
  case (Suc n)
  let ?m = "chain_of env a st" and ?i = "gns_current_index st"
  have more: "Suc ?i < length ?m" and room: "unat (current_sign_count env a) < 2 ^ 32 - 1" using Suc.hyps(2) Suc.prems(7) by auto
  obtain b resp where b: "next_assertion env a = (b, Inr resp)" "map_option cd_id (gas_credential resp) = Some (?m ! Suc ?i)"
    "good (au_storage b)" "alike a b" "index_inv (credentials (au_storage b))" "current_sign_count env b = current_sign_count env a + 1"
    "au_get_next_assertion_state b = Some (st\<lparr>gns_current_index := Suc ?i\<rparr>)"
    by (rule chain_step [OF acc Suc.prems(1) room Suc.prems(2,3,4) more Suc.prems(5)])
  let ?t = "st\<lparr>gns_current_index := Suc ?i\<rparr>"
  have m: "chain_of env b ?t = ?m" using matching_alike [OF b(4)] by simp
  have u: "unat (current_sign_count env b) = Suc (unat (current_sign_count env a))"
    using room b(6) unatSuc by (simp add: unat_word_ariths)
  have len: "length ?m - ?i = Suc (length ?m - Suc ?i)" using more by simp
  have "chain_answers env b (length ?m - Suc ?i) = map (\<lambda>i. Inr (Some i)) (drop (Suc (Suc ?i)) ?m) @ [Inl Err_NoCredentials]"
    using Suc.hyps(1) [of b ?t] Suc.hyps(2) Suc.prems b keys_sign_alike [OF b(4)] more u m by (simp add: wants_hmac_def)
  then show ?case using b(1,2) more by (simp add: len flip: Cons_nth_drop_Suc)
qed

end

subsection \<open>Property\<close>


text \<open>The memory engine takes every write.\<close>

lemma memory_accepts: "accepts env (\<lambda>se. backend se = None)"
  unfolding accepts_def
proof (intro allI impI conjI)
  fix se :: "'a StorageEngine" and k v i n
  assume m: "backend se = None"
  obtain w where "increment_wear_counter se ''kv'' = (se\<lparr>wear_counters := w\<rparr>, Inr ())" by (rule increment_wear_counter_ok)
  then show "snd (store env se k v) = Inr ()" using m by (simp add: store_def backend_write_def)
  assume "btree_get (credentials se) i \<noteq> None"
  then show "snd (update_sign_count env se i n) = Inr ()"
    using m by (auto simp: update_sign_count_def write_back_def)
qed

text \<open>The example device with a second credential of the same relying party, after a GetAssertion.\<close>

definition example_two_auth :: "((string, bytes) btree, unit, unit) auth" where
  "example_two_auth = fst (auth_store_credential example_ga_env example_ga_auth
     (example_credential\<lparr>credential_id := [3, 4], rp_id_hash := rp_hash example_ga_env ''rp'', private_key := replicate 32 8\<rparr>))"

definition example_chain_auth :: "((string, bytes) btree, unit, unit) auth" where
  "example_chain_auth = fst (get_assertion example_ga_env example_two_auth example_ga_request)"

lemma example_can_sign: "algorithm c = - 8 \<Longrightarrow> length (private_key c) = 32 \<Longrightarrow> can_sign example_ga_env c"
  by (simp add: can_sign_def sign_assertion_def sign_def ed25519_key_pair_from_seed_def
      example_ga_env_def example_cenv_def example_env_def example_ring_def Let_def map_err_def)

definition example_key :: "bytes \<Rightarrow> (int \<times> nat) option" where
  "example_key i = Option.bind (ok (get_credential (senv example_ga_env) (au_crypto example_chain_auth) (au_storage example_chain_auth) i))
     (map_option (\<lambda>c. (algorithm c, length (private_key c))))"

definition example_chain_state :: GetNextAssertionState where
  "example_chain_state = the (au_get_next_assertion_state example_chain_auth)"

text \<open>What the example needs of the answer and the state after it, evaluated once.\<close>

definition example_chain_view ::
  "((string, bytes) btree, unit, unit) auth \<times> (Ctap2Error, GetAssertionResponse) result
     \<Rightarrow> (string, bytes) btree option \<times> (bytes \<times> bytes \<times> bytes) list \<times> bytes list \<times> (int \<times> nat) option list \<times> (nat \<times> bool) option \<times> u32 option" where
  "example_chain_view r =
     (backend (au_storage (fst r)),
      map (\<lambda>(i, s). (i, credential_id (credential s), private_key (credential s))) (credentials (au_storage (fst r))),
      chain_of example_ga_env (fst r) (the (au_get_next_assertion_state (fst r))),
      map (\<lambda>i. Option.bind (ok (get_credential (senv example_ga_env) (au_crypto (fst r)) (au_storage (fst r)) i))
                 (map_option (\<lambda>c. (algorithm c, length (private_key c))))) [[1, 2], [3, 4]],
      map_option (\<lambda>st. (gns_current_index st, wants_hmac st)) (au_get_next_assertion_state (fst r)),
      map_option sign_count_of (ok (snd r)))"

lemma example_chain_run:
  "example_chain_view (get_assertion example_ga_env example_two_auth example_ga_request)
     = (None, [([1, 2], [1, 2], []), ([3, 4], [3, 4], [])], [[1, 2], [3, 4]], [Some (- 8, 32), Some (- 8, 32)], Some (0, False), Some 1)"
  by code_simp

lemmas example_chain_facts = example_chain_run [unfolded example_chain_view_def prod.inject, folded example_chain_auth_def]

lemma example_chain_storage:
  "backend (au_storage example_chain_auth) = None"
  "map (\<lambda>(i, s). (i, credential_id (credential s), private_key (credential s))) (credentials (au_storage example_chain_auth))
     = [([1, 2], [1, 2], []), ([3, 4], [3, 4], [])]"
  using example_chain_facts by blast+

lemma example_chain_list: "chain_of example_ga_env example_chain_auth example_chain_state = [[1, 2], [3, 4]]"
  using example_chain_facts by (simp add: example_chain_state_def)

lemma example_chain_key: "map example_key [[1, 2], [3, 4]] = [Some (- 8, 32), Some (- 8, 32)]"
  using example_chain_facts by (simp add: example_key_def)

lemma example_chain_next:
  "map_option (\<lambda>st. (gns_current_index st, wants_hmac st)) (au_get_next_assertion_state example_chain_auth) = Some (0, False)"
  using example_chain_facts by blast

lemma example_chain_answer:
  "map_option sign_count_of (ok (snd (get_assertion example_ga_env example_two_auth example_ga_request))) = Some 1"
  using example_chain_facts by blast

lemma example_two_storage: "backend (au_storage example_two_auth) = None"
  by code_simp

lemma example_chain_count: "current_sign_count example_ga_env example_chain_auth = 1"
proof -
  obtain resp where resp: "snd (get_assertion example_ga_env example_two_auth example_ga_request) = Inr resp" "sign_count_of resp = 1"
    using example_chain_answer by (auto simp: ok_Some)
  then have "get_assertion example_ga_env example_two_auth example_ga_request = (example_chain_auth, Inr resp)"
    by (simp add: example_chain_auth_def prod_eq_iff)
  moreover have "sha256_length (ring (senv example_ga_env))"
    by (simp add: example_ring_correct example_ga_env_def example_cenv_def example_env_def)
  ultimately show ?thesis
    using device.get_assertion_count [OF device.intro [OF memory_engine_ops] example_two_storage] resp(2) by metis
qed

lemma example_chain_inv: "index_inv (credentials (au_storage example_chain_auth))"
proof -
  obtain s t where cs: "credentials (au_storage example_chain_auth) = [([1, 2], s), ([3, 4], t)]"
    using example_chain_storage(2) by (auto simp: map_eq_Cons_conv)
  show ?thesis
    using example_chain_storage(2) by (auto simp: cs index_inv_def btree_wf_def btree_get_def split: if_splits)
qed

lemma example_chain_keys: "keys_sign example_ga_env example_chain_auth"
  unfolding keys_sign_def
proof (intro allI impI)
  fix i c assume c: "ok (get_credential (senv example_ga_env) (au_crypto example_chain_auth) (au_storage example_chain_auth) i) = Some (Some c)"
  obtain s t where cs: "credentials (au_storage example_chain_auth) = [([1, 2], s), ([3, 4], t)]"
    using example_chain_storage(2) by (auto simp: map_eq_Cons_conv)
  have "i = [1, 2] \<or> i = [3, 4]"
    using found_by_id(2) [OF example_chain_inv c] by (auto simp: cs btree_get_def split: if_splits)
  then have "example_key i = Some (- 8, 32)" using example_chain_key by auto
  then show "can_sign example_ga_env c" using c by (intro example_can_sign) (auto simp: example_key_def)
qed


end
