(* ===== verification/Authorization.thy ===== *)
theory Authorization
  imports Command_Frames Example_Assertion
begin

section \<open>Authorization\<close>

text \<open>
  What a \<open>pinUvAuthToken\<close> authorizes, and what cannot happen without one: credential management and configuration
  take effect only under a token of the right permission whose MAC covers the request; an assertion carries the
  user-verified bit exactly if such a token was presented for its RP, and a credential that requires verification
  is never asserted without it.
\<close>

subsection \<open>Tokens\<close>

definition token_authorizes ::
  "('b, 'p, 'v) cenv \<Rightarrow> ('b, 'p, 'v) auth \<Rightarrow> u8 \<Rightarrow> bytes \<Rightarrow> bytes \<Rightarrow> u8 \<Rightarrow> string option \<Rightarrow> bool" where
  "token_authorizes env a protocol param msg permission rp =
     (\<exists>tok proto. au_pin_uv_auth_token a = Some tok \<and> tok_protocol tok = protocol \<and> proto_new protocol = Inr proto
        \<and> authenticate (ring (senv env)) proto (tok_token tok) msg = Inr param
        \<and> tok_permissions tok AND permission = permission
        \<and> (tok_permissions_rp_id tok = None \<or> tok_permissions_rp_id tok = rp))"

lemma verify_message_ok:
  "verify_pin_uv_auth_message env a protocol param msg = Inr u \<longleftrightarrow>
     (\<exists>tok proto. au_pin_uv_auth_token a = Some tok \<and> tok_protocol tok = protocol \<and> proto_new protocol = Inr proto
        \<and> authenticate (ring (senv env)) proto (tok_token tok) msg = Inr param)"
  by (auto simp: verify_pin_uv_auth_message_def effect_ok constant_time_eq_def split: if_splits)

lemma verify_operation_True:
  "verify_pin_uv_auth_for_operation env a p q msg permission rp = Inr True \<longleftrightarrow>
     (\<exists>protocol param. p = Some protocol \<and> q = Some param \<and> token_authorizes env a protocol param msg permission rp)"
  by (auto simp: verify_pin_uv_auth_for_operation_def token_authorizes_def bind_result_ok ok_or_ok verify_message_ok
      split: option.splits if_splits) (metis option.exhaust)

lemma verify_operation_False:
  "verify_pin_uv_auth_for_operation env a p q msg permission rp = Inr False \<longleftrightarrow> p = None \<and> q = None"
  by (auto simp: verify_pin_uv_auth_for_operation_def bind_result_ok split: option.splits if_splits)

subsection \<open>Privileged commands\<close>

text \<open>The protocol and the MAC that a request of a privileged command carries.\<close>

definition carried_auth :: "('b, 'p, 'v) cenv \<Rightarrow> u8 \<Rightarrow> bytes \<Rightarrow> (u8 option \<times> bytes option) option" where
  "carried_auth env cmd data =
     (if cmd = 0x0A
      then map_option (\<lambda>req. (cmr_pin_uv_auth_protocol req, cmr_pin_uv_auth_param req)) (ok (decode_cbor (cbor env) (cm_request env) data))
      else map_option (\<lambda>req. (acr_pin_uv_auth_protocol req, acr_pin_uv_auth_param req)) (ok (decode_authnr_config_request (cbor env) data)))"

lemma cred_mgmt_effect:
  assumes "handle_credential_management env a data = (b, r)" "b \<noteq> a \<or> r = Inr bs"
  obtains msg protocol param where "credential_management_auth_message (cbor env) data = Inr msg"
    "token_authorizes env a protocol param msg PERMISSION_CM None"
    "carried_auth env 0x0A data = Some (Some protocol, Some param)"
proof -
  obtain req where req: "map_err (\<lambda>_. Err_InvalidParameter) (decode_cbor (cbor env) (cm_request env) data) = Inr req"
    using assms by (cases "map_err (\<lambda>_. Err_InvalidParameter) (decode_cbor (cbor env) (cm_request env) data)")
      (auto simp: handle_credential_management_def)
  obtain msg where msg: "credential_management_auth_message (cbor env) data = Inr msg"
    using assms req by (cases "credential_management_auth_message (cbor env) data") (auto simp: handle_credential_management_def)
  have "verify_pin_uv_auth_for_operation env a (cmr_pin_uv_auth_protocol req) (cmr_pin_uv_auth_param req) msg PERMISSION_CM None = Inr True"
    using assms req msg
    by (cases "verify_pin_uv_auth_for_operation env a (cmr_pin_uv_auth_protocol req) (cmr_pin_uv_auth_param req) msg PERMISSION_CM None")
       (auto simp: handle_credential_management_def split: if_splits)
  then show ?thesis using that [OF msg] req by (auto simp: verify_operation_True carried_auth_def map_err_ok ok_def)
qed

lemma config_effect:
  assumes "handle_authnr_config env a data = (b, r)" "b \<noteq> a \<or> r = Inr bs"
  obtains msg protocol param where "authnr_config_auth_message (cbor env) data = Inr msg"
    "token_authorizes env a protocol param msg PERMISSION_ACFG None"
    "carried_auth env 0x0D data = Some (Some protocol, Some param)"
    and "is_pin_set env a \<or> (\<exists>req. decode_authnr_config_request (cbor env) data = Inr req
           \<and> acr_sub_command req = ENABLE_ENTERPRISE_ATTESTATION)"
proof -
  obtain req where req: "decode_authnr_config_request (cbor env) data = Inr req"
    using assms by (cases "decode_authnr_config_request (cbor env) data") (auto simp: handle_authnr_config_def)
  have pin: "is_pin_set env a \<or> acr_sub_command req = ENABLE_ENTERPRISE_ATTESTATION"
    using assms req by (auto simp: handle_authnr_config_def check_def split: if_splits)
  obtain protocol where p: "acr_pin_uv_auth_protocol req = Some protocol"
    using assms req pin by (cases "acr_pin_uv_auth_protocol req") (auto simp: handle_authnr_config_def)
  obtain param where q: "acr_pin_uv_auth_param req = Some param"
    using assms req pin p by (cases "acr_pin_uv_auth_param req") (auto simp: handle_authnr_config_def)
  obtain msg where msg: "authnr_config_auth_message (cbor env) data = Inr msg"
    using assms req pin p q by (cases "authnr_config_auth_message (cbor env) data") (auto simp: handle_authnr_config_def)
  obtain u where u: "verify_pin_uv_auth_for_operation env a (Some protocol) (Some param) msg PERMISSION_ACFG None = Inr u"
    using assms req pin p q msg
    by (cases "verify_pin_uv_auth_for_operation env a (Some protocol) (Some param) msg PERMISSION_ACFG None")
       (auto simp: handle_authnr_config_def)
  then have "verify_pin_uv_auth_for_operation env a (Some protocol) (Some param) msg PERMISSION_ACFG None = Inr True"
    using verify_operation_False [of env a "Some protocol" "Some param" msg PERMISSION_ACFG None] by (cases u) auto
  then show ?thesis
    using that [OF msg, of protocol param] req pin p q by (auto simp: verify_operation_True carried_auth_def ok_def)
qed

text \<open>
  Property C3: CredentialManagement and authenticatorConfig change the stored data or answer successfully only
  under a token with the permission \<open>cm\<close> or \<open>acfg\<close>, not bound to an RP, whose MAC over the subcommand and its
  parameters as they stand in the request is the parameter of the request. Otherwise the state is unchanged.
\<close>

theorem privileged_commands_authorized:
  assumes "cmd = 0x0A \<and> prefix = [] \<and> permission = PERMISSION_CM \<or> cmd = 0x0D \<and> prefix = [0x0D] \<and> permission = PERMISSION_ACFG"
    and run: "process_command env a cmd data = (b, r)"
    and effect: "b \<noteq> a\<lparr>au_hmac_secret_session := None\<rparr> \<or> r = Inr bs"
  shows "\<exists>msg protocol param. sub_command_message (cbor env) prefix data = Inr msg
    \<and> carried_auth env cmd data = Some (Some protocol, Some param)
    \<and> token_authorizes env a protocol param msg permission None"
proof -
  let ?a = "a\<lparr>au_hmac_secret_session := None\<rparr>"
  have tok: "token_authorizes env ?a protocol param msg permission None = token_authorizes env a protocol param msg permission None"
    for protocol param msg by (simp add: token_authorizes_def)
  from assms(1) show ?thesis
  proof
    assume c: "cmd = 0x0A \<and> prefix = [] \<and> permission = PERMISSION_CM"
    then have "handle_credential_management env ?a data = (b, r)" using run by (simp add: process_command_def command_from_u8_def)
    then show ?thesis
      using cred_mgmt_effect [OF _ effect] tok c by (metis credential_management_auth_message_def)
  next
    assume c: "cmd = 0x0D \<and> prefix = [0x0D] \<and> permission = PERMISSION_ACFG"
    then have "handle_authnr_config env ?a data = (b, r)" using run by (simp add: process_command_def command_from_u8_def)
    then show ?thesis
      using config_effect [OF _ effect] tok c by (metis authnr_config_auth_message_def)
  qed
qed

text \<open>A device that holds a token with the permission \<open>cm\<close>, and getCredsMetadata under that token.\<close>

definition example_cm_auth :: "((string, bytes) btree, unit, unit) auth" where
  "example_cm_auth = set_pin_uv_auth_token example_auth (replicate 32 5) PERMISSION_CM None 1"

definition example_cm_env :: "((string, bytes) btree, unit, unit) cenv" where
  "example_cm_env = (example_cenv (Map [(Integer 1, Integer 1)]))\<lparr>cm_request :=
     codec_reading ''CredentialManagementRequest''
       \<lparr>cmr_sub_command = 1, cmr_sub_command_params = None, cmr_pin_uv_auth_protocol = Some 1,
        cmr_pin_uv_auth_param = ok (authenticate example_ring \<lparr>proto_version = 1\<rparr> (replicate 32 5) [1])\<rparr>\<rparr>"

lemma example_cm_run: "snd (process_command example_cm_env example_cm_auth 0x0A [0]) = Inr [0]"
  by code_simp

theorem privileged_commands_authorized_witness:
  "\<exists>msg protocol param. sub_command_message (cbor example_cm_env) [] [0] = Inr msg
    \<and> carried_auth example_cm_env 0x0A [0] = Some (Some protocol, Some param)
    \<and> token_authorizes example_cm_env example_cm_auth protocol param msg PERMISSION_CM None"
  using privileged_commands_authorized [of "0x0A" "[]" PERMISSION_CM example_cm_env example_cm_auth "[0]"
      "fst (process_command example_cm_env example_cm_auth 0x0A [0])" "Inr [0]" "[0]"] example_cm_run
  by (simp add: prod_eq_iff)

subsection \<open>alwaysUv implies a PIN\<close>

definition always_uv_has_pin :: "('b, 'p, 'v) cenv \<Rightarrow> ('b, 'p, 'v) auth \<Rightarrow> bool" where
  "always_uv_has_pin env a = (is_always_uv env a \<longrightarrow> is_pin_set env a)"

text \<open>The PIN, once set, stays set.\<close>

definition pin_stays :: "('b, 'p, 'v) cenv \<Rightarrow> ('b StorageEngine \<Rightarrow> bool) \<Rightarrow> ('b, 'p, 'v) auth \<Rightarrow> ('b, 'p, 'v) auth \<Rightarrow> bool" where
  "pin_stays env good a b = (good (au_storage a) \<longrightarrow> good (au_storage b) \<and> (is_pin_set env a \<longrightarrow> is_pin_set env b))"

lemma is_pin_set_ok: "is_pin_set env a = (ok (auth_retrieve env a PIN_STORAGE_KEY) \<noteq> None)"
  by (simp add: is_pin_set_def is_ok_def ok_def split: sum.split)

lemma is_always_uv_ok: "is_always_uv env a = (ok (auth_retrieve env a CFG_ALWAYS_UV_KEY) \<noteq> None)"
  by (simp add: is_always_uv_def is_ok_def ok_def split: sum.split)

lemma config_keys_distinct [simp]: "CFG_ALWAYS_UV_KEY \<noteq> PIN_STORAGE_KEY" "PIN_STORAGE_KEY \<noteq> CFG_ALWAYS_UV_KEY"
    "sys_key PIN_STORAGE_KEY" "sys_key CFG_ALWAYS_UV_KEY" "CFG_ALWAYS_UV_KEY \<noteq> CFG_EP_PENDING_KEY"
  by (simp_all add: sys_key_def CFG_ALWAYS_UV_KEY_def PIN_STORAGE_KEY_def LARGE_BLOBS_STORAGE_KEY_def CFG_EP_PENDING_KEY_def)

lemma keepsD:
  "keeps env good K a b \<Longrightarrow> good (au_storage a) \<Longrightarrow> sys_key k \<Longrightarrow> k \<notin> K \<Longrightarrow> ok (auth_retrieve env b k) = ok (auth_retrieve env a k)"
  by (simp add: keeps_def)

lemma always_uv_written: "CFG_ALWAYS_UV_KEY \<in> written_keys c \<Longrightarrow> c = Cmd_AuthenticatorConfig"
  by (auto simp: written_keys_def CFG_ALWAYS_UV_KEY_def CFG_EP_PENDING_KEY_def SIGN_COUNTER_STORAGE_KEY_def PIN_STORAGE_KEY_def
      PIN_RETRIES_KEY_def UV_RETRIES_KEY_def split: if_splits)

lemma pin_written: "PIN_STORAGE_KEY \<in> written_keys c \<Longrightarrow> c = Cmd_ClientPIN"
  by (auto simp: written_keys_def PIN_STORAGE_KEY_def CFG_EP_PENDING_KEY_def SIGN_COUNTER_STORAGE_KEY_def CFG_ALWAYS_UV_KEY_def
      CFG_MAKE_CRED_UV_NOT_RQD_KEY_def CFG_MIN_PIN_LENGTH_KEY_def CFG_MIN_PIN_LENGTH_RPIDS_KEY_def CFG_FORCE_CHANGE_PIN_KEY_def
      split: if_splits)

context device
begin

lemma store_pin_stays: "pin_stays env good a (fst (auth_store env a k v))"
proof -
  obtain se r where p: "store (senv env) (au_storage a) k v = (se, r)" by fastforce
  show ?thesis
    using put_good [of "au_storage a" k v] put_get [of "au_storage a" k v se] put_fail [of "au_storage a" k v se] p
    by (cases r) (auto simp: pin_stays_def is_pin_set_ok auth_store_def auth_retrieve_def)
qed

lemma client_pin_stays: "pin_stays env good a (fst (handle_client_pin env a data))"
proof -
  have "kv_steps (pin_stays env good) env UNIV"
    by unfold_locales (simp_all add: store_pin_stays, auto simp: pin_stays_def is_pin_set_def auth_retrieve_def)
  then show ?thesis by (rule kv_steps.client_pin_steps) simp
qed

text \<open>Without a PIN the only subcommand of authenticatorConfig that is run is enableEnterpriseAttestation.\<close>

lemma config_without_pin:
  assumes "\<not> is_pin_set env a" "good (au_storage a)"
  shows "is_always_uv env (fst (handle_authnr_config env a data)) = is_always_uv env a"
proof -
  have "keeps env good {CFG_EP_PENDING_KEY} a (fst (handle_authnr_config env a data))"
    unfolding handle_authnr_config_def
    using assms(1) by (intro keeps_attempt keeps_check keeps_andthen) (auto simp: run_config_sub_command_def keeps_store_or_unknown)
  from keepsD [OF this assms(2), of CFG_ALWAYS_UV_KEY] show ?thesis unfolding is_always_uv_ok by simp
qed

lemma always_uv_step:
  assumes good: "good (au_storage a)" and inv: "always_uv_has_pin env a" and cmd: "command_from_u8 cmd \<noteq> Cmd_Reset"
  shows "good (au_storage (fst (process_command env a cmd data))) \<and> always_uv_has_pin env (fst (process_command env a cmd data))"
proof -
  let ?b = "fst (process_command env a cmd data)" and ?a = "a\<lparr>au_hmac_secret_session := None\<rparr>"
  note frame = keeps_process_command [OF cmd, of a data]
  have other: "is_pin_set env ?b = is_pin_set env a" if "command_from_u8 cmd \<noteq> Cmd_ClientPIN"
    unfolding is_pin_set_ok by (subst keepsD [OF frame good config_keys_distinct(3)]) (use that pin_written in blast)+
  have cfg: "is_always_uv env ?b = is_always_uv env a" if "command_from_u8 cmd \<noteq> Cmd_AuthenticatorConfig"
    unfolding is_always_uv_ok by (subst keepsD [OF frame good config_keys_distinct(4)]) (use that always_uv_written in blast)+
  have "always_uv_has_pin env ?b"
  proof (cases "command_from_u8 cmd")
    case Cmd_ClientPIN
    then have "is_pin_set env a \<longrightarrow> is_pin_set env ?b"
      using client_pin_stays [of ?a data] good
      by (simp add: process_command_def pin_stays_def is_pin_set_def auth_retrieve_def)
    then show ?thesis using inv cfg Cmd_ClientPIN by (simp add: always_uv_has_pin_def)
  next
    case Cmd_AuthenticatorConfig
    have "is_always_uv env ?b \<longrightarrow> is_pin_set env a"
    proof (cases "is_pin_set env a")
      case False
      then have "is_always_uv env ?b = is_always_uv env a"
        using config_without_pin [of ?a data] good Cmd_AuthenticatorConfig
        by (simp add: process_command_def is_always_uv_def is_pin_set_def auth_retrieve_def)
      then show ?thesis using inv by (simp add: always_uv_has_pin_def)
    qed simp
    then show ?thesis using other Cmd_AuthenticatorConfig by (simp add: always_uv_has_pin_def)
  qed (use inv cfg other in \<open>simp_all add: always_uv_has_pin_def\<close>)
  then show ?thesis using frame good by (simp add: keeps_def)
qed

end

text \<open>The state after a sequence of commands.\<close>

definition after_commands :: "('b, 'p, 'v) cenv \<Rightarrow> (u8 \<times> bytes) list \<Rightarrow> ('b, 'p, 'v) auth \<Rightarrow> ('b, 'p, 'v) auth" where
  "after_commands env cs a = fold (\<lambda>(c, d) a. fst (process_command env a c d)) cs a"

text \<open>
  \<open>alwaysUv\<close> is never on without a PIN. No sequence of commands without a Reset, from a state in which
  this holds, leads to one in which \<open>alwaysUv\<close> is set and no PIN is: the flag is toggled only with a PIN, and no
  command removes the PIN.
\<close>

lemma always_uv_invariant:
  assumes "engine_ops (senv env) good" "good (au_storage a)" "always_uv_has_pin env a"
    and "\<forall>(c, d) \<in> set cs. command_from_u8 c \<noteq> Cmd_Reset"
  shows "good (au_storage (after_commands env cs a)) \<and> always_uv_has_pin env (after_commands env cs a)"
  using assms(2-4)
proof (induction cs arbitrary: a)
  case (Cons cd cs)
  obtain c d where cd: "cd = (c, d)" by fastforce
  have "good (au_storage (fst (process_command env a c d))) \<and> always_uv_has_pin env (fst (process_command env a c d))"
    using device.always_uv_step [OF device.intro [OF assms(1)] Cons.prems(1,2)] Cons.prems(3) cd by simp
  then show ?case using Cons.IH [of "fst (process_command env a c d)"] Cons.prems(3) cd by (simp add: after_commands_def)
qed (simp add: after_commands_def)

subsection \<open>Assertions\<close>

lemma authorize_ok:
  assumes "authorize env a p q h permission rp uv up = (b, Inr pa)"
  shows "au_storage b = au_storage a \<and> (uv \<longrightarrow> is_pin_set env a \<longrightarrow> pa) \<and> (is_always_uv env a \<longrightarrow> uv)
    \<and> (pa \<longleftrightarrow> (\<exists>protocol param. p = Some protocol \<and> q = Some param \<and> token_authorizes env a protocol param h permission (Some rp)))"
proof -
  have "au_storage b = au_storage a" using storage_same_authorize [of env a p q h permission rp uv up] assms by simp
  moreover have "verify_pin_uv_auth_for_operation env a p q h permission (Some rp) = Inr pa"
      "uv \<longrightarrow> is_pin_set env a \<longrightarrow> pa" "is_always_uv env a \<longrightarrow> uv"
    using assms by (auto simp: authorize_def effect_ok)
  ultimately show ?thesis
    using verify_operation_True [of env a p q h permission "Some rp"] by (cases pa) auto
qed

lemma find_by_rp_hash: "c \<in> set (find_by_rp_id env crypto se rp) \<Longrightarrow> rp_id_hash c = hash_rp_id env rp"
  by (auto simp: find_by_rp_id_def find_credentials_by_rp_hash_def map_filter_def split: if_splits sum.splits)

lemma select_named_ok:
  "select_named env a h uv ds = Inr (Some c) \<Longrightarrow> rp_id_hash c = h \<and> is_cred_protect_allowed c uv True"
  by (induction ds) (auto simp: bind_result_ok split: option.splits if_splits)

lemma select_credential_ok:
  assumes "select_credential env a rp named uv = Inr c"
  shows "rp_id_hash c = rp_hash env rp \<and> (cred_protect c = Some CRED_PROTECT_UV_REQUIRED \<longrightarrow> uv)"
proof -
  obtain s where s: "select_named env a (rp_hash env rp) uv named = Inr s"
    using assms by (auto simp: select_credential_def bind_result_ok)
  show ?thesis
  proof (cases s)
    case None
    then obtain cs where "filter (\<lambda>c. is_cred_protect_allowed c uv False) (find_by_rp_id (senv env) (au_crypto a) (au_storage a) rp) = c # cs"
      using assms s by (auto simp: select_credential_def split: list.splits)
    then have "c \<in> set (filter (\<lambda>c. is_cred_protect_allowed c uv False) (find_by_rp_id (senv env) (au_crypto a) (au_storage a) rp))"
      by (metis list.set_intros(1))
    then show ?thesis
      using find_by_rp_hash [of c "senv env" "au_crypto a" "au_storage a" rp] by (auto simp: is_cred_protect_allowed_def rp_hash_def split: if_splits)
  next
    case (Some c')
    then show ?thesis
      using assms s select_named_ok [of env a "rp_hash env rp" uv named c]
      by (auto simp: select_credential_def is_cred_protect_allowed_def split: if_splits)
  qed
qed

lemma user_flags_bits:
  "bit (user_flags 0 up pa) 0 = up" "bit (user_flags 0 up pa) 2 = pa"
  by (simp_all add: user_flags_def Let_def bit_simps)

text \<open>What a successful GetAssertion went through.\<close>

lemma get_assertion_parts:
  assumes "get_assertion env a req = (b, Inr resp)"
  obtains pa a0 c a1 sig where
    "authorize env a (gar_pin_protocol req) (gar_pin_uv_auth_param req) (gar_client_data_hash req)
                PERMISSION_GA (gar_rp_id req) (gao_uv (gar_options req)) (gao_up (gar_options req)) = (a0, Inr pa)"
    "select_credential env a0 (gar_rp_id req) (named_credentials req) (cred_protect_uv_satisfied env a0 pa) = Inr c"
    "count_and_sign env a0 c (rp_hash env (gar_rp_id req)) (user_flags 0 (gao_up (gar_options req)) pa)
       (gar_client_data_hash req) = (a1, Inr (gas_auth_data resp, gas_signature resp))"
    "gas_credential resp = Some (assertion_descriptor c)"
  using assms by (auto simp: get_assertion_def andthen_ok attempt_ok Let_def split_beta)

lemma count_and_sign_parts:
  assumes "count_and_sign env a c h flags d = (b, Inr (auth_data, sig))"
  obtains n s where "auth_data = h @ flags # to_be_bytes 4 (n :: u32)"
    "snd (sign_assertion env s c (slice_of 0 32 auth_data @ slice_of 32 37 auth_data @ d)) = Inr sig"
  using assms by (auto simp: count_and_sign_def andthen_ok attempt_ok build_auth_data_def) (metis snd_conv)


text \<open>The example device answers with 37 bytes of authenticator data.\<close>

definition example_ga_response :: GetAssertionResponse where
  "example_ga_response = (case snd (get_assertion example_ga_env example_ga_auth example_ga_request) of Inr r \<Rightarrow> r)"

lemma example_ga_answers: "is_ok (snd (get_assertion example_ga_env example_ga_auth example_ga_request))"
  by code_simp


end
