(* ===== verification/Iso7816.thy ===== *)
theory Iso7816
  imports Prelude
begin

section \<open>ISO 7816-4 command parsing and card routing\<close>

text \<open>
  Models \<open>openkey-transport/src/iso7816.rs\<close>: status words, APDU parsing in short and extended form, the applet
  contract and the card router with application selection and GET RESPONSE chaining. The applets are trait
  objects: their operations are the parameter \<open>AppletOps\<close> over a type of applet states, and the router holds
  the list of states. The theorems characterise exactly which byte strings parse and to what, show that the
  router's indices and chain positions stay in range, that a host which follows \<open>61 XX\<close> receives exactly what
  the applet answered, and which applet a SELECT chooses.
\<close>

unbundle bit_operations_syntax

subsection \<open>Status words and instructions\<close>

definition SW_NO_ERROR :: u16 where "SW_NO_ERROR = 0x9000"
definition SW_FILE_NOT_FOUND :: u16 where "SW_FILE_NOT_FOUND = 0x6A82"
definition SW_INS_NOT_SUPPORTED :: u16 where "SW_INS_NOT_SUPPORTED = 0x6D00"
definition SW_WRONG_P1_P2 :: u16 where "SW_WRONG_P1_P2 = 0x6B00"
definition SW_WRONG_LENGTH :: u16 where "SW_WRONG_LENGTH = 0x6700"
definition SW_CONDITIONS_NOT_SATISFIED :: u16 where "SW_CONDITIONS_NOT_SATISFIED = 0x6985"
definition SW_SECURITY_STATUS :: u16 where "SW_SECURITY_STATUS = 0x6982"
definition SW_MORE_DATA_BASE :: u16 where "SW_MORE_DATA_BASE = 0x6100"

definition sw_more_data :: "usize \<Rightarrow> u16" where
  "sw_more_data remaining =
     (if remaining > 255 then SW_MORE_DATA_BASE else SW_MORE_DATA_BASE OR of_nat remaining)"

definition is_more_data :: "u16 \<Rightarrow> bool" where
  "is_more_data sw = (sw AND 0xFF00 = SW_MORE_DATA_BASE)"

definition INS_SELECT :: u8 where "INS_SELECT = 0xA4"
definition INS_GET_RESPONSE :: u8 where "INS_GET_RESPONSE = 0xC0"
definition LE_MAX :: usize where "LE_MAX = 256"
definition LE_MAX_EXTENDED :: usize where "LE_MAX_EXTENDED = 65536"

subsection \<open>APDU parsing\<close>

datatype ApduParseError = TooShort | TruncatedBody | TrailingBytes

record Apdu =
  cla :: u8
  ins :: u8
  p1 :: u8
  p2 :: u8
  apdu_data :: bytes
  le :: "usize option"

definition le_from_byte :: "u8 \<Rightarrow> usize" where
  "le_from_byte b = (if b = 0 then LE_MAX else unat b)"

text \<open>\<open>((hi as usize) << 8) | lo as usize\<close>\<close>

definition pair_value :: "u8 \<Rightarrow> u8 \<Rightarrow> usize" where
  "pair_value hi lo = push_bit 8 (unat hi) OR unat lo"

definition le_from_pair :: "u8 \<Rightarrow> u8 \<Rightarrow> usize" where
  "le_from_pair hi lo =
     (let v = pair_value hi lo in if v = 0 then LE_MAX_EXTENDED else v)"

definition apdu_with :: "bytes \<Rightarrow> bytes \<Rightarrow> usize option \<Rightarrow> Apdu" where
  "apdu_with raw data l = \<lparr>cla = raw ! 0, ins = raw ! 1, p1 = raw ! 2, p2 = raw ! 3, apdu_data = data, le = l\<rparr>"

definition apdu_parse :: "bytes \<Rightarrow> (ApduParseError, Apdu) result" where
  "apdu_parse raw =
     (if length raw < 4 then Inl TooShort
      else if length raw = 4 then Inr (apdu_with raw [] None)
      else if length raw = 5 then Inr (apdu_with raw [] (Some (le_from_byte (raw ! 4))))
      else if raw ! 4 = 0
      then (if length raw = 6 then Inr (apdu_with raw [] (Some (le_from_byte (raw ! 5))))
            else if length raw = 7 then Inr (apdu_with raw [] (Some (le_from_pair (raw ! 5) (raw ! 6))))
            else
              (let lc = pair_value (raw ! 5) (raw ! 6) in
               if length raw < 7 + lc then Inl TruncatedBody
               else
                 (let data = slice_of 7 (7 + lc) raw;
                      rest = length raw - (7 + lc)
                  in if rest = 0 then Inr (apdu_with raw data None)
                     else if rest = 2
                     then Inr (apdu_with raw data
                                (Some (le_from_pair (raw ! (length raw - 2)) (raw ! (length raw - 1)))))
                     else Inl TrailingBytes)))
      else
        (let lc = unat (raw ! 4) in
         if length raw < 5 + lc then Inl TruncatedBody
         else
           (let data = slice_of 5 (5 + lc) raw;
                rest = length raw - (5 + lc)
            in if rest = 0 then Inr (apdu_with raw data None)
               else if rest = 1 then Inr (apdu_with raw data (Some (le_from_byte (raw ! (5 + lc)))))
               else Inl TrailingBytes)))"

subsection \<open>Applets\<close>

record ResponseData =
  resp_data :: bytes
  resp_sw :: "u16 option"

definition resp_ok :: "bytes \<Rightarrow> ResponseData" where
  "resp_ok data = \<lparr>resp_data = data, resp_sw = None\<rparr>"

definition with_sw :: "bytes \<Rightarrow> u16 \<Rightarrow> ResponseData" where
  "with_sw data sw = \<lparr>resp_data = data, resp_sw = Some sw\<rparr>"

definition unwrap_sw :: "u16 option \<Rightarrow> u16" where
  "unwrap_sw sw = (case sw of Some w \<Rightarrow> w | None \<Rightarrow> SW_NO_ERROR)"

definition resp_to_bytes :: "ResponseData \<Rightarrow> bytes" where
  "resp_to_bytes r = resp_data r @ to_be_bytes 2 (unwrap_sw (resp_sw r))"

record 'a AppletOps =
  ap_aid :: "'a \<Rightarrow> bytes"
  ap_select :: "'a \<Rightarrow> 'a \<times> (u16, unit) result"
  ap_select_response :: "'a \<Rightarrow> 'a \<times> bytes"
  ap_process :: "'a \<Rightarrow> Apdu \<Rightarrow> 'a \<times> (u16, ResponseData) result"

subsection \<open>CardRouter\<close>

record ChainState =
  chain_buf :: bytes
  chain_pos :: usize
  final_sw :: u16

record 'a CardRouter =
  applets :: "'a list"
  selected :: "usize option"
  chain :: "ChainState option"

definition router_new :: "'a CardRouter" where
  "router_new = \<lparr>applets = [], selected = None, chain = None\<rparr>"

definition register :: "'a CardRouter \<Rightarrow> 'a \<Rightarrow> 'a CardRouter" where
  "register r applet = r\<lparr>applets := applets r @ [applet]\<rparr>"

definition selected_aid :: "'a AppletOps \<Rightarrow> 'a CardRouter \<Rightarrow> bytes option" where
  "selected_aid ops r = map_option (\<lambda>idx. ap_aid ops (applets r ! idx)) (selected r)"

definition is_chain_pending :: "'a CardRouter \<Rightarrow> bool" where
  "is_chain_pending r = (chain r \<noteq> None)"

text \<open>The search loop of \<open>handle_select\<close>: an exact match ends it, a longer prefix match replaces the best.\<close>

fun best_match :: "bytes \<Rightarrow> bytes list \<Rightarrow> usize \<Rightarrow> usize option \<Rightarrow> usize \<Rightarrow> usize option" where
  "best_match requested [] idx best best_len = best"
| "best_match requested (aid # aids) idx best best_len =
     (if aid = requested then Some idx
      else if take (length requested) aid = requested \<and> length aid > best_len
      then best_match requested aids (idx + 1) (Some idx) (length aid)
      else best_match requested aids (idx + 1) best best_len)"

definition handle_select :: "'a AppletOps \<Rightarrow> 'a CardRouter \<Rightarrow> Apdu \<Rightarrow> 'a CardRouter \<times> ResponseData" where
  "handle_select ops r apdu =
     (let requested = apdu_data apdu in
      if requested = [] then (r, with_sw [] SW_FILE_NOT_FOUND)
      else case best_match requested (map (ap_aid ops) (applets r)) 0 None 0 of
             None \<Rightarrow> (r, with_sw [] SW_FILE_NOT_FOUND)
           | Some idx \<Rightarrow>
               (case ap_select ops (applets r ! idx) of
                  (a, Inr _) \<Rightarrow>
                    (let (a, data) = ap_select_response ops a
                     in (r\<lparr>applets := (applets r)[idx := a], selected := Some idx\<rparr>, with_sw data SW_NO_ERROR))
                | (a, Inl sw) \<Rightarrow> (r\<lparr>applets := (applets r)[idx := a]\<rparr>, with_sw [] sw)))"

definition deliver :: "'a CardRouter \<Rightarrow> ResponseData \<Rightarrow> usize option \<Rightarrow> 'a CardRouter \<times> ResponseData" where
  "deliver r resp l =
     (let sw = unwrap_sw (resp_sw resp) in
      if resp_data resp = [] then (r, with_sw [] sw)
      else
        (let limit = (case l of Some n \<Rightarrow> n | None \<Rightarrow> 0) in
         if length (resp_data resp) \<le> limit then (r, \<lparr>resp_data = resp_data resp, resp_sw = Some sw\<rparr>)
         else
           (let chunk = take limit (resp_data resp);
                remaining = length (resp_data resp) - limit
            in (r\<lparr>chain := Some \<lparr>chain_buf = resp_data resp, chain_pos = limit, final_sw = sw\<rparr>\<rparr>,
                with_sw chunk (sw_more_data remaining)))))"

definition serve_get_response :: "'a CardRouter \<Rightarrow> usize option \<Rightarrow> 'a CardRouter \<times> ResponseData" where
  "serve_get_response r l =
     (case chain r of
        None \<Rightarrow> (r, with_sw [] SW_CONDITIONS_NOT_SATISFIED)
      | Some c \<Rightarrow>
          (let r = r\<lparr>chain := None\<rparr>;
               effective_le = (case l of Some n \<Rightarrow> n | None \<Rightarrow> LE_MAX);
               remaining = length (chain_buf c) - chain_pos c;
               n = min effective_le remaining;
               chunk = slice_of (chain_pos c) (chain_pos c + n) (chain_buf c);
               new_pos = chain_pos c + n
           in if new_pos = length (chain_buf c)
              then (r, \<lparr>resp_data = chunk, resp_sw = Some (final_sw c)\<rparr>)
              else (r\<lparr>chain := Some (c\<lparr>chain_pos := new_pos\<rparr>)\<rparr>,
                    with_sw chunk (sw_more_data (length (chain_buf c) - new_pos)))))"

definition router_process :: "'a AppletOps \<Rightarrow> 'a CardRouter \<Rightarrow> bytes \<Rightarrow> 'a CardRouter \<times> ResponseData" where
  "router_process ops r raw =
     (case apdu_parse raw of
        Inl _ \<Rightarrow> (r, with_sw [] SW_WRONG_LENGTH)
      | Inr apdu \<Rightarrow>
          if ins apdu = INS_GET_RESPONSE then serve_get_response r (le apdu)
          else
            (let r = r\<lparr>chain := None\<rparr> in
             if ins apdu = INS_SELECT then handle_select ops r apdu
             else case selected r of
                    Some idx \<Rightarrow>
                      (let (a, res) = ap_process ops (applets r ! idx) apdu;
                           r = r\<lparr>applets := (applets r)[idx := a]\<rparr>;
                           resp = (case res of Inr x \<Rightarrow> x | Inl sw \<Rightarrow> with_sw [] sw)
                       in deliver r resp (le apdu))
                  | None \<Rightarrow> (r, with_sw [] SW_INS_NOT_SUPPORTED)))"

subsection \<open>The APDU grammar\<close>

text \<open>The seven layouts of ISO 7816-4 as listed in the documentation of \<open>Apdu::parse\<close>, as a reference encoder.\<close>

datatype ApduCase = Case1 | Case2S | Case3S | Case4S | Case2E | Case3E | Case4E

definition encode_le_byte :: "usize \<Rightarrow> bytes" where
  "encode_le_byte n = [of_nat n]"

definition encode_pair :: "usize \<Rightarrow> bytes" where
  "encode_pair n = [of_nat (n div 256), of_nat n]"

fun encode_apdu :: "ApduCase \<Rightarrow> Apdu \<Rightarrow> bytes" where
  "encode_apdu Case1 a = [cla a, ins a, p1 a, p2 a]"
| "encode_apdu Case2S a = [cla a, ins a, p1 a, p2 a] @ encode_le_byte (the (le a))"
| "encode_apdu Case3S a = [cla a, ins a, p1 a, p2 a] @ [of_nat (length (apdu_data a))] @ apdu_data a"
| "encode_apdu Case4S a = [cla a, ins a, p1 a, p2 a] @ [of_nat (length (apdu_data a))] @ apdu_data a
                            @ encode_le_byte (the (le a))"
| "encode_apdu Case2E a = [cla a, ins a, p1 a, p2 a] @ [0] @ encode_pair (the (le a))"
| "encode_apdu Case3E a = [cla a, ins a, p1 a, p2 a] @ [0] @ encode_pair (length (apdu_data a)) @ apdu_data a"
| "encode_apdu Case4E a = [cla a, ins a, p1 a, p2 a] @ [0] @ encode_pair (length (apdu_data a)) @ apdu_data a
                            @ encode_pair (the (le a))"

text \<open>Which APDU fits which layout.\<close>

fun fits_case :: "ApduCase \<Rightarrow> Apdu \<Rightarrow> bool" where
  "fits_case Case1 a = (apdu_data a = [] \<and> le a = None)"
| "fits_case Case2S a = (apdu_data a = [] \<and> (case le a of Some n \<Rightarrow> 1 \<le> n \<and> n \<le> 256 | None \<Rightarrow> False))"
| "fits_case Case3S a = (1 \<le> length (apdu_data a) \<and> length (apdu_data a) \<le> 255 \<and> le a = None)"
| "fits_case Case4S a = (length (apdu_data a) \<le> 255 \<and> (case le a of Some n \<Rightarrow> 1 \<le> n \<and> n \<le> 256 | None \<Rightarrow> False))"
| "fits_case Case2E a = (apdu_data a = [] \<and> (case le a of Some n \<Rightarrow> 1 \<le> n \<and> n \<le> 65536 | None \<Rightarrow> False))"
| "fits_case Case3E a = (1 \<le> length (apdu_data a) \<and> length (apdu_data a) \<le> 65535 \<and> le a = None)"
| "fits_case Case4E a = (length (apdu_data a) \<le> 65535 \<and> (case le a of Some n \<Rightarrow> 1 \<le> n \<and> n \<le> 65536 | None \<Rightarrow> False))"

lemma pair_value_eq: "pair_value hi lo = unat hi * 256 + unat lo"
proof -
  have "push_bit 8 (unat hi) OR unat lo = push_bit 8 (unat hi) + unat lo"
    by (rule disjunctive_add [symmetric]) (auto simp: bit_simps dest: bit_imp_le_length)
  then show ?thesis
    by (simp add: pair_value_def push_bit_eq_mult)
qed

lemma u8_less: "unat (b :: u8) < 256"
  using unsigned_less [of b, where 'a = nat] by simp

lemma le_byte_roundtrip: "1 \<le> n \<Longrightarrow> n \<le> 256 \<Longrightarrow> le_from_byte (of_nat n) = n"
proof -
  assume n: "1 \<le> n" "n \<le> 256"
  show ?thesis
  proof (cases "n = 256")
    case False
    with n have "unat (of_nat n :: u8) = n" by (simp add: unat_of_nat)
    with n show ?thesis by (auto simp: le_from_byte_def)
  qed (simp add: le_from_byte_def LE_MAX_def)
qed

lemma le_byte_inverse: "of_nat (le_from_byte b) = b" "1 \<le> le_from_byte b" "le_from_byte b \<le> 256"
  using u8_less [of b] by (auto simp: le_from_byte_def LE_MAX_def unat_eq_0 Suc_le_eq unat_gt_0)

lemma pair_roundtrip: "n \<le> 65535 \<Longrightarrow> pair_value (of_nat (n div 256)) (of_nat n) = n"
  by (simp add: pair_value_eq unat_of_nat)

lemma pair_inverse: "of_nat (pair_value hi lo div 256) = hi" "of_nat (pair_value hi lo) = lo" "pair_value hi lo \<le> 65535"
proof -
  have lo: "unat lo < 256" and hi: "unat hi < 256" by (rule u8_less)+
  then show "of_nat (pair_value hi lo div 256) = hi" "pair_value hi lo \<le> 65535"
    by (simp_all add: pair_value_eq)
  show "of_nat (pair_value hi lo) = lo"
  proof -
    have "of_nat 256 = (0 :: u8)" by simp
    then have "hi * of_nat 256 + lo = lo" by (simp only: mult_zero_right add_0_left)
    then show ?thesis by (simp add: pair_value_eq)
  qed
qed

lemma le_pair_roundtrip: "1 \<le> n \<Longrightarrow> n \<le> 65536 \<Longrightarrow> le_from_pair (of_nat (n div 256)) (of_nat n) = n"
proof (cases "n = 65536")
  case False
  assume "1 \<le> n" "n \<le> 65536"
  with False pair_roundtrip [of n] show ?thesis by (simp add: le_from_pair_def)
qed (simp add: le_from_pair_def pair_value_def LE_MAX_EXTENDED_def)

lemma le_pair_inverse:
  "of_nat (le_from_pair hi lo div 256) = hi" "of_nat (le_from_pair hi lo) = lo" "1 \<le> le_from_pair hi lo" "le_from_pair hi lo \<le> 65536"
  using pair_inverse [of hi lo]
  by (auto simp: le_from_pair_def LE_MAX_EXTENDED_def Let_def)

lemma list4: "4 \<le> length xs \<Longrightarrow> \<exists>a b c d ys. xs = a # b # c # d # ys \<and> length ys = length xs - 4"
  by (auto simp: numeral_eq_Suc Suc_le_length_iff)

lemma parse_encode: "fits_case c a \<Longrightarrow> apdu_parse (encode_apdu c a) = Inr a"
proof -
  have u: "unat (of_nat n :: u8) = n" if "n \<le> 255" for n using that by (simp add: unat_of_nat)
  have nz: "(of_nat n :: u8) \<noteq> 0" if "1 \<le> n" "n \<le> 255" for n using u [of n] that by auto
  assume f: "fits_case c a"
  show ?thesis
  proof (cases c)
    case Case3S
    with f have n: "1 \<le> length (apdu_data a)" "length (apdu_data a) \<le> 255" and "le a = None" by auto
    with nz [OF n] u [OF n(2)] Case3S show ?thesis
      by (auto simp: apdu_parse_def apdu_with_def slice_of_def nth_append)
  next
    case Case4S
    then obtain m where m: "le a = Some m" "1 \<le> m" "m \<le> 256" "length (apdu_data a) \<le> 255"
      using f by (auto split: option.splits)
    show ?thesis
    proof (cases "apdu_data a = []")
      case True
      with m Case4S show ?thesis by (simp add: apdu_parse_def apdu_with_def encode_le_byte_def le_byte_roundtrip)
    next
      case False
      then have "1 \<le> length (apdu_data a)" by (simp add: Suc_le_eq)
      with nz [OF this m(4)] u [OF m(4)] m Case4S le_byte_roundtrip [OF m(2,3)] show ?thesis
        by (auto simp: apdu_parse_def apdu_with_def slice_of_def encode_le_byte_def nth_append)
    qed
  next
    case Case2E
    then obtain m where m: "le a = Some m" "1 \<le> m" "m \<le> 65536" "apdu_data a = []"
      using f by (auto split: option.splits)
    with Case2E le_pair_roundtrip [OF m(2,3)] show ?thesis
      by (auto simp: apdu_parse_def apdu_with_def encode_pair_def)
  next
    case Case3E
    with f have n: "1 \<le> length (apdu_data a)" "length (apdu_data a) \<le> 65535" "le a = None" by auto
    with Case3E pair_roundtrip [OF n(2)] show ?thesis
      by (auto simp: apdu_parse_def apdu_with_def encode_pair_def slice_of_def)
  next
    case Case4E
    then obtain m where m: "le a = Some m" "1 \<le> m" "m \<le> 65536" "length (apdu_data a) \<le> 65535"
      using f by (auto split: option.splits)
    with Case4E pair_roundtrip [OF m(4)] le_pair_roundtrip [OF m(2,3)] show ?thesis
      by (auto simp: apdu_parse_def apdu_with_def encode_pair_def slice_of_def nth_append)
  qed (use f in \<open>auto simp: apdu_parse_def apdu_with_def encode_le_byte_def le_byte_roundtrip split: option.splits\<close>)
qed

lemma split_tail: "length ws = n + k \<Longrightarrow> \<exists>xs ys. ws = xs @ ys \<and> length xs = n \<and> length ys = k"
  by (intro exI [of _ "take n ws"] exI [of _ "drop n ws"]) simp

lemma parse_short:
  assumes "apdu_parse ([a0, a1, a2, a3, b] @ zs) = Inr a" "b \<noteq> 0" "zs \<noteq> []"
  shows "\<exists>c. fits_case c a \<and> [a0, a1, a2, a3, b] @ zs = encode_apdu c a"
proof -
  have b: "unat b < 256" "1 \<le> unat b" using u8_less [of b] assms(2) by (auto simp: Suc_le_eq unat_gt_0)
  from assms have len: "length zs = unat b \<or> length zs = unat b + 1"
    by (auto simp: apdu_parse_def Let_def split: if_splits)
  show ?thesis
  proof (cases "length zs = unat b")
    case True
    then have "a = apdu_with ([a0, a1, a2, a3, b] @ zs) zs None"
      using assms by (auto simp: apdu_parse_def Let_def slice_of_def split: if_splits)
    then show ?thesis using True b by (intro exI [of _ Case3S]) (simp add: apdu_with_def)
  next
    case False
    with len obtain xs y where zs: "zs = xs @ [y]" "length xs = unat b"
      using split_tail [of zs "unat b" 1] by (auto simp: length_Suc_conv)
    then have "a = apdu_with ([a0, a1, a2, a3, b] @ zs) xs (Some (le_from_byte y))"
      using assms by (auto simp: apdu_parse_def Let_def slice_of_def nth_append split: if_splits)
    then show ?thesis
      using zs b le_byte_inverse [of y] by (intro exI [of _ Case4S]) (simp add: apdu_with_def encode_le_byte_def)
  qed
qed

lemma parse_extended:
  assumes "apdu_parse ([a0, a1, a2, a3, 0, hi, lo] @ ws) = Inr a" "ws \<noteq> []"
  shows "\<exists>c. fits_case c a \<and> [a0, a1, a2, a3, 0, hi, lo] @ ws = encode_apdu c a"
proof -
  let ?lc = "pair_value hi lo" and ?raw = "[a0, a1, a2, a3, 0, hi, lo] @ ws"
  from assms have len: "length ws = ?lc \<or> length ws = ?lc + 2"
    by (auto simp: apdu_parse_def Let_def split: if_splits)
  show ?thesis
  proof (cases "length ws = ?lc")
    case True
    then have "a = apdu_with ?raw ws None"
      using assms by (auto simp: apdu_parse_def Let_def slice_of_def split: if_splits)
    moreover have "1 \<le> length ws" using assms(2) by (simp add: Suc_le_eq)
    ultimately show ?thesis
      using True pair_inverse [of hi lo] by (intro exI [of _ Case3E]) (simp add: apdu_with_def encode_pair_def)
  next
    case False
    with len obtain xs x y where ws: "ws = xs @ [x, y]" "length xs = ?lc"
      using split_tail [of ws ?lc 2] by (auto simp: length_Suc_conv numeral_2_eq_2)
    then have "a = apdu_with ?raw xs (Some (le_from_pair x y))"
      using assms by (auto simp: apdu_parse_def Let_def slice_of_def nth_append split: if_splits)
    then show ?thesis
      using ws pair_inverse [of hi lo] le_pair_inverse [of x y]
      by (intro exI [of _ Case4E]) (simp add: apdu_with_def encode_pair_def)
  qed
qed

lemma parse_complete:
  assumes "apdu_parse raw = Inr a"
  shows "\<exists>c. fits_case c a \<and> raw = encode_apdu c a"
proof -
  have "4 \<le> length raw" using assms by (auto simp: apdu_parse_def split: if_splits)
  then obtain a0 a1 a2 a3 ys where raw: "raw = a0 # a1 # a2 # a3 # ys" using list4 by blast
  consider (none) "ys = []" | (one) b where "ys = [b]" | (short) b zs where "ys = b # zs" "b \<noteq> 0" "zs \<noteq> []"
    | (zero1) x where "ys = [0, x]" | (zero2) hi lo where "ys = [0, hi, lo]"
    | (ext) hi lo ws where "ys = 0 # hi # lo # ws" "ws \<noteq> []"
    by (cases ys; cases "tl ys"; cases "tl (tl ys)"; cases "tl (tl (tl ys))"; cases "hd ys = 0") auto
  then show ?thesis
  proof cases
    case none
    with assms raw show ?thesis by (intro exI [of _ Case1]) (auto simp: apdu_parse_def apdu_with_def)
  next
    case one
    with assms raw le_byte_inverse [of b] show ?thesis
      by (intro exI [of _ Case2S]) (auto simp: apdu_parse_def apdu_with_def encode_le_byte_def)
  next
    case short
    with assms raw parse_short [of a0 a1 a2 a3 b zs a] show ?thesis by simp
  next
    case zero1
    with assms raw le_byte_inverse [of x] show ?thesis
      by (intro exI [of _ Case4S]) (auto simp: apdu_parse_def apdu_with_def encode_le_byte_def)
  next
    case zero2
    with assms raw le_pair_inverse [of hi lo] show ?thesis
      by (intro exI [of _ Case2E]) (auto simp: apdu_parse_def apdu_with_def encode_pair_def)
  next
    case ext
    with assms raw parse_extended [of a0 a1 a2 a3 hi lo ws a] show ?thesis by simp
  qed
qed

subsection \<open>Router invariant\<close>

definition router_inv :: "'a CardRouter \<Rightarrow> bool" where
  "router_inv r = ((case selected r of None \<Rightarrow> True | Some i \<Rightarrow> i < length (applets r))
     \<and> (case chain r of None \<Rightarrow> True | Some c \<Rightarrow> chain_pos c < length (chain_buf c)))"

lemma best_match_bound:
  "best_match req aids idx best n = Some i \<Longrightarrow> (case best of None \<Rightarrow> True | Some b \<Rightarrow> b < idx) \<Longrightarrow> i < idx + length aids"
proof (induction req aids idx best n rule: best_match.induct)
  case (2 req aid aids idx best n)
  then show ?case by (fastforce split: if_splits option.splits)
qed (auto split: option.splits)

lemma handle_select_inv:
  assumes "router_inv r" "chain r = None"
  shows "router_inv (fst (handle_select ops r apdu))"
proof -
  have "i < length (applets r)" if "best_match (apdu_data apdu) (map (ap_aid ops) (applets r)) 0 None 0 = Some i" for i
    using best_match_bound [OF that] by simp
  with assms show ?thesis
    by (auto simp: handle_select_def router_inv_def Let_def split: option.splits prod.splits sum.splits)
qed

lemma deliver_inv: "router_inv r \<Longrightarrow> router_inv (fst (deliver r resp l))"
  by (auto simp: deliver_def router_inv_def Let_def not_le split: option.splits)

lemma serve_get_response_inv: "router_inv r \<Longrightarrow> router_inv (fst (serve_get_response r l))"
  by (auto simp: serve_get_response_def router_inv_def Let_def split: option.splits)

lemma register_inv: "router_inv r \<Longrightarrow> router_inv (register r a)"
  by (auto simp: router_inv_def register_def split: option.splits)

lemma router_inv_update: "router_inv r \<Longrightarrow> router_inv (r\<lparr>chain := None\<rparr>)"
  "router_inv r \<Longrightarrow> router_inv (r\<lparr>applets := (applets r)[i := a]\<rparr>)"
  by (auto simp: router_inv_def split: option.splits)

lemma router_process_inv:
  assumes "router_inv r"
  shows "router_inv (fst (router_process ops r raw))"
proof (cases "apdu_parse raw")
  case (Inr apdu)
  let ?r = "r\<lparr>chain := None\<rparr>"
  have "router_inv ?r" using assms by (rule router_inv_update)
  with Inr assms handle_select_inv [of ?r ops apdu] serve_get_response_inv [OF assms]
    deliver_inv [OF router_inv_update(2) [of ?r]]
  show ?thesis by (auto simp: router_process_def Let_def split: option.splits prod.splits sum.splits)
qed (use assms in \<open>simp add: router_process_def\<close>)

subsection \<open>Chained responses\<close>

lemma more_data_bits: "n \<le> 255 \<Longrightarrow> (SW_MORE_DATA_BASE OR of_nat n) AND 0xFF00 = SW_MORE_DATA_BASE"
proof -
  assume "n \<le> 255"
  then have "(of_nat n :: u16) < 2 ^ 8" by (simp add: word_less_nat_alt unat_of_nat)
  then have "(of_nat n :: u16) AND 0xFF = of_nat n" using less_mask_eq [of "of_nat n :: u16" 8] by (simp add: mask_eq_exp_minus_1)
  then have "(of_nat n :: u16) AND 0xFF00 = (of_nat n AND 0xFF) AND 0xFF00" by simp
  also have "\<dots> = 0" by (simp add: and.assoc)
  finally show ?thesis by (simp add: bit.conj_disj_distrib2 SW_MORE_DATA_BASE_def)
qed

lemma is_more_data_sw [simp]: "is_more_data (sw_more_data n)"
  by (simp add: is_more_data_def sw_more_data_def more_data_bits) (simp add: SW_MORE_DATA_BASE_def)

text \<open>A host that sends GET RESPONSE with Le = 256 as long as the status is \<open>61 XX\<close>, at most \<open>k\<close> rounds.\<close>

definition get_response_apdu :: bytes where
  "get_response_apdu = [0, INS_GET_RESPONSE, 0, 0, 0]"

fun host_fetch :: "nat \<Rightarrow> 'a AppletOps \<Rightarrow> 'a CardRouter \<Rightarrow> ResponseData \<Rightarrow> ('a CardRouter \<times> bytes \<times> u16) option" where
  "host_fetch 0 ops r resp = None"
| "host_fetch (Suc k) ops r resp =
     (if is_more_data (unwrap_sw (resp_sw resp))
      then (let (r', resp') = router_process ops r get_response_apdu
            in map_option (\<lambda>(r2, data, sw). (r2, resp_data resp @ data, sw)) (host_fetch k ops r' resp'))
      else Some (r, resp_data resp, unwrap_sw (resp_sw resp)))"

lemma process_get_response: "router_process ops r get_response_apdu = serve_get_response r (Some 256)"
  by (simp add: router_process_def get_response_apdu_def apdu_parse_def apdu_with_def le_from_byte_def LE_MAX_def)

lemma host_fetch_chain:
  assumes "chain r = Some c" "chain_pos c < length (chain_buf c)" "\<not> is_more_data (final_sw c)"
    and "is_more_data (unwrap_sw (resp_sw resp))" "(length (chain_buf c) - chain_pos c + 255) div 256 + 1 \<le> k"
  shows "host_fetch k ops r resp = Some (r\<lparr>chain := None\<rparr>, resp_data resp @ drop (chain_pos c) (chain_buf c), final_sw c)"
  using assms
proof (induction k arbitrary: r c resp)
  case (Suc k)
  let ?rem = "length (chain_buf c) - chain_pos c" and ?n = "min 256 (length (chain_buf c) - chain_pos c)"
  have pos: "0 < k" using Suc.prems by (cases k) auto
  show ?case
  proof (cases "?rem \<le> 256")
    case True
    then have "serve_get_response r (Some 256) = (r\<lparr>chain := None\<rparr>,
        \<lparr>resp_data = drop (chain_pos c) (chain_buf c), resp_sw = Some (final_sw c)\<rparr>)"
      using Suc.prems by (simp add: serve_get_response_def Let_def slice_of_def)
    then show ?thesis
      using Suc.prems pos by (cases k) (simp_all add: process_get_response unwrap_sw_def)
  next
    case False
    let ?c = "c\<lparr>chain_pos := chain_pos c + 256\<rparr>"
    let ?r = "r\<lparr>chain := Some ?c\<rparr>"
    let ?resp = "with_sw (slice_of (chain_pos c) (chain_pos c + 256) (chain_buf c)) (sw_more_data (?rem - 256))"
    have serve: "serve_get_response r (Some 256) = (?r, ?resp)"
      using Suc.prems False by (simp add: serve_get_response_def Let_def min_def)
    have "(?rem + 255) div 256 = ((?rem - 256 + 255) + 256) div 256" using False by simp
    also have "\<dots> = (?rem - 256 + 255) div 256 + 1" by (rule div_add_self2) simp
    finally have "host_fetch k ops ?r ?resp = Some (?r\<lparr>chain := None\<rparr>, resp_data ?resp @ drop (chain_pos ?c) (chain_buf ?c), final_sw ?c)"
      using Suc.prems False by (intro Suc.IH) (auto simp: with_sw_def unwrap_sw_def)
    moreover have "resp_data ?resp @ drop (chain_pos c + 256) (chain_buf c) = drop (chain_pos c) (chain_buf c)"
      by (simp add: with_sw_def slice_append_drop)
    ultimately show ?thesis
      using Suc.prems serve by (simp add: process_get_response)
  qed
qed simp

lemma deliver_then_fetch:
  assumes "chain r = None" "\<not> is_more_data (unwrap_sw (resp_sw x))" "deliver r x l = (r', resp)"
  shows "host_fetch (length (resp_data x) div 256 + 2) ops r' resp = Some (r, resp_data x, unwrap_sw (resp_sw x))"
proof -
  let ?limit = "case l of Some n \<Rightarrow> n | None \<Rightarrow> 0" and ?sw = "unwrap_sw (resp_sw x)" and ?len = "length (resp_data x)"
  have r: "r\<lparr>chain := None\<rparr> = r" using assms(1) by simp
  show ?thesis
  proof (cases "?len \<le> ?limit")
    case True
    then have "r' = r" "resp_data resp = resp_data x" "unwrap_sw (resp_sw resp) = ?sw"
      using assms(3) by (auto simp: deliver_def Let_def with_sw_def unwrap_sw_def split: if_splits)
    then show ?thesis using assms(2) by simp
  next
    case False
    let ?c = "\<lparr>chain_buf = resp_data x, chain_pos = ?limit, final_sw = ?sw\<rparr>"
    have d: "r' = r\<lparr>chain := Some ?c\<rparr>" "resp = with_sw (take ?limit (resp_data x)) (sw_more_data (?len - ?limit))"
      using assms(3) False by (auto simp: deliver_def Let_def split: if_splits)
    have "(?len - ?limit + 255) div 256 \<le> (?len + 255) div 256" by (rule div_le_mono) simp
    moreover have "(?len + 255) div 256 \<le> ?len div 256 + 1" by simp
    ultimately have "(?len - ?limit + 255) div 256 + 1 \<le> ?len div 256 + 2" by linarith
    with False assms(2) have "host_fetch (?len div 256 + 2) ops r' resp
        = Some (r'\<lparr>chain := None\<rparr>, resp_data resp @ drop (chain_pos ?c) (chain_buf ?c), final_sw ?c)"
      by (intro host_fetch_chain) (auto simp: d with_sw_def unwrap_sw_def)
    then show ?thesis using r by (simp add: d with_sw_def)
  qed
qed

subsection \<open>Selection\<close>

text \<open>What a SELECT is documented to choose among the registered identifiers.\<close>

definition selects :: "bytes \<Rightarrow> bytes list \<Rightarrow> nat \<Rightarrow> bool" where
  "selects req aids i =
     (i < length aids
      \<and> (if req \<in> set aids then aids ! i = req \<and> req \<notin> set (take i aids)
         else take (length req) (aids ! i) = req
           \<and> (\<forall>j<length aids. take (length req) (aids ! j) = req
                \<longrightarrow> length (aids ! j) < length (aids ! i) \<or> length (aids ! j) = length (aids ! i) \<and> i \<le> j)))"

definition best_so_far :: "bytes \<Rightarrow> bytes list \<Rightarrow> nat option \<Rightarrow> nat \<Rightarrow> bool" where
  "best_so_far req pre best n =
     (req \<notin> set pre \<and>
      (case best of
         None \<Rightarrow> n = 0 \<and> (\<forall>j<length pre. take (length req) (pre ! j) \<noteq> req)
       | Some i \<Rightarrow> selects req pre i \<and> n = length (pre ! i)))"

lemma best_so_far_skip:
  assumes "best_so_far req pre best n" "aid \<noteq> req" "take (length req) aid = req \<longrightarrow> length aid \<le> n" "req \<noteq> []"
  shows "best_so_far req (pre @ [aid]) best n"
proof (cases best)
  case None
  with assms have "take (length req) aid \<noteq> req" by (auto simp: best_so_far_def)
  with None assms show ?thesis by (auto simp: best_so_far_def nth_append less_Suc_eq)
next
  case (Some i)
  with assms show ?thesis
    by (auto simp: best_so_far_def selects_def nth_append less_Suc_eq le_less)
qed

lemma best_so_far_take:
  assumes "best_so_far req pre best n" "aid \<noteq> req" "take (length req) aid = req" "length aid > n"
  shows "best_so_far req (pre @ [aid]) (Some (length pre)) (length aid)"
proof -
  have req: "req \<notin> set pre" using assms(1) by (simp add: best_so_far_def)
  have "length (pre ! j) \<le> n" if "j < length pre" "take (length req) (pre ! j) = req" for j
    using assms(1) that req by (fastforce simp: best_so_far_def selects_def split: option.splits)
  then have "length (pre ! j) < length aid" if "j < length pre" "take (length req) (pre ! j) = req" for j
    using that assms(4) le_less_trans by blast
  then show ?thesis
    using assms(2,3) req by (auto simp: best_so_far_def selects_def nth_append less_Suc_eq)
qed

lemma best_match_selects:
  assumes "req \<noteq> []"
  shows "best_so_far req pre best n \<Longrightarrow>
    (case best_match req aids (length pre) best n of
       None \<Rightarrow> \<forall>j<length (pre @ aids). take (length req) ((pre @ aids) ! j) \<noteq> req
     | Some i \<Rightarrow> selects req (pre @ aids) i)"
proof (induction aids arbitrary: pre best n)
  case Nil
  then show ?case by (auto simp: best_so_far_def split: option.splits)
next
  case (Cons aid aids)
  have eq: "(pre @ [aid]) @ aids = pre @ aid # aids" by simp
  consider (exact) "aid = req" | (better) "aid \<noteq> req" "take (length req) aid = req" "length aid > n"
    | (skip) "aid \<noteq> req" "take (length req) aid = req \<longrightarrow> length aid \<le> n" by fastforce
  then show ?case
  proof cases
    case exact
    with Cons.prems show ?thesis by (auto simp: best_so_far_def selects_def)
  next
    case better
    from Cons.IH [OF best_so_far_take [OF Cons.prems better], unfolded eq] better show ?thesis by simp
  next
    case skip
    from Cons.IH [OF best_so_far_skip [OF Cons.prems skip assms], unfolded eq] skip show ?thesis by auto
  qed
qed

subsection \<open>Properties\<close>

text \<open>
  Property C28: \<open>Apdu::parse\<close> accepts exactly the seven layouts of ISO 7816-4. A byte string parses to an APDU if
  and only if it is the encoding of that APDU in one of the layouts that fit it, in short or extended form;
  in particular the parser returns for every input, and a parsed APDU carries at most 65535 data bytes and an
  expected length between 1 and 65536.
\<close>

theorem apdu_parse_iff:
  "(apdu_parse raw = Inr a) = (\<exists>c. fits_case c a \<and> raw = encode_apdu c a)"
  using parse_encode parse_complete by auto

text \<open>
  Property C29: a host that follows \<open>61 XX\<close> receives the applet's response exactly. Whatever Le the command had,
  fetching with GET RESPONSE at Le = 256 ends within the stated number of rounds with all response bytes in
  order and the applet's own status word, and leaves no chained data behind.
\<close>

theorem chained_response_complete:
  assumes "apdu_parse raw = Inr apdu" "ins apdu \<noteq> INS_GET_RESPONSE" "ins apdu \<noteq> INS_SELECT"
    and "selected r = Some i" "ap_process ops (applets r ! i) apdu = (a, Inr x)"
    and "\<not> is_more_data (unwrap_sw (resp_sw x))" "router_process ops r raw = (r1, resp)"
  shows "\<exists>r2. host_fetch (length (resp_data x) div 256 + 2) ops r1 resp = Some (r2, resp_data x, unwrap_sw (resp_sw x))
     \<and> chain r2 = None \<and> applets r2 = (applets r)[i := a] \<and> selected r2 = Some i"
proof -
  let ?r = "r\<lparr>chain := None, applets := (applets r)[i := a]\<rparr>"
  have "deliver ?r x (le apdu) = (r1, resp)"
    using assms by (simp add: router_process_def Let_def)
  from deliver_then_fetch [OF _ assms(6) this] assms(4) show ?thesis by auto
qed

definition echo_applet :: "bytes AppletOps" where
  "echo_applet = \<lparr>ap_aid = (\<lambda>a. [0xA0, 0, 0, 0, 3]), ap_select = (\<lambda>a. (a, Inr ())), ap_select_response = (\<lambda>a. (a, [])),
     ap_process = (\<lambda>a apdu. (a, Inr (resp_ok a)))\<rparr>"

theorem chained_response_complete_witness:
  "\<exists>r2. host_fetch (length (resp_data (resp_ok (replicate 300 7))) div 256 + 2) echo_applet
       (fst (router_process echo_applet \<lparr>applets = [replicate 300 7], selected = Some 0, chain = None\<rparr> [0, 1, 0, 0]))
       (snd (router_process echo_applet \<lparr>applets = [replicate 300 7], selected = Some 0, chain = None\<rparr> [0, 1, 0, 0]))
     = Some (r2, resp_data (resp_ok (replicate 300 7)), unwrap_sw (resp_sw (resp_ok (replicate 300 7))))
   \<and> chain r2 = None \<and> applets r2 = [replicate 300 7][0 := replicate 300 7] \<and> selected r2 = Some 0"
proof -
  let ?r = "\<lparr>applets = [replicate 300 7], selected = Some 0, chain = None\<rparr> :: bytes CardRouter"
  have "apdu_parse [0, 1, 0, 0] = Inr (apdu_with [0, 1, 0, 0] [] None)" by (simp add: apdu_parse_def)
  moreover have "ap_process echo_applet (applets ?r ! 0) (apdu_with [0, 1, 0, 0] [] None) = (replicate 300 7, Inr (resp_ok (replicate 300 7)))"
    by (simp add: echo_applet_def)
  ultimately show ?thesis
    using chained_response_complete [of "[0, 1, 0, 0]" "apdu_with [0, 1, 0, 0] [] None" ?r 0 echo_applet
        "replicate 300 7" "resp_ok (replicate 300 7)" "fst (router_process echo_applet ?r [0, 1, 0, 0])"
        "snd (router_process echo_applet ?r [0, 1, 0, 0])"]
    by (simp add: apdu_with_def INS_GET_RESPONSE_def INS_SELECT_def is_more_data_def SW_MORE_DATA_BASE_def
        resp_ok_def unwrap_sw_def SW_NO_ERROR_def)
qed

text \<open>
  The router's state stays in range under every sequence of raw commands, well-formed or not: the
  selected index refers to a registered applet and a chained response has bytes left to deliver, so that
  neither \<open>applets[idx]\<close> nor the slice of the chained buffer can be out of bounds.
\<close>

lemma router_invariant:
  "router_inv (fold (\<lambda>raw r. fst (router_process ops r raw)) raws (fold (\<lambda>a r. register r a) as router_new))"
proof -
  have "router_inv (fold (\<lambda>a r. register r a) as r)" if "router_inv r" for r
    using that by (induction as arbitrary: r) (auto intro: register_inv)
  then have start: "router_inv (fold (\<lambda>a r. register r a) as router_new)" by (simp add: router_new_def router_inv_def)
  have "router_inv (fold (\<lambda>raw r. fst (router_process ops r raw)) raws r)" if "router_inv r" for r
    using that by (induction raws arbitrary: r) (auto intro: router_process_inv)
  with start show ?thesis by blast
qed

text \<open>
  SELECT chooses the applet the documentation promises: an applet whose identifier is exactly the
  requested one if there is any (the first such), otherwise the first of those with the longest identifier
  that starts with the requested one; it answers \<open>6A82\<close> and changes nothing if there is none.
\<close>

lemma select_chooses_documented:
  assumes "apdu_data apdu \<noteq> []"
  shows "case best_match (apdu_data apdu) (map (ap_aid ops) (applets r)) 0 None 0 of
      None \<Rightarrow> handle_select ops r apdu = (r, with_sw [] SW_FILE_NOT_FOUND)
        \<and> list_all (\<lambda>a. take (length (apdu_data apdu)) (ap_aid ops a) \<noteq> apdu_data apdu) (applets r)
    | Some i \<Rightarrow> selects (apdu_data apdu) (map (ap_aid ops) (applets r)) i
        \<and> (case ap_select ops (applets r ! i) of
             (a, Inr _) \<Rightarrow> selected (fst (handle_select ops r apdu)) = Some i
               \<and> resp_sw (snd (handle_select ops r apdu)) = Some SW_NO_ERROR
           | (a, Inl sw) \<Rightarrow> selected (fst (handle_select ops r apdu)) = selected r
               \<and> snd (handle_select ops r apdu) = with_sw [] sw)"
proof -
  let ?req = "apdu_data apdu" and ?aids = "map (ap_aid ops) (applets r)"
  have "best_so_far ?req [] None 0" by (simp add: best_so_far_def)
  from best_match_selects [OF assms this, of ?aids] assms show ?thesis
    by (auto simp: handle_select_def Let_def with_sw_def list_all_length split: option.splits prod.splits sum.splits)
qed

end
