(* ===== verification/Oath_State.thy ===== *)
theory Oath_State
  imports Ordered_Map Effects Iso7816
begin

section \<open>The state of the OATH applet and its encoding\<close>

text \<open>
  Models the first half of \<open>openkey-device/src/firmware/yubico_oath.rs\<close>: algorithms and types, credentials, the
  binary format of the persisted state (\<open>serialize_state\<close>, \<open>BlobReader\<close>, \<open>parse_state\<close>), and the TLV helpers.
  A method \<open>take*\<close> of \<open>BlobReader\<close> returns the value with the advanced reader; where it fails the caller
  returns at once and the reader is dropped. The assertion of \<open>push_tlv\<close>, that the value is short, holds at every
  call of the applet.

  Shown: every well-formed state is read back from its encoding, what \<open>parse_state\<close> accepts is well-formed, and
  a TLV list is read back from its encoding.
\<close>

subsection \<open>Constants\<close>

definition AID_YUBICO_OATH :: bytes where "AID_YUBICO_OATH = [0xA0, 0x00, 0x00, 0x05, 0x27, 0x21, 0x01]"
definition OATH_STORAGE_KEY :: string where "OATH_STORAGE_KEY = ''sys:oath''"
definition STATE_FORMAT_VERSION :: u8 where "STATE_FORMAT_VERSION = 1"
definition MAX_CREDENTIALS :: usize where "MAX_CREDENTIALS = 32"
definition MAX_NAME_LEN :: usize where "MAX_NAME_LEN = 64"
definition MAX_SECRET_LEN :: usize where "MAX_SECRET_LEN = 64"
definition MAX_CHALLENGE_LEN :: usize where "MAX_CHALLENGE_LEN = 64"
definition OATH_SALT_LEN :: usize where "OATH_SALT_LEN = 16"
definition CHALLENGE_LEN :: usize where "CHALLENGE_LEN = 8"
definition RESPONSE_WINDOW :: usize where "RESPONSE_WINDOW = 255"
definition REPORTED_VERSION :: bytes where "REPORTED_VERSION = [0x03, 0x04, 0x00]"

definition TAG_NAME :: u8 where "TAG_NAME = 0x71"
definition TAG_NAME_LIST :: u8 where "TAG_NAME_LIST = 0x72"
definition TAG_KEY :: u8 where "TAG_KEY = 0x73"
definition TAG_CHALLENGE :: u8 where "TAG_CHALLENGE = 0x74"
definition TAG_RESPONSE :: u8 where "TAG_RESPONSE = 0x75"
definition TAG_TRUNCATED_RESPONSE :: u8 where "TAG_TRUNCATED_RESPONSE = 0x76"
definition TAG_NO_RESPONSE :: u8 where "TAG_NO_RESPONSE = 0x77"
definition TAG_PROPERTY :: u8 where "TAG_PROPERTY = 0x78"
definition TAG_VERSION :: u8 where "TAG_VERSION = 0x79"
definition TAG_IMF :: u8 where "TAG_IMF = 0x7A"
definition TAG_ALGORITHM :: u8 where "TAG_ALGORITHM = 0x7B"
definition TAG_TOUCH_RESPONSE :: u8 where "TAG_TOUCH_RESPONSE = 0x7C"

definition ALGO_SHA1 :: u8 where "ALGO_SHA1 = 0x01"
definition ALGO_SHA256 :: u8 where "ALGO_SHA256 = 0x02"
definition ALGO_SHA512 :: u8 where "ALGO_SHA512 = 0x03"
definition TYPE_HOTP :: u8 where "TYPE_HOTP = 0x10"
definition TYPE_TOTP :: u8 where "TYPE_TOTP = 0x20"
definition PROP_ONLY_INCREASING :: u8 where "PROP_ONLY_INCREASING = 0x01"
definition PROP_TOUCH :: u8 where "PROP_TOUCH = 0x02"

definition SW_NO_SPACE :: u16 where "SW_NO_SPACE = 0x6A84"
definition SW_WRONG_SYNTAX :: u16 where "SW_WRONG_SYNTAX = 0x6A80"
definition SW_NO_SUCH_OBJECT :: u16 where "SW_NO_SUCH_OBJECT = 0x6984"
definition SW_GENERIC_ERROR :: u16 where "SW_GENERIC_ERROR = 0x6581"
definition SW_CLASS_NOT_SUPPORTED :: u16 where "SW_CLASS_NOT_SUPPORTED = 0x6E00"

subsection \<open>Domain\<close>

datatype OathAlgorithm = Sha1 | Sha256 | Sha512
datatype OathType = Hotp | Totp

definition oath_algorithm_from_wire :: "u8 \<Rightarrow> OathAlgorithm option" where
  "oath_algorithm_from_wire b =
     (if b = ALGO_SHA1 then Some Sha1 else if b = ALGO_SHA256 then Some Sha256
      else if b = ALGO_SHA512 then Some Sha512 else None)"

primrec wire_byte :: "OathAlgorithm \<Rightarrow> u8" where
  "wire_byte Sha1 = ALGO_SHA1" | "wire_byte Sha256 = ALGO_SHA256" | "wire_byte Sha512 = ALGO_SHA512"

primrec digest_len :: "OathAlgorithm \<Rightarrow> usize" where
  "digest_len Sha1 = 20" | "digest_len Sha256 = 32" | "digest_len Sha512 = 64"

definition oath_type_from_wire :: "u8 \<Rightarrow> OathType option" where
  "oath_type_from_wire high_nibble =
     (if high_nibble = TYPE_HOTP then Some Hotp else if high_nibble = TYPE_TOTP then Some Totp else None)"

primrec wire_nibble :: "OathType \<Rightarrow> u8" where
  "wire_nibble Hotp = TYPE_HOTP" | "wire_nibble Totp = TYPE_TOTP"

record OathCredential =
  oc_secret :: bytes
  oc_type :: OathType
  oc_algorithm :: OathAlgorithm
  oc_digits :: u8
  oc_touch_required :: bool
  oc_only_increasing :: bool
  oc_hotp_counter :: u64

record OathAccess =
  oac_algorithm :: OathAlgorithm
  oac_key :: bytes

record OathState =
  os_salt :: bytes
  os_access :: "OathAccess option"
  os_pending_challenge :: "bytes option"
  os_credentials :: "(bytes, OathCredential) btree"

subsection \<open>Encoding\<close>

definition len_prefixed :: "bytes \<Rightarrow> bytes" where
  "len_prefixed b = of_nat (length b) # b"

definition serialize_credential :: "bytes \<times> OathCredential \<Rightarrow> bytes" where
  "serialize_credential e =
     (let (i, c) = e in
      len_prefixed i @ [wire_nibble (oc_type c) OR wire_byte (oc_algorithm c), oc_digits c,
        of_bool (oc_touch_required c) OR push_bit 1 (of_bool (oc_only_increasing c))]
      @ to_be_bytes 8 (oc_hotp_counter c) @ len_prefixed (oc_secret c))"

definition serialize_access :: "OathState \<Rightarrow> bytes" where
  "serialize_access s =
     (case os_access s of
        None \<Rightarrow> [0]
      | Some access \<Rightarrow>
          [1, wire_byte (oac_algorithm access)] @ len_prefixed (oac_key access)
          @ len_prefixed (case os_pending_challenge s of Some c \<Rightarrow> c | None \<Rightarrow> []))"

definition serialize_state :: "OathState \<Rightarrow> bytes" where
  "serialize_state s =
     [STATE_FORMAT_VERSION] @ len_prefixed (os_salt s) @ serialize_access s
     @ to_be_bytes 2 (of_nat (length (os_credentials s)) :: u16) @ concat (map serialize_credential (os_credentials s))"

subsection \<open>Decoding\<close>

record BlobReader =
  br_data :: bytes
  br_pos :: usize

definition reader_new :: "bytes \<Rightarrow> BlobReader" where
  "reader_new data = \<lparr>br_data = data, br_pos = 0\<rparr>"

definition reader_take :: "BlobReader \<Rightarrow> usize \<Rightarrow> (bytes \<times> BlobReader) option" where
  "reader_take r n =
     Option.bind (checked_add_usize (br_pos r) n) (\<lambda>e.
       if e > length (br_data r) then None
       else Some (slice_of (br_pos r) e (br_data r), r\<lparr>br_pos := e\<rparr>))"

definition take_u8 :: "BlobReader \<Rightarrow> (u8 \<times> BlobReader) option" where
  "take_u8 r = map_option (\<lambda>(b, r). (b ! 0, r)) (reader_take r 1)"

definition take_u16 :: "BlobReader \<Rightarrow> (u16 \<times> BlobReader) option" where
  "take_u16 r = map_option (\<lambda>(b, r). (from_be_bytes [b ! 0, b ! 1], r)) (reader_take r 2)"

definition take_len_prefixed :: "BlobReader \<Rightarrow> (bytes \<times> BlobReader) option" where
  "take_len_prefixed r = Option.bind (take_u8 r) (\<lambda>(n, r). reader_take r (unat n))"

definition at_end :: "BlobReader \<Rightarrow> bool" where
  "at_end r = (br_pos r = length (br_data r))"

definition guard :: "bool \<Rightarrow> 'a option \<Rightarrow> 'a option" where
  "guard b k = (if b then k else None)"

definition parse_access :: "BlobReader \<Rightarrow> ((OathAccess option \<times> bytes option) \<times> BlobReader) option" where
  "parse_access r =
     Option.bind (take_u8 r) (\<lambda>(flag, r).
       if flag = 0 then Some ((None, None), r)
       else
         Option.bind (take_u8 r) (\<lambda>(b, r).
         Option.bind (oath_algorithm_from_wire b) (\<lambda>algorithm.
         Option.bind (take_len_prefixed r) (\<lambda>(key, r).
         guard (key \<noteq> []) (Option.bind (take_len_prefixed r) (\<lambda>(pending, r).
           Some ((Some \<lparr>oac_algorithm = algorithm, oac_key = key\<rparr>, if pending = [] then None else Some pending), r)))))))"

definition parse_credential :: "BlobReader \<Rightarrow> ((bytes \<times> OathCredential) \<times> BlobReader) option" where
  "parse_credential r =
     Option.bind (take_len_prefixed r) (\<lambda>(i, r).
     guard (i \<noteq> [] \<and> length i \<le> MAX_NAME_LEN) (
     Option.bind (take_u8 r) (\<lambda>(wire, r).
     Option.bind (oath_type_from_wire (wire AND 0xF0)) (\<lambda>oath_type.
     Option.bind (oath_algorithm_from_wire (wire AND 0x0F)) (\<lambda>algorithm.
     Option.bind (take_u8 r) (\<lambda>(digits, r).
     guard (6 \<le> digits \<and> digits \<le> 8) (
     Option.bind (take_u8 r) (\<lambda>(flags, r).
     Option.bind (reader_take r 8) (\<lambda>(counter, r).
     Option.bind (take_len_prefixed r) (\<lambda>(secret, r).
     guard (secret \<noteq> [] \<and> length secret \<le> MAX_SECRET_LEN) (
       Some ((i, \<lparr>oc_secret = secret, oc_type = oath_type, oc_algorithm = algorithm, oc_digits = digits,
                 oc_touch_required = (flags AND 0x01 \<noteq> 0), oc_only_increasing = (flags AND 0x02 \<noteq> 0),
                 oc_hotp_counter = from_be_bytes counter\<rparr>), r))))))))))))"

fun parse_credentials ::
  "nat \<Rightarrow> BlobReader \<Rightarrow> (bytes, OathCredential) btree \<Rightarrow> ((bytes, OathCredential) btree \<times> BlobReader) option" where
  "parse_credentials 0 r credentials = Some (credentials, r)"
| "parse_credentials (Suc n) r credentials =
     Option.bind (parse_credential r) (\<lambda>((i, c), r). parse_credentials n r (btree_insert i c credentials))"

definition parse_state :: "bytes \<Rightarrow> OathState option" where
  "parse_state blob =
     Option.bind (take_u8 (reader_new blob)) (\<lambda>(version, r).
     guard (version = STATE_FORMAT_VERSION) (
     Option.bind (take_len_prefixed r) (\<lambda>(salt, r).
     guard (salt \<noteq> [] \<and> length salt \<le> OATH_SALT_LEN * 4) (
     Option.bind (parse_access r) (\<lambda>((access, pending), r).
     Option.bind (take_u16 r) (\<lambda>(n, r).
     guard (unat n \<le> MAX_CREDENTIALS) (
     Option.bind (parse_credentials (unat n) r []) (\<lambda>(credentials, r).
     guard (at_end r) (
       Some \<lparr>os_salt = salt, os_access = access, os_pending_challenge = pending, os_credentials = credentials\<rparr>)))))))))"

subsection \<open>TLV lists\<close>

type_synonym tlv = "u8 \<times> bytes"

definition push_tlv :: "bytes \<Rightarrow> u8 \<Rightarrow> bytes \<Rightarrow> bytes" where
  "push_tlv out tag v = out @ [tag, of_nat (length v)] @ v"

definition push_tlv_owned :: "u8 \<Rightarrow> bytes \<Rightarrow> bytes" where
  "push_tlv_owned tag v = push_tlv [] tag v"

function parse_tlvs_from :: "bytes \<Rightarrow> usize \<Rightarrow> tlv list \<Rightarrow> (u16, tlv list) result" where
  "parse_tlvs_from data pos tlvs =
     (if pos < length data
      then (if length data - pos < 2 then Inl SW_WRONG_SYNTAX
            else let tag = data ! pos; e = pos + 2 + unat (data ! (pos + 1))
                 in if e > length data then Inl SW_WRONG_SYNTAX
                    else parse_tlvs_from data e (tlvs @ [(tag, slice_of (pos + 2) e data)]))
      else Inr tlvs)"
  by auto
termination by (relation "measure (\<lambda>(data, pos, tlvs). length data - pos)") auto

declare parse_tlvs_from.simps [simp del]

definition parse_tlvs :: "bytes \<Rightarrow> (u16, tlv list) result" where
  "parse_tlvs data = parse_tlvs_from data 0 []"

text \<open>The closure of \<open>retain\<close>: what was found, whether it was duplicated, and what stays.\<close>

fun retain_other :: "u8 \<Rightarrow> tlv list \<Rightarrow> bytes option \<Rightarrow> bool \<Rightarrow> bytes option \<times> bool \<times> tlv list" where
  "retain_other tag [] found duplicated = (found, duplicated, [])"
| "retain_other tag ((t, v) # tlvs) found duplicated =
     (if t = tag
      then (if found \<noteq> None then retain_other tag tlvs found True else retain_other tag tlvs (Some v) duplicated)
      else (let (found, duplicated, rest) = retain_other tag tlvs found duplicated in (found, duplicated, (t, v) # rest)))"

definition take_tag :: "tlv list \<Rightarrow> u8 \<Rightarrow> (u16, bytes option \<times> tlv list) result" where
  "take_tag tlvs tag =
     (let (found, duplicated, rest) = retain_other tag tlvs None False
      in if duplicated then Inl SW_WRONG_SYNTAX else Inr (found, rest))"

definition require_no_remaining_tlvs :: "tlv list \<Rightarrow> (u16, unit) result" where
  "require_no_remaining_tlvs tlvs = (if tlvs = [] then Inr () else Inl SW_WRONG_SYNTAX)"

definition dynamic_truncate :: "bytes \<Rightarrow> bytes" where
  "dynamic_truncate digest =
     (let offset = unat (digest ! (length digest - 1) AND 0x0F)
      in [digest ! offset, digest ! (offset + 1), digest ! (offset + 2), digest ! (offset + 3)])"

subsection \<open>Well-formed states\<close>

definition credential_wf :: "bytes \<times> OathCredential \<Rightarrow> bool" where
  "credential_wf e =
     (let (i, c) = e in i \<noteq> [] \<and> length i \<le> MAX_NAME_LEN \<and> 6 \<le> oc_digits c \<and> oc_digits c \<le> 8
        \<and> oc_secret c \<noteq> [] \<and> length (oc_secret c) \<le> MAX_SECRET_LEN)"

definition challenge_wf :: "bytes option \<Rightarrow> bool" where
  "challenge_wf c = (case c of Some b \<Rightarrow> b \<noteq> [] \<and> length b \<le> 255 | None \<Rightarrow> True)"

definition access_wf :: "OathState \<Rightarrow> bool" where
  "access_wf s =
     (case os_access s of
        None \<Rightarrow> os_pending_challenge s = None
      | Some a \<Rightarrow> oac_key a \<noteq> [] \<and> length (oac_key a) \<le> 255 \<and> challenge_wf (os_pending_challenge s))"

definition oath_wf :: "OathState \<Rightarrow> bool" where
  "oath_wf s = (os_salt s \<noteq> [] \<and> length (os_salt s) \<le> OATH_SALT_LEN * 4 \<and> access_wf s
     \<and> btree_wf (os_credentials s) \<and> length (os_credentials s) \<le> MAX_CREDENTIALS
     \<and> (\<forall>e \<in> set (os_credentials s). credential_wf e))"

subsection \<open>Reading back\<close>

text \<open>A reader in front of \<open>rest\<close>, after \<open>pre\<close>.\<close>

definition reading :: "bytes \<Rightarrow> bytes \<Rightarrow> BlobReader" where
  "reading pre rest = \<lparr>br_data = pre @ rest, br_pos = length pre\<rparr>"

lemma reader_new_reading: "reader_new data = reading [] data"
  by (simp add: reader_new_def reading_def)

lemma at_end_reading [simp]: "at_end (reading pre rest) \<longleftrightarrow> rest = []"
  by (simp add: at_end_def reading_def)

lemma take_reading:
  "length pre + length x + length rest \<le> usize_max \<Longrightarrow>
   reader_take (reading pre (x @ rest)) (length x) = Some (x, reading (pre @ x) rest)"
  by (simp add: reader_take_def reading_def checked_add_usize_def slice_of_def)

lemma take_u8_reading:
  "length pre + length rest < usize_max \<Longrightarrow> take_u8 (reading pre (b # rest)) = Some (b, reading (pre @ [b]) rest)"
  using take_reading [of pre "[b]" rest] by (simp add: take_u8_def)

lemma take_u16_reading:
  assumes "length pre + length rest + 2 \<le> usize_max"
  shows "take_u16 (reading pre (to_be_bytes 2 (n :: u16) @ rest)) = Some (n, reading (pre @ to_be_bytes 2 n) rest)"
proof -
  have "[to_be_bytes 2 n ! 0, to_be_bytes 2 n ! 1] = to_be_bytes 2 n"
    by (simp add: to_be_bytes_def to_le_bytes_def upt_rec)
  then show ?thesis
    using take_reading [of pre "to_be_bytes 2 n" rest] assms by (simp add: take_u16_def from_be_bytes_to_be_bytes)
qed

lemma take_len_prefixed_reading:
  assumes "length x \<le> 255" "length pre + length x + length rest < usize_max"
  shows "take_len_prefixed (reading pre (len_prefixed x @ rest)) = Some (x, reading (pre @ len_prefixed x) rest)"
proof -
  have "unat (of_nat (length x) :: u8) = length x" using assms(1) by (simp add: unat_of_nat)
  then show ?thesis
    using assms take_u8_reading [of pre "x @ rest" "of_nat (length x)"] take_reading [of "pre @ [of_nat (length x)]" x rest]
    by (simp add: take_len_prefixed_def len_prefixed_def)
qed

lemmas take_readings = take_u8_reading take_len_prefixed_reading take_u16_reading

lemma length_len_prefixed [simp]: "length (len_prefixed b) = Suc (length b)"
  by (simp add: len_prefixed_def)

lemma wire_fields:
  "oath_type_from_wire ((wire_nibble t OR wire_byte a) AND 0xF0) = Some t"
  "oath_algorithm_from_wire ((wire_nibble t OR wire_byte a) AND 0x0F) = Some a"
  "oath_algorithm_from_wire (wire_byte a) = Some a"
  by (cases t; cases a; simp add: oath_type_from_wire_def oath_algorithm_from_wire_def ALGO_SHA1_def ALGO_SHA256_def
        ALGO_SHA512_def TYPE_HOTP_def TYPE_TOTP_def)+

lemma flag_fields:
  "((of_bool t OR push_bit 1 (of_bool i) :: u8) AND 1 \<noteq> 0) = t"
  "((of_bool t OR push_bit 1 (of_bool i) :: u8) AND 2 \<noteq> 0) = i"
  by (cases t; cases i; simp)+

lemma parse_serialize_credential:
  assumes "credential_wf e" "length pre + length (serialize_credential e) + length rest < usize_max"
  shows "parse_credential (reading pre (serialize_credential e @ rest)) = Some (e, reading (pre @ serialize_credential e) rest)"
proof -
  obtain i c where e: "e = (i, c)" by fastforce
  let ?w = "wire_nibble (oc_type c) OR wire_byte (oc_algorithm c)"
  let ?f = "of_bool (oc_touch_required c) OR push_bit 1 (of_bool (oc_only_increasing c)) :: u8"
  have wf: "i \<noteq> []" "length i \<le> 64" "6 \<le> oc_digits c" "oc_digits c \<le> 8" "oc_secret c \<noteq> []" "length (oc_secret c) \<le> 64"
    using assms(1) e by (auto simp: credential_wf_def MAX_NAME_LEN_def MAX_SECRET_LEN_def)
  have len: "length pre + length i + length (oc_secret c) + length rest + 13 < usize_max"
    using assms(2) e by (simp add: serialize_credential_def)
  have take8: "length p + 8 + length q \<le> usize_max \<Longrightarrow>
      reader_take (reading p (to_be_bytes 8 (oc_hotp_counter c) @ q)) 8
        = Some (to_be_bytes 8 (oc_hotp_counter c), reading (p @ to_be_bytes 8 (oc_hotp_counter c)) q)" for p q
    using take_reading [of p "to_be_bytes 8 (oc_hotp_counter c)" q] by simp
  show ?thesis
    using wf len
    by (simp add: e serialize_credential_def parse_credential_def take_readings take8 guard_def wire_fields flag_fields
        MAX_NAME_LEN_def MAX_SECRET_LEN_def from_be_bytes_to_be_bytes)
qed

lemma parse_serialize_credentials:
  assumes "\<forall>e \<in> set es. credential_wf e" "length pre + length (concat (map serialize_credential es)) < usize_max"
  shows "parse_credentials (length es) (reading pre (concat (map serialize_credential es))) m
    = Some (fold (\<lambda>(i, c). btree_insert i c) es m, reading (pre @ concat (map serialize_credential es)) [])"
  using assms
proof (induction es arbitrary: pre m)
  case (Cons e es)
  have "parse_credential (reading pre (serialize_credential e @ concat (map serialize_credential es)))
      = Some (e, reading (pre @ serialize_credential e) (concat (map serialize_credential es)))"
    using Cons.prems by (intro parse_serialize_credential) simp_all
  then show ?case using Cons.IH [of "pre @ serialize_credential e"] Cons.prems by (simp add: case_prod_unfold)
qed simp

lemma set_btree_insert: "set (btree_insert k v m) \<subseteq> insert (k, v) (set m)"
  by (induction k v m rule: btree_insert.induct) auto

lemma btree_insert_last: "\<forall>x \<in> fst ` set m. x < k \<Longrightarrow> btree_insert k v m = m @ [(k, v)]"
  by (induction k v m rule: btree_insert.induct) (auto dest: less_asym)

lemma fold_btree_insert: "btree_wf (m @ es) \<Longrightarrow> fold (\<lambda>(i, c). btree_insert i c) es m = m @ es"
proof (induction es arbitrary: m)
  case (Cons e es)
  have "\<forall>x \<in> fst ` set m. x < fst e" using Cons.prems by (auto simp: btree_wf_def sorted_wrt_append)
  then show ?case using Cons.IH [of "m @ [e]"] Cons.prems by (simp add: case_prod_unfold btree_insert_last)
qed simp

lemma parse_serialize_access:
  assumes "access_wf s" "length pre + length (serialize_access s) + length rest < usize_max"
  shows "parse_access (reading pre (serialize_access s @ rest))
    = Some ((os_access s, os_pending_challenge s), reading (pre @ serialize_access s) rest)"
proof (cases "os_access s")
  case None
  then show ?thesis using assms by (simp add: serialize_access_def parse_access_def access_wf_def take_u8_reading)
next
  case (Some a)
  let ?c = "case os_pending_challenge s of Some c \<Rightarrow> c | None \<Rightarrow> []"
  have wf: "oac_key a \<noteq> []" "length (oac_key a) \<le> 255" "length ?c \<le> 255" "(if ?c = [] then None else Some ?c) = os_pending_challenge s"
    using assms(1) Some by (auto simp: access_wf_def challenge_wf_def split: option.splits)
  have "length pre + length (oac_key a) + length ?c + length rest + 4 < usize_max"
    using assms(2) Some by (simp add: serialize_access_def)
  then show ?thesis
    using wf Some by (simp add: serialize_access_def parse_access_def take_readings guard_def wire_fields)
qed

lemma length_serialize_credential: "credential_wf e \<Longrightarrow> length (serialize_credential e) \<le> 141"
  by (cases e) (simp add: credential_wf_def serialize_credential_def MAX_NAME_LEN_def MAX_SECRET_LEN_def)

lemma length_serialize_state:
  assumes "oath_wf s"
  shows "length (serialize_state s) \<le> 6000"
proof -
  have "length (concat (map serialize_credential es)) \<le> length es * 141" if "\<forall>e \<in> set es. credential_wf e" for es
    using that by (induction es) (auto dest: length_serialize_credential)
  then have "length (concat (map serialize_credential (os_credentials s))) \<le> 32 * 141"
    using assms by (force simp: oath_wf_def MAX_CREDENTIALS_def)
  moreover have "length (serialize_access s) \<le> 516"
    using assms by (auto simp: oath_wf_def access_wf_def challenge_wf_def serialize_access_def split: option.splits)
  ultimately show ?thesis using assms by (simp add: serialize_state_def oath_wf_def OATH_SALT_LEN_def)
qed

lemma parse_serialize_state:
  assumes "oath_wf s"
  shows "parse_state (serialize_state s) = Some s"
proof -
  let ?cs = "os_credentials s"
  have len: "length (serialize_state s) < usize_max - 100"
    using length_serialize_state [OF assms] by (simp add: usize_max_def)
  have n: "unat (of_nat (length ?cs) :: u16) = length ?cs"
    using assms by (simp add: oath_wf_def MAX_CREDENTIALS_def unat_of_nat)
  have cs: "parse_credentials (length ?cs) (reading pre (concat (map serialize_credential ?cs))) []
      = Some (?cs, reading (pre @ concat (map serialize_credential ?cs)) [])"
    if "length pre + length (concat (map serialize_credential ?cs)) < usize_max" for pre
    using parse_serialize_credentials [OF _ that] fold_btree_insert [of "[]" ?cs] assms by (simp add: oath_wf_def)
  have acc: "access_wf s" and salt: "os_salt s \<noteq> []" "length (os_salt s) \<le> 64" "length ?cs \<le> 32"
    using assms by (simp_all add: oath_wf_def OATH_SALT_LEN_def MAX_CREDENTIALS_def)
  show ?thesis
    using len salt n
    by (simp add: parse_state_def serialize_state_def reader_new_reading take_readings guard_def
        parse_serialize_access [OF acc] cs OATH_SALT_LEN_def MAX_CREDENTIALS_def)
qed

text \<open>What the decoder accepts is well-formed.\<close>

lemma guard_Some [simp]: "guard b k = Some x \<longleftrightarrow> b \<and> k = Some x"
  by (simp add: guard_def)

lemma reader_take_length: "reader_take r n = Some (x, r') \<Longrightarrow> length x = n"
  by (auto simp: reader_take_def bind_eq_Some_conv checked_add_usize_def split: if_splits)

lemma take_len_prefixed_length: "take_len_prefixed r = Some (x, r') \<Longrightarrow> length x \<le> 255"
  using u8_less by (auto simp: take_len_prefixed_def bind_eq_Some_conv less_Suc_eq_le [of _ 255, simplified] dest!: reader_take_length)

lemma parse_credential_wf: "parse_credential r = Some (e, r') \<Longrightarrow> credential_wf e"
  by (auto simp: parse_credential_def bind_eq_Some_conv credential_wf_def)

lemma parse_credentials_wf:
  assumes "parse_credentials n r m = Some (m', r')" "btree_wf m" "\<forall>e \<in> set m. credential_wf e"
  shows "btree_wf m' \<and> (\<forall>e \<in> set m'. credential_wf e) \<and> length m' \<le> length m + n"
  using assms
proof (induction n arbitrary: r m)
  case (Suc n)
  obtain i c r1 where p: "parse_credential r = Some ((i, c), r1)" "parse_credentials n r1 (btree_insert i c m) = Some (m', r')"
    using Suc.prems(1) by (auto simp: bind_eq_Some_conv)
  have "\<forall>e \<in> set (btree_insert i c m). credential_wf e"
    using Suc.prems(3) parse_credential_wf [OF p(1)] set_btree_insert [of i c m] by blast
  moreover have "length (btree_insert i c m) \<le> length m + 1" using Suc.prems(2) by (simp add: length_btree_insert)
  ultimately show ?case using Suc.IH [OF p(2)] Suc.prems(2) by fastforce
qed simp

lemma parse_access_wf:
  "parse_access r = Some ((access, pending), r') \<Longrightarrow>
   access_wf \<lparr>os_salt = salt, os_access = access, os_pending_challenge = pending, os_credentials = cs\<rparr>"
  by (auto simp: parse_access_def bind_eq_Some_conv access_wf_def challenge_wf_def split: if_splits
      dest: take_len_prefixed_length)

lemma parse_state_wf: "parse_state blob = Some s \<Longrightarrow> oath_wf s"
  by (auto simp: parse_state_def bind_eq_Some_conv oath_wf_def intro: parse_access_wf dest!: parse_credentials_wf)

subsection \<open>TLV lists are read back\<close>

definition encode_tlvs :: "tlv list \<Rightarrow> bytes" where
  "encode_tlvs tlvs = concat (map (\<lambda>(t, v). push_tlv_owned t v) tlvs)"

lemma push_tlv_append: "push_tlv out t v = out @ push_tlv_owned t v"
  by (simp add: push_tlv_def push_tlv_owned_def)

lemma parse_tlvs_from_encode:
  "\<forall>(t, v) \<in> set tlvs. length v \<le> 255 \<Longrightarrow>
   parse_tlvs_from (pre @ encode_tlvs tlvs) (length pre) acc = Inr (acc @ tlvs)"
proof (induction tlvs arbitrary: pre acc)
  case Nil
  then show ?case by (simp add: encode_tlvs_def parse_tlvs_from.simps)
next
  case (Cons tv tlvs)
  obtain t v where tv: "tv = (t, v)" by fastforce
  have len: "unat (of_nat (length v) :: u8) = length v" using Cons.prems tv by (simp add: unat_of_nat)
  have enc: "encode_tlvs (tv # tlvs) = [t, of_nat (length v)] @ v @ encode_tlvs tlvs"
    by (simp add: encode_tlvs_def tv push_tlv_owned_def push_tlv_def)
  have "parse_tlvs_from (pre @ encode_tlvs (tv # tlvs)) (length pre) acc
      = parse_tlvs_from ((pre @ [t, of_nat (length v)] @ v) @ encode_tlvs tlvs) (length (pre @ [t, of_nat (length v)] @ v)) (acc @ [(t, v)])"
    using len by (subst parse_tlvs_from.simps) (simp add: enc Let_def nth_append slice_of_def)
  then show ?case using Cons.IH [of "pre @ [t, of_nat (length v)] @ v" "acc @ [(t, v)]"] Cons.prems tv by simp
qed

lemma parse_encode_tlvs: "\<forall>(t, v) \<in> set tlvs. length v \<le> 255 \<Longrightarrow> parse_tlvs (encode_tlvs tlvs) = Inr tlvs"
  using parse_tlvs_from_encode [of tlvs "[]" "[]"] by (simp add: parse_tlvs_def)

end
