(* ===== verification/Oath.thy ===== *)
theory Oath
  imports Oath_State Storage_Engine
begin

section \<open>The OATH applet\<close>

text \<open>
  Models \<open>OathApplet\<close> of \<open>openkey-device/src/firmware/yubico_oath.rs\<close>: loading and persisting the encrypted state,
  every command of the protocol and the trait \<open>Applet\<close>. The storage behind the \<open>RefCell\<close> is a field, as are the
  crypto engine and the index of the next random draw. \<open>expect\<close> on the loaded state is \<open>the\<close>; \<open>ensure_loaded\<close>
  leaves a state whenever it succeeds (lemma \<open>ensure_loaded_ok\<close>).
\<close>

definition INS_PUT :: u8 where "INS_PUT = 0x01"
definition INS_DELETE :: u8 where "INS_DELETE = 0x02"
definition INS_SET_CODE :: u8 where "INS_SET_CODE = 0x03"
definition INS_RESET :: u8 where "INS_RESET = 0x04"
definition INS_RENAME :: u8 where "INS_RENAME = 0x05"
definition INS_LIST :: u8 where "INS_LIST = 0xA1"
definition INS_CALCULATE :: u8 where "INS_CALCULATE = 0xA2"
definition INS_VALIDATE :: u8 where "INS_VALIDATE = 0xA3"
definition INS_CALCULATE_ALL :: u8 where "INS_CALCULATE_ALL = 0xA4"
definition INS_SEND_REMAINING :: u8 where "INS_SEND_REMAINING = 0xA5"

record 'b OathApplet =
  oa_storage :: "'b StorageEngine"
  oa_crypto :: CryptoEngine
  oa_draws :: nat
  oa_state :: "OathState option"
  oa_validated :: bool
  oa_remaining :: "(bytes \<times> usize) option"

subsection \<open>State in memory and in storage\<close>

definition hmac_by_algorithm :: "RingPrims \<Rightarrow> OathAlgorithm \<Rightarrow> bytes \<Rightarrow> bytes \<Rightarrow> (u16, bytes) result" where
  "hmac_by_algorithm r alg key data =
     map_err (\<lambda>_. SW_GENERIC_ERROR)
       (case alg of
          Sha1 \<Rightarrow> compute_hmac_sha1_ykoath_compat r data key
        | Sha256 \<Rightarrow> compute_hmac r data key
        | Sha512 \<Rightarrow> compute_hmac_sha512 r data key)"

definition oath_random :: "'b StorageEnv \<Rightarrow> 'b OathApplet \<Rightarrow> usize \<Rightarrow> 'b OathApplet \<times> bytes" where
  "oath_random env oa n = (oa\<lparr>oa_draws := oa_draws oa + 1\<rparr>, random_bytes (ring env) (oa_draws oa) n)"

definition factory_state :: "'b StorageEnv \<Rightarrow> 'b OathApplet \<Rightarrow> 'b OathApplet \<times> OathState" where
  "factory_state env oa =
     (let (oa, salt) = oath_random env oa OATH_SALT_LEN
      in (oa, \<lparr>os_salt = salt, os_access = None, os_pending_challenge = None, os_credentials = []\<rparr>))"

definition persist_state :: "'b StorageEnv \<Rightarrow> 'b OathApplet \<Rightarrow> ('b OathApplet, u16, unit) outcome" where
  "persist_state env oa =
     attempt (ok_or (oa_state oa) SW_GENERIC_ERROR) oa (\<lambda>s.
       let r = encrypt_with_random_nonce (ring env) (oa_crypto oa) (oa_draws oa) (serialize_state s);
           oa = oa\<lparr>oa_draws := oa_draws oa + 1\<rparr>
       in attempt (map_err (\<lambda>_. SW_GENERIC_ERROR) r) oa (\<lambda>(nonce, ciphertext).
            let (se, r) = store env (oa_storage oa) OATH_STORAGE_KEY (nonce @ ciphertext)
            in (oa\<lparr>oa_storage := se\<rparr>, map_err (\<lambda>_. SW_GENERIC_ERROR) r)))"

definition open_blob :: "RingPrims \<Rightarrow> CryptoEngine \<Rightarrow> bytes \<Rightarrow> OathState option" where
  "open_blob r crypto blob =
     (if length blob > 12
      then (case engine_decrypt r crypto (drop 12 blob) (take 12 blob) of
              Inr plaintext \<Rightarrow> parse_state plaintext | Inl _ \<Rightarrow> None)
      else None)"

definition load_stored :: "'b StorageEnv \<Rightarrow> 'b OathApplet \<Rightarrow> OathState option" where
  "load_stored env oa =
     (case retrieve env (oa_storage oa) OATH_STORAGE_KEY of
        Inl _ \<Rightarrow> None | Inr blob \<Rightarrow> open_blob (ring env) (oa_crypto oa) blob)"

definition ensure_loaded :: "'b StorageEnv \<Rightarrow> 'b OathApplet \<Rightarrow> ('b OathApplet, u16, unit) outcome" where
  "ensure_loaded env oa =
     (if oa_state oa \<noteq> None then (oa, Inr ())
      else case load_stored env oa of
             Some s \<Rightarrow> (oa\<lparr>oa_state := Some s\<rparr>, Inr ())
           | None \<Rightarrow> (let (oa, s) = factory_state env oa in persist_state env (oa\<lparr>oa_state := Some s\<rparr>)))"

definition oath_new :: "'b StorageEnv \<Rightarrow> 'b StorageEngine \<Rightarrow> CryptoEngine \<Rightarrow> nat \<Rightarrow> ('b OathApplet, u16, unit) outcome" where
  "oath_new env storage crypto draws =
     ensure_loaded env \<lparr>oa_storage = storage, oa_crypto = crypto, oa_draws = draws, oa_state = None,
                        oa_validated = False, oa_remaining = None\<rparr>"

definition state_mut :: "'b StorageEnv \<Rightarrow> 'b OathApplet \<Rightarrow> ('b OathApplet, u16, OathState) outcome" where
  "state_mut env oa = andthen (ensure_loaded env oa) (\<lambda>_ oa. (oa, Inr (the (oa_state oa))))"

definition put_state :: "OathState \<Rightarrow> 'b OathApplet \<Rightarrow> 'b OathApplet" where
  "put_state s oa = oa\<lparr>oa_state := Some s\<rparr>"

definition locked :: "'b OathApplet \<Rightarrow> bool" where
  "locked oa = (case oa_state oa of Some s \<Rightarrow> os_access s \<noteq> None | None \<Rightarrow> False)"

definition require_validated :: "'b StorageEnv \<Rightarrow> 'b OathApplet \<Rightarrow> ('b OathApplet, u16, unit) outcome" where
  "require_validated env oa =
     andthen (ensure_loaded env oa) (\<lambda>_ oa. check (locked oa \<and> \<not> oa_validated oa) SW_SECURITY_STATUS oa (oa, Inr ()))"

definition rotate_challenge_for_select :: "'b StorageEnv \<Rightarrow> 'b OathApplet \<Rightarrow> ('b OathApplet, u16, unit) outcome" where
  "rotate_challenge_for_select env oa =
     (if locked oa
      then (let (oa, fresh) = oath_random env oa CHALLENGE_LEN in
            andthen (state_mut env oa) (\<lambda>s oa. persist_state env (put_state (s\<lparr>os_pending_challenge := Some fresh\<rparr>) oa)))
      else (oa, Inr ()))"

subsection \<open>Commands\<close>

definition cmd_send_remaining :: "'b StorageEnv \<Rightarrow> 'b OathApplet \<Rightarrow> Apdu \<Rightarrow> ('b OathApplet, u16, ResponseData) outcome" where
  "cmd_send_remaining env oa apdu =
     andthen (require_validated env oa) (\<lambda>_ oa.
       case oa_remaining oa of
         None \<Rightarrow> (oa, Inl SW_CONDITIONS_NOT_SATISFIED)
       | Some (buffer, pos) \<Rightarrow>
           if pos \<ge> length buffer then (oa\<lparr>oa_remaining := None\<rparr>, Inr (resp_ok []))
           else
             let window = min (case le apdu of Some n \<Rightarrow> n | None \<Rightarrow> RESPONSE_WINDOW) RESPONSE_WINDOW;
                 e = min (saturating_add_usize pos window) (length buffer);
                 chunk = slice_of pos e buffer
             in if e < length buffer
                then (oa\<lparr>oa_remaining := Some (buffer, e)\<rparr>, Inr (with_sw chunk (sw_more_data (length buffer - e))))
                else (oa\<lparr>oa_remaining := None\<rparr>, Inr (resp_ok chunk)))"

text \<open>\<open>take_tag(..)?.ok_or(SW_WRONG_SYNTAX)?\<close>\<close>

definition required_tag :: "tlv list \<Rightarrow> u8 \<Rightarrow> (u16, bytes \<times> tlv list) result" where
  "required_tag tlvs tag =
     bind_result (take_tag tlvs tag) (\<lambda>(found, rest). bind_result (ok_or found SW_WRONG_SYNTAX) (\<lambda>v. Inr (v, rest)))"

definition ensure :: "bool \<Rightarrow> u16 \<Rightarrow> (u16, unit) result" where
  "ensure b sw = (if b then Inr () else Inl sw)"

text \<open>The property byte and the initial moving factor of PUT.\<close>

definition put_properties :: "tlv list \<Rightarrow> (u16, (bool \<times> bool) \<times> tlv list) result" where
  "put_properties tlvs =
     bind_result (take_tag tlvs TAG_PROPERTY) (\<lambda>(found, rest).
       case found of
         None \<Rightarrow> Inr ((False, False), rest)
       | Some prop \<Rightarrow>
           if length prop \<noteq> 1 \<or> prop ! 0 AND NOT (PROP_ONLY_INCREASING OR PROP_TOUCH) \<noteq> 0 then Inl SW_WRONG_SYNTAX
           else Inr ((prop ! 0 AND PROP_ONLY_INCREASING \<noteq> 0, prop ! 0 AND PROP_TOUCH \<noteq> 0), rest))"

definition put_counter :: "OathType \<Rightarrow> tlv list \<Rightarrow> (u16, u64 \<times> tlv list) result" where
  "put_counter oath_type tlvs =
     bind_result (take_tag tlvs TAG_IMF) (\<lambda>(found, rest).
       case found of
         None \<Rightarrow> Inr (0, rest)
       | Some imf \<Rightarrow>
           if length imf \<noteq> 4 then Inl SW_WRONG_SYNTAX
           else if oath_type \<noteq> Hotp then Inl SW_WRONG_SYNTAX
           else Inr (ucast (from_be_bytes [imf ! 0, imf ! 1, imf ! 2, imf ! 3] :: u32), rest))"

definition parse_put :: "bytes \<Rightarrow> (u16, bytes \<times> OathCredential) result" where
  "parse_put data =
     bind_result (parse_tlvs data) (\<lambda>tlvs.
     bind_result (required_tag tlvs TAG_NAME) (\<lambda>(name, tlvs).
     bind_result (ensure (name \<noteq> [] \<and> length name \<le> MAX_NAME_LEN) SW_WRONG_SYNTAX) (\<lambda>_.
     bind_result (required_tag tlvs TAG_KEY) (\<lambda>(key, tlvs).
     bind_result (ensure (length key \<ge> 3) SW_WRONG_SYNTAX) (\<lambda>_.
     bind_result (ok_or (oath_type_from_wire (key ! 0 AND 0xF0)) SW_WRONG_SYNTAX) (\<lambda>oath_type.
     bind_result (ok_or (oath_algorithm_from_wire (key ! 0 AND 0x0F)) SW_WRONG_SYNTAX) (\<lambda>alg.
     bind_result (ensure (6 \<le> key ! 1 \<and> key ! 1 \<le> 8) SW_WRONG_SYNTAX) (\<lambda>_.
     bind_result (ensure (length (drop 2 key) \<le> MAX_SECRET_LEN) SW_WRONG_SYNTAX) (\<lambda>_.
     bind_result (put_properties tlvs) (\<lambda>((only_increasing, touch_required), tlvs).
     bind_result (put_counter oath_type tlvs) (\<lambda>(counter, tlvs).
     bind_result (require_no_remaining_tlvs tlvs) (\<lambda>_.
       Inr (name, \<lparr>oc_secret = drop 2 key, oc_type = oath_type, oc_algorithm = alg, oc_digits = key ! 1,
                   oc_touch_required = touch_required, oc_only_increasing = only_increasing,
                   oc_hotp_counter = counter\<rparr>)))))))))))))"

definition cmd_put :: "'b StorageEnv \<Rightarrow> 'b OathApplet \<Rightarrow> bytes \<Rightarrow> ('b OathApplet, u16, ResponseData) outcome" where
  "cmd_put env oa data =
     andthen (require_validated env oa) (\<lambda>_ oa.
     attempt (parse_put data) oa (\<lambda>(name, cred).
     andthen (state_mut env oa) (\<lambda>s oa.
     check (btree_get (os_credentials s) name = None \<and> length (os_credentials s) \<ge> MAX_CREDENTIALS) SW_NO_SPACE oa
     (andthen (persist_state env (put_state (s\<lparr>os_credentials := btree_insert name cred (os_credentials s)\<rparr>) oa)) (\<lambda>_ oa.
       (oa, Inr (resp_ok [])))))))"

definition parse_delete :: "bytes \<Rightarrow> (u16, bytes) result" where
  "parse_delete data =
     bind_result (parse_tlvs data) (\<lambda>tlvs.
     bind_result (required_tag tlvs TAG_NAME) (\<lambda>(name, tlvs).
     bind_result (require_no_remaining_tlvs tlvs) (\<lambda>_. Inr name)))"

definition cmd_delete :: "'b StorageEnv \<Rightarrow> 'b OathApplet \<Rightarrow> bytes \<Rightarrow> ('b OathApplet, u16, ResponseData) outcome" where
  "cmd_delete env oa data =
     andthen (require_validated env oa) (\<lambda>_ oa.
     attempt (parse_delete data) oa (\<lambda>name.
     andthen (state_mut env oa) (\<lambda>s oa.
     check (btree_get (os_credentials s) name = None) SW_NO_SUCH_OBJECT oa
     (andthen (persist_state env (put_state (s\<lparr>os_credentials := btree_remove name (os_credentials s)\<rparr>) oa)) (\<lambda>_ oa.
       (oa, Inr (resp_ok [])))))))"

definition parse_rename :: "bytes \<Rightarrow> (u16, bytes \<times> bytes) result" where
  "parse_rename data =
     bind_result (parse_tlvs data) (\<lambda>tlvs.
       let names = map snd (filter (\<lambda>(t, v). t = TAG_NAME) tlvs); tlvs = filter (\<lambda>(t, v). t \<noteq> TAG_NAME) tlvs in
       bind_result (require_no_remaining_tlvs tlvs) (\<lambda>_.
       bind_result (ensure (length names = 2) SW_WRONG_SYNTAX) (\<lambda>_.
       bind_result (ensure (names ! 1 \<noteq> [] \<and> length (names ! 1) \<le> MAX_NAME_LEN) SW_WRONG_SYNTAX) (\<lambda>_.
       bind_result (ensure (names ! 0 \<noteq> names ! 1) SW_WRONG_SYNTAX) (\<lambda>_.
         Inr (names ! 0, names ! 1))))))"

definition cmd_rename :: "'b StorageEnv \<Rightarrow> 'b OathApplet \<Rightarrow> bytes \<Rightarrow> ('b OathApplet, u16, ResponseData) outcome" where
  "cmd_rename env oa data =
     andthen (require_validated env oa) (\<lambda>_ oa.
     attempt (parse_rename data) oa (\<lambda>(current, new_name).
     andthen (state_mut env oa) (\<lambda>s oa.
     attempt (ok_or (btree_get (os_credentials s) current) SW_NO_SUCH_OBJECT) oa (\<lambda>cred.
     check (btree_get (os_credentials s) new_name \<noteq> None) SW_NO_SPACE oa
     (andthen (persist_state env (put_state
                (s\<lparr>os_credentials := btree_insert new_name cred (btree_remove current (os_credentials s))\<rparr>) oa)) (\<lambda>_ oa.
       (oa, Inr (resp_ok []))))))))"

definition remove_code :: "'b StorageEnv \<Rightarrow> 'b OathApplet \<Rightarrow> ('b OathApplet, u16, ResponseData) outcome" where
  "remove_code env oa =
     andthen (state_mut env oa) (\<lambda>s oa.
     andthen (persist_state env ((put_state (s\<lparr>os_access := None, os_pending_challenge := None\<rparr>) oa)\<lparr>oa_validated := False\<rparr>)) (\<lambda>_ oa.
       (oa, Inr (resp_ok []))))"

text \<open>The key, challenge and response of a SET CODE that configures an access key.\<close>

definition parse_set_code :: "RingPrims \<Rightarrow> bytes \<Rightarrow> tlv list \<Rightarrow> (u16, OathAccess) result" where
  "parse_set_code r key tlvs =
     bind_result (ensure (length key \<ge> 2 \<and> length key \<le> 1 + MAX_SECRET_LEN) SW_WRONG_SYNTAX) (\<lambda>_.
     bind_result (ok_or (oath_algorithm_from_wire (key ! 0 AND 0x0F)) SW_WRONG_SYNTAX) (\<lambda>alg.
     bind_result (required_tag tlvs TAG_CHALLENGE) (\<lambda>(challenge, tlvs).
     bind_result (required_tag tlvs TAG_RESPONSE) (\<lambda>(response, tlvs).
     bind_result (require_no_remaining_tlvs tlvs) (\<lambda>_.
     bind_result (ensure (challenge \<noteq> [] \<and> length challenge \<le> MAX_CHALLENGE_LEN) SW_WRONG_SYNTAX) (\<lambda>_.
     bind_result (ensure (length response = digest_len alg) SW_NO_SUCH_OBJECT) (\<lambda>_.
     bind_result (hmac_by_algorithm r alg (drop 1 key) challenge) (\<lambda>expected.
     bind_result (ensure (constant_time_eq expected response) SW_NO_SUCH_OBJECT) (\<lambda>_.
       Inr \<lparr>oac_algorithm = alg, oac_key = drop 1 key\<rparr>)))))))))"

definition configure_code :: "'b StorageEnv \<Rightarrow> 'b OathApplet \<Rightarrow> OathAccess \<Rightarrow> ('b OathApplet, u16, ResponseData) outcome" where
  "configure_code env oa access =
     (let (oa, fresh) = oath_random env oa CHALLENGE_LEN in
      andthen (state_mut env oa) (\<lambda>s oa.
      andthen (persist_state env (put_state (s\<lparr>os_access := Some access, os_pending_challenge := Some fresh\<rparr>) oa)) (\<lambda>_ oa.
        (oa, Inr (resp_ok [])))))"

definition cmd_set_code :: "'b StorageEnv \<Rightarrow> 'b OathApplet \<Rightarrow> bytes \<Rightarrow> ('b OathApplet, u16, ResponseData) outcome" where
  "cmd_set_code env oa data =
     andthen (require_validated env oa) (\<lambda>_ oa.
     attempt (parse_tlvs data) oa (\<lambda>tlvs.
     attempt (required_tag tlvs TAG_KEY) oa (\<lambda>(key, tlvs).
       if key = []
       then attempt (require_no_remaining_tlvs tlvs) oa (\<lambda>_. remove_code env oa)
       else attempt (parse_set_code (ring env) key tlvs) oa (configure_code env oa))))"

definition cmd_reset :: "'b StorageEnv \<Rightarrow> 'b OathApplet \<Rightarrow> u8 \<Rightarrow> u8 \<Rightarrow> ('b OathApplet, u16, ResponseData) outcome" where
  "cmd_reset env oa a b =
     check (a \<noteq> 0xDE \<or> b \<noteq> 0xAD) SW_WRONG_SYNTAX oa
     (let (oa, fresh) = factory_state env oa in
      andthen (persist_state env ((put_state fresh oa)\<lparr>oa_validated := False, oa_remaining := None\<rparr>)) (\<lambda>_ oa.
        (oa, Inr (resp_ok []))))"

definition list_entry :: "bytes \<times> OathCredential \<Rightarrow> tlv" where
  "list_entry e = (let (i, c) = e in (TAG_NAME_LIST, (wire_nibble (oc_type c) OR wire_byte (oc_algorithm c)) # i))"

definition cmd_list :: "'b StorageEnv \<Rightarrow> 'b OathApplet \<Rightarrow> ('b OathApplet, u16, ResponseData) outcome" where
  "cmd_list env oa =
     andthen (require_validated env oa) (\<lambda>_ oa.
     andthen (state_mut env oa) (\<lambda>s oa.
       (oa, Inr (resp_ok (fold (\<lambda>e out. let (t, v) = list_entry e in push_tlv out t v) (os_credentials s) [])))))"

text \<open>The challenge of a calculation and the counter that follows; \<open>raw\<close> is right-aligned in eight bytes.\<close>

definition calculation_challenge :: "OathCredential \<Rightarrow> bytes \<Rightarrow> (u16, bytes \<times> u64 option) result" where
  "calculation_challenge cred challenge =
     (case oc_type cred of
        Totp \<Rightarrow> if challenge = [] then Inl SW_WRONG_SYNTAX else Inr (challenge, None)
      | Hotp \<Rightarrow>
          if challenge = []
          then bind_result (ok_or (checked_add_word (oc_hotp_counter cred) 1) SW_GENERIC_ERROR) (\<lambda>next.
                 Inr (to_be_bytes 8 (oc_hotp_counter cred), Some next))
          else if length challenge > 8 then Inl SW_WRONG_SYNTAX
          else (let raw = copy_into (replicate 8 0) (8 - length challenge) challenge; used = from_be_bytes raw
                in if used < oc_hotp_counter cred then Inl SW_NO_SUCH_OBJECT
                   else Inr (raw, Some (saturating_add_word used 1))))"

definition set_counter :: "bytes \<Rightarrow> u64 \<Rightarrow> OathState \<Rightarrow> OathState" where
  "set_counter name n s =
     (case btree_get (os_credentials s) name of
        Some c \<Rightarrow> s\<lparr>os_credentials := btree_insert name (c\<lparr>oc_hotp_counter := n\<rparr>) (os_credentials s)\<rparr>
      | None \<Rightarrow> s)"

text \<open>The advance of a counter is persisted before the response; if that fails it is taken back in memory.\<close>

definition advance_counter :: "'b StorageEnv \<Rightarrow> 'b OathApplet \<Rightarrow> bytes \<Rightarrow> u64 \<Rightarrow> ('b OathApplet, u16, unit) outcome" where
  "advance_counter env oa name next =
     andthen (state_mut env oa) (\<lambda>s oa.
     attempt (ok_or (btree_get (os_credentials s) name) SW_NO_SUCH_OBJECT) oa (\<lambda>cred.
       case persist_state env (put_state (set_counter name next s) oa) of
         (oa, Inr _) \<Rightarrow> (oa, Inr ())
       | (oa, Inl _) \<Rightarrow>
           (oa\<lparr>oa_state := map_option (set_counter name (oc_hotp_counter cred)) (oa_state oa)\<rparr>, Inl SW_GENERIC_ERROR)))"

definition calculation_tlv :: "bool \<Rightarrow> u8 \<Rightarrow> bytes \<Rightarrow> tlv" where
  "calculation_tlv truncated digits digest =
     (if truncated then (TAG_TRUNCATED_RESPONSE, digits # dynamic_truncate digest) else (TAG_RESPONSE, digits # digest))"

definition parse_calculate :: "bytes \<Rightarrow> (u16, bytes \<times> bytes) result" where
  "parse_calculate data =
     bind_result (parse_tlvs data) (\<lambda>tlvs.
     bind_result (required_tag tlvs TAG_NAME) (\<lambda>(name, tlvs).
     bind_result (required_tag tlvs TAG_CHALLENGE) (\<lambda>(challenge, tlvs).
     bind_result (require_no_remaining_tlvs tlvs) (\<lambda>_.
     bind_result (ensure (length challenge \<le> MAX_CHALLENGE_LEN) SW_WRONG_SYNTAX) (\<lambda>_.
       Inr (name, challenge))))))"

definition cmd_calculate :: "'b StorageEnv \<Rightarrow> 'b OathApplet \<Rightarrow> u8 \<Rightarrow> bytes \<Rightarrow> ('b OathApplet, u16, ResponseData) outcome" where
  "cmd_calculate env oa b data =
     andthen (require_validated env oa) (\<lambda>_ oa.
     check (b > 0x01) SW_WRONG_SYNTAX oa
     (attempt (parse_calculate data) oa (\<lambda>(name, challenge).
      andthen (state_mut env oa) (\<lambda>s oa.
      attempt (ok_or (btree_get (os_credentials s) name) SW_NO_SUCH_OBJECT) oa (\<lambda>cred.
      attempt (calculation_challenge cred challenge) oa (\<lambda>(challenge_bytes, next_counter).
      attempt (hmac_by_algorithm (ring env) (oc_algorithm cred) (oc_secret cred) challenge_bytes) oa (\<lambda>digest.
      andthen (case next_counter of Some next \<Rightarrow> advance_counter env oa name next | None \<Rightarrow> (oa, Inr ())) (\<lambda>_ oa.
        let (t, v) = calculation_tlv (b = 0x01) (oc_digits cred) digest
        in (oa, Inr (resp_ok (push_tlv_owned t v)))))))))))"

fun calculate_entries ::
  "RingPrims \<Rightarrow> bool \<Rightarrow> bytes \<Rightarrow> (bytes \<times> OathCredential) list \<Rightarrow> bytes \<Rightarrow> (u16, bytes) result" where
  "calculate_entries r truncated challenge [] out = Inr out"
| "calculate_entries r truncated challenge ((i, c) # es) out =
     (let out = push_tlv out TAG_NAME i in
      case oc_type c of
        Hotp \<Rightarrow> calculate_entries r truncated challenge es (push_tlv out TAG_NO_RESPONSE [])
      | Totp \<Rightarrow>
          if oc_touch_required c then calculate_entries r truncated challenge es (push_tlv out TAG_TOUCH_RESPONSE [])
          else bind_result (hmac_by_algorithm r (oc_algorithm c) (oc_secret c) challenge) (\<lambda>digest.
                 let (t, v) = calculation_tlv truncated (oc_digits c) digest
                 in calculate_entries r truncated challenge es (push_tlv out t v)))"

definition cmd_calculate_all :: "'b StorageEnv \<Rightarrow> 'b OathApplet \<Rightarrow> u8 \<Rightarrow> bytes \<Rightarrow> ('b OathApplet, u16, ResponseData) outcome" where
  "cmd_calculate_all env oa b data =
     andthen (require_validated env oa) (\<lambda>_ oa.
     check (b > 0x01) SW_WRONG_SYNTAX oa
     (attempt (parse_tlvs data) oa (\<lambda>tlvs.
      attempt (required_tag tlvs TAG_CHALLENGE) oa (\<lambda>(challenge, tlvs).
      attempt (require_no_remaining_tlvs tlvs) oa (\<lambda>_.
      check (challenge = [] \<or> length challenge > MAX_CHALLENGE_LEN) SW_WRONG_SYNTAX oa
      (andthen (state_mut env oa) (\<lambda>s oa.
       attempt (calculate_entries (ring env) (b = 0x01) challenge (os_credentials s) []) oa (\<lambda>out.
         (oa, Inr (resp_ok out))))))))))"

definition cmd_validate :: "'b StorageEnv \<Rightarrow> 'b OathApplet \<Rightarrow> bytes \<Rightarrow> ('b OathApplet, u16, ResponseData) outcome" where
  "cmd_validate env oa data =
     andthen (state_mut env oa) (\<lambda>s oa.
     attempt (case (os_access s, os_pending_challenge s) of
                (Some access, Some pending) \<Rightarrow> Inr (access, pending) | _ \<Rightarrow> Inl SW_NO_SUCH_OBJECT) oa (\<lambda>(access, pending).
     attempt (parse_tlvs data) oa (\<lambda>tlvs.
     attempt (required_tag tlvs TAG_RESPONSE) oa (\<lambda>(response, tlvs).
     attempt (required_tag tlvs TAG_CHALLENGE) oa (\<lambda>(challenge, tlvs).
     attempt (require_no_remaining_tlvs tlvs) oa (\<lambda>_.
     check (challenge = [] \<or> length challenge > MAX_CHALLENGE_LEN) SW_WRONG_SYNTAX oa
     (attempt (hmac_by_algorithm (ring env) (oac_algorithm access) (oac_key access) pending) oa (\<lambda>expected.
      check (length expected \<noteq> length response \<or> \<not> constant_time_eq expected response) SW_NO_SUCH_OBJECT oa
      (andthen (state_mut env oa) (\<lambda>s oa.
       andthen (persist_state env (put_state (s\<lparr>os_pending_challenge := Some challenge\<rparr>) oa)) (\<lambda>_ oa.
         let oa = oa\<lparr>oa_validated := True\<rparr> in
         attempt (hmac_by_algorithm (ring env) (oac_algorithm access) (oac_key access)
                    (the (os_pending_challenge (the (oa_state oa))))) oa (\<lambda>proof_bytes.
           (oa, Inr (resp_ok (push_tlv [] TAG_RESPONSE proof_bytes)))))))))))))))"

definition dispatch :: "'b StorageEnv \<Rightarrow> 'b OathApplet \<Rightarrow> Apdu \<Rightarrow> ('b OathApplet, u16, ResponseData) outcome" where
  "dispatch env oa apdu =
     (if ins apdu = INS_PUT then cmd_put env oa (apdu_data apdu)
      else if ins apdu = INS_DELETE then cmd_delete env oa (apdu_data apdu)
      else if ins apdu = INS_SET_CODE then cmd_set_code env oa (apdu_data apdu)
      else if ins apdu = INS_RESET then cmd_reset env oa (p1 apdu) (p2 apdu)
      else if ins apdu = INS_RENAME then cmd_rename env oa (apdu_data apdu)
      else if ins apdu = INS_LIST then cmd_list env oa
      else if ins apdu = INS_CALCULATE then cmd_calculate env oa (p2 apdu) (apdu_data apdu)
      else if ins apdu = INS_VALIDATE then cmd_validate env oa (apdu_data apdu)
      else if ins apdu = INS_CALCULATE_ALL then cmd_calculate_all env oa (p2 apdu) (apdu_data apdu)
      else (oa, Inl SW_INS_NOT_SUPPORTED))"

subsection \<open>The trait Applet\<close>

definition oath_select :: "'b StorageEnv \<Rightarrow> 'b OathApplet \<Rightarrow> ('b OathApplet, u16, unit) outcome" where
  "oath_select env oa =
     andthen (ensure_loaded env (oa\<lparr>oa_validated := False\<rparr>)) (\<lambda>_ oa. rotate_challenge_for_select env oa)"

definition oath_select_response :: "'b StorageEnv \<Rightarrow> 'b OathApplet \<Rightarrow> 'b OathApplet \<times> bytes" where
  "oath_select_response env oa =
     (case state_mut env oa of
        (oa, Inl _) \<Rightarrow> (oa, [])
      | (oa, Inr s) \<Rightarrow>
          (oa, (let out = push_tlv [] TAG_VERSION REPORTED_VERSION; out = push_tlv out TAG_NAME (os_salt s)
               in case (os_access s, os_pending_challenge s) of
                    (Some access, Some challenge) \<Rightarrow>
                      push_tlv (push_tlv out TAG_CHALLENGE challenge) TAG_ALGORITHM [wire_byte (oac_algorithm access)]
                  | _ \<Rightarrow> out)))"

definition oath_process :: "'b StorageEnv \<Rightarrow> 'b OathApplet \<Rightarrow> Apdu \<Rightarrow> ('b OathApplet, u16, ResponseData) outcome" where
  "oath_process env oa apdu =
     (if cla apdu \<noteq> 0 then (oa, Inl SW_CLASS_NOT_SUPPORTED)
      else if ins apdu = INS_SEND_REMAINING then cmd_send_remaining env oa apdu
      else case dispatch env oa apdu of
             (oa, Inr response) \<Rightarrow>
               (oa\<lparr>oa_remaining :=
                    (if resp_data response = [] then None
                     else Some (resp_data response,
                                min (case le apdu of Some n \<Rightarrow> n | None \<Rightarrow> 0) (length (resp_data response))))\<rparr>,
                Inr response)
           | (oa, Inl sw) \<Rightarrow> (oa\<lparr>oa_remaining := None\<rparr>, Inl sw))"

definition oath_applet :: "'b StorageEnv \<Rightarrow> 'b OathApplet AppletOps" where
  "oath_applet env =
     \<lparr>ap_aid = (\<lambda>_. AID_YUBICO_OATH), ap_select = oath_select env, ap_select_response = oath_select_response env,
      ap_process = oath_process env\<rparr>"

end
