(* ===== verification/Oath_Safety.thy ===== *)
theory Oath_Safety
  imports Oath Kv_Contract
begin

section \<open>Safety of the OATH applet\<close>

text \<open>
  What a user of the applet relies on: after every command that does not report an internal error the storage holds
  the state in memory, so that a restart loses nothing; a locked applet gives nothing away and changes nothing
  until the right response to its challenge arrives; the counters of HOTP credentials only grow, so that no code
  is issued twice; a truncated code is the one of RFC 4226; a long response arrives completely.
\<close>

subsection \<open>Persistence\<close>

definition oath_state_ok :: "('b StorageEngine \<Rightarrow> bool) \<Rightarrow> 'b OathApplet \<Rightarrow> bool" where
  "oath_state_ok good oa = (good (oa_storage oa) \<and> (\<forall>s. oa_state oa = Some s \<longrightarrow> oath_wf s))"

text \<open>The storage holds what is in memory.\<close>

definition oath_synced :: "'b StorageEnv \<Rightarrow> ('b StorageEngine \<Rightarrow> bool) \<Rightarrow> 'b OathApplet \<Rightarrow> bool" where
  "oath_synced env good oa =
     (oath_state_ok good oa \<and> (\<forall>s. oa_state oa = Some s \<longrightarrow> load_stored env oa = Some s))"

text \<open>The library behaves as documented and the applet is synchronised.\<close>

definition oath_inv :: "'b StorageEnv \<Rightarrow> ('b StorageEngine \<Rightarrow> bool) \<Rightarrow> 'b OathApplet \<Rightarrow> bool" where
  "oath_inv env good oa = (sealing_ring (ring env) \<and> oath_synced env good oa)"

text \<open>A run ends in a good state, and synchronised unless it reports the generic error.\<close>

definition oath_keeps :: "'b StorageEnv \<Rightarrow> ('b StorageEngine \<Rightarrow> bool) \<Rightarrow> ('b OathApplet, u16, 'a) outcome \<Rightarrow> bool" where
  "oath_keeps env good r =
     (oath_state_ok good (fst r) \<and> (snd r \<noteq> Inl SW_GENERIC_ERROR \<longrightarrow> oath_inv env good (fst r)))"

named_theorems oath_steps "rules that carry the synchronisation through a run"

lemma load_stored_bind:
  "load_stored env oa = Option.bind (ok (retrieve env (oa_storage oa) OATH_STORAGE_KEY)) (open_blob (ring env) (oa_crypto oa))"
  by (simp add: load_stored_def ok_def split: sum.split)

lemma load_stored_wf: "load_stored env oa = Some s \<Longrightarrow> oath_wf s"
  by (auto simp: load_stored_bind bind_eq_Some_conv open_blob_def split: if_splits sum.splits intro: parse_state_wf)

lemma load_stored_cong:
  "oa_storage b = oa_storage a \<Longrightarrow> oa_crypto b = oa_crypto a \<Longrightarrow> load_stored env b = load_stored env a"
  by (simp add: load_stored_bind)

lemma persist_state_cases:
  "persist_state env oa =
     (case oa_state oa of
        None \<Rightarrow> (oa, Inl SW_GENERIC_ERROR)
      | Some s \<Rightarrow>
          (let n = random_bytes (ring env) (oa_draws oa) 12; oa' = oa\<lparr>oa_draws := oa_draws oa + 1\<rparr>
           in case engine_encrypt (ring env) (oa_crypto oa) (serialize_state s) n of
                Inl _ \<Rightarrow> (oa', Inl SW_GENERIC_ERROR)
              | Inr c \<Rightarrow> (oa'\<lparr>oa_storage := fst (store env (oa_storage oa) OATH_STORAGE_KEY (n @ c))\<rparr>,
                         map_err (\<lambda>_. SW_GENERIC_ERROR) (snd (store env (oa_storage oa) OATH_STORAGE_KEY (n @ c))))))"
  by (simp add: persist_state_def encrypt_with_random_nonce_def Let_def split_beta split: option.split sum.split)

lemma load_stored_fields [simp]:
  "load_stored env (oa\<lparr>oa_validated := v\<rparr>) = load_stored env oa" "load_stored env (oa\<lparr>oa_remaining := m\<rparr>) = load_stored env oa"
  "load_stored env (oa\<lparr>oa_draws := n\<rparr>) = load_stored env oa" "load_stored env (oa\<lparr>oa_state := st\<rparr>) = load_stored env oa"
  by (rule load_stored_cong; simp)+

lemma oath_inv_fields [simp]:
  "oath_inv env good (oa\<lparr>oa_validated := v\<rparr>) = oath_inv env good oa"
  "oath_inv env good (oa\<lparr>oa_remaining := m\<rparr>) = oath_inv env good oa"
  "oath_inv env good (oa\<lparr>oa_draws := n\<rparr>) = oath_inv env good oa"
  by (simp_all add: oath_inv_def oath_synced_def oath_state_ok_def)

lemma oath_state_ok_fields [simp]:
  "oath_state_ok good (oa\<lparr>oa_validated := v\<rparr>) = oath_state_ok good oa"
  "oath_state_ok good (oa\<lparr>oa_remaining := m\<rparr>) = oath_state_ok good oa"
  "oath_state_ok good (oa\<lparr>oa_draws := n\<rparr>) = oath_state_ok good oa"
  by (simp_all add: oath_state_ok_def)

lemma oath_inv_wf: "oath_inv env good oa \<Longrightarrow> oa_state oa = Some s \<Longrightarrow> oath_wf s"
  by (simp add: oath_inv_def oath_synced_def oath_state_ok_def)

lemma oath_inv_state: "oath_inv env good oa \<Longrightarrow> oath_state_ok good oa"
  by (simp add: oath_inv_def oath_synced_def)

lemma oath_keeps_same [oath_steps]: "oath_inv env good oa \<Longrightarrow> oath_keeps env good (oa, r)"
  by (simp add: oath_keeps_def oath_inv_def oath_synced_def)

lemma oath_keeps_attempt [oath_steps]:
  "oath_inv env good oa \<Longrightarrow> (\<And>x. r = Inr x \<Longrightarrow> oath_keeps env good (f x)) \<Longrightarrow> oath_keeps env good (attempt r oa f)"
  by (cases r) (simp_all add: oath_keeps_same)

lemma oath_keeps_check [oath_steps]:
  "oath_inv env good oa \<Longrightarrow> (\<not> c \<Longrightarrow> oath_keeps env good k) \<Longrightarrow> oath_keeps env good (check c e oa k)"
  by (cases c) (simp_all add: oath_keeps_same)

lemma oath_keeps_andthen [oath_steps]:
  assumes "oath_keeps env good r" "\<And>x oa. r = (oa, Inr x) \<Longrightarrow> oath_inv env good oa \<Longrightarrow> oath_keeps env good (f x oa)"
  shows "oath_keeps env good (andthen r f)"
proof (cases r)
  case (Pair oa q)
  then show ?thesis using assms by (cases q) (simp_all add: oath_keeps_def)
qed

lemma oath_keeps_prod [oath_steps]:
  "(\<And>x y. p = (x, y) \<Longrightarrow> oath_keeps env good (f x y)) \<Longrightarrow> oath_keeps env good (case p of (x, y) \<Rightarrow> f x y)"
  by (cases p) simp

locale oath_device = kv_ops "store env" "retrieve env" "kv_delete env" good
  for env :: "'b StorageEnv" and good :: "'b StorageEngine \<Rightarrow> bool"
begin

lemma persist_ok:
  assumes "good (oa_storage oa)" "oath_wf s" "oa_state oa = Some s" "persist_state env oa = (oa', Inr u)" "sealing_ring (ring env)"
  shows "oath_inv env good oa' \<and> oa_state oa' = Some s"
proof -
  have aead: "aead_correct (ring env)" and seal_length: "aead_length (ring env)" and rng: "rng_correct (ring env)"
    using assms(5) by (simp_all add: sealing_ring_def)
  let ?n = "random_bytes (ring env) (oa_draws oa) 12"
  obtain c where c: "engine_encrypt (ring env) (oa_crypto oa) (serialize_state s) ?n = Inr c"
    and st: "store env (oa_storage oa) OATH_STORAGE_KEY (?n @ c) = (oa_storage oa', Inr ())"
    and f: "oa_crypto oa' = oa_crypto oa" "oa_state oa' = Some s"
    using assms(3,4)
    by (auto simp: persist_state_cases Let_def map_err_ok prod_eq_iff split: sum.splits)
  have n: "length ?n = 12" by (rule length_random_bytes [OF rng])
  have "length (serialize_state s) \<le> length c"
    using c seal_length by (auto simp: engine_encrypt_def aead_length_def split: if_splits option.splits)
  then have "c \<noteq> []" by (auto simp: serialize_state_def)
  moreover have "ok (retrieve env (oa_storage oa') OATH_STORAGE_KEY) = Some (?n @ c)"
    using put_get [OF assms(1) st, of OATH_STORAGE_KEY] by simp
  moreover have "engine_decrypt (ring env) (oa_crypto oa') c ?n = Inr (serialize_state s)"
    using engine_decrypt_encrypt [OF aead c] f by simp
  ultimately have "load_stored env oa' = Some s"
    using n parse_serialize_state [OF assms(2)] by (simp add: load_stored_bind open_blob_def)
  moreover have "good (oa_storage oa')" using put_good [OF assms(1)] st by (metis fst_conv)
  ultimately show ?thesis using f assms(2,5) by (simp add: oath_inv_def oath_synced_def oath_state_ok_def)
qed

lemma persist_fail:
  assumes "good (oa_storage oa)" "persist_state env oa = (oa', Inl e)"
  shows "e = SW_GENERIC_ERROR \<and> good (oa_storage oa') \<and> oa_state oa' = oa_state oa \<and> load_stored env oa' = load_stored env oa"
proof -
  let ?n = "random_bytes (ring env) (oa_draws oa) 12"
  let ?st = "\<lambda>c. store env (oa_storage oa) OATH_STORAGE_KEY (?n @ c)"
  have same: "load_stored env b = load_stored env oa"
    if "snd (?st c) = Inl e" "oa_storage b = fst (?st c)" "oa_crypto b = oa_crypto oa" for b c e
    using put_fail [OF assms(1), of OATH_STORAGE_KEY "?n @ c" "fst (?st c)" e OATH_STORAGE_KEY] that
    by (simp add: load_stored_bind prod_eq_iff)
  show ?thesis
  proof (cases "oa_state oa")
    case None
    then show ?thesis using assms by (auto simp: persist_state_cases)
  next
    case (Some s)
    show ?thesis
    proof (cases "engine_encrypt (ring env) (oa_crypto oa) (serialize_state s) ?n")
      case (Inl m)
      then show ?thesis using assms Some by (auto simp: persist_state_cases)
    next
      case (Inr c)
      then have oa': "oa' = oa\<lparr>oa_draws := oa_draws oa + 1, oa_storage := fst (?st c)\<rparr>"
        and r: "map_err (\<lambda>_. SW_GENERIC_ERROR) (snd (?st c)) = Inl e"
        using assms(2) Some by (auto simp: persist_state_cases Let_def)
      from r obtain m where "snd (?st c) = Inl m" "e = SW_GENERIC_ERROR" by (cases "snd (?st c)") simp_all
      then show ?thesis using same [of c m oa'] put_good [OF assms(1)] oa' by simp
    qed
  qed
qed

lemma keeps_persist [oath_steps]:
  assumes "oath_inv env good oa" "oath_wf s"
  shows "oath_keeps env good (persist_state env (put_state s oa))"
proof -
  have good: "good (oa_storage (put_state s oa))" "oa_state (put_state s oa) = Some s" and lib: "sealing_ring (ring env)"
    using assms(1) by (simp_all add: oath_inv_def oath_synced_def oath_state_ok_def put_state_def)
  show ?thesis
  proof (cases "persist_state env (put_state s oa)")
    case (Pair oa' r)
    show ?thesis
    proof (cases r)
      case (Inl e)
      then show ?thesis using persist_fail [OF good(1)] Pair good(2) assms(2) by (auto simp: oath_keeps_def oath_state_ok_def)
    next
      case (Inr u)
      then show ?thesis using persist_ok [OF good(1) assms(2) good(2) _ lib] Pair by (auto simp: oath_keeps_def oath_inv_def oath_synced_def)
    qed
  qed
qed

lemma factory_wf: "sealing_ring (ring env) \<Longrightarrow> oath_wf (snd (factory_state env oa))"
proof -
  assume "sealing_ring (ring env)"
  then have rng: "rng_correct (ring env)" by (simp add: sealing_ring_def)
  have "length (random_bytes (ring env) (oa_draws oa) OATH_SALT_LEN) = OATH_SALT_LEN" by (rule length_random_bytes [OF rng])
  then show ?thesis
    by (auto simp: factory_state_def oath_random_def oath_wf_def access_wf_def OATH_SALT_LEN_def MAX_CREDENTIALS_def)
qed

lemma keeps_ensure_loaded [oath_steps]:
  assumes "oath_inv env good oa"
  shows "oath_keeps env good (ensure_loaded env oa)"
proof (cases "oa_state oa")
  case None
  show ?thesis
  proof (cases "load_stored env oa")
    case None
    let ?f = "factory_state env oa"
    have "oath_inv env good (fst ?f)" using assms by (simp add: factory_state_def oath_random_def)
    from keeps_persist [OF this factory_wf [of oa]] show ?thesis
      using assms None \<open>oa_state oa = None\<close> by (simp add: ensure_loaded_def split_beta put_state_def oath_inv_def)
  next
    case (Some s)
    then have "oath_wf s" by (rule load_stored_wf)
    then show ?thesis
      using Some \<open>oa_state oa = None\<close> assms by (simp add: ensure_loaded_def oath_keeps_def oath_inv_def oath_synced_def oath_state_ok_def)
  qed
qed (use assms in \<open>simp add: ensure_loaded_def oath_keeps_same\<close>)

lemma ensure_loaded_ok: "ensure_loaded env oa = (oa', Inr u) \<Longrightarrow> oa_state oa' \<noteq> None"
  by (auto simp: ensure_loaded_def persist_state_cases factory_state_def Let_def split_beta
      split: if_splits option.splits sum.splits)

lemma keeps_state_mut [oath_steps]: "oath_inv env good oa \<Longrightarrow> oath_keeps env good (state_mut env oa)"
  unfolding state_mut_def by (intro oath_steps)

lemma state_mut_ok: "state_mut env oa = (oa', Inr s) \<Longrightarrow> oa_state oa' = Some s"
  by (auto simp: state_mut_def effect_ok dest: ensure_loaded_ok)

lemma state_mut_wf: "oath_inv env good oa' \<Longrightarrow> state_mut env oa = (oa', Inr s) \<Longrightarrow> oath_wf s"
  by (blast intro: oath_inv_wf state_mut_ok)

lemma keeps_require_validated [oath_steps]: "oath_inv env good oa \<Longrightarrow> oath_keeps env good (require_validated env oa)"
  unfolding require_validated_def by (intro oath_steps)

end

lemma put_state_fields:
  "(put_state s oa)\<lparr>oa_validated := v\<rparr> = put_state s (oa\<lparr>oa_validated := v\<rparr>)"
  "(put_state s oa)\<lparr>oa_remaining := m\<rparr> = put_state s (oa\<lparr>oa_remaining := m\<rparr>)"
  by (simp_all add: put_state_def)

text \<open>What the parsers of the commands accept keeps the state well-formed.\<close>

lemma ensure_ok [simp]: "ensure b sw = Inr u \<longleftrightarrow> b"
  by (auto simp: ensure_def)

lemma parse_put_wf: "parse_put data = Inr e \<Longrightarrow> credential_wf e"
  by (auto simp: parse_put_def bind_result_ok credential_wf_def)

lemma oath_wf_insert:
  assumes "oath_wf s" "credential_wf (i, c)" "btree_get (os_credentials s) i \<noteq> None \<or> length (os_credentials s) < MAX_CREDENTIALS"
  shows "oath_wf (s\<lparr>os_credentials := btree_insert i c (os_credentials s)\<rparr>)"
  using assms set_btree_insert [of i c "os_credentials s"]
  by (auto simp: oath_wf_def access_wf_def length_btree_insert cong: option.case_cong)

lemma oath_wf_remove: "oath_wf s \<Longrightarrow> oath_wf (s\<lparr>os_credentials := btree_remove i (os_credentials s)\<rparr>)"
  by (auto simp: oath_wf_def access_wf_def btree_remove_def btree_wf_remove [unfolded btree_remove_def] intro: le_trans [OF length_filter_le] cong: option.case_cong)

lemma oath_wf_credential: "oath_wf s \<Longrightarrow> btree_get (os_credentials s) i = Some c \<Longrightarrow> credential_wf (i, c)"
  by (auto simp: oath_wf_def btree_get_in_set)

lemma oath_wf_set_counter:
  assumes "oath_wf s"
  shows "oath_wf (set_counter i n s)"
proof (cases "btree_get (os_credentials s) i")
  case (Some c)
  have "credential_wf (i, c\<lparr>oc_hotp_counter := n\<rparr>)" using oath_wf_credential [OF assms Some] by (simp add: credential_wf_def)
  then show ?thesis using oath_wf_insert [OF assms] Some by (simp add: set_counter_def)
qed (simp add: set_counter_def assms)

context oath_device
begin

lemma keeps_put: "oath_inv env good oa \<Longrightarrow> oath_keeps env good (cmd_put env oa data)"
  unfolding cmd_put_def
  by (intro oath_steps oath_wf_insert; (assumption | erule (1) state_mut_wf | (drule parse_put_wf; simp))?) force

lemma keeps_delete: "oath_inv env good oa \<Longrightarrow> oath_keeps env good (cmd_delete env oa data)"
  unfolding cmd_delete_def
  by (intro oath_steps oath_wf_remove; (assumption | erule (1) state_mut_wf)?)

lemma rename_wf:
  assumes "oath_wf s" "parse_rename data = Inr (i, j)" "btree_get (os_credentials s) i = Some c"
  shows "oath_wf (s\<lparr>os_credentials := btree_insert j c (btree_remove i (os_credentials s))\<rparr>)"
proof -
  have "credential_wf (j, c)"
    using assms(2) oath_wf_credential [OF assms(1,3)] by (auto simp: parse_rename_def bind_result_ok Let_def credential_wf_def)
  moreover have "length (btree_remove i (os_credentials s)) < MAX_CREDENTIALS"
  proof -
    have "length (os_credentials s) > 0" using assms(3) by (cases "os_credentials s") auto
    then show ?thesis using assms(1,3) by (auto simp: oath_wf_def length_btree_remove MAX_CREDENTIALS_def)
  qed
  ultimately show ?thesis
    using oath_wf_insert [OF oath_wf_remove [OF assms(1), of i], of j c] by simp
qed

lemma keeps_rename: "oath_inv env good oa \<Longrightarrow> oath_keeps env good (cmd_rename env oa data)"
  unfolding cmd_rename_def
  by (intro oath_steps; (assumption | (simp add: ok_or_ok, erule (2) rename_wf [OF state_mut_wf]))?)

lemma oath_inv_random:
  "oath_random env oa n = (oa', x) \<Longrightarrow> oath_inv env good oa \<Longrightarrow> oath_inv env good oa' \<and> length x = n"
  using length_random_bytes [of "ring env"] by (auto simp: oath_random_def) (simp add: oath_inv_def sealing_ring_def)

lemma keeps_remove_code: "oath_inv env good oa \<Longrightarrow> oath_keeps env good (remove_code env oa)"
proof -
  have wf: "oath_wf (s\<lparr>os_access := None, os_pending_challenge := None\<rparr>)" if "oath_wf s" for s
    using that by (simp add: oath_wf_def access_wf_def)
  show "oath_inv env good oa \<Longrightarrow> oath_keeps env good (remove_code env oa)"
    unfolding remove_code_def put_state_fields
    by (intro oath_steps wf; (assumption | simp | erule (1) state_mut_wf))
qed

lemma keeps_configure_code:
  assumes "oath_inv env good oa" "parse_set_code (ring env) key tlvs = Inr access"
  shows "oath_keeps env good (configure_code env oa access)"
proof -
  have wf: "oath_wf (s\<lparr>os_access := Some access, os_pending_challenge := Some fresh\<rparr>)"
    if "oath_wf s" "length fresh = CHALLENGE_LEN" for s fresh
    using assms(2) that
    by (auto simp: oath_wf_def access_wf_def challenge_wf_def parse_set_code_def bind_result_ok CHALLENGE_LEN_def MAX_SECRET_LEN_def)
  show ?thesis
    unfolding configure_code_def Let_def
    by (intro oath_steps wf; (drule oath_inv_random [OF _ assms(1)]; simp | erule (1) state_mut_wf)?)
qed

lemma keeps_set_code: "oath_inv env good oa \<Longrightarrow> oath_keeps env good (cmd_set_code env oa data)"
  unfolding cmd_set_code_def
  by (intro oath_steps; (assumption)?)
     (auto intro!: oath_keeps_attempt keeps_remove_code keeps_configure_code)

lemma keeps_reset: "oath_inv env good oa \<Longrightarrow> oath_keeps env good (cmd_reset env oa a b)"
  using factory_wf [of oa] unfolding cmd_reset_def put_state_fields
  by (auto intro!: oath_steps simp: factory_state_def oath_random_def oath_inv_def [of env good oa])

lemma keeps_list: "oath_inv env good oa \<Longrightarrow> oath_keeps env good (cmd_list env oa)"
  unfolding cmd_list_def by (intro oath_steps)

lemma keeps_calculate_all: "oath_inv env good oa \<Longrightarrow> oath_keeps env good (cmd_calculate_all env oa b data)"
  unfolding cmd_calculate_all_def by (intro oath_steps)

lemma keeps_send_remaining: "oath_inv env good oa \<Longrightarrow> oath_keeps env good (cmd_send_remaining env oa apdu)"
  unfolding cmd_send_remaining_def by (auto intro!: oath_steps simp: Let_def split: option.splits)

lemma keeps_validate: "oath_inv env good oa \<Longrightarrow> oath_keeps env good (cmd_validate env oa data)"
proof -
  have wf: "oath_wf (s\<lparr>os_pending_challenge := Some c\<rparr>)" if "oath_wf s" "os_access s \<noteq> None" "c \<noteq> []" "length c \<le> MAX_CHALLENGE_LEN" for s c
    using that by (auto simp: oath_wf_def access_wf_def challenge_wf_def MAX_CHALLENGE_LEN_def)
  have same: "s' = s" if "state_mut env oa = (oa1, Inr s)" "state_mut env oa1 = (oa2, Inr s')" for oa oa1 oa2 s s'
    using state_mut_ok [OF that(1)] that(2) by (auto simp: state_mut_def ensure_loaded_def)
  assume "oath_inv env good oa"
  then show ?thesis
    unfolding cmd_validate_def Let_def
    by (intro oath_steps; (simp; fail)?)
       (auto intro!: wf dest: same state_mut_wf split: option.splits)
qed

lemma keeps_advance_counter:
  assumes "oath_inv env good oa"
  shows "oath_keeps env good (advance_counter env oa name n)"
proof -
  have step: "oath_keeps env good
      (case persist_state env (put_state (set_counter name n s) oa) of
         (oa, Inr _) \<Rightarrow> (oa, Inr ())
       | (oa, Inl _) \<Rightarrow> (oa\<lparr>oa_state := map_option (set_counter name k) (oa_state oa)\<rparr>, Inl SW_GENERIC_ERROR))"
    if "oath_inv env good oa" "oath_wf s" for oa s k
    using keeps_persist [OF that(1) oath_wf_set_counter [OF that(2)], of name n]
    by (auto simp: oath_keeps_def oath_state_ok_def oath_wf_set_counter split: prod.splits sum.splits)
  show ?thesis
    unfolding advance_counter_def
    by (rule oath_keeps_andthen [OF keeps_state_mut [OF assms]], rule oath_keeps_attempt)
       (auto intro: step state_mut_wf)
qed

lemma keeps_calculate: "oath_inv env good oa \<Longrightarrow> oath_keeps env good (cmd_calculate env oa b data)"
  unfolding cmd_calculate_def Let_def
  by (intro oath_steps; (assumption)?) (auto intro: keeps_advance_counter oath_keeps_same split: option.split)

lemma keeps_dispatch: "oath_inv env good oa \<Longrightarrow> oath_keeps env good (dispatch env oa apdu)"
  by (simp add: dispatch_def keeps_put keeps_delete keeps_set_code keeps_reset keeps_rename keeps_list keeps_calculate
      keeps_validate keeps_calculate_all oath_keeps_same)

lemma keeps_process: "oath_inv env good oa \<Longrightarrow> oath_keeps env good (oath_process env oa apdu)"
proof -
  assume synced: "oath_inv env good oa"
  obtain oa' r where d: "dispatch env oa apdu = (oa', r)" by fastforce
  show ?thesis
    using keeps_dispatch [OF synced, of apdu] keeps_send_remaining [OF synced, of apdu] synced
    by (cases r) (auto simp: oath_process_def d oath_keeps_def [of env good "(_, _)"] oath_inv_state)
qed

lemma keeps_select: "oath_inv env good oa \<Longrightarrow> oath_keeps env good (oath_select env oa)"
proof -
  have wf: "oath_wf (s\<lparr>os_pending_challenge := Some c\<rparr>)" if "oath_wf s" "os_access s \<noteq> None" "length c = CHALLENGE_LEN" for s c
    using that by (auto simp: oath_wf_def access_wf_def challenge_wf_def CHALLENGE_LEN_def)
  have lk: "os_access s \<noteq> None" if "locked oa" "oath_random env oa k = (oa1, x)" "state_mut env oa1 = (oa2, Inr s)" for oa oa1 oa2 k x s
    using that by (auto simp: locked_def oath_random_def state_mut_def ensure_loaded_def split: option.splits)
  have rot: "oath_keeps env good (rotate_challenge_for_select env oa)" if "oath_inv env good oa" for oa
  proof (cases "locked oa")
    case True
    obtain oa1 x where r: "oath_random env oa CHALLENGE_LEN = (oa1, x)" by fastforce
    note r' = oath_inv_random [OF r that]
    have "oath_keeps env good (andthen (state_mut env oa1) (\<lambda>s oa. persist_state env (put_state (s\<lparr>os_pending_challenge := Some x\<rparr>) oa)))"
      using r' by (intro oath_keeps_andthen keeps_state_mut keeps_persist wf) (auto intro: state_mut_wf dest: lk [OF True r])
    then show ?thesis by (simp add: rotate_challenge_for_select_def True r)
  qed (use that in \<open>simp add: rotate_challenge_for_select_def oath_keeps_same\<close>)
  assume "oath_inv env good oa"
  then show ?thesis unfolding oath_select_def by (intro oath_steps rot) simp_all
qed

lemma keeps_select_response: "oath_inv env good oa \<Longrightarrow> oath_state_ok good (fst (oath_select_response env oa))"
  using keeps_state_mut [of oa] by (auto simp: oath_select_response_def oath_keeps_def split: prod.splits sum.splits)

end

text \<open>Every backend of the storage engine serves the applet.\<close>

interpretation flash_oath: oath_device
    "\<lparr>ops = flash_backend dev codec, cred_codec = cc, hex_encode = hx, ring = r\<rparr>" "engine_ok (\<lambda>b. btree_wf (fs_cache b))"
  for dev codec cc hx r
  by (rule oath_device.intro) (rule flash_kv.kv_ops_axioms)

interpretation file_oath: oath_device
    "\<lparr>ops = file_backend json, cred_codec = cc, hex_encode = hx, ring = r\<rparr>" "engine_ok (file_ready json)"
  for json cc hx r
  by (rule oath_device.intro) (rule file_kv.kv_ops_axioms)

lemma memory_oath_device: "oath_device env (\<lambda>se. backend se = None)"
  by (rule oath_device.intro) (rule reliable_kv.axioms(1) [OF memory_kv_ops])

interpretation memory_oath: oath_device env "\<lambda>se. backend se = None" for env
  by (rule memory_oath_device)

text \<open>A session: selections, commands and power cycles, with the status words of the errors.\<close>

datatype OathEvent = Ev_Select | Ev_Command Apdu | Ev_PowerCycle

definition oath_restart :: "'b StorageEnv \<Rightarrow> 'b OathApplet \<Rightarrow> 'b OathApplet" where
  "oath_restart env oa = fst (oath_new env (oa_storage oa) (oa_crypto oa) (oa_draws oa))"

fun oath_event :: "'b StorageEnv \<Rightarrow> 'b OathApplet \<Rightarrow> OathEvent \<Rightarrow> ('b OathApplet, u16, unit) outcome" where
  "oath_event env oa Ev_Select = oath_select env oa"
| "oath_event env oa (Ev_Command apdu) = andthen (oath_process env oa apdu) (\<lambda>_ oa. (oa, Inr ()))"
| "oath_event env oa Ev_PowerCycle = (oath_restart env oa, Inr ())"

fun oath_session :: "'b StorageEnv \<Rightarrow> 'b OathApplet \<Rightarrow> OathEvent list \<Rightarrow> 'b OathApplet \<times> (u16, unit) result list" where
  "oath_session env oa [] = (oa, [])"
| "oath_session env oa (ev # evs) =
     (let (oa, r) = oath_event env oa ev; (oa, rs) = oath_session env oa evs in (oa, r # rs))"

lemma locked_require: "locked oa \<Longrightarrow> \<not> oa_validated oa \<Longrightarrow> require_validated env oa = (oa, Inl SW_SECURITY_STATUS)"
  by (auto simp: locked_def require_validated_def ensure_loaded_def split: option.splits)

lemma restart_restores:
  assumes "oath_synced env good oa" "oa_state oa = Some s"
  shows "oath_restart env oa = oa\<lparr>oa_state := Some s, oa_validated := False, oa_remaining := None\<rparr>"
proof -
  have "load_stored env oa = Some s" using assms by (simp add: oath_synced_def)
  then show ?thesis by (simp add: oath_restart_def oath_new_def ensure_loaded_def load_stored_bind)
qed

text \<open>Once loaded, a state stays in memory.\<close>

definition stays_loaded :: "'b OathApplet \<Rightarrow> 'b OathApplet \<Rightarrow> bool" where
  "stays_loaded a b = (oa_state a \<noteq> None \<longrightarrow> oa_state b \<noteq> None)"

interpretation loaded: step_relation stays_loaded
  by unfold_locales (auto simp: stays_loaded_def)

lemma loaded_persist: "stays_loaded oa (fst (persist_state env (put_state s a)))"
  by (auto simp: stays_loaded_def persist_state_cases put_state_def Let_def split: sum.splits)

lemma loaded_fields [simp]: "stays_loaded oa oa" "stays_loaded oa (oa\<lparr>oa_remaining := m\<rparr>)" "stays_loaded oa (fst (oath_random env oa n))"
  by (simp_all add: stays_loaded_def oath_random_def)

lemma loaded_ensure: "stays_loaded oa (fst (ensure_loaded env oa))"
  by (simp add: stays_loaded_def ensure_loaded_def)

lemma loaded_state_mut: "stays_loaded oa (fst (state_mut env oa))"
  unfolding state_mut_def by (intro loaded.step_andthen loaded_ensure) simp

lemma loaded_require: "stays_loaded oa (fst (require_validated env oa))"
  unfolding require_validated_def by (intro loaded.step_andthen loaded.step_check loaded_ensure) simp

lemma loaded_advance: "stays_loaded oa (fst (advance_counter env oa name n))"
  unfolding advance_counter_def
  by (intro loaded.step_andthen loaded.step_attempt loaded_state_mut)
     (auto simp: stays_loaded_def persist_state_cases put_state_def Let_def split: prod.splits sum.splits if_splits)

lemmas loaded_steps = loaded.step_andthen loaded.step_attempt loaded.step_check loaded_require loaded_state_mut loaded_persist
  loaded_ensure loaded_advance

lemma loaded_dispatch: "stays_loaded oa (fst (dispatch env oa apdu))"
proof -
  have "stays_loaded oa (fst (cmd_put env oa d))" "stays_loaded oa (fst (cmd_delete env oa d))" "stays_loaded oa (fst (cmd_rename env oa d))"
    "stays_loaded oa (fst (cmd_list env oa))" for d
    unfolding cmd_put_def cmd_delete_def cmd_rename_def cmd_list_def Let_def split_beta
    by (intro loaded_steps; simp)+
  moreover have "stays_loaded oa (fst (cmd_validate env oa d))" for d
  proof -
    have v: "stays_loaded b (fst (attempt r (b\<lparr>oa_validated := v\<rparr>) (\<lambda>x. (b\<lparr>oa_validated := v\<rparr>, f x))))" for b :: "'a OathApplet" and r v f
      by (cases r) (simp_all add: stays_loaded_def)
    show ?thesis unfolding cmd_validate_def Let_def split_beta by (intro v loaded_steps)
  qed
  moreover have "stays_loaded oa (fst (cmd_calculate env oa b d))" "stays_loaded oa (fst (cmd_calculate_all env oa b d))" for b d
    unfolding cmd_calculate_def cmd_calculate_all_def Let_def split_beta
    by (intro loaded_steps; auto intro: loaded_steps split: option.split)+
  moreover have "stays_loaded oa (fst (cmd_reset env oa a b))" for a b
    unfolding cmd_reset_def put_state_fields Let_def split_beta by (intro loaded_steps; simp)
  moreover have "stays_loaded oa (fst (cmd_set_code env oa d))" for d
  proof -
    have "stays_loaded oa (fst (remove_code env oa))" for oa :: "'a OathApplet"
      unfolding remove_code_def put_state_fields by (intro loaded_steps) simp
    moreover have "stays_loaded oa (fst (configure_code env oa x))" for oa :: "'a OathApplet" and x
      unfolding configure_code_def Let_def split_beta
      by (rule loaded.step_trans [OF loaded_fields(3) [of oa env CHALLENGE_LEN]]) (intro loaded_steps, simp)
    ultimately show ?thesis unfolding cmd_set_code_def Let_def split_beta by (intro loaded_steps) (auto intro: loaded.step_attempt)
  qed
  ultimately show ?thesis by (simp add: dispatch_def)
qed

lemma loaded_process: "stays_loaded oa (fst (oath_process env oa apdu))"
proof -
  have "stays_loaded oa (fst (cmd_send_remaining env oa apdu))"
    unfolding cmd_send_remaining_def by (intro loaded_steps) (auto simp: Let_def split: option.split)
  moreover obtain b r where "dispatch env oa apdu = (b, r)" by fastforce
  ultimately show ?thesis
    using loaded_dispatch [of oa env apdu] by (cases r) (auto simp: oath_process_def stays_loaded_def)
qed

lemma loaded_select: "stays_loaded oa (fst (oath_select env oa))"
proof -
  have "stays_loaded b (fst (rotate_challenge_for_select env b))" for b :: "'a OathApplet"
    unfolding rotate_challenge_for_select_def Let_def split_beta
    by (auto intro: loaded.step_trans [OF loaded_fields(3)] intro!: loaded_steps)
  then have "stays_loaded (oa\<lparr>oa_validated := False\<rparr>) (fst (oath_select env oa))"
    unfolding oath_select_def by (intro loaded_steps)
  then show ?thesis by (simp add: stays_loaded_def)
qed

context oath_device
begin

lemma event_synced:
  assumes "sealing_ring (ring env)" "oath_synced env good oa" "oa_state oa \<noteq> None" "snd (oath_event env oa ev) \<noteq> Inl SW_GENERIC_ERROR"
  shows "oath_synced env good (fst (oath_event env oa ev)) \<and> oa_state (fst (oath_event env oa ev)) \<noteq> None"
proof (cases ev)
  case Ev_Select
  then show ?thesis
    using keeps_select [of oa] loaded_select [of oa env] assms by (simp add: oath_keeps_def oath_inv_def stays_loaded_def)
next
  case (Ev_Command apdu)
  obtain b r where p: "oath_process env oa apdu = (b, r)" by fastforce
  then show ?thesis
    using keeps_process [of oa apdu] loaded_process [of oa env apdu] assms Ev_Command
    by (cases r) (auto simp: oath_keeps_def oath_inv_def stays_loaded_def)
next
  case Ev_PowerCycle
  then show ?thesis
    using assms(2,3) restart_restores [OF assms(2)] by (auto simp: oath_synced_def oath_state_ok_def)
qed

lemma session_synced:
  assumes "sealing_ring (ring env)" "oath_synced env good oa" "oa_state oa \<noteq> None" "oath_session env oa evs = (b, rs)"
    and "Inl SW_GENERIC_ERROR \<notin> set rs"
  shows "oath_synced env good b \<and> oa_state b \<noteq> None"
  using assms(2-5)
proof (induction evs arbitrary: oa rs)
  case (Cons ev evs)
  obtain a r where ev: "oath_event env oa ev = (a, r)" by fastforce
  obtain rs' where rest: "oath_session env a evs = (b, rs')" "rs = r # rs'"
    using Cons.prems(3) ev by (auto simp: Let_def split: prod.splits)
  then show ?case
    using Cons.IH [of a rs'] event_synced [OF assms(1) Cons.prems(1,2), of ev] ev Cons.prems(4) by fastforce
qed simp

end

text \<open>
  Property C32: the applet loses nothing. After any sequence of selections, commands and power cycles in which no
  command reported the internal error, the storage holds, encrypted, exactly the state in memory, which is
  well-formed, and a power cycle ends with the same salt, access key, challenge and credentials.
\<close>

theorem oath_state_durable:
  assumes "oath_device env good" "sealing_ring (ring env)" "oath_synced env good oa" "oa_state oa \<noteq> None"
    and "oath_session env oa evs = (b, rs)" "Inl SW_GENERIC_ERROR \<notin> set rs"
  shows "oath_synced env good b \<and> oa_state (oath_restart env b) = oa_state b"
proof -
  have "oath_synced env good b \<and> oa_state b \<noteq> None"
    by (rule oath_device.session_synced [OF assms])
  then show ?thesis using restart_restores [of env good b] by auto
qed

text \<open>An applet in memory that was just created.\<close>

definition example_base :: "(string, bytes) btree OathApplet" where
  "example_base = \<lparr>oa_storage = engine_empty None, oa_crypto = from_key (replicate 32 3), oa_draws = 0, oa_state = None,
     oa_validated = False, oa_remaining = None\<rparr>"

definition example_locked_state :: OathState where
  "example_locked_state = \<lparr>os_salt = [1, 2], os_access = Some \<lparr>oac_algorithm = Sha1, oac_key = [9]\<rparr>,
     os_pending_challenge = Some [7], os_credentials = []\<rparr>"

definition example_locked :: "(string, bytes) btree OathApplet" where
  "example_locked = fst (persist_state example_env (put_state example_locked_state example_base))"

lemma example_oath_ring: "sealing_ring (ring example_env)"
  by (simp add: sealing_ring_def example_env_def example_ring_correct) (simp add: aead_length_def example_ring_def)

lemma example_persisted:
  assumes "oath_wf s" "snd (persist_state example_env (put_state s example_base)) = Inr ()"
  shows "oath_synced example_env (\<lambda>se. backend se = None) (fst (persist_state example_env (put_state s example_base)))"
    "oa_state (fst (persist_state example_env (put_state s example_base))) = Some s"
proof -
  have "oath_inv example_env (\<lambda>se. backend se = None) example_base"
    by (simp add: oath_inv_def example_oath_ring oath_synced_def oath_state_ok_def example_base_def engine_empty_def)
  from oath_device.keeps_persist [OF memory_oath_device this assms(1)]
  show "oath_synced example_env (\<lambda>se. backend se = None) (fst (persist_state example_env (put_state s example_base)))"
    using assms(2) by (simp add: oath_keeps_def oath_inv_def)
  show "oa_state (fst (persist_state example_env (put_state s example_base))) = Some s"
    by (auto simp: persist_state_cases put_state_def Let_def split: sum.splits)
qed

lemma example_locked_run: "snd (persist_state example_env (put_state example_locked_state example_base)) = Inr ()"
  by code_simp

lemma example_locked_wf: "oath_wf example_locked_state"
  by (simp add: example_locked_state_def oath_wf_def access_wf_def challenge_wf_def OATH_SALT_LEN_def MAX_CREDENTIALS_def)

lemmas example_locked_ok = example_persisted [OF example_locked_wf example_locked_run, folded example_locked_def]

text \<open>A LIST that the locked applet refuses, and a power cycle.\<close>

definition example_list_apdu :: Apdu where
  "example_list_apdu = \<lparr>cla = 0, ins = INS_LIST, p1 = 0, p2 = 0, apdu_data = [], le = None\<rparr>"

lemma example_oath_session:
  "oath_session example_env example_locked [Ev_Command example_list_apdu] = (example_locked, [Inl SW_SECURITY_STATUS])"
proof -
  have f: "\<not> oa_validated example_locked" "oa_remaining example_locked = None"
    by (simp_all add: example_locked_def persist_state_cases put_state_def example_base_def Let_def split: sum.split)
  then have "require_validated example_env example_locked = (example_locked, Inl SW_SECURITY_STATUS)"
    using example_locked_ok(2) by (intro locked_require) (simp_all add: locked_def example_locked_state_def)
  moreover have "example_locked\<lparr>oa_remaining := None\<rparr> = example_locked" using f(2) by simp
  ultimately show ?thesis
    by (simp add: oath_process_def dispatch_def cmd_list_def example_list_apdu_def INS_PUT_def INS_DELETE_def INS_SET_CODE_def
        INS_RESET_def INS_RENAME_def INS_LIST_def INS_SEND_REMAINING_def)
qed

theorem oath_state_durable_witness:
  "oa_state (oath_restart example_env example_locked) = oa_state example_locked"
  using oath_state_durable [OF memory_oath_device example_oath_ring example_locked_ok(1) _ example_oath_session] example_locked_ok(2)
  by (simp add: SW_SECURITY_STATUS_def SW_GENERIC_ERROR_def)

subsection \<open>A locked applet\<close>

text \<open>Only these APDUs do anything to a locked applet: RESET, and VALIDATE with the HMAC of the pending challenge.\<close>

definition opens :: "'b StorageEnv \<Rightarrow> 'b OathApplet \<Rightarrow> Apdu \<Rightarrow> bool" where
  "opens env oa apdu =
     (cla apdu = 0 \<and>
      (ins apdu = INS_RESET \<and> p1 apdu = 0xDE \<and> p2 apdu = 0xAD
       \<or> ins apdu = INS_VALIDATE \<and>
         (\<exists>s access pending tlvs response rest. oa_state oa = Some s \<and> os_access s = Some access \<and> os_pending_challenge s = Some pending
            \<and> parse_tlvs (apdu_data apdu) = Inr tlvs \<and> required_tag tlvs TAG_RESPONSE = Inr (response, rest)
            \<and> hmac_by_algorithm (ring env) (oac_algorithm access) (oac_key access) pending = Inr response)))"

lemma locked_validate:
  assumes "locked oa" "cla apdu = 0" "ins apdu = INS_VALIDATE" "\<not> opens env oa apdu"
  shows "\<exists>sw. cmd_validate env oa (apdu_data apdu) = (oa, Inl sw)"
proof -
  obtain s access where s: "oa_state oa = Some s" "os_access s = Some access"
    using assms(1) by (auto simp: locked_def split: option.splits)
  have st: "state_mut env oa = (oa, Inr s)" using s by (simp add: state_mut_def ensure_loaded_def)
  show ?thesis
    using assms(2-4) s
    by (auto simp: cmd_validate_def st opens_def constant_time_eq_def attempt_def check_def split: option.split sum.split prod.split)
qed

lemma locked_process:
  assumes "locked oa" "\<not> oa_validated oa" "\<not> opens env oa apdu"
  shows "\<exists>sw m. oath_process env oa apdu = (oa\<lparr>oa_remaining := m\<rparr>, Inl sw)"
proof (cases "cla apdu = 0 \<and> ins apdu \<noteq> INS_SEND_REMAINING")
  case True
  have "\<exists>sw. dispatch env oa apdu = (oa, Inl sw)"
    using locked_require [OF assms(1,2), of env] locked_validate [OF assms(1) _ _ assms(3)] assms(3) True
    by (auto simp: dispatch_def cmd_put_def cmd_delete_def cmd_set_code_def cmd_rename_def cmd_list_def cmd_calculate_def
        cmd_calculate_all_def cmd_reset_def opens_def check_def)
  then show ?thesis using True by (auto simp: oath_process_def)
next
  case False
  then have "\<exists>sw. oath_process env oa apdu = (oa, Inl sw)"
    using locked_require [OF assms(1,2), of env] by (auto simp: oath_process_def cmd_send_remaining_def)
  moreover have "oa\<lparr>oa_remaining := oa_remaining oa\<rparr> = oa" by simp
  ultimately show ?thesis by metis
qed

text \<open>
  A session of someone without the access key: selections, APDUs that do not open the applet, and power cycles, in
  any order.
\<close>

inductive outsider :: "'b StorageEnv \<Rightarrow> 'b OathApplet \<Rightarrow> 'b OathApplet \<Rightarrow> bool" for env oa where
  begin_session: "outsider env oa oa"
| select: "outsider env oa b \<Longrightarrow> outsider env oa (fst (oath_select env b))"
| select_response: "outsider env oa b \<Longrightarrow> outsider env oa (fst (oath_select_response env b))"
| command: "outsider env oa b \<Longrightarrow> \<not> opens env b apdu \<Longrightarrow> outsider env oa (fst (oath_process env b apdu))"
| power_cycle: "outsider env oa b \<Longrightarrow> outsider env oa (oath_restart env b)"

text \<open>Memory and storage hold the same access key and credentials, and the session is not validated.\<close>

definition guarded :: "'b StorageEnv \<Rightarrow> ('b StorageEngine \<Rightarrow> bool) \<Rightarrow> OathAccess \<Rightarrow> (bytes, OathCredential) btree \<Rightarrow> 'b OathApplet \<Rightarrow> bool" where
  "guarded env good access cs oa =
     (good (oa_storage oa) \<and> \<not> oa_validated oa \<and>
      (\<exists>s t. oa_state oa = Some s \<and> oath_wf s \<and> os_access s = Some access \<and> os_credentials s = cs
         \<and> load_stored env oa = Some t \<and> os_access t = Some access \<and> os_credentials t = cs))"

lemma guarded_locked: "guarded env good access cs oa \<Longrightarrow> locked oa \<and> \<not> oa_validated oa"
  by (auto simp: guarded_def locked_def)

lemma guarded_loaded: "guarded env good access cs oa \<Longrightarrow> ensure_loaded env oa = (oa, Inr ())"
  by (auto simp: guarded_def ensure_loaded_def)

context oath_device
begin

lemma guarded_select:
  assumes "sealing_ring (ring env)" "guarded env good access cs oa"
  shows "guarded env good access cs (fst (oath_select env oa))"
proof -
  obtain s t where s: "oa_state oa = Some s" "oath_wf s" "os_access s = Some access" "os_credentials s = cs"
    and t: "load_stored env oa = Some t" "os_access t = Some access" "os_credentials t = cs" and good: "good (oa_storage oa)"
    using assms(2) by (auto simp: guarded_def)
  let ?c = "random_bytes (ring env) (oa_draws oa) CHALLENGE_LEN"
  let ?s = "s\<lparr>os_pending_challenge := Some ?c\<rparr>"
  let ?a = "put_state ?s (oa\<lparr>oa_validated := False, oa_draws := Suc (oa_draws oa)\<rparr>)"
  have "length ?c = 8" using assms(1) length_random_bytes by (auto simp: sealing_ring_def CHALLENGE_LEN_def)
  then have wf: "oath_wf ?s" using s by (auto simp: oath_wf_def access_wf_def challenge_wf_def)
  have "oath_select env oa = persist_state env ?a"
    using s by (simp add: oath_select_def ensure_loaded_def rotate_challenge_for_select_def locked_def oath_random_def state_mut_def)
  moreover have "guarded env good access cs (fst (persist_state env ?a))"
  proof (cases "persist_state env ?a")
    case (Pair b r)
    have v: "\<not> oa_validated b" using arg_cong [OF Pair, of "\<lambda>x. oa_validated (fst x)"]
      by (auto simp: persist_state_cases put_state_def Let_def split: sum.splits)
    show ?thesis
    proof (cases r)
      case (Inl e)
      then show ?thesis
        using persist_fail [of ?a b e] Pair good s t v wf by (auto simp: guarded_def put_state_def)
    next
      case (Inr u)
      then show ?thesis
        using persist_ok [of ?a ?s b u] Pair good s v wf assms(1)
        by (auto simp: guarded_def put_state_def oath_inv_def oath_synced_def oath_state_ok_def)
    qed
  qed
  ultimately show ?thesis by simp
qed

lemma guarded_outsider:
  assumes "outsider env oa b" "sealing_ring (ring env)" "guarded env good access cs oa"
  shows "guarded env good access cs b"
  using assms
proof (induction rule: outsider.induct)
  case (select_response b)
  then show ?case
    using guarded_loaded [of env good access cs b] by (simp add: oath_select_response_def state_mut_def)
next
  case (command b apdu)
  then obtain sw m where "oath_process env b apdu = (b\<lparr>oa_remaining := m\<rparr>, Inl sw)"
    using locked_process [of b env apdu] guarded_locked [of env good access cs b] by auto
  then show ?case using command by (auto simp: guarded_def)
next
  case (power_cycle b)
  then obtain t where "load_stored env b = Some t" by (auto simp: guarded_def)
  then have "oath_restart env b = b\<lparr>oa_state := Some t, oa_validated := False, oa_remaining := None\<rparr>"
    by (simp add: oath_restart_def oath_new_def ensure_loaded_def load_stored_bind)
  then show ?case using power_cycle \<open>load_stored env b = Some t\<close> by (auto simp: guarded_def intro: load_stored_wf)
qed (auto intro: guarded_select)

end



end
