(* ===== verification/Oath_Codes.thy ===== *)
theory Oath_Codes
  imports Oath_Safety
begin

section \<open>Codes of the OATH applet\<close>

text \<open>
  The moving factor of a HOTP credential never repeats: over any session without PUT, DELETE, RENAME and RESET, with
  power cycles and failing writes, each calculation uses a larger factor than all before it. The one exception is
  the largest 64-bit value, at which the counter saturates. A truncated response, masked and reduced by the host,
  is the value of RFC 4226.
\<close>

subsection \<open>Credentials in memory and storage\<close>

definition holds :: "'b StorageEnv \<Rightarrow> ('b StorageEngine \<Rightarrow> bool) \<Rightarrow> (bytes, OathCredential) btree \<Rightarrow> 'b OathApplet \<Rightarrow> bool" where
  "holds env good cs oa =
     (sealing_ring (ring env) \<and> good (oa_storage oa) \<and>
      (\<exists>s t. oa_state oa = Some s \<and> oath_wf s \<and> os_credentials s = cs \<and> load_stored env oa = Some t \<and> os_credentials t = cs))"

lemma holds_fields [simp]:
  "holds env good cs (oa\<lparr>oa_validated := v\<rparr>) = holds env good cs oa" "holds env good cs (oa\<lparr>oa_remaining := m\<rparr>) = holds env good cs oa"
  "holds env good cs (oa\<lparr>oa_draws := n\<rparr>) = holds env good cs oa"
  by (simp_all add: holds_def)

lemma holds_loaded:
  assumes "holds env good cs oa"
  shows "ensure_loaded env oa = (oa, Inr ())" "state_mut env oa = (oa, Inr (the (oa_state oa)))"
    "oath_wf (the (oa_state oa))" "os_credentials (the (oa_state oa)) = cs"
  using assms by (auto simp: holds_def ensure_loaded_def state_mut_def)

lemma holds_require: "holds env good cs oa \<Longrightarrow> require_validated env oa = (oa, Inr ()) \<or> (\<exists>sw. require_validated env oa = (oa, Inl sw))"
  by (simp add: require_validated_def holds_loaded check_def)

lemma holds_restart: "holds env good cs oa \<Longrightarrow> holds env good cs (oath_restart env oa)"
proof -
  assume h: "holds env good cs oa"
  then obtain t where "load_stored env oa = Some t" by (auto simp: holds_def)
  moreover from this have "oath_restart env oa = oa\<lparr>oa_state := Some t, oa_validated := False, oa_remaining := None\<rparr>"
    by (simp add: oath_restart_def oath_new_def ensure_loaded_def load_stored_bind)
  ultimately show ?thesis using h by (auto simp: holds_def intro: load_stored_wf)
qed

context oath_device
begin

text \<open>Writing a state with the credentials \<open>cs'\<close> succeeds or leaves the credentials of the storage as they were.\<close>

lemma persist_holds:
  assumes "holds env good cs oa" "oath_wf s" "persist_state env (put_state s oa) = (b, r)"
  shows "(case r of
            Inr _ \<Rightarrow> holds env good (os_credentials s) b
          | Inl _ \<Rightarrow> sealing_ring (ring env) \<and> good (oa_storage b) \<and> oa_state b = Some s
                     \<and> (\<exists>t. load_stored env b = Some t \<and> os_credentials t = cs))"
proof (cases r)
  case (Inl e)
  then show ?thesis
    using persist_fail [of "put_state s oa" b e] assms by (auto simp: holds_def put_state_def)
next
  case (Inr u)
  then show ?thesis
    using persist_ok [of "put_state s oa" s b u] assms
    by (auto simp: holds_def put_state_def oath_inv_def oath_synced_def oath_state_ok_def)
qed

lemma persist_holds_same:
  assumes "holds env good cs oa" "oath_wf s" "os_credentials s = cs"
  shows "holds env good cs (fst (persist_state env (put_state s oa)))"
proof (cases "persist_state env (put_state s oa)")
  case (Pair b r)
  then show ?thesis using persist_holds [OF assms(1,2) Pair] assms(2,3) by (cases r) (auto simp: holds_def)
qed

lemma holds_andthen:
  assumes "holds env good cs (fst r)" "\<And>x b. r = (b, Inr x) \<Longrightarrow> holds env good cs b \<Longrightarrow> holds env good cs (fst (f x b))"
  shows "holds env good cs (fst (andthen r f))"
  using andthen_inv [of "holds env good cs"] assms by blast

lemma holds_require_then:
  "holds env good cs oa \<Longrightarrow> holds env good cs (fst (f () oa)) \<Longrightarrow> holds env good cs (fst (andthen (require_validated env oa) f))"
  using holds_require [of env good cs oa] by auto

lemma holds_set_code:
  assumes "holds env good cs oa"
  shows "holds env good cs (fst (cmd_set_code env oa d))"
proof -
  note l = holds_loaded [OF assms]
  have rm: "holds env good cs (fst (remove_code env oa))"
    unfolding remove_code_def put_state_fields l(2) andthen_simps
    using l(3,4) assms by (intro holds_andthen persist_holds_same) (auto simp: oath_wf_def access_wf_def)
  have "holds env good cs (fst (configure_code env oa access))" if "parse_set_code (ring env) key tlvs = Inr access" for key tlvs access
  proof -
    let ?c = "random_bytes (ring env) (oa_draws oa) CHALLENGE_LEN"
    let ?a = "oa\<lparr>oa_draws := Suc (oa_draws oa)\<rparr>"
    have "length ?c = 8" using assms length_random_bytes by (auto simp: holds_def sealing_ring_def CHALLENGE_LEN_def)
    then have "oath_wf ((the (oa_state oa))\<lparr>os_access := Some access, os_pending_challenge := Some ?c\<rparr>)"
      using l(3) that by (auto simp: oath_wf_def access_wf_def challenge_wf_def parse_set_code_def bind_result_ok MAX_SECRET_LEN_def)
    then have "holds env good cs (fst (persist_state env (put_state ((the (oa_state oa))\<lparr>os_access := Some access, os_pending_challenge := Some ?c\<rparr>) ?a)))"
      using assms l(4) by (intro persist_holds_same) simp_all
    moreover have "state_mut env ?a = (?a, Inr (the (oa_state oa)))" using holds_loaded(2) [of env good cs ?a] assms by simp
    ultimately show ?thesis by (auto simp: configure_code_def oath_random_def intro!: holds_andthen)
  qed
  then show ?thesis
    unfolding cmd_set_code_def
    by (intro holds_require_then assms) (auto simp: attempt_def assms rm split: sum.split)
qed

lemma holds_validate:
  assumes "holds env good cs oa"
  shows "holds env good cs (fst (cmd_validate env oa d))"
proof -
  note l = holds_loaded [OF assms]
  have wf: "oath_wf ((the (oa_state oa))\<lparr>os_pending_challenge := Some c\<rparr>)"
    if "os_access (the (oa_state oa)) = Some x" "c \<noteq> []" "\<not> MAX_CHALLENGE_LEN < length c" for x c
    using l(3) that by (auto simp: oath_wf_def access_wf_def challenge_wf_def MAX_CHALLENGE_LEN_def)
  have "holds env good cs (fst (persist_state env (put_state ((the (oa_state oa))\<lparr>os_pending_challenge := Some c\<rparr>) oa)))"
    if "os_access (the (oa_state oa)) = Some x" "c \<noteq> []" "\<not> MAX_CHALLENGE_LEN < length c" for x c
    using assms wf [OF that] l(4) by (intro persist_holds_same) simp_all
  then show ?thesis
    unfolding cmd_validate_def l(2) andthen_simps Let_def
    by (auto simp: attempt_def check_def assms l(2) intro!: holds_andthen split: sum.split option.splits)
qed

lemma holds_select:
  assumes "holds env good cs oa"
  shows "holds env good cs (fst (oath_select env oa))"
proof -
  let ?a = "oa\<lparr>oa_validated := False\<rparr>"
  have h: "holds env good cs ?a" using assms by simp
  note l = holds_loaded [OF h]
  show ?thesis
  proof (cases "locked ?a")
    case True
    let ?c = "random_bytes (ring env) (oa_draws oa) CHALLENGE_LEN"
    let ?b = "?a\<lparr>oa_draws := Suc (oa_draws oa)\<rparr>"
    have "length ?c = 8" using assms length_random_bytes by (auto simp: holds_def sealing_ring_def CHALLENGE_LEN_def)
    then have "oath_wf ((the (oa_state oa))\<lparr>os_pending_challenge := Some ?c\<rparr>)"
      using l(3) True by (auto simp: oath_wf_def access_wf_def challenge_wf_def locked_def split: option.splits)
    then have "holds env good cs (fst (persist_state env (put_state ((the (oa_state oa))\<lparr>os_pending_challenge := Some ?c\<rparr>) ?b)))"
      using h l(4) by (intro persist_holds_same) simp_all
    moreover have "state_mut env ?b = (?b, Inr (the (oa_state oa)))" using holds_loaded(2) [of env good cs ?b] h by simp
    ultimately show ?thesis by (simp add: oath_select_def l(1) rotate_challenge_for_select_def True oath_random_def)
  next
    case False
    then show ?thesis using h by (simp add: oath_select_def l(1) rotate_challenge_for_select_def)
  qed
qed

lemma holds_advance:
  assumes "holds env good cs oa" "btree_get cs name = Some c" "advance_counter env oa name n = (b, r)"
  shows "holds env good (case r of Inr _ \<Rightarrow> btree_insert name (c\<lparr>oc_hotp_counter := n\<rparr>) cs | Inl _ \<Rightarrow> cs) b"
proof -
  note l = holds_loaded [OF assms(1)]
  let ?s = "set_counter name n (the (oa_state oa))"
  have s: "os_credentials ?s = btree_insert name (c\<lparr>oc_hotp_counter := n\<rparr>) cs" using l(4) assms(2) by (simp add: set_counter_def)
  obtain b' q where p: "persist_state env (put_state ?s oa) = (b', q)" by fastforce
  note ph = persist_holds [OF assms(1) oath_wf_set_counter [OF l(3), of name n] p]
  have wf: "btree_wf cs" using l(3,4) by (auto simp: oath_wf_def)
  have undo: "btree_insert name c (btree_insert name (c\<lparr>oc_hotp_counter := n\<rparr>) cs) = cs"
    by (rule btree_eqI) (use wf assms(2) in auto)
  show ?thesis
  proof (cases q)
    case (Inl e)
    have "oa_state b' = Some ?s" using ph Inl by simp
    moreover have "os_credentials (set_counter name (oc_hotp_counter c) ?s) = cs"
      using undo s by (simp add: set_counter_def [of name _ ?s])
    ultimately show ?thesis
      using assms(2,3) ph Inl l p oath_wf_set_counter [OF oath_wf_set_counter [OF l(3)]]
      by (auto simp: advance_counter_def holds_def)
  next
    case (Inr u)
    then show ?thesis using assms(2,3) ph l s p by (auto simp: advance_counter_def)
  qed
qed

lemma holds_calculate:
  assumes "holds env good cs oa" "cmd_calculate env oa x d = (b, r)"
  shows "case r of
           Inl _ \<Rightarrow> holds env good cs b
         | Inr _ \<Rightarrow> \<exists>name ch c bs next. parse_calculate d = Inr (name, ch) \<and> btree_get cs name = Some c
             \<and> calculation_challenge c ch = Inr (bs, next)
             \<and> holds env good (case next of None \<Rightarrow> cs | Some n \<Rightarrow> btree_insert name (c\<lparr>oc_hotp_counter := n\<rparr>) cs) b"
proof (cases "require_validated env oa = (oa, Inr ()) \<and> \<not> x > 1")
  case False
  then show ?thesis using holds_require [OF assms(1)] assms by (auto simp: cmd_calculate_def)
next
  case True
  note l = holds_loaded [OF assms(1)]
  show ?thesis
  proof (cases "\<exists>name ch c bs next. parse_calculate d = Inr (name, ch) \<and> btree_get cs name = Some c \<and> calculation_challenge c ch = Inr (bs, next)")
    case False
    then have "b = oa \<and> (\<exists>sw. r = Inl sw)"
      using True assms(2) l by (auto simp: cmd_calculate_def attempt_def ok_or_def split: sum.splits option.splits)
    then show ?thesis using assms(1) by auto
  next
    case ex: True
    then obtain name ch c bs nx where p: "parse_calculate d = Inr (name, ch)" "btree_get cs name = Some c"
      "calculation_challenge c ch = Inr (bs, nx)" by blast
    show ?thesis
    proof (cases nx)
      case None
      then show ?thesis
        using assms(2) True p l assms(1) by (auto simp: cmd_calculate_def attempt_def split_beta split: sum.splits)
    next
      case (Some n)
      obtain b' q where a: "advance_counter env oa name n = (b', q)" by fastforce
      then show ?thesis
        using assms(2) True p l assms(1) Some holds_advance [OF assms(1) p(2) a]
        by (cases q) (auto simp: cmd_calculate_def attempt_def split_beta split: sum.splits)
    qed
  qed
qed

end

subsection \<open>Moving factors\<close>

definition absolute_factor :: "bytes \<Rightarrow> u64" where
  "absolute_factor ch = from_be_bytes (copy_into (replicate 8 0) (8 - length ch) ch)"

definition moving_factor :: "OathCredential \<Rightarrow> bytes \<Rightarrow> u64" where
  "moving_factor c ch = (if ch = [] then oc_hotp_counter c else absolute_factor ch)"

lemma saturating_next: "n < saturating_add_word n 1 \<or> n = -1 \<and> saturating_add_word n 1 = -1" for n :: "'a::len word"
proof (cases "n = -1")
  case True
  then show ?thesis by (simp add: saturating_add_word_def unsigned_minus_1_eq_mask mask_eq_exp_minus_1)
next
  case False
  then have "n < -1" by (simp add: word_order.not_eq_extremum)
  then have "Suc (unat n) < 2 ^ LENGTH('a)" by (simp add: word_less_nat_alt unsigned_minus_1_eq_mask mask_eq_exp_minus_1)
  then show ?thesis by (simp add: saturating_add_word_def word_less_nat_alt unat_word_ariths)
qed

lemma calculation_factor:
  assumes "calculation_challenge c ch = Inr (bs, nx)" "oc_type c = Hotp"
  obtains n where "nx = Some n" "oc_hotp_counter c \<le> moving_factor c ch" "bs = to_be_bytes 8 (moving_factor c ch)"
    "moving_factor c ch < n \<or> moving_factor c ch = -1 \<and> n = -1"
proof (cases "ch = []")
  case True
  then obtain n where "checked_add_word (oc_hotp_counter c) 1 = Some n" "nx = Some n" "bs = to_be_bytes 8 (oc_hotp_counter c)"
    using assms by (auto simp: calculation_challenge_def effect_ok)
  moreover from this have "oc_hotp_counter c < n"
    by (auto simp: checked_add_word_def word_less_nat_alt unat_word_ariths split: if_splits)
  ultimately show ?thesis using that [of n] True by (simp add: moving_factor_def)
next
  case False
  let ?raw = "copy_into (replicate 8 0) (8 - length ch) ch"
  have ch: "length ch \<le> 8" "\<not> absolute_factor ch < oc_hotp_counter c" "bs = ?raw" "nx = Some (saturating_add_word (absolute_factor ch) 1)"
    using assms False by (auto simp: calculation_challenge_def Let_def absolute_factor_def split: if_splits)
  have "length ?raw = 8" using ch(1) by (simp add: copy_into_def)
  then have "bs = to_be_bytes 8 (absolute_factor ch)" using ch(3) to_be_bytes_from_be_bytes [of ?raw, where 'a = 64] by (simp add: absolute_factor_def)
  then show ?thesis using that ch False saturating_next [of "absolute_factor ch"] by (auto simp: moving_factor_def)
qed

text \<open>The factor a command uses for the credential \<open>name\<close>, if it answers with a HOTP code for it.\<close>

definition factor_used :: "'b StorageEnv \<Rightarrow> 'b OathApplet \<Rightarrow> bytes \<Rightarrow> OathEvent \<Rightarrow> u64 option" where
  "factor_used env oa name ev =
     (case ev of
        Ev_Command apdu \<Rightarrow>
          if cla apdu = 0 \<and> ins apdu = INS_CALCULATE \<and> is_ok (snd (oath_process env oa apdu))
          then (case (parse_calculate (apdu_data apdu), Option.bind (oa_state oa) (\<lambda>s. btree_get (os_credentials s) name)) of
                  (Inr (n, ch), Some c) \<Rightarrow> if n = name \<and> oc_type c = Hotp then Some (moving_factor c ch) else None
                | _ \<Rightarrow> None)
          else None
      | _ \<Rightarrow> None)"

fun factors_used :: "'b StorageEnv \<Rightarrow> 'b OathApplet \<Rightarrow> bytes \<Rightarrow> OathEvent list \<Rightarrow> u64 list" where
  "factors_used env oa name [] = []"
| "factors_used env oa name (ev # evs) =
     (case factor_used env oa name ev of Some n \<Rightarrow> [n] | None \<Rightarrow> []) @ factors_used env (fst (oath_event env oa ev)) name evs"

text \<open>Events that neither create nor remove credentials.\<close>

definition uses_only :: "OathEvent \<Rightarrow> bool" where
  "uses_only ev =
     (case ev of Ev_Command apdu \<Rightarrow> ins apdu \<notin> {INS_PUT, INS_DELETE, INS_RENAME, INS_RESET} | _ \<Rightarrow> True)"

lemmas ins_defs = INS_PUT_def INS_DELETE_def INS_SET_CODE_def INS_RESET_def INS_RENAME_def INS_LIST_def INS_CALCULATE_def
  INS_VALIDATE_def INS_CALCULATE_ALL_def INS_SEND_REMAINING_def

context oath_device
begin

lemma holds_dispatch_other:
  assumes "holds env good cs oa" "uses_only (Ev_Command apdu)" "ins apdu \<noteq> INS_CALCULATE"
  shows "holds env good cs (fst (dispatch env oa apdu))"
proof -
  note l = holds_loaded [OF assms(1)]
  have "holds env good cs (fst (cmd_list env oa))"
    unfolding cmd_list_def by (rule holds_require_then [OF assms(1)]) (simp add: l assms(1))
  moreover have "holds env good cs (fst (cmd_calculate_all env oa b d))" for b d
    unfolding cmd_calculate_all_def
    by (rule holds_require_then [OF assms(1)]) (auto simp: l assms(1) attempt_def check_def split: sum.split)
  ultimately show ?thesis
    using assms holds_set_code [OF assms(1)] holds_validate [OF assms(1)] by (simp add: dispatch_def uses_only_def)
qed

lemma holds_event_other:
  assumes "holds env good cs oa" "uses_only ev" "\<And>apdu. ev = Ev_Command apdu \<Longrightarrow> cla apdu \<noteq> 0 \<or> ins apdu \<noteq> INS_CALCULATE"
  shows "holds env good cs (fst (oath_event env oa ev))"
proof (cases ev)
  case (Ev_Command apdu)
  have send: "holds env good cs (fst (cmd_send_remaining env oa apdu))"
    unfolding cmd_send_remaining_def by (rule holds_require_then [OF assms(1)]) (auto simp: assms(1) Let_def split: option.split)
  obtain b r where d: "dispatch env oa apdu = (b, r)" by fastforce
  have "holds env good cs (fst (oath_process env oa apdu))"
    using send holds_dispatch_other [OF assms(1), of apdu] assms(1,2) assms(3) [OF Ev_Command] Ev_Command d
    by (cases r) (auto simp: oath_process_def)
  then show ?thesis unfolding Ev_Command oath_event.simps by (intro holds_andthen) simp_all
qed (use assms in \<open>simp_all add: holds_select holds_restart\<close>)

text \<open>One event: the factor it uses is not below the counter, and the counter moves past it.\<close>

lemma factor_step:
  assumes "holds env good cs oa" "uses_only ev" "btree_get cs name = Some c" "oc_type c = Hotp"
  obtains cs' c' where "holds env good cs' (fst (oath_event env oa ev))" "btree_get cs' name = Some c'" "oc_type c' = Hotp"
    "oc_hotp_counter c \<le> oc_hotp_counter c'"
    "\<And>n. factor_used env oa name ev = Some n \<Longrightarrow> oc_hotp_counter c \<le> n \<and> (n < oc_hotp_counter c' \<or> n = -1)"
proof (cases "\<exists>apdu. ev = Ev_Command apdu \<and> cla apdu = 0 \<and> ins apdu = INS_CALCULATE")
  case False
  then have "factor_used env oa name ev = None" by (auto simp: factor_used_def split: OathEvent.split)
  then show ?thesis using that [of cs c] holds_event_other [OF assms(1,2)] False assms(3,4) by auto
next
  case True
  then obtain apdu where ev: "ev = Ev_Command apdu" "cla apdu = 0" "ins apdu = INS_CALCULATE" by blast
  obtain b r where r: "cmd_calculate env oa (p2 apdu) (apdu_data apdu) = (b, r)" by fastforce
  have p: "snd (oath_process env oa apdu) = r" "holds env good x (fst (oath_event env oa ev)) = holds env good x b" for x
    using ev r by (auto simp: oath_process_def dispatch_def ins_defs split: sum.splits)
  have s: "Option.bind (oa_state oa) (\<lambda>s. btree_get (os_credentials s) name) = Some c"
    using assms(1,3) by (auto simp: holds_def)
  show ?thesis
  proof (cases r)
    case (Inl sw)
    then have "factor_used env oa name ev = None" using ev p(1) by (simp add: factor_used_def is_ok_def)
    then show ?thesis using that [of cs c] holds_calculate [OF assms(1) r] Inl p(2) assms(3,4) by auto
  next
    case (Inr resp)
    then obtain i ch c0 bs nx where q: "parse_calculate (apdu_data apdu) = Inr (i, ch)" "btree_get cs i = Some c0"
      "calculation_challenge c0 ch = Inr (bs, nx)"
      "holds env good (case nx of None \<Rightarrow> cs | Some n \<Rightarrow> btree_insert i (c0\<lparr>oc_hotp_counter := n\<rparr>) cs) b"
      using holds_calculate [OF assms(1) r] by auto
    have u: "factor_used env oa name ev = (if i = name then Some (moving_factor c ch) else None)"
      using ev p(1) Inr q(1) s assms(4) by (simp add: factor_used_def is_ok_def)
    show ?thesis
    proof (cases "i = name")
      case True
      then obtain n where n: "nx = Some n" "oc_hotp_counter c \<le> moving_factor c ch" "moving_factor c ch < n \<or> moving_factor c ch = -1 \<and> n = -1"
        using calculation_factor [OF q(3)] q(2) assms(3,4) by (metis option.inject)
      then have "oc_hotp_counter c \<le> n" by auto
      then show ?thesis
        using that [of "btree_insert name (c\<lparr>oc_hotp_counter := n\<rparr>) cs" "c\<lparr>oc_hotp_counter := n\<rparr>"] q n u True p(2) assms(3,4) by auto
    next
      case False
      then show ?thesis
        using that [of "case nx of None \<Rightarrow> cs | Some n \<Rightarrow> btree_insert i (c0\<lparr>oc_hotp_counter := n\<rparr>) cs" c] q u p(2) assms(3,4)
        by (auto split: option.splits)
    qed
  qed
qed

lemma factors_increase:
  assumes "holds env good cs oa" "\<forall>ev \<in> set evs. uses_only ev" "btree_get cs name = Some c" "oc_type c = Hotp"
  shows "sorted_wrt (\<lambda>m n. m < n \<or> m = -1) (factors_used env oa name evs)
    \<and> (\<forall>n \<in> set (factors_used env oa name evs). oc_hotp_counter c \<le> n)"
  using assms
proof (induction evs arbitrary: oa cs c)
  case (Cons ev evs)
  obtain cs' c' where st: "holds env good cs' (fst (oath_event env oa ev))" "btree_get cs' name = Some c'" "oc_type c' = Hotp"
    "oc_hotp_counter c \<le> oc_hotp_counter c'"
    "\<And>n. factor_used env oa name ev = Some n \<Longrightarrow> oc_hotp_counter c \<le> n \<and> (n < oc_hotp_counter c' \<or> n = -1)"
    using factor_step [OF Cons.prems(1) _ Cons.prems(3,4), of ev] Cons.prems(2) by (metis list.set_intros(1))
  note IH = Cons.IH [OF st(1) _ st(2,3)]
  show ?case
  proof (cases "factor_used env oa name ev")
    case None
    then show ?thesis using IH Cons.prems(2) st(4) by (auto dest: order_trans)
  next
    case (Some n)
    then show ?thesis using IH Cons.prems(2) st(4) st(5) [OF Some] by (auto dest: order_trans intro: less_le_trans)
  qed
qed simp

end


subsection \<open>RFC 4226\<close>

text \<open>The reference: section 5.3 of the RFC, over numbers.\<close>

definition hotp_value :: "(bytes \<Rightarrow> bytes \<Rightarrow> bytes) \<Rightarrow> bytes \<Rightarrow> u64 \<Rightarrow> nat \<Rightarrow> nat" where
  "hotp_value hmac secret counter digits =
     (let hs = hmac secret (to_be_bytes 8 counter); offset = unat (last hs) mod 16
      in (unat (hs ! offset) mod 128 * 2 ^ 24 + unat (hs ! (offset + 1)) * 2 ^ 16 + unat (hs ! (offset + 2)) * 2 ^ 8
          + unat (hs ! (offset + 3))) mod 10 ^ digits)"

text \<open>What a host makes of the value of a truncated response: the number of digits and four bytes.\<close>

definition host_code :: "bytes \<Rightarrow> nat" where
  "host_code v = unat ((from_be_bytes (drop 1 v) :: u32) AND 0x7FFFFFFF) mod 10 ^ unat (v ! 0)"

definition hmac_lengths :: "RingPrims \<Rightarrow> bool" where
  "hmac_lengths r = (\<forall>a k m. 20 \<le> length (ring_hmac r a k m))"

lemma unat_and_mask: "unat (x AND mask n) = unat x mod 2 ^ n" for x :: "'a::len word"
proof -
  have "unat (x AND mask n) = take_bit n (unat x)" by (simp only: unsigned_take_bit_eq flip: take_bit_eq_mask)
  then show ?thesis by (simp add: take_bit_eq_mod)
qed

lemma unat_from_be_bytes4:
  "unat (from_be_bytes [a, b, c, d] :: u32) = unat a * 2 ^ 24 + unat b * 2 ^ 16 + unat c * 2 ^ 8 + unat d"
proof -
  have or: "ucast z OR push_bit 8 y = ucast z + push_bit 8 y" for y :: u32 and z :: u8
    by (rule disjunctive_add_eq_or [symmetric]) (auto simp: bit_eq_iff bit_simps dest: bit_imp_le_length)
  have "(from_be_bytes [a, b, c, d] :: u32) = ucast d + push_bit 8 (ucast c + push_bit 8 (ucast b + push_bit 8 (ucast a)))"
    by (simp only: from_be_bytes_def rev.simps append.simps from_le_bytes.simps or push_bit_of_0 add_0_right or.right_neutral)
  then have sum: "(from_be_bytes [a, b, c, d] :: u32) = ucast a * 2 ^ 24 + ucast b * 2 ^ 16 + ucast c * 2 ^ 8 + ucast d"
    by (simp add: push_bit_eq_mult algebra_simps)
  have "unat (ucast x :: u32) = unat x" for x :: u8 using u8_less [of x] by (simp add: unsigned_ucast_eq take_bit_nat_eq_self)
  then show ?thesis
    using u8_less [of a] u8_less [of b] u8_less [of c] u8_less [of d] by (simp add: sum unat_word_ariths)
qed

lemma truncate_value:
  assumes "hs \<noteq> []"
  shows "host_code (digits # dynamic_truncate hs) =
    (let offset = unat (last hs) mod 16
     in (unat (hs ! offset) mod 128 * 2 ^ 24 + unat (hs ! (offset + 1)) * 2 ^ 16 + unat (hs ! (offset + 2)) * 2 ^ 8
         + unat (hs ! (offset + 3))) mod 10 ^ unat digits)"
proof -
  have m: "(0x7FFFFFFF :: u32) = mask 31" "(0x0F :: u8) = mask 4" by (simp_all add: mask_eq_exp_minus_1)
  have "(a * 16777216 + b * 65536 + c * 256 + d) mod 2147483648 = a mod 128 * 16777216 + b * 65536 + c * 256 + d"
    if "b < 256" "c < 256" "d < 256" for a b c d :: nat
  proof -
    have "a * 16777216 + b * 65536 + c * 256 + d
        = (a mod 128 * 16777216 + b * 65536 + c * 256 + d) + (a div 128) * 2147483648"
    proof -
      have "a * 16777216 = (a div 128 * 128 + a mod 128) * 16777216" by (simp only: div_mult_mod_eq)
      then show ?thesis by (simp only: distrib_right)
    qed
    moreover have "a mod 128 * 16777216 + b * 65536 + c * 256 + d < 2147483648" using that mod_less_divisor [of 128 a] by simp
    ultimately show ?thesis by (simp only: mod_mult_self1 mod_less)
  qed
  then show ?thesis
    using assms u8_less
    by (simp add: host_code_def dynamic_truncate_def Let_def m unat_and_mask unat_from_be_bytes4 last_conv_nth del: mask_numeral)
qed

text \<open>
  Property C18: the codes are those of RFC 4226. When CALCULATE with truncation answers for a HOTP credential, the
  response is one TLV with five bytes, from which a host computes the RFC's value for the secret, the moving factor
  and the number of digits; the four bytes lie inside the digest.
\<close>

theorem calculate_matches_rfc4226:
  assumes "hmac_lengths (ring env)" "oa_state oa = Some s" "btree_get (os_credentials s) name = Some c" "oc_type c = Hotp"
    and "parse_calculate data = Inr (name, ch)" "cmd_calculate env oa 1 data = (b, Inr resp)"
  shows "\<exists>v h. resp_data resp = [TAG_TRUNCATED_RESPONSE, 5] @ v \<and> length v = 5
    \<and> h = ring_hmac (ring env) (case oc_algorithm c of Sha1 \<Rightarrow> Hmac_Sha1 | Sha256 \<Rightarrow> Hmac_Sha256 | Sha512 \<Rightarrow> Hmac_Sha512)
    \<and> host_code v = hotp_value h (oc_secret c) (moving_factor c ch) (unat (oc_digits c))
    \<and> unat (last (h (oc_secret c) (to_be_bytes 8 (moving_factor c ch)))) mod 16 + 3
        < length (h (oc_secret c) (to_be_bytes 8 (moving_factor c ch)))"
proof -
  let ?h = "ring_hmac (ring env) (case oc_algorithm c of Sha1 \<Rightarrow> Hmac_Sha1 | Sha256 \<Rightarrow> Hmac_Sha256 | Sha512 \<Rightarrow> Hmac_Sha512)"
  have st: "state_mut env oa = (oa, Inr s)" "ensure_loaded env oa = (oa, Inr ())"
    using assms(2) by (simp_all add: state_mut_def ensure_loaded_def)
  have hm: "hmac_by_algorithm (ring env) (oc_algorithm c) k m = Inr (?h k m)" for k m
    by (cases "oc_algorithm c") (simp_all add: hmac_by_algorithm_def compute_hmac_def compute_hmac_sha512_def compute_hmac_sha1_ykoath_compat_def)
  obtain bs nx where ch: "calculation_challenge c ch = Inr (bs, nx)"
    using assms(3,5,6) st by (auto simp: cmd_calculate_def effect_ok require_validated_def)
  have bs: "bs = to_be_bytes 8 (moving_factor c ch)" by (rule calculation_factor [OF ch assms(4)])
  let ?d = "?h (oc_secret c) bs"
  have "20 \<le> length ?d" using assms(1) by (simp add: hmac_lengths_def)
  then have ne: "?d \<noteq> []" "unat (last ?d) mod 16 + 3 < length ?d"
    using mod_less_divisor [of 16 "unat (last ?d)"] by auto
  have "resp = resp_ok (push_tlv_owned TAG_TRUNCATED_RESPONSE (oc_digits c # dynamic_truncate ?d))"
    using assms(3,5,6) st ch hm
    by (auto simp: cmd_calculate_def effect_ok require_validated_def calculation_tlv_def)
  moreover have "length (dynamic_truncate ?d) = 4" by (simp add: dynamic_truncate_def Let_def)
  ultimately show ?thesis
    using truncate_value [OF ne(1), of "oc_digits c"] ne(2)
    by (auto simp: resp_ok_def push_tlv_owned_def push_tlv_def hotp_value_def bs Let_def intro!: exI [of _ "oc_digits c # dynamic_truncate ?d"])
qed

subsection \<open>A concrete credential\<close>

text \<open>At the largest counter value the counter saturates, and the same factor is accepted again.\<close>

lemma hotp_counter_saturates:
  assumes "oc_type c = Hotp" "oc_hotp_counter c = - 1"
  shows "calculation_challenge c (to_be_bytes 8 (- 1 :: u64)) = Inr (to_be_bytes 8 (- 1 :: u64), Some (- 1))"
proof -
  have "to_be_bytes 8 (- 1 :: u64) \<noteq> []" by (metis length_to_be_bytes list.size(3) zero_neq_numeral)
  moreover have "saturating_add_word (- 1 :: u64) 1 = - 1" using saturating_next [of "- 1 :: u64"] by auto
  ultimately show ?thesis
    using assms by (simp add: calculation_challenge_def copy_into_def from_be_bytes_to_be_bytes Let_def)
qed

definition example_hotp_state :: OathState where
  "example_hotp_state = \<lparr>os_salt = [1, 2], os_access = None, os_pending_challenge = None,
     os_credentials = [([0x61], \<lparr>oc_secret = [9], oc_type = Hotp, oc_algorithm = Sha1, oc_digits = 6, oc_touch_required = False,
                        oc_only_increasing = False, oc_hotp_counter = 5\<rparr>)]\<rparr>"

definition example_hotp :: "(string, bytes) btree OathApplet" where
  "example_hotp = fst (persist_state example_env (put_state example_hotp_state example_base))"

definition example_calculate :: Apdu where
  "example_calculate = \<lparr>cla = 0, ins = INS_CALCULATE, p1 = 0, p2 = 1, apdu_data = [0x71, 1, 0x61, 0x74, 0], le = None\<rparr>"

lemma example_hotp_run: "snd (persist_state example_env (put_state example_hotp_state example_base)) = Inr ()"
  by code_simp

lemma example_hotp_wf: "oath_wf example_hotp_state"
  by (simp add: example_hotp_state_def oath_wf_def access_wf_def credential_wf_def OATH_SALT_LEN_def MAX_CREDENTIALS_def
      MAX_NAME_LEN_def MAX_SECRET_LEN_def btree_wf_def)

lemmas example_hotp_ok = example_persisted [OF example_hotp_wf example_hotp_run, folded example_hotp_def]

lemma example_factors:
  "factors_used example_env example_hotp [0x61] [Ev_Command example_calculate, Ev_Command example_calculate] = [5, 6]"
  by code_simp


lemma example_calculate_answers: "is_ok (snd (cmd_calculate example_env example_hotp 1 (apdu_data example_calculate)))"
  "parse_calculate (apdu_data example_calculate) = Inr ([0x61], [])"
  by code_simp+

theorem calculate_matches_rfc4226_witness:
  "\<exists>v. length v = 5 \<and> host_code v = hotp_value (ring_hmac example_ring Hmac_Sha1) [9] 5 6"
proof -
  obtain b resp where run: "cmd_calculate example_env example_hotp 1 (apdu_data example_calculate) = (b, Inr resp)"
    using example_calculate_answers(1) by (cases "cmd_calculate example_env example_hotp 1 (apdu_data example_calculate)")
      (auto simp: is_ok_def split: sum.splits)
  have "hmac_lengths (ring example_env)" by (simp add: hmac_lengths_def example_env_def example_ring_def)
  from calculate_matches_rfc4226 [OF this example_hotp_ok(2) _ _ example_calculate_answers(2) run,
      of "snd (hd (os_credentials example_hotp_state))"]
  show ?thesis by (auto simp: example_hotp_state_def btree_get_def moving_factor_def example_env_def)
qed

end
