(* ===== verification/Vault.thy ===== *)
theory Vault
  imports Iso7816 Kv_Contract
begin

section \<open>Applets with an encrypted state in the storage\<close>

text \<open>
  The applets of \<open>openkey-device/src/firmware\<close> keep their state in memory and, encrypted with the master key, under a
  reserved key of the storage they share. The three applets PIV, OpenPGP and Management have the same private
  methods \<open>ensure_loaded\<close>, \<open>state_mut\<close> and \<open>persist_state\<close> up to the format of the state; they are modelled here
  once, with the format as an argument, on the fields these applets share (the storage behind the \<open>RefCell\<close>, the
  crypto engine with the index of the next random draw, and the state). The locale \<open>sealed_applet\<close> is the contract
  between the format and the applet; its lemmas carry through any command that the state in memory is well-formed
  and, unless an error was reported, is the one in the storage.
\<close>

record ('b, 's) Vault =
  va_storage :: "'b StorageEngine"
  va_crypto :: CryptoEngine
  va_draws :: nat
  va_state :: "'s option"

text \<open>The format of a state: its key in the storage, the writer, the reader and the versions that are rewritten on loading.\<close>

record 's Format =
  fm_key :: string
  fm_serialize :: "'s \<Rightarrow> bytes"
  fm_parse :: "bytes \<Rightarrow> 's option"
  fm_outdated :: "bytes \<Rightarrow> bool"

definition put_vault :: "'s \<Rightarrow> ('b, 's, 'm) Vault_scheme \<Rightarrow> ('b, 's, 'm) Vault_scheme" where
  "put_vault s v = v\<lparr>va_state := Some s\<rparr>"

definition vault_persist ::
  "'b StorageEnv \<Rightarrow> 's Format \<Rightarrow> ('b, 's, 'm) Vault_scheme \<Rightarrow> (('b, 's, 'm) Vault_scheme, u16, unit) outcome" where
  "vault_persist env fm v =
     attempt (ok_or (va_state v) SW_CONDITIONS_NOT_SATISFIED) v (\<lambda>s.
       let r = encrypt_with_random_nonce (ring env) (va_crypto v) (va_draws v) (fm_serialize fm s);
           v = v\<lparr>va_draws := va_draws v + 1\<rparr>
       in attempt (map_err (\<lambda>_. SW_CONDITIONS_NOT_SATISFIED) r) v (\<lambda>(nonce, ciphertext).
            let (se, r) = store env (va_storage v) (fm_key fm) (nonce @ ciphertext)
            in (v\<lparr>va_storage := se\<rparr>, map_err (\<lambda>_. SW_CONDITIONS_NOT_SATISFIED) r)))"

definition unseal :: "RingPrims \<Rightarrow> CryptoEngine \<Rightarrow> bytes \<Rightarrow> bytes option" where
  "unseal r crypto blob = (if length blob > 12 then ok (engine_decrypt r crypto (drop 12 blob) (take 12 blob)) else None)"

definition vault_plaintext :: "'b StorageEnv \<Rightarrow> 's Format \<Rightarrow> ('b, 's, 'm) Vault_scheme \<Rightarrow> bytes option" where
  "vault_plaintext env fm v =
     (case retrieve env (va_storage v) (fm_key fm) of
        Inl _ \<Rightarrow> None
      | Inr blob \<Rightarrow> unseal (ring env) (va_crypto v) blob)"

text \<open>\<open>init\<close> is the state of a fresh device; it may draw random bytes.\<close>

definition vault_load ::
  "'b StorageEnv \<Rightarrow> 's Format \<Rightarrow> (('b, 's, 'm) Vault_scheme \<Rightarrow> ('b, 's, 'm) Vault_scheme \<times> 's) \<Rightarrow> ('b, 's, 'm) Vault_scheme
   \<Rightarrow> (('b, 's, 'm) Vault_scheme, u16, unit) outcome" where
  "vault_load env fm init v =
     (if va_state v \<noteq> None then (v, Inr ())
      else
        let plaintext = vault_plaintext env fm v;
            migrated = (case plaintext of Some p \<Rightarrow> fm_outdated fm p | None \<Rightarrow> False)
        in case Option.bind plaintext (fm_parse fm) of
             Some s \<Rightarrow> if migrated then vault_persist env fm (put_vault s v) else (put_vault s v, Inr ())
           | None \<Rightarrow> (let (v, s) = init v in vault_persist env fm (put_vault s v)))"

definition vault_state_mut ::
  "'b StorageEnv \<Rightarrow> 's Format \<Rightarrow> (('b, 's, 'm) Vault_scheme \<Rightarrow> ('b, 's, 'm) Vault_scheme \<times> 's) \<Rightarrow> ('b, 's, 'm) Vault_scheme
   \<Rightarrow> (('b, 's, 'm) Vault_scheme, u16, 's) outcome" where
  "vault_state_mut env fm init v = andthen (vault_load env fm init v) (\<lambda>_ v. (v, Inr (the (va_state v))))"

subsection \<open>Integers as lists of bytes\<close>

lemma list_length_2: "length xs = 2 \<longleftrightarrow> (\<exists>a b. xs = [a, b])"
  by (auto simp: numeral_2_eq_2 length_Suc_conv)

lemma list_length_4: "length xs = 4 \<longleftrightarrow> (\<exists>a b c d. xs = [a, b, c, d])"
  by (auto simp: numeral_eq_Suc length_Suc_conv)

lemma u16_bytes:
  obtains a b where "to_be_bytes 2 (w :: u16) = [a, b]" "from_be_bytes [a, b] = w"
proof -
  obtain a b where l: "to_be_bytes 2 w = [a, b]" using length_to_be_bytes [of 2 w] unfolding list_length_2 by blast
  have "from_be_bytes (to_be_bytes 2 w) = w" by (rule from_be_bytes_to_be_bytes) simp
  then show thesis using that l by simp
qed

lemma u32_bytes:
  obtains a b c d where "to_be_bytes 4 (w :: u32) = [a, b, c, d]" "from_be_bytes [a, b, c, d] = w"
proof -
  obtain a b c d where l: "to_be_bytes 4 w = [a, b, c, d]" using length_to_be_bytes [of 4 w] unfolding list_length_4 by blast
  have "from_be_bytes (to_be_bytes 4 w) = w" by (rule from_be_bytes_to_be_bytes) simp
  then show thesis using that l by simp
qed

subsection \<open>What the storage holds\<close>

definition vault_stored :: "'b StorageEnv \<Rightarrow> 's Format \<Rightarrow> ('b, 's, 'm) Vault_scheme \<Rightarrow> 's option" where
  "vault_stored env fm v = Option.bind (vault_plaintext env fm v) (fm_parse fm)"

text \<open>The lengths of generated keys, as documented for the algorithms.\<close>

definition key_lengths_ring :: "RingPrims \<Rightarrow> bool" where
  "key_lengths_ring r =
     ((\<forall>seed pub. ring_ed25519_public r seed = Some pub \<longrightarrow> length pub = 32)
      \<and> (\<forall>draw key. ring_ecdsa_generate r P256 draw = Some key \<longrightarrow> 32 < length key \<and> length key \<le> 256)
      \<and> (\<forall>key pub. ring_ecdsa_public r P256 key = Some pub \<longrightarrow> length pub = 65))"

definition applet_lib :: "RingPrims \<Rightarrow> bool" where
  "applet_lib r = (sealing_ring r \<and> key_lengths_ring r)"

lemma generated_lengths:
  assumes "applet_lib r"
  shows "generate_key_pair r draw = Inr (priv_key, pub_key) \<Longrightarrow> length priv_key = 32 \<and> length pub_key = 32"
    and "generate_p256_key_pair r draw = Inr (priv_key, pub_key) \<Longrightarrow> 32 < length priv_key \<and> length priv_key \<le> 256 \<and> length pub_key = 65"
proof -
  have "length seed = 32" if "ring_fill r draw 32 = Some seed" for seed
    using assms that by (metis applet_lib_def sealing_ring_def option.sel rng_correct_def)
  then show "generate_key_pair r draw = Inr (priv_key, pub_key) \<Longrightarrow> length priv_key = 32 \<and> length pub_key = 32"
    using assms
    by (auto simp: applet_lib_def key_lengths_ring_def generate_key_pair_def ed25519_key_pair_from_seed_def
        split: if_splits option.splits sum.splits)
  show "generate_p256_key_pair r draw = Inr (priv_key, pub_key) \<Longrightarrow> 32 < length priv_key \<and> length priv_key \<le> 256 \<and> length pub_key = 65"
    using assms
    by (auto simp: applet_lib_def key_lengths_ring_def generate_p256_key_pair_def generate_ecdsa_key_pair_def split: option.splits)
qed

text \<open>A concrete library and an environment in memory, for the witnesses.\<close>

definition example_applet_ring :: RingPrims where
  "example_applet_ring =
     example_ring\<lparr>ring_ed25519_public := \<lambda>seed. Some (resize 32 0 seed), ring_ecdsa_generate := \<lambda>c i. Some (replicate 64 (of_nat i))\<rparr>"

definition example_applet_env :: "(string, bytes) btree StorageEnv" where
  "example_applet_env = example_env\<lparr>ring := example_applet_ring\<rparr>"

lemma example_applet_lib: "applet_lib (ring example_applet_env)"
  by (auto simp: applet_lib_def sealing_ring_def aead_correct_def aead_length_def rng_correct_def key_lengths_ring_def
      example_applet_env_def example_applet_ring_def example_ring_def)

text \<open>The state in memory is well-formed; the storage holds it.\<close>

definition vault_ok :: "('b StorageEngine \<Rightarrow> bool) \<Rightarrow> ('s \<Rightarrow> bool) \<Rightarrow> ('b, 's, 'm) Vault_scheme \<Rightarrow> bool" where
  "vault_ok good valid v = (good (va_storage v) \<and> (\<forall>s. va_state v = Some s \<longrightarrow> valid s))"

definition vault_synced ::
  "'b StorageEnv \<Rightarrow> ('b StorageEngine \<Rightarrow> bool) \<Rightarrow> 's Format \<Rightarrow> ('s \<Rightarrow> bool) \<Rightarrow> ('b, 's, 'm) Vault_scheme \<Rightarrow> bool" where
  "vault_synced env good fm valid v =
     (vault_ok good valid v \<and> (\<forall>s. va_state v = Some s \<longrightarrow> vault_stored env fm v = Some s))"

lemma vault_plaintext_bind:
  "vault_plaintext env fm v =
     Option.bind (ok (retrieve env (va_storage v) (fm_key fm))) (unseal (ring env) (va_crypto v))"
  by (simp add: vault_plaintext_def ok_def split: sum.split)

lemma vault_plaintext_cong:
  "ok (retrieve env (va_storage a) (fm_key fm)) = ok (retrieve env (va_storage b) (fm_key fm)) \<Longrightarrow> va_crypto a = va_crypto b \<Longrightarrow>
   vault_plaintext env fm a = vault_plaintext env fm b"
  by (simp add: vault_plaintext_bind)

lemma vault_stored_fields [simp]:
  "vault_stored env fm (v\<lparr>va_draws := n\<rparr>) = vault_stored env fm v" "vault_stored env fm (v\<lparr>va_state := st\<rparr>) = vault_stored env fm v"
  by (simp_all add: vault_stored_def vault_plaintext_bind)

lemma put_vault_simps [simp]:
  "va_state (put_vault s v) = Some s" "va_storage (put_vault s v) = va_storage v" "va_crypto (put_vault s v) = va_crypto v"
  "va_draws (put_vault s v) = va_draws v" "vault_stored env fm (put_vault s v) = vault_stored env fm v"
  by (simp_all add: put_vault_def)

lemma put_vault_twice [simp]: "put_vault s (put_vault t v) = put_vault s v"
  by (simp add: put_vault_def)

lemma vault_persist_cases:
  "vault_persist env fm v =
     (case va_state v of
        None \<Rightarrow> (v, Inl SW_CONDITIONS_NOT_SATISFIED)
      | Some s \<Rightarrow>
          (let n = random_bytes (ring env) (va_draws v) 12; v' = v\<lparr>va_draws := va_draws v + 1\<rparr>
           in case engine_encrypt (ring env) (va_crypto v) (fm_serialize fm s) n of
                Inl _ \<Rightarrow> (v', Inl SW_CONDITIONS_NOT_SATISFIED)
              | Inr c \<Rightarrow> (v'\<lparr>va_storage := fst (store env (va_storage v) (fm_key fm) (n @ c))\<rparr>,
                         map_err (\<lambda>_. SW_CONDITIONS_NOT_SATISFIED) (snd (store env (va_storage v) (fm_key fm) (n @ c))))))"
  by (simp add: vault_persist_def encrypt_with_random_nonce_def Let_def split_beta split: option.split sum.split)

text \<open>Persisting changes only the storage and the number of draws, and its only error is one status word.\<close>

lemma vault_persist_frame:
  assumes "vault_persist env fm v = (v', r)"
  shows "\<exists>n se. v' = v\<lparr>va_draws := n, va_storage := se\<rparr>" "r = Inr () \<or> r = Inl SW_CONDITIONS_NOT_SATISFIED"
proof -
  have "(\<exists>n se. v' = v\<lparr>va_draws := n, va_storage := se\<rparr>) \<and> (r = Inr () \<or> r = Inl SW_CONDITIONS_NOT_SATISFIED)"
  proof (cases "va_state v")
    case None
    then have "v' = v\<lparr>va_draws := va_draws v, va_storage := va_storage v\<rparr>" "r = Inl SW_CONDITIONS_NOT_SATISFIED"
      using assms by (simp_all add: vault_persist_cases)
    then show ?thesis by blast
  next
    case (Some s)
    let ?n = "random_bytes (ring env) (va_draws v) 12"
    show ?thesis
    proof (cases "engine_encrypt (ring env) (va_crypto v) (fm_serialize fm s) ?n")
      case (Inl m)
      then have "v' = v\<lparr>va_draws := va_draws v + 1, va_storage := va_storage v\<rparr>" "r = Inl SW_CONDITIONS_NOT_SATISFIED"
        using assms Some by (auto simp: vault_persist_cases)
      then show ?thesis by blast
    next
      case (Inr c)
      then show ?thesis
        using assms Some by (cases "snd (store env (va_storage v) (fm_key fm) (?n @ c))") (auto simp: vault_persist_cases Let_def)
    qed
  qed
  then show "\<exists>n se. v' = v\<lparr>va_draws := n, va_storage := se\<rparr>" "r = Inr () \<or> r = Inl SW_CONDITIONS_NOT_SATISFIED" by simp_all
qed

lemma vault_persist_state: "vault_persist env fm v = (v', r) \<Longrightarrow> va_state v' = va_state v"
  by (auto dest: vault_persist_frame(1))

lemma vault_load_loaded [simp]: "va_state v = Some s \<Longrightarrow> vault_load env fm init v = (v, Inr ())"
  by (simp add: vault_load_def)

lemma vault_state_mut_loaded [simp]: "va_state v = Some s \<Longrightarrow> vault_state_mut env fm init v = (v, Inr s)"
  by (simp add: vault_state_mut_def)

lemma vault_load_ok: "vault_load env fm init v = (v', Inr u) \<Longrightarrow> va_state v' \<noteq> None"
  by (auto simp: vault_load_def Let_def split_beta split: if_splits option.splits dest!: vault_persist_state)

lemma vault_state_mut_ok: "vault_state_mut env fm init v = (v', Inr s) \<Longrightarrow> va_state v' = Some s"
  by (auto simp: vault_state_mut_def effect_ok dest: vault_load_ok)

subsection \<open>Carrying the synchronisation through a command\<close>

text \<open>A run ends in a good state, and synchronised unless it reports that persisting failed.\<close>

definition vault_keeps ::
  "'b StorageEnv \<Rightarrow> ('b StorageEngine \<Rightarrow> bool) \<Rightarrow> 's Format \<Rightarrow> ('s \<Rightarrow> bool) \<Rightarrow> (('b, 's, 'm) Vault_scheme, u16, 'a) outcome \<Rightarrow> bool" where
  "vault_keeps env good fm valid r =
     (vault_ok good valid (fst r) \<and> (snd r \<noteq> Inl SW_CONDITIONS_NOT_SATISFIED \<longrightarrow> vault_synced env good fm valid (fst r)))"

named_theorems vault_steps "rules that carry the synchronisation through a run"

lemma vault_synced_ok: "vault_synced env good fm valid v \<Longrightarrow> vault_ok good valid v"
  by (simp add: vault_synced_def)

lemma vault_synced_valid: "vault_synced env good fm valid v \<Longrightarrow> va_state v = Some s \<Longrightarrow> valid s"
  by (simp add: vault_synced_def vault_ok_def)

lemma vault_keeps_same [vault_steps]: "vault_synced env good fm valid v \<Longrightarrow> vault_keeps env good fm valid (v, r)"
  by (simp add: vault_keeps_def vault_synced_def)

lemma vault_keeps_attempt [vault_steps]:
  "vault_synced env good fm valid v \<Longrightarrow> (\<And>x. r = Inr x \<Longrightarrow> vault_keeps env good fm valid (f x)) \<Longrightarrow> vault_keeps env good fm valid (attempt r v f)"
  by (cases r) (simp_all add: vault_keeps_same)

lemma vault_keeps_check [vault_steps]:
  "vault_synced env good fm valid v \<Longrightarrow> (\<not> c \<Longrightarrow> vault_keeps env good fm valid k) \<Longrightarrow> vault_keeps env good fm valid (check c e v k)"
  by (cases c) (simp_all add: vault_keeps_same)

lemma vault_keeps_andthen [vault_steps]:
  assumes "vault_keeps env good fm valid r"
    and "\<And>x v. r = (v, Inr x) \<Longrightarrow> vault_synced env good fm valid v \<Longrightarrow> vault_keeps env good fm valid (f x v)"
  shows "vault_keeps env good fm valid (andthen r f)"
proof (cases r)
  case (Pair v q)
  then show ?thesis using assms by (cases q) (simp_all add: vault_keeps_def)
qed

lemma vault_keeps_prod [vault_steps]:
  "(\<And>x y. p = (x, y) \<Longrightarrow> vault_keeps env good fm valid (f x y)) \<Longrightarrow> vault_keeps env good fm valid (case p of (x, y) \<Rightarrow> f x y)"
  by (cases p) simp

lemma vault_keeps_if [vault_steps]:
  "(c \<Longrightarrow> vault_keeps env good fm valid a) \<Longrightarrow> (\<not> c \<Longrightarrow> vault_keeps env good fm valid b) \<Longrightarrow>
   vault_keeps env good fm valid (if c then a else b)"
  by simp

lemma vault_synced_fields [simp]:
  "vault_synced env good fm valid (v\<lparr>va_draws := n\<rparr>) = vault_synced env good fm valid v"
  by (simp add: vault_synced_def vault_ok_def)

subsection \<open>The contract of a format\<close>

locale sealed_applet = kv_ops "store env" "retrieve env" "kv_delete env" good
  for env :: "'b StorageEnv" and good :: "'b StorageEngine \<Rightarrow> bool" +
  fixes fm :: "'s Format" and valid :: "'s \<Rightarrow> bool"
  assumes parse_serialize: "valid s \<Longrightarrow> fm_parse fm (fm_serialize fm s) = Some s"
    and serialize_nonempty: "fm_serialize fm s \<noteq> []"
    and parse_wf: "fm_parse fm p = Some s \<Longrightarrow> valid s"
begin

lemma persist_ok:
  assumes "good (va_storage v)" "valid s" "va_state v = Some s" "vault_persist env fm v = (v', Inr u)" "sealing_ring (ring env)"
  shows "vault_synced env good fm valid v' \<and> va_state v' = Some s"
proof -
  have aead: "aead_correct (ring env)" and seal_length: "aead_length (ring env)" and rng: "rng_correct (ring env)"
    using assms(5) by (simp_all add: sealing_ring_def)
  let ?n = "random_bytes (ring env) (va_draws v) 12"
  obtain c where c: "engine_encrypt (ring env) (va_crypto v) (fm_serialize fm s) ?n = Inr c"
    and st: "store env (va_storage v) (fm_key fm) (?n @ c) = (va_storage v', Inr ())"
    and f: "va_crypto v' = va_crypto v" "va_state v' = Some s"
    using assms(3,4) by (auto simp: vault_persist_cases Let_def map_err_ok prod_eq_iff split: sum.splits)
  have n: "length ?n = 12" by (rule length_random_bytes [OF rng])
  have "length (fm_serialize fm s) \<le> length c"
    using c seal_length by (auto simp: engine_encrypt_def aead_length_def split: if_splits option.splits)
  then have "c \<noteq> []" using serialize_nonempty [of s] by auto
  moreover have "ok (retrieve env (va_storage v') (fm_key fm)) = Some (?n @ c)"
    using put_get [OF assms(1) st, of "fm_key fm"] by simp
  moreover have "engine_decrypt (ring env) (va_crypto v') c ?n = Inr (fm_serialize fm s)"
    using engine_decrypt_encrypt [OF aead c] f by simp
  ultimately have "vault_stored env fm v' = Some s"
    using n parse_serialize [OF assms(2)] by (simp add: vault_stored_def vault_plaintext_bind unseal_def)
  moreover have "good (va_storage v')" using put_good [OF assms(1)] st by (metis fst_conv)
  ultimately show ?thesis using f assms(2) by (simp add: vault_synced_def vault_ok_def)
qed

lemma persist_fail:
  assumes "good (va_storage v)" "vault_persist env fm v = (v', Inl e)"
  shows "good (va_storage v') \<and> vault_stored env fm v' = vault_stored env fm v"
proof -
  let ?n = "random_bytes (ring env) (va_draws v) 12"
  let ?st = "\<lambda>c. store env (va_storage v) (fm_key fm) (?n @ c)"
  show ?thesis
  proof (cases "va_state v")
    case None
    then show ?thesis using assms by (auto simp: vault_persist_cases)
  next
    case (Some s)
    show ?thesis
    proof (cases "engine_encrypt (ring env) (va_crypto v) (fm_serialize fm s) ?n")
      case (Inl m)
      then show ?thesis using assms Some by (auto simp: vault_persist_cases)
    next
      case (Inr c)
      then have v': "v' = v\<lparr>va_draws := va_draws v + 1, va_storage := fst (?st c)\<rparr>"
        and r: "map_err (\<lambda>_. SW_CONDITIONS_NOT_SATISFIED) (snd (?st c)) = Inl e"
        using assms(2) Some by (auto simp: vault_persist_cases Let_def)
      from r obtain m where "snd (?st c) = Inl m" by (cases "snd (?st c)") simp_all
      then have "ok (retrieve env (va_storage v') (fm_key fm)) = ok (retrieve env (va_storage v) (fm_key fm))"
        using put_fail [OF assms(1), of "fm_key fm" "?n @ c" "fst (?st c)" m] v' by (simp add: prod_eq_iff)
      then show ?thesis using put_good [OF assms(1)] v' by (simp add: vault_stored_def vault_plaintext_bind)
    qed
  qed
qed

lemma stored_wf: "vault_stored env fm v = Some s \<Longrightarrow> valid s"
  by (auto simp: vault_stored_def bind_eq_Some_conv intro: parse_wf)

lemma keeps_persist [vault_steps]:
  assumes "vault_ok good valid v" "valid s" "sealing_ring (ring env)"
  shows "vault_keeps env good fm valid (vault_persist env fm (put_vault s v))"
proof (cases "vault_persist env fm (put_vault s v)")
  case (Pair v' r)
  have good: "good (va_storage (put_vault s v))" using assms(1) by (simp add: vault_ok_def)
  show ?thesis
  proof (cases r)
    case (Inl e)
    then show ?thesis
      using persist_fail [OF good] Pair assms(2) vault_persist_state [OF Pair] vault_persist_frame(2) [OF Pair]
      by (auto simp: vault_keeps_def vault_ok_def)
  next
    case (Inr u)
    then show ?thesis using persist_ok [OF good assms(2) _ _ assms(3)] Pair by (auto simp: vault_keeps_def vault_synced_ok)
  qed
qed

lemma keeps_load [vault_steps]:
  assumes "vault_synced env good fm valid v" "sealing_ring (ring env)"
    and "vault_ok good valid (fst (init v))" "valid (snd (init v))"
  shows "vault_keeps env good fm valid (vault_load env fm init v)"
proof (cases "va_state v")
  case None
  have ok: "vault_ok good valid v" using assms(1) by (rule vault_synced_ok)
  show ?thesis
  proof (cases "vault_stored env fm v")
    case None
    then show ?thesis
      using keeps_persist [OF assms(3,4,2)] \<open>va_state v = None\<close> by (simp add: vault_load_def vault_stored_def split_beta)
  next
    case (Some s)
    have "vault_synced env good fm valid (put_vault s v)"
      using ok stored_wf [OF Some] Some by (simp add: vault_synced_def vault_ok_def)
    then show ?thesis
      using keeps_persist [OF ok stored_wf [OF Some] assms(2)] Some \<open>va_state v = None\<close>
      by (auto simp: vault_load_def vault_stored_def Let_def vault_keeps_same)
  qed
qed (use assms in \<open>auto simp: vault_keeps_same\<close>)

lemma keeps_state_mut [vault_steps]:
  assumes "vault_synced env good fm valid v" "sealing_ring (ring env)"
    and "vault_ok good valid (fst (init v))" "valid (snd (init v))"
  shows "vault_keeps env good fm valid (vault_state_mut env fm init v)"
  unfolding vault_state_mut_def by (intro vault_steps assms)

text \<open>After a power cycle the state comes back from the storage.\<close>

lemma reload_synced:
  assumes "vault_synced env good fm valid v" "va_state v = Some s" "va_storage w = va_storage v" "va_crypto w = va_crypto v"
    and "va_state w = None"
  shows "va_state (fst (vault_load env fm init w)) = Some s"
proof -
  have "vault_stored env fm w = Some s"
    using assms(1,2) vault_plaintext_cong [of env w fm v] assms(3,4) by (simp add: vault_synced_def vault_stored_def)
  then show ?thesis
    using vault_persist_state [of env fm "put_vault s w"] assms(5)
    by (cases "vault_persist env fm (put_vault s w)") (auto simp: vault_load_def vault_stored_def Let_def)
qed

text \<open>Records of other applets in the same storage stay as they are.\<close>

lemma persist_other:
  assumes "good (va_storage v)" "k \<noteq> fm_key fm" "vault_persist env fm v = (v', r)"
  shows "ok (retrieve env (va_storage v') k) = ok (retrieve env (va_storage v) k)"
  using assms put_other [OF assms(1,2)]
  by (auto simp: vault_persist_cases Let_def split: option.splits sum.splits)

end

subsection \<open>Sessions\<close>

text \<open>What a card sees: selections, commands and power cycles; a session collects the errors.\<close>

datatype CardEvent = Card_Select | Card_Command Apdu | Card_PowerCycle

fun card_session :: "('v \<Rightarrow> CardEvent \<Rightarrow> ('v, u16, unit) outcome) \<Rightarrow> 'v \<Rightarrow> CardEvent list \<Rightarrow> 'v \<times> (u16, unit) result list" where
  "card_session step v [] = (v, [])"
| "card_session step v (ev # evs) = (let (v, r) = step v ev; (v, rs) = card_session step v evs in (v, r # rs))"

lemma card_session_Cons:
  "card_session step v (ev # evs) = (b, rs) \<longleftrightarrow>
   (\<exists>a r rs'. step v ev = (a, r) \<and> card_session step a evs = (b, rs') \<and> rs = r # rs')"
  by (auto split: prod.splits)

end
