(* ===== verification/Piv.thy ===== *)
theory Piv
  imports Vault
begin

section \<open>The PIV applet\<close>

text \<open>
  Models \<open>PivApplet\<close> of \<open>openkey-device/src/firmware/yubico_piv.rs\<close>: the persisted state with its three format
  versions, the PIN with its retry counter, the key slots and certificates, every command and the trait \<open>Applet\<close>.
  Loading and persisting are those of \<open>Vault\<close>. Overwriting a vector with zeros before it is dropped or replaced
  (\<open>zeroize\<close>) has no effect on the value of the state and is left out, as are log output, \<open>Debug\<close> and \<open>Drop\<close>.
\<close>

unbundle bit_operations_syntax

definition AID_PIV :: bytes where
  "AID_PIV = [0xA0, 0x00, 0x00, 0x03, 0x08, 0x00, 0x00, 0x10, 0x00, 0x01, 0x00]"

definition PIV_STORAGE_KEY :: string where "PIV_STORAGE_KEY = ''sys:piv''"
definition PIV_FORMAT_VERSION :: u8 where "PIV_FORMAT_VERSION = 3"
definition DEFAULT_PIN :: bytes where "DEFAULT_PIN = [0x31, 0x32, 0x33, 0x34, 0x35, 0x36]"
definition PIV_MAX_RETRIES :: u8 where "PIV_MAX_RETRIES = 3"
definition PIN_WIRE_LEN :: usize where "PIN_WIRE_LEN = 8"
definition MIN_PIN_LEN :: usize where "MIN_PIN_LEN = 6"
definition MAX_PIN_LEN :: usize where "MAX_PIN_LEN = 8"

definition PIV_INS_VERIFY :: u8 where "PIV_INS_VERIFY = 0x20"
definition INS_CHANGE_REFERENCE_DATA :: u8 where "INS_CHANGE_REFERENCE_DATA = 0x24"
definition PIV_INS_GET_DATA :: u8 where "PIV_INS_GET_DATA = 0xCB"
definition PIV_INS_GENERATE :: u8 where "PIV_INS_GENERATE = 0x47"
definition INS_AUTHENTICATE :: u8 where "INS_AUTHENTICATE = 0x87"
definition INS_PUT_DATA :: u8 where "INS_PUT_DATA = 0xDB"

definition SLOT_PIV_AUTH :: u8 where "SLOT_PIV_AUTH = 0x9A"
definition SLOT_DIG_SIG :: u8 where "SLOT_DIG_SIG = 0x9C"
definition SLOT_KEY_MGMT :: u8 where "SLOT_KEY_MGMT = 0x9D"
definition SLOT_CARD_AUTH :: u8 where "SLOT_CARD_AUTH = 0x9E"

definition PIV_ALG_P256 :: u8 where "PIV_ALG_P256 = 0x11"
definition PIV_ALG_ED25519 :: u8 where "PIV_ALG_ED25519 = 0xE0"
definition PIV_MAX_CHALLENGE_LEN :: usize where "PIV_MAX_CHALLENGE_LEN = 512"
definition MAX_CERT_LEN :: usize where "MAX_CERT_LEN = 2048"

definition TAG_DISCOVERY :: u8 where "TAG_DISCOVERY = 0x7E"
definition TAG_CHUID :: bytes where "TAG_CHUID = [0x5F, 0xC1, 0x02]"
definition PIV_SW_CLASS_NOT_SUPPORTED :: u16 where "PIV_SW_CLASS_NOT_SUPPORTED = 0x6E00"
definition PIV_SW_WRONG_SYNTAX :: u16 where "PIV_SW_WRONG_SYNTAX = 0x6A80"

definition piv_sw_retries :: "u8 \<Rightarrow> u16" where
  "piv_sw_retries left = 0x63C0 OR ucast (left AND 0x0F)"

subsection \<open>State\<close>

record PivKey =
  pk_slot :: u8
  pk_alg :: u8
  pk_priv :: bytes
  pk_pub :: bytes

record PivCert =
  pc_slot :: u8
  pc_der :: bytes

record PivState =
  ps_pin :: bytes
  ps_retries :: u8
  ps_keys :: "PivKey list"
  ps_certs :: "PivCert list"

definition is_valid_slot :: "u8 \<Rightarrow> bool" where
  "is_valid_slot slot = (slot = SLOT_PIV_AUTH \<or> slot = SLOT_DIG_SIG \<or> slot = SLOT_KEY_MGMT \<or> slot = SLOT_CARD_AUTH)"

definition piv_is_valid_alg :: "u8 \<Rightarrow> bool" where
  "piv_is_valid_alg alg = (alg = PIV_ALG_P256 \<or> alg = PIV_ALG_ED25519)"

definition piv_key_lengths_ok :: "u8 \<Rightarrow> usize \<Rightarrow> usize \<Rightarrow> bool" where
  "piv_key_lengths_ok alg priv_len pub_len =
     (if alg = PIV_ALG_ED25519 then priv_len = 32 \<and> pub_len = 32
      else if alg = PIV_ALG_P256 then priv_len > 32 \<and> priv_len \<le> 256 \<and> pub_len = 65
      else False)"

text \<open>A 16-bit length and the bytes; \<open>as u16\<close> keeps the low bits.\<close>

definition len16 :: "bytes \<Rightarrow> bytes" where
  "len16 bs = to_be_bytes 2 (of_nat (length bs) :: u16) @ bs"

definition serialize_piv_key :: "PivKey \<Rightarrow> bytes" where
  "serialize_piv_key k = [pk_slot k, pk_alg k] @ len16 (pk_priv k) @ len16 (pk_pub k)"

definition serialize_piv_cert :: "PivCert \<Rightarrow> bytes" where
  "serialize_piv_cert c = pc_slot c # len16 (pc_der c)"

definition serialize_piv_state :: "PivState \<Rightarrow> bytes" where
  "serialize_piv_state s =
     [PIV_FORMAT_VERSION, of_nat (length (ps_pin s))] @ ps_pin s @ [ps_retries s, of_nat (length (ps_keys s))]
     @ concat (map serialize_piv_key (ps_keys s))
     @ of_nat (length (ps_certs s)) # concat (map serialize_piv_cert (ps_certs s))"

definition u16_at :: "bytes \<Rightarrow> usize \<Rightarrow> usize" where
  "u16_at blob i = unat (from_be_bytes [blob ! i, blob ! (i + 1)] :: u16)"

definition parse_piv_v1 :: "bytes \<Rightarrow> PivState option" where
  "parse_piv_v1 blob =
     (if length blob < 3 \<or> blob ! 0 \<noteq> 1 then None
      else
        let pin_len = unat (blob ! 1) in
        if \<not> (MIN_PIN_LEN \<le> pin_len \<and> pin_len \<le> MAX_PIN_LEN) then None
        else if length blob \<noteq> 2 + pin_len + 1 then None
        else
          let pin = slice_of 2 (2 + pin_len) blob; retries = blob ! (2 + pin_len) in
          if retries > PIV_MAX_RETRIES then None
          else Some \<lparr>ps_pin = pin, ps_retries = retries, ps_keys = [], ps_certs = []\<rparr>)"

text \<open>One round of the loop over the keys, from the cursor, and the loop; then those over the certificates.\<close>

definition parse_piv_key :: "bytes \<Rightarrow> usize \<Rightarrow> (PivKey \<times> usize) option" where
  "parse_piv_key blob cursor =
     (if length blob < cursor + 2 + 2 then None
      else
        let slot = blob ! cursor; alg = blob ! (cursor + 1) in
        if \<not> is_valid_slot slot \<or> \<not> piv_is_valid_alg alg then None
        else
          let priv_len = u16_at blob (cursor + 2); cursor = cursor + 4 in
          if length blob < cursor + priv_len + 2 then None
          else
            let priv_key = slice_of cursor (cursor + priv_len) blob; cursor = cursor + priv_len;
                pub_len = u16_at blob cursor; cursor = cursor + 2 in
            if length blob < cursor + pub_len then None
            else
              let pub_key = slice_of cursor (cursor + pub_len) blob; cursor = cursor + pub_len in
              if \<not> piv_key_lengths_ok alg (length priv_key) (length pub_key) then None
              else Some (\<lparr>pk_slot = slot, pk_alg = alg, pk_priv = priv_key, pk_pub = pub_key\<rparr>, cursor))"

fun parse_piv_keys :: "nat \<Rightarrow> bytes \<Rightarrow> usize \<Rightarrow> PivKey list \<Rightarrow> (PivKey list \<times> usize) option" where
  "parse_piv_keys 0 blob cursor keys = Some (keys, cursor)"
| "parse_piv_keys (Suc n) blob cursor keys =
     Option.bind (parse_piv_key blob cursor) (\<lambda>(key, cursor). parse_piv_keys n blob cursor (keys @ [key]))"

definition parse_piv_cert :: "bytes \<Rightarrow> usize \<Rightarrow> (PivCert \<times> usize) option" where
  "parse_piv_cert blob cursor =
     (if length blob < cursor + 1 + 2 then None
      else
        let slot = blob ! cursor in
        if \<not> is_valid_slot slot then None
        else
          let cert_len = u16_at blob (cursor + 1); cursor = cursor + 3 in
          if cert_len = 0 \<or> cert_len > MAX_CERT_LEN then None
          else if length blob < cursor + cert_len then None
          else Some (\<lparr>pc_slot = slot, pc_der = slice_of cursor (cursor + cert_len) blob\<rparr>, cursor + cert_len))"

fun parse_piv_certs :: "nat \<Rightarrow> bytes \<Rightarrow> usize \<Rightarrow> PivCert list \<Rightarrow> (PivCert list \<times> usize) option" where
  "parse_piv_certs 0 blob cursor certs = Some (certs, cursor)"
| "parse_piv_certs (Suc n) blob cursor certs =
     Option.bind (parse_piv_cert blob cursor) (\<lambda>(cert, cursor). parse_piv_certs n blob cursor (certs @ [cert]))"

text \<open>The PIN, the retries and the number of keys, which versions 2 and 3 share.\<close>

definition parse_piv_head :: "bytes \<Rightarrow> (bytes \<times> u8 \<times> nat \<times> usize) option" where
  "parse_piv_head blob =
     (let pin_len = unat (blob ! 1) in
      if \<not> (MIN_PIN_LEN \<le> pin_len \<and> pin_len \<le> MAX_PIN_LEN) then None
      else if length blob < 2 + pin_len + 2 then None
      else
        let pin = slice_of 2 (2 + pin_len) blob; retries = blob ! (2 + pin_len) in
        if retries > PIV_MAX_RETRIES then None
        else Some (pin, retries, unat (blob ! (2 + pin_len + 1)), 2 + pin_len + 2))"

text \<open>The loops that look for two entries with the same slot accept exactly the lists with distinct slots.\<close>

definition parse_piv_v2 :: "bytes \<Rightarrow> PivState option" where
  "parse_piv_v2 blob =
     (if length blob < 4 \<or> blob ! 0 \<noteq> 2 then None
      else Option.bind (parse_piv_head blob) (\<lambda>(pin, retries, num_keys, cursor).
             Option.bind (parse_piv_keys num_keys blob cursor []) (\<lambda>(keys, cursor).
               if cursor \<noteq> length blob then None
               else if \<not> distinct (map pk_slot keys) then None
               else Some \<lparr>ps_pin = pin, ps_retries = retries, ps_keys = keys, ps_certs = []\<rparr>)))"

definition parse_piv_v3 :: "bytes \<Rightarrow> PivState option" where
  "parse_piv_v3 blob =
     (if length blob < 5 \<or> blob ! 0 \<noteq> PIV_FORMAT_VERSION then None
      else Option.bind (parse_piv_head blob) (\<lambda>(pin, retries, num_keys, cursor).
             Option.bind (parse_piv_keys num_keys blob cursor []) (\<lambda>(keys, cursor).
               if length blob < cursor + 1 then None
               else Option.bind (parse_piv_certs (unat (blob ! cursor)) blob (cursor + 1) []) (\<lambda>(certs, cursor).
                 if cursor \<noteq> length blob then None
                 else if \<not> distinct (map pk_slot keys) then None
                 else if \<not> distinct (map pc_slot certs) then None
                 else Some \<lparr>ps_pin = pin, ps_retries = retries, ps_keys = keys, ps_certs = certs\<rparr>))))"

definition parse_piv_state :: "bytes \<Rightarrow> PivState option" where
  "parse_piv_state blob =
     (if blob = [] then None
      else if blob ! 0 = 1 then parse_piv_v1 blob
      else if blob ! 0 = 2 then parse_piv_v2 blob
      else if blob ! 0 = PIV_FORMAT_VERSION then parse_piv_v3 blob
      else None)"

subsection \<open>Requests and objects\<close>

definition slot_tag :: "u8 \<Rightarrow> bytes option" where
  "slot_tag slot =
     (if slot = SLOT_PIV_AUTH then Some [0x5F, 0xC1, 0x05]
      else if slot = SLOT_DIG_SIG then Some [0x5F, 0xC1, 0x0A]
      else if slot = SLOT_KEY_MGMT then Some [0x5F, 0xC1, 0x0B]
      else if slot = SLOT_CARD_AUTH then Some [0x5F, 0xC1, 0x0C]
      else None)"

definition slot_from_tag :: "bytes \<Rightarrow> u8 option" where
  "slot_from_tag tag = List.find (\<lambda>slot. slot_tag slot = Some tag) [SLOT_PIV_AUTH, SLOT_DIG_SIG, SLOT_KEY_MGMT, SLOT_CARD_AUTH]"

definition piv_parse_generate_alg :: "bytes \<Rightarrow> u8 option" where
  "piv_parse_generate_alg data =
     (if length data = 1 \<and> piv_is_valid_alg (data ! 0) then Some (data ! 0)
      else if length data = 5 \<and> data ! 0 = 0xAC \<and> data ! 1 = 0x03 \<and> data ! 2 = 0x80 \<and> data ! 3 = 0x01
      then (if piv_is_valid_alg (data ! 4) then Some (data ! 4) else None)
      else None)"

definition piv_pubkey_object :: "u8 \<Rightarrow> bytes \<Rightarrow> bytes" where
  "piv_pubkey_object alg pub_key =
     (let inner = [0x80, 0x01, alg] @ [0x86] @ [of_nat (length pub_key)] @ pub_key
      in [0x7F, 0x49, of_nat (length inner)] @ inner)"

definition extract_challenge :: "bytes \<Rightarrow> bytes option" where
  "extract_challenge data =
     (if data = [] \<or> length data > PIV_MAX_CHALLENGE_LEN then None
      else if data ! 0 \<noteq> 0x7C then Some data
      else if length data < 2 \<or> unat (data ! 1) + 2 \<noteq> length data then None
      else
        let inner = drop 2 data in
        if length inner < 2 \<or> inner ! 0 \<noteq> 0x81 then None
        else
          let len = unat (inner ! 1) in
          if length inner < 2 + len \<or> len = 0 then None else Some (slice_of 2 (2 + len) inner))"

text \<open>The callers pass values of at most 255 bytes, as the assertion demands.\<close>

definition piv_push_tlv :: "bytes \<Rightarrow> u8 \<Rightarrow> bytes \<Rightarrow> bytes" where
  "piv_push_tlv out tag value = out @ [tag, of_nat (length value)] @ value"

fun strip_from :: "bytes \<Rightarrow> usize \<Rightarrow> usize" where
  "strip_from padded 0 = 0"
| "strip_from padded (Suc n) = (if padded ! n = 0xFF then strip_from padded n else Suc n)"

definition strip_pin_padding :: "bytes \<Rightarrow> bytes" where
  "strip_pin_padding padded = take (strip_from padded (length padded)) padded"

definition put_data_header :: "bytes \<Rightarrow> (usize \<times> usize) option" where
  "put_data_header data =
     (if data ! 3 < 0x80 then Some (unat (data ! 3), 4)
      else if data ! 3 = 0x81 then (if length data < 5 then None else Some (unat (data ! 4), 5))
      else if data ! 3 = 0x82 then (if length data < 6 then None else Some (u16_at data 4, 6))
      else None)"

definition parse_put_data :: "bytes \<Rightarrow> (u8 \<times> bytes) option" where
  "parse_put_data data =
     (if length data < 4 then None
      else Option.bind (slot_from_tag (take 3 data)) (\<lambda>slot.
           Option.bind (put_data_header data) (\<lambda>(value_len, header_len).
             if value_len = 0 \<or> value_len > MAX_CERT_LEN then None
             else if length data \<noteq> header_len + value_len then None
             else Some (slot, drop header_len data))))"

definition discovery_object :: bytes where
  "discovery_object = piv_push_tlv [] TAG_DISCOVERY (piv_push_tlv [] 0x4F AID_PIV)"

definition chuid_object :: bytes where
  "chuid_object =
     (let content = piv_push_tlv [] 0x30 [0x4F, 0x70, 0x65, 0x6E, 0x4B, 0x65, 0x79, 0x2D, 0x50, 0x49, 0x56, 0x2D, 0x46, 0x31]
      in TAG_CHUID @ of_nat (length content) # content)"

subsection \<open>The applet\<close>

record 'b PivApplet = "('b, PivState) Vault" +
  piv_verified :: bool

definition piv_format :: "PivState Format" where
  "piv_format = \<lparr>fm_key = PIV_STORAGE_KEY, fm_serialize = serialize_piv_state, fm_parse = parse_piv_state,
     fm_outdated = (\<lambda>p. p \<noteq> [] \<and> (p ! 0 = 1 \<or> p ! 0 = 2))\<rparr>"

definition piv_factory :: PivState where
  "piv_factory = \<lparr>ps_pin = DEFAULT_PIN, ps_retries = PIV_MAX_RETRIES, ps_keys = [], ps_certs = []\<rparr>"

definition piv_ensure_loaded :: "'b StorageEnv \<Rightarrow> 'b PivApplet \<Rightarrow> ('b PivApplet, u16, unit) outcome" where
  "piv_ensure_loaded env = vault_load env piv_format (\<lambda>v. (v, piv_factory))"

definition piv_state_mut :: "'b StorageEnv \<Rightarrow> 'b PivApplet \<Rightarrow> ('b PivApplet, u16, PivState) outcome" where
  "piv_state_mut env = vault_state_mut env piv_format (\<lambda>v. (v, piv_factory))"

definition piv_persist_state :: "'b StorageEnv \<Rightarrow> 'b PivApplet \<Rightarrow> ('b PivApplet, u16, unit) outcome" where
  "piv_persist_state env = vault_persist env piv_format"

definition piv_new :: "'b StorageEnv \<Rightarrow> 'b StorageEngine \<Rightarrow> CryptoEngine \<Rightarrow> nat \<Rightarrow> ('b PivApplet, u16, unit) outcome" where
  "piv_new env storage crypto draws =
     piv_ensure_loaded env \<lparr>va_storage = storage, va_crypto = crypto, va_draws = draws, va_state = None, piv_verified = False\<rparr>"

definition consume_retry :: "'b StorageEnv \<Rightarrow> 'b PivApplet \<Rightarrow> ('b PivApplet, u16, u16) outcome" where
  "consume_retry env v =
     andthen (piv_state_mut env v) (\<lambda>s v.
       let left = saturating_sub_word (ps_retries s) 1;
           sw = (if left = 0 then SW_SECURITY_STATUS else piv_sw_retries left);
           v = put_vault (s\<lparr>ps_retries := left\<rparr>) v;
           v = (if sw = SW_SECURITY_STATUS then v\<lparr>piv_verified := False\<rparr> else v)
       in andthen (piv_persist_state env v) (\<lambda>_ v. (v, Inr sw)))"

definition find_key :: "u8 \<Rightarrow> PivState \<Rightarrow> PivKey option" where
  "find_key slot s = List.find (\<lambda>k. pk_slot k = slot) (ps_keys s)"

definition find_key_public :: "'b StorageEnv \<Rightarrow> 'b PivApplet \<Rightarrow> u8 \<Rightarrow> ('b PivApplet, u16, (u8 \<times> bytes) option) outcome" where
  "find_key_public env v slot =
     andthen (piv_state_mut env v) (\<lambda>s v. (v, Inr (map_option (\<lambda>k. (pk_alg k, pk_pub k)) (find_key slot s))))"

definition find_cert :: "'b StorageEnv \<Rightarrow> 'b PivApplet \<Rightarrow> u8 \<Rightarrow> ('b PivApplet, u16, bytes option) outcome" where
  "find_cert env v slot =
     andthen (piv_state_mut env v) (\<lambda>s v. (v, Inr (map_option pc_der (List.find (\<lambda>c. pc_slot c = slot) (ps_certs s)))))"

definition piv_get_data :: "'b StorageEnv \<Rightarrow> 'b PivApplet \<Rightarrow> Apdu \<Rightarrow> ('b PivApplet, u16, ResponseData) outcome" where
  "piv_get_data env v apdu =
     check (p1 apdu \<noteq> 0x3F \<or> p2 apdu \<noteq> 0xFF) SW_WRONG_P1_P2 v
     (if apdu_data apdu = [TAG_DISCOVERY] then (v, Inr (resp_ok discovery_object))
      else if apdu_data apdu = TAG_CHUID then (v, Inr (resp_ok chuid_object))
      else attempt (ok_or (slot_from_tag (apdu_data apdu)) SW_FILE_NOT_FOUND) v (\<lambda>slot.
             andthen (find_cert env v slot) (\<lambda>cert v.
               case cert of
                 Some der \<Rightarrow> (v, Inr (resp_ok der))
               | None \<Rightarrow>
                   andthen (find_key_public env v slot) (\<lambda>key v.
                     attempt (ok_or key SW_SECURITY_STATUS) v (\<lambda>(alg, pub_key).
                       (v, Inr (resp_ok (piv_pubkey_object alg pub_key))))))))"

text \<open>The entry of a slot is overwritten where it stands or added at the end.\<close>

fun put_key :: "PivKey \<Rightarrow> PivKey list \<Rightarrow> PivKey list" where
  "put_key k [] = [k]"
| "put_key k (x # xs) = (if pk_slot x = pk_slot k then k # xs else x # put_key k xs)"

fun put_cert :: "PivCert \<Rightarrow> PivCert list \<Rightarrow> PivCert list" where
  "put_cert c [] = [c]"
| "put_cert c (x # xs) = (if pc_slot x = pc_slot c then c # xs else x # put_cert c xs)"

text \<open>Persists; if that fails, \<open>undo\<close> changes the state in memory and the error is reported.\<close>

definition persist_or :: "'b StorageEnv \<Rightarrow> 'b PivApplet \<Rightarrow> (PivState \<Rightarrow> PivState) \<Rightarrow> ('b PivApplet, u16, unit) outcome" where
  "persist_or env v undo =
     (case piv_persist_state env v of
        (v, Inr u) \<Rightarrow> (v, Inr u)
      | (v, Inl sw) \<Rightarrow>
          (case piv_state_mut env v of
             (v, Inr s) \<Rightarrow> (put_vault (undo s) v, Inl sw)
           | (v, Inl _) \<Rightarrow> (v, Inl sw)))"

definition piv_put_data :: "'b StorageEnv \<Rightarrow> 'b PivApplet \<Rightarrow> Apdu \<Rightarrow> ('b PivApplet, u16, ResponseData) outcome" where
  "piv_put_data env v apdu =
     check (p1 apdu \<noteq> 0x3F \<or> p2 apdu \<noteq> 0xFF) SW_WRONG_P1_P2 v
     (let data = apdu_data apdu; known = length data \<ge> 3 \<and> slot_from_tag (take 3 data) \<noteq> None in
      check (length data \<ge> 3 \<and> slot_from_tag (take 3 data) = None) SW_FILE_NOT_FOUND v
      (attempt (ok_or (parse_put_data data) (if known then PIV_SW_WRONG_SYNTAX else SW_FILE_NOT_FOUND)) v (\<lambda>(slot, der).
       check (slot = SLOT_PIV_AUTH \<and> \<not> piv_verified v) SW_SECURITY_STATUS v
       (andthen (piv_state_mut env v) (\<lambda>s v.
        andthen (persist_or env (put_vault (s\<lparr>ps_certs := put_cert \<lparr>pc_slot = slot, pc_der = der\<rparr> (ps_certs s)\<rparr>) v)
                   (\<lambda>s. s\<lparr>ps_certs := filter (\<lambda>c. pc_slot c \<noteq> slot) (ps_certs s)\<rparr>)) (\<lambda>_ v.
          (v, Inr (resp_ok []))))))))"

definition piv_generate_pair :: "RingPrims \<Rightarrow> nat \<Rightarrow> u8 \<Rightarrow> (u16, bytes \<times> bytes) result" where
  "piv_generate_pair r draw alg =
     (if alg = PIV_ALG_ED25519 then map_err (\<lambda>_. SW_CONDITIONS_NOT_SATISFIED) (generate_key_pair r draw)
      else if alg = PIV_ALG_P256 then map_err (\<lambda>_. SW_CONDITIONS_NOT_SATISFIED) (generate_p256_key_pair r draw)
      else Inl PIV_SW_WRONG_SYNTAX)"

definition piv_generate :: "'b StorageEnv \<Rightarrow> 'b PivApplet \<Rightarrow> Apdu \<Rightarrow> ('b PivApplet, u16, ResponseData) outcome" where
  "piv_generate env v apdu =
     check (p1 apdu \<noteq> 0) SW_WRONG_P1_P2 v
     (check (\<not> is_valid_slot (p2 apdu)) SW_FILE_NOT_FOUND v
     (attempt (ok_or (piv_parse_generate_alg (apdu_data apdu)) PIV_SW_WRONG_SYNTAX) v (\<lambda>alg.
       let r = piv_generate_pair (ring env) (va_draws v) alg; v = v\<lparr>va_draws := va_draws v + 1\<rparr>; slot = p2 apdu in
       attempt r v (\<lambda>(priv_key, pub_key).
       andthen (piv_state_mut env v) (\<lambda>s v.
       andthen (persist_or env
                  (put_vault (s\<lparr>ps_keys := put_key \<lparr>pk_slot = slot, pk_alg = alg, pk_priv = priv_key, pk_pub = pub_key\<rparr> (ps_keys s),
                               ps_certs := filter (\<lambda>c. pc_slot c \<noteq> slot) (ps_certs s)\<rparr>) v)
                  (\<lambda>s. s\<lparr>ps_keys := filter (\<lambda>k. pk_slot k \<noteq> slot) (ps_keys s)\<rparr>)) (\<lambda>_ v.
         (v, Inr (resp_ok (piv_pubkey_object alg pub_key)))))))))"

definition piv_sign :: "RingPrims \<Rightarrow> nat \<Rightarrow> u8 \<Rightarrow> bytes \<Rightarrow> bytes \<Rightarrow> (u16, bytes) result" where
  "piv_sign r draw alg key challenge =
     (if alg = PIV_ALG_ED25519 then map_err (\<lambda>_. SW_CONDITIONS_NOT_SATISFIED) (sign r challenge key)
      else if alg = PIV_ALG_P256 then map_err (\<lambda>_. SW_CONDITIONS_NOT_SATISFIED) (sign_p256 r draw key challenge)
      else Inl PIV_SW_WRONG_SYNTAX)"

definition piv_authenticate :: "'b StorageEnv \<Rightarrow> 'b PivApplet \<Rightarrow> Apdu \<Rightarrow> ('b PivApplet, u16, ResponseData) outcome" where
  "piv_authenticate env v apdu =
     (let slot = p2 apdu in
      check (\<not> is_valid_slot slot) SW_FILE_NOT_FOUND v
      (check (slot = SLOT_PIV_AUTH \<and> \<not> piv_verified v) SW_SECURITY_STATUS v
      (attempt (ok_or (extract_challenge (apdu_data apdu)) PIV_SW_WRONG_SYNTAX) v (\<lambda>challenge.
       andthen (piv_state_mut env v) (\<lambda>s v.
       attempt (ok_or (find_key slot s) SW_SECURITY_STATUS) v (\<lambda>key.
       check (p1 apdu \<noteq> 0 \<and> p1 apdu \<noteq> pk_alg key) PIV_SW_WRONG_SYNTAX v
       (let r = piv_sign (ring env) (va_draws v) (pk_alg key) (pk_priv key) challenge; v = v\<lparr>va_draws := va_draws v + 1\<rparr> in
        attempt r v (\<lambda>signature. (v, Inr (resp_ok signature))))))))))"

definition piv_verify :: "'b StorageEnv \<Rightarrow> 'b PivApplet \<Rightarrow> Apdu \<Rightarrow> ('b PivApplet, u16, ResponseData) outcome" where
  "piv_verify env v apdu =
     check (p1 apdu \<noteq> 0 \<or> p2 apdu \<noteq> 0x80) SW_WRONG_P1_P2 v
     (andthen (piv_state_mut env v) (\<lambda>s v.
      check (ps_retries s = 0) SW_SECURITY_STATUS v
      (if apdu_data apdu = [] then (v, Inr (with_sw [] (piv_sw_retries (ps_retries s))))
       else if constant_time_eq (strip_pin_padding (apdu_data apdu)) (ps_pin s)
       then andthen (piv_persist_state env (put_vault (s\<lparr>ps_retries := PIV_MAX_RETRIES\<rparr>) v)) (\<lambda>_ v.
              (v\<lparr>piv_verified := True\<rparr>, Inr (resp_ok [])))
       else andthen (consume_retry env v) (\<lambda>sw v. (v, Inl sw)))))"

definition change_reference_data :: "'b StorageEnv \<Rightarrow> 'b PivApplet \<Rightarrow> Apdu \<Rightarrow> ('b PivApplet, u16, ResponseData) outcome" where
  "change_reference_data env v apdu =
     check (p1 apdu \<noteq> 0 \<or> p2 apdu \<noteq> 0x80) SW_WRONG_P1_P2 v
     (andthen (piv_state_mut env v) (\<lambda>s v.
      check (ps_retries s = 0) SW_SECURITY_STATUS v
      (check (length (apdu_data apdu) \<noteq> 2 * PIN_WIRE_LEN) PIV_SW_WRONG_SYNTAX v
      (let new_pin = strip_pin_padding (drop PIN_WIRE_LEN (apdu_data apdu));
           old_pin = strip_pin_padding (take PIN_WIRE_LEN (apdu_data apdu)) in
       check (\<not> (MIN_PIN_LEN \<le> length new_pin \<and> length new_pin \<le> MAX_PIN_LEN)) PIV_SW_WRONG_SYNTAX v
       (if \<not> constant_time_eq old_pin (ps_pin s) then andthen (consume_retry env v) (\<lambda>sw v. (v, Inl sw))
        else andthen (piv_persist_state env (put_vault (s\<lparr>ps_pin := new_pin, ps_retries := PIV_MAX_RETRIES\<rparr>) v)) (\<lambda>_ v.
               (v\<lparr>piv_verified := True\<rparr>, Inr (resp_ok []))))))))"

subsection \<open>The trait Applet\<close>

definition piv_select :: "'b StorageEnv \<Rightarrow> 'b PivApplet \<Rightarrow> ('b PivApplet, u16, unit) outcome" where
  "piv_select env v = piv_ensure_loaded env v"

definition piv_process :: "'b StorageEnv \<Rightarrow> 'b PivApplet \<Rightarrow> Apdu \<Rightarrow> ('b PivApplet, u16, ResponseData) outcome" where
  "piv_process env v apdu =
     (if cla apdu \<noteq> 0 then (v, Inl PIV_SW_CLASS_NOT_SUPPORTED)
      else if ins apdu = PIV_INS_VERIFY then piv_verify env v apdu
      else if ins apdu = INS_CHANGE_REFERENCE_DATA then change_reference_data env v apdu
      else if ins apdu = PIV_INS_GET_DATA then piv_get_data env v apdu
      else if ins apdu = PIV_INS_GENERATE then piv_generate env v apdu
      else if ins apdu = INS_AUTHENTICATE then piv_authenticate env v apdu
      else if ins apdu = INS_PUT_DATA then piv_put_data env v apdu
      else (v, Inl SW_INS_NOT_SUPPORTED))"

definition piv_applet :: "'b StorageEnv \<Rightarrow> 'b PivApplet AppletOps" where
  "piv_applet env =
     \<lparr>ap_aid = (\<lambda>_. AID_PIV), ap_select = piv_select env, ap_select_response = (\<lambda>v. (v, [])), ap_process = piv_process env\<rparr>"

end
