(* ===== verification/Piv_Safety.thy ===== *)
theory Piv_Safety
  imports Piv
begin

section \<open>Safety of the PIV applet\<close>

text \<open>
  The persisted state is read back exactly (so the PIV format satisfies the contract \<open>sealed_applet\<close>), every command
  keeps the state well-formed and synchronised with the storage, and the PIN is protected: without it nobody uses
  the key of slot 9A, and the wrong guesses anybody can make are limited by the retry counter, also across power
  cycles.
\<close>

subsection \<open>The format is read back\<close>

definition piv_key_wf :: "PivKey \<Rightarrow> bool" where
  "piv_key_wf k = (is_valid_slot (pk_slot k) \<and> piv_is_valid_alg (pk_alg k)
     \<and> piv_key_lengths_ok (pk_alg k) (length (pk_priv k)) (length (pk_pub k)))"

definition piv_cert_wf :: "PivCert \<Rightarrow> bool" where
  "piv_cert_wf c = (is_valid_slot (pc_slot c) \<and> 0 < length (pc_der c) \<and> length (pc_der c) \<le> MAX_CERT_LEN)"

definition piv_wf :: "PivState \<Rightarrow> bool" where
  "piv_wf s = (MIN_PIN_LEN \<le> length (ps_pin s) \<and> length (ps_pin s) \<le> MAX_PIN_LEN \<and> ps_retries s \<le> PIV_MAX_RETRIES
     \<and> list_all piv_key_wf (ps_keys s) \<and> distinct (map pk_slot (ps_keys s))
     \<and> list_all piv_cert_wf (ps_certs s) \<and> distinct (map pc_slot (ps_certs s)))"

text \<open>Reading at an offset behind a prefix.\<close>

lemma slice_at: "slice_of (length pre) (length pre + length xs) (pre @ xs @ rest) = xs"
  by (simp add: slice_of_def)

lemma u16_at_len16: "length bs < 65536 \<Longrightarrow> u16_at (pre @ len16 bs @ rest) (length pre) = length bs"
proof -
  assume n: "length bs < 65536"
  let ?w = "of_nat (length bs) :: u16"
  obtain a b where ab: "to_be_bytes 2 ?w = [a, b]"
    using length_to_be_bytes [of 2 ?w] unfolding list_length_2 by blast
  have "from_be_bytes [a, b] = ?w" using from_be_bytes_to_be_bytes [of 2 ?w] by (simp add: ab)
  then show ?thesis using n by (simp add: u16_at_def len16_def ab unat_of_nat nth_append)
qed

lemma length_len16 [simp]: "length (len16 bs) = length bs + 2"
  by (simp add: len16_def)

lemma slice_len16: "slice_of (length pre + 2) (length pre + 2 + length bs) (pre @ len16 bs @ rest) = bs"
  using slice_at [of "pre @ to_be_bytes 2 (of_nat (length bs) :: u16)" bs rest] by (simp add: len16_def)

lemma parse_piv_key_serialize:
  assumes "piv_key_wf k"
  shows "parse_piv_key (pre @ serialize_piv_key k @ rest) (length pre) = Some (k, length (pre @ serialize_piv_key k))"
proof -
  let ?b = "pre @ serialize_piv_key k @ rest" and ?priv = "length (pk_priv k)" and ?pub = "length (pk_pub k)"
  let ?pre1 = "pre @ [pk_slot k, pk_alg k]" and ?pre2 = "pre @ [pk_slot k, pk_alg k] @ len16 (pk_priv k)"
  have ok: "is_valid_slot (pk_slot k)" "piv_is_valid_alg (pk_alg k)" "piv_key_lengths_ok (pk_alg k) ?priv ?pub"
    and small: "?priv < 65536" "?pub < 65536"
    using assms by (auto simp: piv_key_wf_def piv_key_lengths_ok_def split: if_splits)
  have b1: "?b = ?pre1 @ len16 (pk_priv k) @ len16 (pk_pub k) @ rest" and b2: "?b = ?pre2 @ len16 (pk_pub k) @ rest"
    by (simp_all add: serialize_piv_key_def)
  have s: "?b ! length pre = pk_slot k" "?b ! (length pre + 1) = pk_alg k"
    by (simp_all add: serialize_piv_key_def nth_append)
  have l: "length ?pre1 = length pre + 2" "length ?pre2 = length pre + 4 + ?priv" by simp_all
  have u: "u16_at ?b (length pre + 2) = ?priv" "u16_at ?b (length pre + 4 + ?priv) = ?pub"
    using u16_at_len16 [OF small(1), of ?pre1 "len16 (pk_pub k) @ rest"] u16_at_len16 [OF small(2), of ?pre2 rest]
    unfolding b1 [symmetric] b2 [symmetric] l by simp_all
  have sl: "slice_of (length pre + 4) (length pre + 4 + ?priv) ?b = pk_priv k"
    "slice_of (length pre + 4 + ?priv + 2) (length pre + 4 + ?priv + 2 + ?pub) ?b = pk_pub k"
    using slice_len16 [of ?pre1 "pk_priv k" "len16 (pk_pub k) @ rest"] slice_len16 [of ?pre2 "pk_pub k" rest]
    unfolding b1 [symmetric] b2 [symmetric] l by (simp_all add: eval_nat_numeral)
  have len: "length ?b = length pre + ?priv + ?pub + 6 + length rest" by (simp add: serialize_piv_key_def)
  show ?thesis
    unfolding parse_piv_key_def Let_def s u sl len
    using ok small by (simp add: u sl len serialize_piv_key_def)
qed

lemma parse_piv_keys_serialize:
  "list_all piv_key_wf ks \<Longrightarrow>
   parse_piv_keys (length ks) (pre @ concat (map serialize_piv_key ks) @ rest) (length pre) acc
     = Some (acc @ ks, length (pre @ concat (map serialize_piv_key ks)))"
proof (induction ks arbitrary: pre acc)
  case (Cons k ks)
  then show ?case
    using parse_piv_key_serialize [of k pre "concat (map serialize_piv_key ks) @ rest"] Cons.IH [of "pre @ serialize_piv_key k" "acc @ [k]"]
    by simp
qed simp

lemma parse_piv_cert_serialize:
  assumes "piv_cert_wf c"
  shows "parse_piv_cert (pre @ serialize_piv_cert c @ rest) (length pre) = Some (c, length (pre @ serialize_piv_cert c))"
proof -
  let ?b = "pre @ serialize_piv_cert c @ rest" and ?n = "length (pc_der c)" and ?pre1 = "pre @ [pc_slot c]"
  have ok: "is_valid_slot (pc_slot c)" "?n \<noteq> 0" "?n \<le> MAX_CERT_LEN" "?n < 65536"
    using assms by (auto simp: piv_cert_wf_def MAX_CERT_LEN_def)
  have b: "?b = ?pre1 @ len16 (pc_der c) @ rest" by (simp add: serialize_piv_cert_def)
  have l: "length ?pre1 = length pre + 1" by simp
  have s: "?b ! length pre = pc_slot c" by (simp add: serialize_piv_cert_def nth_append)
  have u: "u16_at ?b (length pre + 1) = ?n"
    using u16_at_len16 [OF ok(4), of ?pre1 rest] unfolding b [symmetric] l .
  have sl: "slice_of (length pre + 3) (length pre + 3 + ?n) ?b = pc_der c"
    using slice_len16 [of ?pre1 "pc_der c" rest] unfolding b [symmetric] l by (simp add: eval_nat_numeral)
  have len: "length ?b = length pre + ?n + 3 + length rest" by (simp add: serialize_piv_cert_def)
  show ?thesis
    unfolding parse_piv_cert_def Let_def s u sl len using ok by (simp add: serialize_piv_cert_def)
qed

lemma parse_piv_certs_serialize:
  "list_all piv_cert_wf cs \<Longrightarrow>
   parse_piv_certs (length cs) (pre @ concat (map serialize_piv_cert cs) @ rest) (length pre) acc
     = Some (acc @ cs, length (pre @ concat (map serialize_piv_cert cs)))"
proof (induction cs arbitrary: pre acc)
  case (Cons c cs)
  then show ?case
    using parse_piv_cert_serialize [of c pre "concat (map serialize_piv_cert cs) @ rest"] Cons.IH [of "pre @ serialize_piv_cert c" "acc @ [c]"]
    by simp
qed simp

text \<open>Four slots hold at most four entries, so their number fits a byte.\<close>

lemma distinct_slots: "distinct xs \<Longrightarrow> list_all is_valid_slot xs \<Longrightarrow> length xs \<le> 4"
proof -
  assume "distinct xs" "list_all is_valid_slot xs"
  then have "length xs = card (set xs)" "set xs \<subseteq> {SLOT_PIV_AUTH, SLOT_DIG_SIG, SLOT_KEY_MGMT, SLOT_CARD_AUTH}"
    by (auto simp: distinct_card list_all_iff is_valid_slot_def)
  then show ?thesis
    using card_mono [of "{SLOT_PIV_AUTH, SLOT_DIG_SIG, SLOT_KEY_MGMT, SLOT_CARD_AUTH}" "set xs"]
      card_insert_le_m1 [of _ _ SLOT_PIV_AUTH] by (auto simp: card_insert_if split: if_splits)
qed

lemma piv_wf_lengths:
  assumes "piv_wf s"
  shows "length (ps_keys s) \<le> 4" "length (ps_certs s) \<le> 4"
  using assms distinct_slots [of "map pk_slot (ps_keys s)"] distinct_slots [of "map pc_slot (ps_certs s)"]
  by (auto simp: piv_wf_def list_all_iff piv_key_wf_def piv_cert_wf_def)

lemma unat_of_nat_u8: "n < 256 \<Longrightarrow> unat (of_nat n :: u8) = n"
  by (simp add: unat_of_nat)

lemma parse_piv_serialize:
  assumes "piv_wf s"
  shows "parse_piv_state (serialize_piv_state s) = Some s"
proof -
  let ?ks = "concat (map serialize_piv_key (ps_keys s))" and ?cs = "concat (map serialize_piv_cert (ps_certs s))"
  let ?pre = "[PIV_FORMAT_VERSION, of_nat (length (ps_pin s))] @ ps_pin s @ [ps_retries s, of_nat (length (ps_keys s))]"
  let ?nc = "of_nat (length (ps_certs s)) :: u8"
  let ?b = "serialize_piv_state s"
  have pin: "MIN_PIN_LEN \<le> length (ps_pin s)" "length (ps_pin s) \<le> MAX_PIN_LEN" "\<not> ps_retries s > PIV_MAX_RETRIES"
    and d: "list_all piv_key_wf (ps_keys s)" "distinct (map pk_slot (ps_keys s))"
      "list_all piv_cert_wf (ps_certs s)" "distinct (map pc_slot (ps_certs s))"
    using assms by (auto simp: piv_wf_def)
  have n: "unat (of_nat (length (ps_keys s)) :: u8) = length (ps_keys s)" "unat ?nc = length (ps_certs s)"
    "unat (of_nat (length (ps_pin s)) :: u8) = length (ps_pin s)"
    using piv_wf_lengths [OF assms] pin(2) by (simp_all add: unat_of_nat_u8 MAX_PIN_LEN_def)
  have b1: "?b = ?pre @ ?ks @ (?nc # ?cs)" and b2: "?b = (?pre @ ?ks @ [?nc]) @ ?cs @ []"
    by (simp_all add: serialize_piv_state_def)
  have head: "parse_piv_head ?b = Some (ps_pin s, ps_retries s, length (ps_keys s), length ?pre)"
    using pin n by (simp add: parse_piv_head_def Let_def serialize_piv_state_def slice_of_def nth_append)
  have keys: "parse_piv_keys (length (ps_keys s)) ?b (length ?pre) [] = Some (ps_keys s, length (?pre @ ?ks))"
    using parse_piv_keys_serialize [OF d(1), of ?pre "?nc # ?cs" "[]"] unfolding b1 by simp
  have num: "?b ! length (?pre @ ?ks) = ?nc" unfolding b1 by (simp add: nth_append)
  have certs: "parse_piv_certs (length (ps_certs s)) ?b (length (?pre @ ?ks) + 1) [] = Some (ps_certs s, length ?b)"
    using parse_piv_certs_serialize [OF d(3), of "?pre @ ?ks @ [?nc]" "[]" "[]"] unfolding b2 [symmetric]
    by (simp add: serialize_piv_state_def)
  have len: "5 \<le> length ?b" "length (?pre @ ?ks) + 1 \<le> length ?b" "?b ! 0 = PIV_FORMAT_VERSION" "?b \<noteq> []"
    using pin(1) by (simp_all add: serialize_piv_state_def MIN_PIN_LEN_def)
  have "parse_piv_v3 ?b = Some s"
    unfolding parse_piv_v3_def head Option.bind.simps prod.case keys num n certs
    using len d by (simp add: not_less)
  then show ?thesis
    using len by (simp add: parse_piv_state_def PIV_FORMAT_VERSION_def)
qed

lemma parse_piv_key_wf: "parse_piv_key blob cursor = Some (k, c) \<Longrightarrow> piv_key_wf k"
  by (auto simp: parse_piv_key_def Let_def piv_key_wf_def split: if_splits)

lemma parse_piv_keys_wf:
  "parse_piv_keys n blob cursor acc = Some (ks, c) \<Longrightarrow> list_all piv_key_wf acc \<Longrightarrow> list_all piv_key_wf ks"
  by (induction n arbitrary: cursor acc) (auto simp: bind_eq_Some_conv dest: parse_piv_key_wf)

lemma parse_piv_cert_wf: "parse_piv_cert blob cursor = Some (k, c) \<Longrightarrow> piv_cert_wf k"
  by (auto simp: parse_piv_cert_def Let_def piv_cert_wf_def split: if_splits) (simp add: slice_of_def)

lemma parse_piv_certs_wf:
  "parse_piv_certs n blob cursor acc = Some (cs, c) \<Longrightarrow> list_all piv_cert_wf acc \<Longrightarrow> list_all piv_cert_wf cs"
  by (induction n arbitrary: cursor acc) (auto simp: bind_eq_Some_conv dest: parse_piv_cert_wf)

lemma parse_piv_head_wf:
  "parse_piv_head blob = Some (pin, retries, n, c) \<Longrightarrow> MIN_PIN_LEN \<le> length pin \<and> length pin \<le> MAX_PIN_LEN \<and> retries \<le> PIV_MAX_RETRIES"
  by (auto simp: parse_piv_head_def Let_def split: if_splits)

lemma parse_piv_wf: "parse_piv_state blob = Some s \<Longrightarrow> piv_wf s"
proof -
  have 1: "parse_piv_v1 blob = Some s \<Longrightarrow> piv_wf s"
    by (auto simp: parse_piv_v1_def Let_def piv_wf_def split: if_splits)
  have 2: "parse_piv_v2 blob = Some s \<Longrightarrow> piv_wf s"
    by (auto simp: parse_piv_v2_def bind_eq_Some_conv piv_wf_def split: if_splits dest!: parse_piv_head_wf parse_piv_keys_wf)
  have 3: "parse_piv_v3 blob = Some s \<Longrightarrow> piv_wf s"
    by (auto simp: parse_piv_v3_def bind_eq_Some_conv piv_wf_def split: if_splits
        dest!: parse_piv_head_wf parse_piv_keys_wf parse_piv_certs_wf)
  assume "parse_piv_state blob = Some s"
  then show ?thesis using 1 2 3 by (auto simp: parse_piv_state_def split: if_splits)
qed

subsection \<open>Every command keeps memory and storage in step\<close>

lemma piv_format_simps [simp]:
  "fm_key piv_format = PIV_STORAGE_KEY" "fm_serialize piv_format = serialize_piv_state" "fm_parse piv_format = parse_piv_state"
  by (simp_all add: piv_format_def)

lemma piv_format_contract:
  "kv_ops (store env) (retrieve env) (kv_delete env) good \<Longrightarrow> sealed_applet env good piv_format piv_wf"
  by (intro sealed_applet.intro sealed_applet_axioms.intro)
     (simp_all add: parse_piv_serialize parse_piv_wf, simp add: serialize_piv_state_def)

lemma put_key_slots: "pk_slot ` set (put_key k ks) = insert (pk_slot k) (pk_slot ` set ks)"
  by (induction ks) auto

lemma put_cert_slots: "pc_slot ` set (put_cert c cs) = insert (pc_slot c) (pc_slot ` set cs)"
  by (induction cs) auto

lemma put_key_wf: "piv_key_wf k \<Longrightarrow> list_all piv_key_wf ks \<Longrightarrow> list_all piv_key_wf (put_key k ks)"
  by (induction ks) auto

lemma put_cert_wf: "piv_cert_wf c \<Longrightarrow> list_all piv_cert_wf cs \<Longrightarrow> list_all piv_cert_wf (put_cert c cs)"
  by (induction cs) auto

lemma put_key_distinct: "distinct (map pk_slot ks) \<Longrightarrow> distinct (map pk_slot (put_key k ks))"
  by (induction ks) (auto simp: put_key_slots)

lemma put_cert_distinct: "distinct (map pc_slot cs) \<Longrightarrow> distinct (map pc_slot (put_cert c cs))"
  by (induction cs) (auto simp: put_cert_slots)

lemma distinct_map_filter: "distinct (map f xs) \<Longrightarrow> distinct (map f (filter P xs))"
  by (induction xs) auto

lemma piv_wf_updates:
  assumes "piv_wf s"
  shows "n \<le> PIV_MAX_RETRIES \<Longrightarrow> piv_wf (s\<lparr>ps_retries := n\<rparr>)"
    "MIN_PIN_LEN \<le> length pin \<Longrightarrow> length pin \<le> MAX_PIN_LEN \<Longrightarrow> piv_wf (s\<lparr>ps_pin := pin\<rparr>)"
    "piv_cert_wf c \<Longrightarrow> piv_wf (s\<lparr>ps_certs := put_cert c (ps_certs s)\<rparr>)"
    "piv_key_wf k \<Longrightarrow> piv_wf (s\<lparr>ps_keys := put_key k (ps_keys s)\<rparr>)"
    "piv_wf (s\<lparr>ps_certs := filter P (ps_certs s)\<rparr>)" "piv_wf (s\<lparr>ps_keys := filter Q (ps_keys s)\<rparr>)"
  using assms
  by (auto simp: piv_wf_def put_cert_wf put_cert_distinct put_key_wf put_key_distinct distinct_map_filter list_all_iff [of _ "filter _ _"])
     (auto simp: list_all_iff)

abbreviation piv_synced :: "'b StorageEnv \<Rightarrow> ('b StorageEngine \<Rightarrow> bool) \<Rightarrow> 'b PivApplet \<Rightarrow> bool" where
  "piv_synced env good \<equiv> vault_synced env good piv_format piv_wf"

abbreviation piv_keeps :: "'b StorageEnv \<Rightarrow> ('b StorageEngine \<Rightarrow> bool) \<Rightarrow> ('b PivApplet, u16, 'a) outcome \<Rightarrow> bool" where
  "piv_keeps env good \<equiv> vault_keeps env good piv_format piv_wf"

lemma piv_verified_synced [simp]: "vault_synced env good fm valid (v\<lparr>piv_verified := b\<rparr>) = vault_synced env good fm valid v"
  by (simp add: vault_synced_def vault_ok_def vault_stored_def vault_plaintext_bind)

lemma put_vault_verified: "(put_vault s v)\<lparr>piv_verified := b\<rparr> = put_vault s (v\<lparr>piv_verified := b\<rparr>)"
  by (simp add: put_vault_def)

lemma piv_wf_changed:
  "piv_wf s \<Longrightarrow> MIN_PIN_LEN \<le> length pin \<Longrightarrow> length pin \<le> MAX_PIN_LEN \<Longrightarrow> n \<le> PIV_MAX_RETRIES \<Longrightarrow>
   piv_wf (s\<lparr>ps_pin := pin, ps_retries := n\<rparr>)"
  by (intro piv_wf_updates)

lemma piv_wf_generated:
  "piv_wf s \<Longrightarrow> piv_key_wf k \<Longrightarrow> piv_wf (s\<lparr>ps_keys := put_key k (ps_keys s), ps_certs := filter P (ps_certs s)\<rparr>)"
  using piv_wf_updates(5) [OF piv_wf_updates(4)] by simp

lemma piv_factory_wf: "piv_wf piv_factory"
  by (simp add: piv_wf_def piv_factory_def MIN_PIN_LEN_def MAX_PIN_LEN_def DEFAULT_PIN_def)

lemma piv_wf_decrease: "piv_wf s \<Longrightarrow> piv_wf (s\<lparr>ps_retries := saturating_sub_word (ps_retries s) 1\<rparr>)"
  by (rule piv_wf_updates(1)) (auto simp: piv_wf_def word_le_nat_alt unat_saturating_sub_word)

lemma piv_generate_pair_wf:
  assumes "applet_lib r" "piv_generate_pair r draw alg = Inr (priv_key, pub_key)" "is_valid_slot slot"
  shows "piv_key_wf \<lparr>pk_slot = slot, pk_alg = alg, pk_priv = priv_key, pk_pub = pub_key\<rparr>"
  using assms(2,3) generated_lengths [OF assms(1)]
  by (auto simp: piv_generate_pair_def effect_ok piv_key_wf_def piv_is_valid_alg_def piv_key_lengths_ok_def
      PIV_ALG_ED25519_def PIV_ALG_P256_def split: if_splits)

lemma parse_put_data_wf: "parse_put_data data = Some (slot, der) \<Longrightarrow> piv_cert_wf \<lparr>pc_slot = slot, pc_der = der\<rparr>"
  by (auto simp: parse_put_data_def bind_eq_Some_conv piv_cert_wf_def slot_from_tag_def is_valid_slot_def find_Some_iff
      less_Suc_eq split: if_splits)

locale piv_device = sealed_applet env good piv_format piv_wf
  for env :: "'b StorageEnv" and good :: "'b StorageEngine \<Rightarrow> bool"
begin

lemma keeps_piv_state_mut [vault_steps]: "applet_lib (ring env) \<Longrightarrow> piv_synced env good v \<Longrightarrow> piv_keeps env good (piv_state_mut env v)"
  unfolding piv_state_mut_def by (rule keeps_state_mut) (simp_all add: applet_lib_def piv_factory_wf vault_synced_ok)

lemma keeps_piv_load [vault_steps]: "applet_lib (ring env) \<Longrightarrow> piv_synced env good v \<Longrightarrow> piv_keeps env good (piv_ensure_loaded env v)"
  unfolding piv_ensure_loaded_def by (rule keeps_load) (simp_all add: applet_lib_def piv_factory_wf vault_synced_ok)

lemma keeps_piv_persist [vault_steps]:
  "applet_lib (ring env) \<Longrightarrow> piv_synced env good v \<Longrightarrow> piv_wf s \<Longrightarrow> piv_keeps env good (piv_persist_state env (put_vault s v))"
  unfolding piv_persist_state_def by (rule keeps_persist) (simp_all add: applet_lib_def vault_synced_ok)

lemma piv_state_mut_wf: "piv_state_mut env v = (v', Inr s) \<Longrightarrow> piv_synced env good v' \<Longrightarrow> piv_wf s"
  unfolding piv_state_mut_def by (blast intro: vault_synced_valid vault_state_mut_ok)

lemma keeps_consume_retry [vault_steps]: "applet_lib (ring env) \<Longrightarrow> piv_synced env good v \<Longrightarrow> piv_keeps env good (consume_retry env v)"
  unfolding consume_retry_def Let_def
  by (intro vault_keeps_andthen keeps_piv_state_mut; (assumption | simp only: if_distrib [of "piv_persist_state env"])?)
     (auto intro!: vault_keeps_same keeps_piv_persist piv_wf_decrease piv_wf_updates(1) simp del: if_split simp: put_vault_verified
        split: if_split dest: piv_state_mut_wf)

lemma keeps_persist_or [vault_steps]:
  assumes "applet_lib (ring env)" "piv_synced env good v" "piv_wf s" "piv_wf (undo s)"
  shows "piv_keeps env good (persist_or env (put_vault s v) undo)"
proof -
  obtain w r where p: "vault_persist env piv_format (put_vault s v) = (w, r)" by fastforce
  have "piv_keeps env good (w, r)" using keeps_piv_persist [OF assms(1-3)] p by (simp add: piv_persist_state_def)
  moreover have "va_state w = Some s" using vault_persist_state [OF p] by simp
  ultimately show ?thesis
    using p assms(4) vault_persist_frame(2) [OF p]
    by (auto simp: persist_or_def piv_persist_state_def piv_state_mut_def vault_keeps_def vault_ok_def put_vault_def)
qed

lemma keeps_get_data: "applet_lib (ring env) \<Longrightarrow> piv_synced env good v \<Longrightarrow> piv_keeps env good (piv_get_data env v apdu)"
  unfolding piv_get_data_def find_cert_def find_key_public_def
  by (intro vault_steps; (assumption)?) (auto intro!: vault_steps split: option.split)

lemma keeps_put_data: "applet_lib (ring env) \<Longrightarrow> piv_synced env good v \<Longrightarrow> piv_keeps env good (piv_put_data env v apdu)"
  unfolding piv_put_data_def Let_def
  by (intro vault_steps piv_wf_updates(3,5); (assumption | erule (1) piv_state_mut_wf | (simp add: effect_ok parse_put_data_wf; fail))?)

lemma keeps_generate: "applet_lib (ring env) \<Longrightarrow> piv_synced env good v \<Longrightarrow> piv_keeps env good (piv_generate env v apdu)"
  unfolding piv_generate_def Let_def
  by (intro vault_steps piv_wf_updates(4-6) piv_wf_generated; (assumption | erule (1) piv_state_mut_wf | (simp; fail))?)
     (auto intro: piv_generate_pair_wf)

lemma keeps_authenticate: "applet_lib (ring env) \<Longrightarrow> piv_synced env good v \<Longrightarrow> piv_keeps env good (piv_authenticate env v apdu)"
  unfolding piv_authenticate_def Let_def by (intro vault_steps; simp)

lemma keeps_verify: "applet_lib (ring env) \<Longrightarrow> piv_synced env good v \<Longrightarrow> piv_keeps env good (piv_verify env v apdu)"
  unfolding piv_verify_def
  by (intro vault_steps piv_wf_updates(1); (assumption | erule (1) piv_state_mut_wf | (simp; fail))?)

lemma keeps_change: "applet_lib (ring env) \<Longrightarrow> piv_synced env good v \<Longrightarrow> piv_keeps env good (change_reference_data env v apdu)"
  unfolding change_reference_data_def Let_def
  by (intro vault_steps piv_wf_changed; (assumption | erule (1) piv_state_mut_wf | (simp; fail))?)

lemma keeps_piv_process: "applet_lib (ring env) \<Longrightarrow> piv_synced env good v \<Longrightarrow> piv_keeps env good (piv_process env v apdu)"
  by (simp add: piv_process_def keeps_get_data keeps_put_data keeps_generate keeps_authenticate keeps_verify keeps_change vault_keeps_same)

end

lemma piv_device_contract: "kv_ops (store env) (retrieve env) (kv_delete env) good \<Longrightarrow> piv_device env good"
  by (intro piv_device.intro piv_format_contract)

interpretation flash_piv: piv_device
    "\<lparr>ops = flash_backend dev codec, cred_codec = cc, hex_encode = hx, ring = r\<rparr>" "engine_ok (\<lambda>b. btree_wf (fs_cache b))"
  for dev codec cc hx r
  by (rule piv_device_contract) (rule flash_kv.kv_ops_axioms)

interpretation file_piv: piv_device
    "\<lparr>ops = file_backend json, cred_codec = cc, hex_encode = hx, ring = r\<rparr>" "engine_ok (file_ready json)"
  for json cc hx r
  by (rule piv_device_contract) (rule file_kv.kv_ops_axioms)

interpretation memory_piv: piv_device env "\<lambda>se. backend se = None" for env
  by (rule piv_device_contract) (rule reliable_kv.axioms(1) [OF memory_kv_ops])

subsection \<open>Guessing the PIN\<close>

fun piv_event :: "'b StorageEnv \<Rightarrow> 'b PivApplet \<Rightarrow> CardEvent \<Rightarrow> ('b PivApplet, u16, unit) outcome" where
  "piv_event env v Card_Select = piv_select env v"
| "piv_event env v (Card_Command apdu) = andthen (piv_process env v apdu) (\<lambda>_ v. (v, Inr ()))"
| "piv_event env v Card_PowerCycle = piv_new env (va_storage v) (va_crypto v) (va_draws v)"

text \<open>The PIN an event presents for comparison, if any: VERIFY with data, or a well-formed CHANGE REFERENCE DATA.\<close>

fun presented :: "CardEvent \<Rightarrow> bytes option" where
  "presented (Card_Command apdu) =
     (if cla apdu \<noteq> 0 \<or> p1 apdu \<noteq> 0 \<or> p2 apdu \<noteq> 0x80 then None
      else if ins apdu = PIV_INS_VERIFY
      then (if apdu_data apdu = [] then None else Some (strip_pin_padding (apdu_data apdu)))
      else if ins apdu = INS_CHANGE_REFERENCE_DATA \<and> length (apdu_data apdu) = 2 * PIN_WIRE_LEN
        \<and> MIN_PIN_LEN \<le> length (strip_pin_padding (drop PIN_WIRE_LEN (apdu_data apdu)))
        \<and> length (strip_pin_padding (drop PIN_WIRE_LEN (apdu_data apdu))) \<le> MAX_PIN_LEN
      then Some (strip_pin_padding (take PIN_WIRE_LEN (apdu_data apdu)))
      else None)"
| "presented _ = None"

definition guesses :: "CardEvent list \<Rightarrow> nat" where
  "guesses evs = length (filter (\<lambda>ev. presented ev \<noteq> None) evs)"

text \<open>The PIN, its counter and the session are as before.\<close>

definition pin_kept :: "'b PivApplet \<Rightarrow> 'b PivApplet \<Rightarrow> bool" where
  "pin_kept a b =
     (\<forall>s. va_state a = Some s \<longrightarrow>
        piv_verified b = piv_verified a \<and> (\<exists>t. va_state b = Some t \<and> ps_pin t = ps_pin s \<and> ps_retries t = ps_retries s))"

interpretation pin: step_relation pin_kept
  by unfold_locales (fastforce simp: pin_kept_def)+

lemma pin_kept_draws [simp]: "pin_kept v (v\<lparr>va_draws := n\<rparr>)"
  by (simp add: pin_kept_def)

lemma pin_kept_load: "pin_kept v (fst (piv_ensure_loaded env v))" "pin_kept v (fst (piv_state_mut env v))"
  by (auto simp: pin_kept_def piv_ensure_loaded_def piv_state_mut_def)

lemma persist_extension:
  assumes "vault_persist env fm v = (b, r)"
  shows "piv_verified b = piv_verified v"
  using vault_persist_frame(1) [OF assms] by auto

lemma pin_kept_persist_or:
  assumes "va_state v = Some s" "ps_pin s' = ps_pin s" "ps_retries s' = ps_retries s"
    and "\<And>t. ps_pin (undo t) = ps_pin t \<and> ps_retries (undo t) = ps_retries t"
  shows "pin_kept v (fst (persist_or env (put_vault s' v) undo))"
proof -
  obtain w r where p: "vault_persist env piv_format (put_vault s' v) = (w, r)" by fastforce
  have "va_state w = Some s'" "piv_verified w = piv_verified v"
    using vault_persist_state [OF p] persist_extension [OF p] by (simp_all add: put_vault_def)
  then show ?thesis
    using p assms
    by (cases r) (auto simp: persist_or_def piv_persist_state_def piv_state_mut_def pin_kept_def put_vault_def)
qed

lemma piv_state_mut_state: "piv_state_mut env v = (v', Inr s) \<Longrightarrow> va_state v' = Some s"
  unfolding piv_state_mut_def by (rule vault_state_mut_ok)

lemmas pin_steps = pin.step_andthen pin.step_attempt pin.step_check pin.step_case pin_kept_load pin_kept_persist_or pin.step_refl

lemma pin_kept_get_data: "pin_kept v (fst (piv_get_data env v apdu))"
proof -
  have "pin_kept v (fst (find_cert env v slot))" "pin_kept v (fst (find_key_public env v slot))" for v :: "'a PivApplet" and slot
    unfolding find_cert_def find_key_public_def by (intro pin_steps; simp add: pin.step_refl)+
  then show ?thesis
    unfolding piv_get_data_def
    by (intro pin.step_check) (auto intro!: pin_steps split: option.split)
qed

lemma pin_kept_put_data: "pin_kept v (fst (piv_put_data env v apdu))"
  unfolding piv_put_data_def Let_def
  by (intro pin.step_check pin.step_attempt) (auto intro!: pin_steps dest: piv_state_mut_state simp: split_beta)

lemma pin_kept_generate: "pin_kept v (fst (piv_generate env v apdu))"
  unfolding piv_generate_def Let_def
  by (intro pin.step_check pin.step_attempt, rule pin.step_trans [OF pin_kept_draws [of v "va_draws v + 1"]])
     (auto intro!: pin_steps dest: piv_state_mut_state simp: split_beta)

lemma pin_kept_authenticate: "pin_kept v (fst (piv_authenticate env v apdu))"
proof -
  have sign: "pin_kept v (fst (attempt r (v\<lparr>va_draws := n\<rparr>) (\<lambda>x. (v\<lparr>va_draws := n\<rparr>, q x))))" for v :: "'a PivApplet" and r n q
    by (cases r) simp_all
  show ?thesis
    unfolding piv_authenticate_def Let_def
    by (intro pin.step_check pin.step_attempt pin.step_andthen pin_kept_load sign)
qed

text \<open>A wrong PIN costs one try; it never opens the session.\<close>

lemma consume_retry_loaded:
  assumes "va_state v = Some s" "consume_retry env v = (b, r)"
  shows "va_state b = Some (s\<lparr>ps_retries := saturating_sub_word (ps_retries s) 1\<rparr>) \<and> (piv_verified b \<longrightarrow> piv_verified v)"
proof -
  let ?s = "s\<lparr>ps_retries := saturating_sub_word (ps_retries s) 1\<rparr>"
  let ?left = "saturating_sub_word (ps_retries s) 1"
  let ?sw = "if ?left = 0 then SW_SECURITY_STATUS else piv_sw_retries ?left"
  let ?v = "if ?sw = SW_SECURITY_STATUS then (put_vault ?s v)\<lparr>piv_verified := False\<rparr> else put_vault ?s v"
  obtain w q where p: "vault_persist env piv_format ?v = (w, q)" by fastforce
  have "b = w"
    using assms p by (cases q) (simp_all add: consume_retry_def piv_state_mut_def piv_persist_state_def Let_def)
  then show ?thesis
    using vault_persist_state [OF p] persist_extension [OF p] by (auto simp: put_vault_def split: if_splits)
qed

definition after_event :: "CardEvent \<Rightarrow> PivState \<Rightarrow> 'b PivApplet \<Rightarrow> bool" where
  "after_event ev s b =
     (\<not> piv_verified b \<and> (\<exists>t. va_state b = Some t \<and> ps_pin t = ps_pin s
        \<and> unat (ps_retries t) = unat (ps_retries s) - (if presented ev = None then 0 else 1)))"

lemma after_pin_kept:
  "pin_kept v b \<Longrightarrow> va_state v = Some s \<Longrightarrow> \<not> piv_verified v \<Longrightarrow> presented ev = None \<Longrightarrow> after_event ev s b"
  by (auto simp: pin_kept_def after_event_def)

lemma after_wrong_pin:
  assumes "va_state v = Some s" "\<not> piv_verified v" "presented ev \<noteq> None"
  shows "after_event ev s (fst (andthen (consume_retry env v) (\<lambda>sw v. (v, Inl sw))))"
proof -
  obtain b r where c: "consume_retry env v = (b, r)" by fastforce
  show ?thesis
    using consume_retry_loaded [OF assms(1) c] assms(2,3) c by (cases r) (auto simp: after_event_def unat_saturating_sub_word)
qed

lemma after_refused:
  "va_state v = Some s \<Longrightarrow> \<not> piv_verified v \<Longrightarrow> presented ev = None \<or> ps_retries s = 0 \<Longrightarrow> after_event ev s v"
  by (auto simp: after_event_def)

text \<open>VERIFY and CHANGE REFERENCE DATA in terms of what they present.\<close>

lemma piv_verify_presented:
  assumes "va_state v = Some s" "cla apdu = 0" "ins apdu = PIV_INS_VERIFY"
  shows "presented (Card_Command apdu) = None \<or> ps_retries s = 0 \<Longrightarrow> fst (piv_verify env v apdu) = v"
    and "presented (Card_Command apdu) = Some pin \<Longrightarrow> ps_retries s \<noteq> 0 \<Longrightarrow> pin \<noteq> ps_pin s \<Longrightarrow>
      piv_verify env v apdu = andthen (consume_retry env v) (\<lambda>sw v. (v, Inl sw))"
  using assms by (auto simp: piv_verify_def piv_state_mut_def check_def constant_time_eq_def split: if_splits)

lemma change_presented:
  assumes "va_state v = Some s" "cla apdu = 0" "ins apdu = INS_CHANGE_REFERENCE_DATA"
  shows "presented (Card_Command apdu) = None \<or> ps_retries s = 0 \<Longrightarrow> fst (change_reference_data env v apdu) = v"
    and "presented (Card_Command apdu) = Some pin \<Longrightarrow> ps_retries s \<noteq> 0 \<Longrightarrow> pin \<noteq> ps_pin s \<Longrightarrow>
      change_reference_data env v apdu = andthen (consume_retry env v) (\<lambda>sw v. (v, Inl sw))"
proof -
  let ?old = "strip_pin_padding (take PIN_WIRE_LEN (apdu_data apdu))" and ?new = "strip_pin_padding (drop PIN_WIRE_LEN (apdu_data apdu))"
  define fits where "fits = (length (apdu_data apdu) = 2 * PIN_WIRE_LEN \<and> MIN_PIN_LEN \<le> length ?new \<and> length ?new \<le> MAX_PIN_LEN)"
  have p: "presented (Card_Command apdu) = (if p1 apdu \<noteq> 0 \<or> p2 apdu \<noteq> 0x80 \<or> \<not> fits then None else Some ?old)"
    using assms(2,3) by (simp add: fits_def INS_CHANGE_REFERENCE_DATA_def PIV_INS_VERIFY_def)
  have refused: "fst (change_reference_data env v apdu) = v" if "p1 apdu \<noteq> 0 \<or> p2 apdu \<noteq> 0x80 \<or> \<not> fits \<or> ps_retries s = 0"
    using that assms(1) by (auto simp: change_reference_data_def piv_state_mut_def check_def Let_def fits_def)
  then show "presented (Card_Command apdu) = None \<or> ps_retries s = 0 \<Longrightarrow> fst (change_reference_data env v apdu) = v"
    unfolding p by (auto split: if_splits)
  show "change_reference_data env v apdu = andthen (consume_retry env v) (\<lambda>sw v. (v, Inl sw))"
    if "presented (Card_Command apdu) = Some pin" "ps_retries s \<noteq> 0" "pin \<noteq> ps_pin s"
    using that assms(1) unfolding p
    by (auto simp: change_reference_data_def piv_state_mut_def constant_time_eq_def Let_def fits_def split: if_splits)
qed

lemma piv_verify_wrong:
  assumes "va_state v = Some s" "\<not> piv_verified v" "cla apdu = 0" "ins apdu = PIV_INS_VERIFY"
    and "presented (Card_Command apdu) \<noteq> Some (ps_pin s)"
  shows "after_event (Card_Command apdu) s (fst (piv_verify env v apdu))"
  using piv_verify_presented [OF assms(1,3,4)] after_refused [OF assms(1,2)] after_wrong_pin [OF assms(1,2), of "Card_Command apdu"] assms(5)
  by (cases "presented (Card_Command apdu)"; cases "ps_retries s = 0") (simp_all del: presented.simps)

lemma change_wrong:
  assumes "va_state v = Some s" "\<not> piv_verified v" "cla apdu = 0" "ins apdu = INS_CHANGE_REFERENCE_DATA"
    and "presented (Card_Command apdu) \<noteq> Some (ps_pin s)"
  shows "after_event (Card_Command apdu) s (fst (change_reference_data env v apdu))"
  using change_presented [OF assms(1,3,4)] after_refused [OF assms(1,2)] after_wrong_pin [OF assms(1,2), of "Card_Command apdu"] assms(5)
  by (cases "presented (Card_Command apdu)"; cases "ps_retries s = 0") (simp_all del: presented.simps)

lemma process_wrong:
  assumes "va_state v = Some s" "\<not> piv_verified v" "presented (Card_Command apdu) \<noteq> Some (ps_pin s)"
  shows "after_event (Card_Command apdu) s (fst (piv_process env v apdu))"
proof (cases "cla apdu = 0 \<and> (ins apdu = PIV_INS_VERIFY \<or> ins apdu = INS_CHANGE_REFERENCE_DATA)")
  case True
  then show ?thesis
    using piv_verify_wrong [OF assms(1,2) _ _ assms(3)] change_wrong [OF assms(1,2) _ _ assms(3)]
    by (auto simp: piv_process_def INS_CHANGE_REFERENCE_DATA_def PIV_INS_VERIFY_def simp del: presented.simps)
next
  case False
  then have "presented (Card_Command apdu) = None" by auto
  moreover have "pin_kept v (fst (piv_process env v apdu))"
    using False
    by (auto simp: piv_process_def pin_kept_get_data pin_kept_put_data pin_kept_generate pin_kept_authenticate pin.step_refl)
  ultimately show ?thesis using after_pin_kept [OF _ assms(1,2)] by blast
qed

lemma verified_persist [simp]: "piv_verified (fst (vault_persist env fm v)) = piv_verified v"
  using persist_extension [of env fm v] by (cases "vault_persist env fm v") simp

lemma load_extension: "piv_verified (fst (piv_ensure_loaded env v)) = piv_verified v"
  by (simp add: piv_ensure_loaded_def vault_load_def Let_def put_vault_def split: option.split)

context piv_device
begin

lemma event_wrong:
  assumes "applet_lib (ring env)" "piv_synced env good v" "va_state v = Some s" "\<not> piv_verified v" "presented ev \<noteq> Some (ps_pin s)"
    and "piv_event env v ev = (b, r)" "r \<noteq> Inl SW_CONDITIONS_NOT_SATISFIED"
  shows "piv_synced env good b \<and> after_event ev s b"
proof (cases ev)
  case Card_Select
  then show ?thesis using assms by (simp add: piv_select_def piv_ensure_loaded_def after_event_def)
next
  case (Card_Command apdu)
  obtain q where p: "piv_process env v apdu = (b, q)" "r = (case q of Inl e \<Rightarrow> Inl e | Inr _ \<Rightarrow> Inr ())"
    using assms(6) Card_Command by (cases "piv_process env v apdu"; cases "snd (piv_process env v apdu)") auto
  then show ?thesis
    using keeps_piv_process [OF assms(1,2), of apdu] process_wrong [OF assms(3,4), of apdu env] assms(5,7) Card_Command
    by (auto simp: vault_keeps_def simp del: presented.simps split: sum.splits)
next
  case Card_PowerCycle
  define w :: "'b PivApplet" where "w = \<lparr>va_storage = va_storage v, va_crypto = va_crypto v, va_draws = va_draws v, va_state = None, piv_verified = False\<rparr>"
  have "piv_synced env good w" using assms(2) by (simp add: w_def vault_synced_def vault_ok_def)
  moreover have b: "piv_ensure_loaded env w = (b, r)" using assms(6) Card_PowerCycle by (simp add: piv_new_def w_def)
  ultimately have "piv_synced env good b" using keeps_piv_load [OF assms(1), of w] assms(7) by (simp add: vault_keeps_def)
  moreover have "va_state b = Some s"
    using reload_synced [OF assms(2,3), of w "\<lambda>v. (v, piv_factory)"] b by (simp add: w_def piv_ensure_loaded_def)
  moreover have "\<not> piv_verified b" using load_extension [of env w] b by (simp add: w_def)
  ultimately show ?thesis using Card_PowerCycle by (simp add: after_event_def)
qed

lemma session_wrong:
  assumes "applet_lib (ring env)" "piv_synced env good v" "va_state v = Some s" "\<not> piv_verified v"
    and "Some (ps_pin s) \<notin> presented ` set evs"
    and "card_session (piv_event env) v evs = (b, rs)" "Inl SW_CONDITIONS_NOT_SATISFIED \<notin> set rs"
  shows "piv_synced env good b \<and> \<not> piv_verified b
    \<and> (\<exists>t. va_state b = Some t \<and> ps_pin t = ps_pin s \<and> unat (ps_retries t) = unat (ps_retries s) - guesses evs)"
  using assms(2-7)
proof (induction evs arbitrary: v s rs)
  case Nil
  then show ?case by (simp add: guesses_def)
next
  case (Cons ev evs)
  obtain a r rs' where a: "piv_event env v ev = (a, r)" and rest: "card_session (piv_event env) a evs = (b, rs')" "rs = r # rs'"
    using Cons.prems(5) unfolding card_session_Cons by blast
  have "presented ev \<noteq> Some (ps_pin s)" "r \<noteq> Inl SW_CONDITIONS_NOT_SATISFIED" "Inl SW_CONDITIONS_NOT_SATISFIED \<notin> set rs'"
    using Cons.prems(4,6) rest(2) by auto
  note ev = event_wrong [OF assms(1) Cons.prems(1-3) this(1) a this(2)]
  then obtain t where t: "va_state a = Some t" "ps_pin t = ps_pin s"
      "unat (ps_retries t) = unat (ps_retries s) - (if presented ev = None then 0 else 1)" "\<not> piv_verified a"
    by (auto simp: after_event_def)
  have "Some (ps_pin t) \<notin> presented ` set evs" using Cons.prems(4) t(2) by auto
  then show ?case
    using Cons.IH [of a t rs'] ev t rest(1) \<open>Inl SW_CONDITIONS_NOT_SATISFIED \<notin> set rs'\<close> by (auto simp: guesses_def)
qed

end

text \<open>
  Property C11: without the PIN nobody gets past the PIV applet, and everybody gets only a few tries. Take any sequence
  of selections, commands and power cycles in which no presented PIN is the right one and no command reports that the
  storage failed. Then the session is not verified at the end, the PIN is the old one, the retry counter has gone
  down by exactly the number of PINs presented (to zero at the lowest, also over the power cycles), every use of the
  key in slot 9A is refused, and if the counter is used up, so is every further PIN, even the right one.
\<close>

theorem piv_pin_lockout:
  assumes "piv_device env good" "applet_lib (ring env)" "piv_synced env good v" "va_state v = Some s" "\<not> piv_verified v"
    and "Some (ps_pin s) \<notin> presented ` set evs"
    and "card_session (piv_event env) v evs = (b, rs)" "Inl SW_CONDITIONS_NOT_SATISFIED \<notin> set rs"
  shows "(\<exists>t. va_state b = Some t \<and> ps_pin t = ps_pin s \<and> unat (ps_retries t) = unat (ps_retries s) - guesses evs)
    \<and> (\<forall>apdu. cla apdu \<noteq> 0 \<or> ins apdu \<noteq> INS_AUTHENTICATE \<or> p2 apdu \<noteq> SLOT_PIV_AUTH
        \<or> piv_process env b apdu = (b, Inl SW_SECURITY_STATUS))
    \<and> (guesses evs < unat (ps_retries s) \<or>
        (\<forall>apdu. presented (Card_Command apdu) = None \<or> piv_process env b apdu = (b, Inl SW_SECURITY_STATUS)))"
proof -
  have w: "\<not> piv_verified b" and
    "\<exists>t. va_state b = Some t \<and> ps_pin t = ps_pin s \<and> unat (ps_retries t) = unat (ps_retries s) - guesses evs"
    using piv_device.session_wrong [OF assms] by simp_all
  then obtain t where t: "va_state b = Some t" "ps_pin t = ps_pin s" "unat (ps_retries t) = unat (ps_retries s) - guesses evs"
    by blast
  have auth: "cla apdu = 0 \<Longrightarrow> ins apdu = INS_AUTHENTICATE \<Longrightarrow> p2 apdu = SLOT_PIV_AUTH \<Longrightarrow>
      piv_process env b apdu = (b, Inl SW_SECURITY_STATUS)" for apdu
    using w by (simp add: piv_process_def piv_authenticate_def is_valid_slot_def INS_AUTHENTICATE_def PIV_INS_VERIFY_def
        INS_CHANGE_REFERENCE_DATA_def PIV_INS_GET_DATA_def PIV_INS_GENERATE_def)
  have "presented (Card_Command apdu) = None \<or> piv_process env b apdu = (b, Inl SW_SECURITY_STATUS)"
    if "unat (ps_retries s) \<le> guesses evs" for apdu
  proof -
    have "ps_retries t = 0" using that t(3) by (simp add: unat_eq_0)
    then show ?thesis
      using t(1) by (auto simp: piv_process_def piv_verify_def change_reference_data_def piv_state_mut_def split: if_splits)
  qed
  then show ?thesis using t auth by (intro conjI) (blast, blast, meson not_le_imp_less)
qed

text \<open>An applet in memory with the factory state, and three wrong PINs around a power cycle.\<close>

definition example_piv :: "(string, bytes) btree PivApplet" where
  "example_piv = fst (piv_new example_applet_env (engine_empty None) (from_key (replicate 32 3)) 0)"

definition verify_apdu :: "bytes \<Rightarrow> Apdu" where
  "verify_apdu pin = \<lparr>cla = 0, ins = PIV_INS_VERIFY, p1 = 0, p2 = 0x80, apdu_data = pin, le = None\<rparr>"

definition example_guesses :: "CardEvent list" where
  "example_guesses = [Card_Command (verify_apdu [0x30]), Card_PowerCycle, Card_Command (verify_apdu [0x31, 0xFF]), Card_Command (verify_apdu [0x32])]"

lemma memory_piv_device: "piv_device env (\<lambda>se. backend se = None)"
  by (rule memory_piv.piv_device_axioms)

lemma example_piv_synced: "piv_synced example_applet_env (\<lambda>se. backend se = None) example_piv"
proof -
  let ?w = "\<lparr>va_storage = engine_empty None, va_crypto = from_key (replicate 32 3), va_draws = 0, va_state = None, piv_verified = False\<rparr>
    :: (string, bytes) btree PivApplet"
  have "piv_synced example_applet_env (\<lambda>se. backend se = None) ?w" by (simp add: vault_synced_def vault_ok_def engine_empty_def)
  from memory_piv.keeps_piv_load [OF example_applet_lib this]
  have "piv_keeps example_applet_env (\<lambda>se. backend se = None) (piv_new example_applet_env (engine_empty None) (from_key (replicate 32 3)) 0)"
    by (simp add: piv_new_def)
  moreover have "snd (piv_new example_applet_env (engine_empty None) (from_key (replicate 32 3)) 0) = Inr ()" by code_simp
  ultimately show ?thesis by (simp add: vault_keeps_def example_piv_def)
qed

lemma example_piv_state: "va_state example_piv = Some piv_factory" "\<not> piv_verified example_piv"
  by code_simp+

lemma example_guesses_run:
  "snd (card_session (piv_event example_applet_env) example_piv example_guesses) = [Inl 0x63C2, Inr (), Inl 0x63C1, Inl SW_SECURITY_STATUS]"
  by code_simp

theorem piv_pin_lockout_witness:
  "\<exists>b. fst (card_session (piv_event example_applet_env) example_piv example_guesses) = b
     \<and> piv_process example_applet_env b (verify_apdu DEFAULT_PIN) = (b, Inl SW_SECURITY_STATUS)"
proof -
  have "Some (ps_pin piv_factory) \<notin> presented ` set example_guesses" "guesses example_guesses = 3" by code_simp+
  moreover have "presented (Card_Command (verify_apdu DEFAULT_PIN)) \<noteq> None" by code_simp
  moreover have "Inl SW_CONDITIONS_NOT_SATISFIED \<notin> set (snd (card_session (piv_event example_applet_env) example_piv example_guesses))"
    unfolding example_guesses_run by (simp add: SW_CONDITIONS_NOT_SATISFIED_def SW_SECURITY_STATUS_def)
  moreover have "unat (ps_retries piv_factory) = 3" by code_simp
  ultimately show ?thesis
    using piv_pin_lockout [OF memory_piv_device example_applet_lib example_piv_synced example_piv_state, of example_guesses
        "fst (card_session (piv_event example_applet_env) example_piv example_guesses)"
        "snd (card_session (piv_event example_applet_env) example_piv example_guesses)"]
    by (simp del: presented.simps) (metis option.distinct(1))
qed

end
