(* ===== verification/Openpgp.thy ===== *)
theory Openpgp
  imports Vault Oath_State
begin

section \<open>The OpenPGP applet\<close>

text \<open>
  Models \<open>OpenPgpApplet\<close> of \<open>openkey-device/src/firmware/yubico_openpgp.rs\<close>: the persisted state with its two format
  versions, the passwords PW1 and PW3 with their counters, the signature key, every command and the trait \<open>Applet\<close>.
  Loading and persisting are those of \<open>Vault\<close>. The file has its own copy of \<open>BlobReader\<close>, \<open>push_tlv\<close> and the byte
  lengths of the OATH applet, so that the reader of \<open>Oath_State\<close> is used here. Zeroization, log output, \<open>Debug\<close> and
  \<open>Drop\<close> are left out.
\<close>

unbundle bit_operations_syntax

definition AID_OPENPGP :: bytes where "AID_OPENPGP = [0xD2, 0x76, 0x00, 0x01, 0x24, 0x01]"
definition AID_OPENPGP_FULL :: bytes where
  "AID_OPENPGP_FULL =
     [0xD2, 0x76, 0x00, 0x01, 0x24, 0x01, 0x03, 0x00, 0x00, 0x00, 0x00, 0x00, 0x00, 0x00, 0x00, 0x00]"

definition PGP_STORAGE_KEY :: string where "PGP_STORAGE_KEY = ''sys:openpgp''"
definition PGP_FORMAT_VERSION :: u8 where "PGP_FORMAT_VERSION = 2"
definition DEFAULT_PW1 :: bytes where "DEFAULT_PW1 = [0x31, 0x32, 0x33, 0x34, 0x35, 0x36]"
definition DEFAULT_PW3 :: bytes where "DEFAULT_PW3 = [0x31, 0x32, 0x33, 0x34, 0x35, 0x36, 0x37, 0x38]"
definition PGP_MAX_RETRIES :: u8 where "PGP_MAX_RETRIES = 3"
definition MAX_PW_LEN :: usize where "MAX_PW_LEN = 32"

definition PGP_INS_VERIFY :: u8 where "PGP_INS_VERIFY = 0x20"
definition INS_PSO :: u8 where "INS_PSO = 0x2A"
definition PGP_INS_GENERATE :: u8 where "PGP_INS_GENERATE = 0x47"
definition PGP_INS_GET_DATA :: u8 where "PGP_INS_GET_DATA = 0xCA"
definition PW_SIGN :: u8 where "PW_SIGN = 0x81"
definition PW_OTHER :: u8 where "PW_OTHER = 0x82"
definition PW_ADMIN :: u8 where "PW_ADMIN = 0x83"
definition CRT_SIG :: u8 where "CRT_SIG = 0xB6"
definition CRT_DEC :: u8 where "CRT_DEC = 0xB8"
definition CRT_AUT :: u8 where "CRT_AUT = 0xA4"
definition PSO_P1_SIGN :: u8 where "PSO_P1_SIGN = 0x9E"
definition PSO_P2_SIGN :: u8 where "PSO_P2_SIGN = 0x9A"
definition PSO_P1_DECIPHER :: u8 where "PSO_P1_DECIPHER = 0x80"
definition PSO_P2_DECIPHER :: u8 where "PSO_P2_DECIPHER = 0x86"
definition PGP_ALG_P256 :: u8 where "PGP_ALG_P256 = 0x11"
definition PGP_ALG_ED25519 :: u8 where "PGP_ALG_ED25519 = 0xE0"
definition MAX_SIGN_DATA_LEN :: usize where "MAX_SIGN_DATA_LEN = 512"
definition PGP_SW_CLASS_NOT_SUPPORTED :: u16 where "PGP_SW_CLASS_NOT_SUPPORTED = 0x6E00"
definition PGP_SW_WRONG_SYNTAX :: u16 where "PGP_SW_WRONG_SYNTAX = 0x6A80"

definition pgp_sw_retries :: "u8 \<Rightarrow> u16" where
  "pgp_sw_retries left = 0x63C0 OR ucast (left AND 0x0F)"

subsection \<open>State\<close>

record SigKey =
  sk_alg :: u8
  sk_priv :: bytes
  sk_pub :: bytes

record OpenPgpState =
  gs_pw1 :: bytes
  gs_pw1_retries :: u8
  gs_pw3 :: bytes
  gs_pw3_retries :: u8
  gs_sig_key :: "SigKey option"

definition pgp_is_valid_alg :: "u8 \<Rightarrow> bool" where
  "pgp_is_valid_alg alg = (alg = PGP_ALG_P256 \<or> alg = PGP_ALG_ED25519)"

definition pgp_key_lengths_ok :: "u8 \<Rightarrow> usize \<Rightarrow> usize \<Rightarrow> bool" where
  "pgp_key_lengths_ok alg priv_len pub_len =
     (if alg = PGP_ALG_ED25519 then priv_len = 32 \<and> pub_len = 32
      else if alg = PGP_ALG_P256 then priv_len > 32 \<and> priv_len \<le> 256 \<and> pub_len = 65
      else False)"

definition serialize_sig_key :: "SigKey option \<Rightarrow> bytes" where
  "serialize_sig_key key =
     (case key of
        Some k \<Rightarrow>
          [1, sk_alg k] @ to_be_bytes 2 (of_nat (length (sk_priv k)) :: u16) @ sk_priv k
          @ to_be_bytes 2 (of_nat (length (sk_pub k)) :: u16) @ sk_pub k
      | None \<Rightarrow> [0])"

definition serialize_pgp_state :: "OpenPgpState \<Rightarrow> bytes" where
  "serialize_pgp_state s =
     [PGP_FORMAT_VERSION] @ len_prefixed (gs_pw1 s) @ [gs_pw1_retries s] @ len_prefixed (gs_pw3 s) @ [gs_pw3_retries s]
     @ serialize_sig_key (gs_sig_key s)"

definition take_u16be :: "BlobReader \<Rightarrow> (usize \<times> BlobReader) option" where
  "take_u16be r = map_option (\<lambda>(n, r). (unat n, r)) (take_u16 r)"

text \<open>A password and its counter.\<close>

definition parse_password :: "BlobReader \<Rightarrow> ((bytes \<times> u8) \<times> BlobReader) option" where
  "parse_password r =
     Option.bind (take_len_prefixed r) (\<lambda>(pw, r).
     guard (pw \<noteq> [] \<and> length pw \<le> MAX_PW_LEN) (
     Option.bind (take_u8 r) (\<lambda>(retries, r).
     guard (retries \<le> PGP_MAX_RETRIES) (Some ((pw, retries), r)))))"

definition parse_sig_key :: "BlobReader \<Rightarrow> (SigKey option \<times> BlobReader) option" where
  "parse_sig_key r =
     Option.bind (take_u8 r) (\<lambda>(has_key, r).
       if has_key = 0 then Some (None, r)
       else if has_key = 1
       then
         Option.bind (take_u8 r) (\<lambda>(alg, r).
         guard (pgp_is_valid_alg alg) (
         Option.bind (take_u16be r) (\<lambda>(priv_len, r).
         Option.bind (reader_take r priv_len) (\<lambda>(priv_key, r).
         Option.bind (take_u16be r) (\<lambda>(pub_len, r).
         Option.bind (reader_take r pub_len) (\<lambda>(pub_key, r).
         guard (pgp_key_lengths_ok alg (length priv_key) (length pub_key)) (
           Some (Some \<lparr>sk_alg = alg, sk_priv = priv_key, sk_pub = pub_key\<rparr>, r))))))))
       else None)"

definition parse_pgp_v1 :: "bytes \<Rightarrow> OpenPgpState option" where
  "parse_pgp_v1 blob =
     Option.bind (take_u8 (reader_new blob)) (\<lambda>(version, r).
     guard (version = 1) (
     Option.bind (parse_password r) (\<lambda>((pw1, retries1), r).
     Option.bind (parse_password r) (\<lambda>((pw3, retries3), r).
     guard (at_end r) (
       Some \<lparr>gs_pw1 = pw1, gs_pw1_retries = retries1, gs_pw3 = pw3, gs_pw3_retries = retries3, gs_sig_key = None\<rparr>)))))"

definition parse_pgp_v2 :: "bytes \<Rightarrow> OpenPgpState option" where
  "parse_pgp_v2 blob =
     Option.bind (take_u8 (reader_new blob)) (\<lambda>(version, r).
     guard (version = PGP_FORMAT_VERSION) (
     Option.bind (parse_password r) (\<lambda>((pw1, retries1), r).
     Option.bind (parse_password r) (\<lambda>((pw3, retries3), r).
     Option.bind (parse_sig_key r) (\<lambda>(key, r).
     guard (at_end r) (
       Some \<lparr>gs_pw1 = pw1, gs_pw1_retries = retries1, gs_pw3 = pw3, gs_pw3_retries = retries3, gs_sig_key = key\<rparr>))))))"

definition parse_pgp_state :: "bytes \<Rightarrow> OpenPgpState option" where
  "parse_pgp_state blob =
     (if blob = [] then None
      else if blob ! 0 = 1 then parse_pgp_v1 blob
      else if blob ! 0 = PGP_FORMAT_VERSION then parse_pgp_v2 blob
      else None)"

subsection \<open>Requests and objects\<close>

text \<open>\<open>Err(true)\<close> is an unknown slot, \<open>Err(false)\<close> a syntax error.\<close>

definition pgp_parse_generate_alg :: "bytes \<Rightarrow> (bool, u8) result" where
  "pgp_parse_generate_alg data =
     (if length data = 1 then (if pgp_is_valid_alg (data ! 0) then Inr (data ! 0) else Inl False)
      else if length data = 5 \<and> data ! 1 = 0x03 \<and> data ! 2 = 0x80 \<and> data ! 3 = 0x01 \<and> pgp_is_valid_alg (data ! 4)
      then (if data ! 0 = CRT_SIG then Inr (data ! 4)
            else if data ! 0 = CRT_DEC \<or> data ! 0 = CRT_AUT then Inl True
            else Inl False)
      else if data \<noteq> [] \<and> (data ! 0 = CRT_DEC \<or> data ! 0 = CRT_AUT) then Inl True
      else Inl False)"

definition pgp_pubkey_object :: "u8 \<Rightarrow> bytes \<Rightarrow> bytes" where
  "pgp_pubkey_object alg pub_key =
     (let inner = [0x80, 0x01, alg] @ [0x86] @ [of_nat (length pub_key)] @ pub_key
      in [0x7F, 0x49, of_nat (length inner)] @ inner)"

definition HISTORICAL_BYTES :: bytes where "HISTORICAL_BYTES = [0x00, 0x73, 0x00, 0x00]"
definition SIG_ALGO_ATTRIBUTES_EMPTY :: bytes where "SIG_ALGO_ATTRIBUTES_EMPTY = [0x01, 0x08, 0x00, 0x00]"
definition SIG_ALGO_ATTRIBUTES_ED25519 :: bytes where "SIG_ALGO_ATTRIBUTES_ED25519 = [0x16, 0x20, 0x00, 0x00]"
definition SIG_ALGO_ATTRIBUTES_P256 :: bytes where "SIG_ALGO_ATTRIBUTES_P256 = [0x13, 0x2A, 0x00, 0x00]"

definition sig_algo_attributes :: "u8 option \<Rightarrow> bytes" where
  "sig_algo_attributes alg =
     (if alg = Some PGP_ALG_ED25519 then SIG_ALGO_ATTRIBUTES_ED25519
      else if alg = Some PGP_ALG_P256 then SIG_ALGO_ATTRIBUTES_P256
      else SIG_ALGO_ATTRIBUTES_EMPTY)"

definition application_data :: bytes where
  "application_data =
     (let inner = push_tlv [] 0x4F AID_OPENPGP_FULL @ [0x5F, 0x52, of_nat (length HISTORICAL_BYTES)] @ HISTORICAL_BYTES
      in push_tlv [] 0x6F inner)"

subsection \<open>The applet\<close>

record 'b OpenPgpApplet = "('b, OpenPgpState) Vault" +
  pw1_verified :: bool

definition pgp_format :: "OpenPgpState Format" where
  "pgp_format = \<lparr>fm_key = PGP_STORAGE_KEY, fm_serialize = serialize_pgp_state, fm_parse = parse_pgp_state,
     fm_outdated = (\<lambda>p. p \<noteq> [] \<and> p ! 0 = 1)\<rparr>"

definition pgp_factory :: OpenPgpState where
  "pgp_factory = \<lparr>gs_pw1 = DEFAULT_PW1, gs_pw1_retries = PGP_MAX_RETRIES, gs_pw3 = DEFAULT_PW3,
     gs_pw3_retries = PGP_MAX_RETRIES, gs_sig_key = None\<rparr>"

definition pgp_ensure_loaded :: "'b StorageEnv \<Rightarrow> 'b OpenPgpApplet \<Rightarrow> ('b OpenPgpApplet, u16, unit) outcome" where
  "pgp_ensure_loaded env = vault_load env pgp_format (\<lambda>v. (v, pgp_factory))"

definition pgp_state_mut :: "'b StorageEnv \<Rightarrow> 'b OpenPgpApplet \<Rightarrow> ('b OpenPgpApplet, u16, OpenPgpState) outcome" where
  "pgp_state_mut env = vault_state_mut env pgp_format (\<lambda>v. (v, pgp_factory))"

definition pgp_persist_state :: "'b StorageEnv \<Rightarrow> 'b OpenPgpApplet \<Rightarrow> ('b OpenPgpApplet, u16, unit) outcome" where
  "pgp_persist_state env = vault_persist env pgp_format"

definition pgp_new :: "'b StorageEnv \<Rightarrow> 'b StorageEngine \<Rightarrow> CryptoEngine \<Rightarrow> nat \<Rightarrow> ('b OpenPgpApplet, u16, unit) outcome" where
  "pgp_new env storage crypto draws =
     pgp_ensure_loaded env \<lparr>va_storage = storage, va_crypto = crypto, va_draws = draws, va_state = None, pw1_verified = False\<rparr>"

text \<open>The tags in P1 and P2: AID, historical bytes, algorithm attributes, public key, fingerprint.\<close>

definition pgp_get_data :: "'b StorageEnv \<Rightarrow> 'b OpenPgpApplet \<Rightarrow> Apdu \<Rightarrow> ('b OpenPgpApplet, u16, ResponseData) outcome" where
  "pgp_get_data env v apdu =
     (let tag = (p1 apdu, p2 apdu) in
      if tag = (0x00, 0x4F) then (v, Inr (resp_ok (push_tlv [] 0x4F AID_OPENPGP_FULL)))
      else if tag = (0x5F, 0x52) then (v, Inr (resp_ok HISTORICAL_BYTES))
      else if tag = (0x00, 0x7A)
      then andthen (pgp_state_mut env v) (\<lambda>s v. (v, Inr (resp_ok (sig_algo_attributes (map_option sk_alg (gs_sig_key s))))))
      else if tag = (0xB6, 0x00)
      then andthen (pgp_state_mut env v) (\<lambda>s v.
             attempt (ok_or (gs_sig_key s) SW_SECURITY_STATUS) v (\<lambda>key. (v, Inr (resp_ok (pgp_pubkey_object (sk_alg key) (sk_pub key))))))
      else if tag = (0x00, 0xC5)
      then andthen (pgp_state_mut env v) (\<lambda>s v.
             attempt (ok_or (gs_sig_key s) SW_SECURITY_STATUS) v (\<lambda>key. (v, Inr (resp_ok (sha256 (ring env) (sk_pub key))))))
      else (v, Inl SW_FILE_NOT_FOUND))"

definition password_slot :: "Apdu \<Rightarrow> (u16, u8) result" where
  "password_slot apdu =
     (let selector = (if p1 apdu \<noteq> 0 then p1 apdu else p2 apdu)
      in if selector = PW_SIGN \<or> selector = PW_OTHER \<or> selector = PW_ADMIN then Inr selector else Inl SW_WRONG_P1_P2)"

definition set_retries :: "bool \<Rightarrow> u8 \<Rightarrow> OpenPgpState \<Rightarrow> OpenPgpState" where
  "set_retries is_admin n s = (if is_admin then s\<lparr>gs_pw3_retries := n\<rparr> else s\<lparr>gs_pw1_retries := n\<rparr>)"

definition pgp_verify :: "'b StorageEnv \<Rightarrow> 'b OpenPgpApplet \<Rightarrow> Apdu \<Rightarrow> ('b OpenPgpApplet, u16, ResponseData) outcome" where
  "pgp_verify env v apdu =
     attempt (password_slot apdu) v (\<lambda>slot.
     andthen (pgp_state_mut env v) (\<lambda>s v.
       let is_admin = (slot = PW_ADMIN);
           expected = (if is_admin then gs_pw3 s else gs_pw1 s);
           left = (if is_admin then gs_pw3_retries s else gs_pw1_retries s)
       in check (left = 0) SW_SECURITY_STATUS v
          (if apdu_data apdu = [] then (v, Inr (with_sw [] (pgp_sw_retries left)))
           else if constant_time_eq (apdu_data apdu) expected
           then andthen (pgp_persist_state env (put_vault (set_retries is_admin PGP_MAX_RETRIES s) v)) (\<lambda>_ v.
                  (if is_admin then v else v\<lparr>pw1_verified := True\<rparr>, Inr (resp_ok [])))
           else
             let retries = saturating_sub_word left 1;
                 sw = (if retries = 0 then SW_SECURITY_STATUS else pgp_sw_retries retries);
                 v = put_vault (set_retries is_admin retries s) v;
                 v = (if sw = SW_SECURITY_STATUS \<and> \<not> is_admin then v\<lparr>pw1_verified := False\<rparr> else v)
             in andthen (pgp_persist_state env v) (\<lambda>_ v. (v, Inl sw)))))"

definition pgp_generate_pair :: "RingPrims \<Rightarrow> nat \<Rightarrow> u8 \<Rightarrow> (u16, bytes \<times> bytes) result" where
  "pgp_generate_pair r draw alg =
     (if alg = PGP_ALG_ED25519 then map_err (\<lambda>_. SW_CONDITIONS_NOT_SATISFIED) (generate_key_pair r draw)
      else if alg = PGP_ALG_P256 then map_err (\<lambda>_. SW_CONDITIONS_NOT_SATISFIED) (generate_p256_key_pair r draw)
      else Inl PGP_SW_WRONG_SYNTAX)"

text \<open>When persisting fails the key in memory is removed.\<close>

definition pgp_generate :: "'b StorageEnv \<Rightarrow> 'b OpenPgpApplet \<Rightarrow> Apdu \<Rightarrow> ('b OpenPgpApplet, u16, ResponseData) outcome" where
  "pgp_generate env v apdu =
     check (\<not> (p1 apdu = 0x00 \<or> p1 apdu = 0x80 \<or> p1 apdu = 0x81) \<or> p2 apdu \<noteq> 0) SW_WRONG_P1_P2 v
     (attempt (map_err (\<lambda>unknown_slot. if unknown_slot then SW_FILE_NOT_FOUND else PGP_SW_WRONG_SYNTAX)
                (pgp_parse_generate_alg (apdu_data apdu))) v (\<lambda>alg.
       let r = pgp_generate_pair (ring env) (va_draws v) alg; v = v\<lparr>va_draws := va_draws v + 1\<rparr> in
       attempt r v (\<lambda>(priv_key, pub_key).
       andthen (pgp_state_mut env v) (\<lambda>s v.
         case pgp_persist_state env (put_vault (s\<lparr>gs_sig_key := Some \<lparr>sk_alg = alg, sk_priv = priv_key, sk_pub = pub_key\<rparr>\<rparr>) v) of
           (v, Inr _) \<Rightarrow> (v, Inr (resp_ok (pgp_pubkey_object alg pub_key)))
         | (v, Inl sw) \<Rightarrow>
             (case pgp_state_mut env v of
                (v, Inr s) \<Rightarrow> (put_vault (s\<lparr>gs_sig_key := None\<rparr>) v, Inl sw)
              | (v, Inl _) \<Rightarrow> (v, Inl sw))))))"

definition pgp_sign :: "RingPrims \<Rightarrow> nat \<Rightarrow> u8 \<Rightarrow> bytes \<Rightarrow> bytes \<Rightarrow> (u16, bytes) result" where
  "pgp_sign r draw alg key data =
     (if alg = PGP_ALG_ED25519 then map_err (\<lambda>_. SW_CONDITIONS_NOT_SATISFIED) (sign r data key)
      else if alg = PGP_ALG_P256 then map_err (\<lambda>_. SW_CONDITIONS_NOT_SATISFIED) (sign_p256 r draw key data)
      else Inl PGP_SW_WRONG_SYNTAX)"

definition pgp_pso :: "'b StorageEnv \<Rightarrow> 'b OpenPgpApplet \<Rightarrow> Apdu \<Rightarrow> ('b OpenPgpApplet, u16, ResponseData) outcome" where
  "pgp_pso env v apdu =
     (if p1 apdu = PSO_P1_SIGN \<and> p2 apdu = PSO_P2_SIGN
      then
        check (\<not> pw1_verified v) SW_SECURITY_STATUS v
        (check (apdu_data apdu = [] \<or> length (apdu_data apdu) > MAX_SIGN_DATA_LEN) PGP_SW_WRONG_SYNTAX v
        (andthen (pgp_state_mut env v) (\<lambda>s v.
         attempt (ok_or (gs_sig_key s) SW_SECURITY_STATUS) v (\<lambda>key.
           let r = pgp_sign (ring env) (va_draws v) (sk_alg key) (sk_priv key) (apdu_data apdu); v = v\<lparr>va_draws := va_draws v + 1\<rparr> in
           attempt r v (\<lambda>signature. (v, Inr (resp_ok signature)))))))
      else if p1 apdu = PSO_P1_DECIPHER \<and> p2 apdu = PSO_P2_DECIPHER then (v, Inl SW_SECURITY_STATUS)
      else (v, Inl SW_WRONG_P1_P2))"

subsection \<open>The trait Applet\<close>

definition pgp_select :: "'b StorageEnv \<Rightarrow> 'b OpenPgpApplet \<Rightarrow> ('b OpenPgpApplet, u16, unit) outcome" where
  "pgp_select env v = pgp_ensure_loaded env v"

definition pgp_select_response :: "'b OpenPgpApplet \<Rightarrow> 'b OpenPgpApplet \<times> bytes" where
  "pgp_select_response v = (v, application_data)"

definition pgp_process :: "'b StorageEnv \<Rightarrow> 'b OpenPgpApplet \<Rightarrow> Apdu \<Rightarrow> ('b OpenPgpApplet, u16, ResponseData) outcome" where
  "pgp_process env v apdu =
     (if cla apdu \<noteq> 0 then (v, Inl PGP_SW_CLASS_NOT_SUPPORTED)
      else if ins apdu = PGP_INS_VERIFY then pgp_verify env v apdu
      else if ins apdu = PGP_INS_GET_DATA then pgp_get_data env v apdu
      else if ins apdu = PGP_INS_GENERATE then pgp_generate env v apdu
      else if ins apdu = INS_PSO then pgp_pso env v apdu
      else (v, Inl SW_INS_NOT_SUPPORTED))"

definition pgp_applet :: "'b StorageEnv \<Rightarrow> 'b OpenPgpApplet AppletOps" where
  "pgp_applet env =
     \<lparr>ap_aid = (\<lambda>_. AID_OPENPGP_FULL), ap_select = pgp_select env, ap_select_response = pgp_select_response, ap_process = pgp_process env\<rparr>"

end
