(* ===== verification/Openpgp_Safety.thy ===== *)
theory Openpgp_Safety
  imports Openpgp
begin

section \<open>Safety of the OpenPGP applet\<close>

text \<open>
  The persisted state is read back exactly, so that the OpenPGP format satisfies the contract \<open>sealed_applet\<close>; and
  no signature is made for someone who has not presented the password PW1 since the last power cycle, whatever
  else is sent and also when the storage refuses writes.
\<close>

subsection \<open>The format is read back\<close>

definition sig_key_wf :: "SigKey option \<Rightarrow> bool" where
  "sig_key_wf key =
     (case key of Some k \<Rightarrow> pgp_is_valid_alg (sk_alg k) \<and> pgp_key_lengths_ok (sk_alg k) (length (sk_priv k)) (length (sk_pub k)) | None \<Rightarrow> True)"

definition pgp_wf :: "OpenPgpState \<Rightarrow> bool" where
  "pgp_wf s = (gs_pw1 s \<noteq> [] \<and> length (gs_pw1 s) \<le> MAX_PW_LEN \<and> gs_pw1_retries s \<le> PGP_MAX_RETRIES
     \<and> gs_pw3 s \<noteq> [] \<and> length (gs_pw3 s) \<le> MAX_PW_LEN \<and> gs_pw3_retries s \<le> PGP_MAX_RETRIES \<and> sig_key_wf (gs_sig_key s))"

lemma parse_password_reading:
  assumes "pw \<noteq> []" "length pw \<le> MAX_PW_LEN" "n \<le> PGP_MAX_RETRIES" "length pre + length pw + length rest + 2 \<le> usize_max"
  shows "parse_password (reading pre (len_prefixed pw @ n # rest)) = Some ((pw, n), reading (pre @ len_prefixed pw @ [n]) rest)"
  using assms take_len_prefixed_reading [of pw pre "n # rest"] take_u8_reading [of "pre @ len_prefixed pw" rest n]
  by (simp add: parse_password_def guard_def MAX_PW_LEN_def)

lemma take_u16be_reading:
  "n < 65536 \<Longrightarrow> length pre + length rest + 2 \<le> usize_max \<Longrightarrow>
   take_u16be (reading pre (to_be_bytes 2 (of_nat n :: u16) @ rest)) = Some (n, reading (pre @ to_be_bytes 2 (of_nat n :: u16)) rest)"
  by (simp add: take_u16be_def take_u16_reading unat_of_nat)

lemma parse_sig_key_reading:
  assumes "sig_key_wf key" "length pre + 400 \<le> usize_max"
  shows "parse_sig_key (reading pre (serialize_sig_key key)) = Some (key, reading (pre @ serialize_sig_key key) [])"
proof (cases key)
  case None
  then show ?thesis using assms(2) take_u8_reading [of pre "[]" 0] by (simp add: parse_sig_key_def serialize_sig_key_def)
next
  case (Some k)
  have ok: "pgp_is_valid_alg (sk_alg k)" "pgp_key_lengths_ok (sk_alg k) (length (sk_priv k)) (length (sk_pub k))"
    using assms(1) Some by (simp_all add: sig_key_wf_def)
  then have len: "length (sk_priv k) \<le> 256" "length (sk_pub k) \<le> 65" by (auto simp: pgp_key_lengths_ok_def split: if_splits)
  let ?n = "to_be_bytes 2 (of_nat (length (sk_priv k)) :: u16)" and ?m = "to_be_bytes 2 (of_nat (length (sk_pub k)) :: u16)"
  have take: "reader_take (reading pre' (sk_priv k @ ?m @ sk_pub k)) (length (sk_priv k)) = Some (sk_priv k, reading (pre' @ sk_priv k) (?m @ sk_pub k))"
    if "length pre' + 330 \<le> usize_max" for pre' using take_reading [of pre' "sk_priv k" "?m @ sk_pub k"] that len by simp
  show ?thesis
    using Some assms(2) len ok take [of "pre @ [1, sk_alg k] @ ?n"] take_u8_reading [of pre "sk_alg k # ?n @ sk_priv k @ ?m @ sk_pub k" 1]
      take_u8_reading [of "pre @ [1]" "?n @ sk_priv k @ ?m @ sk_pub k" "sk_alg k"]
      take_u16be_reading [of "length (sk_priv k)" "pre @ [1, sk_alg k]" "sk_priv k @ ?m @ sk_pub k"]
      take_u16be_reading [of "length (sk_pub k)" "pre @ [1, sk_alg k] @ ?n @ sk_priv k" "sk_pub k"]
      take_reading [of "pre @ [1, sk_alg k] @ ?n @ sk_priv k @ ?m" "sk_pub k" "[]"]
    by (simp add: parse_sig_key_def serialize_sig_key_def guard_def)
qed

lemma parse_pgp_serialize:
  assumes "pgp_wf s"
  shows "parse_pgp_state (serialize_pgp_state s) = Some s"
proof -
  have w: "gs_pw1 s \<noteq> []" "length (gs_pw1 s) \<le> MAX_PW_LEN" "gs_pw1_retries s \<le> PGP_MAX_RETRIES"
    "gs_pw3 s \<noteq> []" "length (gs_pw3 s) \<le> MAX_PW_LEN" "gs_pw3_retries s \<le> PGP_MAX_RETRIES" "sig_key_wf (gs_sig_key s)"
    using assms by (simp_all add: pgp_wf_def)
  let ?k = "serialize_sig_key (gs_sig_key s)"
  have k: "length ?k \<le> 400" using w(7) by (auto simp: sig_key_wf_def serialize_sig_key_def pgp_key_lengths_ok_def split: option.splits if_splits)
  let ?p1 = "len_prefixed (gs_pw1 s)" and ?p3 = "len_prefixed (gs_pw3 s)"
  have "parse_pgp_v2 (serialize_pgp_state s) = Some s"
    using w k take_u8_reading [of "[]" "?p1 @ [gs_pw1_retries s] @ ?p3 @ [gs_pw3_retries s] @ ?k" PGP_FORMAT_VERSION]
      parse_password_reading [OF w(1-3), of "[PGP_FORMAT_VERSION]" "?p3 @ [gs_pw3_retries s] @ ?k"]
      parse_password_reading [OF w(4-6), of "[PGP_FORMAT_VERSION] @ ?p1 @ [gs_pw1_retries s]" ?k]
      parse_sig_key_reading [OF w(7), of "[PGP_FORMAT_VERSION] @ ?p1 @ [gs_pw1_retries s] @ ?p3 @ [gs_pw3_retries s]"]
    by (simp add: parse_pgp_v2_def serialize_pgp_state_def reader_new_reading guard_def usize_max_def MAX_PW_LEN_def)
  then show ?thesis by (simp add: parse_pgp_state_def serialize_pgp_state_def PGP_FORMAT_VERSION_def)
qed

lemma parse_password_wf:
  "parse_password r = Some ((pw, n), r') \<Longrightarrow> pw \<noteq> [] \<and> length pw \<le> MAX_PW_LEN \<and> n \<le> PGP_MAX_RETRIES"
  by (auto simp: parse_password_def bind_eq_Some_conv)

lemma parse_sig_key_wf: "parse_sig_key r = Some (k, r') \<Longrightarrow> sig_key_wf k"
  by (auto simp: parse_sig_key_def bind_eq_Some_conv sig_key_wf_def split: if_splits)

lemma parse_pgp_wf: "parse_pgp_state blob = Some s \<Longrightarrow> pgp_wf s"
  by (auto simp: parse_pgp_state_def parse_pgp_v1_def parse_pgp_v2_def bind_eq_Some_conv pgp_wf_def sig_key_wf_def [of None]
      split: if_splits dest!: parse_password_wf parse_sig_key_wf)

lemma pgp_format_simps [simp]:
  "fm_key pgp_format = PGP_STORAGE_KEY" "fm_serialize pgp_format = serialize_pgp_state" "fm_parse pgp_format = parse_pgp_state"
  by (simp_all add: pgp_format_def)

lemma pgp_format_contract:
  "kv_ops (store env) (retrieve env) (kv_delete env) good \<Longrightarrow> sealed_applet env good pgp_format pgp_wf"
  by (intro sealed_applet.intro sealed_applet_axioms.intro)
     (simp_all add: parse_pgp_serialize parse_pgp_wf, simp add: serialize_pgp_state_def)

subsection \<open>Signatures need the password\<close>

fun pgp_event :: "'b StorageEnv \<Rightarrow> 'b OpenPgpApplet \<Rightarrow> CardEvent \<Rightarrow> ('b OpenPgpApplet, u16, unit) outcome" where
  "pgp_event env v Card_Select = pgp_select env v"
| "pgp_event env v (Card_Command apdu) = andthen (pgp_process env v apdu) (\<lambda>_ v. (v, Inr ()))"
| "pgp_event env v Card_PowerCycle = pgp_new env (va_storage v) (va_crypto v) (va_draws v)"

fun presents_pw1 :: "bytes \<Rightarrow> CardEvent \<Rightarrow> bool" where
  "presents_pw1 pw (Card_Command apdu) =
     (cla apdu = 0 \<and> ins apdu = PGP_INS_VERIFY \<and> (password_slot apdu = Inr PW_SIGN \<or> password_slot apdu = Inr PW_OTHER)
      \<and> apdu_data apdu = pw)"
| "presents_pw1 pw _ = False"

text \<open>The session is not verified, and memory and storage both hold the password.\<close>

definition pw1_guarded :: "'b StorageEnv \<Rightarrow> ('b StorageEngine \<Rightarrow> bool) \<Rightarrow> bytes \<Rightarrow> 'b OpenPgpApplet \<Rightarrow> bool" where
  "pw1_guarded env good pw v =
     (good (va_storage v) \<and> \<not> pw1_verified v \<and>
      (\<exists>s t. va_state v = Some s \<and> pgp_wf s \<and> gs_pw1 s = pw \<and> vault_stored env pgp_format v = Some t \<and> gs_pw1 t = pw))"

lemma pw1_guarded_draws [simp]: "pw1_guarded env good pw (v\<lparr>va_draws := n\<rparr>) = pw1_guarded env good pw v"
  by (simp add: pw1_guarded_def)

lemma stored_pw1_verified [simp]: "vault_stored env fm (v\<lparr>pw1_verified := b\<rparr>) = vault_stored env fm v"
  by (simp add: vault_stored_def vault_plaintext_bind)

lemma pw1_verified_put_vault [simp]: "pw1_verified (put_vault s v) = pw1_verified v"
  by (simp add: put_vault_def)

lemma put_vault_pw1: "(put_vault s v)\<lparr>pw1_verified := b\<rparr> = put_vault s (v\<lparr>pw1_verified := b\<rparr>)"
  by (simp add: put_vault_def)

lemma pw1_guarded_unverified [simp]: "pw1_guarded env good pw v \<Longrightarrow> pw1_guarded env good pw (v\<lparr>pw1_verified := False\<rparr>)"
  by (simp add: pw1_guarded_def)

lemma pgp_loaded:
  assumes "pw1_guarded env good pw v"
  obtains s where "va_state v = Some s" "pgp_wf s" "gs_pw1 s = pw" "pgp_state_mut env v = (v, Inr s)" "pgp_ensure_loaded env v = (v, Inr ())"
  using assms that by (auto simp: pw1_guarded_def pgp_state_mut_def pgp_ensure_loaded_def)

lemma pgp_wf_updates:
  assumes "pgp_wf s"
  shows "n \<le> PGP_MAX_RETRIES \<Longrightarrow> pgp_wf (set_retries a n s)" "sig_key_wf k \<Longrightarrow> pgp_wf (s\<lparr>gs_sig_key := k\<rparr>)"
  using assms by (auto simp: pgp_wf_def set_retries_def)

lemma set_retries_pw1 [simp]: "gs_pw1 (set_retries a n s) = gs_pw1 s" "gs_sig_key (set_retries a n s) = gs_sig_key s"
  by (simp_all add: set_retries_def)

lemma pgp_generate_pair_wf:
  "applet_lib r \<Longrightarrow> pgp_generate_pair r draw alg = Inr (priv_key, pub_key) \<Longrightarrow>
   sig_key_wf (Some \<lparr>sk_alg = alg, sk_priv = priv_key, sk_pub = pub_key\<rparr>)"
  using generated_lengths [of r draw priv_key pub_key]
  by (auto simp: pgp_generate_pair_def effect_ok sig_key_wf_def pgp_is_valid_alg_def pgp_key_lengths_ok_def
      PGP_ALG_ED25519_def PGP_ALG_P256_def split: if_splits)

lemma saturating_sub_le: "n \<le> k \<Longrightarrow> saturating_sub_word n m \<le> k"
  by (simp add: word_le_nat_alt unat_saturating_sub_word)

locale pgp_device = sealed_applet env good pgp_format pgp_wf
  for env :: "'b StorageEnv" and good :: "'b StorageEngine \<Rightarrow> bool"
begin

lemma guarded_persist:
  assumes "sealing_ring (ring env)" "pw1_guarded env good pw v" "pgp_wf s" "gs_pw1 s = pw"
  shows "pw1_guarded env good pw (fst (pgp_persist_state env (put_vault s v)))"
    "va_state (fst (pgp_persist_state env (put_vault s v))) = Some s"
proof -
  obtain w r where p: "vault_persist env pgp_format (put_vault s v) = (w, r)" by fastforce
  have f: "va_state w = Some s" "pw1_verified w = pw1_verified v"
    using vault_persist_state [OF p] vault_persist_frame(1) [OF p] by (auto simp: put_vault_def)
  have good: "good (va_storage (put_vault s v))" using assms(2) by (simp add: pw1_guarded_def)
  show "va_state (fst (pgp_persist_state env (put_vault s v))) = Some s" using p f by (simp add: pgp_persist_state_def)
  show "pw1_guarded env good pw (fst (pgp_persist_state env (put_vault s v)))"
  proof (cases r)
    case (Inl e)
    then show ?thesis
      using persist_fail [OF good] p f assms(2-4) by (auto simp: pw1_guarded_def pgp_persist_state_def)
  next
    case (Inr u)
    then show ?thesis
      using persist_ok [OF good assms(3) _ _ assms(1)] p f assms(2-4)
      by (auto simp: pw1_guarded_def pgp_persist_state_def vault_synced_def vault_ok_def)
  qed
qed

lemma guarded_verify:
  assumes "sealing_ring (ring env)" "pw1_guarded env good pw v" "cla apdu = 0" "ins apdu = PGP_INS_VERIFY" "\<not> presents_pw1 pw (Card_Command apdu)"
  shows "pw1_guarded env good pw (fst (pgp_verify env v apdu))"
proof -
  obtain s where s: "va_state v = Some s" "pgp_wf s" "gs_pw1 s = pw" "pgp_state_mut env v = (v, Inr s)"
    using assms(2) by (rule pgp_loaded)
  have persist: "pw1_guarded env good pw (fst (andthen (pgp_persist_state env (put_vault (set_retries a n s) w)) (\<lambda>_ v. (v, q))))"
    if "n \<le> PGP_MAX_RETRIES" "pw1_guarded env good pw w" for a n q w
    by (rule andthen_inv [where P = "pw1_guarded env good pw"])
       (simp_all add: guarded_persist [OF assms(1) that(2) pgp_wf_updates(1) [OF s(2) that(1)]] s(3))
  have left: "(if slot = PW_ADMIN then gs_pw3_retries s else gs_pw1_retries s) \<le> PGP_MAX_RETRIES" for slot
    using s(2) by (simp add: pgp_wf_def)
  show ?thesis
  proof (cases "password_slot apdu")
    case (Inr slot)
    have "slot = PW_ADMIN \<or> apdu_data apdu \<noteq> gs_pw1 s"
      using assms(3-5) s(3) Inr by (auto simp: password_slot_def Let_def split: if_splits)
    then show ?thesis
      using assms(2) s left [of slot] Inr
      by (auto simp: pgp_verify_def check_def Let_def constant_time_eq_def put_vault_pw1
          intro!: persist [unfolded s(3) [symmetric]] saturating_sub_le split: if_splits)
  qed (simp add: pgp_verify_def assms(2))
qed

lemma guarded_generate:
  assumes "applet_lib (ring env)" "pw1_guarded env good pw v"
  shows "pw1_guarded env good pw (fst (pgp_generate env v apdu))"
proof -
  have lib: "sealing_ring (ring env)" using assms(1) by (simp add: applet_lib_def)
  have persist: "pw1_guarded env good pw (fst (andthen (pgp_state_mut env w) (\<lambda>s v.
        case pgp_persist_state env (put_vault (s\<lparr>gs_sig_key := Some k\<rparr>) v) of
          (v, Inr _) \<Rightarrow> (v, Inr q)
        | (v, Inl sw) \<Rightarrow> (case pgp_state_mut env v of (v, Inr s) \<Rightarrow> (put_vault (s\<lparr>gs_sig_key := None\<rparr>) v, Inl sw) | (v, Inl _) \<Rightarrow> (v, Inl sw)))))"
    if w: "pw1_guarded env good pw w" and k: "sig_key_wf (Some k)" for w k and q :: ResponseData
  proof -
    obtain s where s: "va_state w = Some s" "pgp_wf s" "gs_pw1 s = pw" "pgp_state_mut env w = (w, Inr s)"
      using w by (rule pgp_loaded)
    have g: "pgp_wf (s\<lparr>gs_sig_key := Some k\<rparr>)" "gs_pw1 (s\<lparr>gs_sig_key := Some k\<rparr>) = pw"
      using pgp_wf_updates(2) [OF s(2) k] s(3) by simp_all
    obtain b r where b: "pgp_persist_state env (put_vault (s\<lparr>gs_sig_key := Some k\<rparr>) w) = (b, r)" by fastforce
    have "pw1_guarded env good pw b" "va_state b = Some (s\<lparr>gs_sig_key := Some k\<rparr>)" using guarded_persist [OF lib w g] b by simp_all
    then show ?thesis
      using b s by (cases r) (auto simp: pgp_state_mut_def pw1_guarded_def put_vault_def pgp_wf_def sig_key_wf_def)
  qed
  show ?thesis
    using assms(2) unfolding pgp_generate_def Let_def
    by (auto simp: check_def attempt_def split: sum.split prod.split intro!: persist pgp_generate_pair_wf [OF assms(1)])
qed

lemma guarded_process:
  assumes "applet_lib (ring env)" "pw1_guarded env good pw v" "\<not> presents_pw1 pw (Card_Command apdu)"
  shows "pw1_guarded env good pw (fst (pgp_process env v apdu))"
proof -
  have lib: "sealing_ring (ring env)" using assms(1) by (simp add: applet_lib_def)
  have "\<not> pw1_verified v" using assms(2) by (simp add: pw1_guarded_def)
  then have pso: "fst (pgp_pso env v apdu) = v" by (simp add: pgp_pso_def)
  have "fst (pgp_get_data env v apdu) = v"
    by (rule pgp_loaded [OF assms(2)]) (auto simp: pgp_get_data_def attempt_def Let_def split: sum.split)
  then show ?thesis
    using guarded_verify [OF lib assms(2) _ _ assms(3)] guarded_generate [OF assms(1,2)] pso assms(2)
    by (simp add: pgp_process_def del: presents_pw1.simps)
qed

lemma guarded_restart:
  assumes "sealing_ring (ring env)" "pw1_guarded env good pw v"
  shows "pw1_guarded env good pw (fst (pgp_new env (va_storage v) (va_crypto v) (va_draws v)))"
proof -
  define w :: "'b OpenPgpApplet" where
    "w = \<lparr>va_storage = va_storage v, va_crypto = va_crypto v, va_draws = va_draws v, va_state = None, pw1_verified = False\<rparr>"
  obtain t where t: "vault_stored env pgp_format v = Some t" "gs_pw1 t = pw" and good: "good (va_storage v)"
    using assms(2) by (auto simp: pw1_guarded_def)
  have "va_storage w = va_storage v" "\<not> pw1_verified w" by (simp_all add: w_def)
  have stored: "vault_stored env pgp_format w = Some t"
    using t(1) vault_plaintext_cong [of env w pgp_format v] by (simp add: vault_stored_def w_def)
  have "pw1_guarded env good pw (put_vault t w)"
    using stored t(2) good stored_wf [OF stored] \<open>va_storage w = va_storage v\<close> \<open>\<not> pw1_verified w\<close>
    by (auto simp: pw1_guarded_def)
  then have "pw1_guarded env good pw (fst (vault_persist env pgp_format (put_vault t w)))"
    using guarded_persist(1) [OF assms(1) _ stored_wf [OF stored] t(2), of "put_vault t w"] by (simp add: pgp_persist_state_def)
  then show ?thesis
    using \<open>pw1_guarded env good pw (put_vault t w)\<close> stored
    by (simp add: pgp_new_def pgp_ensure_loaded_def vault_load_def Let_def vault_stored_def flip: w_def) (simp add: w_def)
qed

lemma guarded_session:
  assumes "applet_lib (ring env)" "pw1_guarded env good pw v" "\<not> (\<exists>ev \<in> set evs. presents_pw1 pw ev)"
    and "card_session (pgp_event env) v evs = (b, rs)"
  shows "pw1_guarded env good pw b"
  using assms(2-)
proof (induction evs arbitrary: v rs)
  case (Cons ev evs)
  have lib: "sealing_ring (ring env)" using assms(1) by (simp add: applet_lib_def)
  obtain a r rs' where a: "pgp_event env v ev = (a, r)" and rest: "card_session (pgp_event env) a evs = (b, rs')"
    using Cons.prems(3) unfolding card_session_Cons by blast
  have "pw1_guarded env good pw a"
  proof (cases ev)
    case Card_Select
    then show ?thesis using a by (rule_tac pgp_loaded [OF Cons.prems(1)]) (use Cons.prems(1) in \<open>simp add: pgp_select_def\<close>)
  next
    case (Card_Command apdu)
    have "\<not> presents_pw1 pw (Card_Command apdu)" using Cons.prems(2) Card_Command by auto
    then have "pw1_guarded env good pw (fst (pgp_process env v apdu))" by (rule guarded_process [OF assms(1) Cons.prems(1)])
    then show ?thesis using a Card_Command by (cases "pgp_process env v apdu"; cases "snd (pgp_process env v apdu)") auto
  next
    case Card_PowerCycle
    then show ?thesis using guarded_restart [OF lib Cons.prems(1)] a by simp
  qed
  then show ?case using Cons.IH [OF _ _ rest] Cons.prems(2) by simp
qed simp

end

lemma pgp_device_contract: "kv_ops (store env) (retrieve env) (kv_delete env) good \<Longrightarrow> pgp_device env good"
  by (intro pgp_device.intro pgp_format_contract)

interpretation flash_pgp: pgp_device
    "\<lparr>ops = flash_backend dev codec, cred_codec = cc, hex_encode = hx, ring = r\<rparr>" "engine_ok (\<lambda>b. btree_wf (fs_cache b))"
  for dev codec cc hx r
  by (rule pgp_device_contract) (rule flash_kv.kv_ops_axioms)

interpretation file_pgp: pgp_device
    "\<lparr>ops = file_backend json, cred_codec = cc, hex_encode = hx, ring = r\<rparr>" "engine_ok (file_ready json)"
  for json cc hx r
  by (rule pgp_device_contract) (rule file_kv.kv_ops_axioms)

interpretation memory_pgp: pgp_device env "\<lambda>se. backend se = None" for env
  by (rule pgp_device_contract) (rule reliable_kv.axioms(1) [OF memory_kv_ops])

text \<open>
  Property C12: no signature without the password. Take any sequence of selections, commands and power cycles, with a
  storage that may refuse writes, in which VERIFY never presents the right PW1. Then the applet still has the same
  PW1, and PERFORM SECURITY OPERATION is refused without any effect, whatever its data and whatever keys were
  generated meanwhile.
\<close>

theorem pgp_signature_needs_password:
  assumes "pgp_device env good" "applet_lib (ring env)" "vault_synced env good pgp_format pgp_wf v" "va_state v = Some s"
    and "\<not> pw1_verified v" "\<not> (\<exists>ev \<in> set evs. presents_pw1 (gs_pw1 s) ev)" "card_session (pgp_event env) v evs = (b, rs)"
  shows "(\<exists>t. va_state b = Some t \<and> gs_pw1 t = gs_pw1 s)
    \<and> (\<forall>apdu. cla apdu \<noteq> 0 \<or> ins apdu \<noteq> INS_PSO \<or> (\<exists>sw. pgp_process env b apdu = (b, Inl sw)))"
proof -
  have "pw1_guarded env good (gs_pw1 s) v"
    using assms(3-5) by (auto simp: pw1_guarded_def vault_synced_def vault_ok_def)
  then have g: "pw1_guarded env good (gs_pw1 s) b"
    by (rule pgp_device.guarded_session [OF assms(1,2) _ assms(6,7)])
  then have "\<exists>sw. pgp_pso env b apdu = (b, Inl sw)" for apdu by (simp add: pgp_pso_def pw1_guarded_def)
  then show ?thesis
    using g by (auto simp: pw1_guarded_def pgp_process_def INS_PSO_def PGP_INS_VERIFY_def PGP_INS_GET_DATA_def PGP_INS_GENERATE_def)
qed

text \<open>A fresh applet in memory: a key is generated and a wrong password presented.\<close>

definition example_pgp :: "(string, bytes) btree OpenPgpApplet" where
  "example_pgp = fst (pgp_new example_applet_env (engine_empty None) (from_key (replicate 32 3)) 0)"

definition example_pgp_events :: "CardEvent list" where
  "example_pgp_events =
     [Card_Command \<lparr>cla = 0, ins = PGP_INS_GENERATE, p1 = 0x80, p2 = 0, apdu_data = [0xE0], le = None\<rparr>,
      Card_Command \<lparr>cla = 0, ins = PGP_INS_VERIFY, p1 = 0x81, p2 = 0, apdu_data = [0x30], le = None\<rparr>]"

lemma example_pgp_synced:
  "vault_synced example_applet_env (\<lambda>se. backend se = None) pgp_format pgp_wf example_pgp" "va_state example_pgp = Some pgp_factory"
  "\<not> pw1_verified example_pgp"
proof -
  let ?w = "\<lparr>va_storage = engine_empty None, va_crypto = from_key (replicate 32 3), va_draws = 0, va_state = None, pw1_verified = False\<rparr>
    :: (string, bytes) btree OpenPgpApplet"
  have w: "vault_synced example_applet_env (\<lambda>se. backend se = None) pgp_format pgp_wf ?w"
    by (simp add: vault_synced_def vault_ok_def engine_empty_def)
  have f: "pgp_wf pgp_factory"
    by (simp add: pgp_wf_def pgp_factory_def sig_key_wf_def DEFAULT_PW1_def DEFAULT_PW3_def MAX_PW_LEN_def)
  have "sealing_ring (ring example_applet_env)" using example_applet_lib by (simp add: applet_lib_def)
  from memory_pgp.keeps_load [OF w this, of "\<lambda>v. (v, pgp_factory)"]
  have "vault_keeps example_applet_env (\<lambda>se. backend se = None) pgp_format pgp_wf
      (pgp_new example_applet_env (engine_empty None) (from_key (replicate 32 3)) 0)"
    using f w by (simp add: pgp_new_def pgp_ensure_loaded_def vault_synced_def)
  moreover have "snd (pgp_new example_applet_env (engine_empty None) (from_key (replicate 32 3)) 0) = Inr ()" by code_simp
  ultimately show "vault_synced example_applet_env (\<lambda>se. backend se = None) pgp_format pgp_wf example_pgp"
    by (simp add: vault_keeps_def example_pgp_def)
  show "va_state example_pgp = Some pgp_factory" "\<not> pw1_verified example_pgp" by code_simp+
qed

theorem pgp_signature_needs_password_witness:
  "\<exists>sw. snd (pgp_process example_applet_env (fst (card_session (pgp_event example_applet_env) example_pgp example_pgp_events))
      \<lparr>cla = 0, ins = INS_PSO, p1 = PSO_P1_SIGN, p2 = PSO_P2_SIGN, apdu_data = [1, 2, 3], le = None\<rparr>) = Inl sw"
proof -
  have "\<not> (\<exists>ev \<in> set example_pgp_events. presents_pw1 (gs_pw1 pgp_factory) ev)" by code_simp
  from pgp_signature_needs_password [OF memory_pgp.pgp_device_axioms example_applet_lib example_pgp_synced this prod.collapse [symmetric]]
  show ?thesis by (metis Apdu.select_convs(1,2) snd_conv)
qed

end
