(* ===== verification/Management.thy ===== *)
theory Management
  imports Vault Oath_State Decimal
begin

section \<open>The Management applet\<close>

text \<open>
  Models \<open>ManagementApplet\<close> of \<open>openkey-device/src/firmware/yubico_management.rs\<close>: the persisted device identity and
  configuration with its two format versions, READ CONFIG, WRITE CONFIG and SET MODE, and the trait \<open>Applet\<close>.
  Loading and persisting are those of \<open>Vault\<close>. Two things can keep a call from returning: drawing a serial number
  repeats until it is not zero, and SET MODE indexes a table of seven entries with three bits. Calls that may do so
  have results of type \<open>option\<close>, with \<open>None\<close> for a call that does not return. \<open>push_tlv\<close> is the function of the same
  text in the OATH applet. Log output and \<open>Debug\<close> are left out.
\<close>

unbundle bit_operations_syntax

definition AID_YUBICO_MANAGEMENT :: bytes where
  "AID_YUBICO_MANAGEMENT = [0xA0, 0x00, 0x00, 0x05, 0x27, 0x47, 0x11, 0x17]"

definition MGMT_STORAGE_KEY :: string where "MGMT_STORAGE_KEY = ''sys:mgmt''"
definition MGMT_FORMAT_VERSION :: u8 where "MGMT_FORMAT_VERSION = 2"
definition MGMT_FORMAT_VERSION_V1 :: u8 where "MGMT_FORMAT_VERSION_V1 = 1"
definition MGMT_REPORTED_VERSION :: bytes where "MGMT_REPORTED_VERSION = [0x05, 0x04, 0x00]"
definition SUPPORTED_CAPABILITIES :: u16 where "SUPPORTED_CAPABILITIES = 0x062E"
definition FORM_FACTOR_CODE :: u8 where "FORM_FACTOR_CODE = 0x01"

definition TAG_USB_SUPPORTED :: u8 where "TAG_USB_SUPPORTED = 0x01"
definition TAG_SERIAL :: u8 where "TAG_SERIAL = 0x02"
definition TAG_USB_ENABLED :: u8 where "TAG_USB_ENABLED = 0x03"
definition TAG_FORM_FACTOR :: u8 where "TAG_FORM_FACTOR = 0x04"
definition MGMT_TAG_VERSION :: u8 where "MGMT_TAG_VERSION = 0x05"
definition TAG_AUTO_EJECT_TIMEOUT :: u8 where "TAG_AUTO_EJECT_TIMEOUT = 0x06"
definition TAG_CHALRESP_TIMEOUT :: u8 where "TAG_CHALRESP_TIMEOUT = 0x07"
definition TAG_DEVICE_FLAGS :: u8 where "TAG_DEVICE_FLAGS = 0x08"
definition TAG_CONFIG_LOCK :: u8 where "TAG_CONFIG_LOCK = 0x0A"
definition TAG_UNLOCK :: u8 where "TAG_UNLOCK = 0x0B"
definition TAG_NFC_ENABLED :: u8 where "TAG_NFC_ENABLED = 0x0E"

definition INS_READ_CONFIG :: u8 where "INS_READ_CONFIG = 0x1D"
definition INS_SET_MODE :: u8 where "INS_SET_MODE = 0x16"
definition INS_WRITE_CONFIG :: u8 where "INS_WRITE_CONFIG = 0x1C"
definition P1_DEVICE_CONFIG :: u8 where "P1_DEVICE_CONFIG = 0x11"
definition LOCK_CODE_LEN :: usize where "LOCK_CODE_LEN = 16"
definition MGMT_SW_CLASS_NOT_SUPPORTED :: u16 where "MGMT_SW_CLASS_NOT_SUPPORTED = 0x6E00"
definition MGMT_SW_WRONG_SYNTAX :: u16 where "MGMT_SW_WRONG_SYNTAX = 0x6A80"

subsection \<open>State\<close>

record ManagementState =
  ms_serial :: u32
  ms_usb_enabled :: u16
  ms_nfc_enabled :: u16
  ms_auto_eject_timeout :: u16
  ms_chalresp_timeout :: u8
  ms_device_flags :: u8
  ms_lock_code :: "bytes option"

definition mgmt_factory :: "u32 \<Rightarrow> ManagementState" where
  "mgmt_factory serial =
     \<lparr>ms_serial = serial, ms_usb_enabled = SUPPORTED_CAPABILITIES, ms_nfc_enabled = 0, ms_auto_eject_timeout = 0,
      ms_chalresp_timeout = 0, ms_device_flags = 0, ms_lock_code = None\<rparr>"

definition serialize_mgmt_state :: "ManagementState \<Rightarrow> bytes" where
  "serialize_mgmt_state s =
     [MGMT_FORMAT_VERSION] @ to_be_bytes 4 (ms_serial s) @ to_be_bytes 2 (ms_usb_enabled s) @ to_be_bytes 2 (ms_nfc_enabled s)
     @ to_be_bytes 2 (ms_auto_eject_timeout s) @ [ms_chalresp_timeout s, ms_device_flags s]
     @ (case ms_lock_code s of None \<Rightarrow> 0 # replicate LOCK_CODE_LEN 0 | Some code \<Rightarrow> 1 # code)"

definition parse_mgmt_state :: "bytes \<Rightarrow> ManagementState option" where
  "parse_mgmt_state blob =
     (if blob = [] then None
      else if blob ! 0 = MGMT_FORMAT_VERSION_V1
      then (if length blob \<noteq> 5 then None
            else let serial = from_be_bytes (slice_of 1 5 blob) in if serial = 0 then None else Some (mgmt_factory serial))
      else if blob ! 0 = MGMT_FORMAT_VERSION
      then (if length blob \<noteq> 30 then None
            else
              let serial = from_be_bytes (slice_of 1 5 blob) in
              if serial = 0 then None
              else if blob ! 13 \<noteq> 0 \<and> blob ! 13 \<noteq> 1 then None
              else Some \<lparr>ms_serial = serial, ms_usb_enabled = from_be_bytes (slice_of 5 7 blob),
                         ms_nfc_enabled = from_be_bytes (slice_of 7 9 blob),
                         ms_auto_eject_timeout = from_be_bytes (slice_of 9 11 blob), ms_chalresp_timeout = blob ! 11,
                         ms_device_flags = blob ! 12, ms_lock_code = (if blob ! 13 = 0 then None else Some (slice_of 14 30 blob))\<rparr>)
      else None)"

subsection \<open>Loading\<close>

type_synonym 'b ManagementApplet = "('b, ManagementState) Vault"

definition mgmt_format :: "ManagementState Format" where
  "mgmt_format = \<lparr>fm_key = MGMT_STORAGE_KEY, fm_serialize = serialize_mgmt_state, fm_parse = parse_mgmt_state, fm_outdated = (\<lambda>_. False)\<rparr>"

text \<open>The loop that draws a serial number, from the index of the next draw.\<close>

definition drawn_serial :: "RingPrims \<Rightarrow> nat \<Rightarrow> u32" where
  "drawn_serial r draw = from_be_bytes (random_bytes r draw 4)"

partial_function (option) factory_serial :: "RingPrims \<Rightarrow> nat \<Rightarrow> (u32 \<times> nat) option" where
  "factory_serial r draw =
     (if drawn_serial r draw \<noteq> 0 then Some (drawn_serial r draw, draw + 1) else factory_serial r (draw + 1))"

definition mgmt_factory_state :: "'b StorageEnv \<Rightarrow> 'b ManagementApplet \<Rightarrow> ('b ManagementApplet \<times> ManagementState) option" where
  "mgmt_factory_state env v =
     map_option (\<lambda>(serial, draws). (v\<lparr>va_draws := draws\<rparr>, mgmt_factory serial)) (factory_serial (ring env) (va_draws v))"

text \<open>The factory state is drawn only when there is no state in memory and none that can be read.\<close>

definition mgmt_ensure_loaded :: "'b StorageEnv \<Rightarrow> 'b ManagementApplet \<Rightarrow> ('b ManagementApplet, u16, unit) outcome option" where
  "mgmt_ensure_loaded env v =
     (if va_state v \<noteq> None then Some (v, Inr ())
      else case vault_stored env mgmt_format v of
             Some s \<Rightarrow> Some (put_vault s v, Inr ())
           | None \<Rightarrow> map_option (\<lambda>(v, s). vault_persist env mgmt_format (put_vault s v)) (mgmt_factory_state env v))"

definition mgmt_new :: "'b StorageEnv \<Rightarrow> 'b StorageEngine \<Rightarrow> CryptoEngine \<Rightarrow> nat \<Rightarrow> ('b ManagementApplet, u16, unit) outcome option" where
  "mgmt_new env storage crypto draws =
     mgmt_ensure_loaded env \<lparr>va_storage = storage, va_crypto = crypto, va_draws = draws, va_state = None\<rparr>"

definition mgmt_serial :: "'b ManagementApplet \<Rightarrow> u32 option" where
  "mgmt_serial v = map_option ms_serial (va_state v)"

text \<open>\<open>ensure_loaded()?\<close> and then the loaded state.\<close>

definition with_state ::
  "'b StorageEnv \<Rightarrow> 'b ManagementApplet \<Rightarrow> (ManagementState \<Rightarrow> 'b ManagementApplet \<Rightarrow> ('b ManagementApplet, u16, ResponseData) outcome)
   \<Rightarrow> ('b ManagementApplet, u16, ResponseData) outcome option" where
  "with_state env v f = map_option (\<lambda>r. andthen r (\<lambda>_ v. f (the (va_state v)) v)) (mgmt_ensure_loaded env v)"

subsection \<open>Commands\<close>

definition config_tlvs :: "ManagementState \<Rightarrow> tlv list" where
  "config_tlvs s =
     [(TAG_USB_SUPPORTED, to_be_bytes 2 SUPPORTED_CAPABILITIES), (TAG_SERIAL, to_be_bytes 4 (ms_serial s)),
      (TAG_USB_ENABLED, to_be_bytes 2 (ms_usb_enabled s)), (TAG_FORM_FACTOR, [FORM_FACTOR_CODE]), (MGMT_TAG_VERSION, MGMT_REPORTED_VERSION)]
     @ (if ms_auto_eject_timeout s \<noteq> 0 then [(TAG_AUTO_EJECT_TIMEOUT, to_be_bytes 2 (ms_auto_eject_timeout s))] else [])
     @ (if ms_chalresp_timeout s \<noteq> 0 then [(TAG_CHALRESP_TIMEOUT, [ms_chalresp_timeout s])] else [])
     @ (if ms_device_flags s \<noteq> 0 then [(TAG_DEVICE_FLAGS, [ms_device_flags s])] else [])
     @ (if ms_nfc_enabled s \<noteq> 0 then [(TAG_NFC_ENABLED, to_be_bytes 2 (ms_nfc_enabled s))] else [])"

definition read_config_payload :: "ManagementState \<Rightarrow> bytes" where
  "read_config_payload s = (let tlvs = fold (\<lambda>(t, v) out. push_tlv out t v) (config_tlvs s) [] in of_nat (length tlvs) # tlvs)"

definition cmd_read_config :: "'b StorageEnv \<Rightarrow> 'b ManagementApplet \<Rightarrow> u8 \<Rightarrow> ('b ManagementApplet, u16, ResponseData) outcome option" where
  "cmd_read_config env v page =
     (if page \<noteq> 0 then Some (v, Inl SW_WRONG_P1_P2)
      else with_state env v (\<lambda>s v. (v, Inr (resp_ok (read_config_payload s)))))"

definition tlv_get :: "tlv list \<Rightarrow> u8 \<Rightarrow> bytes option" where
  "tlv_get tlvs tag = map_option snd (List.find (\<lambda>(t, _). t = tag) tlvs)"

fun tlv_set :: "u8 \<Rightarrow> bytes \<Rightarrow> tlv list \<Rightarrow> tlv list" where
  "tlv_set tag value [] = [(tag, value)]"
| "tlv_set tag value ((t, v) # tlvs) = (if t = tag then (t, value) # tlvs else (t, v) # tlv_set tag value tlvs)"

function parse_config_from :: "bytes \<Rightarrow> usize \<Rightarrow> tlv list \<Rightarrow> (u16, tlv list) result" where
  "parse_config_from data pos out =
     (if pos < length data
      then (if length data - pos < 2 then Inl MGMT_SW_WRONG_SYNTAX
            else let tag = data ! pos; e = pos + 2 + unat (data ! (pos + 1))
                 in if e > length data then Inl MGMT_SW_WRONG_SYNTAX
                    else parse_config_from data e (tlv_set tag (slice_of (pos + 2) e data) out))
      else Inr out)"
  by auto
termination by (relation "measure (\<lambda>(data, pos, out). length data - pos)") auto

declare parse_config_from.simps [simp del]

definition parse_config_payload :: "bytes \<Rightarrow> (u16, tlv list) result" where
  "parse_config_payload data =
     (if data = [] \<or> length data - 1 \<noteq> unat (data ! 0) then Inl SW_WRONG_LENGTH else parse_config_from data 1 [])"

text \<open>The checks of WRITE CONFIG, in the order of the code, before anything is changed.\<close>

definition check_unlock :: "ManagementState \<Rightarrow> tlv list \<Rightarrow> (u16, unit) result" where
  "check_unlock s tlvs =
     (case tlv_get tlvs TAG_UNLOCK of
        None \<Rightarrow> Inr ()
      | Some cur \<Rightarrow>
          if length cur \<noteq> LOCK_CODE_LEN then Inl MGMT_SW_WRONG_SYNTAX
          else (case ms_lock_code s of
                  Some expected \<Rightarrow> if constant_time_eq cur expected then Inr () else Inl SW_SECURITY_STATUS
                | None \<Rightarrow> Inr ()))"

definition check_capabilities :: "tlv list \<Rightarrow> (u16, unit) result" where
  "check_capabilities tlvs =
     (case tlv_get tlvs TAG_USB_ENABLED of
        None \<Rightarrow> Inr ()
      | Some value \<Rightarrow>
          if length value \<noteq> 2 then Inl MGMT_SW_WRONG_SYNTAX
          else if from_be_bytes value AND NOT SUPPORTED_CAPABILITIES \<noteq> 0 then Inl MGMT_SW_WRONG_SYNTAX
          else Inr ())"

definition config_length_ok :: "tlv \<Rightarrow> bool" where
  "config_length_ok = (\<lambda>(tag, value).
     if tag = TAG_AUTO_EJECT_TIMEOUT then length value = 2
     else if tag = TAG_CHALRESP_TIMEOUT \<or> tag = TAG_DEVICE_FLAGS then length value = 1
     else if tag = TAG_CONFIG_LOCK then length value = LOCK_CODE_LEN
     else True)"

definition check_config :: "ManagementState \<Rightarrow> tlv list \<Rightarrow> (u16, unit) result" where
  "check_config s tlvs =
     bind_result (check_unlock s tlvs) (\<lambda>_.
     bind_result (check_capabilities tlvs) (\<lambda>_.
     bind_result (if (case tlv_get tlvs TAG_NFC_ENABLED of Some value \<Rightarrow> length value \<noteq> 2 | None \<Rightarrow> False)
                  then Inl MGMT_SW_WRONG_SYNTAX else Inr ()) (\<lambda>_.
       if list_all config_length_ok tlvs then Inr () else Inl MGMT_SW_WRONG_SYNTAX)))"

definition on_tag :: "tlv list \<Rightarrow> u8 \<Rightarrow> (bytes \<Rightarrow> ManagementState \<Rightarrow> ManagementState) \<Rightarrow> ManagementState \<Rightarrow> ManagementState" where
  "on_tag tlvs tag f s = (case tlv_get tlvs tag of Some value \<Rightarrow> f value s | None \<Rightarrow> s)"

definition apply_config :: "tlv list \<Rightarrow> ManagementState \<Rightarrow> ManagementState" where
  "apply_config tlvs s =
     (let s = on_tag tlvs TAG_USB_ENABLED (\<lambda>value s. s\<lparr>ms_usb_enabled := from_be_bytes value\<rparr>) s;
          s = on_tag tlvs TAG_NFC_ENABLED (\<lambda>value s. s\<lparr>ms_nfc_enabled := from_be_bytes value\<rparr>) s;
          s = on_tag tlvs TAG_AUTO_EJECT_TIMEOUT (\<lambda>value s. s\<lparr>ms_auto_eject_timeout := from_be_bytes value\<rparr>) s;
          s = on_tag tlvs TAG_CHALRESP_TIMEOUT (\<lambda>value s. s\<lparr>ms_chalresp_timeout := value ! 0\<rparr>) s;
          s = on_tag tlvs TAG_DEVICE_FLAGS (\<lambda>value s. s\<lparr>ms_device_flags := value ! 0\<rparr>) s
      in on_tag tlvs TAG_CONFIG_LOCK
           (\<lambda>value s. s\<lparr>ms_lock_code := if value = replicate LOCK_CODE_LEN 0 then None else Some value\<rparr>) s)"

definition cmd_write_config :: "'b StorageEnv \<Rightarrow> 'b ManagementApplet \<Rightarrow> bytes \<Rightarrow> ('b ManagementApplet, u16, ResponseData) outcome option" where
  "cmd_write_config env v data =
     (case parse_config_payload data of
        Inl sw \<Rightarrow> Some (v, Inl sw)
      | Inr tlvs \<Rightarrow>
          with_state env v (\<lambda>s v.
            attempt (check_config s tlvs) v (\<lambda>_.
            andthen (vault_persist env mgmt_format (put_vault (apply_config tlvs s) v)) (\<lambda>_ v. (v, Inr (resp_ok []))))))"

definition MODE_CAPS :: "u16 list" where
  "MODE_CAPS = [0x0001, 0x0438, 0x0439, 0x0202, 0x0203, 0x063A, 0x063B]"

text \<open>\<open>MODE_CAPS[usize::from(code)]\<close> panics outside the table.\<close>

definition cmd_set_mode ::
  "'b StorageEnv \<Rightarrow> 'b ManagementApplet \<Rightarrow> u8 \<Rightarrow> bytes \<Rightarrow> ('b ManagementApplet, u16, ResponseData) outcome option" where
  "cmd_set_mode env v a data =
     (if a \<noteq> P1_DEVICE_CONFIG then Some (v, Inl SW_WRONG_P1_P2)
      else if length data \<noteq> 4 then Some (v, Inl SW_WRONG_LENGTH)
      else
        let code = data ! 0 AND 0x07; chalresp_timeout = data ! 1; auto_eject_timeout = from_le_bytes [data ! 2, data ! 3] in
        if unat code < length MODE_CAPS
        then
          let caps = MODE_CAPS ! unat code AND SUPPORTED_CAPABILITIES in
          with_state env v (\<lambda>s v.
            andthen (vault_persist env mgmt_format
                       (put_vault (s\<lparr>ms_usb_enabled := caps, ms_chalresp_timeout := chalresp_timeout,
                                    ms_auto_eject_timeout := auto_eject_timeout\<rparr>) v)) (\<lambda>_ v. (v, Inr (resp_ok []))))
        else None)"

subsection \<open>The trait Applet\<close>

definition mgmt_select :: "'b StorageEnv \<Rightarrow> 'b ManagementApplet \<Rightarrow> ('b ManagementApplet, u16, unit) outcome option" where
  "mgmt_select env v = mgmt_ensure_loaded env v"

text \<open>The version as text, with the decimal digits of each byte.\<close>

fun dotted :: "bytes \<Rightarrow> bytes" where
  "dotted [] = []"
| "dotted [b] = print_nat (unat b)"
| "dotted (b # bs) = print_nat (unat b) @ 46 # dotted bs"

definition mgmt_select_response :: bytes where
  "mgmt_select_response = dotted MGMT_REPORTED_VERSION"

definition mgmt_process :: "'b StorageEnv \<Rightarrow> 'b ManagementApplet \<Rightarrow> Apdu \<Rightarrow> ('b ManagementApplet, u16, ResponseData) outcome option" where
  "mgmt_process env v apdu =
     (if cla apdu \<noteq> 0 then Some (v, Inl MGMT_SW_CLASS_NOT_SUPPORTED)
      else if ins apdu = INS_READ_CONFIG then cmd_read_config env v (p1 apdu)
      else if ins apdu = INS_WRITE_CONFIG
      then (if p1 apdu \<noteq> 0 \<or> p2 apdu \<noteq> 0 then Some (v, Inl SW_WRONG_P1_P2) else cmd_write_config env v (apdu_data apdu))
      else if ins apdu = INS_SET_MODE then cmd_set_mode env v (p1 apdu) (apdu_data apdu)
      else Some (v, Inl SW_INS_NOT_SUPPORTED))"

end
