(* ===== verification/Ccid.thy ===== *)
theory Ccid
  imports Effects
begin

section \<open>The USB CCID class\<close>

text \<open>
  The smart-card interface \<open>embedded/usb_ccid_backend.rs\<close>: it collects 64-byte bulk packets into a CCID message,
  answers the slot commands itself, hands the APDU of an \<open>XfrBlock\<close> to the handler or keeps it for the manual
  exchange, and drains the responses through an active message and a queue of one. \<open>usize\<close> is 32 bits wide, as on
  the boards, so the length field of a message is a \<open>u32\<close> and sums with it wrap around as they do in the release
  profile; a slice out of range is \<open>None\<close>, the panic. The IN endpoint and the handler belong to other crates: they
  are the fields \<open>ep_write\<close> and \<open>call_handler\<close> of \<open>CcidEnv\<close>, and the packets, resets and control requests a call
  of \<open>UsbDevice::poll\<close> delivers are its argument.
\<close>

subsection \<open>Constants\<close>

definition PACKET_SIZE :: usize where "PACKET_SIZE = 64"
definition CCID_HEADER_LEN :: usize where "CCID_HEADER_LEN = 10"
definition MAX_MSG_LEN :: usize where "MAX_MSG_LEN = 288"
definition MAX_PAYLOAD_LEN :: usize where "MAX_PAYLOAD_LEN = MAX_MSG_LEN - CCID_HEADER_LEN"

definition PC_TO_RDR_ICC_POWER_ON :: u8 where "PC_TO_RDR_ICC_POWER_ON = 0x62"
definition PC_TO_RDR_ICC_POWER_OFF :: u8 where "PC_TO_RDR_ICC_POWER_OFF = 0x63"
definition PC_TO_RDR_GET_SLOT_STATUS :: u8 where "PC_TO_RDR_GET_SLOT_STATUS = 0x65"
definition PC_TO_RDR_SET_PARAMETERS :: u8 where "PC_TO_RDR_SET_PARAMETERS = 0x61"
definition PC_TO_RDR_GET_PARAMETERS :: u8 where "PC_TO_RDR_GET_PARAMETERS = 0x6C"
definition PC_TO_RDR_XFR_BLOCK :: u8 where "PC_TO_RDR_XFR_BLOCK = 0x6F"
definition PC_TO_RDR_ABORT :: u8 where "PC_TO_RDR_ABORT = 0x72"

definition RDR_TO_PC_DATABLOCK :: u8 where "RDR_TO_PC_DATABLOCK = 0x80"
definition RDR_TO_PC_SLOTSTATUS :: u8 where "RDR_TO_PC_SLOTSTATUS = 0x81"
definition RDR_TO_PC_PARAMETERS :: u8 where "RDR_TO_PC_PARAMETERS = 0x82"

definition STATUS_ICC_INACTIVE :: u8 where "STATUS_ICC_INACTIVE = 0x01"
definition STATUS_ICC_ACTIVE :: u8 where "STATUS_ICC_ACTIVE = 0x00"
definition STATUS_CMD_FAILED :: u8 where "STATUS_CMD_FAILED = 0x40"

definition BERR_CMD_NOT_SUPPORTED :: u8 where "BERR_CMD_NOT_SUPPORTED = 0x00"
definition BERR_CMD_SLOT_BUSY :: u8 where "BERR_CMD_SLOT_BUSY = 0x05"
definition BERR_XFR_UNDERRUN :: u8 where "BERR_XFR_UNDERRUN = 0xFC"
definition BERR_XFR_OVERRUN :: u8 where "BERR_XFR_OVERRUN = 0xFD"
definition NO_ERROR :: u8 where "NO_ERROR = 0x00"

definition T_PROTOCOL_NUM :: u8 where "T_PROTOCOL_NUM = 0x00"
definition T0_PARAM_LEN :: usize where "T0_PARAM_LEN = 5"
definition CCID_CONTROL_ABORT :: u8 where "CCID_CONTROL_ABORT = 0x01"

definition T0_ATR :: bytes where
  "T0_ATR = [0x3B, 0xDA, 0x11, 0x50, 0x00, 0x01, 0x6F, 0x70, 0x65, 0x6E, 0x4B, 0x65, 0x79, 0xA0, 0x00]"

definition T0_DEFAULT_PARAMS :: bytes where
  "T0_DEFAULT_PARAMS = [0x11, 0x00, 0x00, 0x0A, 0x00]"

definition CCID_CLASS_DESCRIPTOR :: bytes where
  "CCID_CLASS_DESCRIPTOR =
     [0x36, 0x21, 0x10, 0x01, 0x00, 0x07,
      0x01, 0x00, 0x00, 0x00,
      0xA0, 0x0F, 0x00, 0x00,
      0xA0, 0x0F, 0x00, 0x00,
      0x00,
      0x00, 0x2A, 0x00, 0x00,
      0x00, 0xC2, 0x01, 0x00,
      0x00,
      0x00, 0x00, 0x00, 0x00,
      0x00, 0x00, 0x00, 0x00,
      0x00, 0x00, 0x00, 0x00,
      0x00, 0x00, 0x02, 0x00,
      word_of_nat (MAX_MSG_LEN mod 256), word_of_nat (MAX_MSG_LEN div 256 mod 256), 0x00, 0x00,
      0xFF, 0x00, 0x00, 0x00, 0x00, 0x01]"

lemmas ccid_consts =
  PACKET_SIZE_def CCID_HEADER_LEN_def MAX_MSG_LEN_def MAX_PAYLOAD_LEN_def T0_PARAM_LEN_def

lemmas ccid_commands =
  PC_TO_RDR_ICC_POWER_ON_def PC_TO_RDR_ICC_POWER_OFF_def PC_TO_RDR_GET_SLOT_STATUS_def
  PC_TO_RDR_SET_PARAMETERS_def PC_TO_RDR_GET_PARAMETERS_def PC_TO_RDR_XFR_BLOCK_def PC_TO_RDR_ABORT_def

text \<open>The descriptor has the length it declares and announces the capacity of the buffers; the ATR has the length its \<open>T0\<close> byte gives.\<close>

lemma class_descriptor:
  "length CCID_CLASS_DESCRIPTOR = unat (CCID_CLASS_DESCRIPTOR ! 0)"
  "unat (from_le_bytes (slice_of 44 48 CCID_CLASS_DESCRIPTOR) :: u32) = MAX_MSG_LEN"
  "length T0_ATR = 2 + 3 + unat (T0_ATR ! 1 AND 0x0F)"
  by code_simp+

subsection \<open>State\<close>

datatype UsbError = WouldBlock | UsbFault string

datatype EmbeddedTransportError =
    NotInitialized | SendFailed | RecvFailed | Closed | BufferTooSmall | FramingError | Timeout

record ('u, 'h) CcidEnv =
  ep_write :: "'u \<Rightarrow> bytes \<Rightarrow> 'u \<times> (UsbError, usize) result"
  call_handler :: "'h \<Rightarrow> bytes \<Rightarrow> bytes \<Rightarrow> 'h \<times> bytes \<times> usize"

record ('u, 'h) CcidClass =
  ep_in :: 'u
  rx_buf :: bytes
  rx_len :: usize
  rx_ready :: bool
  rx_overflow :: bool
  tx_buf :: bytes
  tx_len :: usize
  tx_sent :: usize
  q_buf :: bytes
  q_len :: usize
  powered :: bool
  params :: bytes
  pending :: bool
  pending_slot :: u8
  pending_seq :: u8
  pending_apdu :: bytes
  pending_len :: usize
  resp_awaiting :: bool
  handler :: "'h option"

definition ccid_build :: "'u \<Rightarrow> 'h option \<Rightarrow> ('u, 'h) CcidClass" where
  "ccid_build u h =
     \<lparr>ep_in = u, rx_buf = replicate MAX_MSG_LEN 0, rx_len = 0, rx_ready = False, rx_overflow = False,
      tx_buf = replicate MAX_MSG_LEN 0, tx_len = 0, tx_sent = 0, q_buf = replicate MAX_MSG_LEN 0, q_len = 0,
      powered = False, params = T0_DEFAULT_PARAMS, pending = False, pending_slot = 0, pending_seq = 0,
      pending_apdu = replicate MAX_PAYLOAD_LEN 0, pending_len = 0, resp_awaiting = False, handler = h\<rparr>"

definition ccid_new :: "'u \<Rightarrow> ('u, 'h) CcidClass" where
  "ccid_new u = ccid_build u None"

definition ccid_with_handler :: "'u \<Rightarrow> 'h \<Rightarrow> ('u, 'h) CcidClass" where
  "ccid_with_handler u h = ccid_build u (Some h)"

definition pending_request_len :: "('u, 'h) CcidClass \<Rightarrow> usize" where
  "pending_request_len c = (if pending c then pending_len c else 0)"

definition take_pending_request :: "('u, 'h) CcidClass \<Rightarrow> usize \<Rightarrow> ('u, 'h) CcidClass \<times> bytes option" where
  "take_pending_request c buf_len =
     (if \<not> pending c then (c, None)
      else (let n = min (pending_len c) buf_len
            in (c\<lparr>pending := False, pending_len := 0, resp_awaiting := True\<rparr>, Some (take n (pending_apdu c)))))"

subsection \<open>Responses\<close>

definition ok_status :: "('u, 'h) CcidClass \<Rightarrow> u8" where
  "ok_status c = (if powered c then STATUS_ICC_ACTIVE else STATUS_ICC_INACTIVE)"

definition fail_status :: "('u, 'h) CcidClass \<Rightarrow> u8" where
  "fail_status c = ok_status c OR STATUS_CMD_FAILED"

definition clear_rx :: "('u, 'h) CcidClass \<Rightarrow> ('u, 'h) CcidClass" where
  "clear_rx c = c\<lparr>rx_ready := False, rx_len := 0, rx_overflow := False\<rparr>"

definition tx_active :: "('u, 'h) CcidClass \<Rightarrow> bool" where
  "tx_active c = (tx_sent c < tx_len c)"

definition write_header :: "bytes \<Rightarrow> u8 \<Rightarrow> usize \<Rightarrow> u8 \<Rightarrow> u8 \<Rightarrow> u8 \<Rightarrow> u8 \<Rightarrow> u8 \<Rightarrow> bytes" where
  "write_header buf msg_type data_len slot seq status err specific =
     (copy_into (buf[0 := msg_type]) 1 (to_le_bytes 4 (word_of_nat data_len :: u32)))
       [5 := slot, 6 := seq, 7 := status, 8 := err, 9 := specific]"

definition promote_queue :: "('u, 'h) CcidClass \<Rightarrow> ('u, 'h) CcidClass" where
  "promote_queue c =
     c\<lparr>tx_buf := copy_into (tx_buf c) 0 (take (q_len c) (q_buf c)), tx_len := q_len c, tx_sent := 0, q_len := 0\<rparr>"

definition tx_packet :: "('u, 'h) CcidClass \<Rightarrow> bytes" where
  "tx_packet c = slice_of (tx_sent c) (min (tx_sent c + PACKET_SIZE) (tx_len c)) (tx_buf c)"

definition tx_advance :: "usize \<Rightarrow> ('u, 'h) CcidClass \<Rightarrow> ('u, 'h) CcidClass" where
  "tx_advance n c =
     (let c = c\<lparr>tx_sent := tx_sent c + n\<rparr> in if tx_active c then c else c\<lparr>tx_len := 0, tx_sent := 0\<rparr>)"

function flush_tx :: "('u, 'h) CcidEnv \<Rightarrow> ('u, 'h) CcidClass \<Rightarrow> ('u, 'h) CcidClass" where
  "flush_tx env c =
     (if \<not> tx_active c \<and> q_len c = 0 then c
      else (let c = (if tx_active c then c else promote_queue c);
                (u, r) = ep_write env (ep_in c) (tx_packet c);
                c = c\<lparr>ep_in := u\<rparr>
            in case r of
                 Inr n \<Rightarrow> if n = 0 then c else flush_tx env (tx_advance n c)
               | Inl WouldBlock \<Rightarrow> c
               | Inl (UsbFault _) \<Rightarrow> flush_tx env (c\<lparr>tx_len := 0, tx_sent := 0\<rparr>)))"
  by pat_completeness auto
termination
  by (relation "measure (\<lambda>(env, c). q_len c + (tx_len c - tx_sent c))")
    (auto simp: tx_active_def promote_queue_def tx_advance_def Let_def split: if_splits)

declare flush_tx.simps [simp del]

definition seal_tx ::
  "('u, 'h) CcidEnv \<Rightarrow> ('u, 'h) CcidClass \<Rightarrow> u8 \<Rightarrow> usize \<Rightarrow> u8 \<Rightarrow> u8 \<Rightarrow> u8 \<Rightarrow> u8 \<Rightarrow> u8 \<Rightarrow> ('u, 'h) CcidClass" where
  "seal_tx env c msg_type data_len slot seq status err specific =
     flush_tx env (c\<lparr>tx_buf := write_header (tx_buf c) msg_type data_len slot seq status err specific,
                     tx_len := CCID_HEADER_LEN + data_len, tx_sent := 0\<rparr>)"

definition seal_q ::
  "('u, 'h) CcidEnv \<Rightarrow> ('u, 'h) CcidClass \<Rightarrow> u8 \<Rightarrow> usize \<Rightarrow> u8 \<Rightarrow> u8 \<Rightarrow> u8 \<Rightarrow> u8 \<Rightarrow> u8 \<Rightarrow> ('u, 'h) CcidClass" where
  "seal_q env c msg_type data_len slot seq status err specific =
     flush_tx env (c\<lparr>q_buf := write_header (q_buf c) msg_type data_len slot seq status err specific,
                     q_len := CCID_HEADER_LEN + data_len\<rparr>)"

definition queue_response ::
  "('u, 'h) CcidEnv \<Rightarrow> ('u, 'h) CcidClass \<Rightarrow> u8 \<Rightarrow> u8 \<Rightarrow> u8 \<Rightarrow> u8 \<Rightarrow> u8 \<Rightarrow> u8 \<Rightarrow> bytes \<Rightarrow> ('u, 'h) CcidClass" where
  "queue_response env c msg_type slot seq status err specific data =
     (let n = min (length data) MAX_PAYLOAD_LEN in
      flush_tx env
        (if tx_active c
         then c\<lparr>q_buf := write_header (copy_into (q_buf c) CCID_HEADER_LEN (take n data))
                           msg_type n slot seq status err specific,
                q_len := CCID_HEADER_LEN + n\<rparr>
         else c\<lparr>tx_buf := write_header (copy_into (tx_buf c) CCID_HEADER_LEN (take n data))
                            msg_type n slot seq status err specific,
                tx_len := CCID_HEADER_LEN + n, tx_sent := 0\<rparr>))"

definition queue_parameters ::
  "('u, 'h) CcidEnv \<Rightarrow> ('u, 'h) CcidClass \<Rightarrow> u8 \<Rightarrow> u8 \<Rightarrow> u8 \<Rightarrow> u8 \<Rightarrow> bytes \<Rightarrow> ('u, 'h) CcidClass" where
  "queue_parameters env c slot seq status proto ps =
     queue_response env c RDR_TO_PC_PARAMETERS slot seq status NO_ERROR proto ps"

definition send_response ::
  "('u, 'h) CcidEnv \<Rightarrow> ('u, 'h) CcidClass \<Rightarrow> bytes \<Rightarrow> (('u, 'h) CcidClass, EmbeddedTransportError, unit) outcome" where
  "send_response env c resp =
     check (\<not> resp_awaiting c) FramingError c
     (check (length resp > MAX_PAYLOAD_LEN) BufferTooSmall c
     (queue_response env (c\<lparr>resp_awaiting := False\<rparr>) RDR_TO_PC_DATABLOCK (pending_slot c) (pending_seq c)
        (ok_status c) NO_ERROR 0 resp, Inr ()))"

subsection \<open>Reception\<close>

definition dw_length :: "('u, 'h) CcidClass \<Rightarrow> u32" where
  "dw_length c = from_le_bytes (slice_of 1 5 (rx_buf c))"

definition rx_append :: "('u, 'h) CcidClass \<Rightarrow> bytes \<Rightarrow> ('u, 'h) CcidClass" where
  "rx_append c chunk =
     (if rx_ready c then c
      else
        let n = min (length chunk) (MAX_MSG_LEN - rx_len c);
            c = c\<lparr>rx_buf := copy_into (rx_buf c) (rx_len c) (take n chunk), rx_len := rx_len c + n\<rparr>
        in if n < length chunk then c\<lparr>rx_overflow := True, rx_ready := True\<rparr>
           else if length chunk < PACKET_SIZE then c\<lparr>rx_ready := True\<rparr>
           else if rx_len c \<ge> CCID_HEADER_LEN
           then (let dl = dw_length c in
                 if dl > word_of_nat MAX_PAYLOAD_LEN then c\<lparr>rx_overflow := True, rx_ready := True\<rparr>
                 else if rx_len c \<ge> CCID_HEADER_LEN + unat dl then c\<lparr>rx_ready := True\<rparr>
                 else c)
           else c)"

text \<open>
  \<open>answer\<close> is the pair \<open>self.clear_rx(); self.queue_response(..)\<close> that ends almost every arm of \<open>dispatch_rx\<close>;
  \<open>xfr_block\<close> is the arm of \<open>PC_TO_RDR_XFR_BLOCK\<close>, \<open>stop\<close> the wrapped end \<open>CCID_HEADER_LEN + dw_len\<close> of its data.
\<close>

definition answer ::
  "('u, 'h) CcidEnv \<Rightarrow> ('u, 'h) CcidClass \<Rightarrow> u8 \<Rightarrow> u8 \<Rightarrow> u8 \<Rightarrow> u8 \<Rightarrow> u8 \<Rightarrow> bytes \<Rightarrow> ('u, 'h) CcidClass" where
  "answer env c msg_type slot seq status err data =
     queue_response env (clear_rx c) msg_type slot seq status err 0 data"

definition run_handler :: "('u, 'h) CcidEnv \<Rightarrow> ('u, 'h) CcidClass \<Rightarrow> 'h \<Rightarrow> bytes \<Rightarrow> u8 \<Rightarrow> u8 \<Rightarrow> ('u, 'h) CcidClass" where
  "run_handler env c h apdu slot seq =
     (if tx_active c
      then (let (h, dest, n) = call_handler env h apdu (drop CCID_HEADER_LEN (q_buf c));
                c = c\<lparr>q_buf := copy_into (q_buf c) CCID_HEADER_LEN dest, handler := Some h\<rparr>
            in seal_q env c RDR_TO_PC_DATABLOCK (min n MAX_PAYLOAD_LEN) slot seq (ok_status c) NO_ERROR 0)
      else (let (h, dest, n) = call_handler env h apdu (drop CCID_HEADER_LEN (tx_buf c));
                c = c\<lparr>tx_buf := copy_into (tx_buf c) CCID_HEADER_LEN dest, handler := Some h\<rparr>
            in seal_tx env c RDR_TO_PC_DATABLOCK (min n MAX_PAYLOAD_LEN) slot seq (ok_status c) NO_ERROR 0))"

definition hold_request :: "('u, 'h) CcidClass \<Rightarrow> bytes \<Rightarrow> u8 \<Rightarrow> u8 \<Rightarrow> ('u, 'h) CcidClass" where
  "hold_request c apdu slot seq =
     c\<lparr>pending_apdu := copy_into (pending_apdu c) 0 apdu, pending_len := length apdu, pending_slot := slot,
       pending_seq := seq, pending := True, rx_ready := False, rx_len := 0, rx_overflow := False\<rparr>"

definition xfr_block :: "('u, 'h) CcidEnv \<Rightarrow> ('u, 'h) CcidClass \<Rightarrow> u8 \<Rightarrow> u8 \<Rightarrow> ('u, 'h) CcidClass option" where
  "xfr_block env c slot seq =
     (let level = from_le_bytes (slice_of 8 10 (rx_buf c)) :: u16;
          stop = unat (word_of_nat CCID_HEADER_LEN + dw_length c)
      in if level > 1 then Some (answer env c RDR_TO_PC_DATABLOCK slot seq (fail_status c) BERR_CMD_NOT_SUPPORTED [])
         else if pending c \<or> resp_awaiting c
         then Some (answer env c RDR_TO_PC_DATABLOCK slot seq (fail_status c) BERR_CMD_SLOT_BUSY [])
         else if stop < CCID_HEADER_LEN \<or> length (rx_buf c) < stop then None
         else (let apdu = slice_of CCID_HEADER_LEN stop (rx_buf c) in
               case handler c of
                 Some h \<Rightarrow> Some (run_handler env c h apdu slot seq)
               | None \<Rightarrow> Some (hold_request c apdu slot seq)))"

definition set_parameters :: "('u, 'h) CcidEnv \<Rightarrow> ('u, 'h) CcidClass \<Rightarrow> u8 \<Rightarrow> u8 \<Rightarrow> ('u, 'h) CcidClass" where
  "set_parameters env c slot seq =
     (if rx_buf c ! 7 = T_PROTOCOL_NUM \<and> dw_length c = word_of_nat T0_PARAM_LEN
      then (let c = c\<lparr>params := slice_of CCID_HEADER_LEN (CCID_HEADER_LEN + T0_PARAM_LEN) (rx_buf c)\<rparr>
            in queue_parameters env (clear_rx c) slot seq (ok_status c) T_PROTOCOL_NUM (params c))
      else answer env c RDR_TO_PC_SLOTSTATUS slot seq (fail_status c) BERR_CMD_NOT_SUPPORTED [])"

definition dispatch_rx :: "('u, 'h) CcidEnv \<Rightarrow> ('u, 'h) CcidClass \<Rightarrow> ('u, 'h) CcidClass option" where
  "dispatch_rx env c =
     (let msg_type = rx_buf c ! 0; slot = rx_buf c ! 5; seq = rx_buf c ! 6;
          slot_status = (\<lambda>c st err. Some (answer env c RDR_TO_PC_SLOTSTATUS slot seq st err [])) in
      if rx_overflow c then slot_status c (fail_status c) BERR_XFR_OVERRUN
      else if rx_len c < CCID_HEADER_LEN then slot_status c (fail_status c) BERR_CMD_NOT_SUPPORTED
      else if unat (word_of_nat CCID_HEADER_LEN + dw_length c) > rx_len c
      then slot_status c (fail_status c) BERR_XFR_UNDERRUN
      else if msg_type = PC_TO_RDR_ICC_POWER_ON
      then (let c = c\<lparr>powered := True\<rparr>
            in Some (answer env c RDR_TO_PC_DATABLOCK slot seq (ok_status c) NO_ERROR T0_ATR))
      else if msg_type = PC_TO_RDR_ICC_POWER_OFF
      then (let c = c\<lparr>powered := False\<rparr> in slot_status c (ok_status c) NO_ERROR)
      else if msg_type = PC_TO_RDR_GET_SLOT_STATUS then slot_status c (ok_status c) NO_ERROR
      else if msg_type = PC_TO_RDR_GET_PARAMETERS
      then Some (queue_parameters env (clear_rx c) slot seq (ok_status c) T_PROTOCOL_NUM (params c))
      else if msg_type = PC_TO_RDR_SET_PARAMETERS then Some (set_parameters env c slot seq)
      else if msg_type = PC_TO_RDR_ABORT
      then slot_status (c\<lparr>pending := False, resp_awaiting := False\<rparr>) (ok_status c) NO_ERROR
      else if msg_type = PC_TO_RDR_XFR_BLOCK then xfr_block env c slot seq
      else slot_status c (fail_status c) BERR_CMD_NOT_SUPPORTED)"

definition ccid_process :: "('u, 'h) CcidEnv \<Rightarrow> ('u, 'h) CcidClass \<Rightarrow> ('u, 'h) CcidClass option" where
  "ccid_process env c = map_option (flush_tx env) (if rx_ready c then dispatch_rx env c else Some c)"

subsection \<open>The USB class callbacks and the backend\<close>

datatype RequestType = Req_Standard | Req_Class | Req_Vendor | Req_Reserved
datatype Recipient = To_Device | To_Interface | To_Endpoint | To_Other

datatype UsbEvent =
    Bus_Reset
  | Control_Out RequestType Recipient u8
  | Endpoint_Out bool "(UsbError, bytes) result"

definition ccid_reset :: "('u, 'h) CcidClass \<Rightarrow> ('u, 'h) CcidClass" where
  "ccid_reset c = (clear_rx c)\<lparr>tx_len := 0, tx_sent := 0, q_len := 0\<rparr>"

definition control_out_accepts :: "RequestType \<Rightarrow> Recipient \<Rightarrow> u8 \<Rightarrow> bool" where
  "control_out_accepts ty rcpt request \<longleftrightarrow> ty = Req_Class \<and> rcpt = To_Interface \<and> request = CCID_CONTROL_ABORT"

definition endpoint_out :: "('u, 'h) CcidClass \<Rightarrow> bool \<Rightarrow> (UsbError, bytes) result \<Rightarrow> ('u, 'h) CcidClass" where
  "endpoint_out c own_address r =
     (if \<not> own_address then c else case r of Inr pkt \<Rightarrow> rx_append c pkt | Inl _ \<Rightarrow> c)"

fun usb_event :: "UsbEvent \<Rightarrow> ('u, 'h) CcidClass \<Rightarrow> ('u, 'h) CcidClass" where
  "usb_event Bus_Reset c = ccid_reset c"
| "usb_event (Control_Out ty rcpt request) c = c"
| "usb_event (Endpoint_Out own r) c = endpoint_out c own r"

record ('u, 'h) UsbCcidBackend =
  ccid :: "('u, 'h) CcidClass"
  initialized :: bool

definition backend_build :: "'u \<Rightarrow> 'h option \<Rightarrow> ('u, 'h) UsbCcidBackend" where
  "backend_build u h = \<lparr>ccid = ccid_build u h, initialized = False\<rparr>"

definition backend_init :: "('u, 'h) UsbCcidBackend \<Rightarrow> ('u, 'h) UsbCcidBackend" where
  "backend_init b = b\<lparr>initialized := True\<rparr>"

definition poll_class :: "('u, 'h) CcidEnv \<Rightarrow> UsbEvent list \<Rightarrow> ('u, 'h) CcidClass \<Rightarrow> ('u, 'h) CcidClass option" where
  "poll_class env events c = ccid_process env (fold usb_event events c)"

definition ccid_poll ::
  "('u, 'h) CcidEnv \<Rightarrow> UsbEvent list \<Rightarrow> bool \<Rightarrow> ('u, 'h) UsbCcidBackend \<Rightarrow> (('u, 'h) UsbCcidBackend \<times> bool) option" where
  "ccid_poll env events activity b =
     (case poll_class env events (ccid b) of
        None \<Rightarrow> None
      | Some c \<Rightarrow> Some (b\<lparr>ccid := c\<rparr>, activity \<or> pending c))"

definition recv_apdu ::
  "('u, 'h) CcidEnv \<Rightarrow> UsbEvent list \<Rightarrow> ('u, 'h) UsbCcidBackend \<Rightarrow> usize
     \<Rightarrow> (('u, 'h) UsbCcidBackend, EmbeddedTransportError, bytes) outcome option" where
  "recv_apdu env events b buf_len =
     (if \<not> initialized b then Some (b, Inl NotInitialized)
      else case poll_class env events (ccid b) of
             None \<Rightarrow> None
           | Some c \<Rightarrow>
               Some (let b = b\<lparr>ccid := c\<rparr>; need = pending_request_len c in
                     if need = 0 then (b, Inl Timeout)
                     else if buf_len < need then (b, Inl BufferTooSmall)
                     else (case take_pending_request c buf_len of
                             (c, Some apdu) \<Rightarrow> (b\<lparr>ccid := c\<rparr>, Inr apdu)
                           | (c, None) \<Rightarrow> (b\<lparr>ccid := c\<rparr>, Inl Timeout))))"

definition send_apdu ::
  "('u, 'h) CcidEnv \<Rightarrow> ('u, 'h) UsbCcidBackend \<Rightarrow> bytes \<Rightarrow> (('u, 'h) UsbCcidBackend, EmbeddedTransportError, unit) outcome" where
  "send_apdu env b resp =
     (if \<not> initialized b then (b, Inl NotInitialized)
      else case send_response env (ccid b) resp of (c, r) \<Rightarrow> (b\<lparr>ccid := c\<rparr>, r))"

definition send_ccid_block ::
  "('u, 'h) CcidEnv \<Rightarrow> ('u, 'h) UsbCcidBackend \<Rightarrow> bytes \<Rightarrow> (('u, 'h) UsbCcidBackend, EmbeddedTransportError, unit) outcome" where
  "send_ccid_block env b buf = check (length buf > MAX_PAYLOAD_LEN) BufferTooSmall b (send_apdu env b buf)"

definition recv_ccid_block ::
  "('u, 'h) CcidEnv \<Rightarrow> UsbEvent list \<Rightarrow> ('u, 'h) UsbCcidBackend \<Rightarrow> usize
     \<Rightarrow> (('u, 'h) UsbCcidBackend, EmbeddedTransportError, bytes) outcome option" where
  "recv_ccid_block env events b buf_len =
     (if buf_len < MAX_PAYLOAD_LEN then Some (b, Inl BufferTooSmall) else recv_apdu env events b buf_len)"

end
