(* ===== verification/Ccid_Exchange.thy ===== *)
theory Ccid_Exchange
  imports Ccid
begin

section \<open>The CCID exchange\<close>

text \<open>
  The bounds of the class's buffers and counters, the stream of bytes it owes the host, and the manual exchange of
  one APDU over both. \<open>owed\<close> is what was queued and is not yet written; an endpoint that follows the contract of
  \<open>usb_device\<close> moves a prefix of it to the wire on every write, so no response is lost or mixed with another.
\<close>

subsection \<open>Bounds\<close>

definition ccid_bounds :: "('u, 'h) CcidClass \<Rightarrow> bool" where
  "ccid_bounds c \<longleftrightarrow>
     length (rx_buf c) = MAX_MSG_LEN \<and> rx_len c \<le> MAX_MSG_LEN \<and>
     length (tx_buf c) = MAX_MSG_LEN \<and> tx_len c \<le> MAX_MSG_LEN \<and> tx_sent c \<le> tx_len c \<and>
     length (q_buf c) = MAX_MSG_LEN \<and> q_len c \<le> MAX_MSG_LEN \<and>
     length (pending_apdu c) = MAX_PAYLOAD_LEN \<and> pending_len c \<le> MAX_PAYLOAD_LEN \<and> length (params c) = T0_PARAM_LEN"

definition settled :: "('u, 'h) CcidClass \<Rightarrow> bool" where
  "settled c \<longleftrightarrow> (q_len c = 0 \<or> tx_active c)"

text \<open>A handler is given the rest of the buffer as a slice and writes within it.\<close>

definition handler_contract :: "('u, 'h) CcidEnv \<Rightarrow> bool" where
  "handler_contract env \<longleftrightarrow> (\<forall>h apdu dest. length (fst (snd (call_handler env h apdu dest))) = length dest)"

lemma handler_dest: "handler_contract env \<Longrightarrow> call_handler env h apdu dest = (h', dest', n) \<Longrightarrow> length dest' = length dest"
  unfolding handler_contract_def by (metis fst_conv snd_conv)

definition rdr_header :: "u8 \<Rightarrow> usize \<Rightarrow> u8 \<Rightarrow> u8 \<Rightarrow> u8 \<Rightarrow> u8 \<Rightarrow> u8 \<Rightarrow> bytes" where
  "rdr_header msg_type n slot seq status err specific =
     msg_type # to_le_bytes 4 (word_of_nat n :: u32) @ [slot, seq, status, err, specific]"

lemma length_rdr_header [simp]: "length (rdr_header msg_type n slot seq status err specific) = 10"
  by (simp add: rdr_header_def)

lemma le_bytes_4: "\<exists>a b c d. to_le_bytes 4 w = [a, b, c, d]"
  by (simp add: to_le_bytes_def numeral_eq_Suc)

lemma write_header_eq:
  assumes "10 \<le> length buf"
  shows "write_header buf msg_type n slot seq status err specific =
         rdr_header msg_type n slot seq status err specific @ drop 10 buf"
proof -
  obtain b0 b1 b2 b3 b4 b5 b6 b7 b8 b9 rest where "buf = b0 # b1 # b2 # b3 # b4 # b5 # b6 # b7 # b8 # b9 # rest"
    using assms by (auto simp: numeral_eq_Suc Suc_le_length_iff)
  moreover obtain w0 w1 w2 w3 where "to_le_bytes 4 (word_of_nat n :: u32) = [w0, w1, w2, w3]"
    using le_bytes_4 by blast
  ultimately show ?thesis
    by (simp add: write_header_def rdr_header_def copy_into_def)
qed

lemma length_write_header: "10 \<le> length buf \<Longrightarrow> length (write_header buf msg_type n slot seq status err specific) = length buf"
  by (simp add: write_header_eq)

lemma bounds_promote: "ccid_bounds c \<Longrightarrow> ccid_bounds (promote_queue c)"
  by (simp add: ccid_bounds_def promote_queue_def length_copy_into)

lemma bounds_advance: "ccid_bounds c \<Longrightarrow> ccid_bounds (tx_advance n c)"
  by (simp add: ccid_bounds_def tx_advance_def tx_active_def Let_def)

definition backlog :: "('u, 'h) CcidClass \<Rightarrow> usize" where
  "backlog c = q_len c + (tx_len c - tx_sent c)"

text \<open>The loop of \<open>flush_tx\<close> keeps what each of its turns keeps.\<close>

lemma flush_rule:
  assumes promote: "\<And>c. P c \<Longrightarrow> \<not> tx_active c \<Longrightarrow> 0 < q_len c \<Longrightarrow> P (promote_queue c)"
    and written: "\<And>c u n. P c \<Longrightarrow> tx_active c \<Longrightarrow> ep_write env (ep_in c) (tx_packet c) = (u, Inr n) \<Longrightarrow> 0 < n \<Longrightarrow>
                    P (tx_advance n (c\<lparr>ep_in := u\<rparr>))"
    and failed: "\<And>c u e. P c \<Longrightarrow> tx_active c \<Longrightarrow> ep_write env (ep_in c) (tx_packet c) = (u, Inl (UsbFault e)) \<Longrightarrow>
                   P (c\<lparr>ep_in := u, tx_len := 0, tx_sent := 0\<rparr>)"
    and drained: "\<And>c. P c \<Longrightarrow> \<not> tx_active c \<Longrightarrow> q_len c = 0 \<Longrightarrow> Q c"
    and refused: "\<And>c u r. P c \<Longrightarrow> tx_active c \<Longrightarrow> ep_write env (ep_in c) (tx_packet c) = (u, r) \<Longrightarrow>
                    r = Inr 0 \<or> r = Inl WouldBlock \<Longrightarrow> Q (c\<lparr>ep_in := u\<rparr>)"
  shows "P c \<Longrightarrow> Q (flush_tx env c)"
proof (induction c rule: measure_induct_rule [of backlog])
  case (less c)
  let ?d = "if tx_active c then c else promote_queue c"
  obtain u r where w: "ep_write env (ep_in ?d) (tx_packet ?d) = (u, r)" by fastforce
  show ?case
  proof (cases "\<not> tx_active c \<and> q_len c = 0")
    case True then show ?thesis using less.prems drained by (simp add: flush_tx.simps)
  next
    case False
    then have d: "P ?d" "tx_active ?d" "backlog ?d = backlog c"
      using less.prems promote [of c] by (auto simp: tx_active_def promote_queue_def backlog_def)
    have smaller: "backlog (tx_advance n (?d\<lparr>ep_in := u\<rparr>)) < backlog c" if "n \<noteq> 0" for n
      using d(2) that unfolding d(3) [symmetric] by (auto simp: tx_advance_def tx_active_def backlog_def Let_def)
    have dropped: "backlog (?d\<lparr>ep_in := u, tx_len := 0, tx_sent := 0\<rparr>) < backlog c"
      using d(2) unfolding d(3) [symmetric] by (simp add: tx_active_def backlog_def)
    have run: "flush_tx env c =
      (case r of Inr n \<Rightarrow> if n = 0 then ?d\<lparr>ep_in := u\<rparr> else flush_tx env (tx_advance n (?d\<lparr>ep_in := u\<rparr>))
       | Inl WouldBlock \<Rightarrow> ?d\<lparr>ep_in := u\<rparr>
       | Inl (UsbFault _) \<Rightarrow> flush_tx env (?d\<lparr>ep_in := u, tx_len := 0, tx_sent := 0\<rparr>))"
      using False w by (subst flush_tx.simps) (auto simp: Let_def)
    show ?thesis
    proof (cases r)
      case (Inl e)
      then show ?thesis
        using less.IH [OF dropped] refused [OF d(1,2)] failed [OF d(1,2)] w run
        by (cases e) simp_all
    next
      case (Inr n)
      then show ?thesis
        using less.IH [OF smaller [of n]] written [OF d(1,2), of u n] refused [OF d(1,2)] w run by (cases "n = 0") simp_all
    qed
  qed
qed

lemma bounds_flush: "ccid_bounds c \<Longrightarrow> ccid_bounds (flush_tx env c)"
  by (rule flush_rule [of ccid_bounds])
    (auto simp: ccid_bounds_def promote_queue_def tx_advance_def tx_active_def length_copy_into Let_def)

text \<open>What the loop touches: only the transmission side.\<close>

definition same_rx :: "('u, 'h) CcidClass \<Rightarrow> ('u, 'h) CcidClass \<Rightarrow> bool" where
  "same_rx c d \<longleftrightarrow>
     rx_buf d = rx_buf c \<and> rx_len d = rx_len c \<and> rx_ready d = rx_ready c \<and> rx_overflow d = rx_overflow c \<and>
     powered d = powered c \<and> params d = params c \<and> pending d = pending c \<and> pending_slot d = pending_slot c \<and>
     pending_seq d = pending_seq c \<and> pending_apdu d = pending_apdu c \<and> pending_len d = pending_len c \<and>
     resp_awaiting d = resp_awaiting c \<and> handler d = handler c"

lemma same_rx_flush: "same_rx c (flush_tx env c)"
  by (rule flush_rule [of "same_rx c"]) (auto simp: same_rx_def promote_queue_def tx_advance_def Let_def)

lemmas flush_fields = same_rx_flush [unfolded same_rx_def]

lemma same_rx_queue: "same_rx c (queue_response env c msg_type slot seq status err specific data)"
  by (simp add: same_rx_def queue_response_def flush_fields Let_def)

lemma settled_flush: "settled (flush_tx env c)"
  by (rule flush_rule [of "\<lambda>_. True"]) (auto simp: settled_def tx_active_def)

lemma empty_queue_flush: "q_len c = 0 \<Longrightarrow> q_len (flush_tx env c) = 0"
  by (rule flush_rule [of "\<lambda>c. q_len c = 0"]) (auto simp: promote_queue_def tx_advance_def Let_def)

subsection \<open>The bytes owed to the host\<close>

definition owed :: "('u, 'h) CcidClass \<Rightarrow> bytes" where
  "owed c = slice_of (tx_sent c) (tx_len c) (tx_buf c) @ take (q_len c) (q_buf c)"

text \<open>
  The contract of \<open>EndpointIn::write\<close>, with \<open>sent\<close> the bytes the bus has taken from the endpoint: a write of \<open>n\<close>
  bytes takes the first \<open>n\<close>, a refused one takes none.
\<close>

definition endpoint_contract :: "('u, 'h) CcidEnv \<Rightarrow> ('u \<Rightarrow> bytes) \<Rightarrow> bool" where
  "endpoint_contract env sent \<longleftrightarrow>
     (\<forall>u p. case ep_write env u p of
              (u', Inr n) \<Rightarrow> n \<le> length p \<and> sent u' = sent u @ take n p
            | (u', Inl WouldBlock) \<Rightarrow> sent u' = sent u
            | (u', Inl (UsbFault _)) \<Rightarrow> False)"

lemma contract_written:
  "endpoint_contract env sent \<Longrightarrow> ep_write env u p = (u', Inr n) \<Longrightarrow> n \<le> length p \<and> sent u' = sent u @ take n p"
  unfolding endpoint_contract_def by (drule spec [of _ u], drule spec [of _ p]) simp

lemma contract_refused: "endpoint_contract env sent \<Longrightarrow> ep_write env u p = (u', Inl WouldBlock) \<Longrightarrow> sent u' = sent u"
  unfolding endpoint_contract_def by (drule spec [of _ u], drule spec [of _ p]) simp

lemma contract_fault: "endpoint_contract env sent \<Longrightarrow> ep_write env u p \<noteq> (u', Inl (UsbFault e))"
  unfolding endpoint_contract_def by (rule notI, drule spec [of _ u], drule spec [of _ p]) simp

definition stream :: "('u \<Rightarrow> bytes) \<Rightarrow> ('u, 'h) CcidClass \<Rightarrow> bytes" where
  "stream sent c = sent (ep_in c) @ owed c"

lemma owed_promote: "ccid_bounds c \<Longrightarrow> \<not> tx_active c \<Longrightarrow> owed (promote_queue c) = owed c"
  by (simp add: owed_def promote_queue_def ccid_bounds_def tx_active_def slice_of_def copy_into_def)

lemma slice_join:
  assumes "a \<le> b" "b \<le> c" shows "slice_of a b xs @ slice_of b c xs = slice_of a c xs"
proof -
  have "c - a = (b - a) + (c - b)" using assms by simp
  then show ?thesis unfolding slice_of_def by (simp only: take_add) (simp add: assms)
qed

lemma owed_advance:
  assumes "ccid_bounds c" "tx_active c" "n \<le> length (tx_packet c)"
  shows "take n (tx_packet c) @ owed (tx_advance n c) = owed c"
proof -
  have n: "tx_sent c + n \<le> tx_len c" "n \<le> PACKET_SIZE"
    using assms by (auto simp: tx_packet_def tx_active_def ccid_bounds_def)
  have "take n (tx_packet c) = slice_of (tx_sent c) (tx_sent c + n) (tx_buf c)"
    using n by (simp add: tx_packet_def slice_of_def min_def)
  moreover have "slice_of (tx_sent c) (tx_sent c + n) (tx_buf c) @ slice_of (tx_sent c + n) (tx_len c) (tx_buf c)
      = slice_of (tx_sent c) (tx_len c) (tx_buf c)"
    using n(1) by (simp add: slice_join)
  moreover have "owed (tx_advance n c) = slice_of (tx_sent c + n) (tx_len c) (tx_buf c) @ take (q_len c) (q_buf c)"
    using n(1) by (simp add: owed_def tx_advance_def tx_active_def Let_def slice_of_def)
  ultimately show ?thesis by (simp add: owed_def)
qed

lemma flush_stream:
  assumes contract: "endpoint_contract env sent" and bounds: "ccid_bounds c"
  shows "stream sent (flush_tx env c) = stream sent c"
proof -
  let ?P = "\<lambda>d. ccid_bounds d \<and> stream sent d = stream sent c"
  have "stream sent (flush_tx env c) = stream sent c \<and> True"
  proof (rule flush_rule [of ?P])
    fix d assume "?P d" "\<not> tx_active d"
    then show "?P (promote_queue d)" using bounds_promote [of d] owed_promote [of d]
      by (simp add: stream_def) (simp add: promote_queue_def)
  next
    fix d u n assume d: "?P d" "tx_active d" "ep_write env (ep_in d) (tx_packet d) = (u, Inr n)" "0 < n"
    let ?d = "d\<lparr>ep_in := u\<rparr>"
    have same: "ccid_bounds ?d" "tx_active ?d" "tx_packet ?d = tx_packet d" "owed ?d = owed d"
      using d by (simp_all add: ccid_bounds_def tx_active_def tx_packet_def owed_def)
    have "ep_in (tx_advance n ?d) = u" by (simp add: tx_advance_def Let_def)
    then show "?P (tx_advance n ?d)"
      using owed_advance [of ?d n] bounds_advance [of ?d n] contract_written [OF contract d(3)] d(1) same
      by (auto simp: stream_def)
  next
    fix d u e assume "ep_write env (ep_in d) (tx_packet d) = (u, Inl (UsbFault e))"
    then show "?P (d\<lparr>ep_in := u, tx_len := 0, tx_sent := 0\<rparr>)" using contract_fault [OF contract] by blast
  next
    fix d u r assume d: "?P d" "ep_write env (ep_in d) (tx_packet d) = (u, r)" "r = Inr 0 \<or> r = Inl WouldBlock"
    then have "sent u = sent (ep_in d)"
      using contract_written [OF contract, of "ep_in d"] contract_refused [OF contract, of "ep_in d"] by fastforce
    then show "stream sent (d\<lparr>ep_in := u\<rparr>) = stream sent c \<and> True" using d(1) by (simp add: stream_def owed_def)
  qed (use bounds in simp_all)
  then show ?thesis by simp
qed

definition rdr_message :: "u8 \<Rightarrow> u8 \<Rightarrow> u8 \<Rightarrow> u8 \<Rightarrow> u8 \<Rightarrow> u8 \<Rightarrow> bytes \<Rightarrow> bytes" where
  "rdr_message msg_type slot seq status err specific data =
     rdr_header msg_type (length data) slot seq status err specific @ data"

lemma take_write_header:
  assumes "length buf = MAX_MSG_LEN" "length data \<le> MAX_PAYLOAD_LEN"
  shows "take (CCID_HEADER_LEN + length data)
           (write_header (copy_into buf CCID_HEADER_LEN data) msg_type (length data) slot seq status err specific)
         = rdr_message msg_type slot seq status err specific data"
  using assms by (simp add: write_header_eq length_copy_into ccid_consts rdr_message_def copy_into_def)

text \<open>A response is appended to the stream: the message being drained is never touched.\<close>

lemma queue_response_stream:
  assumes "endpoint_contract env sent" "ccid_bounds c" "q_len c = 0" "length data \<le> MAX_PAYLOAD_LEN"
  shows "stream sent (queue_response env c msg_type slot seq status err specific data)
         = stream sent c @ rdr_message msg_type slot seq status err specific data"
proof -
  let ?w = "\<lambda>buf. write_header (copy_into buf CCID_HEADER_LEN data) msg_type (length data) slot seq status err specific"
  let ?d = "if tx_active c then c\<lparr>q_buf := ?w (q_buf c), q_len := CCID_HEADER_LEN + length data\<rparr>
            else c\<lparr>tx_buf := ?w (tx_buf c), tx_len := CCID_HEADER_LEN + length data, tx_sent := 0\<rparr>"
  have "length (?w buf) = length buf" if "length buf = MAX_MSG_LEN" for buf
    using that assms(4) by (simp add: length_write_header length_copy_into ccid_consts)
  then have "ccid_bounds ?d" using assms(2,4) by (auto simp: ccid_bounds_def ccid_consts)
  moreover have "stream sent ?d = stream sent c @ rdr_message msg_type slot seq status err specific data"
    using assms take_write_header by (auto simp: stream_def owed_def tx_active_def ccid_bounds_def slice_of_def)
  ultimately show ?thesis
    using flush_stream [OF assms(1), of ?d] assms(4) by (auto simp: queue_response_def Let_def min_def split: if_splits)
qed

text \<open>An endpoint that takes something of every packet empties the class in one call.\<close>

lemma flush_drains:
  assumes "\<And>u p. p \<noteq> [] \<Longrightarrow> \<exists>u' n. ep_write env u p = (u', Inr n) \<and> 0 < n" "ccid_bounds c"
  shows "owed (flush_tx env c) = []"
proof (rule flush_rule [of ccid_bounds])
  fix c u r
  assume c: "ccid_bounds c" "tx_active c" "ep_write env (ep_in c) (tx_packet c) = (u, r)" "r = Inr 0 \<or> r = Inl WouldBlock"
  then have "tx_packet c \<noteq> []" by (simp add: tx_packet_def slice_of_def tx_active_def ccid_bounds_def PACKET_SIZE_def)
  then show "owed (c\<lparr>ep_in := u\<rparr>) = []" using assms(1) [of "tx_packet c" "ep_in c"] c(3,4) by auto
qed (use assms(2) in \<open>auto simp: ccid_bounds_def promote_queue_def tx_advance_def tx_active_def owed_def slice_of_def
  length_copy_into Let_def\<close>)

subsection \<open>Every operation keeps the bounds\<close>

lemma bounds_write:
  assumes "ccid_bounds c" "n \<le> MAX_PAYLOAD_LEN" "length buf = MAX_MSG_LEN"
  shows "ccid_bounds (c\<lparr>q_buf := write_header buf msg_type n slot seq status err specific, q_len := CCID_HEADER_LEN + n\<rparr>)"
    and "ccid_bounds (c\<lparr>tx_buf := write_header buf msg_type n slot seq status err specific,
                        tx_len := CCID_HEADER_LEN + n, tx_sent := 0\<rparr>)"
  using assms by (simp_all add: ccid_bounds_def length_write_header ccid_consts)

lemma bounds_queue: "ccid_bounds c \<Longrightarrow> ccid_bounds (queue_response env c msg_type slot seq status err specific data)"
  by (auto simp: queue_response_def Let_def ccid_bounds_def [of c] length_copy_into ccid_consts
      intro!: bounds_flush bounds_write [unfolded ccid_consts])

lemma bounds_fields [simp]:
  "ccid_bounds (c\<lparr>powered := p\<rparr>) = ccid_bounds c"
  "ccid_bounds (c\<lparr>pending := p\<rparr>) = ccid_bounds c"
  "ccid_bounds (c\<lparr>resp_awaiting := p\<rparr>) = ccid_bounds c"
  "ccid_bounds (c\<lparr>handler := h\<rparr>) = ccid_bounds c"
  by (simp_all add: ccid_bounds_def)

lemma bounds_clear: "ccid_bounds c \<Longrightarrow> ccid_bounds (clear_rx c)"
  by (simp add: ccid_bounds_def clear_rx_def)

lemma bounds_answer: "ccid_bounds c \<Longrightarrow> ccid_bounds (answer env c msg_type slot seq status err data)"
  by (simp add: answer_def bounds_queue bounds_clear)

lemma bounds_handler:
  assumes "handler_contract env" "ccid_bounds c"
  shows "ccid_bounds (run_handler env c h apdu slot seq)"
proof -
  have dest: "length (copy_into buf CCID_HEADER_LEN d) = MAX_MSG_LEN"
    if "length buf = MAX_MSG_LEN" "call_handler env h apdu (drop CCID_HEADER_LEN buf) = (h', d, n)" for buf h' d n
    using that handler_dest [OF assms(1) that(2)] by (simp add: length_copy_into ccid_consts)
  show ?thesis
    using assms(2) dest [of "q_buf c"] dest [of "tx_buf c"]
    by (auto simp: run_handler_def seal_q_def seal_tx_def Let_def ccid_bounds_def [of c] ccid_bounds_def [of "c\<lparr>handler := _\<rparr>"]
        split: prod.split intro!: bounds_flush bounds_write)
qed

lemma bounds_append: "ccid_bounds c \<Longrightarrow> ccid_bounds (rx_append c chunk)"
  by (auto simp: rx_append_def ccid_bounds_def length_copy_into Let_def)

text \<open>The end of the data wraps around exactly for the ten largest length fields.\<close>

lemma wrapped_end:
  "unat (word_of_nat CCID_HEADER_LEN + dw) < CCID_HEADER_LEN \<longleftrightarrow> 0xFFFFFFF6 \<le> (dw :: u32)"
  "\<not> 0xFFFFFFF6 \<le> dw \<Longrightarrow> unat (word_of_nat CCID_HEADER_LEN + dw) = CCID_HEADER_LEN + unat dw"
proof -
  have split: "unat (word_of_nat CCID_HEADER_LEN + dw) =
      (if 10 + unat dw < 2 ^ 32 then 10 + unat dw else 10 + unat dw - 2 ^ 32)"
    using unat_plus_if' [of "10 :: u32" dw] by (simp add: CCID_HEADER_LEN_def)
  have le: "0xFFFFFFF6 \<le> dw \<longleftrightarrow> 4294967286 \<le> unat dw" by (simp add: word_le_nat_alt)
  have "unat dw < 2 ^ 32" using unsigned_less [of dw] by simp
  then show "unat (word_of_nat CCID_HEADER_LEN + dw) < CCID_HEADER_LEN \<longleftrightarrow> 0xFFFFFFF6 \<le> dw"
    unfolding split le by (auto simp: CCID_HEADER_LEN_def)
  show "\<not> 0xFFFFFFF6 \<le> dw \<Longrightarrow> unat (word_of_nat CCID_HEADER_LEN + dw) = CCID_HEADER_LEN + unat dw"
    unfolding split le by (auto simp: CCID_HEADER_LEN_def)
qed

lemma bounds_hold:
  "ccid_bounds c \<Longrightarrow> length apdu \<le> MAX_PAYLOAD_LEN \<Longrightarrow> ccid_bounds (hold_request c apdu slot seq)"
  by (simp add: ccid_bounds_def hold_request_def length_copy_into)

lemma bounds_xfr:
  assumes "handler_contract env" "ccid_bounds c" "xfr_block env c slot seq = Some d"
  shows "ccid_bounds d"
proof -
  have "ccid_bounds (hold_request c (slice_of CCID_HEADER_LEN stop (rx_buf c)) slot seq)" for stop
    using assms(2) by (intro bounds_hold) (simp_all add: ccid_bounds_def ccid_consts)
  then show ?thesis
    using assms bounds_handler [OF assms(1,2)]
    by (auto simp: xfr_block_def Let_def bounds_answer split: if_splits option.splits)
qed

lemma bounds_parameters:
  assumes "ccid_bounds c" shows "ccid_bounds (set_parameters env c slot seq)"
proof -
  have "ccid_bounds (c\<lparr>params := slice_of CCID_HEADER_LEN (CCID_HEADER_LEN + T0_PARAM_LEN) (rx_buf c)\<rparr>)"
    using assms by (simp add: ccid_bounds_def ccid_consts)
  then show ?thesis
    using assms by (simp add: set_parameters_def queue_parameters_def bounds_answer bounds_queue bounds_clear Let_def)
qed

lemma bounds_dispatch:
  "handler_contract env \<Longrightarrow> ccid_bounds c \<Longrightarrow> dispatch_rx env c = Some d \<Longrightarrow> ccid_bounds d"
  by (auto simp: dispatch_rx_def Let_def bounds_answer bounds_queue bounds_clear bounds_parameters queue_parameters_def
      intro: bounds_xfr split: if_splits)

lemma bounds_process: "handler_contract env \<Longrightarrow> ccid_bounds c \<Longrightarrow> ccid_process env c = Some d \<Longrightarrow> ccid_bounds d"
  by (auto simp: ccid_process_def intro: bounds_flush bounds_dispatch split: if_splits)

lemma bounds_event: "ccid_bounds c \<Longrightarrow> ccid_bounds (usb_event ev c)"
proof (cases ev)
  case Bus_Reset
  then show "ccid_bounds c \<Longrightarrow> ?thesis" by (simp add: ccid_reset_def clear_rx_def ccid_bounds_def)
qed (simp_all add: endpoint_out_def bounds_append split: sum.split)

text \<open>The states of the class: any order of bus events, turns of \<open>process\<close> and calls of the manual interface.\<close>

inductive ccid_reachable :: "('u, 'h) CcidEnv \<Rightarrow> ('u, 'h) CcidClass \<Rightarrow> bool" for env where
  built: "ccid_reachable env (ccid_build u h)"
| event: "ccid_reachable env c \<Longrightarrow> ccid_reachable env (usb_event ev c)"
| processed: "ccid_reachable env c \<Longrightarrow> ccid_process env c = Some d \<Longrightarrow> ccid_reachable env d"
| taken: "ccid_reachable env c \<Longrightarrow> ccid_reachable env (fst (take_pending_request c buf_len))"
| responded: "ccid_reachable env c \<Longrightarrow> ccid_reachable env (fst (send_response env c resp))"

lemma reachable_bounds:
  assumes "handler_contract env" "ccid_reachable env c" shows "ccid_bounds c"
  using assms(2)
proof induction
  case (built u h)
  show ?case by (simp add: ccid_build_def ccid_bounds_def ccid_consts T0_DEFAULT_PARAMS_def)
next
  case (taken c buf_len)
  then show ?case by (simp add: take_pending_request_def ccid_bounds_def Let_def)
next
  case (responded c resp)
  then show ?case by (simp add: send_response_def check_def bounds_queue)
qed (auto intro: bounds_event bounds_process [OF assms(1)])

text \<open>
  C35: type. In every state the class can reach, all buffers have their fixed size, every length and position is
  within its buffer, and \<open>process\<close> completes except for one message: a complete \<open>XfrBlock\<close> accepted by a free slot
  whose length field is one of the ten largest 32-bit values, for which the end of the data wraps around and the
  slice is out of range.
\<close>

theorem ccid_panics_only_on_wrapped_length:
  assumes "handler_contract env" "ccid_reachable env c"
  shows "ccid_bounds c \<and>
    (ccid_process env c = None \<longleftrightarrow>
       rx_ready c \<and> \<not> rx_overflow c \<and> CCID_HEADER_LEN \<le> rx_len c \<and> rx_buf c ! 0 = PC_TO_RDR_XFR_BLOCK \<and>
       (from_le_bytes (slice_of 8 10 (rx_buf c)) :: u16) \<le> 1 \<and> \<not> pending c \<and> \<not> resp_awaiting c \<and>
       0xFFFFFFF6 \<le> dw_length c)"
proof -
  have b: "ccid_bounds c" by (rule reachable_bounds [OF assms])
  have x: "xfr_block env c slot seq = None \<longleftrightarrow>
      (from_le_bytes (slice_of 8 10 (rx_buf c)) :: u16) \<le> 1 \<and> \<not> pending c \<and> \<not> resp_awaiting c \<and> 0xFFFFFFF6 \<le> dw_length c"
    if "\<not> rx_len c < unat (word_of_nat CCID_HEADER_LEN + dw_length c)" for slot seq
    using that b wrapped_end(1) [of "dw_length c"]
    by (auto simp: xfr_block_def Let_def ccid_bounds_def not_less split: option.splits)
  have "unat (word_of_nat CCID_HEADER_LEN + dw_length c) < CCID_HEADER_LEN" if "0xFFFFFFF6 \<le> dw_length c"
    using that wrapped_end(1) by blast
  then show ?thesis
    using b x [of "rx_buf c ! 5" "rx_buf c ! 6"]
    by (auto simp: ccid_process_def dispatch_rx_def Let_def ccid_commands split: if_splits)
qed

subsection \<open>Reception\<close>

text \<open>The host's side: an \<open>XfrBlock\<close> message, its bulk packets, and one packet per poll of the application's loop.\<close>

definition xfr_message :: "u8 \<Rightarrow> u8 \<Rightarrow> u16 \<Rightarrow> bytes \<Rightarrow> bytes" where
  "xfr_message slot seq level apdu =
     PC_TO_RDR_XFR_BLOCK # to_le_bytes 4 (word_of_nat (length apdu) :: u32) @ [slot, seq, 0] @ to_le_bytes 2 level @ apdu"

function bulk_packets :: "bytes \<Rightarrow> bytes list" where
  "bulk_packets msg =
     (if length msg \<le> PACKET_SIZE then [msg] else take PACKET_SIZE msg # bulk_packets (drop PACKET_SIZE msg))"
  by pat_completeness auto
termination
  by (relation "measure length") (auto simp: PACKET_SIZE_def)

declare bulk_packets.simps [simp del]

definition packet_polls :: "bytes list \<Rightarrow> UsbEvent list list" where
  "packet_polls ps = map (\<lambda>p. [Endpoint_Out True (Inr p)]) ps"

fun recv_loop ::
  "('u, 'h) CcidEnv \<Rightarrow> UsbEvent list list \<Rightarrow> ('u, 'h) UsbCcidBackend \<Rightarrow> usize
     \<Rightarrow> (('u, 'h) UsbCcidBackend, EmbeddedTransportError, bytes) outcome option" where
  "recv_loop env [] b buf_len = Some (b, Inl Timeout)"
| "recv_loop env (evs # rest) b buf_len =
     (case recv_apdu env evs b buf_len of
        Some (b, Inl Timeout) \<Rightarrow> recv_loop env rest b buf_len
      | r \<Rightarrow> r)"

lemma xfr_message_fields:
  "length (xfr_message slot seq level apdu) = 10 + length apdu"
  "xfr_message slot seq level apdu ! 0 = PC_TO_RDR_XFR_BLOCK"
  "xfr_message slot seq level apdu ! 5 = slot"
  "xfr_message slot seq level apdu ! 6 = seq"
  "slice_of 1 5 (xfr_message slot seq level apdu) = to_le_bytes 4 (word_of_nat (length apdu) :: u32)"
  "slice_of 8 10 (xfr_message slot seq level apdu) = to_le_bytes 2 level"
  "slice_of 10 (10 + length apdu) (xfr_message slot seq level apdu) = apdu"
proof -
  obtain a b c d where 4: "to_le_bytes 4 (word_of_nat (length apdu) :: u32) = [a, b, c, d]" using le_bytes_4 by blast
  obtain e f where 2: "to_le_bytes 2 level = [e, f]" by (simp add: to_le_bytes_def numeral_eq_Suc)
  show "slice_of 1 5 (xfr_message slot seq level apdu) = to_le_bytes 4 (word_of_nat (length apdu) :: u32)"
    "slice_of 8 10 (xfr_message slot seq level apdu) = to_le_bytes 2 level"
    "slice_of 10 (10 + length apdu) (xfr_message slot seq level apdu) = apdu"
    "xfr_message slot seq level apdu ! 5 = slot" "xfr_message slot seq level apdu ! 6 = seq"
    unfolding xfr_message_def 4 2 by (simp_all add: slice_of_def)
qed (simp_all add: xfr_message_def)

definition received :: "bytes \<Rightarrow> usize \<Rightarrow> ('u, 'h) CcidClass \<Rightarrow> bool" where
  "received msg k c \<longleftrightarrow> \<not> rx_overflow c \<and> rx_len c = k \<and> take k (rx_buf c) = take k msg"

lemma slice_from_take: "b \<le> k \<Longrightarrow> take k xs = take k ys \<Longrightarrow> slice_of a b xs = slice_of a b ys"
  by (metis drop_take min.absorb1 slice_of_def take_take)

lemma append_packet:
  assumes c: "ccid_bounds c" "received msg k c" "\<not> rx_ready c"
    and p: "length p \<le> PACKET_SIZE" "p = slice_of k (k + length p) msg" "k + length p \<le> length msg" "length msg \<le> MAX_MSG_LEN"
    and dw: "from_le_bytes (slice_of 1 5 msg) = (word_of_nat (length msg - 10) :: u32)" "10 \<le> length msg"
    and last: "length p < PACKET_SIZE \<Longrightarrow> k + length p = length msg"
  shows "received msg (k + length p) (rx_append c p) \<and> (rx_ready (rx_append c p) \<longleftrightarrow> k + length p = length msg)"
proof -
  let ?d = "c\<lparr>rx_buf := copy_into (rx_buf c) k p, rx_len := k + length p\<rparr>"
  have fits: "length p \<le> MAX_MSG_LEN - k" using p(3,4) by simp
  have "take (k + length p) (copy_into (rx_buf c) k p) = take k (rx_buf c) @ p"
    using c(1) p(3,4) by (simp add: copy_into_def ccid_bounds_def)
  also have "\<dots> = take (k + length p) msg"
    using c(2) p(2) take_slice [of k "k + length p" msg] by (simp add: received_def)
  finally have t: "take (k + length p) (rx_buf ?d) = take (k + length p) msg" by simp
  have dl: "dw_length ?d = word_of_nat (length msg - 10)" if "PACKET_SIZE \<le> length p"
    using dw(1) slice_from_take [OF _ t, of 5 1] that by (simp add: dw_length_def PACKET_SIZE_def)
  have small: "unat (word_of_nat (length msg - 10) :: u32) = length msg - 10"
    using p(4) by (simp add: unat_of_nat MAX_MSG_LEN_def)
  then have "\<not> (word_of_nat (length msg - 10) :: u32) > word_of_nat MAX_PAYLOAD_LEN"
    using p(4) by (simp add: word_less_nat_alt unat_of_nat ccid_consts)
  then show ?thesis
    using c t fits last p(1,3) dw(2) dl small
    by (auto simp: rx_append_def received_def Let_def ccid_consts min_def)
qed

subsection \<open>The manual exchange\<close>

text \<open>The class with nothing queued and no request held, in manual mode.\<close>

definition idle :: "('u, 'h) CcidClass \<Rightarrow> bool" where
  "idle c \<longleftrightarrow> ccid_bounds c \<and> q_len c = 0 \<and> \<not> pending c \<and> \<not> resp_awaiting c \<and> handler c = None"

lemma append_fields:
  "powered (rx_append c p) = powered c" "pending (rx_append c p) = pending c"
  "resp_awaiting (rx_append c p) = resp_awaiting c" "handler (rx_append c p) = handler c"
  "ep_in (rx_append c p) = ep_in c" "tx_buf (rx_append c p) = tx_buf c" "tx_len (rx_append c p) = tx_len c"
  "tx_sent (rx_append c p) = tx_sent c" "q_buf (rx_append c p) = q_buf c" "q_len (rx_append c p) = q_len c"
  by (simp_all add: rx_append_def Let_def)

lemma append_stream: "stream sent (rx_append c p) = stream sent c"
  by (simp add: stream_def owed_def append_fields)

lemma hold_stream: "stream sent (hold_request c apdu slot seq) = stream sent c"
  by (simp add: stream_def owed_def hold_request_def)

lemma idle_append: "idle c \<Longrightarrow> idle (rx_append c p)"
  by (simp add: idle_def bounds_append append_fields)

lemma idle_flush: "idle c \<Longrightarrow> idle (flush_tx env c)"
  using same_rx_flush [of c env] by (simp add: idle_def bounds_flush empty_queue_flush same_rx_def)

text \<open>A poll that brings a packet before the last one only stores it.\<close>

lemma poll_middle:
  assumes "idle c" "\<not> rx_ready (rx_append c p)" "received msg k (rx_append c p)" "endpoint_contract env sent"
  obtains d where "poll_class env [Endpoint_Out True (Inr p)] c = Some d" "idle d" "received msg k d" "\<not> rx_ready d"
    "stream sent d = stream sent c" "powered d = powered c"
proof
  let ?d = "flush_tx env (rx_append c p)"
  have s: "same_rx (rx_append c p) ?d" by (rule same_rx_flush)
  show "poll_class env [Endpoint_Out True (Inr p)] c = Some ?d"
    using assms(2) by (simp add: poll_class_def ccid_process_def endpoint_out_def)
  show "idle ?d" by (rule idle_flush [OF idle_append [OF assms(1)]])
  show "received msg k ?d" "\<not> rx_ready ?d" using s assms(2,3) by (simp_all add: received_def same_rx_def)
  show "powered ?d = powered c" using s by (simp add: same_rx_def append_fields)
  show "stream sent ?d = stream sent c"
    using flush_stream [OF assms(4)] idle_append [OF assms(1), of p] by (simp add: append_stream idle_def)
qed

text \<open>The poll that completes the message holds the request and clears the receiver.\<close>

definition holding :: "bytes \<Rightarrow> u8 \<Rightarrow> u8 \<Rightarrow> ('u, 'h) CcidClass \<Rightarrow> bool" where
  "holding apdu slot seq c \<longleftrightarrow>
     ccid_bounds c \<and> q_len c = 0 \<and> pending c \<and> \<not> resp_awaiting c \<and> handler c = None \<and> rx_len c = 0 \<and>
     \<not> rx_ready c \<and> \<not> rx_overflow c \<and> take (length apdu) (pending_apdu c) = apdu \<and> pending_len c = length apdu \<and>
     pending_slot c = slot \<and> pending_seq c = seq"

lemma holding_flush: "holding apdu slot seq c \<Longrightarrow> holding apdu slot seq (flush_tx env c)"
  using same_rx_flush [of c env] by (simp add: holding_def bounds_flush empty_queue_flush same_rx_def)

lemma dispatch_message:
  assumes "idle c" "received (xfr_message slot seq level apdu) (10 + length apdu) c"
    and "length apdu \<le> MAX_PAYLOAD_LEN" "level \<le> 1"
  shows "dispatch_rx env c = Some (hold_request c apdu slot seq)"
proof -
  let ?msg = "xfr_message slot seq level apdu"
  have t: "take (10 + length apdu) (rx_buf c) = ?msg" and l: "rx_len c = 10 + length apdu"
    using assms(2) xfr_message_fields(1) [of slot seq level apdu] by (simp_all add: received_def)
  have nth: "rx_buf c ! i = ?msg ! i" if "i < 10" for i using that nth_take [of i "10 + length apdu" "rx_buf c"] t by simp
  have sl: "slice_of a b (rx_buf c) = slice_of a b ?msg" if "b \<le> 10 + length apdu" for a b
    using slice_from_take [OF that, of "rx_buf c" ?msg a] t xfr_message_fields(1) [of slot seq level apdu] by simp
  have dw: "dw_length c = word_of_nat (length apdu)" using sl [of 5 1] xfr_message_fields(5) [of slot seq level apdu] by (simp add: dw_length_def)
  have u: "unat (word_of_nat (length apdu) :: u32) = length apdu"
    using assms(3) by (simp add: unat_of_nat ccid_consts)
  have stop: "unat (word_of_nat CCID_HEADER_LEN + dw_length c) = 10 + length apdu"
    using wrapped_end(2) [of "dw_length c"] assms(3) u by (simp add: dw word_le_nat_alt ccid_consts)
  have "length (rx_buf c) = 288" "\<not> 1 < level" using assms(1,4) by (simp_all add: idle_def ccid_bounds_def ccid_consts)
  then show ?thesis
    using assms stop l sl [of 10 8] sl [of "10 + length apdu" 10] nth [of 0] nth [of 5] nth [of 6]
    by (simp add: dispatch_rx_def xfr_block_def received_def idle_def xfr_message_fields ccid_commands ccid_consts Let_def)
qed

lemma poll_last:
  assumes "idle c" "endpoint_contract env sent" "length apdu \<le> MAX_PAYLOAD_LEN" "level \<le> 1"
    and "received (xfr_message slot seq level apdu) (10 + length apdu) (rx_append c p)" "rx_ready (rx_append c p)"
  obtains d where "poll_class env [Endpoint_Out True (Inr p)] c = Some d" "holding apdu slot seq d"
    "stream sent d = stream sent c" "powered d = powered c"
proof
  let ?c = "rx_append c p"
  let ?h = "hold_request ?c apdu slot seq"
  have i: "idle ?c" by (rule idle_append [OF assms(1)])
  show "poll_class env [Endpoint_Out True (Inr p)] c = Some (flush_tx env ?h)"
    using dispatch_message [OF i assms(5,3,4)] assms(6) by (simp add: poll_class_def ccid_process_def endpoint_out_def)
  have h: "holding apdu slot seq ?h"
    using i bounds_hold [of ?c apdu slot seq] assms(3)
    by (simp add: holding_def idle_def) (simp add: hold_request_def copy_into_def)
  then show "holding apdu slot seq (flush_tx env ?h)" by (rule holding_flush)
  show "stream sent (flush_tx env ?h) = stream sent c"
    using flush_stream [OF assms(2), of ?h] h by (simp add: holding_def hold_stream append_stream)
  show "powered (flush_tx env ?h) = powered c"
    using same_rx_flush [of ?h env] by (simp add: same_rx_def hold_request_def append_fields)
qed

lemma recv_held:
  assumes "initialized b" "poll_class env evs (ccid b) = Some d" "holding apdu slot seq d" "apdu \<noteq> []" "length apdu \<le> buf_len"
  shows "recv_apdu env evs b buf_len =
    Some (b\<lparr>ccid := d\<lparr>pending := False, pending_len := 0, resp_awaiting := True\<rparr>\<rparr>, Inr apdu)"
  using assms by (simp add: recv_apdu_def holding_def pending_request_len_def take_pending_request_def Let_def min_def)

lemma recv_timeout:
  assumes "initialized b" "poll_class env evs (ccid b) = Some d" "idle d"
  shows "recv_apdu env evs b buf_len = Some (b\<lparr>ccid := d\<rparr>, Inl Timeout)"
  using assms by (simp add: recv_apdu_def idle_def pending_request_len_def Let_def)

text \<open>The loop of the application over the packets of a message from byte \<open>k\<close> on.\<close>

lemma recv_message:
  assumes contract: "endpoint_contract env sent"
    and apdu: "apdu \<noteq> []" "length apdu \<le> MAX_PAYLOAD_LEN" "length apdu \<le> buf_len" "level \<le> 1"
    and msg: "msg = xfr_message slot seq level apdu"
  shows "initialized b \<Longrightarrow> idle (ccid b) \<Longrightarrow> received msg k (ccid b) \<Longrightarrow> \<not> rx_ready (ccid b) \<Longrightarrow> k < length msg \<Longrightarrow>
    \<exists>d. recv_loop env (packet_polls (bulk_packets (drop k msg))) b buf_len =
          Some (b\<lparr>ccid := d\<lparr>pending := False, pending_len := 0, resp_awaiting := True\<rparr>\<rparr>, Inr apdu) \<and>
        holding apdu slot seq d \<and> stream sent d = stream sent (ccid b) \<and> powered d = powered (ccid b)"
proof (induction "length msg - k" arbitrary: b k rule: less_induct)
  case less
  let ?c = "ccid b"
  let ?p = "take PACKET_SIZE (drop k msg)"
  have len: "length msg = 10 + length apdu" by (simp add: msg xfr_message_fields)
  have dw: "from_le_bytes (slice_of 1 5 msg) = (word_of_nat (length msg - 10) :: u32)"
    using xfr_message_fields(5) [of slot seq level apdu] by (simp add: len) (simp add: msg)
  have p: "length ?p \<le> PACKET_SIZE" "?p = slice_of k (k + length ?p) msg" "k + length ?p \<le> length msg"
    "length ?p < PACKET_SIZE \<Longrightarrow> k + length ?p = length msg" "length msg \<le> MAX_MSG_LEN" "10 \<le> length msg"
    using less.prems(5) apdu(2) by (auto simp: slice_of_def len ccid_consts min_def)
  have bounds: "ccid_bounds ?c" using less.prems(2) by (simp add: idle_def)
  have r: "received msg (k + length ?p) (rx_append ?c ?p)" "rx_ready (rx_append ?c ?p) \<longleftrightarrow> k + length ?p = length msg"
    using append_packet [OF bounds less.prems(3,4) p(1,2,3,5) dw p(6) p(4)] by simp_all
  show ?case
  proof (cases "length msg - k \<le> PACKET_SIZE")
    case True
    then have all: "k + length ?p = length msg" "?p = drop k msg" using less.prems(5) by auto
    obtain d where d: "poll_class env [Endpoint_Out True (Inr ?p)] ?c = Some d" "holding apdu slot seq d"
        "stream sent d = stream sent ?c" "powered d = powered ?c"
      using poll_last [OF less.prems(2) contract apdu(2,4), of slot seq ?p] r all len msg by metis
    have "bulk_packets (drop k msg) = [?p]" using True all(2) by (subst bulk_packets.simps) simp
    then show ?thesis
      using recv_held [OF less.prems(1) d(1,2) apdu(1,3)] d(2-4) by (auto simp: packet_polls_def)
  next
    case False
    then have part: "length ?p = PACKET_SIZE" "k + PACKET_SIZE < length msg" by auto
    obtain d where d: "poll_class env [Endpoint_Out True (Inr ?p)] ?c = Some d" "idle d" "received msg (k + PACKET_SIZE) d"
        "\<not> rx_ready d" "stream sent d = stream sent ?c" "powered d = powered ?c"
      using poll_middle [OF less.prems(2) _ _ contract, of ?p msg "k + PACKET_SIZE"] r part by auto
    have next_packets: "bulk_packets (drop k msg) = ?p # bulk_packets (drop (k + PACKET_SIZE) msg)"
      using False by (subst bulk_packets.simps) (simp add: add.commute)
    have "length msg - (k + PACKET_SIZE) < length msg - k" using part by (simp add: PACKET_SIZE_def)
    from less.hyps [OF this, of "b\<lparr>ccid := d\<rparr>"] show ?thesis
      using d part less.prems(1) recv_timeout [OF less.prems(1) d(1,2), of buf_len]
      by (simp add: next_packets packet_polls_def)
  qed
qed

text \<open>
  C15: functional. The manual exchange of one APDU: from an idle class, the host's \<open>XfrBlock\<close> message arrives as
  64-byte packets, one per poll of the application's receive loop; the loop returns exactly the APDU, and
  \<open>send_apdu\<close> then appends to the bytes already owed to the host exactly one \<open>DataBlock\<close> that echoes the slot and the
  sequence number and carries the response, with no request held and the receiver empty. The endpoint may refuse any
  packet for any time and take any part of one.
\<close>

theorem ccid_exchange:
  assumes "endpoint_contract env sent" "initialized b" "idle (ccid b)"
    and "rx_len (ccid b) = 0" "\<not> rx_ready (ccid b)" "\<not> rx_overflow (ccid b)"
    and "apdu \<noteq> []" "length apdu \<le> MAX_PAYLOAD_LEN" "length apdu \<le> buf_len" "level \<le> 1"
    and "length resp \<le> MAX_PAYLOAD_LEN"
  shows "\<exists>b1 b2. recv_loop env (packet_polls (bulk_packets (xfr_message slot seq level apdu))) b buf_len = Some (b1, Inr apdu) \<and>
    send_apdu env b1 resp = (b2, Inr ()) \<and>
    stream sent (ccid b2) =
      stream sent (ccid b) @ rdr_message RDR_TO_PC_DATABLOCK slot seq (ok_status (ccid b)) NO_ERROR 0 resp \<and>
    ccid_bounds (ccid b2) \<and> \<not> pending (ccid b2) \<and> \<not> resp_awaiting (ccid b2) \<and> rx_len (ccid b2) = 0 \<and> \<not> rx_ready (ccid b2)"
proof -
  let ?msg = "xfr_message slot seq level apdu"
  have start: "received ?msg 0 (ccid b)" "0 < length ?msg"
    using assms(4,6) by (simp_all add: received_def xfr_message_fields(1))
  obtain d where d: "recv_loop env (packet_polls (bulk_packets ?msg)) b buf_len =
        Some (b\<lparr>ccid := d\<lparr>pending := False, pending_len := 0, resp_awaiting := True\<rparr>\<rparr>, Inr apdu)"
      "holding apdu slot seq d" "stream sent d = stream sent (ccid b)" "powered d = powered (ccid b)"
    using recv_message [OF assms(1,7,8,9,10) refl assms(2,3) start(1) assms(5) start(2)] by auto
  let ?d = "d\<lparr>pending := False, pending_len := 0, resp_awaiting := False\<rparr>"
  let ?e = "queue_response env ?d RDR_TO_PC_DATABLOCK slot seq (ok_status (ccid b)) NO_ERROR 0 resp"
  have hd: "ccid_bounds ?d" "q_len ?d = 0" "stream sent ?d = stream sent d"
    using d(2) by (simp_all add: holding_def ccid_bounds_def stream_def owed_def)
  have e: "stream sent ?e = stream sent (ccid b) @ rdr_message RDR_TO_PC_DATABLOCK slot seq (ok_status (ccid b)) NO_ERROR 0 resp"
    using queue_response_stream [OF assms(1) hd(1,2) assms(11)] hd(3) d(3) by simp
  have same: "same_rx ?d ?e" by (rule same_rx_queue)
  have send: "send_apdu env (b\<lparr>ccid := d\<lparr>pending := False, pending_len := 0, resp_awaiting := True\<rparr>\<rparr>) resp =
      (b\<lparr>ccid := ?e\<rparr>, Inr ())"
    using assms(2,11) d(2,4) by (simp add: send_apdu_def send_response_def holding_def ok_status_def check_def)
  show ?thesis
    using d(1) send e bounds_queue [OF hd(1)] same d(2)
    by (intro exI conjI) (auto simp: same_rx_def holding_def)
qed

subsection \<open>Two defects\<close>

text \<open>
  With a handler the receiver is not cleared after the response, so the message stays ready: the next \<open>process\<close>
  runs the same APDU again, and packets that arrive meanwhile are discarded.
\<close>

lemma handled_block_stays:
  assumes "handler c = Some h" "\<not> pending c" "\<not> resp_awaiting c"
    and "(from_le_bytes (slice_of 8 10 (rx_buf c)) :: u16) \<le> 1" "xfr_block env c slot seq = Some d"
  shows "rx_ready d = rx_ready c" "rx_len d = rx_len c" "rx_buf d = rx_buf c"
  using assms
  by (auto simp: xfr_block_def run_handler_def seal_q_def seal_tx_def flush_fields Let_def split: if_splits prod.splits)

text \<open>
  An \<open>XfrBlock\<close> without data is held but never handed out: \<open>recv_apdu\<close> takes its length for "nothing pending", and
  every later \<open>XfrBlock\<close> is answered with "slot busy" until the host aborts.
\<close>

lemma empty_block_jams:
  assumes "holding [] s0 q0 c"
  shows "initialized b \<Longrightarrow> ccid b = c \<Longrightarrow> \<exists>d. recv_apdu env [] b buf_len = Some (b\<lparr>ccid := d\<rparr>, Inl Timeout) \<and> holding [] s0 q0 d"
    and "(from_le_bytes (slice_of 8 10 (rx_buf c)) :: u16) \<le> 1 \<Longrightarrow>
      xfr_block env c slot seq = Some (answer env c RDR_TO_PC_DATABLOCK slot seq (fail_status c) BERR_CMD_SLOT_BUSY [])"
proof -
  assume "initialized b" "ccid b = c"
  then show "\<exists>d. recv_apdu env [] b buf_len = Some (b\<lparr>ccid := d\<rparr>, Inl Timeout) \<and> holding [] s0 q0 d"
    using assms holding_flush [OF assms, of env] flush_fields [of env c]
    by (auto simp: recv_apdu_def poll_class_def ccid_process_def pending_request_len_def holding_def)
next
  assume "(from_le_bytes (slice_of 8 10 (rx_buf c)) :: u16) \<le> 1"
  then show "xfr_block env c slot seq = Some (answer env c RDR_TO_PC_DATABLOCK slot seq (fail_status c) BERR_CMD_SLOT_BUSY [])"
    using assms by (auto simp: xfr_block_def holding_def Let_def)
qed

subsection \<open>Examples\<close>

text \<open>An endpoint that takes whole packets and an echoing handler.\<close>

definition example_ccid_env :: "(bytes, unit) CcidEnv" where
  "example_ccid_env = \<lparr>ep_write = \<lambda>u p. (u @ p, Inr (length p)), call_handler = \<lambda>h apdu dest. (h, dest, 0)\<rparr>"

definition example_backend :: "(bytes, unit) UsbCcidBackend" where
  "example_backend = backend_init (backend_build [] None)"

theorem ccid_exchange_witness:
  "\<exists>b1 b2. recv_loop example_ccid_env (packet_polls (bulk_packets (xfr_message 0 7 0 (replicate 70 1)))) example_backend 278
        = Some (b1, Inr (replicate 70 1)) \<and>
      send_apdu example_ccid_env b1 [0x90, 0x00] = (b2, Inr ()) \<and>
      stream (\<lambda>u. u) (ccid b2) = rdr_message RDR_TO_PC_DATABLOCK 0 7 STATUS_ICC_INACTIVE NO_ERROR 0 [0x90, 0x00]"
proof -
  have "endpoint_contract example_ccid_env (\<lambda>u. u)" by (simp add: endpoint_contract_def example_ccid_env_def)
  moreover have "initialized example_backend" "idle (ccid example_backend)" "rx_len (ccid example_backend) = 0"
    "\<not> rx_ready (ccid example_backend)" "\<not> rx_overflow (ccid example_backend)"
    "stream (\<lambda>u. u) (ccid example_backend) = []" "ok_status (ccid example_backend) = STATUS_ICC_INACTIVE"
    by (simp_all add: example_backend_def backend_init_def backend_build_def ccid_build_def idle_def ccid_bounds_def
        ccid_consts T0_DEFAULT_PARAMS_def stream_def owed_def slice_of_def ok_status_def)
  ultimately show ?thesis
    using ccid_exchange [of example_ccid_env "\<lambda>u. u" example_backend "replicate 70 1" 278 0 "[0x90, 0x00]" 0 7]
    by (auto simp: ccid_consts)
qed

definition wrapped_block :: "(bytes, unit) CcidClass" where
  "wrapped_block = usb_event (Endpoint_Out True (Inr [0x6F, 0xF6, 0xFF, 0xFF, 0xFF, 0, 1, 0, 0, 0])) (ccid_build [] None)"

theorem ccid_panics_only_on_wrapped_length_witness:
  "handler_contract example_ccid_env \<and> ccid_reachable example_ccid_env wrapped_block \<and>
   ccid_process example_ccid_env wrapped_block = None"
proof -
  have env: "handler_contract example_ccid_env" by (simp add: handler_contract_def example_ccid_env_def)
  have reach: "ccid_reachable example_ccid_env wrapped_block"
    unfolding wrapped_block_def by (intro ccid_reachable.intros)
  have "rx_ready wrapped_block \<and> \<not> rx_overflow wrapped_block \<and> CCID_HEADER_LEN \<le> rx_len wrapped_block \<and>
     rx_buf wrapped_block ! 0 = PC_TO_RDR_XFR_BLOCK \<and> (from_le_bytes (slice_of 8 10 (rx_buf wrapped_block)) :: u16) \<le> 1 \<and>
     \<not> pending wrapped_block \<and> \<not> resp_awaiting wrapped_block \<and> 0xFFFFFFF6 \<le> dw_length wrapped_block"
    by code_simp
  then show ?thesis using ccid_panics_only_on_wrapped_length [OF env reach] env reach by blast
qed

end
