(* ===== verification/Transport.thy ===== *)
theory Transport
  imports Ctaphid Iso7816 Decimal Ccid
begin

section \<open>The transports\<close>

text \<open>
  The trait \<open>Transport\<close> of \<open>openkey-transport\<close> and its implementations: the CTAPHID, BLE, NFC and CCID adapters
  that frame messages over a device, the stubs, the dummy and the aggregate \<open>MultiTransport\<close>. The device under an
  adapter is a parameter, the record of the operations of its trait (\<open>UsbHidDevice\<close>, \<open>BleGattDevice\<close>, \<open>NfcDevice\<close>,
  \<open>UsbCcidDevice\<close>). A receive loop that may wait for ever is \<open>None\<close> when it does not return.
\<close>

subsection \<open>Errors and the trait\<close>

datatype TransportError =
    Tr_NotInitialized
  | SendError string
  | RecvError string
  | Tr_Closed
  | Unimplemented string

fun transport_error :: "EmbeddedTransportError \<Rightarrow> TransportError" where
  "transport_error NotInitialized = Tr_NotInitialized"
| "transport_error SendFailed = SendError ''embedded''"
| "transport_error RecvFailed = RecvError ''embedded''"
| "transport_error Closed = Tr_Closed"
| "transport_error BufferTooSmall = SendError ''buffer too small''"
| "transport_error FramingError = RecvError ''framing''"
| "transport_error Timeout = RecvError ''timeout''"

record 't TransportOps =
  tr_init :: "'t \<Rightarrow> ('t, TransportError, unit) outcome"
  tr_send :: "'t \<Rightarrow> bytes \<Rightarrow> ('t, TransportError, unit) outcome"
  tr_recv :: "'t \<Rightarrow> ('t, TransportError, bytes) outcome option"
  tr_close :: "'t \<Rightarrow> ('t, TransportError, unit) outcome"

definition dummy_transport :: "unit TransportOps" where
  "dummy_transport =
     \<lparr>tr_init = (\<lambda>t. (t, Inr ())), tr_send = (\<lambda>t data. (t, Inr ())), tr_recv = (\<lambda>t. Some (t, Inr [])),
      tr_close = (\<lambda>t. (t, Inr ()))\<rparr>"

text \<open>The four stubs differ in their messages; the state is the flag \<open>initialized\<close>.\<close>

definition stub_transport :: "string \<Rightarrow> string \<Rightarrow> bool TransportOps" where
  "stub_transport name requires =
     \<lparr>tr_init = (\<lambda>t. (True, Inl (Unimplemented (name @ '' requires '' @ requires)))),
      tr_send = (\<lambda>t data. check (\<not> t) Tr_NotInitialized t (t, Inl (Unimplemented (name @ ''::send requires '' @ requires)))),
      tr_recv = (\<lambda>t. Some (check (\<not> t) Tr_NotInitialized t (t, Inl (Unimplemented (name @ ''::recv requires '' @ requires))))),
      tr_close = (\<lambda>t. (False, Inr ()))\<rparr>"

definition usb_hid_stub :: "bool TransportOps" where
  "usb_hid_stub = stub_transport ''UsbHidTransport'' ''usb-device crate integration''"

definition ble_gatt_stub :: "bool TransportOps" where
  "ble_gatt_stub = stub_transport ''BleGattTransport'' ''BLE GATT server integration''"

definition nfc_stub :: "bool TransportOps" where
  "nfc_stub = stub_transport ''NfcTransport'' ''ISO 14443 frontend integration''"

definition usb_ccid_stub :: "bool TransportOps" where
  "usb_ccid_stub = stub_transport ''UsbCcidTransport'' ''CCID protocol integration''"

text \<open>
  The loop \<open>loop \<open>{\<close> .. continue .. return .. \<open>}\<close>\<close> of the receivers: \<open>step\<close> is its body, which asks for another turn
  with \<open>Ok(None)\<close>.
\<close>

partial_function (option) recv_until ::
  "('t \<Rightarrow> ('t, TransportError, bytes option) outcome) \<Rightarrow> 't \<Rightarrow> ('t, TransportError, bytes) outcome option" where
  "recv_until step t =
     (case step t of
        (t, Inl e) \<Rightarrow> Some (t, Inl e)
      | (t, Inr (Some msg)) \<Rightarrow> Some (t, Inr msg)
      | (t, Inr None) \<Rightarrow> recv_until step t)"

declare recv_until.simps [code]

text \<open>\<open>for x in xs \<open>{\<close> op(x)?; \<open>}\<close>\<close>\<close>

fun for_each :: "('d \<Rightarrow> 'x \<Rightarrow> 'd \<times> ('e, unit) result) \<Rightarrow> 'd \<Rightarrow> 'x list \<Rightarrow> 'd \<times> ('e, unit) result" where
  "for_each f d [] = (d, Inr ())"
| "for_each f d (x # xs) = (case f d x of (d, Inl e) \<Rightarrow> (d, Inl e) | (d, Inr _) \<Rightarrow> for_each f d xs)"

subsection \<open>CTAPHID over a USB HID device\<close>

record 'd UsbHidDevice =
  hid_init :: "'d \<Rightarrow> 'd \<times> (EmbeddedTransportError, unit) result"
  hid_send_packet :: "'d \<Rightarrow> bytes \<Rightarrow> 'd \<times> (EmbeddedTransportError, unit) result"
  hid_recv_packet :: "'d \<Rightarrow> 'd \<times> (EmbeddedTransportError, bytes) result"

record 'd FramedUsbHidTransport =
  fh_device :: 'd
  fh_assembler :: CtaphidAssembler
  fh_active_cid :: u32
  fh_initialized :: bool

definition framed_hid_new :: "'d \<Rightarrow> 'd FramedUsbHidTransport" where
  "framed_hid_new d = \<lparr>fh_device = d, fh_assembler = assembler_new, fh_active_cid = 0x00010001, fh_initialized = False\<rparr>"

definition framed_hid_init :: "'d UsbHidDevice \<Rightarrow> 'd FramedUsbHidTransport \<Rightarrow> ('d FramedUsbHidTransport, TransportError, unit) outcome" where
  "framed_hid_init ops t =
     (case hid_init ops (fh_device t) of
        (d, Inl e) \<Rightarrow> (t\<lparr>fh_device := d\<rparr>, Inl (transport_error e))
      | (d, Inr _) \<Rightarrow> (t\<lparr>fh_device := d, fh_assembler := assembler_reset (fh_assembler t), fh_initialized := True\<rparr>, Inr ()))"

fun fragmenter_error_text :: "FragmenterError \<Rightarrow> string" where
  "fragmenter_error_text (PayloadTooLarge len) =
     ''payload size '' @ show_nat len @ '' exceeds CTAPHID limit of '' @ show_nat CTAPHID_MAX_PAYLOAD_LEN @ '' bytes''"

definition framed_hid_send ::
  "'d UsbHidDevice \<Rightarrow> 'd FramedUsbHidTransport \<Rightarrow> bytes \<Rightarrow> ('d FramedUsbHidTransport, TransportError, unit) outcome" where
  "framed_hid_send ops t data =
     check (\<not> fh_initialized t) Tr_NotInitialized t
     (attempt (map_err (\<lambda>e. SendError (fragmenter_error_text e)) (fragment (fh_active_cid t) Cmd_Cbor data)) t (\<lambda>packets.
       case for_each (hid_send_packet ops) (fh_device t) packets of (d, r) \<Rightarrow> (t\<lparr>fh_device := d\<rparr>, map_err transport_error r)))"

fun ctaphid_error_name :: "CtaphidErrorCode \<Rightarrow> string" where
  "ctaphid_error_name Hid_InvalidCmd = ''InvalidCmd''"
| "ctaphid_error_name Hid_InvalidPar = ''InvalidPar''"
| "ctaphid_error_name Hid_InvalidLen = ''InvalidLen''"
| "ctaphid_error_name Hid_InvalidSeq = ''InvalidSeq''"
| "ctaphid_error_name Hid_MsgTimeout = ''MsgTimeout''"
| "ctaphid_error_name Hid_ChannelBusy = ''ChannelBusy''"
| "ctaphid_error_name Hid_LockRequired = ''LockRequired''"
| "ctaphid_error_name Hid_InvalidChannel = ''InvalidChannel''"
| "ctaphid_error_name Hid_Other = ''Other''"

definition framed_hid_step ::
  "'d UsbHidDevice \<Rightarrow> 'd FramedUsbHidTransport \<Rightarrow> ('d FramedUsbHidTransport, TransportError, bytes option) outcome" where
  "framed_hid_step ops t =
     (case hid_recv_packet ops (fh_device t) of
        (d, Inl e) \<Rightarrow> (t\<lparr>fh_device := d\<rparr>, Inl (transport_error e))
      | (d, Inr pkt) \<Rightarrow>
          check (length pkt \<noteq> CTAPHID_PACKET_SIZE) (RecvError ''incomplete USB-HID packet received'') (t\<lparr>fh_device := d\<rparr>)
          (case process_packet (fh_assembler t) pkt of
             (asm, Inr (Some msg)) \<Rightarrow>
               (t\<lparr>fh_device := d, fh_assembler := asm, fh_active_cid := msg_cid msg\<rparr>, Inr (Some (msg_payload msg)))
           | (asm, Inr None) \<Rightarrow> (t\<lparr>fh_device := d, fh_assembler := asm\<rparr>, Inr None)
           | (asm, Inl (cid, err)) \<Rightarrow>
               (t\<lparr>fh_device := d, fh_assembler := asm\<rparr>, Inl (RecvError (''CTAPHID assembly error: '' @ ctaphid_error_name err)))))"

definition framed_hid_recv ::
  "'d UsbHidDevice \<Rightarrow> 'd FramedUsbHidTransport \<Rightarrow> ('d FramedUsbHidTransport, TransportError, bytes) outcome option" where
  "framed_hid_recv ops t =
     (if \<not> fh_initialized t then Some (t, Inl Tr_NotInitialized) else recv_until (framed_hid_step ops) t)"

definition framed_hid_close :: "'d FramedUsbHidTransport \<Rightarrow> ('d FramedUsbHidTransport, TransportError, unit) outcome" where
  "framed_hid_close t = (t\<lparr>fh_assembler := assembler_reset (fh_assembler t), fh_initialized := False\<rparr>, Inr ())"

definition framed_hid :: "'d UsbHidDevice \<Rightarrow> 'd FramedUsbHidTransport TransportOps" where
  "framed_hid ops =
     \<lparr>tr_init = framed_hid_init ops, tr_send = framed_hid_send ops, tr_recv = framed_hid_recv ops, tr_close = framed_hid_close\<rparr>"

subsection \<open>BLE\<close>

definition BLE_DEFAULT_MTU :: usize where "BLE_DEFAULT_MTU = 23"
definition BLE_MAX_NOTIFICATION_LEN :: usize where "BLE_MAX_NOTIFICATION_LEN = BLE_DEFAULT_MTU - 3"
definition BLE_HEADER_LEN :: usize where "BLE_HEADER_LEN = 3"
definition BLE_CMD_MSG :: u8 where "BLE_CMD_MSG = 0x83"
definition BLE_MAX_MESSAGE_LEN :: usize where "BLE_MAX_MESSAGE_LEN = 1024"

lemmas ble_consts =
  BLE_DEFAULT_MTU_def BLE_MAX_NOTIFICATION_LEN_def BLE_HEADER_LEN_def BLE_MAX_MESSAGE_LEN_def

text \<open>The loop \<open>while offset < total\<close>.\<close>

function ble_chunks :: "usize \<Rightarrow> bytes \<Rightarrow> bytes list" where
  "ble_chunks chunk rest =
     (if rest = [] \<or> chunk = 0 then [] else take chunk rest # ble_chunks chunk (drop chunk rest))"
  by pat_completeness auto
termination
  by (relation "measure (\<lambda>(chunk, rest). length rest)") auto

declare ble_chunks.simps [simp del]

definition ble_fragment :: "u8 \<Rightarrow> bytes \<Rightarrow> usize \<Rightarrow> bytes list" where
  "ble_fragment cmd payload max_chunk =
     (let chunk = max max_chunk (BLE_HEADER_LEN + 1);
          n = length payload;
          first_len = min n (chunk - BLE_HEADER_LEN)
      in if n = 0 then [[cmd, 0, 0]]
         else (cmd # word_of_nat (n div 256) # word_of_nat (n mod 256) # take first_len payload)
              # ble_chunks chunk (drop first_len payload))"

record 'd BleGattDevice =
  ble_init :: "'d \<Rightarrow> 'd \<times> (EmbeddedTransportError, unit) result"
  ble_is_connected :: "'d \<Rightarrow> bool"
  ble_send_notification :: "'d \<Rightarrow> bytes \<Rightarrow> 'd \<times> (EmbeddedTransportError, unit) result"
  ble_recv_command :: "'d \<Rightarrow> 'd \<times> (EmbeddedTransportError, bytes) result"
  ble_disconnect :: "'d \<Rightarrow> 'd \<times> (EmbeddedTransportError, unit) result"

record BleAssembler =
  ble_rx_buf :: bytes
  ble_rx_expected :: "usize option"

record 'd FramedBleGattTransport =
  fb_device :: 'd
  fb_assembler :: BleAssembler
  fb_initialized :: bool

definition reset_assembler :: "BleAssembler \<Rightarrow> BleAssembler" where
  "reset_assembler a = a\<lparr>ble_rx_buf := [], ble_rx_expected := None\<rparr>"

definition framed_ble_new :: "'d \<Rightarrow> 'd FramedBleGattTransport" where
  "framed_ble_new d = \<lparr>fb_device = d, fb_assembler = \<lparr>ble_rx_buf = [], ble_rx_expected = None\<rparr>, fb_initialized = False\<rparr>"

definition ble_total :: "bytes \<Rightarrow> usize" where
  "ble_total frag = 256 * unat (frag ! 1) + unat (frag ! 2)"

definition push_fragment :: "BleAssembler \<Rightarrow> bytes \<Rightarrow> BleAssembler \<times> (TransportError, bytes option) result" where
  "push_fragment a frag =
     andthen
       (case ble_rx_expected a of
          None \<Rightarrow>
            check (length frag < BLE_HEADER_LEN) (RecvError ''ble fragment too short for header'') a
            (check (ble_total frag > BLE_MAX_MESSAGE_LEN) (RecvError ''ble message exceeds max length'') a
            (a\<lparr>ble_rx_buf := drop BLE_HEADER_LEN frag, ble_rx_expected := Some (ble_total frag)\<rparr>, Inr (ble_total frag)))
        | Some expected \<Rightarrow> (a\<lparr>ble_rx_buf := ble_rx_buf a @ frag\<rparr>, Inr expected))
       (\<lambda>expected a.
         if length (ble_rx_buf a) > expected then (reset_assembler a, Inl (RecvError ''ble framing overflow''))
         else if length (ble_rx_buf a) = expected
         then (a\<lparr>ble_rx_buf := [], ble_rx_expected := None\<rparr>, Inr (Some (ble_rx_buf a)))
         else (a, Inr None))"

definition framed_ble_init :: "'d BleGattDevice \<Rightarrow> 'd FramedBleGattTransport \<Rightarrow> ('d FramedBleGattTransport, TransportError, unit) outcome" where
  "framed_ble_init ops t =
     (case ble_init ops (fb_device t) of
        (d, Inl e) \<Rightarrow> (t\<lparr>fb_device := d\<rparr>, Inl (transport_error e))
      | (d, Inr _) \<Rightarrow> (t\<lparr>fb_device := d, fb_assembler := reset_assembler (fb_assembler t), fb_initialized := True\<rparr>, Inr ()))"

definition framed_ble_send ::
  "'d BleGattDevice \<Rightarrow> 'd FramedBleGattTransport \<Rightarrow> bytes \<Rightarrow> ('d FramedBleGattTransport, TransportError, unit) outcome" where
  "framed_ble_send ops t data =
     check (\<not> fb_initialized t) Tr_NotInitialized t
     (check (\<not> ble_is_connected ops (fb_device t)) Tr_Closed t
     (case for_each (ble_send_notification ops) (fb_device t) (ble_fragment BLE_CMD_MSG data BLE_MAX_NOTIFICATION_LEN) of
        (d, r) \<Rightarrow> (t\<lparr>fb_device := d\<rparr>, map_err transport_error r)))"

definition framed_ble_step ::
  "'d BleGattDevice \<Rightarrow> 'd FramedBleGattTransport \<Rightarrow> ('d FramedBleGattTransport, TransportError, bytes option) outcome" where
  "framed_ble_step ops t =
     check (\<not> ble_is_connected ops (fb_device t)) Tr_Closed t
     (case ble_recv_command ops (fb_device t) of
        (d, Inl e) \<Rightarrow> (t\<lparr>fb_device := d\<rparr>, Inl (transport_error e))
      | (d, Inr raw) \<Rightarrow>
          (let t = t\<lparr>fb_device := d\<rparr> in
           if raw = [] then (t, Inr None)
           else (case push_fragment (fb_assembler t) raw of (a, r) \<Rightarrow> (t\<lparr>fb_assembler := a\<rparr>, r))))"

definition framed_ble_recv ::
  "'d BleGattDevice \<Rightarrow> 'd FramedBleGattTransport \<Rightarrow> ('d FramedBleGattTransport, TransportError, bytes) outcome option" where
  "framed_ble_recv ops t =
     (if \<not> fb_initialized t then Some (t, Inl Tr_NotInitialized)
      else if \<not> ble_is_connected ops (fb_device t) then Some (t, Inl (RecvError ''timeout: ble central not connected''))
      else recv_until (framed_ble_step ops) t)"

definition framed_ble_close :: "'d BleGattDevice \<Rightarrow> 'd FramedBleGattTransport \<Rightarrow> ('d FramedBleGattTransport, TransportError, unit) outcome" where
  "framed_ble_close ops t =
     (t\<lparr>fb_device := fst (ble_disconnect ops (fb_device t)), fb_assembler := reset_assembler (fb_assembler t),
        fb_initialized := False\<rparr>, Inr ())"

definition framed_ble :: "'d BleGattDevice \<Rightarrow> 'd FramedBleGattTransport TransportOps" where
  "framed_ble ops =
     \<lparr>tr_init = framed_ble_init ops, tr_send = framed_ble_send ops, tr_recv = framed_ble_recv ops, tr_close = framed_ble_close ops\<rparr>"

subsection \<open>NFC\<close>

definition NFC_APDU_BUF :: usize where "NFC_APDU_BUF = 2048"

record 'd NfcDevice =
  nfc_init :: "'d \<Rightarrow> 'd \<times> (EmbeddedTransportError, unit) result"
  nfc_is_field_detected :: "'d \<Rightarrow> bool"
  nfc_send_response :: "'d \<Rightarrow> bytes \<Rightarrow> 'd \<times> (EmbeddedTransportError, unit) result"
  nfc_recv_command :: "'d \<Rightarrow> usize \<Rightarrow> 'd \<times> (EmbeddedTransportError, bytes) result"

record 'd FramedNfcTransport =
  fn_device :: 'd
  fn_initialized :: bool

definition framed_nfc_new :: "'d \<Rightarrow> 'd FramedNfcTransport" where
  "framed_nfc_new d = \<lparr>fn_device = d, fn_initialized = False\<rparr>"

definition read_command :: "'d NfcDevice \<Rightarrow> 'd FramedNfcTransport \<Rightarrow> ('d FramedNfcTransport, TransportError, bytes) outcome" where
  "read_command ops t =
     check (\<not> nfc_is_field_detected ops (fn_device t)) (transport_error Timeout) t
     (case nfc_recv_command ops (fn_device t) NFC_APDU_BUF of (d, r) \<Rightarrow> (t\<lparr>fn_device := d\<rparr>, map_err transport_error r))"

text \<open>The router is borrowed: its state passes through beside the transport's.\<close>

definition process_and_respond ::
  "'d NfcDevice \<Rightarrow> 'a AppletOps \<Rightarrow> bytes \<Rightarrow> 'd FramedNfcTransport \<times> 'a CardRouter
     \<Rightarrow> ('d FramedNfcTransport \<times> 'a CardRouter, TransportError, bytes) outcome" where
  "process_and_respond ops applet_ops raw tr =
     (case tr of (t, router) \<Rightarrow>
        (case router_process applet_ops router raw of (router, resp) \<Rightarrow>
           (case nfc_send_response ops (fn_device t) (resp_to_bytes resp) of
              (d, r) \<Rightarrow> ((t\<lparr>fn_device := d\<rparr>, router), bind_result (map_err transport_error r) (\<lambda>_. Inr (resp_data resp))))))"

definition routed_turn ::
  "'d NfcDevice \<Rightarrow> 'a AppletOps \<Rightarrow> 'd FramedNfcTransport \<times> 'a CardRouter
     \<Rightarrow> ('d FramedNfcTransport \<times> 'a CardRouter, TransportError, bytes) outcome" where
  "routed_turn ops applet_ops tr =
     (case read_command ops (fst tr) of
        (t, Inl e) \<Rightarrow> ((t, snd tr), Inl e)
      | (t, Inr raw) \<Rightarrow> process_and_respond ops applet_ops raw (t, snd tr))"

text \<open>The loop \<open>while router.is_chain_pending()\<close>, with the data collected so far.\<close>

partial_function (option) drain_chain ::
  "'d NfcDevice \<Rightarrow> 'a AppletOps \<Rightarrow> 'd FramedNfcTransport \<times> 'a CardRouter \<Rightarrow> bytes
     \<Rightarrow> ('d FramedNfcTransport \<times> 'a CardRouter, TransportError, bytes) outcome option" where
  "drain_chain ops applet_ops tr out =
     (if \<not> is_chain_pending (snd tr) then Some (tr, Inr out)
      else (case routed_turn ops applet_ops tr of
              (tr, Inl e) \<Rightarrow> Some (tr, Inl e)
            | (tr, Inr chunk) \<Rightarrow> drain_chain ops applet_ops tr (out @ chunk)))"

declare drain_chain.simps [code]

definition recv_routed ::
  "'d NfcDevice \<Rightarrow> 'a AppletOps \<Rightarrow> 'd FramedNfcTransport \<times> 'a CardRouter
     \<Rightarrow> ('d FramedNfcTransport \<times> 'a CardRouter, TransportError, bytes) outcome option" where
  "recv_routed ops applet_ops tr =
     (if \<not> fn_initialized (fst tr) then Some (tr, Inl Tr_NotInitialized)
      else (case routed_turn ops applet_ops tr of
              (tr, Inl e) \<Rightarrow> Some (tr, Inl e)
            | (tr, Inr out) \<Rightarrow> drain_chain ops applet_ops tr out))"

definition framed_nfc_init :: "'d NfcDevice \<Rightarrow> 'd FramedNfcTransport \<Rightarrow> ('d FramedNfcTransport, TransportError, unit) outcome" where
  "framed_nfc_init ops t =
     (case nfc_init ops (fn_device t) of
        (d, Inl e) \<Rightarrow> (t\<lparr>fn_device := d\<rparr>, Inl (transport_error e))
      | (d, Inr _) \<Rightarrow> (t\<lparr>fn_device := d, fn_initialized := True\<rparr>, Inr ()))"

definition framed_nfc_send :: "'d NfcDevice \<Rightarrow> 'd FramedNfcTransport \<Rightarrow> bytes \<Rightarrow> ('d FramedNfcTransport, TransportError, unit) outcome" where
  "framed_nfc_send ops t data =
     check (\<not> fn_initialized t) Tr_NotInitialized t
     (check (\<not> nfc_is_field_detected ops (fn_device t)) (SendError ''timeout'') t
     (case nfc_send_response ops (fn_device t) (resp_to_bytes (resp_ok data)) of
        (d, r) \<Rightarrow> (t\<lparr>fn_device := d\<rparr>, map_err transport_error r)))"

definition framed_nfc_recv :: "'d NfcDevice \<Rightarrow> 'd FramedNfcTransport \<Rightarrow> ('d FramedNfcTransport, TransportError, bytes) outcome option" where
  "framed_nfc_recv ops t = Some (check (\<not> fn_initialized t) Tr_NotInitialized t (read_command ops t))"

definition framed_nfc_close :: "'d FramedNfcTransport \<Rightarrow> ('d FramedNfcTransport, TransportError, unit) outcome" where
  "framed_nfc_close t = (t\<lparr>fn_initialized := False\<rparr>, Inr ())"

definition framed_nfc :: "'d NfcDevice \<Rightarrow> 'd FramedNfcTransport TransportOps" where
  "framed_nfc ops =
     \<lparr>tr_init = framed_nfc_init ops, tr_send = framed_nfc_send ops, tr_recv = framed_nfc_recv ops, tr_close = framed_nfc_close\<rparr>"

subsection \<open>CCID\<close>

record ApduCommand =
  ac_cla :: u8
  ac_ins :: u8
  ac_p1 :: u8
  ac_p2 :: u8
  ac_data :: bytes
  ac_le :: "usize option"

definition le_or_256 :: "u8 \<Rightarrow> usize" where
  "le_or_256 b = (if b = 0 then 256 else unat b)"

definition apdu_command_parse :: "bytes \<Rightarrow> (EmbeddedTransportError, ApduCommand) result" where
  "apdu_command_parse raw =
     (if length raw < 4 then Inl FramingError
      else
        let len = length raw; cla = raw ! 0; ins = raw ! 1; p1 = raw ! 2; p2 = raw ! 3;
            command = (\<lambda>data le. Inr \<lparr>ac_cla = cla, ac_ins = ins, ac_p1 = p1, ac_p2 = p2, ac_data = data, ac_le = le\<rparr>)
        in if len = 4 then command [] None
           else if len = 5 then command [] (Some (le_or_256 (raw ! 4)))
           else
             let lc = unat (raw ! 4) in
             if lc > 0 \<and> 5 + lc \<le> len
             then command (slice_of 5 (5 + lc) raw) (if len > 5 + lc then Some (le_or_256 (raw ! (5 + lc))) else None)
             else command (drop 4 raw) None)"

record ApduResponse =
  ar_data :: bytes
  ar_sw1 :: u8
  ar_sw2 :: u8

definition apdu_success :: "bytes \<Rightarrow> ApduResponse" where
  "apdu_success data = \<lparr>ar_data = data, ar_sw1 = 0x90, ar_sw2 = 0x00\<rparr>"

definition apdu_error :: "u8 \<Rightarrow> u8 \<Rightarrow> ApduResponse" where
  "apdu_error sw1 sw2 = \<lparr>ar_data = [], ar_sw1 = sw1, ar_sw2 = sw2\<rparr>"

definition apdu_response_to_bytes :: "ApduResponse \<Rightarrow> bytes" where
  "apdu_response_to_bytes r = ar_data r @ [ar_sw1 r, ar_sw2 r]"

record 'd UsbCcidDevice =
  cc_init :: "'d \<Rightarrow> 'd \<times> (EmbeddedTransportError, unit) result"
  cc_send_block :: "'d \<Rightarrow> bytes \<Rightarrow> 'd \<times> (EmbeddedTransportError, unit) result"
  cc_recv_block :: "'d \<Rightarrow> usize \<Rightarrow> 'd \<times> (EmbeddedTransportError, bytes) result"
  cc_max_transfer_size :: "'d \<Rightarrow> usize"

record 'd FramedCcidTransport =
  fc_device :: 'd
  fc_initialized :: bool

definition framed_ccid_new :: "'d \<Rightarrow> 'd FramedCcidTransport" where
  "framed_ccid_new d = \<lparr>fc_device = d, fc_initialized = False\<rparr>"

definition framed_ccid_init :: "'d UsbCcidDevice \<Rightarrow> 'd FramedCcidTransport \<Rightarrow> ('d FramedCcidTransport, TransportError, unit) outcome" where
  "framed_ccid_init ops t =
     (case cc_init ops (fc_device t) of
        (d, Inl e) \<Rightarrow> (t\<lparr>fc_device := d\<rparr>, Inl (transport_error e))
      | (d, Inr _) \<Rightarrow> (t\<lparr>fc_device := d, fc_initialized := True\<rparr>, Inr ()))"

definition framed_ccid_send :: "'d UsbCcidDevice \<Rightarrow> 'd FramedCcidTransport \<Rightarrow> bytes \<Rightarrow> ('d FramedCcidTransport, TransportError, unit) outcome" where
  "framed_ccid_send ops t data =
     check (\<not> fc_initialized t) Tr_NotInitialized t
     (case cc_send_block ops (fc_device t) (apdu_response_to_bytes (apdu_success data)) of
        (d, r) \<Rightarrow> (t\<lparr>fc_device := d\<rparr>, map_err transport_error r))"

definition framed_ccid_recv :: "'d UsbCcidDevice \<Rightarrow> 'd FramedCcidTransport \<Rightarrow> ('d FramedCcidTransport, TransportError, bytes) outcome option" where
  "framed_ccid_recv ops t =
     Some (check (\<not> fc_initialized t) Tr_NotInitialized t
       (case cc_recv_block ops (fc_device t) (cc_max_transfer_size ops (fc_device t)) of
          (d, r) \<Rightarrow> (t\<lparr>fc_device := d\<rparr>,
            bind_result (map_err transport_error r) (\<lambda>raw. bind_result (map_err transport_error (apdu_command_parse raw)) (\<lambda>apdu. Inr (ac_data apdu))))))"

definition framed_ccid_close :: "'d FramedCcidTransport \<Rightarrow> ('d FramedCcidTransport, TransportError, unit) outcome" where
  "framed_ccid_close t = (t\<lparr>fc_initialized := False\<rparr>, Inr ())"

definition framed_ccid :: "'d UsbCcidDevice \<Rightarrow> 'd FramedCcidTransport TransportOps" where
  "framed_ccid ops =
     \<lparr>tr_init = framed_ccid_init ops, tr_send = framed_ccid_send ops, tr_recv = framed_ccid_recv ops, tr_close = framed_ccid_close\<rparr>"

subsection \<open>MultiTransport\<close>

text \<open>\<open>Box<dyn Transport>\<close> is a state \<open>'t\<close> with the operations \<open>ops\<close>; \<open>multi_first\<close> is the loop of \<open>send\<close> and \<open>recv\<close> with its last error.\<close>

type_synonym 't MultiTransport = "'t list"

definition multi_new :: "'t list \<Rightarrow> 't MultiTransport" where
  "multi_new ts = ts"

definition multi_push :: "'t MultiTransport \<Rightarrow> 't \<Rightarrow> 't MultiTransport" where
  "multi_push ts t = ts @ [t]"

fun multi_broadcast ::
  "('t \<Rightarrow> ('t, TransportError, unit) outcome) \<Rightarrow> 't MultiTransport \<Rightarrow> ('t MultiTransport, TransportError, unit) outcome" where
  "multi_broadcast f [] = ([], Inr ())"
| "multi_broadcast f (t # ts) =
     (case f t of
        (t, Inl e) \<Rightarrow> (t # ts, Inl e)
      | (t, Inr _) \<Rightarrow> (case multi_broadcast f ts of (ts, r) \<Rightarrow> (t # ts, r)))"

definition multi_init :: "'t TransportOps \<Rightarrow> 't MultiTransport \<Rightarrow> ('t MultiTransport, TransportError, unit) outcome" where
  "multi_init ops ts = check (ts = []) Tr_NotInitialized ts (multi_broadcast (tr_init ops) ts)"

fun multi_first ::
  "('t \<Rightarrow> ('t, TransportError, 'a) outcome option) \<Rightarrow> TransportError \<Rightarrow> 't MultiTransport \<Rightarrow> ('t MultiTransport, TransportError, 'a) outcome option" where
  "multi_first f last_err [] = Some ([], Inl last_err)"
| "multi_first f last_err (t # ts) =
     (case f t of
        None \<Rightarrow> None
      | Some (t, Inr x) \<Rightarrow> Some (t # ts, Inr x)
      | Some (t, Inl e) \<Rightarrow> map_option (\<lambda>(ts, r). (t # ts, r)) (multi_first f e ts))"

definition multi_send :: "'t TransportOps \<Rightarrow> 't MultiTransport \<Rightarrow> bytes \<Rightarrow> ('t MultiTransport, TransportError, unit) outcome option" where
  "multi_send ops ts data = multi_first (\<lambda>t. Some (tr_send ops t data)) Tr_NotInitialized ts"

definition multi_recv :: "'t TransportOps \<Rightarrow> 't MultiTransport \<Rightarrow> ('t MultiTransport, TransportError, bytes) outcome option" where
  "multi_recv ops ts = multi_first (tr_recv ops) Tr_NotInitialized ts"

definition multi_close :: "'t TransportOps \<Rightarrow> 't MultiTransport \<Rightarrow> ('t MultiTransport, TransportError, unit) outcome" where
  "multi_close ops ts = check (ts = []) Tr_NotInitialized ts (multi_broadcast (tr_close ops) ts)"

end
