(* ===== verification/Transport_Contract.thy ===== *)
theory Transport_Contract
  imports Transport
begin

section \<open>What the transports promise\<close>

text \<open>
  The contract of the trait \<open>Transport\<close> as a locale, satisfied by the four adapters and the stubs, with its
  consequence for \<open>MultiTransport\<close>; the round trip of messages over CTAPHID and BLE, as an instance of the framing
  contract for BLE; and the routed NFC exchange, which collects a chained response of the card router.
\<close>

subsection \<open>The life cycle\<close>

locale gated_transport =
  fixes ops :: "'t TransportOps" and opened :: "'t \<Rightarrow> bool"
  assumes send_gate: "\<not> opened t \<Longrightarrow> tr_send ops t data = (t, Inl Tr_NotInitialized)"
    and recv_gate: "\<not> opened t \<Longrightarrow> tr_recv ops t = Some (t, Inl Tr_NotInitialized)"
    and init_opens: "tr_init ops t = (t', Inr ()) \<Longrightarrow> opened t'"
    and close_closes: "\<exists>t'. tr_close ops t = (t', Inr ()) \<and> \<not> opened t'"
begin

lemma closed_first:
  assumes "\<And>t. t \<in> set ts \<Longrightarrow> f t = Some (t, Inl Tr_NotInitialized)"
  shows "multi_first f Tr_NotInitialized ts = Some (ts, Inl Tr_NotInitialized)"
  using assms by (induction ts) auto

lemma broadcast_close: "\<exists>ts'. multi_broadcast (tr_close ops) ts = (ts', Inr ()) \<and> list_all (\<lambda>t. \<not> opened t) ts' \<and> length ts' = length ts"
proof (induction ts)
  case (Cons t ts)
  then obtain ts' where ts': "multi_broadcast (tr_close ops) ts = (ts', Inr ())" "list_all (\<lambda>t. \<not> opened t) ts'" "length ts' = length ts"
    by blast
  obtain t' where "tr_close ops t = (t', Inr ())" "\<not> opened t'" using close_closes by blast
  then show ?case using ts' by simp
qed simp

text \<open>A closed aggregate neither sends nor receives, and touches none of its transports.\<close>

lemma multi_closed:
  assumes "multi_close ops ts = (ts', Inr ())"
  shows "multi_send ops ts' data = Some (ts', Inl Tr_NotInitialized) \<and> multi_recv ops ts' = Some (ts', Inl Tr_NotInitialized)"
proof -
  have "list_all (\<lambda>t. \<not> opened t) ts'"
    using assms broadcast_close [of ts] by (auto simp: multi_close_def check_def split: if_splits)
  then show ?thesis
    unfolding multi_send_def multi_recv_def
    by (intro conjI closed_first) (auto simp: list_all_iff send_gate recv_gate)
qed

end

interpretation framed_hid: gated_transport "framed_hid dev" fh_initialized for dev
  by unfold_locales
    (auto simp: framed_hid_def framed_hid_send_def framed_hid_recv_def framed_hid_init_def framed_hid_close_def split: prod.splits sum.splits)

interpretation framed_ble: gated_transport "framed_ble dev" fb_initialized for dev
  by unfold_locales
    (auto simp: framed_ble_def framed_ble_send_def framed_ble_recv_def framed_ble_init_def framed_ble_close_def split: prod.splits sum.splits)

interpretation framed_nfc: gated_transport "framed_nfc dev" fn_initialized for dev
  by unfold_locales
    (auto simp: framed_nfc_def framed_nfc_send_def framed_nfc_recv_def framed_nfc_init_def framed_nfc_close_def split: prod.splits sum.splits)

interpretation framed_ccid: gated_transport "framed_ccid dev" fc_initialized for dev
  by unfold_locales
    (auto simp: framed_ccid_def framed_ccid_send_def framed_ccid_recv_def framed_ccid_init_def framed_ccid_close_def split: prod.splits sum.splits)

interpretation stub: gated_transport "stub_transport name requires" "\<lambda>t. t" for name requires
  by unfold_locales (auto simp: stub_transport_def)

text \<open>\<open>MultiTransport\<close> answers with the first transport that succeeds and leaves those after it alone.\<close>

lemma multi_first_success:
  assumes "\<And>t. t \<in> set ts \<Longrightarrow> \<exists>e t'. f t = Some (t', Inl e)" "f u = Some (u', Inr x)"
  shows "\<exists>ts'. multi_first f e (ts @ u # us) = Some (ts' @ u' # us, Inr x) \<and> length ts' = length ts"
  using assms(1)
proof (induction ts arbitrary: e)
  case (Cons t ts)
  obtain e' t' where t: "f t = Some (t', Inl e')" using Cons.prems [of t] by auto
  obtain ts' where "multi_first f e' (ts @ u # us) = Some (ts' @ u' # us, Inr x)" "length ts' = length ts"
    using Cons.IH [of e'] Cons.prems by auto
  then show ?case using t by (intro exI [of _ "t' # ts'"]) simp
qed (use assms(2) in simp)

subsection \<open>Receive loops\<close>

text \<open>A loop whose body asks for more as often as there are frames, and then delivers.\<close>

fun turns :: "('t \<Rightarrow> ('t, TransportError, bytes option) outcome) \<Rightarrow> 't \<Rightarrow> nat \<Rightarrow> 't option" where
  "turns step t 0 = Some t"
| "turns step t (Suc n) = (case step t of (t', Inr None) \<Rightarrow> turns step t' n | _ \<Rightarrow> None)"

lemma recv_until_turns:
  assumes "turns step t n = Some t'" "step t' = (u, Inr (Some msg))"
  shows "recv_until step t = Some (u, Inr msg)"
  using assms
proof (induction n arbitrary: t)
  case (Suc n)
  then obtain t1 where "step t = (t1, Inr None)" "turns step t1 n = Some t'"
    by (auto split: prod.splits sum.splits option.splits)
  then show ?case using Suc.IH [of t1] Suc.prems(2) by (subst recv_until.simps) simp
qed (simp add: recv_until.simps)

text \<open>\<open>offers rd d ps\<close>: reading the device gives the frames \<open>ps\<close>, one after the other, and leaves it in the state returned.\<close>

fun offers :: "('d \<Rightarrow> 'd \<times> (EmbeddedTransportError, bytes) result) \<Rightarrow> 'd \<Rightarrow> bytes list \<Rightarrow> 'd option" where
  "offers rd d [] = Some d"
| "offers rd d (p # ps) = (case rd d of (d', Inr q) \<Rightarrow> if q = p then offers rd d' ps else None | _ \<Rightarrow> None)"

lemma offers_Cons: "offers rd d (p # ps) = Some d2 \<longleftrightarrow> (\<exists>d1. rd d = (d1, Inr p) \<and> offers rd d1 ps = Some d2)"
  by (auto split: prod.splits sum.splits)

text \<open>A receiver that delivers at the last of the frames waits at all others.\<close>

lemma feed_last:
  assumes "feed_all feed s fs = (s2, replicate (length fs - 1) (Inr None) @ [Inr (Some m)])"
  obtains gs g s1 where "fs = gs @ [g]" "feed_all feed s gs = (s1, replicate (length gs) (Inr None))" "feed s1 g = (s2, Inr (Some m))"
proof -
  have "length fs = length (snd (feed_all feed s fs))" by (simp add: length_feed_all)
  then have "fs \<noteq> []" using assms by auto
  then obtain gs g where fs: "fs = gs @ [g]" by (metis rev_exhaust)
  obtain s1 rs where gs: "feed_all feed s gs = (s1, rs)" by force
  obtain s3 r where g: "feed s1 g = (s3, r)" by force
  have "length rs = length gs" using length_feed_all [of feed s gs] gs by simp
  then show ?thesis using that [OF fs] assms gs g by (simp add: fs feed_all_append)
qed

subsection \<open>CTAPHID\<close>

lemma hid_turns:
  assumes "offers (hid_recv_packet dev) (fh_device t) ps = Some d" "list_all (\<lambda>p. length p = CTAPHID_PACKET_SIZE) ps"
    and "feed_all process_packet (fh_assembler t) ps = (a, replicate (length ps) (Inr None))"
  shows "turns (framed_hid_step dev) t (length ps) = Some (t\<lparr>fh_device := d, fh_assembler := a\<rparr>)"
  using assms
proof (induction ps arbitrary: t)
  case (Cons p ps)
  obtain d1 where d1: "hid_recv_packet dev (fh_device t) = (d1, Inr p)" "offers (hid_recv_packet dev) d1 ps = Some d"
    using Cons.prems(1) by (auto simp only: offers_Cons)
  obtain a1 where a1: "process_packet (fh_assembler t) p = (a1, Inr None)" "feed_all process_packet a1 ps = (a, replicate (length ps) (Inr None))"
    using Cons.prems(3) by (auto simp: Let_def split: prod.splits)
  have "framed_hid_step dev t = (t\<lparr>fh_device := d1, fh_assembler := a1\<rparr>, Inr None)"
    using d1(1) a1(1) Cons.prems(2) by (simp add: framed_hid_step_def)
  then show ?case using Cons.IH [of "t\<lparr>fh_device := d1, fh_assembler := a1\<rparr>"] d1(2) a1(2) Cons.prems(2) by simp
qed simp

lemma hid_recv_message:
  assumes "fh_initialized t" "offers (hid_recv_packet dev) (fh_device t) ps = Some d"
    and "list_all (\<lambda>p. length p = CTAPHID_PACKET_SIZE) ps"
    and "feed_all process_packet (fh_assembler t) ps = (a, replicate (length ps - 1) (Inr None) @ [Inr (Some msg)])"
  shows "framed_hid_recv dev t =
    Some (t\<lparr>fh_device := d, fh_assembler := a, fh_active_cid := msg_cid msg\<rparr>, Inr (msg_payload msg))"
proof -
  obtain qs q a1 where q: "ps = qs @ [q]" "feed_all process_packet (fh_assembler t) qs = (a1, replicate (length qs) (Inr None))"
      "process_packet a1 q = (a, Inr (Some msg))"
    using feed_last [OF assms(4)] by metis
  have split: "offers rd d0 (qs @ [q]) = Some d \<Longrightarrow> \<exists>d1. offers rd d0 qs = Some d1 \<and> rd d1 = (d, Inr q)" for rd and d0 :: 'a
    by (induction qs arbitrary: d0) (auto split: prod.splits sum.splits if_splits)
  obtain d1 where d1: "offers (hid_recv_packet dev) (fh_device t) qs = Some d1" "hid_recv_packet dev d1 = (d, Inr q)"
    using split assms(2) q(1) by metis
  let ?t = "t\<lparr>fh_device := d1, fh_assembler := a1\<rparr>"
  have "turns (framed_hid_step dev) t (length qs) = Some ?t"
    using hid_turns [OF d1(1) _ q(2)] assms(3) q(1) by simp
  moreover have "framed_hid_step dev ?t = (?t\<lparr>fh_device := d, fh_assembler := a, fh_active_cid := msg_cid msg\<rparr>, Inr (Some (msg_payload msg)))"
    using d1(2) q(1,3) assms(3) by (simp add: framed_hid_step_def)
  ultimately show ?thesis using recv_until_turns assms(1) by (fastforce simp: framed_hid_recv_def)
qed

text \<open>
  A request and its response over CTAPHID: \<open>recv\<close> delivers the message whose packets the device offers, from any
  state of the assembler, and \<open>send\<close> then answers on the channel of the request with the packets of a CBOR message.
\<close>

lemma hid_exchange:
  assumes "fh_initialized t" "length payload \<le> CTAPHID_MAX_PAYLOAD_LEN" "wf_command cmd" "cmd \<noteq> Cmd_Cancel"
    and "fragment cid cmd payload = Inr ps" "offers (hid_recv_packet dev) (fh_device t) ps = Some d"
    and "fragment cid Cmd_Cbor resp = Inr qs" "for_each (hid_send_packet dev) d qs = (d', Inr ())"
  shows "\<exists>t1 t2. framed_hid_recv dev t = Some (t1, Inr payload) \<and> framed_hid_send dev t1 resp = (t2, Inr ()) \<and> fh_device t2 = d'"
proof -
  obtain ps' where ps': "fragment cid cmd payload = Inr ps'"
    "feed_all process_packet (fh_assembler t) ps' =
      ((fh_assembler t)\<lparr>active_state := None\<rparr>, replicate (length ps' - 1) (Inr None) @ [Inr (Some (message_new cid cmd payload))])"
    using feed_fragment [OF assms(2-4)] by metis
  have "list_all (\<lambda>p. length p = CTAPHID_PACKET_SIZE) ps"
    using assms(2,5) fragment_cont_lengths by (auto simp: list_all_iff fragment_def CTAPHID_PACKET_SIZE_def Let_def split: if_splits)
  then show ?thesis
    using hid_recv_message [OF assms(1,6)] ps' assms(1,5,7,8)
    by (simp add: framed_hid_send_def message_new_def)
qed

subsection \<open>BLE\<close>

lemma ble_feed_chunks:
  assumes "0 < chunk" "rest \<noteq> []" "ble_rx_expected a = Some (length (ble_rx_buf a) + length rest)"
  shows "feed_all push_fragment a (ble_chunks chunk rest) =
    (a\<lparr>ble_rx_buf := [], ble_rx_expected := None\<rparr>,
     replicate (length (ble_chunks chunk rest) - 1) (Inr None) @ [Inr (Some (ble_rx_buf a @ rest))])"
  using assms
proof (induction chunk rest arbitrary: a rule: ble_chunks.induct)
  case (1 chunk rest)
  let ?a = "a\<lparr>ble_rx_buf := ble_rx_buf a @ take chunk rest\<rparr>"
  have chunks: "ble_chunks chunk rest = take chunk rest # ble_chunks chunk (drop chunk rest)"
    using 1(2,3) by (subst ble_chunks.simps) simp
  show ?case
  proof (cases "length rest \<le> chunk")
    case True
    then have "ble_chunks chunk rest = [rest]" using chunks by (simp add: ble_chunks.simps)
    then show ?thesis using 1(4) by (simp add: push_fragment_def)
  next
    case False
    then have step: "push_fragment a (take chunk rest) = (?a, Inr None)" using 1(2,4) by (simp add: push_fragment_def min_def)
    have ne: "drop chunk rest \<noteq> []" using False by simp
    then have "ble_chunks chunk (drop chunk rest) \<noteq> []" using 1(2) by (subst ble_chunks.simps) simp
    then obtain n where n: "length (ble_chunks chunk (drop chunk rest)) = Suc n" by (cases "ble_chunks chunk (drop chunk rest)") auto
    have "feed_all push_fragment ?a (ble_chunks chunk (drop chunk rest)) =
      (?a\<lparr>ble_rx_buf := [], ble_rx_expected := None\<rparr>, replicate n (Inr None) @ [Inr (Some (ble_rx_buf a @ rest))])"
      using 1(1) [of ?a] 1(2-4) False ne n by (simp add: min_def)
    then show ?thesis using step n by (simp add: chunks)
  qed
qed

lemma ble_header: "n \<le> BLE_MAX_MESSAGE_LEN \<Longrightarrow> ble_total (c # word_of_nat (n div 256) # word_of_nat (n mod 256) # xs) = n"
  by (simp add: ble_total_def unat_of_nat ble_consts)

definition ble_frames :: "bytes \<Rightarrow> bytes list" where
  "ble_frames payload = ble_fragment BLE_CMD_MSG payload BLE_MAX_NOTIFICATION_LEN"

lemma ble_feed_frames:
  assumes "length payload \<le> BLE_MAX_MESSAGE_LEN" "ble_rx_expected a = None"
  shows "feed_all push_fragment a (ble_frames payload) =
    (a\<lparr>ble_rx_buf := [], ble_rx_expected := None\<rparr>, replicate (length (ble_frames payload) - 1) (Inr None) @ [Inr (Some payload)])"
proof -
  let ?n = "length payload"
  let ?frag = "BLE_CMD_MSG # word_of_nat (?n div 256) # word_of_nat (?n mod 256) # take (min ?n 17) payload"
  have frames: "ble_frames payload = ?frag # ble_chunks 20 (drop 17 payload)"
    by (cases "payload = []") (auto simp: ble_frames_def ble_fragment_def ble_consts ble_chunks.simps [of _ "[]"] Let_def min_def)
  have first: "push_fragment a ?frag =
      (if ?n \<le> 17 then (a\<lparr>ble_rx_buf := [], ble_rx_expected := None\<rparr>, Inr (Some payload))
       else (a\<lparr>ble_rx_buf := take 17 payload, ble_rx_expected := Some ?n\<rparr>, Inr None))"
    using assms ble_header [of ?n] by (auto simp: push_fragment_def ble_consts min_def)
  show ?thesis
  proof (cases "?n \<le> 17")
    case True
    then show ?thesis using first by (simp add: frames ble_chunks.simps)
  next
    case False
    let ?a = "a\<lparr>ble_rx_buf := take 17 payload, ble_rx_expected := Some ?n\<rparr>"
    have ne: "drop 17 payload \<noteq> []" using False by simp
    then have "ble_chunks 20 (drop 17 payload) \<noteq> []" by (subst ble_chunks.simps) simp
    then obtain k where k: "length (ble_chunks 20 (drop 17 payload)) = Suc k" by (cases "ble_chunks 20 (drop 17 payload)") auto
    have "feed_all push_fragment ?a (ble_chunks 20 (drop 17 payload)) =
      (?a\<lparr>ble_rx_buf := [], ble_rx_expected := None\<rparr>, replicate k (Inr None) @ [Inr (Some payload)])"
      using ble_feed_chunks [OF _ ne, of 20 ?a] False k by simp
    then show ?thesis using first False k by (simp add: frames)
  qed
qed

interpretation ble: framing_codec ble_frames push_fragment "\<lambda>m. length m \<le> BLE_MAX_MESSAGE_LEN"
  "\<lambda>a. ble_rx_expected a = None" "\<lambda>a. ble_rx_expected a = None"
proof
  fix m :: bytes and s :: BleAssembler
  assume "length m \<le> BLE_MAX_MESSAGE_LEN" "ble_rx_expected s = None"
  from ble_feed_frames [OF this]
  show "\<exists>s'. ble_rx_expected s' = None \<and> feed_all push_fragment s (ble_frames m) =
      (s', replicate (length (ble_frames m) - 1) (Inr None) @ [Inr (Some m)])" by auto
qed

text \<open>The receive loop over the adapter delivers a message whose notifications the device offers.\<close>

lemma ble_turns:
  assumes "offers (\<lambda>d. if ble_is_connected dev d then ble_recv_command dev d else (d, Inl Closed)) (fb_device t) ps = Some d"
    and "[] \<notin> set ps" "feed_all push_fragment (fb_assembler t) ps = (a, replicate (length ps) (Inr None))"
  shows "turns (framed_ble_step dev) t (length ps) = Some (t\<lparr>fb_device := d, fb_assembler := a\<rparr>)"
  using assms
proof (induction ps arbitrary: t)
  case (Cons p ps)
  obtain d1 where d1: "ble_is_connected dev (fb_device t)" "ble_recv_command dev (fb_device t) = (d1, Inr p)"
      "offers (\<lambda>d. if ble_is_connected dev d then ble_recv_command dev d else (d, Inl Closed)) d1 ps = Some d"
    using Cons.prems(1) by (auto simp only: offers_Cons split: if_splits)
  obtain a1 where a1: "push_fragment (fb_assembler t) p = (a1, Inr None)" "feed_all push_fragment a1 ps = (a, replicate (length ps) (Inr None))"
    using Cons.prems(3) by (auto simp: Let_def split: prod.splits)
  have "framed_ble_step dev t = (t\<lparr>fb_device := d1, fb_assembler := a1\<rparr>, Inr None)"
    using d1(1,2) a1(1) Cons.prems(2) by (auto simp: framed_ble_step_def Let_def)
  then show ?case using Cons.IH [of "t\<lparr>fb_device := d1, fb_assembler := a1\<rparr>"] d1(3) a1(2) Cons.prems(2) by simp
qed simp

subsection \<open>NFC and the card router\<close>

text \<open>
  A reader in the field that takes every response and, when asked for a command, sends GET RESPONSE; \<open>P\<close> are the
  states of the device while it does.
\<close>

definition reader_follows :: "'d NfcDevice \<Rightarrow> ('d \<Rightarrow> bool) \<Rightarrow> bool" where
  "reader_follows dev P \<longleftrightarrow>
     (\<forall>d. P d \<longrightarrow> nfc_is_field_detected dev d \<and>
        (\<exists>d'. nfc_recv_command dev d NFC_APDU_BUF = (d', Inr get_response_apdu) \<and> P d') \<and>
        (\<forall>resp. \<exists>d'. nfc_send_response dev d resp = (d', Inr ()) \<and> P d'))"

lemma process_and_respond_ok:
  assumes "reader_follows dev P" "P (fn_device t)" "router_process ops r raw = (r', resp)"
  obtains d where "process_and_respond dev ops raw (t, r) = ((t\<lparr>fn_device := d\<rparr>, r'), Inr (resp_data resp))" "P d"
proof -
  obtain d where d: "nfc_send_response dev (fn_device t) (resp_to_bytes resp) = (d, Inr ())" "P d"
    using assms(1,2) unfolding reader_follows_def by blast
  show ?thesis using that [of d] d assms(3) by (simp add: process_and_respond_def)
qed

lemma routed_turn_fetch:
  assumes "reader_follows dev P" "P (fn_device t)" "serve_get_response r (Some 256) = (r', resp)"
  obtains d where "routed_turn dev ops (t, r) = ((t\<lparr>fn_device := d\<rparr>, r'), Inr (resp_data resp))" "P d"
proof -
  obtain d1 where d1: "nfc_recv_command dev (fn_device t) NFC_APDU_BUF = (d1, Inr get_response_apdu)" "P d1"
      "nfc_is_field_detected dev (fn_device t)"
    using assms(1,2) unfolding reader_follows_def by blast
  obtain d where "process_and_respond dev ops get_response_apdu (t\<lparr>fn_device := d1\<rparr>, r) = ((t\<lparr>fn_device := d1, fn_device := d\<rparr>, r'), Inr (resp_data resp))" "P d"
    using process_and_respond_ok [OF assms(1), of "t\<lparr>fn_device := d1\<rparr>" ops r get_response_apdu r' resp] d1(2) assms(3)
    by (auto simp: process_get_response)
  then show ?thesis using that [of d] d1 by (simp add: routed_turn_def read_command_def)
qed

lemma drain_collects:
  assumes reader: "reader_follows dev P"
  shows "P (fn_device t) \<Longrightarrow> chain r = Some c \<Longrightarrow> chain_pos c < length (chain_buf c) \<Longrightarrow>
    \<exists>d. drain_chain dev ops (t, r) out = Some ((t\<lparr>fn_device := d\<rparr>, r\<lparr>chain := None\<rparr>), Inr (out @ drop (chain_pos c) (chain_buf c))) \<and> P d"
proof (induction "length (chain_buf c) - chain_pos c" arbitrary: t r c out rule: less_induct)
  case less
  let ?rem = "length (chain_buf c) - chain_pos c"
  have pend: "is_chain_pending r" using less.prems(2) by (simp add: is_chain_pending_def)
  show ?case
  proof (cases "?rem \<le> 256")
    case True
    then have serve: "serve_get_response r (Some 256) = (r\<lparr>chain := None\<rparr>, \<lparr>resp_data = drop (chain_pos c) (chain_buf c), resp_sw = Some (final_sw c)\<rparr>)"
      using less.prems by (simp add: serve_get_response_def Let_def slice_of_def)
    obtain d where d: "routed_turn dev ops (t, r) = ((t\<lparr>fn_device := d\<rparr>, r\<lparr>chain := None\<rparr>), Inr (drop (chain_pos c) (chain_buf c)))" "P d"
      using routed_turn_fetch [OF reader less.prems(1) serve] by auto
    have "drain_chain dev ops (t\<lparr>fn_device := d\<rparr>, r\<lparr>chain := None\<rparr>) x = Some ((t\<lparr>fn_device := d\<rparr>, r\<lparr>chain := None\<rparr>), Inr x)" for x
      by (subst drain_chain.simps) (simp add: is_chain_pending_def)
    then show ?thesis using d pend by (subst drain_chain.simps) auto
  next
    case False
    let ?c = "c\<lparr>chain_pos := chain_pos c + 256\<rparr>"
    let ?r = "r\<lparr>chain := Some ?c\<rparr>"
    let ?chunk = "slice_of (chain_pos c) (chain_pos c + 256) (chain_buf c)"
    have serve: "serve_get_response r (Some 256) = (?r, with_sw ?chunk (sw_more_data (?rem - 256)))"
      using less.prems False by (simp add: serve_get_response_def Let_def min_def)
    obtain d where d: "routed_turn dev ops (t, r) = ((t\<lparr>fn_device := d\<rparr>, ?r), Inr ?chunk)" "P d"
      using routed_turn_fetch [OF reader less.prems(1) serve] by (auto simp: with_sw_def)
    have smaller: "length (chain_buf ?c) - chain_pos ?c < ?rem" "chain_pos ?c < length (chain_buf ?c)"
      using False less.prems(3) by simp_all
    obtain d' where d': "drain_chain dev ops (t\<lparr>fn_device := d\<rparr>, ?r) (out @ ?chunk) =
        Some ((t\<lparr>fn_device := d'\<rparr>, r\<lparr>chain := None\<rparr>), Inr ((out @ ?chunk) @ drop (chain_pos c + 256) (chain_buf c)))" "P d'"
      using less.hyps [OF smaller(1), of "t\<lparr>fn_device := d\<rparr>" ?r "out @ ?chunk"] d(2) smaller(2) by auto
    have "?chunk @ drop (chain_pos c + 256) (chain_buf c) = drop (chain_pos c) (chain_buf c)" by (simp add: slice_append_drop)
    then show ?thesis using d(1) d' pend by (subst drain_chain.simps) auto
  qed
qed

text \<open>
  C36: functional. One routed NFC exchange. With a reader that stays in the field and follows \<open>61 XX\<close>, \<open>recv_routed\<close>
  returns, whatever the length of the applet's response and the Le of the command: it hands every part to the
  reader, its result is the applet's response data exactly, and no chained data is left in the router.
\<close>

theorem nfc_routed_exchange:
  assumes "reader_follows dev P" "fn_initialized t" "nfc_is_field_detected dev (fn_device t)"
    and "nfc_recv_command dev (fn_device t) NFC_APDU_BUF = (d, Inr raw)" "P d"
    and "apdu_parse raw = Inr apdu" "ins apdu \<noteq> INS_GET_RESPONSE" "ins apdu \<noteq> INS_SELECT"
    and "selected r = Some i" "ap_process ops (applets r ! i) apdu = (a, Inr x)"
  shows "\<exists>d'. recv_routed dev ops (t, r) =
      Some ((t\<lparr>fn_device := d'\<rparr>, r\<lparr>chain := None, applets := (applets r)[i := a]\<rparr>), Inr (resp_data x)) \<and> P d'"
proof -
  let ?r = "r\<lparr>chain := None, applets := (applets r)[i := a]\<rparr>"
  obtain r1 resp where r1: "deliver ?r x (le apdu) = (r1, resp)" by force
  then have "router_process ops r raw = (r1, resp)" using assms by (simp add: router_process_def Let_def)
  then obtain d1 where d1: "process_and_respond dev ops raw (t\<lparr>fn_device := d\<rparr>, r) = ((t\<lparr>fn_device := d1\<rparr>, r1), Inr (resp_data resp))" "P d1"
    using process_and_respond_ok [OF assms(1), of "t\<lparr>fn_device := d\<rparr>" ops r raw r1 resp] assms(5) by auto
  then have start: "recv_routed dev ops (t, r) = drain_chain dev ops (t\<lparr>fn_device := d1\<rparr>, r1) (resp_data resp)"
    using assms(2-4) by (simp add: recv_routed_def routed_turn_def read_command_def)
  let ?limit = "case le apdu of Some n \<Rightarrow> n | None \<Rightarrow> 0"
  show ?thesis
  proof (cases "length (resp_data x) \<le> ?limit \<or> resp_data x = []")
    case True
    then have "r1 = ?r" "resp_data resp = resp_data x"
      using r1 by (auto simp: deliver_def Let_def with_sw_def split: if_splits)
    then show ?thesis using start d1(2) by (subst (asm) drain_chain.simps) (auto simp: is_chain_pending_def)
  next
    case False
    let ?c = "\<lparr>chain_buf = resp_data x, chain_pos = ?limit, final_sw = unwrap_sw (resp_sw x)\<rparr>"
    have "r1 = ?r\<lparr>chain := Some ?c\<rparr>" "resp_data resp = take ?limit (resp_data x)"
      using r1 False by (auto simp: deliver_def Let_def with_sw_def)
    then show ?thesis
      using start drain_collects [OF assms(1), of "t\<lparr>fn_device := d1\<rparr>" r1 ?c ops "resp_data resp"] d1(2) False by auto
  qed
qed

text \<open>A reader that sends one command and then follows.\<close>

definition example_reader :: "bytes option NfcDevice" where
  "example_reader =
     \<lparr>nfc_init = (\<lambda>d. (d, Inr ())), nfc_is_field_detected = (\<lambda>d. True), nfc_send_response = (\<lambda>d resp. (d, Inr ())),
      nfc_recv_command = (\<lambda>d n. (None, Inr (case d of Some raw \<Rightarrow> raw | None \<Rightarrow> get_response_apdu)))\<rparr>"

theorem nfc_routed_exchange_witness:
  "\<exists>d'. recv_routed example_reader echo_applet
       (\<lparr>fn_device = Some [0, 1, 0, 0], fn_initialized = True\<rparr>, \<lparr>applets = [replicate 300 7], selected = Some 0, chain = None\<rparr>) =
     Some ((\<lparr>fn_device = d', fn_initialized = True\<rparr>, \<lparr>applets = [replicate 300 7], selected = Some 0, chain = None\<rparr>), Inr (replicate 300 7))"
proof -
  have "reader_follows example_reader (\<lambda>d. d = None)"
    by (simp add: reader_follows_def example_reader_def)
  moreover obtain apdu where "apdu_parse [0, 1, 0, 0] = Inr apdu" "ins apdu = 1"
    by (simp add: apdu_parse_def apdu_with_def)
  ultimately show ?thesis
    using nfc_routed_exchange [of example_reader "\<lambda>d. d = None" "\<lparr>fn_device = Some [0, 1, 0, 0], fn_initialized = True\<rparr>" None "[0, 1, 0, 0]"
        apdu "\<lparr>applets = [replicate 300 7], selected = Some 0, chain = None\<rparr>" 0 echo_applet "replicate 300 7" "resp_ok (replicate 300 7)"]
    by (simp add: example_reader_def echo_applet_def resp_ok_def INS_GET_RESPONSE_def INS_SELECT_def)
qed

end
