(* ===== verification/Usb_Hid.thy ===== *)
theory Usb_Hid
  imports Transport_Contract
begin

section \<open>The USB HID class\<close>

text \<open>
  The CTAPHID interface of \<open>embedded/usb_hid_backend.rs\<close>: a one-packet receive buffer, the control requests of the
  enumeration and the backend that implements \<open>UsbHidDevice\<close>. The USB stack is a parameter as in theory \<open>Ccid\<close>:
  the IN endpoint is the function \<open>ep_write\<close>, the packets a poll delivers are the field \<open>hb_events\<close>, one list per
  poll. The composition with the CTAPHID adapter shows what a busy endpoint does to a long response.
\<close>

subsection \<open>The class\<close>

definition CTAPHID_REPORT_DESCRIPTOR :: bytes where
  "CTAPHID_REPORT_DESCRIPTOR =
     [0x06, 0xD0, 0xF1, 0x09, 0x01, 0xA1, 0x01, 0x09, 0x20, 0x15, 0x00, 0x26, 0xFF, 0x00, 0x75, 0x08, 0x95, 0x40, 0x81, 0x02,
      0x09, 0x21, 0x15, 0x00, 0x26, 0xFF, 0x00, 0x75, 0x08, 0x95, 0x40, 0x91, 0x02, 0xC0]"

record 'u CtapHidClass =
  hc_ep_in :: 'u
  hc_out_buf :: bytes
  hc_out_len :: usize
  hc_out_ready :: bool

definition ctap_hid_new :: "'u \<Rightarrow> 'u CtapHidClass" where
  "ctap_hid_new u = \<lparr>hc_ep_in = u, hc_out_buf = replicate PACKET_SIZE 0, hc_out_len = 0, hc_out_ready = False\<rparr>"

definition hid_descriptor :: bytes where
  "hid_descriptor =
     (let len = word_of_nat (length CTAPHID_REPORT_DESCRIPTOR) :: u16
      in [0x09, 0x21, 0x11, 0x01, 0x00, 0x01, 0x22, ucast (len AND 0xFF), ucast (drop_bit 8 len)])"

definition take_data :: "'u CtapHidClass \<Rightarrow> usize \<Rightarrow> 'u CtapHidClass \<times> bytes option" where
  "take_data c buf_len =
     (if \<not> hc_out_ready c then (c, None)
      else (c\<lparr>hc_out_ready := False, hc_out_len := 0\<rparr>, Some (take (min (hc_out_len c) buf_len) (hc_out_buf c))))"

definition recv_report :: "'u CtapHidClass \<Rightarrow> usize \<Rightarrow> 'u CtapHidClass \<times> bytes option" where
  "recv_report c buf_len = take_data c buf_len"

definition send_report ::
  "('u \<Rightarrow> bytes \<Rightarrow> 'u \<times> (UsbError, usize) result) \<Rightarrow> 'u CtapHidClass \<Rightarrow> bytes \<Rightarrow> 'u CtapHidClass \<times> (EmbeddedTransportError, unit) result" where
  "send_report write c buf =
     check (length buf > PACKET_SIZE) BufferTooSmall c
     (case write (hc_ep_in c) buf of
        (u, r) \<Rightarrow> (c\<lparr>hc_ep_in := u\<rparr>, bind_result (map_err (\<lambda>_. SendFailed) r) (\<lambda>_. Inr ())))"

definition hid_endpoint_out :: "'u CtapHidClass \<Rightarrow> bool \<Rightarrow> (UsbError, bytes) result \<Rightarrow> 'u CtapHidClass" where
  "hid_endpoint_out c own_address r =
     (if own_address
      then (case r of
              Inr pkt \<Rightarrow> c\<lparr>hc_out_buf := copy_into (hc_out_buf c) 0 pkt, hc_out_len := length pkt, hc_out_ready := True\<rparr>
            | Inl _ \<Rightarrow> c)
      else c)"

text \<open>
  The answer to a control request: \<open>Accept_With\<close> the bytes of the data stage, \<open>Accept_Empty\<close> a status stage only,
  \<open>Stall\<close> when the class leaves it to the stack.
\<close>

datatype ControlAnswer = Accept_With bytes | Accept_Empty | Stall

definition GET_DESCRIPTOR :: u8 where "GET_DESCRIPTOR = 6"

definition hid_control_in :: "RequestType \<Rightarrow> Recipient \<Rightarrow> u8 \<Rightarrow> u16 \<Rightarrow> u16 \<Rightarrow> ControlAnswer" where
  "hid_control_in ty rcpt request v len =
     (if ty = Req_Standard \<and> rcpt = To_Interface \<and> request = GET_DESCRIPTOR \<and> (ucast (drop_bit 8 v) :: u8) = 0x21
      then Accept_With hid_descriptor
      else if ty = Req_Standard \<and> rcpt = To_Interface \<and> request = GET_DESCRIPTOR \<and> (ucast (drop_bit 8 v) :: u8) = 0x22
      then Accept_With CTAPHID_REPORT_DESCRIPTOR
      else if ty = Req_Class \<and> rcpt = To_Interface
      then (if request = 0x01 then Accept_With (replicate (min (unat len) PACKET_SIZE) 0)
            else if request = 0x02 then Accept_With (take (min (unat len) 1) [0])
            else if request = 0x03 then Accept_With (take (min (unat len) 1) [1])
            else if 0x09 \<le> request \<and> request \<le> 0x0B then Accept_Empty
            else Stall)
      else Stall)"

definition hid_control_out_accepts :: "RequestType \<Rightarrow> Recipient \<Rightarrow> u8 \<Rightarrow> bool" where
  "hid_control_out_accepts ty rcpt request \<longleftrightarrow>
     ty = Req_Class \<and> rcpt = To_Interface \<and> (0x09 \<le> request \<and> request \<le> 0x0B \<or> 0x01 \<le> request \<and> request \<le> 0x03)"

fun hid_event :: "UsbEvent \<Rightarrow> 'u CtapHidClass \<Rightarrow> 'u CtapHidClass" where
  "hid_event (Endpoint_Out own r) c = hid_endpoint_out c own r"
| "hid_event Bus_Reset c = c"
| "hid_event (Control_Out ty rcpt request) c = c"

subsection \<open>The backend\<close>

record 'u UsbHidBackend =
  hb_hid :: "'u CtapHidClass"
  hb_initialized :: bool
  hb_events :: "UsbEvent list list"

definition hid_backend_new :: "'u \<Rightarrow> UsbEvent list list \<Rightarrow> 'u UsbHidBackend" where
  "hid_backend_new u events = \<lparr>hb_hid = ctap_hid_new u, hb_initialized = False, hb_events = events\<rparr>"

text \<open>\<open>usb_dev.poll(&mut [&mut self.hid])\<close>\<close>

definition hid_poll :: "'u UsbHidBackend \<Rightarrow> 'u UsbHidBackend" where
  "hid_poll b =
     (case hb_events b of
        [] \<Rightarrow> b
      | evs # rest \<Rightarrow> b\<lparr>hb_hid := fold hid_event evs (hb_hid b), hb_events := rest\<rparr>)"

definition hid_backend_init :: "'u UsbHidBackend \<Rightarrow> 'u UsbHidBackend \<times> (EmbeddedTransportError, unit) result" where
  "hid_backend_init b = (b\<lparr>hb_initialized := True\<rparr>, Inr ())"

definition hid_backend_send ::
  "('u \<Rightarrow> bytes \<Rightarrow> 'u \<times> (UsbError, usize) result) \<Rightarrow> 'u UsbHidBackend \<Rightarrow> bytes \<Rightarrow> 'u UsbHidBackend \<times> (EmbeddedTransportError, unit) result" where
  "hid_backend_send write b buf =
     check (\<not> hb_initialized b) NotInitialized b
     (check (length buf > PACKET_SIZE) BufferTooSmall b
     (case write (hc_ep_in (hb_hid b)) buf of
        (u, r) \<Rightarrow> (b\<lparr>hb_hid := (hb_hid b)\<lparr>hc_ep_in := u\<rparr>\<rparr>, bind_result (map_err (\<lambda>_. SendFailed) r) (\<lambda>_. Inr ()))))"

definition hid_backend_recv :: "'u UsbHidBackend \<Rightarrow> usize \<Rightarrow> 'u UsbHidBackend \<times> (EmbeddedTransportError, bytes) result" where
  "hid_backend_recv b buf_len =
     check (\<not> hb_initialized b) NotInitialized b
     (let b = hid_poll b in
      case take_data (hb_hid b) buf_len of
        (c, Some pkt) \<Rightarrow> (b\<lparr>hb_hid := c\<rparr>, Inr pkt)
      | (c, None) \<Rightarrow> (b\<lparr>hb_hid := c\<rparr>, Inl Timeout))"

definition usb_hid_backend :: "('u \<Rightarrow> bytes \<Rightarrow> 'u \<times> (UsbError, usize) result) \<Rightarrow> 'u UsbHidBackend UsbHidDevice" where
  "usb_hid_backend write =
     \<lparr>hid_init = hid_backend_init, hid_send_packet = hid_backend_send write, hid_recv_packet = (\<lambda>b. hid_backend_recv b CTAPHID_PACKET_SIZE)\<rparr>"

subsection \<open>Lemmas\<close>

text \<open>The descriptors agree, and no answer to a control request is longer than the host asked for or shows received data.\<close>

lemma hid_descriptor_length: "length CTAPHID_REPORT_DESCRIPTOR = unat (hid_descriptor ! 7) + 256 * unat (hid_descriptor ! 8)"
  by code_simp

lemma class_answers_are_constant:
  "hid_control_in Req_Class To_Interface request v len = Accept_With bs \<Longrightarrow> length bs \<le> unat len \<and> set bs \<subseteq> {0, 1}"
  by (auto simp: hid_control_in_def min_def dest: in_set_takeD split: if_splits)

text \<open>A packet the application has not yet read is lost when the next one arrives.\<close>

lemma unread_packet_lost:
  assumes "length p = PACKET_SIZE" "length q = PACKET_SIZE" "length (hc_out_buf c) = PACKET_SIZE"
  shows "hid_endpoint_out (hid_endpoint_out c True (Inr p)) True (Inr q) = hid_endpoint_out c True (Inr q)"
  using assms by (simp add: hid_endpoint_out_def copy_into_def)

text \<open>
  When each poll brings one packet, the adapter over this backend receives the messages of the host: the backend
  offers exactly the packets of the polls.
\<close>

lemma backend_offers:
  assumes "hb_initialized b" "\<not> hc_out_ready (hb_hid b)" "length (hc_out_buf (hb_hid b)) = PACKET_SIZE"
    and "list_all (\<lambda>p. length p = CTAPHID_PACKET_SIZE) ps" "hb_events b = map (\<lambda>p. [Endpoint_Out True (Inr p)]) ps @ rest"
  shows "\<exists>d. offers (hid_recv_packet (usb_hid_backend write)) b ps = Some d \<and> hb_events d = rest \<and> hb_initialized d
    \<and> hc_ep_in (hb_hid d) = hc_ep_in (hb_hid b)"
  using assms
proof (induction ps arbitrary: b)
  case (Cons p ps)
  let ?d = "b\<lparr>hb_hid := (hb_hid b)\<lparr>hc_out_buf := p, hc_out_len := 0, hc_out_ready := False\<rparr>,
      hb_events := map (\<lambda>p. [Endpoint_Out True (Inr p)]) ps @ rest\<rparr>"
  have "hid_recv_packet (usb_hid_backend write) b = (?d, Inr p)"
    using Cons.prems
    by (simp add: usb_hid_backend_def hid_backend_recv_def hid_poll_def hid_endpoint_out_def take_data_def copy_into_def
        PACKET_SIZE_def CTAPHID_PACKET_SIZE_def Let_def)
  moreover have "\<exists>d. offers (hid_recv_packet (usb_hid_backend write)) ?d ps = Some d \<and> hb_events d = rest \<and> hb_initialized d
    \<and> hc_ep_in (hb_hid d) = hc_ep_in (hb_hid ?d)"
    using Cons.prems by (intro Cons.IH) (simp_all add: PACKET_SIZE_def CTAPHID_PACKET_SIZE_def)
  ultimately show ?case by simp
qed (simp add: offers.simps)

text \<open>
  The trait asks \<open>send_packet\<close> to block until the packet is acknowledged, and the backend does not: if the
  endpoint is still busy with the first packet, the adapter gives a response of more than one packet up after it.
\<close>

lemma busy_endpoint_truncates_response:
  assumes "fh_initialized t" "hb_initialized (fh_device t)" "fragment (fh_active_cid t) Cmd_Cbor resp = Inr (p # q # ps)"
    and "length p \<le> PACKET_SIZE" "length q \<le> PACKET_SIZE"
    and "write (hc_ep_in (hb_hid (fh_device t))) p = (u, Inr n)" "write u q = (u', Inl WouldBlock)"
  shows "snd (framed_hid_send (usb_hid_backend write) t resp) = Inl (SendError ''embedded'')"
  using assms by (simp add: framed_hid_send_def usb_hid_backend_def hid_backend_send_def)

end
