(* ===== verification/Board.thy ===== *)
theory Board
  imports Effects
begin

section \<open>Boards\<close>

text \<open>
  Models \<open>openkey-hal/src/board_generic.rs\<close> (the static description of a board with its \<open>const\<close> builders, the I2C
  and GPIO wrappers, the default methods of \<open>BoardTrait\<close>) and \<open>openkey-hal/src/bootsel.rs\<close> (the BOOTSEL button as
  sensor of user presence). The peripherals of \<open>embedded-hal\<close> are parameters: the operations of the traits \<open>I2c\<close>,
  \<open>InputPin\<close> and \<open>OutputPin\<close> on a state. Log lines are left out.
\<close>

subsection \<open>Security features\<close>

record BoardSecurity =
  bs_secure_boot :: bool
  bs_trust_zone :: bool
  bs_hardware_rng :: bool
  bs_sha256_accelerator :: bool
  bs_debug_disable :: bool
  bs_otp_memory :: bool
  bs_unique_id :: bool
  bs_tamper_detection :: bool

definition security_none :: BoardSecurity where
  "security_none =
     \<lparr>bs_secure_boot = False, bs_trust_zone = False, bs_hardware_rng = False, bs_sha256_accelerator = False,
      bs_debug_disable = False, bs_otp_memory = False, bs_unique_id = False, bs_tamper_detection = False\<rparr>"

definition security_rp2350 :: BoardSecurity where
  "security_rp2350 =
     \<lparr>bs_secure_boot = True, bs_trust_zone = True, bs_hardware_rng = True, bs_sha256_accelerator = True,
      bs_debug_disable = True, bs_otp_memory = True, bs_unique_id = True, bs_tamper_detection = False\<rparr>"

definition security_yubico :: BoardSecurity where
  "security_yubico =
     \<lparr>bs_secure_boot = True, bs_trust_zone = True, bs_hardware_rng = True, bs_sha256_accelerator = True,
      bs_debug_disable = True, bs_otp_memory = True, bs_unique_id = True, bs_tamper_detection = True\<rparr>"

definition board_has_any :: "BoardSecurity \<Rightarrow> bool" where
  "board_has_any f = (bs_secure_boot f \<or> bs_trust_zone f \<or> bs_hardware_rng f \<or> bs_sha256_accelerator f
     \<or> bs_debug_disable f \<or> bs_otp_memory f \<or> bs_unique_id f \<or> bs_tamper_detection f)"

subsection \<open>Board definitions\<close>

definition TRANSPORT_USB_CCID :: u8 where "TRANSPORT_USB_CCID = 0x01"
definition TRANSPORT_USB_HID :: u8 where "TRANSPORT_USB_HID = 0x02"
definition TRANSPORT_NFC :: u8 where "TRANSPORT_NFC = 0x04"
definition TRANSPORT_BLE :: u8 where "TRANSPORT_BLE = 0x08"

lemmas transport_masks = TRANSPORT_USB_CCID_def TRANSPORT_USB_HID_def TRANSPORT_NFC_def TRANSPORT_BLE_def

datatype UserPresenceSource = Presence_None | Presence_Bootsel

record BoardDefinition =
  bd_name :: string
  bd_aaguid :: bytes
  bd_transports :: u8
  bd_has_secure_storage :: bool
  bd_has_crypto_accelerator :: bool
  bd_security :: BoardSecurity
  bd_i2c_sda_pin :: u8
  bd_i2c_scl_pin :: u8
  bd_spi_mosi_pin :: u8
  bd_spi_miso_pin :: u8
  bd_spi_clk_pin :: u8
  bd_cs_pin :: u8
  bd_reset_pin :: u8
  bd_irq_pin :: u8
  bd_led_pin :: u8
  bd_button_pin :: u8
  bd_presence_source :: UserPresenceSource

definition board_new :: "string \<Rightarrow> bytes \<Rightarrow> BoardDefinition" where
  "board_new name aaguid =
     \<lparr>bd_name = name, bd_aaguid = aaguid, bd_transports = 0, bd_has_secure_storage = False,
      bd_has_crypto_accelerator = False, bd_security = security_none, bd_i2c_sda_pin = 0, bd_i2c_scl_pin = 0,
      bd_spi_mosi_pin = 0, bd_spi_miso_pin = 0, bd_spi_clk_pin = 0, bd_cs_pin = 0, bd_reset_pin = 0, bd_irq_pin = 0,
      bd_led_pin = 0, bd_button_pin = 0, bd_presence_source = Presence_None\<rparr>"

definition board_i2c_sda :: "u8 \<Rightarrow> BoardDefinition \<Rightarrow> BoardDefinition" where "board_i2c_sda pin b = b\<lparr>bd_i2c_sda_pin := pin\<rparr>"
definition board_i2c_scl :: "u8 \<Rightarrow> BoardDefinition \<Rightarrow> BoardDefinition" where "board_i2c_scl pin b = b\<lparr>bd_i2c_scl_pin := pin\<rparr>"
definition board_spi_mosi :: "u8 \<Rightarrow> BoardDefinition \<Rightarrow> BoardDefinition" where "board_spi_mosi pin b = b\<lparr>bd_spi_mosi_pin := pin\<rparr>"
definition board_spi_miso :: "u8 \<Rightarrow> BoardDefinition \<Rightarrow> BoardDefinition" where "board_spi_miso pin b = b\<lparr>bd_spi_miso_pin := pin\<rparr>"
definition board_spi_clk :: "u8 \<Rightarrow> BoardDefinition \<Rightarrow> BoardDefinition" where "board_spi_clk pin b = b\<lparr>bd_spi_clk_pin := pin\<rparr>"
definition board_cs :: "u8 \<Rightarrow> BoardDefinition \<Rightarrow> BoardDefinition" where "board_cs pin b = b\<lparr>bd_cs_pin := pin\<rparr>"
definition board_reset :: "u8 \<Rightarrow> BoardDefinition \<Rightarrow> BoardDefinition" where "board_reset pin b = b\<lparr>bd_reset_pin := pin\<rparr>"
definition board_irq :: "u8 \<Rightarrow> BoardDefinition \<Rightarrow> BoardDefinition" where "board_irq pin b = b\<lparr>bd_irq_pin := pin\<rparr>"
definition board_led :: "u8 \<Rightarrow> BoardDefinition \<Rightarrow> BoardDefinition" where "board_led pin b = b\<lparr>bd_led_pin := pin\<rparr>"
definition board_button :: "u8 \<Rightarrow> BoardDefinition \<Rightarrow> BoardDefinition" where "board_button pin b = b\<lparr>bd_button_pin := pin\<rparr>"

definition board_presence_source :: "UserPresenceSource \<Rightarrow> BoardDefinition \<Rightarrow> BoardDefinition" where
  "board_presence_source s b = b\<lparr>bd_presence_source := s\<rparr>"

definition board_usb_ccid :: "BoardDefinition \<Rightarrow> BoardDefinition" where
  "board_usb_ccid b = b\<lparr>bd_transports := bd_transports b OR TRANSPORT_USB_CCID\<rparr>"

definition board_usb_hid :: "BoardDefinition \<Rightarrow> BoardDefinition" where
  "board_usb_hid b = b\<lparr>bd_transports := bd_transports b OR TRANSPORT_USB_HID\<rparr>"

definition board_nfc :: "BoardDefinition \<Rightarrow> BoardDefinition" where
  "board_nfc b = b\<lparr>bd_transports := bd_transports b OR TRANSPORT_NFC\<rparr>"

definition board_ble :: "BoardDefinition \<Rightarrow> BoardDefinition" where
  "board_ble b = b\<lparr>bd_transports := bd_transports b OR TRANSPORT_BLE\<rparr>"

definition board_secure_storage :: "bool \<Rightarrow> BoardDefinition \<Rightarrow> BoardDefinition" where
  "board_secure_storage enabled b = b\<lparr>bd_has_secure_storage := enabled\<rparr>"

definition board_crypto_accelerator :: "bool \<Rightarrow> BoardDefinition \<Rightarrow> BoardDefinition" where
  "board_crypto_accelerator enabled b = b\<lparr>bd_has_crypto_accelerator := enabled\<rparr>"

definition board_security_features :: "BoardSecurity \<Rightarrow> BoardDefinition \<Rightarrow> BoardDefinition" where
  "board_security_features features b = b\<lparr>bd_security := features\<rparr>"

definition board_secure_boot :: "bool \<Rightarrow> BoardDefinition \<Rightarrow> BoardDefinition" where
  "board_secure_boot enabled b = b\<lparr>bd_security := (bd_security b)\<lparr>bs_secure_boot := enabled\<rparr>\<rparr>"

definition board_trust_zone :: "bool \<Rightarrow> BoardDefinition \<Rightarrow> BoardDefinition" where
  "board_trust_zone enabled b = b\<lparr>bd_security := (bd_security b)\<lparr>bs_trust_zone := enabled\<rparr>\<rparr>"

definition board_hardware_rng :: "bool \<Rightarrow> BoardDefinition \<Rightarrow> BoardDefinition" where
  "board_hardware_rng enabled b = b\<lparr>bd_security := (bd_security b)\<lparr>bs_hardware_rng := enabled\<rparr>\<rparr>"

definition board_sha256_accelerator :: "bool \<Rightarrow> BoardDefinition \<Rightarrow> BoardDefinition" where
  "board_sha256_accelerator enabled b = b\<lparr>bd_security := (bd_security b)\<lparr>bs_sha256_accelerator := enabled\<rparr>\<rparr>"

definition board_debug_disable :: "bool \<Rightarrow> BoardDefinition \<Rightarrow> BoardDefinition" where
  "board_debug_disable enabled b = b\<lparr>bd_security := (bd_security b)\<lparr>bs_debug_disable := enabled\<rparr>\<rparr>"

definition board_otp_memory :: "bool \<Rightarrow> BoardDefinition \<Rightarrow> BoardDefinition" where
  "board_otp_memory enabled b = b\<lparr>bd_security := (bd_security b)\<lparr>bs_otp_memory := enabled\<rparr>\<rparr>"

definition board_unique_id :: "bool \<Rightarrow> BoardDefinition \<Rightarrow> BoardDefinition" where
  "board_unique_id enabled b = b\<lparr>bd_security := (bd_security b)\<lparr>bs_unique_id := enabled\<rparr>\<rparr>"

definition board_tamper_detection :: "bool \<Rightarrow> BoardDefinition \<Rightarrow> BoardDefinition" where
  "board_tamper_detection enabled b = b\<lparr>bd_security := (bd_security b)\<lparr>bs_tamper_detection := enabled\<rparr>\<rparr>"

definition has_transport :: "BoardDefinition \<Rightarrow> u8 \<Rightarrow> bool" where
  "has_transport b m = (bd_transports b AND m \<noteq> 0)"

record BoardHAL =
  hal_config :: BoardDefinition

definition hal_new :: "BoardDefinition \<Rightarrow> BoardHAL" where
  "hal_new config = \<lparr>hal_config = config\<rparr>"

subsection \<open>Buses and pins\<close>

record ('i, 'e) I2cOps =
  i2c_write :: "'i \<Rightarrow> u8 \<Rightarrow> bytes \<Rightarrow> ('i, 'e, unit) outcome"
  i2c_read :: "'i \<Rightarrow> u8 \<Rightarrow> usize \<Rightarrow> ('i, 'e, bytes) outcome"

definition read_register :: "('i, 'e) I2cOps \<Rightarrow> 'i \<Rightarrow> u8 \<Rightarrow> u8 \<Rightarrow> ('i, 'e, bytes) outcome" where
  "read_register ops i addr reg = andthen (i2c_write ops i addr [reg]) (\<lambda>_ i. i2c_read ops i addr 1)"

definition write_register :: "('i, 'e) I2cOps \<Rightarrow> 'i \<Rightarrow> u8 \<Rightarrow> u8 \<Rightarrow> u8 \<Rightarrow> ('i, 'e, unit) outcome" where
  "write_register ops i addr reg v = i2c_write ops i addr [reg, v]"

record ('p, 'e) PinOps =
  pin_set_high :: "'p \<Rightarrow> ('p, 'e, unit) outcome"
  pin_set_low :: "'p \<Rightarrow> ('p, 'e, unit) outcome"
  pin_is_high :: "'p \<Rightarrow> ('p, 'e, bool) outcome"
  pin_is_low :: "'p \<Rightarrow> ('p, 'e, bool) outcome"

definition pin_toggle :: "('p, 'e) PinOps \<Rightarrow> 'p \<Rightarrow> ('p, 'e, unit) outcome" where
  "pin_toggle ops p = andthen (pin_is_low ops p) (\<lambda>low p. if low then pin_set_high ops p else pin_set_low ops p)"

text \<open>
  The methods of \<open>BoardTrait\<close> a board may override; \<open>led_blink\<close> is its default body over them: \<open>blink n\<close> is the loop
  \<open>for _ in 0..n\<close>.
\<close>

record 'b BoardOps =
  led_on :: "'b \<Rightarrow> 'b"
  led_off :: "'b \<Rightarrow> 'b"
  delay_ms :: "'b \<Rightarrow> u32 \<Rightarrow> 'b"
  button_pressed :: "'b \<Rightarrow> 'b \<times> bool"

definition board_default :: "'b BoardOps" where
  "board_default = \<lparr>led_on = (\<lambda>b. b), led_off = (\<lambda>b. b), delay_ms = (\<lambda>b ms. b), button_pressed = (\<lambda>b. (b, False))\<rparr>"

definition blink_once :: "'b BoardOps \<Rightarrow> 'b \<Rightarrow> 'b" where
  "blink_once ops b = delay_ms ops (led_off ops (delay_ms ops (led_on ops b) 100)) 100"

definition led_blink :: "'b BoardOps \<Rightarrow> u8 \<Rightarrow> 'b \<Rightarrow> 'b" where
  "led_blink ops n b = (blink_once ops ^^ unat n) b"

subsection \<open>The BOOTSEL button\<close>

text \<open>
  \<open>disable_xip\<close>, \<open>cs_as_gpio_input\<close> and \<open>restore_xip\<close> have empty bodies in the placeholder of the peripheral.
\<close>

record Rp2350Qspi =
  cs_level :: bool

definition qspi_new :: Rp2350Qspi where
  "qspi_new = \<lparr>cs_level = True\<rparr>"

definition set_cs_level :: "bool \<Rightarrow> Rp2350Qspi \<Rightarrow> Rp2350Qspi" where
  "set_cs_level high q = q\<lparr>cs_level := high\<rparr>"

definition read_cs :: "Rp2350Qspi \<Rightarrow> bool" where
  "read_cs q = cs_level q"

record BootselButton =
  bb_qspi :: Rp2350Qspi

definition bootsel_new :: "Rp2350Qspi \<Rightarrow> BootselButton" where
  "bootsel_new q = \<lparr>bb_qspi = q\<rparr>"

definition bootsel_is_pressed :: "BootselButton \<Rightarrow> BootselButton \<times> bool" where
  "bootsel_is_pressed b = (b, \<not> read_cs (bb_qspi b))"

subsection \<open>Lemmas\<close>

text \<open>Each builder adds its own transport and keeps the others.\<close>

lemma has_transport_builders:
  "has_transport (board_usb_ccid b) m \<longleftrightarrow> has_transport b m \<or> TRANSPORT_USB_CCID AND m \<noteq> 0"
  "has_transport (board_usb_hid b) m \<longleftrightarrow> has_transport b m \<or> TRANSPORT_USB_HID AND m \<noteq> 0"
  "has_transport (board_nfc b) m \<longleftrightarrow> has_transport b m \<or> TRANSPORT_NFC AND m \<noteq> 0"
  "has_transport (board_ble b) m \<longleftrightarrow> has_transport b m \<or> TRANSPORT_BLE AND m \<noteq> 0"
  by (auto simp: has_transport_def board_usb_ccid_def board_usb_hid_def board_nfc_def board_ble_def word_ao_dist
      or_eq_0_iff)

lemma board_has_any_iff: "board_has_any f \<longleftrightarrow> f \<noteq> security_none"
  by (cases f) (auto simp: board_has_any_def security_none_def)

text \<open>Toggling a working pin inverts its level.\<close>

definition pin_works :: "('p, 'e) PinOps \<Rightarrow> ('p \<Rightarrow> bool) \<Rightarrow> bool" where
  "pin_works ops level \<longleftrightarrow>
     (\<forall>p. (\<exists>p'. pin_set_high ops p = (p', Inr ()) \<and> level p') \<and> (\<exists>p'. pin_set_low ops p = (p', Inr ()) \<and> \<not> level p')
        \<and> pin_is_low ops p = (p, Inr (\<not> level p)))"

lemma toggle_level:
  assumes "pin_works ops level"
  shows "\<exists>p'. pin_toggle ops p = (p', Inr ()) \<and> level p' = (\<not> level p)"
proof -
  from assms obtain h l where "pin_set_high ops p = (h, Inr ())" "level h" "pin_set_low ops p = (l, Inr ())" "\<not> level l"
    and "pin_is_low ops p = (p, Inr (\<not> level p))"
    unfolding pin_works_def by blast
  then show ?thesis by (cases "level p") (auto simp: pin_toggle_def)
qed

end
