(* ===== verification/Device_Profile.thy ===== *)
theory Device_Profile
  imports Board Authenticator
begin

section \<open>Device profiles\<close>

text \<open>
  Models \<open>openkey-device/src/config/mod.rs\<close> (the choices of a product), \<open>profile/profile.rs\<close> (\<open>DeviceProfile\<close> and its
  builder) and \<open>profile/capability.rs\<close> (\<open>CapabilityDiscovery\<close>). A builder method \<open>fn m(mut self, x) -> Self\<close> is a
  function from the argument and the builder to the new builder.
\<close>

subsection \<open>Configuration types\<close>

datatype TransportType = TT_UsbHid | TT_UsbCcid | TT_Nfc | TT_BleGatt

record TransportConfig =
  transport_type :: TransportType

definition config_new :: "TransportType \<Rightarrow> TransportConfig" where
  "config_new t = \<lparr>transport_type = t\<rparr>"

definition config_usb_hid :: TransportConfig where "config_usb_hid = config_new TT_UsbHid"
definition config_usb_ccid :: TransportConfig where "config_usb_ccid = config_new TT_UsbCcid"
definition config_nfc :: TransportConfig where "config_nfc = config_new TT_Nfc"
definition config_ble_gatt :: TransportConfig where "config_ble_gatt = config_new TT_BleGatt"

datatype ProductTransport = PT_UsbCcid | PT_UsbHid | PT_Nfc | PT_Ble

datatype Protocol = Proto_Ctap2 | Proto_Ctap21 | Proto_U2f | Proto_WebAuthn

datatype AttestationType = Attest_None | Attest_Packed | Attest_SelfAttested

datatype PinPolicy = Pin_Disabled | Pin_Optional | Pin_Required

datatype Extension = Ext_CredProtect | Ext_CredBlob | Ext_MinPinLength | Ext_HmacSecret

datatype UsbVendorPreset = Preset_OpenKey | Preset_YubiKey5 | Preset_YubicoYubikey

record UsbIdentity =
  usb_vid :: u16
  usb_pid :: u16
  usb_manufacturer :: string
  usb_product :: string

definition identity_new :: "u16 \<Rightarrow> u16 \<Rightarrow> UsbIdentity" where
  "identity_new vid pid = \<lparr>usb_vid = vid, usb_pid = pid, usb_manufacturer = [], usb_product = []\<rparr>"

definition identity_openkey :: UsbIdentity where
  "identity_openkey =
     \<lparr>usb_vid = 0x1209, usb_pid = 0x0001, usb_manufacturer = ''openkey-fido2'', usb_product = ''FIDO2 Authenticator''\<rparr>"

definition identity_yubikey :: UsbIdentity where
  "identity_yubikey =
     \<lparr>usb_vid = 0x1050, usb_pid = 0x0407, usb_manufacturer = ''Yubico'', usb_product = ''YubiKey OTP+FIDO+CCID''\<rparr>"

definition identity_yubico_yubikey :: UsbIdentity where
  "identity_yubico_yubikey =
     \<lparr>usb_vid = 0x1050, usb_pid = 0x0407, usb_manufacturer = ''Yubico'', usb_product = ''Yubico Yubikey''\<rparr>"

definition identity_preset :: "UsbVendorPreset \<Rightarrow> UsbIdentity" where
  "identity_preset p =
     (case p of
        Preset_OpenKey \<Rightarrow> identity_openkey
      | Preset_YubiKey5 \<Rightarrow> identity_yubikey
      | Preset_YubicoYubikey \<Rightarrow> identity_yubico_yubikey)"

subsection \<open>The profile and its builder\<close>

record DeviceProfile =
  dp_product_name :: string
  dp_vendor_name :: string
  dp_aaguid :: bytes
  dp_firmware_version :: string
  dp_hardware_version :: string
  dp_transports :: "ProductTransport list"
  dp_protocols :: "Protocol list"
  dp_attestation :: AttestationType
  dp_attestation_format :: AttestationFormat
  dp_attestation_cert :: "AttestationCertificate option"
  dp_pin_policy :: PinPolicy
  dp_rk_support :: bool
  dp_uv_support :: bool
  dp_up_support :: bool
  dp_storage_encrypted :: bool
  dp_crypto_accelerator :: bool
  dp_extensions :: "Extension list"
  dp_max_credentials :: u16
  dp_max_credential_id_length :: u16
  dp_max_cred_blob_length :: u32
  dp_rp_count :: u32
  dp_transport_config :: "TransportConfig option"
  dp_transport_configs :: "TransportConfig list"
  dp_security :: BoardSecurity
  dp_usb :: "UsbIdentity option"

definition active_transport_configs :: "DeviceProfile \<Rightarrow> TransportConfig list" where
  "active_transport_configs p =
     (if dp_transport_configs p \<noteq> [] then dp_transport_configs p
      else case dp_transport_config p of Some cfg \<Rightarrow> [cfg] | None \<Rightarrow> [])"

record DeviceProfileBuilder =
  pb_product_name :: string
  pb_vendor_name :: string
  pb_aaguid :: bytes
  pb_firmware_version :: string
  pb_hardware_version :: string
  pb_transports :: "ProductTransport list"
  pb_protocols :: "Protocol list"
  pb_attestation :: AttestationType
  pb_attestation_format :: AttestationFormat
  pb_attestation_cert :: "AttestationCertificate option"
  pb_pin_policy :: PinPolicy
  pb_rk_support :: bool
  pb_uv_support :: bool
  pb_up_support :: bool
  pb_storage_encrypted :: bool
  pb_crypto_accelerator :: bool
  pb_extensions :: "Extension list"
  pb_max_credentials :: u16
  pb_max_credential_id_length :: u16
  pb_max_cred_blob_length :: u32
  pb_rp_count :: u32
  pb_transport_configs :: "TransportConfig list"
  pb_security :: BoardSecurity
  pb_usb :: "UsbIdentity option"

definition builder_new :: DeviceProfileBuilder where
  "builder_new =
     \<lparr>pb_product_name = ''OpenKey FIDO2'', pb_vendor_name = ''OpenKey'', pb_aaguid = replicate 16 0,
      pb_firmware_version = ''0.1.0'', pb_hardware_version = ''1.0.0'', pb_transports = [],
      pb_protocols = [Proto_Ctap2, Proto_Ctap21, Proto_WebAuthn], pb_attestation = Attest_None,
      pb_attestation_format = Fmt_None, pb_attestation_cert = None, pb_pin_policy = Pin_Disabled,
      pb_rk_support = True, pb_uv_support = False, pb_up_support = True, pb_storage_encrypted = False,
      pb_crypto_accelerator = False,
      pb_extensions = [Ext_CredProtect, Ext_CredBlob, Ext_MinPinLength, Ext_HmacSecret], pb_max_credentials = 10,
      pb_max_credential_id_length = 64, pb_max_cred_blob_length = 32, pb_rp_count = 0, pb_transport_configs = [],
      pb_security = security_none, pb_usb = None\<rparr>"

definition from_board :: "BoardDefinition \<Rightarrow> DeviceProfileBuilder" where
  "from_board board =
     builder_new
       \<lparr>pb_product_name := bd_name board, pb_aaguid := bd_aaguid board, pb_storage_encrypted := bd_has_secure_storage board,
        pb_crypto_accelerator := bd_has_crypto_accelerator board, pb_security := bd_security board,
        pb_transports :=
          (if has_transport board TRANSPORT_USB_CCID then [PT_UsbCcid] else [])
          @ (if has_transport board TRANSPORT_USB_HID then [PT_UsbHid] else [])
          @ (if has_transport board TRANSPORT_NFC then [PT_Nfc] else [])
          @ (if has_transport board TRANSPORT_BLE then [PT_Ble] else [])\<rparr>"

text \<open>\<open>if !xs.contains(&x) \<open>{\<close> xs.push(x) \<open>}\<close>\<close>\<close>

definition push_new :: "'a \<Rightarrow> 'a list \<Rightarrow> 'a list" where
  "push_new x xs = (if x \<in> set xs then xs else xs @ [x])"

type_synonym profile_step = "DeviceProfileBuilder \<Rightarrow> DeviceProfileBuilder"

definition product_name :: "string \<Rightarrow> profile_step" where "product_name x b = b\<lparr>pb_product_name := x\<rparr>"
definition vendor_name :: "string \<Rightarrow> profile_step" where "vendor_name x b = b\<lparr>pb_vendor_name := x\<rparr>"
definition firmware_version :: "string \<Rightarrow> profile_step" where "firmware_version x b = b\<lparr>pb_firmware_version := x\<rparr>"
definition hardware_version :: "string \<Rightarrow> profile_step" where "hardware_version x b = b\<lparr>pb_hardware_version := x\<rparr>"
definition attestation :: "AttestationType \<Rightarrow> profile_step" where "attestation x b = b\<lparr>pb_attestation := x\<rparr>"
definition attestation_format :: "AttestationFormat \<Rightarrow> profile_step" where "attestation_format x b = b\<lparr>pb_attestation_format := x\<rparr>"
definition attestation_cert :: "AttestationCertificate \<Rightarrow> profile_step" where "attestation_cert x b = b\<lparr>pb_attestation_cert := Some x\<rparr>"
definition pin_policy :: "PinPolicy \<Rightarrow> profile_step" where "pin_policy x b = b\<lparr>pb_pin_policy := x\<rparr>"
definition rk_support :: "bool \<Rightarrow> profile_step" where "rk_support x b = b\<lparr>pb_rk_support := x\<rparr>"
definition uv_support :: "bool \<Rightarrow> profile_step" where "uv_support x b = b\<lparr>pb_uv_support := x\<rparr>"
definition up_support :: "bool \<Rightarrow> profile_step" where "up_support x b = b\<lparr>pb_up_support := x\<rparr>"
definition max_credentials :: "u16 \<Rightarrow> profile_step" where "max_credentials x b = b\<lparr>pb_max_credentials := x\<rparr>"
definition max_credential_id_length :: "u16 \<Rightarrow> profile_step" where "max_credential_id_length x b = b\<lparr>pb_max_credential_id_length := x\<rparr>"
definition max_cred_blob_length :: "u32 \<Rightarrow> profile_step" where "max_cred_blob_length x b = b\<lparr>pb_max_cred_blob_length := x\<rparr>"
definition rp_count :: "u32 \<Rightarrow> profile_step" where "rp_count x b = b\<lparr>pb_rp_count := x\<rparr>"

definition transport_config :: "TransportConfig \<Rightarrow> profile_step" where
  "transport_config c b = b\<lparr>pb_transport_configs := push_new c (pb_transport_configs b)\<rparr>"

definition transport_configs :: "TransportConfig list \<Rightarrow> profile_step" where
  "transport_configs cs b = b\<lparr>pb_transport_configs := cs\<rparr>"

definition add_transport_config :: "TransportConfig \<Rightarrow> profile_step" where
  "add_transport_config c b = b\<lparr>pb_transport_configs := push_new c (pb_transport_configs b)\<rparr>"

definition profile_security :: "BoardSecurity \<Rightarrow> profile_step" where "profile_security x b = b\<lparr>pb_security := x\<rparr>"
definition profile_usb :: "UsbIdentity \<Rightarrow> profile_step" where "profile_usb x b = b\<lparr>pb_usb := Some x\<rparr>"
definition usb_vid_pid :: "u16 \<Rightarrow> u16 \<Rightarrow> profile_step" where "usb_vid_pid vid pid b = b\<lparr>pb_usb := Some (identity_new vid pid)\<rparr>"
definition yubikey_usb :: profile_step where "yubikey_usb b = b\<lparr>pb_usb := Some identity_yubikey\<rparr>"
definition yubico_yubikey_usb :: profile_step where "yubico_yubikey_usb b = b\<lparr>pb_usb := Some identity_yubico_yubikey\<rparr>"
definition usb_preset :: "UsbVendorPreset \<Rightarrow> profile_step" where "usb_preset x b = b\<lparr>pb_usb := Some (identity_preset x)\<rparr>"

definition profile_transport :: "ProductTransport \<Rightarrow> profile_step" where
  "profile_transport t b = b\<lparr>pb_transports := push_new t (pb_transports b)\<rparr>"

definition profile_protocol :: "Protocol \<Rightarrow> profile_step" where
  "profile_protocol p b = b\<lparr>pb_protocols := push_new p (pb_protocols b)\<rparr>"

definition profile_extension :: "Extension \<Rightarrow> profile_step" where
  "profile_extension e b = b\<lparr>pb_extensions := push_new e (pb_extensions b)\<rparr>"

definition build :: "DeviceProfileBuilder \<Rightarrow> DeviceProfile" where
  "build b =
     (let legacy = (case pb_transport_configs b of [] \<Rightarrow> None | c # cs \<Rightarrow> Some c) in
      \<lparr>dp_product_name = pb_product_name b, dp_vendor_name = pb_vendor_name b, dp_aaguid = pb_aaguid b,
       dp_firmware_version = pb_firmware_version b, dp_hardware_version = pb_hardware_version b,
       dp_transports = pb_transports b, dp_protocols = pb_protocols b, dp_attestation = pb_attestation b,
       dp_attestation_format = pb_attestation_format b, dp_attestation_cert = pb_attestation_cert b,
       dp_pin_policy = pb_pin_policy b, dp_rk_support = pb_rk_support b, dp_uv_support = pb_uv_support b,
       dp_up_support = pb_up_support b, dp_storage_encrypted = pb_storage_encrypted b,
       dp_crypto_accelerator = pb_crypto_accelerator b, dp_extensions = pb_extensions b,
       dp_max_credentials = pb_max_credentials b, dp_max_credential_id_length = pb_max_credential_id_length b,
       dp_max_cred_blob_length = pb_max_cred_blob_length b, dp_rp_count = pb_rp_count b, dp_transport_config = legacy,
       dp_transport_configs = pb_transport_configs b, dp_security = pb_security b, dp_usb = pb_usb b\<rparr>)"

subsection \<open>Capability discovery\<close>

record Capabilities =
  cp_aaguid :: bytes
  cp_product_name :: string
  cp_vendor_name :: string
  cp_firmware_version :: string
  cp_hardware_version :: string
  cp_transports :: "ProductTransport list"
  cp_protocols :: "Protocol list"
  cp_attestation :: AttestationType
  cp_pin_policy :: PinPolicy
  cp_rk :: bool
  cp_uv :: bool
  cp_up :: bool
  cp_client_pin_available :: bool
  cp_storage_encrypted :: bool
  cp_crypto_accelerator :: bool
  cp_extensions :: "Extension list"
  cp_max_credentials :: u16
  cp_max_credential_id_length :: u16
  cp_max_cred_blob_length :: u32
  cp_rp_count :: u32
  cp_security :: BoardSecurity

record CapabilityDiscovery =
  cd_profile :: DeviceProfile

definition discovery_new :: "DeviceProfile \<Rightarrow> CapabilityDiscovery" where
  "discovery_new p = \<lparr>cd_profile = p\<rparr>"

definition discovery_capabilities :: "CapabilityDiscovery \<Rightarrow> Capabilities" where
  "discovery_capabilities d =
     (let p = cd_profile d in
      \<lparr>cp_aaguid = dp_aaguid p, cp_product_name = dp_product_name p, cp_vendor_name = dp_vendor_name p,
       cp_firmware_version = dp_firmware_version p, cp_hardware_version = dp_hardware_version p,
       cp_transports = dp_transports p, cp_protocols = dp_protocols p, cp_attestation = dp_attestation p,
       cp_pin_policy = dp_pin_policy p, cp_rk = dp_rk_support p, cp_uv = dp_uv_support p, cp_up = dp_up_support p,
       cp_client_pin_available = (dp_pin_policy p \<noteq> Pin_Disabled), cp_storage_encrypted = dp_storage_encrypted p,
       cp_crypto_accelerator = dp_crypto_accelerator p, cp_extensions = dp_extensions p,
       cp_max_credentials = dp_max_credentials p, cp_max_credential_id_length = dp_max_credential_id_length p,
       cp_max_cred_blob_length = dp_max_cred_blob_length p, cp_rp_count = dp_rp_count p, cp_security = dp_security p\<rparr>)"

subsection \<open>Lemmas\<close>

lemma push_new_set [simp]: "set (push_new x xs) = insert x (set xs)"
  by (auto simp: push_new_def)

lemma push_new_distinct: "distinct xs \<Longrightarrow> distinct (push_new x xs)"
  by (simp add: push_new_def)

text \<open>A built profile keeps the legacy view consistent: the single configuration is the first active one.\<close>

lemma build_legacy_view:
  "active_transport_configs (build b) = pb_transport_configs b"
  "dp_transport_config (build b) = (case active_transport_configs (build b) of [] \<Rightarrow> None | c # cs \<Rightarrow> Some c)"
  by (auto simp: active_transport_configs_def build_def split: list.splits)

text \<open>The transports of a board are announced in the order CCID, HID, NFC, BLE, each once.\<close>

lemma from_board_transports:
  "distinct (pb_transports (from_board b))"
  "PT_UsbCcid \<in> set (pb_transports (from_board b)) \<longleftrightarrow> has_transport b TRANSPORT_USB_CCID"
  "PT_UsbHid \<in> set (pb_transports (from_board b)) \<longleftrightarrow> has_transport b TRANSPORT_USB_HID"
  "PT_Nfc \<in> set (pb_transports (from_board b)) \<longleftrightarrow> has_transport b TRANSPORT_NFC"
  "PT_Ble \<in> set (pb_transports (from_board b)) \<longleftrightarrow> has_transport b TRANSPORT_BLE"
  by (auto simp: from_board_def)

end
