(* ===== verification/Device.thy ===== *)
theory Device
  imports Device_Profile Ctap2 Transport File_Backend
begin

section \<open>The embedded authenticator\<close>

text \<open>
  Models \<open>openkey-core/src/webauthn/ceremony.rs\<close> (the WebAuthn layer, which validates a request and delegates to
  CTAP2) and \<open>openkey-device/src/authenticator/authenticator.rs\<close> (\<open>EmbeddedAuthenticator\<close>: construction from a
  profile, transports, capabilities). \<open>Box<dyn Error>\<close> is the sum of the errors that reach it. A constructor takes
  the state of the random number generator and of the clock at that time, as \<open>authenticator_new\<close> does.
\<close>

subsection \<open>The WebAuthn layer\<close>

datatype WebAuthnError = EmptyClientDataHash | EmptyClientDataJson | EmptyRpId

datatype DeviceError = Dev_WebAuthn WebAuthnError | Dev_Ctap2 Ctap2Error | Dev_Crypto message | Dev_Storage StorageError | Dev_Engine EngineError

definition validate_make_credential :: "MakeCredentialRequest \<Rightarrow> (WebAuthnError, unit) result" where
  "validate_make_credential req =
     (if is_blank (str_bytes (rpe_id (mcr_rp req))) then Inl EmptyRpId
      else if mcr_client_data_hash req = [] then Inl EmptyClientDataHash
      else Inr ())"

definition validate_get_assertion :: "GetAssertionRequest \<Rightarrow> (WebAuthnError, unit) result" where
  "validate_get_assertion req =
     (if is_blank (str_bytes (gar_rp_id req)) then Inl EmptyRpId
      else if gar_client_data_hash req = [] then Inl EmptyClientDataHash
      else Inr ())"

record ('b, 'p, 'v) WebAuthnAuthenticator =
  wa_ctap :: "('b, 'p, 'v) auth"

definition webauthn_new ::
  "bytes \<Rightarrow> CryptoEngine \<Rightarrow> 'b StorageEngine \<Rightarrow> nat \<Rightarrow> u64 \<Rightarrow> nat \<Rightarrow> ('b, 'p, 'v) WebAuthnAuthenticator" where
  "webauthn_new aaguid crypto storage draws last_ts reads =
     \<lparr>wa_ctap = authenticator_new aaguid crypto storage draws last_ts reads\<rparr>"

text \<open>A call of a method of the inner authenticator.\<close>

definition on_ctap ::
  "(('b, 'p, 'v) auth, 'e, 'a) outcome \<Rightarrow> ('e \<Rightarrow> 'f) \<Rightarrow> ('b, 'p, 'v) WebAuthnAuthenticator \<Rightarrow> (('b, 'p, 'v) WebAuthnAuthenticator, 'f, 'a) outcome" where
  "on_ctap r err w = (w\<lparr>wa_ctap := fst r\<rparr>, map_err err (snd r))"

definition webauthn_make_credential ::
  "('b, 'p, 'v) cenv \<Rightarrow> ('b, 'p, 'v) WebAuthnAuthenticator \<Rightarrow> MakeCredentialRequest
     \<Rightarrow> (('b, 'p, 'v) WebAuthnAuthenticator, DeviceError, MakeCredentialResponse) outcome" where
  "webauthn_make_credential env w req =
     attempt (map_err Dev_WebAuthn (validate_make_credential req)) w (\<lambda>_.
       on_ctap (make_credential env (wa_ctap w) req) Dev_Ctap2 w)"

definition webauthn_get_assertion ::
  "('b, 'p, 'v) cenv \<Rightarrow> ('b, 'p, 'v) WebAuthnAuthenticator \<Rightarrow> GetAssertionRequest
     \<Rightarrow> (('b, 'p, 'v) WebAuthnAuthenticator, DeviceError, GetAssertionResponse) outcome" where
  "webauthn_get_assertion env w req =
     attempt (map_err Dev_WebAuthn (validate_get_assertion req)) w (\<lambda>_.
       on_ctap (get_assertion env (wa_ctap w) req) Dev_Ctap2 w)"

definition webauthn_get_info ::
  "('b, 'p, 'v) cenv \<Rightarrow> ('b, 'p, 'v) WebAuthnAuthenticator \<Rightarrow> (DeviceError, GetInfoResponse) result" where
  "webauthn_get_info env w = map_err Dev_Ctap2 (get_info env (wa_ctap w))"

definition webauthn_get_version :: "('b, 'p, 'v) WebAuthnAuthenticator \<Rightarrow> (DeviceError, GetVersionResponse) result" where
  "webauthn_get_version w = Inr get_version"

definition webauthn_process_command ::
  "('b, 'p, 'v) cenv \<Rightarrow> ('b, 'p, 'v) WebAuthnAuthenticator \<Rightarrow> u8 \<Rightarrow> bytes
     \<Rightarrow> (('b, 'p, 'v) WebAuthnAuthenticator, Ctap2Error, bytes) outcome" where
  "webauthn_process_command env w cmd data = on_ctap (process_command env (wa_ctap w) cmd data) (\<lambda>e. e) w"

definition webauthn_set_capabilities ::
  "('b, 'p, 'v) WebAuthnAuthenticator \<Rightarrow> Ctap2Capabilities \<Rightarrow> ('b, 'p, 'v) WebAuthnAuthenticator" where
  "webauthn_set_capabilities w c = w\<lparr>wa_ctap := set_capabilities (wa_ctap w) c\<rparr>"

definition webauthn_set_user_presence ::
  "('b, 'p, 'v) WebAuthnAuthenticator \<Rightarrow> 'p option \<Rightarrow> ('b, 'p, 'v) WebAuthnAuthenticator" where
  "webauthn_set_user_presence w p = w\<lparr>wa_ctap := set_user_presence (wa_ctap w) p\<rparr>"

definition webauthn_set_user_verification ::
  "('b, 'p, 'v) WebAuthnAuthenticator \<Rightarrow> 'v option \<Rightarrow> ('b, 'p, 'v) WebAuthnAuthenticator" where
  "webauthn_set_user_verification w v = w\<lparr>wa_ctap := set_user_verification (wa_ctap w) v\<rparr>"

subsection \<open>Capabilities on the wire\<close>

definition ctap2_capabilities :: "Capabilities \<Rightarrow> Ctap2Capabilities" where
  "ctap2_capabilities caps =
     (let versions = (if Proto_Ctap2 \<in> set (cp_protocols caps) then [''2.0''] else [])
            @ (if Proto_Ctap21 \<in> set (cp_protocols caps) then [''2.1''] else []);
          versions = (if versions = [] then [''2.0''] else versions);
          exts = (if Ext_CredProtect \<in> set (cp_extensions caps) then [''credProtect''] else [])
            @ (if Ext_CredBlob \<in> set (cp_extensions caps) then [''credBlob''] else [])
            @ (if Ext_MinPinLength \<in> set (cp_extensions caps) then [''minPinLength''] else [])
            @ (if Ext_HmacSecret \<in> set (cp_extensions caps) then [''hmac-secret''] else []);
          options = (if cp_rk caps then [''rk''] else []) @ (if cp_up caps then [''up''] else [])
            @ (if cp_uv caps then [''uv''] else [])
            @ (if cp_client_pin_available caps then [''clientPin'', ''pinUvAuthToken''] else [])
            @ [''credMgmt''];
          protocols = (if cp_client_pin_available caps \<or> cp_uv caps then [1, 2] else []);
          sec = cp_security caps
      in \<lparr>cap_aaguid = cp_aaguid caps, cap_versions = versions, cap_extensions = exts, cap_options = options,
          cap_rp_count = cp_rp_count caps, cap_max_cred_blob_length = cp_max_cred_blob_length caps,
          cap_max_credential_id_length = cp_max_credential_id_length caps,
          cap_max_credential_count = cp_max_credentials caps, cap_firmware_version = cp_firmware_version caps,
          cap_min_pin_length = Some 4, cap_pin_uv_auth_protocols = protocols,
          cap_security =
            \<lparr>secure_boot = bs_secure_boot sec, trust_zone = bs_trust_zone sec, hardware_rng = bs_hardware_rng sec,
             sha256_accelerator = bs_sha256_accelerator sec, debug_disable = bs_debug_disable sec,
             otp_memory = bs_otp_memory sec, unique_id = bs_unique_id sec, tamper_detection = bs_tamper_detection sec\<rparr>,
          cap_max_large_blob_data_size = Some 4096\<rparr>)"

subsection \<open>Transports\<close>

text \<open>\<open>Box<dyn Transport>\<close>: a stub made from the profile, or an injected transport with the operations \<open>xops\<close>.\<close>

datatype 'x BoxedTransport = Box_Stub TransportType bool | Box_Injected 'x

definition stub_of :: "TransportType \<Rightarrow> bool TransportOps" where
  "stub_of k = (case k of TT_UsbHid \<Rightarrow> usb_hid_stub | TT_UsbCcid \<Rightarrow> usb_ccid_stub | TT_Nfc \<Rightarrow> nfc_stub | TT_BleGatt \<Rightarrow> ble_gatt_stub)"

definition reboxed :: "('s \<Rightarrow> 't) \<Rightarrow> ('s, 'e, 'a) outcome \<Rightarrow> ('t, 'e, 'a) outcome" where
  "reboxed f r = (f (fst r), snd r)"

definition boxed_transport :: "'x TransportOps \<Rightarrow> 'x BoxedTransport TransportOps" where
  "boxed_transport xops =
     \<lparr>tr_init = (\<lambda>t. case t of Box_Stub k s \<Rightarrow> reboxed (Box_Stub k) (tr_init (stub_of k) s) | Box_Injected x \<Rightarrow> reboxed Box_Injected (tr_init xops x)),
      tr_send = (\<lambda>t d. case t of Box_Stub k s \<Rightarrow> reboxed (Box_Stub k) (tr_send (stub_of k) s d) | Box_Injected x \<Rightarrow> reboxed Box_Injected (tr_send xops x d)),
      tr_recv = (\<lambda>t. case t of Box_Stub k s \<Rightarrow> map_option (reboxed (Box_Stub k)) (tr_recv (stub_of k) s) | Box_Injected x \<Rightarrow> map_option (reboxed Box_Injected) (tr_recv xops x)),
      tr_close = (\<lambda>t. case t of Box_Stub k s \<Rightarrow> reboxed (Box_Stub k) (tr_close (stub_of k) s) | Box_Injected x \<Rightarrow> reboxed Box_Injected (tr_close xops x))\<rparr>"

definition init_transports :: "TransportConfig list \<Rightarrow> 'x BoxedTransport list" where
  "init_transports configs = map (\<lambda>c. Box_Stub (transport_type c) False) configs"

definition init_transport :: "TransportConfig option \<Rightarrow> 'x BoxedTransport option" where
  "init_transport config =
     (let slice = (case config of Some c \<Rightarrow> [c] | None \<Rightarrow> [])
      in case init_transports slice of [] \<Rightarrow> None | t # ts \<Rightarrow> Some t)"

definition transports_from_profile :: "DeviceProfile \<Rightarrow> 'x BoxedTransport MultiTransport" where
  "transports_from_profile p = multi_new (init_transports (active_transport_configs p))"

subsection \<open>EmbeddedAuthenticator\<close>

record ('b, 'p, 'v, 'x) EmbeddedAuthenticator =
  ea_webauthn :: "('b, 'p, 'v) WebAuthnAuthenticator"
  ea_discovery :: CapabilityDiscovery
  ea_transports :: "'x BoxedTransport list"

definition from_profile_and_storage ::
  "DeviceProfile \<Rightarrow> CryptoEngine \<Rightarrow> 'b StorageEngine \<Rightarrow> 'x option \<Rightarrow> nat \<Rightarrow> u64 \<Rightarrow> nat \<Rightarrow> ('b, 'p, 'v, 'x) EmbeddedAuthenticator" where
  "from_profile_and_storage profile crypto storage injected draws last_ts reads =
     (let webauthn = webauthn_new (dp_aaguid profile) crypto storage draws last_ts reads;
          transports = (case injected of
             Some x \<Rightarrow> [Box_Injected x]
           | None \<Rightarrow> init_transports (active_transport_configs profile));
          discovery = discovery_new profile
      in \<lparr>ea_webauthn = webauthn_set_capabilities webauthn (ctap2_capabilities (discovery_capabilities discovery)),
          ea_discovery = discovery, ea_transports = transports\<rparr>)"

text \<open>\<open>CryptoEngine::new()\<close> draws the key, so that the generator stands one draw further.\<close>

definition new_with_profile ::
  "('b, 'p, 'v) cenv \<Rightarrow> DeviceProfile \<Rightarrow> nat \<Rightarrow> u64 \<Rightarrow> nat \<Rightarrow> (DeviceError, ('b, 'p, 'v, 'x) EmbeddedAuthenticator) result" where
  "new_with_profile env profile draws last_ts reads =
     bind_result (map_err Dev_Crypto (engine_new (ring (senv env)) draws)) (\<lambda>crypto.
     bind_result (map_err Dev_Engine storage_new) (\<lambda>storage.
       Inr (from_profile_and_storage profile crypto storage None (draws + 1) last_ts reads)))"

definition device_new ::
  "('b, 'p, 'v) cenv \<Rightarrow> nat \<Rightarrow> u64 \<Rightarrow> nat \<Rightarrow> (DeviceError, ('b, 'p, 'v, 'x) EmbeddedAuthenticator) result" where
  "device_new env draws last_ts reads = new_with_profile env (build builder_new) draws last_ts reads"

definition new_with_profile_and_transport ::
  "('b, 'p, 'v) cenv \<Rightarrow> DeviceProfile \<Rightarrow> 'x \<Rightarrow> nat \<Rightarrow> u64 \<Rightarrow> nat \<Rightarrow> (DeviceError, ('b, 'p, 'v, 'x) EmbeddedAuthenticator) result" where
  "new_with_profile_and_transport env profile transport draws last_ts reads =
     bind_result (map_err Dev_Crypto (engine_new (ring (senv env)) draws)) (\<lambda>crypto.
     bind_result (map_err Dev_Engine storage_new) (\<lambda>storage.
       Inr (from_profile_and_storage profile crypto storage (Some transport) (draws + 1) last_ts reads)))"

definition new_with_profile_and_transports ::
  "('b, 'p, 'v) cenv \<Rightarrow> DeviceProfile \<Rightarrow> 'x BoxedTransport list \<Rightarrow> nat \<Rightarrow> u64 \<Rightarrow> nat \<Rightarrow> (DeviceError, ('b, 'p, 'v, 'x) EmbeddedAuthenticator) result" where
  "new_with_profile_and_transports env profile transports draws last_ts reads =
     bind_result (map_err Dev_Crypto (engine_new (ring (senv env)) draws)) (\<lambda>crypto.
     bind_result (map_err Dev_Engine storage_new) (\<lambda>storage.
       (let webauthn = webauthn_new (dp_aaguid profile) crypto storage (draws + 1) last_ts reads;
            discovery = discovery_new profile
        in Inr \<lparr>ea_webauthn = webauthn_set_capabilities webauthn (ctap2_capabilities (discovery_capabilities discovery)),
                ea_discovery = discovery, ea_transports = transports\<rparr>)))"

text \<open>The storage of a host: the master key is the digest of the path of the file, given as its text.\<close>

definition derive_key_from_path :: "RingPrims \<Rightarrow> string \<Rightarrow> bytes" where
  "derive_key_from_path prims path = sha256 prims (str_bytes path)"

definition new_with_insecure_host_storage ::
  "(FileStorageBackend, 'p, 'v) cenv \<Rightarrow> JsonCodec \<Rightarrow> FileSystem \<Rightarrow> path \<Rightarrow> string \<Rightarrow> DeviceProfile \<Rightarrow> nat \<Rightarrow> u64 \<Rightarrow> nat
     \<Rightarrow> (DeviceError, (FileStorageBackend, 'p, 'v, 'x) EmbeddedAuthenticator) result" where
  "new_with_insecure_host_storage env json fs path path_text profile draws last_ts reads =
     (let crypto = from_key (derive_key_from_path (ring (senv env)) path_text)
      in bind_result (map_err Dev_Storage (file_new json fs path)) (\<lambda>b.
           Inr (from_profile_and_storage profile crypto (with_backend (senv env) b) None draws last_ts reads)))"

definition device_transport :: "('b, 'p, 'v, 'x) EmbeddedAuthenticator \<Rightarrow> 'x BoxedTransport option" where
  "device_transport d = (case ea_transports d of [] \<Rightarrow> None | t # ts \<Rightarrow> Some t)"

definition device_add_transport :: "('b, 'p, 'v, 'x) EmbeddedAuthenticator \<Rightarrow> 'x BoxedTransport \<Rightarrow> ('b, 'p, 'v, 'x) EmbeddedAuthenticator" where
  "device_add_transport d t = d\<lparr>ea_transports := ea_transports d @ [t]\<rparr>"

definition device_capabilities :: "('b, 'p, 'v, 'x) EmbeddedAuthenticator \<Rightarrow> Capabilities" where
  "device_capabilities d = discovery_capabilities (ea_discovery d)"

definition device_profile :: "('b, 'p, 'v, 'x) EmbeddedAuthenticator \<Rightarrow> DeviceProfile" where
  "device_profile d = cd_profile (ea_discovery d)"

definition device_set_user_presence ::
  "('b, 'p, 'v, 'x) EmbeddedAuthenticator \<Rightarrow> 'p option \<Rightarrow> ('b, 'p, 'v, 'x) EmbeddedAuthenticator" where
  "device_set_user_presence d p = d\<lparr>ea_webauthn := webauthn_set_user_presence (ea_webauthn d) p\<rparr>"

definition device_set_user_verification ::
  "('b, 'p, 'v, 'x) EmbeddedAuthenticator \<Rightarrow> 'v option \<Rightarrow> ('b, 'p, 'v, 'x) EmbeddedAuthenticator" where
  "device_set_user_verification d v = d\<lparr>ea_webauthn := webauthn_set_user_verification (ea_webauthn d) v\<rparr>"

text \<open>
  \<open>BoardUserVerification\<close> and \<open>ButtonPresence\<close> adapt the drivers of a board; the verifier is a parameter with its
  error, and the presence object of a device with a button is that button.
\<close>

datatype UserVerificationError = VerificationFailed

definition board_verify :: "('v \<Rightarrow> 'v \<times> (UserVerificationError, unit) result) \<Rightarrow> 'v \<Rightarrow> 'v \<times> (Ctap2Error, unit) result" where
  "board_verify verify_user v = (let (v, r) = verify_user v in (v, map_err (\<lambda>_. Err_UvBlocked) r))"

definition set_board_user_presence ::
  "('b, BootselButton, 'v, 'x) EmbeddedAuthenticator \<Rightarrow> BoardDefinition \<Rightarrow> ('b, BootselButton, 'v, 'x) EmbeddedAuthenticator" where
  "set_board_user_presence d board =
     (case bd_presence_source board of
        Presence_Bootsel \<Rightarrow> device_set_user_presence d (Some (bootsel_new qspi_new))
      | Presence_None \<Rightarrow> d)"

definition new_with_board ::
  "('b, BootselButton, 'v) cenv \<Rightarrow> BoardDefinition \<Rightarrow> nat \<Rightarrow> u64 \<Rightarrow> nat
     \<Rightarrow> (DeviceError, ('b, BootselButton, 'v, 'x) EmbeddedAuthenticator) result" where
  "new_with_board env board draws last_ts reads =
     bind_result (new_with_profile env (build (from_board board)) draws last_ts reads) (\<lambda>d.
       Inr (set_board_user_presence d board))"

text \<open>The commands go to the WebAuthn layer.\<close>

definition on_webauthn ::
  "(('b, 'p, 'v) WebAuthnAuthenticator, 'e, 'a) outcome \<Rightarrow> ('b, 'p, 'v, 'x) EmbeddedAuthenticator
     \<Rightarrow> (('b, 'p, 'v, 'x) EmbeddedAuthenticator, 'e, 'a) outcome" where
  "on_webauthn r d = (d\<lparr>ea_webauthn := fst r\<rparr>, snd r)"

definition device_make_credential ::
  "('b, 'p, 'v) cenv \<Rightarrow> ('b, 'p, 'v, 'x) EmbeddedAuthenticator \<Rightarrow> MakeCredentialRequest
     \<Rightarrow> (('b, 'p, 'v, 'x) EmbeddedAuthenticator, DeviceError, MakeCredentialResponse) outcome" where
  "device_make_credential env d req = on_webauthn (webauthn_make_credential env (ea_webauthn d) req) d"

definition device_get_assertion ::
  "('b, 'p, 'v) cenv \<Rightarrow> ('b, 'p, 'v, 'x) EmbeddedAuthenticator \<Rightarrow> GetAssertionRequest
     \<Rightarrow> (('b, 'p, 'v, 'x) EmbeddedAuthenticator, DeviceError, GetAssertionResponse) outcome" where
  "device_get_assertion env d req = on_webauthn (webauthn_get_assertion env (ea_webauthn d) req) d"

definition device_get_info ::
  "('b, 'p, 'v) cenv \<Rightarrow> ('b, 'p, 'v, 'x) EmbeddedAuthenticator \<Rightarrow> (DeviceError, GetInfoResponse) result" where
  "device_get_info env d = webauthn_get_info env (ea_webauthn d)"

definition device_get_version :: "('b, 'p, 'v, 'x) EmbeddedAuthenticator \<Rightarrow> (DeviceError, GetVersionResponse) result" where
  "device_get_version d = webauthn_get_version (ea_webauthn d)"

definition device_process_command ::
  "('b, 'p, 'v) cenv \<Rightarrow> ('b, 'p, 'v, 'x) EmbeddedAuthenticator \<Rightarrow> u8 \<Rightarrow> bytes
     \<Rightarrow> (('b, 'p, 'v, 'x) EmbeddedAuthenticator, Ctap2Error, bytes) outcome" where
  "device_process_command env d cmd data = on_webauthn (webauthn_process_command env (ea_webauthn d) cmd data) d"

end
