(* ===== verification/Token_Permissions.thy ===== *)
theory Token_Permissions
  imports Command_Frames
begin

section \<open>The permissions of the tokens a device issues\<close>

text \<open>
  \<open>validate_permissions\<close> of \<open>client_pin.rs\<close> compares the permissions asked for with the options of the device. Every
  token in circulation went through it, or has the permissions of the legacy subcommand: the invariant
  \<open>token_announced\<close>, which every command keeps. \<open>granting c\<close> is the relation of the steps that keep it on a device
  with the capabilities \<open>c\<close>.
\<close>

definition announced :: "Ctap2Capabilities \<Rightarrow> u8 \<Rightarrow> bool" where
  "announced c p \<longleftrightarrow> p \<noteq> 0
     \<and> (p AND PERMISSION_BE \<noteq> 0 \<longrightarrow> ''bioEnroll'' \<in> set (cap_options c))
     \<and> (p AND PERMISSION_ACFG \<noteq> 0 \<longrightarrow> ''authnrCfg'' \<in> set (cap_options c))
     \<and> (p AND PERMISSION_CM \<noteq> 0 \<longrightarrow> ''credMgmt'' \<in> set (cap_options c))
     \<and> (p AND PERMISSION_LBW \<noteq> 0 \<longrightarrow> ''largeBlobs'' \<in> set (cap_options c))"

lemma validate_announced: "validate_permissions a p = Inr u \<longleftrightarrow> announced (au_capabilities a) p"
  by (auto simp: validate_permissions_def announced_def has_option_def)

lemma announced_legacy: "announced c PERMISSION_MC_GA"
  by (simp add: announced_def PERMISSION_MC_GA_def PERMISSION_MC_def PERMISSION_GA_def PERMISSION_BE_def PERMISSION_ACFG_def
      PERMISSION_CM_def PERMISSION_LBW_def)

definition token_announced :: "Ctap2Capabilities \<Rightarrow> ('b, 'p, 'v) auth \<Rightarrow> bool" where
  "token_announced c a \<longleftrightarrow> au_capabilities a = c
     \<and> (\<forall>tok. au_pin_uv_auth_token a = Some tok \<longrightarrow> announced c (tok_permissions tok))"

definition granting :: "Ctap2Capabilities \<Rightarrow> ('b, 'p, 'v) auth \<Rightarrow> ('b, 'p, 'v) auth \<Rightarrow> bool" where
  "granting c a a' \<longleftrightarrow> (token_announced c a \<longrightarrow> token_announced c a')"

interpretation granted: step_relation "granting c" for c
  by unfold_locales (auto simp: granting_def)

named_theorems granting_intros

lemmas granting_operators [granting_intros] = granted.step_attempt granted.step_check granted.step_andthen

lemma token_announced_mono:
  "token_announced c a \<Longrightarrow> au_capabilities a' = au_capabilities a
     \<Longrightarrow> au_pin_uv_auth_token a' = au_pin_uv_auth_token a \<or> au_pin_uv_auth_token a' = None \<Longrightarrow> token_announced c a'"
  unfolding token_announced_def by (elim disjE) simp_all

lemma granting_same:
  "au_capabilities a' = au_capabilities a \<Longrightarrow> au_pin_uv_auth_token a' = au_pin_uv_auth_token a \<or> au_pin_uv_auth_token a' = None
     \<Longrightarrow> granting c a a'"
  unfolding granting_def by (blast intro: token_announced_mono)

lemma granting_after:
  "granting c b a' \<Longrightarrow> au_capabilities b = au_capabilities a
     \<Longrightarrow> au_pin_uv_auth_token b = au_pin_uv_auth_token a \<or> au_pin_uv_auth_token b = None \<Longrightarrow> granting c a a'"
  unfolding granting_def by (blast intro: token_announced_mono)

lemma granting_before:
  "granting c a b \<Longrightarrow> au_capabilities a' = au_capabilities b
     \<Longrightarrow> au_pin_uv_auth_token a' = au_pin_uv_auth_token b \<or> au_pin_uv_auth_token a' = None \<Longrightarrow> granting c a a'"
  unfolding granting_def by (blast intro: token_announced_mono)

lemma granting_if: "(token_announced c a \<Longrightarrow> granting c a a') \<Longrightarrow> granting c a a'"
  by (auto simp: granting_def)

subsection \<open>Operations that leave capabilities and token alone\<close>

lemma token_same [simp]:
  "au_capabilities (fst (auth_store env a k v)) = au_capabilities a" "au_pin_uv_auth_token (fst (auth_store env a k v)) = au_pin_uv_auth_token a"
  "au_capabilities (fst (auth_delete env a k)) = au_capabilities a" "au_pin_uv_auth_token (fst (auth_delete env a k)) = au_pin_uv_auth_token a"
  "au_capabilities (next_draw a) = au_capabilities a" "au_pin_uv_auth_token (next_draw a) = au_pin_uv_auth_token a"
  "au_capabilities (fst (auth_random env a n)) = au_capabilities a" "au_pin_uv_auth_token (fst (auth_random env a n)) = au_pin_uv_auth_token a"
  by (simp_all add: auth_store_def auth_delete_def next_draw_def auth_random_def Let_def split_beta)

lemma granting_basic [granting_intros]:
  "granting c a a"
  "granting c a (next_draw a)"
  "granting c a (fst (auth_store env a k v))"
  "granting c a (fst (auth_delete env a k))"
  "granting c a (fst (auth_random env a n))"
  "granting c a (fst (current_timestamp env a))"
  "granting c a (fst (generate_credential_id env a))"
  "granting c a (fst (generate_credential_key env a alg))"
  "granting c a (fst (generate_large_blob_key env a ext))"
  "granting c a (fst (sign_for_attestation env a alg priv data))"
  "granting c a (fst (sign_assertion env a cr data))"
  "granting c a (fst (require_presence env a up))"
  "granting c a (fst (take_pin_agreement_key a))"
  "granting c a (fst (respond env codec a x))"
  "granting c a (fst (auth_store_credential env a cr))"
  "granting c a (fst (auth_update_sign_count env a i m))"
  "granting c a (decrement_pin_retries env a)"
  "granting c a (reset_pin_retries env a)"
  "granting c a (fst (perform_builtin_uv env a))"
  by (rule granting_same;
      auto simp: next_draw_def auth_random_def current_timestamp_def generate_credential_id_def generate_credential_key_def
        generate_large_blob_key_def sign_for_attestation_def sign_assertion_def require_presence_def take_pin_agreement_key_def
        respond_def auth_store_credential_def auth_update_sign_count_def decrement_pin_retries_def reset_pin_retries_def
        perform_builtin_uv_def reset_uv_retries_def decrement_uv_retries_def Let_def split_beta split: option.splits sum.splits)+

lemma granting_mapped [granting_intros]:
  "granting c a (fst (map_outcome_err f (auth_store env a k v)))" "granting c a (fst (store_or_unknown env a k v))"
  "granting c a (fst (toggle_flag env a k))"
  by (simp_all add: store_or_unknown_def toggle_flag_def granting_basic)

subsection \<open>ClientPIN\<close>

lemma granting_key_agreement [granting_intros]: "granting c a (fst (perform_key_agreement env a protocol peer))"
  unfolding perform_key_agreement_def Let_def
  by (intro granting_intros granted.step_split) (auto intro: granting_intros split: option.split)

lemma granting_get_key_agreement [granting_intros]: "granting c a (fst (handle_get_key_agreement env a req))"
  unfolding handle_get_key_agreement_def Let_def
  by (intro granting_intros) (simp_all add: granting_basic, auto intro!: granting_same simp: attempt_def set_pin_agreement_key_def split: sum.split)

lemma granting_issue:
  assumes "announced c permissions"
  shows "granting c a (fst (issue_pin_uv_auth_token env a protocol secret permissions rp))"
proof -
  have "granting c b (set_pin_shared_secret (set_pin_uv_auth_token b t permissions rp v) secret v)" for b t v
    using assms by (simp add: granting_def token_announced_def set_pin_shared_secret_def set_pin_uv_auth_token_def)
  then show ?thesis
    unfolding issue_pin_uv_auth_token_def Let_def
    by (intro granted.step_split granted.step_andthen granting_basic) (simp_all add: granting_basic)
qed

lemma granting_check_pin_hash [granting_intros]: "granting c a (fst (check_pin_hash env a protocol secret enc))"
proof -
  have "granting c b (fst (case register_pin_failure env b of (b, e) \<Rightarrow> (b, Inl e)))" for b
    by (rule granting_same) (simp_all add: register_pin_failure_def Let_def)
  then show ?thesis
    unfolding check_pin_hash_def pin_failure_error_def Let_def
    by (intro granted.step_trans [OF granting_basic(17) [where c = c and a = a]]) (auto simp: granting_basic split: sum.split)
qed

lemma granting_set_pin [granting_intros]: "granting c a (fst (set_pin env a pin))"
  unfolding set_pin_def by (intro granting_intros) (simp, rule granting_before [OF granting_basic(18)], simp_all)

lemma granting_set_and_change [granting_intros]:
  "granting c a (fst (handle_set_pin env a req))" "granting c a (fst (handle_change_pin env a req))"
proof -
  have "granting c b (fst (map_outcome_err f (auth_store env (invalidate_pin_uv_auth_token b) k v)))" for b f k v
    by (rule granting_same) (simp_all add: map_outcome_err_def invalidate_pin_uv_auth_token_def)
  then show "granting c a (fst (handle_set_pin env a req))" "granting c a (fst (handle_change_pin env a req))"
    unfolding handle_set_pin_def handle_change_pin_def by (intro granting_intros; simp add: granting_basic)+
qed

lemma granting_token_common:
  "announced c permissions \<Longrightarrow> granting c a (fst (handle_get_pin_token_common env a req protocol permissions rp))"
  unfolding handle_get_pin_token_common_def by (intro granting_intros granting_issue) (simp_all add: granting_basic)

lemma granting_tokens [granting_intros]:
  "granting c a (fst (handle_get_pin_token env a req))"
  "granting c a (fst (handle_get_pin_token_with_permissions env a req))"
  "granting c a (fst (handle_get_uv_token env a req))"
proof -
  show "granting c a (fst (handle_get_pin_token env a req))"
    unfolding handle_get_pin_token_def by (intro granting_intros granting_token_common announced_legacy)
  show "granting c a (fst (handle_get_pin_token_with_permissions env a req))"
    unfolding handle_get_pin_token_with_permissions_def
    by (rule granting_if, intro granted.step_attempt granted.step_check granting_token_common)
       (simp add: validate_announced token_announced_def)
  show "granting c a (fst (handle_get_uv_token env a req))"
    unfolding handle_get_uv_token_def
    by (rule granting_if, intro granting_intros granting_issue) (simp_all add: validate_announced token_announced_def granting_basic)
qed

lemma granting_client_pin: "granting c a (fst (handle_client_pin env a data))"
proof -
  have "granting c a (fst (run_client_pin env a sub req))" for sub req
    by (cases sub) (simp_all add: run_client_pin_def granting_intros)
  then show ?thesis unfolding handle_client_pin_def by (intro granting_intros) (auto simp: granting_basic)
qed

subsection \<open>The other commands\<close>

lemma granting_hmac [granting_intros]:
  "granting c a (fst (begin_session env a req))" "granting c a (fst (session_output env a s cr))"
  unfolding begin_session_def session_output_def Let_def
  by (intro granted.step_split granting_intros; simp add: granting_basic)+

lemma granting_attest [granting_intros]:
  "granting c a (fst (generate_cred_randoms env a ext))" "granting c a (fst (attest env a fmt data ct))"
  "granting c a (fst (authorize env a pr pa h perm rp uv up))"
proof -
  show "granting c a (fst (generate_cred_randoms env a ext))"
    by (rule granting_same) (auto simp: generate_cred_randoms_def auth_random_def next_draw_def attempt_def split: option.splits sum.splits)
  show "granting c a (fst (attest env a fmt data ct))"
    unfolding attest_def self_generate_def packed_generate_def Let_def
    by (cases fmt) (simp_all add: granting_basic, (intro granting_intros; simp add: granting_basic)+)
  show "granting c a (fst (authorize env a pr pa h perm rp uv up))"
    unfolding authorize_def by (intro granting_intros) (simp_all add: granting_basic)
qed

lemma granting_hmac_output [granting_intros]:
  "granting c a (fst (assertion_hmac_output env a req raw cr p))"
  "granting c a (fst (chained_hmac_output env a st cr))"
  "granting c a (fst (prepare_chain env a req cr f u))"
proof -
  have "granting c a (fst (case r of None \<Rightarrow> (a, Inr None) | Some cred_random \<Rightarrow>
           andthen (begin_session env a req) (\<lambda>session a.
           andthen (session_output env a session cred_random) (\<lambda>encrypted a.
             (a\<lparr>au_hmac_secret_session := Some session\<rparr>, Inr (Some (Bytes encrypted)))))))" for r req
    by (cases r) (simp_all add: granting_basic, (intro granting_intros; simp add: granting_same)+)
  then show "granting c a (fst (assertion_hmac_output env a req raw cr p))"
    unfolding assertion_hmac_output_def by (intro granted.step_attempt granted.step_check)
  show "granting c a (fst (chained_hmac_output env a st cr))"
    unfolding chained_hmac_output_def by (auto intro!: granting_intros split: option.split)
qed (simp add: prepare_chain_def Let_def granting_same)

lemma granting_outputs [granting_intros]: "granting c a (fst (assertion_extension_outputs env a req cr p))"
  unfolding assertion_extension_outputs_def Let_def by (auto intro!: granting_intros split: option.split)

lemma granting_count [granting_intros]:
  "granting c a (fst (next_sign_count env a))" "granting c a (fst (count_and_sign env a cr h f d))"
proof -
  show n: "granting c b (fst (next_sign_count env b))" for b
    by (auto simp: next_sign_count_def intro!: granting_intros split: option.split)
  show "granting c a (fst (count_and_sign env a cr h f d))"
    unfolding count_and_sign_def by (intro granting_intros n) (simp_all add: granting_basic)
qed

lemma granting_enumerate [granting_intros]:
  "granting c a (fst (handle_enumerate_rps_initial env a))"
  "granting c a (fst (handle_enumerate_rps_next env a))"
  "granting c a (fst (handle_cred_mgmt_get_metadata env a))"
  "granting c a (fst (handle_cred_mgmt_enumerate_rps_begin env a))"
  "granting c a (fst (handle_cred_mgmt_enumerate_rps_next env a))"
  "granting c a (fst (handle_cred_mgmt_enumerate_creds_begin env a h))"
  "granting c a (fst (handle_cred_mgmt_enumerate_creds_next env a))"
  "granting c a (fst (handle_cred_mgmt_delete_credential env a i))"
  "granting c a (fst (handle_cred_mgmt_update_user env a i u))"
  by (rule granting_same; simp add: handle_enumerate_rps_initial_def handle_enumerate_rps_next_def handle_cred_mgmt_get_metadata_def
      handle_cred_mgmt_enumerate_rps_begin_def handle_cred_mgmt_enumerate_rps_next_def
      handle_cred_mgmt_enumerate_creds_begin_def handle_cred_mgmt_enumerate_creds_next_def handle_cred_mgmt_delete_credential_def
      handle_cred_mgmt_update_user_def respond_def Let_def split_beta split: option.split)+

lemma granting_credential_management [granting_intros]: "granting c a (fst (handle_credential_management env a data))"
proof -
  have "granting c a (fst (run_cred_mgmt env a req))" for req
    unfolding run_cred_mgmt_def Let_def by (auto intro!: granting_intros)
  then show ?thesis unfolding handle_credential_management_def by (auto intro!: granting_intros)
qed

lemma granting_large_blobs [granting_intros]: "granting c a (fst (handle_large_blobs env a data))"
proof -
  have "granting c a (fst (large_blobs_write env a req d))" for req d
    unfolding large_blobs_write_def Let_def split_beta
    by (intro granted.step_attempt granted.step_check) (auto intro!: granting_same simp: attempt_def respond_def split: sum.split)
  then show ?thesis
    unfolding handle_large_blobs_def large_blobs_read_def Let_def
    by (intro granting_intros) (auto split: option.split intro!: granting_intros)
qed

lemma granting_get_assertion [granting_intros]: "granting c a (fst (get_assertion env a req))"
  unfolding get_assertion_def Let_def split_beta
  by (intro granting_intros) (simp_all add: granting_same granting_hmac_output)

lemma granting_next_assertion [granting_intros]: "granting c a (fst (next_assertion env a))"
proof (cases "au_get_next_assertion_state a")
  case (Some st)
  have respond: "granting c b (fst (build_get_assertion_response env b cr n h f v))" for b cr n h f v
    unfolding build_get_assertion_response_def split_beta by (intro granting_intros) (simp add: granting_basic)
  show ?thesis
    unfolding next_assertion_def Some option.case Let_def
    by (rule granting_after [where b = "a\<lparr>au_get_next_assertion_state := None\<rparr>"])
       (auto intro!: granting_intros granting_after [OF respond] intro: granting_same)
qed (simp add: next_assertion_def granting_basic)

lemma granting_make_credential [granting_intros]: "granting c a (fst (make_credential env a req))"
proof -
  have cr: "granting c b (fst (create_credential env b req alg blob))" for b alg blob
    unfolding create_credential_def Let_def
    by (intro granted.step_split granted.step_case granting_intros) (simp_all add: granting_basic)
  have ep: "granting c b (fst (consume_ep_pending env b))" for b
    by (simp add: consume_ep_pending_def granting_basic Let_def)
  show ?thesis
    unfolding make_credential_def Let_def
    by (intro granted.step_split granting_intros granted.step_case cr ep) (simp add: granting_basic)
qed

lemma granting_authnr_config [granting_intros]: "granting c a (fst (handle_authnr_config env a data))"
proof -
  have pin: "granting c b (fst (verify_current_pin env b enc))" for b enc
    unfolding verify_current_pin_def take_pin_shared_secret_def Let_def prod.case split_beta
    by (rule granting_after [where b = "b\<lparr>au_pin_shared_secret := None\<rparr>"]) (simp_all, intro granting_intros, simp_all add: granting_basic)
  have "granting c a (fst (handle_set_min_pin_length env a params))" "granting c a (fst (handle_set_min_pin_length_rpids env a params))" for params
    unfolding handle_set_min_pin_length_def handle_set_min_pin_length_rpids_def Let_def
    by (intro granting_intros; auto simp: granting_basic granting_mapped pin split: option.split)+
  then have "granting c a (fst (run_config_sub_command env a req))" for req
    by (auto simp: run_config_sub_command_def intro!: granting_intros)
  then show ?thesis unfolding handle_authnr_config_def by (intro granting_intros) (auto simp: granting_basic)
qed

lemma granting_reset [granting_intros]: "granting c a (fst (handle_reset env a))"
  unfolding handle_reset_def by (intro granting_intros) (simp add: granting_same)

lemma granting_process_command: "granting c a (fst (process_command env a cmd data))"
proof -
  let ?a = "if command_from_u8 cmd = Cmd_GetNextAssertion then a else a\<lparr>au_hmac_secret_session := None\<rparr>"
  have "granting c ?a (fst (process_command env a cmd data))"
    unfolding process_command_def Let_def
    by (cases "command_from_u8 cmd")
       (simp_all add: handle_selection_def handle_get_version_def handle_bio_enroll_def handle_get_next_assertion_def granting_client_pin,
        (intro granting_intros; simp add: granting_basic)+)
  then show ?thesis by (rule granting_after) simp_all
qed

end
