(* ===== verification/Device_Safety.thy ===== *)
theory Device_Safety
  imports Device Token_Permissions
begin

section \<open>Devices built from a profile\<close>

text \<open>
  What a profile decides about the device: the contents of GetInfo, and which permissions its tokens can have. A step
  of a device is a call of one of the methods of \<open>EmbeddedAuthenticator\<close> that change it.
\<close>

datatype ('p, 'v, 'x) DeviceStep =
    Step_Command u8 bytes
  | Step_MakeCredential MakeCredentialRequest
  | Step_GetAssertion GetAssertionRequest
  | Step_UserPresence "'p option"
  | Step_UserVerification "'v option"
  | Step_AddTransport "'x BoxedTransport"

primrec device_step ::
  "('b, 'p, 'v) cenv \<Rightarrow> ('b, 'p, 'v, 'x) EmbeddedAuthenticator \<Rightarrow> ('p, 'v, 'x) DeviceStep \<Rightarrow> ('b, 'p, 'v, 'x) EmbeddedAuthenticator" where
  "device_step env d (Step_Command cmd data) = fst (device_process_command env d cmd data)"
| "device_step env d (Step_MakeCredential req) = fst (device_make_credential env d req)"
| "device_step env d (Step_GetAssertion req) = fst (device_get_assertion env d req)"
| "device_step env d (Step_UserPresence p) = device_set_user_presence d p"
| "device_step env d (Step_UserVerification v) = device_set_user_verification d v"
| "device_step env d (Step_AddTransport t) = device_add_transport d t"

definition device_run ::
  "('b, 'p, 'v) cenv \<Rightarrow> ('b, 'p, 'v, 'x) EmbeddedAuthenticator \<Rightarrow> ('p, 'v, 'x) DeviceStep list \<Rightarrow> ('b, 'p, 'v, 'x) EmbeddedAuthenticator" where
  "device_run env d steps = foldl (device_step env) d steps"

abbreviation device_auth :: "('b, 'p, 'v, 'x) EmbeddedAuthenticator \<Rightarrow> ('b, 'p, 'v) auth" where
  "device_auth d \<equiv> wa_ctap (ea_webauthn d)"

abbreviation profile_capabilities :: "DeviceProfile \<Rightarrow> Ctap2Capabilities" where
  "profile_capabilities p \<equiv> ctap2_capabilities (discovery_capabilities (discovery_new p))"

lemma device_auth_set [simp]:
  "device_auth (device_set_user_presence d x) = set_user_presence (device_auth d) x"
  "device_auth (device_set_user_verification d v) = set_user_verification (device_auth d) v"
  "device_auth (device_add_transport d t) = device_auth d"
  by (simp_all add: device_set_user_presence_def device_set_user_verification_def device_add_transport_def
      webauthn_set_user_presence_def webauthn_set_user_verification_def)

lemma device_auth_command:
  "device_auth (fst (device_process_command env d cmd data)) = fst (process_command env (device_auth d) cmd data)"
  "snd (device_process_command env d cmd data) = snd (process_command env (device_auth d) cmd data)"
  by (simp_all add: device_process_command_def webauthn_process_command_def on_webauthn_def on_ctap_def map_err_def split: sum.split)

lemma device_auth_profile:
  "au_capabilities (device_auth (from_profile_and_storage p crypto storage injected draws ts reads)) = profile_capabilities p"
  "au_pin_uv_auth_token (device_auth (from_profile_and_storage p crypto storage injected draws ts reads)) = None"
  "au_user_verification (device_auth (from_profile_and_storage p crypto storage injected draws ts reads)) = None"
  "au_storage (device_auth (from_profile_and_storage p crypto storage injected draws ts reads)) = storage"
  by (simp_all add: from_profile_and_storage_def Let_def webauthn_set_capabilities_def webauthn_new_def set_capabilities_def
      authenticator_new_def)

subsection \<open>Tokens\<close>

text \<open>Every step keeps the invariant of theory \<open>Token_Permissions\<close>.\<close>

lemma granting_direct:
  "granting c (device_auth d) (device_auth (fst (device_make_credential env d req)))"
  "granting c (device_auth d) (device_auth (fst (device_get_assertion env d req')))"
  unfolding device_make_credential_def device_get_assertion_def webauthn_make_credential_def webauthn_get_assertion_def
    on_webauthn_def on_ctap_def attempt_def
  by (simp_all add: granting_basic granting_make_credential granting_get_assertion split: sum.split)

lemma granting_step: "granting c (device_auth d) (device_auth (device_step env d s))"
  by (cases s) (simp_all add: device_auth_command granting_process_command granting_direct granting_basic granting_same
      set_user_presence_def set_user_verification_def)

lemma granting_run: "granting c (device_auth d) (device_auth (device_run env d steps))"
  unfolding device_run_def
proof (induction steps arbitrary: d)
  case (Cons s steps)
  show ?case unfolding foldl.simps by (rule granted.step_trans [OF granting_step Cons.IH])
qed (simp add: granting_basic)

lemma profile_token_announced:
  "token_announced (profile_capabilities p)
     (device_auth (device_run env (from_profile_and_storage p crypto storage injected draws ts reads) steps))"
  using granting_run [of "profile_capabilities p" "from_profile_and_storage p crypto storage injected draws ts reads" env steps]
  by (simp add: granting_def token_announced_def device_auth_profile)

lemma profile_options:
  "''authnrCfg'' \<notin> set (cap_options (profile_capabilities p))" "''bioEnroll'' \<notin> set (cap_options (profile_capabilities p))"
  "''largeBlobs'' \<notin> set (cap_options (profile_capabilities p))"
  by (auto simp: ctap2_capabilities_def Let_def split: if_splits)

lemma config_unauthorized:
  assumes "token_announced c a" "''authnrCfg'' \<notin> set (cap_options c)"
  shows "fst (handle_authnr_config env a data) = a \<and> (\<exists>e. snd (handle_authnr_config env a data) = Inl e)"
proof -
  have zero: "tok_permissions tok AND PERMISSION_ACFG = 0" if "au_pin_uv_auth_token a = Some tok" for tok
    using assms that by (auto simp: token_announced_def announced_def)
  have "\<exists>e. verify_pin_uv_auth_for_operation env a (Some pr) (Some pa) m PERMISSION_ACFG rp = Inl e" for pr pa m rp
    using zero by (auto simp: verify_pin_uv_auth_for_operation_def bind_result_def ok_or_def PERMISSION_ACFG_def split: sum.split option.split)
  then show ?thesis
    unfolding handle_authnr_config_def check_def attempt_def by (auto split: sum.split) (metis Inl_Inr_False)+
qed


subsection \<open>GetInfo\<close>

text \<open>The names on the wire of the extensions a profile can have.\<close>

primrec extension_name :: "Extension \<Rightarrow> string" where
  "extension_name Ext_CredProtect = ''credProtect''"
| "extension_name Ext_CredBlob = ''credBlob''"
| "extension_name Ext_MinPinLength = ''minPinLength''"
| "extension_name Ext_HmacSecret = ''hmac-secret''"

lemma profile_extensions: "set (cap_extensions (profile_capabilities p)) = extension_name ` set (dp_extensions p)"
proof -
  have "x \<in> set (dp_extensions p) \<longrightarrow> extension_name x \<in> set (cap_extensions (profile_capabilities p))" for x
    by (cases x) (simp_all add: ctap2_capabilities_def discovery_capabilities_def discovery_new_def Let_def)
  moreover have "y \<in> extension_name ` set (dp_extensions p)" if "y \<in> set (cap_extensions (profile_capabilities p))" for y
    using that by (force simp: ctap2_capabilities_def discovery_capabilities_def discovery_new_def Let_def split: if_splits)
  ultimately show ?thesis by blast
qed

lemma profile_capability_fields:
  "cap_aaguid (profile_capabilities p) = dp_aaguid p" "cap_firmware_version (profile_capabilities p) = dp_firmware_version p"
  "cap_max_credential_count (profile_capabilities p) = dp_max_credentials p"
  "cap_pin_uv_auth_protocols (profile_capabilities p) = [] \<longleftrightarrow> dp_pin_policy p = Pin_Disabled \<and> \<not> dp_uv_support p"
  "has_any_features (cap_security (profile_capabilities p)) \<longleftrightarrow> dp_security p \<noteq> security_none"
  by (simp_all add: ctap2_capabilities_def discovery_capabilities_def discovery_new_def Let_def has_any_features_def
      flip: board_has_any_iff) (simp add: board_has_any_def)

lemma profile_versions:
  "''2.1'' \<in> set (cap_versions (profile_capabilities p)) \<longleftrightarrow> Proto_Ctap21 \<in> set (dp_protocols p)"
  "''2.0'' \<in> set (cap_versions (profile_capabilities p)) \<longleftrightarrow> Proto_Ctap2 \<in> set (dp_protocols p) \<or> Proto_Ctap21 \<notin> set (dp_protocols p)"
  by (simp_all add: ctap2_capabilities_def discovery_capabilities_def discovery_new_def Let_def)

text \<open>The options of GetInfo, in the order of the code.\<close>

lemma profile_info_options:
  assumes "au_capabilities a = profile_capabilities p"
  shows "info_options env a =
     (let pin = dp_pin_policy p \<noteq> Pin_Disabled; token = pin \<or> dp_uv_support p; set = is_pin_set env a in
      (if dp_rk_support p then [''rk''] else []) @ (if dp_up_support p then [''up''] else [])
      @ (if dp_uv_support p \<and> au_user_verification a \<noteq> None then [''uv''] else [])
      @ (if pin \<and> set then [''clientPin''] else []) @ (if pin then [''pinUvAuthToken''] else []) @ [''credMgmt'']
      @ (if token \<and> \<not> pin then [''pinUvAuthToken''] else []) @ (if token \<and> \<not> pin \<and> set then [''clientPin''] else []))"
proof -
  have "cap_options (au_capabilities a) =
      (if dp_rk_support p then [''rk''] else []) @ (if dp_up_support p then [''up''] else []) @ (if dp_uv_support p then [''uv''] else [])
      @ (if dp_pin_policy p \<noteq> Pin_Disabled then [''clientPin'', ''pinUvAuthToken''] else []) @ [''credMgmt'']"
    and "cap_pin_uv_auth_protocols (au_capabilities a) = (if dp_pin_policy p \<noteq> Pin_Disabled \<or> dp_uv_support p then [1, 2] else [])"
    unfolding assms by (simp_all add: ctap2_capabilities_def discovery_capabilities_def discovery_new_def Let_def)
  then show ?thesis by (simp add: info_options_def push_missing_def Let_def)
qed


subsection \<open>A concrete product\<close>

text \<open>A profile with all options, a sensor connected after the start.\<close>

definition example_profile :: DeviceProfile where
  "example_profile = build (uv_support True (pin_policy Pin_Optional (transport_config config_usb_hid
     (from_board (board_security_features security_rp2350 (board_usb_hid (board_new ''demo'' (replicate 16 7))))))))"

definition example_product :: "((string, bytes) btree, unit, unit, unit) EmbeddedAuthenticator" where
  "example_product = from_profile_and_storage example_profile (from_key (replicate 32 1)) (engine_empty None) None 0 0 0"



end
