(* ===== verification/Qspi.thy ===== *)
theory Qspi
  imports Flash Effects
begin

section \<open>The QSPI flash of the RP2350\<close>

text \<open>
  Models \<open>targets/rp2350/src/lib.rs\<close> (the geometry of the credential region) and \<open>targets/rp2350/src/qspi_flash.rs\<close>
  (\<open>QspiFlashDevice\<close>, the driver the firmware gives to the two-slot backend). The Boot ROM and the memory map are the
  record \<open>BootRom\<close> on a state \<open>'m\<close>; a function pointer is the address the ROM table holds under its tag, and calling
  it is the operation of the record. What the driver relies on of the ROM is \<open>rom_ok\<close>. The driver passes to the
  ROM the address in the XIP window (\<open>addr absoluto (XIP)\<close> in its comments), while the erase and program functions
  are specified for offsets from the start of the flash; \<open>rom_ok\<close> says only what these functions do for addresses in
  the window, which holds if the ROM takes them as they are and also if it uses their low 24 bits as the offset. The
  driver is shown to keep the contract \<open>flash_device\<close> of theory \<open>Flash\<close>, so that the crash safety of the backend
  holds on it.
\<close>

subsection \<open>Geometry\<close>

definition SECTOR_SIZE :: u32 where "SECTOR_SIZE = 4096"
definition REGION_LEN :: usize where "REGION_LEN = 128 * 1024"
definition XIP_BASE :: u32 where "XIP_BASE = 0x10000000"

definition region_for :: "u32 \<Rightarrow> (u32 \<times> usize) option" where
  "region_for total_flash =
     (if total_flash < 2 * SECTOR_SIZE then None
      else (let half = unat (total_flash div 2);
                cap = min REGION_LEN half;
                cap_aligned = (cap div unat SECTOR_SIZE) * unat SECTOR_SIZE
            in if cap_aligned < 2 * unat SECTOR_SIZE then None
               else Some (total_flash - of_nat cap_aligned, cap_aligned)))"

subsection \<open>The Boot ROM\<close>

datatype FlashDevInfoSize =
  Size_None | Size_K8 | Size_K16 | Size_K32 | Size_K64 | Size_K128 | Size_K256 | Size_K512
  | Size_M1 | Size_M2 | Size_M4 | Size_M8 | Size_M16 | Size_Unknown

record 'm BootRom =
  rom_table_lookup :: "string \<Rightarrow> u32 \<Rightarrow> usize"
  rom_connect :: "'m \<Rightarrow> 'm"
  rom_exit_xip :: "'m \<Rightarrow> 'm"
  rom_range_erase :: "'m \<Rightarrow> u32 \<Rightarrow> usize \<Rightarrow> 'm"
  rom_range_program :: "'m \<Rightarrow> u32 \<Rightarrow> bytes \<Rightarrow> 'm"
  rom_flush :: "'m \<Rightarrow> 'm"
  read_volatile :: "'m \<Rightarrow> u32 \<Rightarrow> u8"
  flash_dev_info :: "(unit, FlashDevInfoSize option) result"
  flash_binary_end :: u32

definition ROM_FUNC_ARM_SEC :: u32 where "ROM_FUNC_ARM_SEC = 0x0004"
definition PAGE_SIZE :: usize where "PAGE_SIZE = 256"

text \<open>The five tags in the order of the code; the first one that is missing is an error.\<close>

definition resolve_ptrs :: "'m BootRom \<Rightarrow> (StorageError, unit) result" where
  "resolve_ptrs rom =
     (if list_ex (\<lambda>tag. rom_table_lookup rom tag ROM_FUNC_ARM_SEC = 0) [''IF'', ''EX'', ''RE'', ''RP'', ''FC'']
      then Inl (BackendError ''bootrom: flash function missing'') else Inr ())"

datatype WindowOp = Win_Erase u32 usize | Win_ProgramPage u32 bytes

definition window_exec :: "'m BootRom \<Rightarrow> 'm \<Rightarrow> WindowOp \<Rightarrow> 'm" where
  "window_exec rom m op =
     (let m = rom_exit_xip rom m;
          m = (case op of Win_Erase addr n \<Rightarrow> rom_range_erase rom m addr n | Win_ProgramPage addr src \<Rightarrow> rom_range_program rom m addr src)
      in rom_flush rom m)"

definition run_windowed :: "'m BootRom \<Rightarrow> 'm \<Rightarrow> WindowOp \<Rightarrow> ('m, StorageError, unit) outcome" where
  "run_windowed rom m op = (window_exec rom (rom_connect rom m) op, Inr ())"

subsection \<open>The driver\<close>

record 'm QspiFlashDevice =
  q_mem :: 'm
  region_base :: u32
  q_capacity :: usize
  page_buf :: bytes

definition flash_total :: "FlashDevInfoSize \<Rightarrow> u32" where
  "flash_total s =
     (case s of
        Size_None \<Rightarrow> 0 | Size_K8 \<Rightarrow> 8 * 1024 | Size_K16 \<Rightarrow> 16 * 1024 | Size_K32 \<Rightarrow> 32 * 1024 | Size_K64 \<Rightarrow> 64 * 1024
      | Size_K128 \<Rightarrow> 128 * 1024 | Size_K256 \<Rightarrow> 256 * 1024 | Size_K512 \<Rightarrow> 512 * 1024 | Size_M1 \<Rightarrow> 1024 * 1024
      | Size_M2 \<Rightarrow> 2 * 1024 * 1024 | Size_M4 \<Rightarrow> 4 * 1024 * 1024 | Size_M8 \<Rightarrow> 8 * 1024 * 1024
      | Size_M16 \<Rightarrow> 16 * 1024 * 1024 | Size_Unknown \<Rightarrow> 0)"

definition qspi_open :: "'m BootRom \<Rightarrow> 'm \<Rightarrow> (StorageError, 'm QspiFlashDevice) result" where
  "qspi_open rom m =
     bind_result (map_err (\<lambda>_. BackendError ''ROM sysinfo unavailable'') (flash_dev_info rom)) (\<lambda>info.
     bind_result (ok_or info (BackendError ''ROM without FLASH_DEVINFO'')) (\<lambda>size.
       if flash_total size = 0 then Inl (BackendError ''unknown flash size (FLASH_DEVINFO)'')
       else bind_result (ok_or (region_for (flash_total size)) (BackendError ''flash too small for the region'')) (\<lambda>(base, capacity).
              if base \<le> flash_binary_end rom - XIP_BASE
              then Inl (BackendError ''credential region overlaps the firmware'')
              else Inr \<lparr>q_mem = m, region_base = base, q_capacity = capacity, page_buf = replicate PAGE_SIZE 0xFF\<rparr>)))"

definition xip_addr :: "'m QspiFlashDevice \<Rightarrow> usize \<Rightarrow> (StorageError, u32) result" where
  "xip_addr d offset =
     (if offset \<ge> q_capacity d then Inl (BackendError ''flash offset outside the region'')
      else Inr (XIP_BASE + region_base d + of_nat offset))"

text \<open>The loop that copies \<open>n\<close> bytes from the address.\<close>

definition xip_bytes :: "'m BootRom \<Rightarrow> 'm \<Rightarrow> u32 \<Rightarrow> usize \<Rightarrow> bytes" where
  "xip_bytes rom m addr n = map (\<lambda>i. read_volatile rom m (addr + of_nat i)) [0..<n]"

definition qspi_read :: "'m BootRom \<Rightarrow> 'm QspiFlashDevice \<Rightarrow> usize \<Rightarrow> usize \<Rightarrow> (StorageError, bytes) result" where
  "qspi_read rom d offset out_len =
     (if out_len > q_capacity d - min offset (q_capacity d) \<or> offset \<ge> q_capacity d
      then Inl (BackendError ''flash read out of bounds'')
      else bind_result (xip_addr d offset) (\<lambda>addr. Inr (xip_bytes rom (q_mem d) addr out_len)))"

definition windowed :: "'m BootRom \<Rightarrow> 'm QspiFlashDevice \<Rightarrow> WindowOp \<Rightarrow> ('m QspiFlashDevice, StorageError, unit) outcome" where
  "windowed rom d op = (d\<lparr>q_mem := fst (run_windowed rom (q_mem d) op)\<rparr>, snd (run_windowed rom (q_mem d) op))"

definition qspi_erase_sector :: "'m BootRom \<Rightarrow> 'm QspiFlashDevice \<Rightarrow> usize \<Rightarrow> ('m QspiFlashDevice, StorageError, unit) outcome" where
  "qspi_erase_sector rom d sector =
     attempt (ok_or (checked_mul_usize sector (unat SECTOR_SIZE)) (BackendError ''flash sector overflow'')) d (\<lambda>start.
     check (start + unat SECTOR_SIZE > q_capacity d) (BackendError ''flash sector out of bounds'') d
     (attempt (xip_addr d start) d (\<lambda>addr.
      attempt (resolve_ptrs rom) d (\<lambda>_. windowed rom d (Win_Erase addr (unat SECTOR_SIZE))))))"

text \<open>
  The loop over the pages. Its variable \<open>page_start\<close> is the start of the page of \<open>offset + written\<close>: it begins there,
  and every round but the last fills its page to the end.
\<close>

function program_pages ::
  "'m BootRom \<Rightarrow> usize \<Rightarrow> bytes \<Rightarrow> usize \<Rightarrow> 'm QspiFlashDevice \<Rightarrow> ('m QspiFlashDevice, StorageError, unit) outcome" where
  "program_pages rom offset data written d =
     (if written < length data
      then (let page_start = (offset + written) - (offset + written) mod PAGE_SIZE;
                page_end = page_start + PAGE_SIZE;
                n = min (page_end - (offset + written)) (length data - written)
            in attempt (xip_addr d page_start) d (\<lambda>addr.
               let buf = copy_into (xip_bytes rom (q_mem d) addr PAGE_SIZE) ((offset + written) - page_start)
                           (slice_of written (written + n) data);
                   d = d\<lparr>page_buf := buf\<rparr>
               in attempt (resolve_ptrs rom) d (\<lambda>_.
                  andthen (windowed rom d (Win_ProgramPage addr buf)) (\<lambda>_ d.
                    program_pages rom offset data (written + n) d))))
      else (d, Inr ()))"
  by pat_completeness auto
termination
proof (relation "measure (\<lambda>(rom, offset, data, written, d). length data - written)", goal_cases)
  case (2 rom offset data written d x xa xb xc xd xe xf xg xh)
  have "(offset + written) mod PAGE_SIZE < PAGE_SIZE" by (simp add: PAGE_SIZE_def)
  with 2 show ?case by simp arith
qed simp

definition qspi_program :: "'m BootRom \<Rightarrow> 'm QspiFlashDevice \<Rightarrow> usize \<Rightarrow> bytes \<Rightarrow> ('m QspiFlashDevice, StorageError, unit) outcome" where
  "qspi_program rom d offset data =
     check (saturating_add_usize offset (length data) > q_capacity d) (BackendError ''flash program out of bounds'') d
     (if data = [] then (d, Inr ()) else program_pages rom offset data 0 d)"

definition qspi_device :: "'m BootRom \<Rightarrow> 'm QspiFlashDevice FlashDevice" where
  "qspi_device rom =
     \<lparr>dev_capacity = q_capacity, dev_sector_size = (\<lambda>d. unat SECTOR_SIZE), dev_read = qspi_read rom,
      dev_erase_sector = qspi_erase_sector rom, dev_program = qspi_program rom\<rparr>"

declare program_pages.simps [simp del]

subsection \<open>What the driver relies on\<close>

text \<open>The 16 MiB of the first chip select, as the processor sees them.\<close>

definition xip_window :: "u32 \<Rightarrow> nat \<Rightarrow> bool" where
  "xip_window a n \<longleftrightarrow> unat XIP_BASE \<le> unat a \<and> unat a + n \<le> unat XIP_BASE + 2 ^ 24"

definition rom_ok :: "'m BootRom \<Rightarrow> bool" where
  "rom_ok rom \<longleftrightarrow>
     (\<forall>m x. xip_window x 1 \<longrightarrow> read_volatile rom (rom_connect rom m) x = read_volatile rom m x
          \<and> read_volatile rom (rom_exit_xip rom m) x = read_volatile rom m x
          \<and> read_volatile rom (rom_flush rom m) x = read_volatile rom m x)
     \<and> (\<forall>m a n x. unat a mod 4096 = 0 \<longrightarrow> n mod 4096 = 0 \<longrightarrow> xip_window a n \<longrightarrow> xip_window x 1
          \<longrightarrow> read_volatile rom (rom_range_erase rom m a n) x
              = (if unat a \<le> unat x \<and> unat x < unat a + n then 0xFF else read_volatile rom m x))
     \<and> (\<forall>m a bs x. unat a mod 256 = 0 \<longrightarrow> length bs = 256 \<longrightarrow> xip_window a 256 \<longrightarrow> xip_window x 1
          \<longrightarrow> read_volatile rom (rom_range_program rom m a bs) x
              = (if unat a \<le> unat x \<and> unat x < unat a + 256 then read_volatile rom m x AND bs ! (unat x - unat a)
                 else read_volatile rom m x))"

definition qspi_contents :: "'m BootRom \<Rightarrow> 'm QspiFlashDevice \<Rightarrow> bytes" where
  "qspi_contents rom d = xip_bytes rom (q_mem d) (XIP_BASE + region_base d) (q_capacity d)"

text \<open>The region is aligned to sectors and lies in the XIP window.\<close>

definition qspi_valid :: "'m BootRom \<Rightarrow> 'm QspiFlashDevice \<Rightarrow> bool" where
  "qspi_valid rom d \<longleftrightarrow> rom_ok rom \<and> unat (region_base d) mod 4096 = 0 \<and> q_capacity d mod 4096 = 0
     \<and> unat (region_base d) + q_capacity d \<le> 2 ^ 24"

definition qspi_healthy :: "'m BootRom \<Rightarrow> 'm QspiFlashDevice \<Rightarrow> bool" where
  "qspi_healthy rom d \<longleftrightarrow> resolve_ptrs rom = Inr ()"

subsection \<open>Addresses\<close>

lemma unat_xip:
  assumes "qspi_valid rom d" "i \<le> q_capacity d"
  shows "unat (XIP_BASE + region_base d + of_nat i) = unat XIP_BASE + unat (region_base d) + i"
proof -
  have "unat XIP_BASE + unat (region_base d) + i < 2 ^ 32" using assms by (simp add: qspi_valid_def XIP_BASE_def)
  then show ?thesis by (simp add: unat_word_ariths unat_of_nat)
qed

lemma xip_window_offset:
  assumes "qspi_valid rom d" "i + n \<le> q_capacity d"
  shows "xip_window (XIP_BASE + region_base d + of_nat i) n"
  using unat_xip [OF assms(1), of i] assms by (simp add: xip_window_def qspi_valid_def)

lemma erased_nth:
  assumes "flash_region_erased bs a n" "i < n"
  shows "bs ! (a + i) = 0xFF"
proof -
  have "a + n \<le> length bs" "take n (drop a bs) = replicate n 0xFF"
    using assms(1) by (simp_all add: flash_region_erased_def slice_of_def)
  from arg_cong [OF this(2), of "\<lambda>ys. ys ! i"] this(1) assms(2) show ?thesis by simp
qed

lemma length_xip_bytes [simp]: "length (xip_bytes rom m a n) = n"
  by (simp add: xip_bytes_def)

lemma nth_xip_bytes [simp]: "i < n \<Longrightarrow> xip_bytes rom m a n ! i = read_volatile rom m (a + of_nat i)"
  by (simp add: xip_bytes_def)

lemma length_contents [simp]: "length (qspi_contents rom d) = q_capacity d"
  by (simp add: qspi_contents_def)

lemma xip_bytes_slice:
  "a + n \<le> q_capacity d \<Longrightarrow>
     xip_bytes rom (q_mem d) (XIP_BASE + region_base d + of_nat a) n = slice_of a (a + n) (qspi_contents rom d)"
  by (intro nth_equalityI) (simp_all add: qspi_contents_def slice_of_def ac_simps)

text \<open>A change of the memory between two offsets of the region.\<close>

lemma contents_changed:
  assumes "qspi_valid rom d" "a + length xs \<le> q_capacity d"
    and "\<And>x. xip_window x 1 \<Longrightarrow> read_volatile rom m x =
       (if unat (XIP_BASE + region_base d + of_nat a) \<le> unat x \<and> unat x < unat (XIP_BASE + region_base d + of_nat a) + length xs
        then xs ! (unat x - unat (XIP_BASE + region_base d + of_nat a)) else read_volatile rom (q_mem d) x)"
  shows "qspi_contents rom (d\<lparr>q_mem := m\<rparr>) = copy_into (qspi_contents rom d) a xs"
proof (rule nth_equalityI)
  fix i assume "i < length (qspi_contents rom (d\<lparr>q_mem := m\<rparr>))"
  then have i: "i < q_capacity d" by simp
  have u: "unat (XIP_BASE + region_base d + of_nat i) = unat XIP_BASE + unat (region_base d) + i"
    "unat (XIP_BASE + region_base d + of_nat a) = unat XIP_BASE + unat (region_base d) + a"
    using unat_xip [OF assms(1)] i assms(2) by simp_all
  have "qspi_contents rom (d\<lparr>q_mem := m\<rparr>) ! i = read_volatile rom m (XIP_BASE + region_base d + of_nat i)"
    using i by (simp add: qspi_contents_def)
  moreover have "xip_window (XIP_BASE + region_base d + of_nat i) 1" using xip_window_offset [OF assms(1), of i 1] i by simp
  ultimately show "qspi_contents rom (d\<lparr>q_mem := m\<rparr>) ! i = copy_into (qspi_contents rom d) a xs ! i"
    using i assms(2) unfolding assms(3) [OF \<open>xip_window _ 1\<close>] u by (auto simp: nth_copy_into qspi_contents_def)
qed (use assms(2) in \<open>simp add: length_copy_into\<close>)

subsection \<open>The operations on the contents of the region\<close>

lemma rom_okD:
  assumes "rom_ok rom"
  shows "xip_window x 1 \<Longrightarrow> read_volatile rom (rom_connect rom m) x = read_volatile rom m x"
    and "xip_window x 1 \<Longrightarrow> read_volatile rom (rom_exit_xip rom m) x = read_volatile rom m x"
    and "xip_window x 1 \<Longrightarrow> read_volatile rom (rom_flush rom m) x = read_volatile rom m x"
    and "unat a mod 4096 = 0 \<Longrightarrow> n mod 4096 = 0 \<Longrightarrow> xip_window a n \<Longrightarrow> xip_window x 1 \<Longrightarrow>
      read_volatile rom (rom_range_erase rom m a n) x
        = (if unat a \<le> unat x \<and> unat x < unat a + n then 0xFF else read_volatile rom m x)"
    and "unat a mod 256 = 0 \<Longrightarrow> length bs = 256 \<Longrightarrow> xip_window a 256 \<Longrightarrow> xip_window x 1 \<Longrightarrow>
      read_volatile rom (rom_range_program rom m a bs) x
        = (if unat a \<le> unat x \<and> unat x < unat a + 256 then read_volatile rom m x AND bs ! (unat x - unat a)
           else read_volatile rom m x)"
  using assms unfolding rom_ok_def by simp_all

lemma xip_mod:
  assumes "qspi_valid rom d" "i \<le> q_capacity d" "i mod k = 0" "k dvd 4096"
  shows "unat (XIP_BASE + region_base d + of_nat i) mod k = 0"
proof -
  have "4096 dvd unat XIP_BASE" by (simp add: XIP_BASE_def)
  with assms(4) have "k dvd unat XIP_BASE" by (rule dvd_trans)
  moreover have "k dvd unat (region_base d)" "k dvd i"
    using assms by (auto simp: qspi_valid_def intro: dvd_trans)
  ultimately show ?thesis unfolding unat_xip [OF assms(1,2)] by simp
qed

lemma erase_contents:
  assumes "qspi_valid rom d" "s * 4096 + 4096 \<le> q_capacity d"
  shows "qspi_contents rom (fst (windowed rom d (Win_Erase (XIP_BASE + region_base d + of_nat (s * 4096)) 4096)))
     = copy_into (qspi_contents rom d) (s * 4096) (replicate 4096 0xFF)"
proof -
  let ?a = "XIP_BASE + region_base d + of_nat (s * 4096)"
  have rom: "rom_ok rom" using assms(1) by (simp add: qspi_valid_def)
  have u: "unat ?a = unat XIP_BASE + unat (region_base d) + s * 4096" using unat_xip [OF assms(1), of "s * 4096"] assms(2) by simp
  have al: "unat ?a mod 4096 = 0" using xip_mod [OF assms(1), of "s * 4096" 4096] assms(2) by simp
  have b: "xip_window ?a 4096" using xip_window_offset [OF assms(1), of "s * 4096" 4096] assms(2) by simp
  show ?thesis
    unfolding windowed_def run_windowed_def window_exec_def Let_def fst_conv WindowOp.case
    by (rule contents_changed [OF assms(1)])
       (use assms(2) al b in \<open>auto simp: rom_okD [OF rom]\<close>)
qed

text \<open>Programming a page whose buffer differs from the flash only where the flash is erased.\<close>

lemma program_contents:
  assumes "qspi_valid rom d" "p mod 256 = 0" "p + 256 \<le> q_capacity d" "k + length xs \<le> 256"
    and "flash_region_erased (qspi_contents rom d) (p + k) (length xs)"
  shows "qspi_contents rom (fst (windowed rom d (Win_ProgramPage (XIP_BASE + region_base d + of_nat p)
       (copy_into (xip_bytes rom (q_mem d) (XIP_BASE + region_base d + of_nat p) 256) k xs))))
     = copy_into (qspi_contents rom d) (p + k) xs"
proof -
  let ?a = "XIP_BASE + region_base d + of_nat p"
  let ?page = "slice_of p (p + 256) (qspi_contents rom d)"
  have rom: "rom_ok rom" using assms(1) by (simp add: qspi_valid_def)
  have al: "unat ?a mod 256 = 0" using xip_mod [OF assms(1), of p 256] assms(2,3) by simp
  have u: "unat ?a = unat XIP_BASE + unat (region_base d) + p" using unat_xip [OF assms(1), of p] assms(3) by simp
  have b: "xip_window ?a 256" using xip_window_offset [OF assms(1), of p 256] assms(3) by simp
  have page: "xip_bytes rom (q_mem d) ?a 256 = ?page" by (rule xip_bytes_slice [OF assms(3)])
  have len: "length (copy_into ?page k xs) = 256" using assms(3,4) by (simp add: length_copy_into)
  have erased: "qspi_contents rom d ! (p + k + i) = 0xFF" if "i < length xs" for i
    using erased_nth [OF assms(5) that] .
  have and_same: "?page ! i AND copy_into ?page k xs ! i = copy_into ?page k xs ! i" if "i < 256" for i
    using that assms(3,4) erased [of "i - k"] erased_byte(2) by (auto simp: nth_copy_into slice_of_def)
  have mem: "read_volatile rom (q_mem d) x = ?page ! (unat x - unat ?a)" if "unat ?a \<le> unat x" "unat x < unat ?a + 256" for x
  proof -
    define i where "i = unat x - unat ?a"
    have ui: "unat x = unat ?a + i" "i < 256" using that by (simp_all add: i_def)
    have "x = ?a + of_nat i" using arg_cong [OF ui(1), of "of_nat :: nat \<Rightarrow> u32"] by simp
    with ui(2) show ?thesis unfolding i_def [symmetric] page [symmetric] by simp
  qed
  have "qspi_contents rom (fst (windowed rom d (Win_ProgramPage ?a (copy_into ?page k xs))))
     = copy_into (qspi_contents rom d) p (copy_into ?page k xs)"
    unfolding windowed_def run_windowed_def window_exec_def Let_def fst_conv WindowOp.case
    by (rule contents_changed [OF assms(1)])
       (use assms(3) len al b and_same mem in \<open>auto simp: rom_okD [OF rom]\<close>)
  also have "... = copy_into (qspi_contents rom d) (p + k) xs"
    using assms(3,4) by (intro nth_equalityI) (auto simp: length_copy_into nth_copy_into slice_of_def)
  finally show ?thesis unfolding page .
qed

lemma windowed_fields [simp]:
  "region_base (fst (windowed rom d op)) = region_base d" "q_capacity (fst (windowed rom d op)) = q_capacity d"
  "snd (windowed rom d op) = Inr ()" "qspi_valid rom (fst (windowed rom d op)) = qspi_valid rom d"
  by (simp_all add: windowed_def run_windowed_def qspi_valid_def)

lemma page_buf_irrelevant [simp]:
  "qspi_contents rom (d\<lparr>page_buf := x\<rparr>) = qspi_contents rom d" "qspi_valid rom (d\<lparr>page_buf := x\<rparr>) = qspi_valid rom d"
  by (simp_all add: qspi_contents_def qspi_valid_def)

text \<open>What \<open>program\<close> does from \<open>written\<close> on: it stores a prefix of the rest, and all of it when it succeeds.\<close>

definition programmed ::
  "'m BootRom \<Rightarrow> usize \<Rightarrow> bytes \<Rightarrow> 'm QspiFlashDevice \<Rightarrow> ('m QspiFlashDevice, StorageError, unit) outcome \<Rightarrow> bool" where
  "programmed rom a xs d out \<longleftrightarrow>
     qspi_valid rom (fst out) \<and> (\<exists>j\<le>length xs. qspi_contents rom (fst out) = copy_into (qspi_contents rom d) a (take j xs)
       \<and> (snd out = Inr () \<longrightarrow> j = length xs)) \<and> (resolve_ptrs rom = Inr () \<longrightarrow> snd out = Inr ())"

lemma programmed_nil: "qspi_valid rom d \<Longrightarrow> a \<le> q_capacity d \<Longrightarrow> programmed rom a [] d (d, Inr ())"
  by (simp add: programmed_def copy_into_def)

lemma programmed_fail: "qspi_valid rom d \<Longrightarrow> a \<le> q_capacity d \<Longrightarrow> resolve_ptrs rom = Inl e \<Longrightarrow> programmed rom a xs d (d\<lparr>page_buf := x\<rparr>, Inl e')"
  by (auto simp: programmed_def copy_into_def intro!: exI [of _ 0])

lemma copy_into_append:
  "a + length xs + length ys \<le> length bs \<Longrightarrow> copy_into (copy_into bs a xs) (a + length xs) ys = copy_into bs a (xs @ ys)"
  by (simp add: copy_into_def ac_simps)

lemma programmed_append:
  assumes "programmed rom (a + length xs) ys d1 out" "qspi_contents rom d1 = copy_into (qspi_contents rom d) a xs"
    and "a + length xs + length ys \<le> q_capacity d"
  shows "programmed rom a (xs @ ys) d out"
proof -
  from assms(1) obtain j where j: "j \<le> length ys" "qspi_contents rom (fst out) = copy_into (qspi_contents rom d1) (a + length xs) (take j ys)"
    "snd out = Inr () \<longrightarrow> j = length ys" and rest: "qspi_valid rom (fst out)" "resolve_ptrs rom = Inr () \<longrightarrow> snd out = Inr ()"
    unfolding programmed_def by blast
  have "qspi_contents rom (fst out) = copy_into (qspi_contents rom d) a (take (length xs + j) (xs @ ys))"
    using j(1,2) assms(2,3) by (simp add: copy_into_append)
  then show ?thesis unfolding programmed_def using j(1,3) rest by (intro conjI exI [of _ "length xs + j"]) auto
qed

lemma next_page:
  fixes p c :: nat
  assumes "p mod 256 = 0" "c mod 4096 = 0" "p < c"
  shows "p + 256 \<le> c"
proof -
  obtain x y where "p = 256 * x" "c = 4096 * y" using assms(1,2) by (auto simp flip: dvd_eq_mod_eq_0 elim!: dvdE)
  moreover from this assms(3) have "x < 16 * y" by simp
  ultimately show ?thesis by simp
qed

lemma erased_rest:
  assumes "flash_region_erased bs a (length xs + n)"
  shows "flash_region_erased (copy_into bs a xs) (a + length xs) n"
proof -
  have "slice_of (a + length xs) (a + length xs + n) bs = replicate n 0xFF"
  proof (rule nth_equalityI)
    fix i assume "i < length (slice_of (a + length xs) (a + length xs + n) bs)"
    then show "slice_of (a + length xs) (a + length xs + n) bs ! i = replicate n 0xFF ! i"
      using assms erased_nth [OF assms, of "length xs + i"] by (simp add: slice_of_def flash_region_erased_def ac_simps)
  qed (use assms in \<open>auto simp: flash_region_erased_def\<close>)
  then show ?thesis
    using assms by (simp add: flash_region_erased_def length_copy_into slice_copy_into_outer)
qed

lemma program_pages_programmed:
  assumes "qspi_valid rom d" "flash_region_erased (qspi_contents rom d) (offset + written) (length data - written)" "written \<le> length data"
  shows "programmed rom (offset + written) (drop written data) d (program_pages rom offset data written d)"
  using assms
proof (induction "length data - written" arbitrary: written d rule: less_induct)
  case less
  note 1 = less.hyps less.prems
  have cap: "offset + length data \<le> q_capacity d" using 1(3,4) by (simp add: flash_region_erased_def)
  show ?case
  proof (cases "written < length data")
    case False
    then show ?thesis using 1(2,4) cap by (simp add: program_pages.simps programmed_nil)
  next
    case True
    define p where "p = (offset + written) - (offset + written) mod 256"
    define k where "k = (offset + written) mod 256"
    define n where "n = min (p + 256 - (offset + written)) (length data - written)"
    let ?xs = "slice_of written (written + n) data"
    let ?addr = "XIP_BASE + region_base d + of_nat p"
    let ?buf = "copy_into (xip_bytes rom (q_mem d) ?addr 256) k ?xs"
    have pk: "p + k = offset + written" "k < 256" "p mod 256 = 0" by (simp_all add: p_def k_def minus_mod_eq_mult_div)
    have n: "0 < n" "k + n \<le> 256" "written + n \<le> length data" using pk True by (simp_all add: n_def)
    have lx: "length ?xs = n" using n by simp
    have "p < q_capacity d" using pk cap True by simp
    then have p: "p + 256 \<le> q_capacity d" using next_page pk(3) 1(2) by (simp add: qspi_valid_def)
    have addr: "xip_addr d p = Inr ?addr" using \<open>p < q_capacity d\<close> by (simp add: xip_addr_def)
    let ?d = "d\<lparr>page_buf := ?buf\<rparr>" and ?op = "Win_ProgramPage ?addr ?buf"
    have eqs: "offset + written - k = p" "offset + written - p = k" using pk(1) by (metis diff_add_inverse2 diff_add_inverse)+
    have step: "program_pages rom offset data written d
        = attempt (resolve_ptrs rom) ?d (\<lambda>_. program_pages rom offset data (written + n) (fst (windowed rom ?d ?op)))"
      using True addr by (subst program_pages.simps)
        (simp add: Let_def PAGE_SIZE_def andthen_def split_beta eqs flip: k_def n_def)
    have split: "drop written data = ?xs @ drop (written + n) data"
      using n(3) by (simp add: slice_of_def) (metis add.commute append_take_drop_id drop_drop)
    have erased: "flash_region_erased (qspi_contents rom d) (offset + written) (length ?xs + (length data - (written + n)))"
      using 1(3) lx n(3) by simp
    show ?thesis
    proof (cases "resolve_ptrs rom")
      case (Inl e)
      then show ?thesis using 1(2) cap True by (simp add: step programmed_fail)
    next
      case (Inr u)
      let ?d1 = "fst (windowed rom ?d ?op)"
      have c1: "qspi_contents rom ?d1 = copy_into (qspi_contents rom d) (offset + written) ?xs"
        using program_contents [of rom ?d p k ?xs] 1(2) pk p n(2) lx flash_region_erased_le [OF erased, of n]
        by (simp add: xip_bytes_def)
      have "programmed rom (offset + (written + n)) (drop (written + n) data) ?d1 (program_pages rom offset data (written + n) ?d1)"
        using erased_rest [OF erased] 1(2) c1 lx n True by (intro less.hyps) (simp_all add: ac_simps)
      then show ?thesis
        using programmed_append [OF _ c1] lx n(3) cap unfolding split step Inr by (simp add: ac_simps)
    qed
  qed
qed

subsection \<open>The contract\<close>

lemma qspi_program_programmed:
  assumes "qspi_valid rom d" "flash_region_erased (qspi_contents rom d) a (length data)"
  shows "programmed rom a data d (qspi_program rom d a data)"
proof -
  have le: "a + length data \<le> q_capacity d" using assms(2) by (simp add: flash_region_erased_def)
  then have "\<not> saturating_add_usize a (length data) > q_capacity d" by (simp add: saturating_add_usize_def)
  then show ?thesis
    using program_pages_programmed [of rom d a 0 data] assms le
    by (cases "data = []") (simp_all add: qspi_program_def programmed_nil)
qed

lemma sector_size [simp]: "unat SECTOR_SIZE = 4096"
  by (simp add: SECTOR_SIZE_def)

lemma qspi_erase:
  assumes "qspi_valid rom d" "s * 4096 + 4096 \<le> q_capacity d"
  shows "qspi_erase_sector rom d s =
    attempt (resolve_ptrs rom) d (\<lambda>_. windowed rom d (Win_Erase (XIP_BASE + region_base d + of_nat (s * 4096)) 4096))"
proof -
  have "s * 4096 \<le> usize_max" using assms by (simp add: qspi_valid_def usize_max_def)
  then show ?thesis
    using assms(2) by (simp add: qspi_erase_sector_def checked_mul_usize_def xip_addr_def)
qed

lemma qspi_device_ops [simp]:
  "dev_capacity (qspi_device rom) = q_capacity" "dev_sector_size (qspi_device rom) d = 4096"
  "dev_read (qspi_device rom) = qspi_read rom" "dev_erase_sector (qspi_device rom) = qspi_erase_sector rom"
  "dev_program (qspi_device rom) = qspi_program rom"
  by (simp_all add: qspi_device_def)

interpretation qspi: flash_device "qspi_device rom" "qspi_contents rom" "qspi_valid rom" "qspi_healthy rom" for rom
proof (unfold_locales, goal_cases)
  case (3 d n a)
  then show ?case
    using xip_bytes_slice [of a n d rom] by (simp add: qspi_read_def xip_addr_def)
next
  case (4 d s d' r)
  then have s: "s * 4096 + 4096 \<le> q_capacity d" by simp
  show ?case
  proof (cases "resolve_ptrs rom")
    case (Inl e)
    then have "d' = d" "r = Inl e" using 4(3) by (simp_all add: qspi_erase [OF 4(1) s])
    then show ?thesis using 4(1) by simp
  next
    case (Inr u)
    let ?w = "windowed rom d (Win_Erase (XIP_BASE + region_base d + of_nat (s * 4096)) 4096)"
    have "(d', r) = ?w" using 4(3) Inr by (simp add: qspi_erase [OF 4(1) s])
    then have "d' = fst ?w" "r = Inr ()" by (metis fst_conv, metis snd_conv windowed_fields(3))
    then show ?thesis using erase_contents [OF 4(1) s] 4(1) by simp
  qed
next
  case (5 d a data d' r)
  then have "programmed rom a data d (d', r)" using qspi_program_programmed [of rom d a data] by simp
  then show ?case by (auto simp: programmed_def split: sum.split)
next
  case (6 d s)
  then have s: "s * 4096 + 4096 \<le> q_capacity d" by simp
  show ?case
    using 6(2) windowed_fields(3) [of rom d] by (auto simp: qspi_erase [OF 6(1) s] qspi_healthy_def prod_eq_iff)
next
  case (7 d a data)
  then show ?case
    using qspi_program_programmed [of rom d a data] by (auto simp: programmed_def qspi_healthy_def prod_eq_iff)
qed (auto simp: qspi_valid_def usize_max_def)

text \<open>The region of every flash size the ROM reports is aligned, has at least two sectors, and lies in the flash.\<close>

lemma qspi_open_valid:
  assumes "rom_ok rom" "qspi_open rom m = Inr d"
  shows "qspi_valid rom d" "2 * 4096 \<le> q_capacity d" "q_mem d = m" "flash_binary_end rom - XIP_BASE < region_base d"
proof -
  from assms(2) obtain size base cap where r: "region_for (flash_total size) = Some (base, cap)" "\<not> base \<le> flash_binary_end rom - XIP_BASE"
    and d: "d = \<lparr>q_mem = m, region_base = base, q_capacity = cap, page_buf = replicate PAGE_SIZE 0xFF\<rparr>"
    by (auto simp: qspi_open_def bind_result_def ok_or_def map_err_def split: sum.splits option.splits if_splits)
  have "unat base mod 4096 = 0 \<and> cap mod 4096 = 0 \<and> 2 * 4096 \<le> cap \<and> unat base + cap \<le> 2 ^ 24"
    using r(1) by (cases size) (auto simp: region_for_def flash_total_def REGION_LEN_def SECTOR_SIZE_def XIP_BASE_def Let_def split: if_splits)
  then show "qspi_valid rom d" "2 * 4096 \<le> q_capacity d" "q_mem d = m" "flash_binary_end rom - XIP_BASE < region_base d"
    using assms(1) r(2) by (simp_all add: qspi_valid_def d not_le)
qed

subsection \<open>Outside the region\<close>

text \<open>
  No operation of the driver, whatever its arguments, changes a byte outside the region.
\<close>

definition outside_kept :: "'m BootRom \<Rightarrow> 'm QspiFlashDevice \<Rightarrow> 'm QspiFlashDevice \<Rightarrow> bool" where
  "outside_kept rom d d' \<longleftrightarrow> (qspi_valid rom d \<longrightarrow> qspi_valid rom d' \<and> region_base d' = region_base d \<and> q_capacity d' = q_capacity d
     \<and> (\<forall>x. xip_window x 1 \<longrightarrow> unat x < unat XIP_BASE + unat (region_base d) \<or> unat XIP_BASE + unat (region_base d) + q_capacity d \<le> unat x
          \<longrightarrow> read_volatile rom (q_mem d') x = read_volatile rom (q_mem d) x))"

interpretation outside: step_relation "outside_kept rom" for rom
  by unfold_locales (auto simp: outside_kept_def)

lemma outside_windowed:
  assumes "p + n \<le> q_capacity d" "op = Win_Erase (XIP_BASE + region_base d + of_nat p) n \<and> p mod 4096 = 0 \<and> n mod 4096 = 0
     \<or> (\<exists>bs. op = Win_ProgramPage (XIP_BASE + region_base d + of_nat p) bs \<and> length bs = 256 \<and> n = 256 \<and> p mod 256 = 0)"
  shows "outside_kept rom d (fst (windowed rom d op))"
proof (cases "qspi_valid rom d")
  case True
  let ?a = "XIP_BASE + region_base d + of_nat p"
  have rom: "rom_ok rom" using True by (simp add: qspi_valid_def)
  have u: "unat ?a = unat XIP_BASE + unat (region_base d) + p" using unat_xip [OF True, of p] assms(1) by simp
  have b: "xip_window ?a n" using xip_window_offset [OF True assms(1)] .
  have al: "p mod 4096 = 0 \<Longrightarrow> unat ?a mod 4096 = 0" "p mod 256 = 0 \<Longrightarrow> unat ?a mod 256 = 0"
    using xip_mod [OF True, of p] assms(1) by simp_all
  have "read_volatile rom (q_mem (fst (windowed rom d op))) x = read_volatile rom (q_mem d) x"
    if "xip_window x 1" "unat x < unat ?a \<or> unat ?a + n \<le> unat x" for x
    using assms(2) that b al
    by (auto simp: windowed_def run_windowed_def window_exec_def Let_def rom_okD [OF rom])
  then show ?thesis using True assms(1) unfolding outside_kept_def u by auto
qed (simp add: outside_kept_def)

lemma outside_page_buf: "outside_kept rom d (d\<lparr>page_buf := x\<rparr>)"
  by (simp add: outside_kept_def)

lemma xip_addr_ok: "xip_addr d p = Inr a \<longleftrightarrow> p < q_capacity d \<and> a = XIP_BASE + region_base d + of_nat p"
  by (auto simp: xip_addr_def)


lemma outside_erase: "outside_kept rom d (fst (qspi_erase_sector rom d s))"
  unfolding qspi_erase_sector_def
  by (intro outside.step_attempt outside.step_check)
     (auto simp: xip_addr_ok ok_or_ok checked_mul_usize_def not_less split: if_splits intro!: outside_windowed [where p = "s * 4096" and n = 4096])

lemma outside_program: "outside_kept rom d (fst (qspi_program rom d offset data))"
proof -
  have pages: "outside_kept rom d (fst (program_pages rom offset data written d))" for written
  proof (induction "length data - written" arbitrary: written d rule: less_induct)
    case less
    show ?case
    proof (cases "written < length data \<and> qspi_valid rom d")
      case True
      let ?o = "offset + written"
      let ?p = "?o - ?o mod PAGE_SIZE" and ?n = "min (?o - ?o mod PAGE_SIZE + PAGE_SIZE - ?o) (length data - written)"
      let ?buf = "\<lambda>addr. copy_into (xip_bytes rom (q_mem d) addr PAGE_SIZE) (?o - ?p) (slice_of written (written + ?n) data)"
      have o: "?o mod 256 < 256" "(?o - ?o mod 256) mod 256 = 0" by (simp_all add: minus_mod_eq_mult_div)
      have page: "outside_kept rom d (fst (windowed rom (d\<lparr>page_buf := ?buf a\<rparr>) (Win_ProgramPage a (?buf a))))"
        if a: "xip_addr d ?p = Inr a" for a
      proof (rule outside.step_trans [OF outside_page_buf outside_windowed])
        show "?p + 256 \<le> q_capacity (d\<lparr>page_buf := ?buf a\<rparr>)"
          using a True o(2) next_page [of ?p "q_capacity d"] by (simp add: xip_addr_ok PAGE_SIZE_def qspi_valid_def)
        show "Win_ProgramPage a (?buf a) = Win_Erase (XIP_BASE + region_base (d\<lparr>page_buf := ?buf a\<rparr>) + of_nat ?p) 256 \<and> ?p mod 4096 = 0 \<and> 256 mod 4096 = 0
          \<or> (\<exists>bs. Win_ProgramPage a (?buf a) = Win_ProgramPage (XIP_BASE + region_base (d\<lparr>page_buf := ?buf a\<rparr>) + of_nat ?p) bs
               \<and> length bs = 256 \<and> (256 :: nat) = 256 \<and> ?p mod 256 = 0)"
          using a True o by (auto simp: xip_addr_ok PAGE_SIZE_def copy_into_def min_def)
      qed
      have rest: "outside_kept rom t (fst (program_pages rom offset data (written + ?n) t))" for t
      proof (rule less.hyps)
        have "0 < ?n" using True o(1) by (simp add: PAGE_SIZE_def)
        then show "length data - (written + ?n) < length data - written" using True by (intro diff_less_mono2) simp_all
      qed
      show ?thesis
      proof (cases "xip_addr d ?p")
        case (Inr a)
        let ?d = "d\<lparr>page_buf := ?buf a\<rparr>"
        have step: "program_pages rom offset data written d = attempt (resolve_ptrs rom) ?d
            (\<lambda>_. program_pages rom offset data (written + ?n) (fst (windowed rom ?d (Win_ProgramPage a (?buf a)))))"
          using True Inr by (subst program_pages.simps) (simp add: Let_def andthen_def split_beta)
        show ?thesis
        proof (cases "resolve_ptrs rom")
          case (Inl e)
          show ?thesis unfolding step Inl attempt_simps fst_conv by (rule outside_page_buf)
        next
          case u: (Inr u)
          show ?thesis unfolding step u attempt_simps by (rule outside.step_trans [OF page [OF Inr] rest])
        qed
      qed (use True in \<open>simp add: program_pages.simps Let_def outside.step_refl\<close>)
    next
      case False
      then show ?thesis
        by (cases "written < length data") (simp_all add: program_pages.simps outside.step_refl, simp add: outside_kept_def)
    qed
  qed
  then show ?thesis
    unfolding qspi_program_def by (intro outside.step_check) (simp add: outside.step_refl)
qed

text \<open>The backend reaches the device only through these operations.\<close>

lemma outside_commit: "outside_kept rom (fs_device b) (fs_device (fst (commit (qspi_device rom) codec b new)))"
proof -
  have e: "qspi_erase_sector rom d s = (d', r) \<Longrightarrow> outside_kept rom d d'" for d s d' r using outside_erase [of rom d s] by simp
  have p: "qspi_program rom d o' xs = (d', r) \<Longrightarrow> outside_kept rom d d'" for d o' xs d' r using outside_program [of rom d o' xs] by simp
  show ?thesis
    unfolding commit_def Let_def
    by (auto simp: outside.step_refl split: sum.split prod.split
        intro: e outside.step_trans [OF e p] outside.step_trans [OF e outside.step_trans [OF p p]])
qed

lemma outside_write: "outside_kept rom (fs_device b) (fs_device (fst (flash_write (qspi_device rom) codec b key v)))"
  using outside_commit [of rom b codec "btree_insert key v (fs_cache b)"]
  by (auto simp: flash_write_def Let_def split: prod.split sum.split)

subsection \<open>Properties\<close>


subsection \<open>A concrete ROM\<close>

text \<open>A blank memory of two mebibytes of flash behind a ROM that does what \<open>rom_ok\<close> says.\<close>

definition example_rom :: "(u32 \<Rightarrow> u8) BootRom" where
  "example_rom =
     \<lparr>rom_table_lookup = (\<lambda>tag flags. 1), rom_connect = (\<lambda>m. m), rom_exit_xip = (\<lambda>m. m),
      rom_range_erase = (\<lambda>m a n x. if unat a \<le> unat x \<and> unat x < unat a + n then 0xFF else m x),
      rom_range_program = (\<lambda>m a bs x. if unat a \<le> unat x \<and> unat x < unat a + length bs then m x AND bs ! (unat x - unat a) else m x),
      rom_flush = (\<lambda>m. m), read_volatile = (\<lambda>m x. m x), flash_dev_info = Inr (Some Size_M2), flash_binary_end = 0x10010000\<rparr>"

definition example_qspi :: "(u32 \<Rightarrow> u8) QspiFlashDevice" where
  "example_qspi = \<lparr>q_mem = (\<lambda>x. 0xFF), region_base = 0x1E0000, q_capacity = 0x20000, page_buf = replicate 256 0xFF\<rparr>"

lemma example_rom_ok: "rom_ok example_rom" "resolve_ptrs example_rom = Inr ()"
  by (auto simp: rom_ok_def example_rom_def resolve_ptrs_def)

lemma example_qspi_open: "qspi_open example_rom (\<lambda>x. 0xFF) = Inr example_qspi"
  by (simp add: qspi_open_def example_rom_def flash_total_def region_for_def REGION_LEN_def SECTOR_SIZE_def XIP_BASE_def
      example_qspi_def PAGE_SIZE_def)

definition example_qspi_backend :: "(u32 \<Rightarrow> u8) QspiFlashDevice FlashStorageBackend" where
  "example_qspi_backend = \<lparr>fs_device = example_qspi, fs_cache = [], active_sector = 0, generation = 0\<rparr>"

lemma example_qspi_new: "flash_new (qspi_device example_rom) codec example_qspi = Inr example_qspi_backend"
proof -
  have v: "qspi_valid example_rom example_qspi" "2 * 4096 \<le> q_capacity example_qspi"
    using qspi_open_valid [OF example_rom_ok(1) example_qspi_open] by simp_all
  have c: "qspi_contents example_rom example_qspi = replicate (q_capacity example_qspi) 0xFF"
    by (intro nth_equalityI) (simp_all add: qspi_contents_def, simp add: example_rom_def example_qspi_def)
  have "FLASH_MAGIC ! 0 \<noteq> 0xFF" by (simp add: FLASH_MAGIC_def)
  then have magic: "replicate 4 0xFF \<noteq> FLASH_MAGIC" by (metis nth_replicate zero_less_numeral)
  have "take 4 (slot_bytes 4096 s (qspi_contents example_rom example_qspi)) = replicate 4 0xFF" if "s \<le> 1" for s
    using v(2) that by (cases s) (simp_all add: c slot_bytes_def slice_of_def min_def)
  with magic have "decode_slot codec (slot_bytes 4096 s (qspi_contents example_rom example_qspi)) = Inr None" if "s \<le> 1" for s
    using that by (simp add: decode_slot_def)
  then have "flash_new (qspi_device example_rom) codec example_qspi = Inr (with_snapshot example_qspi (pick_snapshot None None))"
    using v by (intro qspi.flash_new_picks) (simp_all add: usable_def FLASH_HEADER_SIZE_def)
  then show ?thesis by (simp add: pick_snapshot_def with_snapshot_def example_qspi_backend_def)
qed


end
