(* ===== verification/Entropy.thy ===== *)
theory Entropy
  imports Effects
begin

section \<open>The random number generator of the RP2350 firmware\<close>

text \<open>
  Models the entropy source of \<open>targets/rp2350/src/main.rs\<close>, which every draw of the firmware goes through: splitmix64
  on a state of 64 bits kept in two atomics, seeded once per boot. The boot random value of the ROM (128 bits, or none)
  and the cycle counter are parameters. The finaliser of splitmix64 is shown to be injective; together with the odd
  increment no word repeats within one period, so that no two of the nonces of one boot are equal.
\<close>

unbundle bit_operations_syntax

subsection \<open>The generator\<close>

record RngState =
  rng_lo :: u32
  rng_hi :: u32

definition rng_state_load :: "RngState \<Rightarrow> u64" where
  "rng_state_load s = push_bit 32 (ucast (rng_hi s)) OR ucast (rng_lo s)"

definition rng_state_store :: "u64 \<Rightarrow> RngState" where
  "rng_state_store v = \<lparr>rng_lo = ucast v, rng_hi = ucast (drop_bit 32 v)\<rparr>"

definition rng_unseeded :: RngState where
  "rng_unseeded = \<lparr>rng_lo = 0, rng_hi = 0\<rparr>"

definition GOLDEN_GAMMA :: u64 where "GOLDEN_GAMMA = 0x9E3779B97F4A7C15"

text \<open>The output of a state that was already advanced.\<close>

definition splitmix_mix :: "u64 \<Rightarrow> u64" where
  "splitmix_mix z =
     (let z = (z XOR drop_bit 30 z) * 0xBF58476D1CE4E5B9;
          z = (z XOR drop_bit 27 z) * 0x94D049BB133111EB
      in z XOR drop_bit 31 z)"

definition splitmix64 :: "u64 \<Rightarrow> u64 \<times> u64" where
  "splitmix64 state = (let state = state + GOLDEN_GAMMA in (state, splitmix_mix state))"

definition entropy_seed :: "128 word option \<Rightarrow> u32 \<Rightarrow> RngState \<times> bool" where
  "entropy_seed boot cycles =
     (let seed = (case boot of Some b \<Rightarrow> ucast b XOR ucast (drop_bit 64 b) | None \<Rightarrow> 0);
          seed = seed XOR snd (splitmix64 (ucast cycles OR 1))
      in (rng_state_store (seed OR 1), boot \<noteq> None))"

datatype GetrandomError = Getrandom_Unsupported

text \<open>The loop over \<open>buf.chunks_mut(8)\<close>, for a buffer of \<open>n\<close> bytes.\<close>

function fill_chunks :: "u64 \<Rightarrow> usize \<Rightarrow> u64 \<times> bytes" where
  "fill_chunks state n =
     (if n = 0 then (state, [])
      else (let (state, word) = splitmix64 state;
                chunk = take (min 8 n) (to_le_bytes 8 word);
                (state, rest) = fill_chunks state (n - min 8 n)
            in (state, chunk @ rest)))"
  by pat_completeness auto
termination by (relation "measure snd") auto

declare fill_chunks.simps [simp del]

definition entropy_fill :: "RngState \<Rightarrow> usize \<Rightarrow> (RngState, GetrandomError, bytes) outcome" where
  "entropy_fill s n =
     (let state = rng_state_load s in
      if state = 0 then (s, Inl Getrandom_Unsupported)
      else (let (state, bs) = fill_chunks state n in (rng_state_store state, Inr bs)))"

subsection \<open>The state\<close>

lemma load_store [simp]: "rng_state_load (rng_state_store v) = v"
  unfolding rng_state_load_def rng_state_store_def
  by (rule bit_eqI) (auto simp: bit_simps)

lemma seed_nonzero: "rng_state_load (fst (entropy_seed boot cycles)) \<noteq> 0"
proof -
  have "bit (x OR 1 :: u64) 0" for x by (simp add: bit_simps)
  then have "x OR 1 \<noteq> (0 :: u64)" for x by (metis bit_0_eq bot_apply bot_bool_def)
  then show ?thesis by (simp add: entropy_seed_def Let_def)
qed

lemma length_fill: "length (snd (fill_chunks s n)) = n"
proof (induction n arbitrary: s rule: less_induct)
  case (less n)
  then show ?case by (subst fill_chunks.simps) (simp add: Let_def split_beta)
qed

text \<open>After \<open>n\<close> bytes the state has advanced once per eight bytes begun.\<close>

lemma fill_state: "fst (fill_chunks s n) = s + of_nat ((n + 7) div 8) * GOLDEN_GAMMA"
proof (induction n arbitrary: s rule: less_induct)
  case (less n)
  show ?case
  proof (cases "n = 0")
    case False
    have "(n - min 8 n + 7) div 8 + 1 = (n + 7) div 8" using False by (cases "n \<le> 8") (auto simp: div_if)
    then have "of_nat ((n + 7) div 8) = 1 + (of_nat ((n - min 8 n + 7) div 8) :: u64)" by (metis of_nat_Suc Suc_eq_plus1)
    then show ?thesis using less [of "n - min 8 n"] False by (subst fill_chunks.simps) (simp add: splitmix64_def Let_def split_beta algebra_simps)
  qed (simp add: fill_chunks.simps)
qed

subsection \<open>Splitmix64 does not repeat\<close>

lemma xorshift_inj:
  assumes "0 < k" "x XOR drop_bit k x = y XOR drop_bit k y"
  shows "x = (y :: 'a::len word)"
proof (rule bit_eqI)
  fix n
  show "bit x n = bit y n"
  proof (induction "LENGTH('a) - n" arbitrary: n rule: less_induct)
    case less
    show ?case
    proof (cases "n < LENGTH('a)")
      case True
      have "bit x (k + n) = bit y (k + n)" using less.hyps [of "k + n"] assms(1) True by simp
      moreover have "bit (x XOR drop_bit k x) n = bit (y XOR drop_bit k y) n" using assms(2) by simp
      ultimately show ?thesis by (auto simp: bit_simps)
    qed (auto dest: bit_imp_le_length)
  qed
qed

lemma odd_mult_inj:
  assumes "c * d = 1" "x * c = y * c"
  shows "x = (y :: 'a::comm_monoid_mult)"
  using assms by (metis mult.assoc mult_1_right)

lemma mix_inj: "splitmix_mix x = splitmix_mix y \<Longrightarrow> x = y"
proof -
  have 1: "(0xBF58476D1CE4E5B9 :: u64) * 0x96DE1B173F119089 = 1" and 2: "(0x94D049BB133111EB :: u64) * 0x319642B2D24D8EC3 = 1"
    by simp_all
  show "splitmix_mix x = splitmix_mix y \<Longrightarrow> x = y"
    unfolding splitmix_mix_def Let_def
    by (drule xorshift_inj [rotated], simp, drule odd_mult_inj [OF 2], drule xorshift_inj [rotated], simp,
        drule odd_mult_inj [OF 1], drule xorshift_inj [rotated], simp)
qed

lemma mult_gamma_inj:
  assumes "of_nat i * GOLDEN_GAMMA = (of_nat j * GOLDEN_GAMMA :: u64)" "i < 2 ^ 64" "j < 2 ^ 64"
  shows "i = j"
proof -
  have "GOLDEN_GAMMA * 0xF1DE83E19937733D = 1" by (simp add: GOLDEN_GAMMA_def)
  then have "of_nat i = (of_nat j :: u64)" using odd_mult_inj assms(1) by blast
  then have "unat (of_nat i :: u64) = unat (of_nat j :: u64)" by simp
  with assms(2,3) show ?thesis by (simp add: unat_of_nat)
qed

text \<open>A sequence of draws of the given lengths; the first that fails ends it.\<close>

fun draws :: "RngState \<Rightarrow> usize list \<Rightarrow> (RngState, GetrandomError, bytes list) outcome" where
  "draws s [] = (s, Inr [])"
| "draws s (n # ns) =
     andthen (entropy_fill s n) (\<lambda>bs s. andthen (draws s ns) (\<lambda>rest s. (s, Inr (bs # rest))))"

definition words :: "usize \<Rightarrow> nat" where
  "words n = (n + 7) div 8"

lemma entropy_fill_ok:
  assumes "entropy_fill s n = (s', Inr bs)"
  shows "rng_state_load s \<noteq> 0" "length bs = n" "rng_state_load s' = rng_state_load s + of_nat (words n) * GOLDEN_GAMMA"
    and "8 \<le> n \<Longrightarrow> take 8 bs = to_le_bytes 8 (splitmix_mix (rng_state_load s + GOLDEN_GAMMA))"
proof -
  have e: "rng_state_load s \<noteq> 0" "s' = rng_state_store (fst (fill_chunks (rng_state_load s) n))" "bs = snd (fill_chunks (rng_state_load s) n)"
    using assms by (auto simp: entropy_fill_def Let_def split_beta split: if_splits)
  then show "rng_state_load s \<noteq> 0" "length bs = n" "rng_state_load s' = rng_state_load s + of_nat (words n) * GOLDEN_GAMMA"
    by (simp_all add: length_fill fill_state words_def)
  show "8 \<le> n \<Longrightarrow> take 8 bs = to_le_bytes 8 (splitmix_mix (rng_state_load s + GOLDEN_GAMMA))"
    unfolding e(3) by (subst fill_chunks.simps) (simp add: Let_def split_beta splitmix64_def)
qed

lemma draws_blocks:
  assumes "draws s ns = (s', Inr bss)" "k < length ns" "8 \<le> ns ! k"
  shows "take 8 (bss ! k) = to_le_bytes 8 (splitmix_mix (rng_state_load s + of_nat (sum_list (map words (take k ns)) + 1) * GOLDEN_GAMMA))"
  using assms
proof (induction s ns arbitrary: s' bss k rule: draws.induct)
  case (2 s n ns)
  from 2(2) obtain t bs rest where b: "entropy_fill s n = (t, Inr bs)" and r: "draws t ns = (s', Inr rest)" "bss = bs # rest"
    by (auto simp: andthen_ok)
  show ?case
  proof (cases k)
    case 0
    then show ?thesis using entropy_fill_ok(4) [OF b] 2(4) r(2) by simp
  next
    case (Suc i)
    then show ?thesis
      using "2.IH" [OF r(1), of i] 2(3,4) r(2) entropy_fill_ok(3) [OF b] by (simp add: algebra_simps)
  qed
qed simp

lemma sum_words_less:
  assumes "i < j" "j < length ns" "8 \<le> ns ! i" "8 \<le> ns ! j"
  shows "sum_list (map words (take i ns)) + 1 < sum_list (map words (take j ns)) + 1"
    and "sum_list (map words (take j ns)) + 1 \<le> sum_list (map words ns)"
proof -
  have step: "sum_list (map words (take k ns)) + words (ns ! k) = sum_list (map words (take (Suc k) ns))" if "k < length ns" for k
    using that by (simp add: take_Suc_conv_app_nth)
  have mono: "k \<le> l \<Longrightarrow> sum_list (map words (take k ns)) \<le> sum_list (map words (take l ns))" for k l
    by (metis le_iff_add map_append sum_list.append take_add)
  have w: "1 \<le> words (ns ! i)" "1 \<le> words (ns ! j)" using assms(3,4) by (simp_all add: words_def)
  show "sum_list (map words (take i ns)) + 1 < sum_list (map words (take j ns)) + 1"
    using step [of i] mono [of "Suc i" j] w(1) assms(1,2) by simp
  show "sum_list (map words (take j ns)) + 1 \<le> sum_list (map words ns)"
    using step [OF assms(2)] mono [of "Suc j" "length ns"] w(2) assms(2) by simp
qed

lemma le_bytes_inj: "to_le_bytes 8 x = to_le_bytes 8 y \<Longrightarrow> x = (y :: u64)"
  by (drule arg_cong [where f = "from_le_bytes :: bytes \<Rightarrow> u64"]) (subst (asm) (1 2) from_le_bytes_to_le_bytes, simp_all)

text \<open>
  Property C39: within one boot and fewer than \<open>2 ^ 64\<close> words, any two draws of at least eight bytes differ in their first
  eight bytes, whatever was drawn in between. So the twelve-byte nonces with which the firmware encrypts never repeat
  under the key of a boot.
\<close>

theorem entropy_draws_distinct:
  assumes "draws s ns = (s', Inr bss)" "sum_list (map words ns) < 2 ^ 64"
    and "i < j" "j < length ns" "8 \<le> ns ! i" "8 \<le> ns ! j"
  shows "take 8 (bss ! i) \<noteq> take 8 (bss ! j)"
proof
  let ?w = "\<lambda>k. sum_list (map words (take k ns)) + 1"
  assume "take 8 (bss ! i) = take 8 (bss ! j)"
  then have "to_le_bytes 8 (splitmix_mix (rng_state_load s + of_nat (?w i) * GOLDEN_GAMMA))
      = to_le_bytes 8 (splitmix_mix (rng_state_load s + of_nat (?w j) * GOLDEN_GAMMA))"
    using draws_blocks [OF assms(1), of i] draws_blocks [OF assms(1), of j] assms(3-6) by simp
  then have "splitmix_mix (rng_state_load s + of_nat (?w i) * GOLDEN_GAMMA) = splitmix_mix (rng_state_load s + of_nat (?w j) * GOLDEN_GAMMA)"
    by (rule le_bytes_inj)
  then have "of_nat (?w i) * GOLDEN_GAMMA = of_nat (?w j) * GOLDEN_GAMMA" by (auto dest: mix_inj)
  then have "?w i = ?w j"
    using mult_gamma_inj [of "?w i" "?w j"] sum_words_less [OF assms(3-6)] assms(2) by auto
  with sum_words_less(1) [OF assms(3-6)] show False by simp
qed

theorem entropy_draws_distinct_witness:
  "case draws (fst (entropy_seed (Some 5) 77)) [12, 16, 12] of
     (s', Inr bss) \<Rightarrow> take 8 (bss ! 0) \<noteq> take 8 (bss ! 2) | (s', Inl e) \<Rightarrow> False"
proof -
  have "case snd (draws (fst (entropy_seed (Some 5) 77)) [12, 16, 12]) of Inr bss \<Rightarrow> True | Inl e \<Rightarrow> False"
    by code_simp
  then obtain s' bss where d: "draws (fst (entropy_seed (Some 5) 77)) [12, 16, 12] = (s', Inr bss)"
    by (cases "draws (fst (entropy_seed (Some 5) 77)) [12, 16, 12]") (auto split: sum.splits)
  from entropy_draws_distinct [OF d, of 0 2] show ?thesis unfolding d by (simp add: words_def)
qed

text \<open>The value 0 also stands for a generator that was never seeded: one state of the period stops it for good.\<close>

lemma entropy_stuck:
  "snd (entropy_fill (rng_state_store (- GOLDEN_GAMMA)) 8) \<noteq> Inl Getrandom_Unsupported"
  "snd (entropy_fill (fst (entropy_fill (rng_state_store (- GOLDEN_GAMMA)) 8)) n) = Inl Getrandom_Unsupported"
  by (simp_all add: entropy_fill_def Let_def split_beta fill_state GOLDEN_GAMMA_def)

end
