(* ===== verification/Hybrid.thy ===== *)
theory Hybrid
  imports Storage_Engine Effects
begin

section \<open>Hybrid encryption\<close>

text \<open>
  Models \<open>openkey-crypto/src/hybrid.rs\<close>: sealed boxes over X25519, HKDF-SHA256 and ChaCha20-Poly1305. The sender
  always uses the library ring with a fresh key; the recipient has either a key of ring, which the code cannot look
  into (the type \<open>'k\<close>), or a static key of the library x25519-dalek, which is 32 bytes and can be stored. Both
  libraries are the parameter \<open>HybridPrims\<close>; what is documented of them is \<open>hybrid_lib\<close>. Values that Rust checks
  twice, such as the conversion of a slice whose length was just tested, are checked once here. Clearing secrets from
  memory is left out. The random numbers are numbered by the draw.
\<close>

definition X25519_KEY_LEN :: usize where "X25519_KEY_LEN = 32"
definition HYBRID_NONCE_LEN :: usize where "HYBRID_NONCE_LEN = 12"
definition HYBRID_TAG_LEN :: usize where "HYBRID_TAG_LEN = 16"
definition ECIES_OVERHEAD :: usize where "ECIES_OVERHEAD = X25519_KEY_LEN + HYBRID_NONCE_LEN + HYBRID_TAG_LEN"
definition HKDF_INFO :: bytes where "HKDF_INFO = str_bytes ''openkey-ecies-v1''"

lemmas hybrid_lengths = X25519_KEY_LEN_def HYBRID_NONCE_LEN_def HYBRID_TAG_LEN_def ECIES_OVERHEAD_def

record 'k HybridPrims =
  system_fill :: "nat \<Rightarrow> usize \<Rightarrow> bytes option"
  ring_generate :: "nat \<Rightarrow> 'k option"
  ring_public :: "'k \<Rightarrow> bytes option"
  ring_agree :: "'k \<Rightarrow> bytes \<Rightarrow> bytes option"
  dalek_public :: "bytes \<Rightarrow> bytes"
  dalek_dh :: "bytes \<Rightarrow> bytes \<Rightarrow> bytes"
  hkdf_expand :: "bytes \<Rightarrow> bytes \<Rightarrow> bytes \<Rightarrow> usize \<Rightarrow> bytes option"
  seal_aad :: "bytes \<Rightarrow> bytes \<Rightarrow> bytes \<Rightarrow> bytes \<Rightarrow> bytes option"
  open_aad :: "bytes \<Rightarrow> bytes \<Rightarrow> bytes \<Rightarrow> bytes \<Rightarrow> bytes option"

record HybridCiphertext =
  ephemeral_public_key :: bytes
  hc_nonce :: bytes
  hc_ciphertext :: bytes

definition hybrid_serialize :: "HybridCiphertext \<Rightarrow> bytes" where
  "hybrid_serialize c = ephemeral_public_key c @ hc_nonce c @ hc_ciphertext c"

definition hybrid_deserialize :: "bytes \<Rightarrow> (message, HybridCiphertext) result" where
  "hybrid_deserialize data =
     (if length data < ECIES_OVERHEAD then Inl ''Data too short for hybrid ciphertext''
      else Inr \<lparr>ephemeral_public_key = take X25519_KEY_LEN data,
                hc_nonce = slice_of X25519_KEY_LEN (X25519_KEY_LEN + HYBRID_NONCE_LEN) data,
                hc_ciphertext = drop (X25519_KEY_LEN + HYBRID_NONCE_LEN) data\<rparr>)"

definition derive_symmetric_key :: "'k HybridPrims \<Rightarrow> bytes \<Rightarrow> bytes \<Rightarrow> bytes \<Rightarrow> (message, bytes) result" where
  "derive_symmetric_key lib shared_secret ephemeral_pk recipient_pk =
     ok_or (hkdf_expand lib (ephemeral_pk @ recipient_pk) shared_secret HKDF_INFO 32) ''HKDF expand failed''"

definition hybrid_generate_keypair :: "'k HybridPrims \<Rightarrow> nat \<Rightarrow> (message, 'k \<times> bytes) result" where
  "hybrid_generate_keypair lib draw =
     bind_result (ok_or (ring_generate lib draw) ''Failed to generate X25519 key pair'') (\<lambda>private_key.
     bind_result (ok_or (ring_public lib private_key) ''Failed to compute X25519 public key'') (\<lambda>public_key.
       Inr (private_key, public_key)))"

definition hybrid_generate_static_keypair :: "'k HybridPrims \<Rightarrow> nat \<Rightarrow> (message, bytes \<times> bytes) result" where
  "hybrid_generate_static_keypair lib draw =
     bind_result (ok_or (system_fill lib draw X25519_KEY_LEN) ''Failed to generate random private key bytes'') (\<lambda>priv_bytes.
       Inr (priv_bytes, dalek_public lib priv_bytes))"

definition hybrid_diffie_hellman :: "'k HybridPrims \<Rightarrow> bytes \<Rightarrow> bytes \<Rightarrow> (message, bytes) result" where
  "hybrid_diffie_hellman lib my_private peer_public =
     (if length my_private \<noteq> X25519_KEY_LEN then Inl ''Private key must be 32 bytes''
      else if length peer_public \<noteq> X25519_KEY_LEN then Inl ''Public key must be 32 bytes''
      else Inr (dalek_dh lib my_private peer_public))"

text \<open>The key pair is the first draw, the nonce the second.\<close>

definition hybrid_encrypt :: "'k HybridPrims \<Rightarrow> nat \<Rightarrow> bytes \<Rightarrow> bytes \<Rightarrow> (message, HybridCiphertext) result" where
  "hybrid_encrypt lib draw recipient_public_key plaintext =
     (if length recipient_public_key \<noteq> X25519_KEY_LEN then Inl ''Recipient public key must be 32 bytes''
      else
        bind_result (ok_or (ring_generate lib draw) ''Failed to generate ephemeral key'') (\<lambda>ephemeral_private.
        bind_result (ok_or (ring_public lib ephemeral_private) ''Failed to compute ephemeral public key'') (\<lambda>ephemeral_public.
        bind_result (ok_or (ring_agree lib ephemeral_private recipient_public_key) ''ECDH agreement failed'') (\<lambda>shared_secret.
        bind_result (derive_symmetric_key lib shared_secret ephemeral_public recipient_public_key) (\<lambda>key.
        bind_result (ok_or (system_fill lib (draw + 1) HYBRID_NONCE_LEN) ''Failed to generate nonce'') (\<lambda>nonce.
        bind_result (ok_or (seal_aad lib key nonce ephemeral_public plaintext) ''Encryption failed'') (\<lambda>ciphertext.
          Inr \<lparr>ephemeral_public_key = ephemeral_public, hc_nonce = nonce, hc_ciphertext = ciphertext\<rparr>)))))))"

definition hybrid_decrypt :: "'k HybridPrims \<Rightarrow> 'k \<Rightarrow> bytes \<Rightarrow> HybridCiphertext \<Rightarrow> (message, bytes) result" where
  "hybrid_decrypt lib recipient_private recipient_public c =
     (if length recipient_public \<noteq> X25519_KEY_LEN then Inl ''Recipient public key must be 32 bytes''
      else if length (ephemeral_public_key c) \<noteq> X25519_KEY_LEN then Inl ''Ephemeral public key must be 32 bytes''
      else if length (hc_ciphertext c) < HYBRID_TAG_LEN then Inl ''Ciphertext too short to contain an authentication tag''
      else
        bind_result (ok_or (ring_public lib recipient_private) ''Failed to compute recipient public key'') (\<lambda>derived_public.
        if derived_public \<noteq> recipient_public then Inl ''Recipient public key does not match the provided private key''
        else
          bind_result (ok_or (ring_agree lib recipient_private (ephemeral_public_key c)) ''ECDH agreement failed'') (\<lambda>shared_secret.
          bind_result (derive_symmetric_key lib shared_secret (ephemeral_public_key c) derived_public) (\<lambda>key.
            ok_or (open_aad lib key (hc_nonce c) (ephemeral_public_key c) (hc_ciphertext c)) ''Decryption failed''))))"

definition hybrid_decrypt_static :: "'k HybridPrims \<Rightarrow> bytes \<Rightarrow> bytes \<Rightarrow> HybridCiphertext \<Rightarrow> (message, bytes) result" where
  "hybrid_decrypt_static lib recipient_private recipient_public c =
     (if length recipient_private \<noteq> X25519_KEY_LEN then Inl ''Recipient private key must be 32 bytes''
      else if length recipient_public \<noteq> X25519_KEY_LEN then Inl ''Recipient public key must be 32 bytes''
      else if length (ephemeral_public_key c) \<noteq> X25519_KEY_LEN then Inl ''Ephemeral public key must be 32 bytes''
      else if length (hc_ciphertext c) < HYBRID_TAG_LEN then Inl ''Ciphertext too short to contain an authentication tag''
      else if dalek_public lib recipient_private \<noteq> recipient_public
      then Inl ''Recipient public key does not match the provided private key''
      else
        bind_result (derive_symmetric_key lib (dalek_dh lib recipient_private (ephemeral_public_key c))
                       (ephemeral_public_key c) recipient_public) (\<lambda>key.
          ok_or (open_aad lib key (hc_nonce c) (ephemeral_public_key c) (hc_ciphertext c)) ''Decryption failed''))"

subsection \<open>The operations of the engine\<close>

text \<open>
  \<open>CryptoEngine\<close> offers these functions as methods that make no use of its master key. Beside them stands the key
  derivation for the OATH access code, whose only check is the one for an iteration count of zero; \<open>pbkdf2\<close> is the
  function of ring, of iterations, salt, password and the length to fill.
\<close>

definition generate_x25519_key_pair :: "'k HybridPrims \<Rightarrow> CryptoEngine \<Rightarrow> nat \<Rightarrow> (message, bytes \<times> bytes) result" where
  "generate_x25519_key_pair lib e draw = hybrid_generate_static_keypair lib draw"

definition x25519_diffie_hellman :: "'k HybridPrims \<Rightarrow> CryptoEngine \<Rightarrow> bytes \<Rightarrow> bytes \<Rightarrow> (message, bytes) result" where
  "x25519_diffie_hellman lib e priv_k pub_k = hybrid_diffie_hellman lib priv_k pub_k"

definition engine_hybrid_encrypt :: "'k HybridPrims \<Rightarrow> CryptoEngine \<Rightarrow> nat \<Rightarrow> bytes \<Rightarrow> bytes \<Rightarrow> (message, HybridCiphertext) result" where
  "engine_hybrid_encrypt lib e draw recipient_public_key plaintext = hybrid_encrypt lib draw recipient_public_key plaintext"

definition engine_hybrid_decrypt_static ::
  "'k HybridPrims \<Rightarrow> CryptoEngine \<Rightarrow> bytes \<Rightarrow> bytes \<Rightarrow> HybridCiphertext \<Rightarrow> (message, bytes) result" where
  "engine_hybrid_decrypt_static lib e recipient_private_key recipient_public_key c =
     hybrid_decrypt_static lib recipient_private_key recipient_public_key c"

definition derive_pbkdf2_sha1_ykoath_compat ::
  "(u32 \<Rightarrow> bytes \<Rightarrow> bytes \<Rightarrow> usize \<Rightarrow> bytes) \<Rightarrow> bytes \<Rightarrow> bytes \<Rightarrow> u32 \<Rightarrow> usize \<Rightarrow> (message, bytes) result" where
  "derive_pbkdf2_sha1_ykoath_compat pbkdf2 password salt iterations out_len =
     (if iterations = 0 then Inl ''PBKDF2 requires a non-zero iteration count'' else Inr (pbkdf2 iterations salt password out_len))"

subsection \<open>What is documented of the libraries\<close>

text \<open>
  Public keys have 32 bytes and random fills the length asked for. Two sides agree on the secret, between two keys of
  ring and between a key of ring and a static one; ring may refuse a public key of small order, in which case nothing
  is agreed. What was sealed opens again with the same key, nonce and associated data, and the tag adds 16 bytes.
\<close>

definition hybrid_lib :: "'k HybridPrims \<Rightarrow> bool" where
  "hybrid_lib lib \<longleftrightarrow>
     (\<forall>k pk. ring_public lib k = Some pk \<longrightarrow> length pk = 32)
     \<and> (\<forall>s. length s = 32 \<longrightarrow> length (dalek_public lib s) = 32)
     \<and> (\<forall>d n bs. system_fill lib d n = Some bs \<longrightarrow> length bs = n)
     \<and> (\<forall>k k' pk pk'. ring_public lib k = Some pk \<longrightarrow> ring_public lib k' = Some pk' \<longrightarrow> ring_agree lib k pk' = ring_agree lib k' pk)
     \<and> (\<forall>k pk s z. ring_public lib k = Some pk \<longrightarrow> length s = 32 \<longrightarrow> ring_agree lib k (dalek_public lib s) = Some z \<longrightarrow> dalek_dh lib s pk = z)
     \<and> (\<forall>k n a p c. seal_aad lib k n a p = Some c \<longrightarrow> open_aad lib k n a c = Some p \<and> length c = length p + 16)"

subsection \<open>Lemmas\<close>

lemma serialize_deserialize:
  assumes "length (ephemeral_public_key c) = 32" "length (hc_nonce c) = 12" "16 \<le> length (hc_ciphertext c)"
  shows "hybrid_deserialize (hybrid_serialize c) = Inr c"
  using assms by (simp add: hybrid_deserialize_def hybrid_serialize_def hybrid_lengths slice_of_def)

lemma deserialize_serialize:
  assumes "hybrid_deserialize data = Inr c"
  shows "hybrid_serialize c = data"
proof -
  have "take 12 (drop 32 data) @ drop 44 data = drop 32 data"
    using append_take_drop_id [of 12 "drop 32 data"] by simp
  then have "take 32 data @ take 12 (drop 32 data) @ drop 44 data = data" by simp
  then show ?thesis
    using assms by (auto simp: hybrid_deserialize_def hybrid_serialize_def hybrid_lengths slice_of_def split: if_splits)
qed

text \<open>What a successful encryption went through.\<close>

lemma hybrid_encrypt_ok:
  assumes "hybrid_encrypt lib draw pk m = Inr c"
  obtains k z key where "length pk = 32" "ring_public lib k = Some (ephemeral_public_key c)" "ring_agree lib k pk = Some z"
    "derive_symmetric_key lib z (ephemeral_public_key c) pk = Inr key" "system_fill lib (draw + 1) 12 = Some (hc_nonce c)"
    "seal_aad lib key (hc_nonce c) (ephemeral_public_key c) m = Some (hc_ciphertext c)"
  using assms
  by (auto simp: hybrid_encrypt_def bind_result_def ok_or_def hybrid_lengths split: if_splits sum.splits option.splits)


subsection \<open>A concrete library\<close>

text \<open>Keys are numbers, the agreement is their product, the cipher appends a tag.\<close>

definition example_hybrid :: "nat HybridPrims" where
  "example_hybrid =
     \<lparr>system_fill = (\<lambda>d n. Some (replicate n (of_nat d))), ring_generate = (\<lambda>d. Some d),
      ring_public = (\<lambda>k. Some (replicate 32 (of_nat k))), ring_agree = (\<lambda>k pk. Some [of_nat k * hd pk]),
      dalek_public = (\<lambda>s. s), dalek_dh = (\<lambda>s pk. [hd s * hd pk]), hkdf_expand = (\<lambda>salt ikm info n. Some (resize n 0 ikm)),
      seal_aad = (\<lambda>k n a p. Some (p @ replicate 16 (hd k))),
      open_aad = (\<lambda>k n a c. if drop (length c - 16) c = replicate 16 (hd k) then Some (take (length c - 16) c) else None)\<rparr>"

lemma example_hybrid_lib: "hybrid_lib example_hybrid"
  by (auto simp: hybrid_lib_def example_hybrid_def)


end
