(* ===== verification/Rp2350_Board.thy ===== *)
theory Rp2350_Board
  imports Device_Profile
begin

section \<open>The boards of the targets\<close>

text \<open>
  Models \<open>targets/rp2350/src/profile.rs\<close>, \<open>targets/generic/src/lib.rs\<close> and \<open>targets/stm32/src/lib.rs\<close> (the board
  constants), the USB identities of \<open>targets/rp2350/src/composite.rs\<close> and \<open>targets/rp2350/src/bootsel_presence.rs\<close>
  (the touch sensor of the RP2350: the BOOTSEL button behind the chip select of the flash, with the status LED). The
  registers are a parameter: the operations of \<open>Rp2350Regs\<close> on a state that also stands for the time that passes.
\<close>

subsection \<open>Board constants\<close>

record Rp2350Pins =
  pin_i2c_sda :: u8
  pin_i2c_scl :: u8
  pin_spi_mosi :: u8
  pin_spi_miso :: u8
  pin_spi_clk :: u8
  pin_cs :: u8
  pin_reset :: u8
  pin_irq :: u8
  pin_led :: u8
  pin_button :: u8

definition rp2350_with_pins :: "Rp2350Pins \<Rightarrow> BoardDefinition" where
  "rp2350_with_pins pins =
     board_button (pin_button pins) (board_led (pin_led pins) (board_irq (pin_irq pins) (board_reset (pin_reset pins)
     (board_cs (pin_cs pins) (board_spi_clk (pin_spi_clk pins) (board_spi_miso (pin_spi_miso pins)
     (board_spi_mosi (pin_spi_mosi pins) (board_i2c_scl (pin_i2c_scl pins) (board_i2c_sda (pin_i2c_sda pins)
     (board_presence_source Presence_Bootsel (board_security_features security_rp2350 (board_crypto_accelerator True
     (board_secure_storage True (board_usb_ccid (board_usb_hid (board_new ''rp2350-fido''
       [0x52, 0x50, 0x32, 0x33, 0x35, 0x30, 0x00, 0x00, 0x00, 0x00, 0x00, 0x00, 0x00, 0x00, 0x00, 0x05]))))))))))))))))"

definition RP2350 :: BoardDefinition where
  "RP2350 = rp2350_with_pins
     \<lparr>pin_i2c_sda = 4, pin_i2c_scl = 5, pin_spi_mosi = 6, pin_spi_miso = 7, pin_spi_clk = 8, pin_cs = 9, pin_reset = 10,
      pin_irq = 11, pin_led = 25, pin_button = 13\<rparr>"

definition RP2350_ZERO :: BoardDefinition where
  "RP2350_ZERO =
     board_button 0xFF (board_led 16 (board_irq 11 (board_reset 10 (board_cs 9 (board_spi_clk 8 (board_spi_miso 7
     (board_spi_mosi 6 (board_i2c_scl 5 (board_i2c_sda 4 (board_presence_source Presence_Bootsel
     (board_security_features security_rp2350 (board_crypto_accelerator True (board_secure_storage True
     (board_usb_ccid (board_usb_hid (board_new ''rp2350-zero''
       [0x52, 0x50, 0x32, 0x33, 0x35, 0x30, 0x00, 0x00, 0x00, 0x00, 0x00, 0x00, 0x00, 0x00, 0x00, 0x06]))))))))))))))))"

definition YUBIKEY_4_5 :: BoardDefinition where
  "YUBIKEY_4_5 =
     board_button 0xFF (board_led 16 (board_irq 11 (board_reset 10 (board_cs 9 (board_spi_clk 8 (board_spi_miso 7
     (board_spi_mosi 6 (board_i2c_scl 5 (board_i2c_sda 4 (board_presence_source Presence_Bootsel
     (board_security_features security_yubico (board_crypto_accelerator True (board_secure_storage True
     (board_usb_ccid (board_usb_hid (board_new ''yubikey-4-5''
       [0x59, 0x55, 0x42, 0x49, 0x4B, 0x45, 0x59, 0x34, 0x2D, 0x35, 0x00, 0x00, 0x00, 0x00, 0x00, 0x07]))))))))))))))))"

definition GENERIC :: BoardDefinition where
  "GENERIC =
     board_button 9 (board_led 8 (board_irq 7 (board_reset 6 (board_cs 5 (board_spi_clk 4 (board_spi_miso 3
     (board_spi_mosi 2 (board_i2c_scl 1 (board_i2c_sda 0 (board_usb_ccid (board_new ''generic-fido''
       [0x00, 0x00, 0x00, 0x00, 0x00, 0x00, 0x00, 0x00, 0x00, 0x00, 0x00, 0x00, 0x00, 0x00, 0x00, 0xFF])))))))))))"

definition STM32L4 :: BoardDefinition where
  "STM32L4 =
     board_irq 15 (board_reset 14 (board_cs 13 (board_spi_clk 12 (board_spi_miso 11 (board_spi_mosi 10 (board_i2c_scl 9
     (board_i2c_sda 8 (board_button 1 (board_led 0 (board_crypto_accelerator True (board_secure_storage True
     (board_usb_ccid (board_usb_hid (board_new ''stm32l4-fido''
       [0x53, 0x54, 0x4D, 0x33, 0x32, 0x4C, 0x34, 0x00, 0x00, 0x00, 0x00, 0x00, 0x00, 0x00, 0x00, 0x02]))))))))))))))"

subsection \<open>USB identity\<close>

record CompositeIdentity =
  ci_vid :: u16
  ci_pid :: u16
  ci_manufacturer :: string
  ci_product :: string
  ci_serial :: string

definition from_preset :: "UsbVendorPreset \<Rightarrow> CompositeIdentity" where
  "from_preset preset =
     (let i = identity_preset preset in
      \<lparr>ci_vid = usb_vid i, ci_pid = usb_pid i, ci_manufacturer = usb_manufacturer i, ci_product = usb_product i,
       ci_serial = ''openkey''\<rparr>)"

definition OPENKEY_IDENTITY :: CompositeIdentity where
  "OPENKEY_IDENTITY = from_preset Preset_OpenKey"

text \<open>The constant \<open>ACTIVE_IDENTITY\<close> depends on the feature \<open>yubikey5-identity\<close> of the build.\<close>

definition active_identity :: "bool \<Rightarrow> CompositeIdentity" where
  "active_identity yubikey5 = (if yubikey5 then from_preset Preset_YubiKey5 else OPENKEY_IDENTITY)"

subsection \<open>Registers\<close>

record 'm Rp2350Regs =
  reg_read :: "'m \<Rightarrow> u32 \<Rightarrow> u32"
  reg_write :: "'m \<Rightarrow> u32 \<Rightarrow> u32 \<Rightarrow> 'm"
  nops :: "'m \<Rightarrow> nat \<Rightarrow> 'm"

definition IO_QSPI_CS_CTRL :: u32 where "IO_QSPI_CS_CTRL = 0x4003000C"
definition SIO_GPIO_HI_IN :: u32 where "SIO_GPIO_HI_IN = 0xD0000008"
definition SIO_GPIO_OUT_SET :: u32 where "SIO_GPIO_OUT_SET = 0xD0000014"
definition SIO_GPIO_OUT_CLR :: u32 where "SIO_GPIO_OUT_CLR = 0xD0000018"
definition SIO_GPIO_OE_SET :: u32 where "SIO_GPIO_OE_SET = 0xD0000024"

definition delay_cycles :: "'m Rp2350Regs \<Rightarrow> u32 \<Rightarrow> 'm \<Rightarrow> 'm" where
  "delay_cycles hw cycles m = nops hw m (unat (cycles div 3))"

text \<open>One bit on the wire of the LED: how long the pin is high, then low.\<close>

definition ws2812_bit :: "'m Rp2350Regs \<Rightarrow> bool \<Rightarrow> 'm \<Rightarrow> 'm" where
  "ws2812_bit hw b m =
     (let mask = push_bit 16 1;
          m = reg_write hw m SIO_GPIO_OUT_SET mask;
          m = nops hw m (if b then 20 else 8);
          m = reg_write hw m SIO_GPIO_OUT_CLR mask
      in nops hw m (if b then 8 else 20))"

definition ws2812_byte :: "'m Rp2350Regs \<Rightarrow> u8 \<Rightarrow> 'm \<Rightarrow> 'm" where
  "ws2812_byte hw byte m = fold (\<lambda>i. ws2812_bit hw (drop_bit i byte AND 1 = 1)) (rev [0..<8]) m"

definition ws2812_write :: "'m Rp2350Regs \<Rightarrow> bytes \<Rightarrow> 'm \<Rightarrow> 'm" where
  "ws2812_write hw data m = nops hw (fold (ws2812_byte hw) data m) 1500"

definition set_presence_led :: "'m Rp2350Regs \<Rightarrow> bool \<Rightarrow> 'm \<Rightarrow> 'm" where
  "set_presence_led hw on m =
     (let m = reg_write hw m SIO_GPIO_OE_SET (push_bit 16 1 OR push_bit 25 1)
      in if on then ws2812_write hw [20, 0, 0] (reg_write hw m SIO_GPIO_OUT_SET (push_bit 25 1))
         else ws2812_write hw [0, 0, 0] (reg_write hw m SIO_GPIO_OUT_CLR (push_bit 25 1)))"

definition read_bootsel_button :: "'m Rp2350Regs \<Rightarrow> 'm \<Rightarrow> 'm \<times> bool" where
  "read_bootsel_button hw m =
     (let original_ctrl = reg_read hw m IO_QSPI_CS_CTRL;
          hi_z_ctrl = (original_ctrl AND NOT (push_bit 12 0x3)) OR push_bit 12 0x2;
          m = reg_write hw m IO_QSPI_CS_CTRL hi_z_ctrl;
          m = nops hw m 1000;
          hi_in = reg_read hw m SIO_GPIO_HI_IN;
          m = reg_write hw m IO_QSPI_CS_CTRL original_ctrl
      in (m, hi_in AND push_bit 1 1 = 0))"

subsection \<open>User presence\<close>

text \<open>The loop \<open>for i in 0..150\<close>: the button has to be down in two samples 15 ms apart.\<close>

fun presence_loop :: "'m Rp2350Regs \<Rightarrow> nat list \<Rightarrow> 'm \<Rightarrow> 'm \<times> bool" where
  "presence_loop hw [] m = (m, False)"
| "presence_loop hw (i # is) m =
     (let m = set_presence_led hw (i mod 2 = 0) m;
          (m, first) = read_bootsel_button hw m;
          (m, confirmed) =
            (if first then read_bootsel_button hw (delay_cycles hw (15 * 125000) m) else (m, False))
      in if confirmed then (m, True)
         else presence_loop hw is (delay_cycles hw (100 * 125000) m))"

definition confirm_blink :: "'m Rp2350Regs \<Rightarrow> 'm \<Rightarrow> 'm" where
  "confirm_blink hw m =
     delay_cycles hw (50 * 125000) (ws2812_write hw [0, 0, 0] (delay_cycles hw (50 * 125000) (ws2812_write hw [0, 20, 20] m)))"

definition rp2350_is_present :: "'m Rp2350Regs \<Rightarrow> 'm \<Rightarrow> 'm \<times> bool" where
  "rp2350_is_present hw m =
     (let (m, confirmed) = presence_loop hw [0..<150] m;
          m = set_presence_led hw False m
      in if confirmed then ((confirm_blink hw ^^ 2) m, True) else (m, False))"

subsection \<open>Lemmas\<close>

text \<open>The binary checks at compile time that the boards it may be built for have the LED on pin 16.\<close>

lemma status_led_pin: "bd_led_pin RP2350_ZERO = 16 \<and> bd_led_pin YUBIKEY_4_5 = 16"
  by (simp add: RP2350_ZERO_def YUBIKEY_4_5_def board_button_def board_led_def)

lemma board_transports:
  "map (\<lambda>b. pb_transports (from_board b)) [RP2350, RP2350_ZERO, YUBIKEY_4_5, STM32L4, GENERIC]
     = [[PT_UsbCcid, PT_UsbHid], [PT_UsbCcid, PT_UsbHid], [PT_UsbCcid, PT_UsbHid], [PT_UsbCcid, PT_UsbHid], [PT_UsbCcid]]"
  by code_simp

lemma board_aaguids:
  "distinct (map bd_aaguid [RP2350, RP2350_ZERO, YUBIKEY_4_5, STM32L4, GENERIC])"
  "list_all (\<lambda>b. length (bd_aaguid b) = 16) [RP2350, RP2350_ZERO, YUBIKEY_4_5, STM32L4, GENERIC]"
  by code_simp+

text \<open>
  Memory-like registers: a control register holds what was written to it, waiting does not change it, and the input
  register shows the level of the line, whatever is written elsewhere.
\<close>

definition regs_ok :: "'m Rp2350Regs \<Rightarrow> bool" where
  "regs_ok hw \<longleftrightarrow>
     (\<forall>m v. reg_read hw (reg_write hw m IO_QSPI_CS_CTRL v) IO_QSPI_CS_CTRL = v)
     \<and> (\<forall>m n. reg_read hw (nops hw m n) IO_QSPI_CS_CTRL = reg_read hw m IO_QSPI_CS_CTRL)"

text \<open>Sampling the button gives the flash its chip select back.\<close>

lemma bootsel_restores:
  assumes "regs_ok hw"
  shows "reg_read hw (fst (read_bootsel_button hw m)) IO_QSPI_CS_CTRL = reg_read hw m IO_QSPI_CS_CTRL"
  using assms by (simp add: read_bootsel_button_def regs_ok_def Let_def)

text \<open>
  Presence is reported exactly when in some round both samples see the button down; the rounds before it fail. The
  samples of a round are taken in the states the loop reaches.
\<close>

definition round_start :: "'m Rp2350Regs \<Rightarrow> nat \<Rightarrow> 'm \<Rightarrow> 'm" where
  "round_start hw i m = set_presence_led hw (i mod 2 = 0) m"

definition first_sample :: "'m Rp2350Regs \<Rightarrow> nat \<Rightarrow> 'm \<Rightarrow> bool" where
  "first_sample hw i m = snd (read_bootsel_button hw (round_start hw i m))"

definition second_sample :: "'m Rp2350Regs \<Rightarrow> nat \<Rightarrow> 'm \<Rightarrow> bool" where
  "second_sample hw i m =
     snd (read_bootsel_button hw (delay_cycles hw (15 * 125000) (fst (read_bootsel_button hw (round_start hw i m)))))"

lemma presence_needs_two_samples:
  assumes "snd (presence_loop hw is m)"
  shows "\<exists>i\<in>set is. \<exists>m. first_sample hw i m \<and> second_sample hw i m"
  using assms
proof (induction "is" arbitrary: m)
  case (Cons i "is")
  show ?case
  proof (cases "first_sample hw i m \<and> second_sample hw i m")
    case False
    then obtain m' where "snd (presence_loop hw is m')"
      using Cons.prems
      by (auto simp: first_sample_def second_sample_def round_start_def Let_def split_beta split: if_splits)
    then show ?thesis using Cons.IH by auto
  qed auto
qed simp

text \<open>A button that is never down gives no presence; one that is held gives it in the first round.\<close>

lemma presence_released:
  assumes "\<And>m. \<not> snd (read_bootsel_button hw m)"
  shows "\<not> snd (rp2350_is_present hw m)"
proof -
  have "\<not> snd (presence_loop hw [0..<150] m)"
    using presence_needs_two_samples [of hw "[0..<150]" m] assms by (auto simp: first_sample_def)
  then show ?thesis by (simp add: rp2350_is_present_def Let_def split_beta)
qed

lemma presence_held:
  assumes "\<And>m. snd (read_bootsel_button hw m)"
  shows "snd (rp2350_is_present hw m)"
proof -
  have "[0..<150 :: nat] = 0 # [1..<150]" by (simp add: upt_rec)
  then have "snd (presence_loop hw [0..<150] m)" using assms by (simp add: Let_def split_beta)
  then show ?thesis by (simp add: rp2350_is_present_def Let_def split_beta)
qed

end
