(* ===== verification/Firmware.thy ===== *)
theory Firmware
  imports Usb_Hid Ctap2 Rp2350_Board
begin

section \<open>The firmware of the RP2350\<close>

text \<open>
  Models the composite USB device of \<open>targets/rp2350/src/composite.rs\<close> and the main loop of
  \<open>targets/rp2350/src/main.rs\<close> with \<open>dispatch\<close> and \<open>send_hid_packets\<close>: CTAPHID packets go through the assembler to the
  CTAP2 authenticator, APDUs of the CCID interface to the card router. The USB stack is a parameter as in the theories
  \<open>Ccid\<close> and \<open>Usb_Hid\<close>: the two IN endpoints and the events of every poll; so are the applets behind the router (any
  implementation of the trait \<open>Applet\<close>) and the pin of the LED. \<open>None\<close> is a turn that does not return: a panic of the
  CCID class, after which the firmware halts, or a channel allocation that finds no free identifier.
\<close>

subsection \<open>The composite device\<close>

datatype CompositeEvent =
    Composite_Reset
  | Composite_Control RequestType Recipient u8
  | Hid_Out "(UsbError, bytes) result"
  | Ccid_Out "(UsbError, bytes) result"

record ('u, 'w, 'h) CompositeUsbDevice =
  cu_hid :: "'u CtapHidClass"
  cu_ccid :: "('w, 'h) CcidClass"
  cu_events :: "CompositeEvent list list"

definition composite_new :: "'u \<Rightarrow> 'w \<Rightarrow> CompositeEvent list list \<Rightarrow> ('u, 'w, 'h) CompositeUsbDevice" where
  "composite_new u w events = \<lparr>cu_hid = ctap_hid_new u, cu_ccid = ccid_new w, cu_events = events\<rparr>"

text \<open>The stack offers each event to both classes; only the owner of the endpoint reads a packet.\<close>

fun for_hid :: "CompositeEvent \<Rightarrow> UsbEvent" where
  "for_hid Composite_Reset = Bus_Reset"
| "for_hid (Composite_Control ty rcpt request) = Control_Out ty rcpt request"
| "for_hid (Hid_Out r) = Endpoint_Out True r"
| "for_hid (Ccid_Out r) = Endpoint_Out False r"

fun for_ccid :: "CompositeEvent \<Rightarrow> UsbEvent" where
  "for_ccid Composite_Reset = Bus_Reset"
| "for_ccid (Composite_Control ty rcpt request) = Control_Out ty rcpt request"
| "for_ccid (Hid_Out r) = Endpoint_Out False r"
| "for_ccid (Ccid_Out r) = Endpoint_Out True r"

definition composite_poll :: "('w, 'h) CcidEnv \<Rightarrow> ('u, 'w, 'h) CompositeUsbDevice \<Rightarrow> ('u, 'w, 'h) CompositeUsbDevice option" where
  "composite_poll env d =
     (let evs = (case cu_events d of [] \<Rightarrow> [] | e # es \<Rightarrow> e);
          rest = (case cu_events d of [] \<Rightarrow> [] | e # es \<Rightarrow> es);
          hid = fold (\<lambda>e. hid_event (for_hid e)) evs (cu_hid d);
          ccid = fold (\<lambda>e. usb_event (for_ccid e)) evs (cu_ccid d)
      in map_option (\<lambda>ccid. \<lparr>cu_hid = hid, cu_ccid = ccid, cu_events = rest\<rparr>) (ccid_process env ccid))"

subsection \<open>The state of the main loop\<close>

record ('u, 'w, 'h, 'a, 'l, 'e, 'b, 'p, 'v) FirmwareEnv =
  fe_hid_write :: "'u \<Rightarrow> bytes \<Rightarrow> 'u \<times> (UsbError, usize) result"
  fe_ccid :: "('w, 'h) CcidEnv"
  fe_applets :: "'a AppletOps"
  fe_ctap :: "('b, 'p, 'v) cenv"
  fe_led :: "('l, 'e) PinOps"
  fe_delay_ms :: "'l \<Rightarrow> u32 \<Rightarrow> 'l"

record ('u, 'w, 'h, 'a, 'l, 'b, 'p, 'v) Firmware =
  fw_device :: "('u, 'w, 'h) CompositeUsbDevice"
  fw_router :: "'a CardRouter"
  fw_channels :: ChannelManager
  fw_assembler :: CtaphidAssembler
  fw_ctap :: "('b, 'p, 'v) auth"
  fw_led :: 'l

definition FW_MAJOR :: u8 where "FW_MAJOR = 0"
definition FW_MINOR :: u8 where "FW_MINOR = 1"
definition FW_BUILD :: u8 where "FW_BUILD = 0"

definition serve_ccid ::
  "('u, 'w, 'h, 'a, 'l, 'e, 'b, 'p, 'v) FirmwareEnv \<Rightarrow> ('u, 'w, 'h) CompositeUsbDevice \<Rightarrow> 'a CardRouter
     \<Rightarrow> ('u, 'w, 'h) CompositeUsbDevice \<times> 'a CardRouter" where
  "serve_ccid env d router =
     (if pending (cu_ccid d)
      then (case take_pending_request (cu_ccid d) MAX_PAYLOAD_LEN of
              (c, Some apdu) \<Rightarrow>
                (let (router, response) = router_process (fe_applets env) router apdu
                 in (d\<lparr>cu_ccid := fst (send_response (fe_ccid env) c (resp_to_bytes response))\<rparr>, router))
            | (c, None) \<Rightarrow> (d\<lparr>cu_ccid := c\<rparr>, router))
      else (d, router))"

text \<open>The inner loop of \<open>send_hid_packets\<close>, for at most \<open>n\<close> polls.\<close>

fun send_packet ::
  "nat \<Rightarrow> ('u, 'w, 'h, 'a, 'l, 'e, 'b, 'p, 'v) FirmwareEnv \<Rightarrow> ('u, 'w, 'h) CompositeUsbDevice \<Rightarrow> 'a CardRouter \<Rightarrow> bytes
     \<Rightarrow> (('u, 'w, 'h) CompositeUsbDevice \<times> 'a CardRouter \<times> bool) option" where
  "send_packet 0 env d router packet = Some (d, router, False)"
| "send_packet (Suc n) env d router packet =
     (case composite_poll (fe_ccid env) d of
        None \<Rightarrow> None
      | Some d \<Rightarrow>
          (let (d, router) = serve_ccid env d router;
               (hid, r) = send_report (fe_hid_write env) (cu_hid d) packet;
               d = d\<lparr>cu_hid := hid\<rparr>
           in case r of Inr _ \<Rightarrow> Some (d, router, True) | Inl _ \<Rightarrow> send_packet n env d router packet))"

definition SEND_POLLS :: nat where "SEND_POLLS = 500000"

fun send_hid_packets ::
  "('u, 'w, 'h, 'a, 'l, 'e, 'b, 'p, 'v) FirmwareEnv \<Rightarrow> ('u, 'w, 'h) CompositeUsbDevice \<Rightarrow> 'a CardRouter \<Rightarrow> bytes list
     \<Rightarrow> (('u, 'w, 'h) CompositeUsbDevice \<times> 'a CardRouter) option" where
  "send_hid_packets env d router [] = Some (d, router)"
| "send_hid_packets env d router (packet # packets) =
     (case send_packet SEND_POLLS env d router packet of
        None \<Rightarrow> None
      | Some (d, router, sent) \<Rightarrow> if sent then send_hid_packets env d router packets else Some (d, router))"

subsection \<open>Dispatch of a message\<close>

definition cbor_reply :: "(Ctap2Error, bytes) result \<Rightarrow> bytes" where
  "cbor_reply r = (case r of Inr response \<Rightarrow> 0 # response | Inl e \<Rightarrow> [error_code e])"

definition hid_dispatch ::
  "('b, 'p, 'v) cenv \<Rightarrow> ChannelManager \<Rightarrow> ('b, 'p, 'v) auth \<Rightarrow> CtaphidMessage
     \<Rightarrow> (ChannelManager \<times> ('b, 'p, 'v) auth \<times> CtaphidMessage) option" where
  "hid_dispatch env channels a msg =
     (let reply = (\<lambda>cmd payload. Some (channels, a, message_new (msg_cid msg) cmd payload)) in
      case msg_cmd msg of
        Cmd_Init \<Rightarrow>
          map_option (\<lambda>(channels, payload). (channels, a, message_new (msg_cid msg) Cmd_Init payload))
            (build_init_response channels (msg_payload msg) FW_MAJOR FW_MINOR FW_BUILD
               (CAPABILITY_CBOR OR CAPABILITY_WINK OR CAPABILITY_NMSG))
      | Cmd_Ping \<Rightarrow> reply Cmd_Ping (msg_payload msg)
      | Cmd_Wink \<Rightarrow> reply Cmd_Wink []
      | Cmd_Lock \<Rightarrow> reply Cmd_Lock []
      | Cmd_Cancel \<Rightarrow> reply Cmd_Cancel []
      | Cmd_Keepalive \<Rightarrow> reply Cmd_Keepalive (msg_payload msg)
      | Cmd_Error \<Rightarrow> reply Cmd_Error (msg_payload msg)
      | Cmd_Cbor \<Rightarrow>
          (case msg_payload msg of
             [] \<Rightarrow> reply Cmd_Cbor [error_code Err_InvalidLength]
           | cmd_byte # cbor_data \<Rightarrow>
               (let (a, r) = process_command env a cmd_byte cbor_data
                in Some (channels, a, message_new (msg_cid msg) Cmd_Cbor (cbor_reply r))))
      | Cmd_Msg \<Rightarrow> reply Cmd_Error [error_as_u8 Hid_InvalidCmd]
      | Cmd_Vendor _ \<Rightarrow> reply Cmd_Error [error_as_u8 Hid_InvalidCmd])"

subsection \<open>One turn of the main loop\<close>

definition wink :: "('u, 'w, 'h, 'a, 'l, 'e, 'b, 'p, 'v) FirmwareEnv \<Rightarrow> 'l \<Rightarrow> 'l" where
  "wink env l = fst (pin_set_high (fe_led env) (fe_delay_ms env (fst (pin_set_low (fe_led env) l)) 40))"

text \<open>\<open>if let Ok(packets) = fragment(..) \<open>{\<close> send_hid_packets(..) \<open>}\<close>\<close>\<close>

definition answer_hid ::
  "('u, 'w, 'h, 'a, 'l, 'e, 'b, 'p, 'v) FirmwareEnv \<Rightarrow> ('u, 'w, 'h, 'a, 'l, 'b, 'p, 'v) Firmware \<Rightarrow> CtaphidMessage
     \<Rightarrow> ('u, 'w, 'h, 'a, 'l, 'b, 'p, 'v) Firmware option" where
  "answer_hid env fw reply =
     (case fragment (msg_cid reply) (msg_cmd reply) (msg_payload reply) of
        Inl _ \<Rightarrow> Some fw
      | Inr packets \<Rightarrow>
          map_option (\<lambda>(d, router). fw\<lparr>fw_device := d, fw_router := router\<rparr>)
            (send_hid_packets env (fw_device fw) (fw_router fw) packets))"

definition handle_packet ::
  "('u, 'w, 'h, 'a, 'l, 'e, 'b, 'p, 'v) FirmwareEnv \<Rightarrow> ('u, 'w, 'h, 'a, 'l, 'b, 'p, 'v) Firmware \<Rightarrow> bytes
     \<Rightarrow> ('u, 'w, 'h, 'a, 'l, 'b, 'p, 'v) Firmware option" where
  "handle_packet env fw buf =
     (case process_packet (fw_assembler fw) buf of
        (asm, Inr (Some msg)) \<Rightarrow>
          (case hid_dispatch (fe_ctap env) (fw_channels fw) (fw_ctap fw) msg of
             None \<Rightarrow> None
           | Some (channels, a, reply) \<Rightarrow>
               answer_hid env
                 (fw\<lparr>fw_assembler := asm, fw_channels := channels, fw_ctap := a,
                     fw_led := (if msg_cmd msg = Cmd_Wink then wink env (fw_led fw) else fw_led fw)\<rparr>) reply)
      | (asm, Inr None) \<Rightarrow> Some (fw\<lparr>fw_assembler := asm\<rparr>)
      | (asm, Inl (cid, code)) \<Rightarrow>
          answer_hid env (fw\<lparr>fw_assembler := asm\<rparr>) (message_new cid Cmd_Error [error_as_u8 code]))"

definition loop_turn ::
  "('u, 'w, 'h, 'a, 'l, 'e, 'b, 'p, 'v) FirmwareEnv \<Rightarrow> ('u, 'w, 'h, 'a, 'l, 'b, 'p, 'v) Firmware
     \<Rightarrow> ('u, 'w, 'h, 'a, 'l, 'b, 'p, 'v) Firmware option" where
  "loop_turn env fw =
     (case composite_poll (fe_ccid env) (fw_device fw) of
        None \<Rightarrow> None
      | Some d \<Rightarrow>
          (let (d, router) = serve_ccid env d (fw_router fw);
               (hid, report) = recv_report (cu_hid d) CTAPHID_PACKET_SIZE;
               fw = fw\<lparr>fw_device := d\<lparr>cu_hid := hid\<rparr>, fw_router := router\<rparr>
           in case report of
                Some pkt \<Rightarrow> handle_packet env fw (copy_into (replicate CTAPHID_PACKET_SIZE 0) 0 pkt)
              | None \<Rightarrow> Some fw))"

fun fw_run ::
  "('u, 'w, 'h, 'a, 'l, 'e, 'b, 'p, 'v) FirmwareEnv \<Rightarrow> nat \<Rightarrow> ('u, 'w, 'h, 'a, 'l, 'b, 'p, 'v) Firmware
     \<Rightarrow> ('u, 'w, 'h, 'a, 'l, 'b, 'p, 'v) Firmware option" where
  "fw_run env 0 fw = Some fw"
| "fw_run env (Suc n) fw = Option.bind (loop_turn env fw) (fw_run env n)"

end
