(* ===== verification/Firmware_Exchange.thy ===== *)
theory Firmware_Exchange
  imports Firmware Ccid_Exchange Example_Device
begin

section \<open>CTAP2 over the firmware\<close>

text \<open>
  The composition of the parts on the way of a CTAP2 request: the USB HID class, the assembler, the dispatch, the
  authenticator, the fragmenter and the send loop. It is shown to refine a session in which the requests are given to
  \<open>process_command\<close> one after the other. The host sends the packets of a request one per poll and waits for the reply;
  the smart card interface is quiet meanwhile; the IN endpoint takes a packet after fewer polls than the send loop
  makes.
\<close>

subsection \<open>The endpoint and the quiet device\<close>

text \<open>\<open>out\<close> are the packets the host has received, \<open>busy\<close> bounds how often the endpoint refuses the next one.\<close>

definition endpoint_ok :: "('u \<Rightarrow> bytes \<Rightarrow> 'u \<times> (UsbError, usize) result) \<Rightarrow> ('u \<Rightarrow> bytes list) \<Rightarrow> ('u \<Rightarrow> nat) \<Rightarrow> bool" where
  "endpoint_ok write out busy \<longleftrightarrow>
     (\<forall>u p. busy u < SEND_POLLS
        \<and> (case write u p of
             (u', Inr _) \<Rightarrow> out u' = out u @ [p]
           | (u', Inl _) \<Rightarrow> out u' = out u \<and> busy u' < busy u))"

definition quiet :: "('u, 'w, 'h) CompositeUsbDevice \<Rightarrow> bool" where
  "quiet d \<longleftrightarrow> \<not> hc_out_ready (cu_hid d) \<and> length (hc_out_buf (cu_hid d)) = 64
     \<and> \<not> rx_ready (cu_ccid d) \<and> \<not> pending (cu_ccid d)"

abbreviation device_out :: "('u \<Rightarrow> bytes list) \<Rightarrow> ('u, 'w, 'h) CompositeUsbDevice \<Rightarrow> bytes list" where
  "device_out out d \<equiv> out (hc_ep_in (cu_hid d))"

lemma poll_nothing:
  assumes "quiet d" "cu_events d = []"
  shows "\<exists>d'. composite_poll env d = Some d' \<and> quiet d' \<and> cu_events d' = [] \<and> cu_hid d' = cu_hid d"
  using assms same_rx_flush [of "cu_ccid d" env]
  by (simp add: composite_poll_def Let_def ccid_process_def quiet_def same_rx_def)

lemma serve_quiet: "quiet d \<Longrightarrow> serve_ccid env d r = (d, r)"
  by (simp add: serve_ccid_def quiet_def)

lemma poll_packet:
  assumes "quiet d" "cu_events d = [Hid_Out (Inr p)] # es" "length p = 64"
  shows "\<exists>d'. composite_poll env d = Some d' \<and> serve_ccid fenv d' r = (d', r)
     \<and> recv_report (cu_hid d') 64 = ((cu_hid d)\<lparr>hc_out_buf := p, hc_out_len := 0\<rparr>, Some p)
     \<and> quiet (d'\<lparr>cu_hid := (cu_hid d)\<lparr>hc_out_buf := p, hc_out_len := 0\<rparr>\<rparr>) \<and> cu_events d' = es"
  using assms same_rx_flush [of "cu_ccid d" env]
  by (auto simp: composite_poll_def Let_def ccid_process_def quiet_def same_rx_def endpoint_out_def serve_ccid_def
      hid_endpoint_out_def recv_report_def take_data_def copy_into_def)

subsection \<open>Sending\<close>

lemma send_packet_sent:
  assumes "endpoint_ok (fe_hid_write env) out busy" "quiet d" "cu_events d = []" "length p = 64"
    and "busy (hc_ep_in (cu_hid d)) < n"
  shows "\<exists>d'. send_packet n env d r p = Some (d', r, True) \<and> quiet d' \<and> cu_events d' = [] \<and> device_out out d' = device_out out d @ [p]"
  using assms(2-5)
proof (induction n arbitrary: d)
  case (Suc n)
  obtain d1 where d1: "composite_poll (fe_ccid env) d = Some d1" "quiet d1" "cu_events d1 = []" "cu_hid d1 = cu_hid d"
    using poll_nothing [OF Suc.prems(1,2)] by blast
  obtain u w where w: "fe_hid_write env (hc_ep_in (cu_hid d)) p = (u, w)" by fastforce
  have ok: "case (u, w) of (u', Inr _) \<Rightarrow> out u' = device_out out d @ [p]
       | (u', Inl _) \<Rightarrow> out u' = device_out out d \<and> busy u' < busy (hc_ep_in (cu_hid d))"
    using assms(1) [unfolded endpoint_ok_def, rule_format, of "hc_ep_in (cu_hid d)" p] by (simp add: w)
  let ?d = "d1\<lparr>cu_hid := (cu_hid d1)\<lparr>hc_ep_in := u\<rparr>\<rparr>"
  have q: "quiet ?d" "cu_events ?d = []" using d1 by (simp_all add: quiet_def)
  have rep: "send_report (fe_hid_write env) (cu_hid d1) p
      = ((cu_hid d1)\<lparr>hc_ep_in := u\<rparr>, bind_result (map_err (\<lambda>_. SendFailed) w) (\<lambda>_. Inr ()))"
    using w d1(4) Suc.prems(3) by (simp add: send_report_def PACKET_SIZE_def)
  show ?case
  proof (cases w)
    case (Inr n')
    then show ?thesis using d1(1) q rep ok serve_quiet [OF d1(2), of env r] by (simp add: Let_def map_err_def)
  next
    case (Inl e)
    then have "busy (hc_ep_in (cu_hid ?d)) < n" using ok Suc.prems(4) by simp
    then show ?thesis
      using Suc.IH [OF q Suc.prems(3)] Inl ok d1(1) rep serve_quiet [OF d1(2), of env r] by (simp add: Let_def map_err_def)
  qed
qed simp

lemma send_all_sent:
  assumes "endpoint_ok (fe_hid_write env) out busy" "quiet d" "cu_events d = []" "\<forall>p\<in>set ps. length p = 64"
  shows "\<exists>d'. send_hid_packets env d r ps = Some (d', r) \<and> quiet d' \<and> cu_events d' = [] \<and> device_out out d' = device_out out d @ ps"
  using assms(2-4)
proof (induction ps arbitrary: d)
  case (Cons p ps)
  have "busy (hc_ep_in (cu_hid d)) < SEND_POLLS" using assms(1) by (simp add: endpoint_ok_def)
  then obtain d1 where "send_packet SEND_POLLS env d r p = Some (d1, r, True)" "quiet d1" "cu_events d1 = []"
    "device_out out d1 = device_out out d @ [p]"
    using send_packet_sent [OF assms(1) Cons.prems(1,2), of p SEND_POLLS r] Cons.prems(3) by auto
  then show ?case using Cons.IH [of d1] Cons.prems(3) by simp
qed simp

subsection \<open>One exchange\<close>

lemma frame_lengths:
  assumes "fragment cid cmd payload = Inr ps"
  shows "\<forall>p\<in>set ps. length p = 64"
  using assms fragment_cont_lengths
  by (auto simp: fragment_def Let_def CTAPHID_PACKET_SIZE_def split: if_splits)

text \<open>A turn that takes a packet from the host.\<close>

lemma turn_packet:
  assumes "quiet (fw_device fw)" "cu_events (fw_device fw) = [Hid_Out (Inr p)] # es" "length p = 64"
  shows "\<exists>d. loop_turn env fw = handle_packet env (fw\<lparr>fw_device := d\<rparr>) p \<and> quiet d \<and> cu_events d = es
     \<and> device_out out d = device_out out (fw_device fw)"
proof -
  obtain d where d: "composite_poll (fe_ccid env) (fw_device fw) = Some d" "serve_ccid env d (fw_router fw) = (d, fw_router fw)"
    "recv_report (cu_hid d) 64 = ((cu_hid (fw_device fw))\<lparr>hc_out_buf := p, hc_out_len := 0\<rparr>, Some p)"
    "quiet (d\<lparr>cu_hid := (cu_hid (fw_device fw))\<lparr>hc_out_buf := p, hc_out_len := 0\<rparr>\<rparr>)" "cu_events d = es"
    using poll_packet [OF assms] by blast
  have "copy_into (replicate 64 0) 0 p = p" using assms(3) by (simp add: copy_into_def)
  then show ?thesis using d 
    by (intro exI [of _ "d\<lparr>cu_hid := (cu_hid (fw_device fw))\<lparr>hc_out_buf := p, hc_out_len := 0\<rparr>\<rparr>"]) (simp add: loop_turn_def CTAPHID_PACKET_SIZE_def)
qed

text \<open>Packets that the assembler keeps change nothing but the assembler.\<close>

lemma run_collect:
  assumes "quiet (fw_device fw)" "cu_events (fw_device fw) = map (\<lambda>p. [Hid_Out (Inr p)]) ps @ es" "\<forall>p\<in>set ps. length p = 64"
    and "feed_all process_packet (fw_assembler fw) ps = (asm, replicate (length ps) (Inr None))"
  shows "\<exists>d. fw_run env (length ps) fw = Some (fw\<lparr>fw_device := d, fw_assembler := asm\<rparr>) \<and> quiet d \<and> cu_events d = es
     \<and> device_out out d = device_out out (fw_device fw)"
  using assms
proof (induction ps arbitrary: fw)
  case (Cons p ps)
  obtain asm1 where f: "process_packet (fw_assembler fw) p = (asm1, Inr None)" "feed_all process_packet asm1 ps = (asm, replicate (length ps) (Inr None))"
    using Cons.prems(4) by (auto simp: split_beta prod_eq_iff)
  obtain d where d: "loop_turn env fw = handle_packet env (fw\<lparr>fw_device := d\<rparr>) p" "quiet d"
    "cu_events d = map (\<lambda>p. [Hid_Out (Inr p)]) ps @ es" "device_out out d = device_out out (fw_device fw)"
    using turn_packet [OF Cons.prems(1), of p _ env out] Cons.prems(2,3) by auto
  have turn: "loop_turn env fw = Some (fw\<lparr>fw_device := d, fw_assembler := asm1\<rparr>)" using d(1) f(1) by (simp add: handle_packet_def)
  show ?case using Cons.IH [of "fw\<lparr>fw_device := d, fw_assembler := asm1\<rparr>"] Cons.prems(3) d(2-4) turn f(2) by auto
qed (auto intro!: exI [of _ "fw_device _"])

lemma fw_run_add: "fw_run env (m + n) fw = Option.bind (fw_run env m fw) (fw_run env n)"
proof (induction m arbitrary: fw)
  case (Suc m)
  then show ?case by (cases "loop_turn env fw") simp_all
qed simp

text \<open>The packets of a message: all but the last are kept by the assembler, the last gives the message.\<close>

lemma frames_split:
  assumes "sendable m"
  shows "\<exists>ps p asm. frames m = ps @ [p] \<and> (\<forall>q\<in>set (ps @ [p]). length q = 64)
     \<and> feed_all process_packet a ps = (asm, replicate (length ps) (Inr None))
     \<and> process_packet asm p = (a\<lparr>active_state := None\<rparr>, Inr (Some m))"
proof -
  obtain fs where fs: "fragment (msg_cid m) (msg_cmd m) (msg_payload m) = Inr fs"
    "feed_all process_packet a fs = (a\<lparr>active_state := None\<rparr>, replicate (length fs - 1) (Inr None) @ [Inr (Some m)])"
    using assms by (auto simp: sendable_def elim: feed_fragment [where a = a and cid = "msg_cid m"])
  have "fs \<noteq> []" using fs(1) by (auto simp: fragment_def Let_def split: if_splits)
  then obtain ps p where ps: "fs = ps @ [p]" by (metis append_butlast_last_id)
  obtain asm rs where s: "feed_all process_packet a ps = (asm, rs)" by fastforce
  then have "length rs = length ps" using length_feed_all [of process_packet a ps] by simp
  then have "rs = replicate (length ps) (Inr None)" "process_packet asm p = (a\<lparr>active_state := None\<rparr>, Inr (Some m))"
    using fs(2) s by (auto simp: ps feed_all_append split_beta prod_eq_iff)
  then show ?thesis using fs(1) ps s frame_lengths [OF fs(1)] by (auto simp: frames_def)
qed

lemma exchange:
  assumes "endpoint_ok (fe_hid_write env) out busy" "quiet (fw_device fw)" "sendable m"
    and "cu_events (fw_device fw) = map (\<lambda>p. [Hid_Out (Inr p)]) (frames m)"
    and "hid_dispatch (fe_ctap env) (fw_channels fw) (fw_ctap fw) m = Some (channels, a, reply)"
    and "length (msg_payload reply) \<le> CTAPHID_MAX_PAYLOAD_LEN"
  shows "\<exists>fw'. fw_run env (length (frames m)) fw = Some fw' \<and> quiet (fw_device fw') \<and> fw_ctap fw' = a \<and> fw_channels fw' = channels
     \<and> fw_router fw' = fw_router fw \<and> device_out out (fw_device fw') = device_out out (fw_device fw) @ frames reply"
proof -
  obtain ps p asm where ps: "frames m = ps @ [p]" "\<forall>q\<in>set (ps @ [p]). length q = 64"
    and f: "feed_all process_packet (fw_assembler fw) ps = (asm, replicate (length ps) (Inr None))"
      "process_packet asm p = ((fw_assembler fw)\<lparr>active_state := None\<rparr>, Inr (Some m))"
    using frames_split [OF assms(3), of "fw_assembler fw"] by blast
  obtain d where d: "fw_run env (length ps) fw = Some (fw\<lparr>fw_device := d, fw_assembler := asm\<rparr>)" "quiet d"
    "cu_events d = [[Hid_Out (Inr p)]]" "device_out out d = device_out out (fw_device fw)"
    using run_collect [OF assms(2), of ps "[[Hid_Out (Inr p)]]" asm env out] assms(4) ps f(1) by auto
  let ?fw = "fw\<lparr>fw_device := d, fw_assembler := asm\<rparr>"
  obtain d1 where d1: "loop_turn env ?fw = handle_packet env (?fw\<lparr>fw_device := d1\<rparr>) p" "quiet d1" "cu_events d1 = []"
    "device_out out d1 = device_out out d"
    using turn_packet [of ?fw p "[]" env out] d(2,3) ps(2) by auto
  obtain qs where qs: "fragment (msg_cid reply) (msg_cmd reply) (msg_payload reply) = Inr qs"
    using assms(6) by (auto simp: fragment_def Let_def)
  obtain d2 where d2: "send_hid_packets env d1 (fw_router fw) qs = Some (d2, fw_router fw)" "quiet d2"
    "device_out out d2 = device_out out d1 @ qs"
    using send_all_sent [OF assms(1) d1(2,3) frame_lengths [OF qs]] by blast
  have turn: "\<exists>fw'. loop_turn env ?fw = Some fw' \<and> fw_device fw' = d2 \<and> fw_ctap fw' = a \<and> fw_channels fw' = channels \<and> fw_router fw' = fw_router fw"
    unfolding d1(1) using f(2) assms(5) qs d2(1) by (simp add: handle_packet_def answer_hid_def)
  have "fw_run env (length (frames m)) fw = loop_turn env ?fw"
    using fw_run_add [of env "length ps" 1 fw] d(1) ps(1) by (cases "loop_turn env ?fw") simp_all
  then show ?thesis using turn d2 d d1(4) qs by (auto simp: frames_def)
qed

subsection \<open>Sessions\<close>

text \<open>The abstract session: the commands in order, each with its reply on the wire.\<close>

type_synonym request = "u32 \<times> u8 \<times> bytes"

fun ctap_session :: "('b, 'p, 'v) cenv \<Rightarrow> ('b, 'p, 'v) auth \<Rightarrow> request list \<Rightarrow> ('b, 'p, 'v) auth \<times> CtaphidMessage list" where
  "ctap_session env a [] = (a, [])"
| "ctap_session env a ((cid, cmd, data) # reqs) =
     (let (a, r) = process_command env a cmd data;
          (a, replies) = ctap_session env a reqs
      in (a, message_new cid Cmd_Cbor (cbor_reply r) # replies))"

text \<open>The host: it hands the packets of each request to the bus and runs the loop until they are read and answered.\<close>

definition request_message :: "request \<Rightarrow> CtaphidMessage" where
  "request_message q = (case q of (cid, cmd, data) \<Rightarrow> message_new cid Cmd_Cbor (cmd # data))"

definition offer :: "bytes list \<Rightarrow> ('u, 'w, 'h, 'a, 'l, 'b, 'p, 'v) Firmware \<Rightarrow> ('u, 'w, 'h, 'a, 'l, 'b, 'p, 'v) Firmware" where
  "offer ps fw = fw\<lparr>fw_device := (fw_device fw)\<lparr>cu_events := map (\<lambda>p. [Hid_Out (Inr p)]) ps\<rparr>\<rparr>"

fun host_session ::
  "('u, 'w, 'h, 'a, 'l, 'e, 'b, 'p, 'v) FirmwareEnv \<Rightarrow> ('u, 'w, 'h, 'a, 'l, 'b, 'p, 'v) Firmware \<Rightarrow> request list
     \<Rightarrow> ('u, 'w, 'h, 'a, 'l, 'b, 'p, 'v) Firmware option" where
  "host_session env fw [] = Some fw"
| "host_session env fw (q # qs) =
     (let ps = frames (request_message q)
      in Option.bind (fw_run env (length ps) (offer ps fw)) (\<lambda>fw. host_session env fw qs))"

lemma request_sendable: "length data < CTAPHID_MAX_PAYLOAD_LEN \<Longrightarrow> sendable (request_message (cid, cmd, data))"
  by (simp add: request_message_def sendable_def wf_command_def from_raw_cmd_def message_new_def)

lemma dispatch_request:
  "process_command env a cmd data = (a', r) \<Longrightarrow>
     hid_dispatch env channels a (request_message (cid, cmd, data)) = Some (channels, a', message_new cid Cmd_Cbor (cbor_reply r))"
  by (simp add: hid_dispatch_def request_message_def message_new_def)

lemma session_cbor: "\<forall>m\<in>set (snd (ctap_session env a reqs)). msg_cmd m = Cmd_Cbor"
proof (induction reqs arbitrary: a)
  case (Cons q reqs)
  then show ?case by (cases q) (simp add: split_beta Let_def message_new_def)
qed simp

lemma session_refines:
  assumes "endpoint_ok (fe_hid_write env) out busy" "quiet (fw_device fw)"
    and "\<forall>(cid, cmd, data)\<in>set reqs. length data < CTAPHID_MAX_PAYLOAD_LEN"
    and "ctap_session (fe_ctap env) (fw_ctap fw) reqs = (a, replies)"
    and "\<forall>m\<in>set replies. length (msg_payload m) \<le> CTAPHID_MAX_PAYLOAD_LEN"
  shows "\<exists>fw'. host_session env fw reqs = Some fw' \<and> quiet (fw_device fw') \<and> fw_ctap fw' = a \<and> fw_router fw' = fw_router fw
     \<and> device_out out (fw_device fw') = device_out out (fw_device fw) @ concat (map frames replies)"
  using assms(2-5)
proof (induction reqs arbitrary: fw replies)
  case (Cons q reqs)
  obtain cid cmd data where q: "q = (cid, cmd, data)" by (cases q)
  obtain a1 r where p: "process_command (fe_ctap env) (fw_ctap fw) cmd data = (a1, r)" by fastforce
  let ?m = "request_message q" and ?reply = "message_new cid Cmd_Cbor (cbor_reply r)"
  obtain rest where rest: "ctap_session (fe_ctap env) a1 reqs = (a, rest)" "replies = ?reply # rest"
    using Cons.prems(3) p by (auto simp: q split_beta prod_eq_iff)
  let ?fw = "offer (frames ?m) fw"
  have same: "quiet (fw_device ?fw)" "fw_ctap ?fw = fw_ctap fw" "fw_router ?fw = fw_router fw" "cu_hid (fw_device ?fw) = cu_hid (fw_device fw)"
    "cu_events (fw_device ?fw) = map (\<lambda>p. [Hid_Out (Inr p)]) (frames ?m)"
    using Cons.prems(1) by (simp_all add: offer_def quiet_def)
  have "hid_dispatch (fe_ctap env) (fw_channels ?fw) (fw_ctap ?fw) ?m = Some (fw_channels ?fw, a1, ?reply)"
    using dispatch_request [OF p] same(2) by (simp add: q)
  then obtain fw1 where fw1: "fw_run env (length (frames ?m)) ?fw = Some fw1" "quiet (fw_device fw1)" "fw_ctap fw1 = a1"
    "fw_router fw1 = fw_router fw" "device_out out (fw_device fw1) = device_out out (fw_device fw) @ frames ?reply"
    using exchange [OF assms(1) same(1) _ same(5)] request_sendable [of data cid cmd] Cons.prems(2,4) rest(2) same(3,4) q by auto
  show ?case using Cons.IH [OF fw1(2), of rest] Cons.prems(2,4) rest fw1 by (auto simp: Let_def)
qed simp

text \<open>
  Property C1: the firmware of the RP2350 refines the authenticator. For any sequence of CTAP2 requests of at most 7608
  bytes, on any channels, over a HID endpoint that takes each packet within 500000 polls and with a quiet smart card
  interface, the main loop reads every request from its packets, and the packets it sends reassemble to exactly the
  replies of \<open>process_command\<close> applied to the requests in order (a zero byte and the response, or the error code), each
  on the channel of its request and without a protocol error; the authenticator ends in the state of that sequence and
  the applets are left alone. The replies have to fit a CTAPHID message.
\<close>

theorem firmware_refines_ctap2:
  assumes "endpoint_ok (fe_hid_write env) out busy" "quiet (fw_device fw)"
    and "\<forall>(cid, cmd, data)\<in>set reqs. length data < CTAPHID_MAX_PAYLOAD_LEN"
    and "ctap_session (fe_ctap env) (fw_ctap fw) reqs = (a, replies)"
    and "\<forall>m\<in>set replies. length (msg_payload m) \<le> CTAPHID_MAX_PAYLOAD_LEN"
  shows "\<exists>fw' ps. host_session env fw reqs = Some fw' \<and> fw_ctap fw' = a \<and> fw_router fw' = fw_router fw \<and> quiet (fw_device fw')
     \<and> out (hc_ep_in (cu_hid (fw_device fw'))) = out (hc_ep_in (cu_hid (fw_device fw))) @ ps
     \<and> delivered (snd (feed_all process_packet host ps)) = replies
     \<and> frame_errors (snd (feed_all process_packet host ps)) = []"
proof -
  have "\<forall>m\<in>set replies. msg_cmd m = Cmd_Cbor" using session_cbor [of "fe_ctap env" "fw_ctap fw" reqs] assms(4) by simp
  then have "\<forall>m\<in>set replies. sendable m"
    using assms(5) by (simp add: sendable_def wf_command_def from_raw_cmd_def)
  then show ?thesis
    using session_refines [OF assms] hid.feed_stream_delivered [of replies host] hid.feed_stream_no_errors [of replies host] by blast
qed

subsection \<open>A concrete firmware\<close>

text \<open>An endpoint that refuses every second write, one applet, the example authenticator.\<close>

definition example_firmware_env ::
  "(bytes list \<times> bool, unit, unit, bytes, unit, unit, (string, bytes) btree, unit, unit) FirmwareEnv" where
  "example_firmware_env =
     \<lparr>fe_hid_write = (\<lambda>(out, full) p. if full then ((out, False), Inl WouldBlock) else ((out @ [p], True), Inr (length p))),
      fe_ccid = \<lparr>ep_write = (\<lambda>u p. (u, Inr (length p))), call_handler = (\<lambda>h apdu out. (h, out, 0))\<rparr>, fe_applets = echo_applet,
      fe_ctap = example_cenv Null,
      fe_led = \<lparr>pin_set_high = (\<lambda>l. (l, Inr ())), pin_set_low = (\<lambda>l. (l, Inr ())), pin_is_high = (\<lambda>l. (l, Inr True)),
                pin_is_low = (\<lambda>l. (l, Inr False))\<rparr>,
      fe_delay_ms = (\<lambda>l ms. l)\<rparr>"

definition example_firmware :: "(bytes list \<times> bool, unit, unit, bytes, unit, (string, bytes) btree, unit, unit) Firmware" where
  "example_firmware =
     \<lparr>fw_device = composite_new ([], True) () [], fw_router = register router_new [1], fw_channels = channels_new,
      fw_assembler = assembler_new, fw_ctap = example_auth, fw_led = ()\<rparr>"

lemma example_endpoint: "endpoint_ok (fe_hid_write example_firmware_env) fst (\<lambda>(out, full). if full then 1 else 0)"
  by (auto simp: endpoint_ok_def example_firmware_env_def SEND_POLLS_def)

lemma example_quiet: "quiet (fw_device example_firmware)"
  by (simp add: example_firmware_def composite_new_def quiet_def ctap_hid_new_def ccid_new_def ccid_build_def PACKET_SIZE_def)

text \<open>A reset, then a command that does not exist.\<close>

theorem firmware_refines_ctap2_witness:
  "\<exists>fw' ps. host_session example_firmware_env example_firmware [(7, 0x07, []), (9, 0x55, [1, 2])] = Some fw'
     \<and> fst (hc_ep_in (cu_hid (fw_device fw'))) = ps
     \<and> delivered (snd (feed_all process_packet assembler_new ps))
         = [message_new 7 Cmd_Cbor [0], message_new 9 Cmd_Cbor [error_code Err_InvalidCommand]]"
proof -
  let ?reqs = "[(7, 0x07, []), (9, 0x55, [1, 2])] :: request list"
  have "snd (ctap_session (fe_ctap example_firmware_env) (fw_ctap example_firmware) ?reqs)
      = [message_new 7 Cmd_Cbor [0], message_new 9 Cmd_Cbor [error_code Err_InvalidCommand]]"
    by code_simp
  then obtain a where s: "ctap_session (fe_ctap example_firmware_env) (fw_ctap example_firmware) ?reqs
      = (a, [message_new 7 Cmd_Cbor [0], message_new 9 Cmd_Cbor [error_code Err_InvalidCommand]])"
    by (metis prod.collapse)
  have "fst (hc_ep_in (cu_hid (fw_device example_firmware))) = []"
    by (simp add: example_firmware_def composite_new_def ctap_hid_new_def)
  then show ?thesis
    using firmware_refines_ctap2 [OF example_endpoint example_quiet _ s, of assembler_new]
    by (auto simp: CTAPHID_MAX_PAYLOAD_LEN_def message_new_def)
qed

end
