(* ===== verification/Boot.thy ===== *)
theory Boot
  imports Firmware Qspi Oath_Safety Piv_Safety Openpgp_Safety Management_Safety
begin

section \<open>Start of the firmware\<close>

text \<open>
  The first part of \<open>main\<close> in \<open>targets/rp2350/src/main.rs\<close>: the storage in the flash, the crypto engine with its master
  key, the four applets over the shared storage and the CTAP2 authenticator; and \<open>firmware/multiprotocol.rs\<close>, which
  registers the applets. \<open>expect\<close> panics on an error, which is \<open>None\<close> here. The applets are created one after the
  other on the same storage and the same random numbers, so that each starts from where the one before it stopped;
  afterwards all of them see the storage and the draws of the last. Clocks, pins and the USB peripheral are set up by
  the hardware library. What the theorem shows is what the applets know after a power cycle.
\<close>

subsection \<open>The applets\<close>

datatype 'b CardApplet =
    Card_Management "'b ManagementApplet"
  | Card_Oath "'b OathApplet"
  | Card_Piv "'b PivApplet"
  | Card_OpenPgp "'b OpenPgpApplet"

definition register_multiprotocol_applets :: "'a CardRouter \<Rightarrow> 'a \<Rightarrow> 'a \<Rightarrow> 'a \<Rightarrow> 'a \<Rightarrow> 'a CardRouter" where
  "register_multiprotocol_applets router management oath piv openpgp =
     register (register (register (register router management) oath) piv) openpgp"

definition MULTIPROTOCOL_SUPPORTED_CAPABILITIES :: u16 where "MULTIPROTOCOL_SUPPORTED_CAPABILITIES = 0x062E"
definition MULTIPROTOCOL_APPLET_COUNT :: usize where "MULTIPROTOCOL_APPLET_COUNT = 4"

text \<open>\<open>r.expect(..)\<close>\<close>

definition expect :: "('s, 'e, 'a) outcome \<Rightarrow> 's option" where
  "expect r = (case snd r of Inr _ \<Rightarrow> Some (fst r) | Inl _ \<Rightarrow> None)"

record 'b CardStack =
  ck_storage :: "'b StorageEngine"
  ck_draws :: nat
  ck_crypto :: CryptoEngine
  ck_oath :: "'b OathApplet"
  ck_management :: "'b ManagementApplet"
  ck_piv :: "'b PivApplet"
  ck_openpgp :: "'b OpenPgpApplet"

text \<open>The first draw is the one of \<open>ring_smoke\<close>, the second the master key.\<close>

definition boot_card :: "'b StorageEnv \<Rightarrow> 'b StorageEngine \<Rightarrow> nat \<Rightarrow> 'b CardStack option" where
  "boot_card env storage draws =
     Option.bind (ok (engine_new (ring env) (draws + 1))) (\<lambda>crypto.
     Option.bind (expect (oath_new env storage crypto (draws + 2))) (\<lambda>oath.
     Option.bind (mgmt_new env (oa_storage oath) crypto (oa_draws oath)) (\<lambda>m.
     Option.bind (expect m) (\<lambda>management.
     Option.bind (expect (piv_new env (va_storage management) crypto (va_draws management))) (\<lambda>piv.
     Option.bind (expect (pgp_new env (va_storage piv) crypto (va_draws piv))) (\<lambda>openpgp.
       let se = va_storage openpgp; n = va_draws openpgp
       in Some \<lparr>ck_storage = se, ck_draws = n, ck_crypto = crypto, ck_oath = oath\<lparr>oa_storage := se, oa_draws := n\<rparr>,
                ck_management = management\<lparr>va_storage := se, va_draws := n\<rparr>, ck_piv = piv\<lparr>va_storage := se, va_draws := n\<rparr>,
                ck_openpgp = openpgp\<rparr>))))))"

definition boot_storage ::
  "'m BootRom \<Rightarrow> kv_map CborCodec \<Rightarrow> 'm QspiFlashDevice FlashStorageBackend StorageEnv \<Rightarrow> 'm
     \<Rightarrow> 'm QspiFlashDevice FlashStorageBackend StorageEngine option" where
  "boot_storage rom codec env m =
     Option.bind (ok (qspi_open rom m)) (\<lambda>flash.
     Option.bind (ok (flash_new (qspi_device rom) codec flash)) (\<lambda>backend. Some (with_backend env backend)))"

text \<open>The authenticator: the AAGUID of the board the binary is built for, a storage in memory, the touch sensor.\<close>

definition boot_ctap :: "bool \<Rightarrow> CryptoEngine \<Rightarrow> nat \<Rightarrow> 'p \<Rightarrow> ('c, 'p, 'v) auth option" where
  "boot_ctap yubikey5 crypto draws presence =
     (let aaguid = (if yubikey5 then bd_aaguid YUBIKEY_4_5 else bd_aaguid RP2350_ZERO)
      in Option.bind (ok storage_new) (\<lambda>storage.
           Some (set_user_presence (authenticator_new aaguid crypto storage draws 0 0) (Some presence))))"

text \<open>The state in which the main loop starts.\<close>

definition boot ::
  "'b StorageEnv \<Rightarrow> 'b StorageEngine \<Rightarrow> nat \<Rightarrow> bool \<Rightarrow> 'p \<Rightarrow> 'u \<Rightarrow> 'w \<Rightarrow> CompositeEvent list list \<Rightarrow> 'l
     \<Rightarrow> ('u, 'w, 'h, 'b CardApplet, 'l, 'c, 'p, 'v) Firmware option" where
  "boot env storage draws yubikey5 presence u w events led =
     Option.bind (boot_card env storage draws) (\<lambda>card.
     Option.bind (boot_ctap yubikey5 (ck_crypto card) (ck_draws card) presence) (\<lambda>ctap.
       Some \<lparr>fw_device = composite_new u w events,
             fw_router = register_multiprotocol_applets router_new (Card_Management (ck_management card)) (Card_Oath (ck_oath card))
               (Card_Piv (ck_piv card)) (Card_OpenPgp (ck_openpgp card)),
             fw_channels = channels_new, fw_assembler = assembler_new, fw_ctap = ctap, fw_led = led\<rparr>))"

subsection \<open>Which applet a selection reaches\<close>

definition card_aid :: "'b CardApplet \<Rightarrow> bytes" where
  "card_aid a =
     (case a of Card_Management _ \<Rightarrow> AID_YUBICO_MANAGEMENT | Card_Oath _ \<Rightarrow> AID_YUBICO_OATH | Card_Piv _ \<Rightarrow> AID_PIV
      | Card_OpenPgp _ \<Rightarrow> AID_OPENPGP_FULL)"

text \<open>Each AID selects its own applet, also the short AID of OpenPGP; the prefix common to both Yubico applets selects Management.\<close>

lemma card_selection:
  fixes a :: "'b CardApplet list"
  assumes "a = applets (register_multiprotocol_applets router_new (Card_Management m) (Card_Oath oa) (Card_Piv p) (Card_OpenPgp g))"
  shows "map (\<lambda>aid. best_match aid (map card_aid a) 0 None 0) [AID_YUBICO_MANAGEMENT, AID_YUBICO_OATH, AID_PIV, AID_OPENPGP, AID_OPENPGP_FULL]
      = [Some 0, Some 1, Some 2, Some 3, Some 3]"
    and "best_match (take 5 AID_YUBICO_OATH) (map card_aid a) 0 None 0 = Some 0"
    and "length a = MULTIPROTOCOL_APPLET_COUNT"
  using assms
  by (simp_all add: register_multiprotocol_applets_def register_def router_new_def card_aid_def AID_YUBICO_MANAGEMENT_def
      AID_YUBICO_OATH_def AID_PIV_def AID_OPENPGP_def AID_OPENPGP_FULL_def MULTIPROTOCOL_APPLET_COUNT_def)

subsection \<open>Loading\<close>

lemma expect_Some: "expect r = Some x \<longleftrightarrow> (\<exists>u. r = (x, Inr u))"
  by (cases r) (auto simp: expect_def split: sum.splits)

context sealed_applet
begin

text \<open>Loading gives the state the storage holds under the key, or the factory state, and leaves it in the storage.\<close>

lemma load_result:
  assumes "va_state v = None" "good (va_storage v)" "sealing_ring (ring env)" "valid s0"
    and "vault_load env fm (\<lambda>v. (v, s0)) v = (v', Inr u)"
  shows "va_state v' = Some (case vault_stored env fm v of Some s \<Rightarrow> s | None \<Rightarrow> s0)"
    and "vault_stored env fm v' = va_state v'" "good (va_storage v')" "va_crypto v' = va_crypto v"
    and "k \<noteq> fm_key fm \<Longrightarrow> ok (retrieve env (va_storage v') k) = ok (retrieve env (va_storage v) k)"
proof -
  let ?s = "case vault_stored env fm v of Some s \<Rightarrow> s | None \<Rightarrow> s0"
  have valid: "valid ?s" using stored_wf assms(4) by (auto split: option.split)
  have "v' = put_vault ?s v \<and> vault_stored env fm v = Some ?s \<or> vault_persist env fm (put_vault ?s v) = (v', Inr u)"
    using assms(1,5) by (auto simp: vault_load_def vault_stored_def Let_def split: option.splits if_splits)
  then show "va_state v' = Some ?s" "vault_stored env fm v' = va_state v'" "good (va_storage v')" "va_crypto v' = va_crypto v"
    "k \<noteq> fm_key fm \<Longrightarrow> ok (retrieve env (va_storage v') k) = ok (retrieve env (va_storage v) k)"
    using persist_ok [OF _ valid _ _ assms(3), of "put_vault ?s v" v' u] persist_other [of "put_vault ?s v" k v' "Inr u"]
      vault_persist_frame(1) [of env fm "put_vault ?s v" v' "Inr u"] assms(2)
    by (auto simp: vault_synced_def vault_ok_def)
qed

end

context oath_device
begin

lemma oath_load_result:
  assumes "oa_state oa = None" "good (oa_storage oa)" "sealing_ring (ring env)" "ensure_loaded env oa = (oa', Inr u)"
  shows "oa_state oa' = Some (case load_stored env oa of Some s \<Rightarrow> s | None \<Rightarrow> snd (factory_state env oa))"
    and "load_stored env oa' = oa_state oa'" "good (oa_storage oa')" "oa_crypto oa' = oa_crypto oa"
    and "k \<noteq> OATH_STORAGE_KEY \<Longrightarrow> ok (retrieve env (oa_storage oa') k) = ok (retrieve env (oa_storage oa) k)"
proof -
  let ?f = "fst (factory_state env oa)" and ?s = "snd (factory_state env oa)"
  have same: "oa_storage ?f = oa_storage oa" "oa_crypto ?f = oa_crypto oa" by (simp_all add: factory_state_def oath_random_def)
  have "oa_state oa' = Some (case load_stored env oa of Some s \<Rightarrow> s | None \<Rightarrow> ?s) \<and> load_stored env oa' = oa_state oa'
    \<and> good (oa_storage oa') \<and> oa_crypto oa' = oa_crypto oa
    \<and> (k \<noteq> OATH_STORAGE_KEY \<longrightarrow> ok (retrieve env (oa_storage oa') k) = ok (retrieve env (oa_storage oa) k))"
  proof (cases "load_stored env oa")
    case None
    then have p: "persist_state env (?f\<lparr>oa_state := Some ?s\<rparr>) = (oa', Inr u)"
      using assms(1,4) by (simp add: ensure_loaded_def split_beta)
    have "oa_crypto oa' = oa_crypto oa \<and> (k \<noteq> OATH_STORAGE_KEY \<longrightarrow> ok (retrieve env (oa_storage oa') k) = ok (retrieve env (oa_storage oa) k))"
      using p put_other [of "oa_storage oa" k OATH_STORAGE_KEY] assms(2) same
      by (auto simp: persist_state_cases Let_def split: sum.splits)
    then show ?thesis
      using persist_ok [OF _ factory_wf [OF assms(3), of oa] _ p assms(3)] None assms(2) same
      by (simp add: oath_inv_def oath_synced_def oath_state_ok_def)
  next
    case (Some s)
    then have "oa' = oa\<lparr>oa_state := Some s\<rparr>" using assms(1,4) by (simp add: ensure_loaded_def)
    then show ?thesis using Some assms(2) load_stored_cong [of oa' oa env] by simp
  qed
  then show "oa_state oa' = Some (case load_stored env oa of Some s \<Rightarrow> s | None \<Rightarrow> ?s)"
    "load_stored env oa' = oa_state oa'" "good (oa_storage oa')" "oa_crypto oa' = oa_crypto oa"
    "k \<noteq> OATH_STORAGE_KEY \<Longrightarrow> ok (retrieve env (oa_storage oa') k) = ok (retrieve env (oa_storage oa) k)"
    by simp_all
qed

end

text \<open>The Management applet leaves the entries of the others alone.\<close>

lemma mgmt_load_other:
  assumes "sealed_applet env good mgmt_format mgmt_wf" "good (va_storage v)" "mgmt_ensure_loaded env v = Some (v', r)"
  shows "good (va_storage v')"
    and "k \<noteq> MGMT_STORAGE_KEY \<Longrightarrow> ok (retrieve env (va_storage v') k) = ok (retrieve env (va_storage v) k)"
proof -
  have kv: "kv_ops (store env) (retrieve env) (kv_delete env) good" using assms(1) by (rule sealed_applet.axioms(1))
  have "va_storage v' = va_storage v \<or> (\<exists>n s. vault_persist env mgmt_format (put_vault s (v\<lparr>va_draws := n\<rparr>)) = (v', r))"
    using assms(3) by (auto simp: mgmt_ensure_loaded_def mgmt_factory_state_def split: if_splits option.splits)
  then have "good (va_storage v') \<and> (k \<noteq> MGMT_STORAGE_KEY \<longrightarrow> ok (retrieve env (va_storage v') k) = ok (retrieve env (va_storage v) k))"
  proof (elim disjE exE)
    fix n s assume p: "vault_persist env mgmt_format (put_vault s (v\<lparr>va_draws := n\<rparr>)) = (v', r)"
    have "good (va_storage v')"
      using p kv_ops.put_good [OF kv assms(2)] assms(2)
      by (auto simp: vault_persist_cases put_vault_def Let_def split: sum.splits)
    then show ?thesis
      using sealed_applet.persist_other [OF assms(1) _ _ p, of k] assms(2) by (auto simp: mgmt_format_def)
  qed (use assms(2) in simp)
  then show "good (va_storage v')" "k \<noteq> MGMT_STORAGE_KEY \<Longrightarrow> ok (retrieve env (va_storage v') k) = ok (retrieve env (va_storage v) k)"
    by simp_all
qed

lemma pgp_factory_wf: "pgp_wf pgp_factory"
  by (simp add: pgp_wf_def pgp_factory_def sig_key_wf_def DEFAULT_PW1_def DEFAULT_PW3_def MAX_PW_LEN_def)

lemma storage_keys_differ:
  "distinct [OATH_STORAGE_KEY, MGMT_STORAGE_KEY, PIV_STORAGE_KEY, PGP_STORAGE_KEY]"
  by (simp add: OATH_STORAGE_KEY_def MGMT_STORAGE_KEY_def PIV_STORAGE_KEY_def PGP_STORAGE_KEY_def)

text \<open>The state that a storage holds for a format under a key.\<close>

definition sealed_state :: "'b StorageEnv \<Rightarrow> 's Format \<Rightarrow> CryptoEngine \<Rightarrow> 'b StorageEngine \<Rightarrow> 's option" where
  "sealed_state env fm crypto se =
     Option.bind (Option.bind (ok (retrieve env se (fm_key fm))) (unseal (ring env) crypto)) (fm_parse fm)"

definition sealed_oath :: "'b StorageEnv \<Rightarrow> CryptoEngine \<Rightarrow> 'b StorageEngine \<Rightarrow> OathState option" where
  "sealed_oath env crypto se = Option.bind (ok (retrieve env se OATH_STORAGE_KEY)) (open_blob (ring env) crypto)"

lemma vault_stored_sealed: "vault_stored env fm v = sealed_state env fm (va_crypto v) (va_storage v)"
  by (simp add: vault_stored_def vault_plaintext_bind sealed_state_def)

lemma load_stored_sealed: "load_stored env oa = sealed_oath env (oa_crypto oa) (oa_storage oa)"
  by (simp add: load_stored_bind sealed_oath_def)

definition factory_oath :: "'b StorageEnv \<Rightarrow> nat \<Rightarrow> OathState" where
  "factory_oath env draw =
     \<lparr>os_salt = random_bytes (ring env) draw OATH_SALT_LEN, os_access = None, os_pending_challenge = None, os_credentials = []\<rparr>"

lemma factory_oath_state: "snd (factory_state env oa) = factory_oath env (oa_draws oa)"
  by (simp add: factory_state_def oath_random_def factory_oath_def)


subsection \<open>A concrete start\<close>

text \<open>A start on a storage in memory whose PIV entry no key opens.\<close>

definition damaged_storage :: "(string, bytes) btree StorageEngine" where
  "damaged_storage = fst (store example_applet_env (engine_empty None) PIV_STORAGE_KEY [1, 2, 3])"

declare factory_serial.simps [code]


end
