(* ===== verification/Spec2Isabelle.thy ===== *)
theory Spec2Isabelle
  imports Ctaphid Pin_Lockout Assertion_Chain Authorization Oath_Codes Piv_Safety Openpgp_Safety Management_Safety
    Ccid_Exchange Usb_Hid Device_Safety Qspi Entropy Hybrid Firmware_Exchange Boot
begin

text \<open>
  Verification of the OpenKey FIDO2 authenticator.

  The program is a security key in Rust: a CTAP2 authenticator (\<open>crates/openkey-core\<close>) and four smart card applets
  (\<open>crates/openkey-device\<close>) over a storage engine (\<open>crates/openkey-storage\<close>), cryptography (\<open>crates/openkey-crypto\<close>)
  and transports (\<open>crates/openkey-transport\<close>), on boards (\<open>crates/openkey-hal\<close>, \<open>targets\<close>). A host talks CTAPHID
  over USB HID, APDUs over USB CCID or NFC, or CTAP over BLE. All paths below are under \<open>src/\<close>.

  \<^bold>\<open>How the program is modelled.\<close> A struct is a record, an enum a datatype, an integer a word of its width; \<open>usize\<close> is
  \<open>nat\<close> with the checked, saturating and wrapping operations of the source written out where a value can leave the
  range. A method that changes its object maps the state to the new state and a result, and an error keeps the changes
  made before it (theory \<open>Effects\<close>). Maps with an order are sorted association lists (\<open>Ordered_Map\<close>). Code outside the
  repository is a parameter: ring and the other cryptographic libraries (\<open>RingPrims\<close>, \<open>HybridPrims\<close>), the generated
  serde implementations and ciborium (\<open>SerdeCodec\<close>, \<open>CborCodec\<close>, \<open>JsonCodec\<close>), the file system, the USB stack, the
  Boot ROM, registers, buttons and clocks. What is relied on of it stands as a named predicate in the hypotheses
  (\<open>aead_correct\<close>, \<open>codec_ok\<close>, \<open>rom_ok\<close> and so on), and each property with such a hypothesis is instantiated on a
  concrete function beside it. Random numbers are numbered: the state holds the index of the next draw.

  \<^bold>\<open>Shared theories.\<close>
  \<^item> \<open>Prelude\<close>, \<open>Effects\<close>, \<open>Ordered_Map\<close>, \<open>Decimal\<close>: types, bytes, results, the operators on effects with the locale
    \<open>step_relation\<close> that carries a relation through them, ordered maps (locale \<open>finite_map_ops\<close>), decimal counters.
  \<^item> \<open>Framing\<close>: the contract of a sender and a receiver of frames (locale \<open>framing_codec\<close>).

  \<^bold>\<open>Storage.\<close>
  \<^item> \<open>Flash\<close> (\<open>storage.rs\<close>): \<open>FlashStorageBackend\<close>, two sectors written in turn. The locale \<open>flash_device\<close> is what it
    needs of a device; it is interpreted on the simulated flash, which can lose power after any byte, and in \<open>Qspi\<close> on
    the driver of the RP2350 (\<open>qspi_flash.rs\<close>). A write is atomic under power loss and durable, opening finds the newest
    readable sector, and the driver leaves the firmware image alone.
  \<^item> \<open>File_Backend\<close>: the journal of the host backend over a file system that can stop at any operation. One gap of the
    journal loses the store; it is stated as a theorem of its own.
  \<^item> \<open>Storage_Engine\<close>: credentials with encrypted keys, the key-value store, wear counters, pruning, large blobs. The
    locales \<open>kv_ops\<close>, \<open>reliable_kv\<close> (\<open>Kv_Contract\<close>) and \<open>engine_ops\<close> (\<open>Engine_Contract\<close>) are what its clients rely on,
    interpreted on the flash backend, the file backend and the engine without a backend.

  \<^bold>\<open>Cryptography.\<close> \<open>Crypto\<close> (\<open>crypto.rs\<close>), \<open>Pin_Protocol\<close> (\<open>pin_protocol.rs\<close>, CBC written out over the block cipher),
  \<open>Hybrid\<close> (\<open>hybrid.rs\<close>): round trips and error behaviour. \<open>Entropy\<close> (\<open>rp2350/src/main.rs\<close>): the generator of the
  firmware, whose draws do not repeat within a boot.

  \<^bold>\<open>CTAP2\<close> (\<open>core/src/ctap2\<close>).
  \<^item> \<open>Ctap2_Types\<close>, \<open>Cbor\<close>: commands, codes, structures; canonical form and the integer labels of the wire.
  \<^item> \<open>Authenticator\<close>, \<open>Client_Pin\<close>, \<open>Authnr_Config\<close>, \<open>Attestation\<close>, \<open>Hmac_Secret\<close>, \<open>Make_Credential\<close>, \<open>Get_Assertion\<close>,
    \<open>Cred_Mgmt\<close>, \<open>Ctap2\<close>: the state and every handler, part by part as the source has them, up to \<open>process_command\<close>.
  \<^item> \<open>Command_Frames\<close>: which entries of the storage each command may write. On these frames rest \<open>Sign_Counter\<close> (counts
    increase), \<open>Authorization\<close> (privileged commands need a token, what an assertion proves, \<open>alwaysUv\<close>) and
    \<open>Token_Permissions\<close> (no token has a permission that GetInfo does not announce).
  \<^item> \<open>Pin_Lockout\<close>: an abstract PIN machine, the refinement of authenticatorClientPIN to it, and the limit on guesses.
  \<^item> \<open>Assertion_Chain\<close>: GetNextAssertion reaches every credential once.

  \<^bold>\<open>Devices\<close> (\<open>openkey-hal\<close>, \<open>openkey-device\<close>, \<open>webauthn/ceremony.rs\<close>). \<open>Board\<close>, \<open>Device_Profile\<close>, \<open>Device\<close>: boards,
  profiles, \<open>EmbeddedAuthenticator\<close>. \<open>Device_Safety\<close>: what a profile decides, and what it can never enable.

  \<^bold>\<open>Applets\<close> (\<open>device/src/firmware\<close>). \<open>Iso7816\<close>: APDUs, response chaining, the router. \<open>Oath_State\<close>, \<open>Oath\<close>,
  \<open>Oath_Safety\<close>, \<open>Oath_Codes\<close>: the OATH applet, its lock, its durability, its moving factors and RFC 4226. \<open>Vault\<close>: the
  encrypted state the other applets share (locale \<open>sealed_applet\<close>); \<open>Piv\<close>, \<open>Openpgp\<close>, \<open>Management\<close> with their \<open>_Safety\<close>
  theories: PIN limits, signatures only with the password, configuration read back as written.

  \<^bold>\<open>Transports.\<close> \<open>Ctaphid\<close> (packets, fragmenter, assembler, channels), \<open>Ccid\<close> and \<open>Ccid_Exchange\<close> (the CCID class
  and the exchange of an APDU), \<open>Usb_Hid\<close> (the HID class), \<open>Transport\<close> and \<open>Transport_Contract\<close> (the adapters for HID,
  BLE, NFC and CCID, locale \<open>gated_transport\<close>).

  \<^bold>\<open>Firmware of the RP2350\<close> (\<open>targets\<close>). \<open>Rp2350_Board\<close>: board constants, USB identity, touch sensor. \<open>Firmware\<close>: the
  composite USB device, \<open>dispatch\<close>, the send loop, a turn of the main loop. \<open>Firmware_Exchange\<close>: the loop refines a
  sequence of \<open>process_command\<close>. \<open>Boot\<close>: the start of \<open>main\<close>, and what the applets know after it.

  \<^bold>\<open>Loops and bounds.\<close> Recursion is structural or has a measure (\<open>flush_tx\<close>, \<open>program_pages\<close>, \<open>fill_chunks\<close>,
  \<open>fragment_cont\<close>). Loops without a bound of their own are partial functions into \<open>option\<close>, where \<open>None\<close> is a call that
  does not return: \<open>allocate_cid\<close> (shown to return while a channel is free), the receive loops \<open>recv_until\<close> and
  \<open>drain_chain\<close> (shown to return for a sender that sends a whole message). The serial number of the Management applet is drawn until it is not zero; it
  returns when some draw is not zero. \<open>host_fetch\<close> has as fuel one more than the number of chunks. The send loop of
  the firmware makes at most 500000 polls, as in the source. Panics are \<open>None\<close> in \<open>Ccid\<close>, \<open>Management\<close> and \<open>Firmware\<close>.
  The CCID length arithmetic is that of the 32-bit targets in the release profile, which wraps.

  \<^bold>\<open>Not modelled.\<close> Log output, \<open>Debug\<close> and \<open>Display\<close>, clearing secrets from memory; the set-up of clocks, heap, pins and
  the USB peripheral, which only calls the hardware library; the descriptors that the USB stack assembles; concurrent
  callers of \<open>current_timestamp\<close>; time, so that nothing is said about timeouts or the duration of a touch. The four
  applets share one storage behind a \<open>RefCell\<close>: \<open>Boot\<close> threads it through their construction, while the safety
  theories take one applet at a time, with the storage it sees. The simulator is a command line program; the reference
  devices in \<open>embedded/nrf52840.rs\<close>, \<open>rp2350.rs\<close> and \<open>stm32l4.rs\<close> are placeholders with empty peripherals; the build
  scripts, bindings, fuzz targets, examples and the vendored copy of ring are not part of the model.
\<close>

end
